(* ===== verification/Prelude.thy ===== *)
theory Prelude
  imports Complex_Main "HOL-Library.Product_Lexorder" "HOL-Library.List_Lexorder"
    "HOL-Library.Char_ord"
begin

text \<open>
  Shared vocabulary of the development: the errors the TypeScript code throws, results that
  carry them, safe integers, bounded strings and digests, and the list loops that several
  components share (a checked \<open>map\<close>, and a loop that either pushes an element or merges it
  into the last element pushed).

  A JavaScript \<open>number\<close> that the code tests with \<open>Number.isSafeInteger\<close> is an \<open>int\<close>; the test
  is kept as \<open>is_safe_integer\<close>.  Sums of two safe integers are exact or fail that test in the
  double arithmetic of the code exactly when they do here, since rounding cannot carry a
  value of \<open>2 ^ 53\<close> or more below that bound.  A JavaScript string is a \<open>string\<close> of code units.
\<close>

named_theorems result_simps \<open>characterisations of successful checked computations\<close>

section \<open>Errors and results\<close>

datatype js_error =
    DomainInvariantError string
  | TypeError string
  | RecordNotFoundError string string
  | StaleJobAttemptError string string
  | InvalidStatusTransitionError string string string
  | SqliteError string
  | DvdRecoveryEvidenceEncodingUnavailableError
  | ArchiveRecoveryPreviewPauseError
  | DvdRecoveryEvidenceAdmissionClosedError

type_synonym 'a result = "js_error + 'a"

fun map_result :: "('a \<Rightarrow> 'e + 'b) \<Rightarrow> 'a list \<Rightarrow> 'e + 'b list" where
  "map_result f [] = Inr []"
| "map_result f (x # xs) =
     (case f x of
        Inl e \<Rightarrow> Inl e
      | Inr y \<Rightarrow> (case map_result f xs of Inl e \<Rightarrow> Inl e | Inr ys \<Rightarrow> Inr (y # ys)))"

definition is_ok :: "'e + 'a \<Rightarrow> bool" where
  "is_ok r \<longleftrightarrow> (case r of Inl _ \<Rightarrow> False | Inr _ \<Rightarrow> True)"

lemma is_ok_simps [simp]: "is_ok (Inr x)" "\<not> is_ok (Inl e)"
  by (simp_all add: is_ok_def)

lemma is_ok_iff: "is_ok r \<longleftrightarrow> (\<exists>x. r = Inr x)"
  by (cases r) simp_all

lemma map_result_Inr_iff [result_simps]:
  "map_result f xs = Inr ys \<longleftrightarrow> list_all2 (\<lambda>x y. f x = Inr y) xs ys"
proof (induction xs arbitrary: ys)
  case Nil
  then show ?case by auto
next
  case (Cons x xs)
  then show ?case
    by (cases "f x"; cases "map_result f xs") (auto simp: list_all2_Cons1)
qed

lemma if_error_Inr [result_simps]: "(if b then Inl e else r) = Inr x \<longleftrightarrow> \<not> b \<and> r = Inr x"
  by simp

lemma bind_error_Inr [result_simps]:
  "(case r of Inl e \<Rightarrow> Inl e | Inr y \<Rightarrow> k y) = Inr x \<longleftrightarrow> (\<exists>y. r = Inr y \<and> k y = Inr x)"
  by (cases r) simp_all

lemma bind_option_error_Inr [result_simps]:
  "(case p of None \<Rightarrow> Inl e | Some y \<Rightarrow> k y) = Inr x \<longleftrightarrow> (\<exists>y. p = Some y \<and> k y = Inr x)"
  by (cases p) simp_all

lemma map_sum_Inr [result_simps]: "map_sum id f r = Inr x \<longleftrightarrow> (\<exists>y. r = Inr y \<and> x = f y)"
  by (cases r) auto

lemma map_result_all_Inr:
  "(\<And>x. x \<in> set xs \<Longrightarrow> f x = Inr (g x)) \<Longrightarrow> map_result f xs = Inr (map g xs)"
  by (induction xs) auto

lemma map_result_is_ok: "is_ok (map_result f xs) \<longleftrightarrow> (\<forall>x \<in> set xs. is_ok (f x))"
  by (induction xs) (auto split: sum.splits simp: is_ok_iff)

lemma map_result_set:
  assumes "map_result f xs = Inr ys" and "y \<in> set ys"
  obtains x where "x \<in> set xs" and "f x = Inr y"
proof -
  from assms obtain i where "i < length ys" and "y = ys ! i" and "f (xs ! i) = Inr (ys ! i)"
    and "length xs = length ys"
    by (auto simp: result_simps list_all2_conv_all_nth in_set_conv_nth)
  then show thesis using that [of "xs ! i"] by simp
qed

lemma map_result_length: "map_result f xs = Inr ys \<Longrightarrow> length ys = length xs"
  by (auto simp: result_simps dest: list_all2_lengthD)

section \<open>Numbers and strings\<close>

definition max_safe_integer :: int where
  "max_safe_integer = 9007199254740991"

definition is_safe_integer :: "int \<Rightarrow> bool" where
  "is_safe_integer n \<longleftrightarrow> \<bar>n\<bar> \<le> max_safe_integer"

definition positiveSafeInteger :: "int \<Rightarrow> string \<Rightarrow> int result" where
  "positiveSafeInteger value label =
     (if \<not> is_safe_integer value \<or> value < 1
      then Inl (TypeError (label @ '' must be a positive integer''))
      else Inr value)"

definition nonnegativeSafeInteger :: "int \<Rightarrow> string \<Rightarrow> int result" where
  "nonnegativeSafeInteger value label =
     (if \<not> is_safe_integer value \<or> value < 0
      then Inl (TypeError (label @ '' must be a nonnegative integer''))
      else Inr value)"

definition boundedText :: "string \<Rightarrow> nat \<Rightarrow> bool" where
  "boundedText value maximum \<longleftrightarrow> 0 < length value \<and> length value \<le> maximum"

definition is_lower_hex :: "char \<Rightarrow> bool" where
  "is_lower_hex c \<longleftrightarrow> c \<in> set ''0123456789abcdef''"

definition is_sha256_hex :: "string \<Rightarrow> bool" where
  "is_sha256_hex s \<longleftrightarrow> length s = 64 \<and> list_all is_lower_hex s"

lemma positiveSafeInteger_Inr [result_simps]:
  "positiveSafeInteger v l = Inr w \<longleftrightarrow> w = v \<and> is_safe_integer v \<and> 1 \<le> v"
  by (auto simp: positiveSafeInteger_def)

lemma nonnegativeSafeInteger_Inr [result_simps]:
  "nonnegativeSafeInteger v l = Inr w \<longleftrightarrow> w = v \<and> is_safe_integer v \<and> 0 \<le> v"
  by (auto simp: nonnegativeSafeInteger_def)

lemma is_safe_integer_between:
  "is_safe_integer b \<Longrightarrow> 0 \<le> a \<Longrightarrow> a \<le> b \<Longrightarrow> is_safe_integer a"
  by (simp add: is_safe_integer_def)

section \<open>Push or merge\<close>

text \<open>
  The loop \<open>for x of xs: previous = out.at(-1); if (previous joins x) update previous; else
  out.push(x)\<close>.  \<open>merge_from\<close> is the same loop with the element under construction split off,
  the form in which facts about it are proved.
\<close>

definition push_or_merge ::
  "('a \<Rightarrow> 'a \<Rightarrow> bool) \<Rightarrow> ('a \<Rightarrow> 'a \<Rightarrow> 'a) \<Rightarrow> 'a list \<Rightarrow> 'a \<Rightarrow> 'a list" where
  "push_or_merge joins join out x =
     (if out = [] then [x]
      else let previous = last out in
        if joins previous x then butlast out @ [join previous x] else out @ [x])"

fun merge_from :: "('a \<Rightarrow> 'a \<Rightarrow> bool) \<Rightarrow> ('a \<Rightarrow> 'a \<Rightarrow> 'a) \<Rightarrow> 'a \<Rightarrow> 'a list \<Rightarrow> 'a list" where
  "merge_from joins join p [] = [p]"
| "merge_from joins join p (x # xs) =
     (if joins p x then merge_from joins join (join p x) xs
      else p # merge_from joins join x xs)"

lemma foldl_push_or_merge_append:
  "foldl (push_or_merge joins join) (out @ [p]) xs = out @ merge_from joins join p xs"
  by (induction xs arbitrary: out p)
    (simp_all add: push_or_merge_def Let_def del: append_assoc flip: append_assoc)

lemma foldl_push_or_merge_Cons:
  "foldl (push_or_merge joins join) [] (x # xs) = merge_from joins join x xs"
  using foldl_push_or_merge_append [of joins join "[]" x xs] by (simp add: push_or_merge_def)

lemma merge_from_nonempty [simp]: "merge_from joins join p xs \<noteq> []"
  by (induction xs arbitrary: p) auto

lemma merge_from_no_join:
  "sorted_wrt (\<lambda>a b. \<not> joins a b) (p # xs) \<Longrightarrow> merge_from joins join p xs = p # xs"
  by (induction xs arbitrary: p) auto

section \<open>Searching by index\<close>

text \<open>\<open>Array.prototype.findIndex\<close>, with \<open>None\<close> for a negative result.\<close>

fun findIndex :: "('a \<Rightarrow> bool) \<Rightarrow> 'a list \<Rightarrow> nat option" where
  "findIndex P [] = None"
| "findIndex P (x # xs) = (if P x then Some 0 else map_option Suc (findIndex P xs))"

lemma findIndex_None: "findIndex P xs = None \<longleftrightarrow> (\<forall>x \<in> set xs. \<not> P x)"
  by (induction xs) auto

lemma findIndex_Some:
  assumes "findIndex P xs = Some i"
  shows "i < length xs" and "P (xs ! i)" and "\<forall>x \<in> set (take i xs). \<not> P x"
    and "xs = take i xs @ xs ! i # drop (Suc i) xs"
proof -
  have "i < length xs \<and> P (xs ! i) \<and> (\<forall>x \<in> set (take i xs). \<not> P x)"
    using assms by (induction xs arbitrary: i) (auto split: if_splits)
  then show "i < length xs" and "P (xs ! i)" and "\<forall>x \<in> set (take i xs). \<not> P x"
    and "xs = take i xs @ xs ! i # drop (Suc i) xs"
    by (simp_all add: id_take_nth_drop)
qed

section \<open>A checked computation per element\<close>

text \<open>The loop that threads a state through a list and stops at the first error.\<close>

fun fold_result :: "('s \<Rightarrow> 'x \<Rightarrow> 'e + 's) \<Rightarrow> 's \<Rightarrow> 'x list \<Rightarrow> 'e + 's" where
  "fold_result f s [] = Inr s"
| "fold_result f s (x # xs) =
     (case f s x of Inl e \<Rightarrow> Inl e | Inr s' \<Rightarrow> fold_result f s' xs)"

lemma fold_result_append:
  "fold_result f s (xs @ ys) =
     (case fold_result f s xs of Inl e \<Rightarrow> Inl e | Inr s' \<Rightarrow> fold_result f s' ys)"
  by (induction xs arbitrary: s) (auto split: sum.splits)

lemma fold_result_invariant:
  assumes "I s" and "fold_result f s xs = Inr t"
    and "\<And>u x v. x \<in> set xs \<Longrightarrow> I u \<Longrightarrow> f u x = Inr v \<Longrightarrow> I v"
  shows "I t"
  using assms
proof (induction xs arbitrary: s)
  case Nil
  then show ?case by simp
next
  case (Cons x xs)
  then obtain u where "f s x = Inr u" and rest: "fold_result f u xs = Inr t"
    by (auto split: sum.splits)
  with Cons.prems(1) have "I u" by (intro Cons.prems(3) [of x s u]) auto
  then show ?case using rest Cons.prems(3) by (rule Cons.IH) auto
qed

section \<open>Guards\<close>

text \<open>A run of \<open>if (...) throw ...\<close> statements: the first one that applies throws.\<close>

definition reject_if :: "bool \<Rightarrow> 'e \<Rightarrow> 'e + unit" where
  "reject_if b e = (if b then Inl e else Inr ())"

fun check_all :: "('e + unit) list \<Rightarrow> 'e + unit" where
  "check_all [] = Inr ()"
| "check_all (c # cs) = (case c of Inl e \<Rightarrow> Inl e | Inr _ \<Rightarrow> check_all cs)"

lemma reject_if_Inr [result_simps]: "reject_if b e = Inr u \<longleftrightarrow> \<not> b"
  by (simp add: reject_if_def)

lemma check_all_Inr [result_simps]: "check_all cs = Inr u \<longleftrightarrow> (\<forall>c \<in> set cs. c = Inr ())"
  by (induction cs) (auto split: sum.splits)

section \<open>Trimming\<close>

text \<open>\<open>String.prototype.trim\<close> on the code units below 256.\<close>

definition js_whitespace :: "char \<Rightarrow> bool" where
  "js_whitespace c \<longleftrightarrow> (of_char c :: nat) \<in> {9, 10, 11, 12, 13, 32, 160}"

definition js_trim :: "string \<Rightarrow> string" where
  "js_trim s = rev (dropWhile js_whitespace (rev (dropWhile js_whitespace s)))"

end
