(* ===== verification/SourceRanges.thy ===== *)
theory SourceRanges
  imports Prelude
begin

text \<open>
  Ranges of source sectors and the interval routines of
  \<open>packages/data-access/src/dvd-title-damage-assessment.ts\<close>: normalising, intersecting,
  subtracting and counting.  A list of ranges is read as the set of logical block addresses
  it covers (\<open>covered\<close>); each routine is characterised by its effect on that set, and a
  normalised list is shown to be the only normalised list with its coverage.
\<close>

section \<open>Ranges\<close>

record unreadable_sector_range =
  startLba :: int
  sectorCount :: int

definition rangeEnd :: "'a unreadable_sector_range_scheme \<Rightarrow> int" where
  "rangeEnd r = startLba r + sectorCount r"

definition lbas :: "'a unreadable_sector_range_scheme \<Rightarrow> int set" where
  "lbas r = {startLba r ..< rangeEnd r}"

definition covered :: "'a unreadable_sector_range_scheme list \<Rightarrow> int set" where
  "covered rs = (\<Union>r \<in> set rs. lbas r)"

definition proper_range :: "'a unreadable_sector_range_scheme \<Rightarrow> bool" where
  "proper_range r \<longleftrightarrow> 0 \<le> startLba r \<and> 0 < sectorCount r"

definition ascending :: "'a unreadable_sector_range_scheme list \<Rightarrow> bool" where
  "ascending rs \<longleftrightarrow>
     (\<forall>r \<in> set rs. proper_range r) \<and> sorted_wrt (\<lambda>a b. rangeEnd a \<le> startLba b) rs"

definition separated :: "'a unreadable_sector_range_scheme list \<Rightarrow> bool" where
  "separated rs \<longleftrightarrow>
     (\<forall>r \<in> set rs. proper_range r) \<and> sorted_wrt (\<lambda>a b. rangeEnd a < startLba b) rs"

definition sectorCount_of :: "'a unreadable_sector_range_scheme list \<Rightarrow> int" where
  "sectorCount_of ranges = foldl (\<lambda>total range. total + sectorCount range) 0 ranges"

lemma covered_simps [simp]:
  "covered [] = {}"
  "covered (r # rs) = lbas r \<union> covered rs"
  "covered (rs @ ss) = covered rs \<union> covered ss"
  by (auto simp: covered_def)

lemma lbas_finite [simp]: "finite (lbas r)"
  by (simp add: lbas_def)

lemma covered_finite [simp]: "finite (covered rs)"
  by (induction rs) simp_all

lemma mem_lbas: "x \<in> lbas r \<longleftrightarrow> startLba r \<le> x \<and> x < rangeEnd r"
  by (simp add: lbas_def)

lemma proper_lbas_nonempty: "proper_range r \<Longrightarrow> startLba r \<in> lbas r"
  by (simp add: mem_lbas proper_range_def rangeEnd_def)

lemma separated_ascending: "separated rs \<Longrightarrow> ascending rs"
  by (auto simp: separated_def ascending_def intro: sorted_wrt_mono_rel [rotated])

lemma foldl_plus_shift:
  "foldl (\<lambda>total r. total + f r) a rs = a + (\<Sum>r\<leftarrow>rs. (f r :: int))"
  by (induction rs arbitrary: a) simp_all

lemma sectorCount_of_sum: "sectorCount_of rs = (\<Sum>r\<leftarrow>rs. sectorCount r)"
  by (simp add: sectorCount_of_def foldl_plus_shift)

lemma sectorCount_of_simps [simp]:
  "sectorCount_of [] = 0"
  "sectorCount_of (r # rs) = sectorCount r + sectorCount_of rs"
  "sectorCount_of (rs @ ss) = sectorCount_of rs + sectorCount_of ss"
  by (simp_all add: sectorCount_of_sum)

lemma ascending_Cons:
  "ascending (r # rs) \<longleftrightarrow>
     proper_range r \<and> (\<forall>s \<in> set rs. rangeEnd r \<le> startLba s) \<and> ascending rs"
  by (auto simp: ascending_def)

lemma separated_Cons:
  "separated (r # rs) \<longleftrightarrow>
     proper_range r \<and> (\<forall>s \<in> set rs. rangeEnd r < startLba s) \<and> separated rs"
  by (auto simp: separated_def)

lemma ascending_Nil [simp]: "ascending []" and separated_Nil [simp]: "separated []"
  by (simp_all add: ascending_def separated_def)

text \<open>In an ascending list no sector is counted twice.\<close>

lemma ascending_disjoint_head:
  "ascending (r # rs) \<Longrightarrow> lbas r \<inter> covered rs = {}"
  by (fastforce simp: ascending_Cons covered_def mem_lbas)

lemma card_lbas: "proper_range r \<Longrightarrow> int (card (lbas r)) = sectorCount r"
  by (simp add: lbas_def rangeEnd_def proper_range_def)

lemma sectorCount_of_card:
  "ascending rs \<Longrightarrow> sectorCount_of rs = int (card (covered rs))"
proof (induction rs)
  case Nil
  then show ?case by simp
next
  case (Cons r rs)
  from Cons.prems have "lbas r \<inter> covered rs = {}"
    by (rule ascending_disjoint_head)
  then have "card (lbas r \<union> covered rs) = card (lbas r) + card (covered rs)"
    by (simp add: card_Un_disjoint)
  with Cons show ?case
    by (simp add: ascending_Cons card_lbas)
qed

lemma sectorCount_of_nonneg: "\<forall>r \<in> set rs. 0 < sectorCount r \<Longrightarrow> 0 \<le> sectorCount_of rs"
  by (induction rs) auto

lemma sectorCount_of_eq_0: "\<forall>r \<in> set rs. 0 < sectorCount r \<Longrightarrow> sectorCount_of rs = 0 \<longleftrightarrow> rs = []"
  by (cases rs) (use sectorCount_of_nonneg in fastforce)+

lemma covered_empty_iff: "\<forall>r \<in> set rs. proper_range r \<Longrightarrow> covered rs = {} \<longleftrightarrow> rs = []"
  by (cases rs) (auto dest: proper_lbas_nonempty)


text \<open>Two separated lists with the same coverage are the same list of extents.\<close>

abbreviation extent :: "'a unreadable_sector_range_scheme \<Rightarrow> int \<times> int" where
  "extent r \<equiv> (startLba r, sectorCount r)"

lemma separated_Min_covered:
  assumes "separated (r # rs)"
  shows "startLba r \<in> covered (r # rs)" and "\<And>x. x \<in> covered (r # rs) \<Longrightarrow> startLba r \<le> x"
proof -
  from assms have "proper_range r" by (simp add: separated_Cons)
  then show "startLba r \<in> covered (r # rs)" by (simp add: proper_lbas_nonempty)
  show "startLba r \<le> x" if "x \<in> covered (r # rs)" for x
    using that assms by (fastforce simp: separated_Cons covered_def mem_lbas proper_range_def rangeEnd_def)
qed

lemma separated_gap:
  assumes "separated (r # rs)"
  shows "rangeEnd r \<notin> covered (r # rs)"
  using assms by (fastforce simp: separated_Cons covered_def mem_lbas)

lemma separated_head_start:
  assumes "separated (r # rs)" and "separated (s # ss)" and "covered (r # rs) = covered (s # ss)"
  shows "startLba r = startLba s"
  using separated_Min_covered [OF assms(1)] separated_Min_covered [OF assms(2)] assms(3)
  by (metis order_antisym)

lemma separated_head_end_le:
  assumes "separated (r # rs)" and "separated (s # ss)" and eq: "covered (r # rs) = covered (s # ss)"
  shows "rangeEnd r \<le> rangeEnd s"
proof (rule ccontr)
  assume "\<not> rangeEnd r \<le> rangeEnd s"
  moreover have "startLba r = startLba s"
    using assms by (rule separated_head_start)
  moreover have "startLba s < rangeEnd s"
    using assms(2) by (simp add: separated_Cons proper_range_def rangeEnd_def)
  ultimately have "rangeEnd s \<in> covered (r # rs)"
    by (simp add: mem_lbas)
  with eq separated_gap [OF assms(2)] show False by simp
qed

lemma separated_covered_tail:
  assumes "separated (r # rs)"
  shows "covered rs = covered (r # rs) - lbas r"
  using ascending_disjoint_head [OF separated_ascending [OF assms]] by auto

theorem separated_unique:
  "separated rs \<Longrightarrow> separated ss \<Longrightarrow> covered rs = covered ss \<Longrightarrow> map extent rs = map extent ss"
proof (induction rs arbitrary: ss)
  case Nil
  then have "covered ss = {}" by simp
  with Nil show ?case by (simp add: separated_def covered_empty_iff)
next
  case (Cons r rs)
  then obtain s ss' where ss: "ss = s # ss'"
    by (cases ss) (auto simp: separated_Cons dest!: proper_lbas_nonempty)
  note sep = Cons.prems(1) and sep' = Cons.prems(2) [unfolded ss]
  have "startLba r = startLba s"
    using sep sep' Cons.prems(3) [unfolded ss] by (rule separated_head_start)
  moreover have "rangeEnd r = rangeEnd s"
    using separated_head_end_le [OF sep sep'] separated_head_end_le [OF sep' sep]
      Cons.prems(3) ss by (simp add: order_antisym)
  ultimately have ext: "extent r = extent s" and lb: "lbas r = lbas s"
    by (simp_all add: rangeEnd_def lbas_def)
  have "covered rs = covered ss'"
    using separated_covered_tail [OF sep] separated_covered_tail [OF sep'] lb Cons.prems(3) ss
    by simp
  with Cons.IH [of ss'] sep sep' ext ss show ?case
    by (simp add: separated_Cons)
qed

section \<open>Normalising\<close>

definition checkedRange ::
  "int \<Rightarrow> string \<Rightarrow> 'a unreadable_sector_range_scheme \<Rightarrow> unreadable_sector_range result" where
  "checkedRange acceptedEndLbaExclusive label r =
     (case nonnegativeSafeInteger (startLba r) (label @ '' start'') of
        Inl e \<Rightarrow> Inl e
      | Inr start \<Rightarrow>
         (case positiveSafeInteger (sectorCount r) (label @ '' length'') of
            Inl e \<Rightarrow> Inl e
          | Inr len \<Rightarrow>
             (let endLbaExclusive = start + len in
              if \<not> is_safe_integer endLbaExclusive \<or> endLbaExclusive > acceptedEndLbaExclusive
              then Inl (TypeError (label @ '' falls outside the accepted archive extent''))
              else Inr \<lparr>startLba = start, sectorCount = len\<rparr>)))"

definition coalesceRanges :: "unreadable_sector_range list \<Rightarrow> unreadable_sector_range list" where
  "coalesceRanges ordered =
     foldl (push_or_merge
       (\<lambda>previous range. \<not> startLba range > startLba previous + sectorCount previous)
       (\<lambda>previous range. previous\<lparr>sectorCount :=
          max (startLba previous + sectorCount previous) (startLba range + sectorCount range)
            - startLba previous\<rparr>)) [] ordered"

definition normalizeRanges ::
  "'a unreadable_sector_range_scheme list \<Rightarrow> int \<Rightarrow> string \<Rightarrow> unreadable_sector_range list result"
where
  "normalizeRanges ranges acceptedEndLbaExclusive label =
     (if ranges = [] then Inl (TypeError (label @ '' must contain at least one source range''))
      else (case map_result (checkedRange acceptedEndLbaExclusive label) ranges of
              Inl e \<Rightarrow> Inl e
            | Inr checked \<Rightarrow>
                Inr (coalesceRanges (sort_key (\<lambda>r. (startLba r, sectorCount r)) checked))))"

definition within_extent :: "int \<Rightarrow> 'a unreadable_sector_range_scheme \<Rightarrow> bool" where
  "within_extent acceptedEnd r \<longleftrightarrow> proper_range r \<and> rangeEnd r \<le> acceptedEnd
     \<and> is_safe_integer (rangeEnd r)"

lemma checkedRange_Inr [result_simps]:
  "checkedRange n l r = Inr q \<longleftrightarrow>
     q = \<lparr>startLba = startLba r, sectorCount = sectorCount r\<rparr> \<and> within_extent n r"
  by (auto simp: checkedRange_def nonnegativeSafeInteger_def positiveSafeInteger_def
      within_extent_def proper_range_def rangeEnd_def Let_def is_safe_integer_def)

lemma checkedRange_is_ok: "is_ok (checkedRange n l r) \<longleftrightarrow> within_extent n r"
  by (simp add: is_ok_iff result_simps)

lemma checked_ranges_Inr:
  "map_result (checkedRange n l) rs = Inr qs \<longleftrightarrow>
     qs = map (\<lambda>r. \<lparr>startLba = startLba r, sectorCount = sectorCount r\<rparr>) rs
     \<and> (\<forall>r \<in> set rs. within_extent n r)"
  unfolding map_result_Inr_iff
  by (induction rs arbitrary: qs) (auto simp: list_all2_Cons1 checkedRange_Inr)

lemma covered_extents [simp]:
  "covered (map (\<lambda>r. \<lparr>startLba = startLba r, sectorCount = sectorCount r\<rparr>) rs) = covered rs"
  by (auto simp: covered_def lbas_def rangeEnd_def)

lemma within_extent_extent [simp]:
  "within_extent n \<lparr>startLba = startLba r, sectorCount = sectorCount r\<rparr> = within_extent n r"
  by (simp add: within_extent_def proper_range_def rangeEnd_def)

text \<open>The loop keeps the coverage and leaves a gap after every range it finishes.\<close>

abbreviation "range_joins \<equiv>
  (\<lambda>previous range. \<not> startLba range > startLba previous + sectorCount previous)"
abbreviation "range_join \<equiv>
  (\<lambda>previous range. previous\<lparr>sectorCount :=
     max (startLba previous + sectorCount previous) (startLba range + sectorCount range)
       - startLba previous\<rparr>)"

lemma merge_ranges_covered:
  fixes p :: unreadable_sector_range
  assumes "\<forall>r \<in> set (p # xs). proper_range r" and "sorted (map startLba (p # xs))"
  shows "covered (merge_from range_joins range_join p xs) = covered (p # xs)"
  using assms
proof (induction xs arbitrary: p)
  case Nil
  then show ?case by simp
next
  case (Cons x xs)
  show ?case
  proof (cases "range_joins p x")
    case True
    let ?q = "range_join p x"
    have "lbas ?q = lbas p \<union> lbas x"
      using True Cons.prems by (auto simp: lbas_def rangeEnd_def proper_range_def)
    moreover have "proper_range ?q"
      using Cons.prems by (auto simp: proper_range_def max_def)
    ultimately show ?thesis
      using True Cons.prems Cons.IH [of ?q] by auto
  next
    case False
    with Cons.prems Cons.IH [of x] show ?thesis by auto
  qed
qed

lemma merge_ranges_separated:
  fixes p :: unreadable_sector_range
  assumes "\<forall>r \<in> set (p # xs). proper_range r" and "sorted (map startLba (p # xs))"
  shows "separated (merge_from range_joins range_join p xs)
    \<and> (\<forall>r \<in> set (merge_from range_joins range_join p xs). startLba p \<le> startLba r)"
  using assms
proof (induction xs arbitrary: p)
  case Nil
  then show ?case by (simp add: separated_def)
next
  case (Cons x xs)
  show ?case
  proof (cases "range_joins p x")
    case True
    have "proper_range (range_join p x)"
      using Cons.prems by (auto simp: proper_range_def max_def)
    then show ?thesis
      using True Cons.prems Cons.IH [of "range_join p x"] by auto
  next
    case False
    then have "separated (merge_from range_joins range_join x xs)"
      and "\<forall>r \<in> set (merge_from range_joins range_join x xs). startLba x \<le> startLba r"
      using Cons.prems Cons.IH [of x] by auto
    with False Cons.prems show ?thesis
      by (fastforce simp: separated_Cons rangeEnd_def)
  qed
qed

lemma sorted_extent_starts:
  "sorted (map startLba (sort_key (\<lambda>r. (startLba r, sectorCount r)) rs))"
proof -
  have "sorted (map (\<lambda>r. (startLba r, sectorCount r)) (sort_key (\<lambda>r. (startLba r, sectorCount r)) rs))"
    by (rule sorted_sort_key)
  then show ?thesis
    by (auto simp: sorted_map less_eq_prod_def elim!: sorted_wrt_mono_rel [rotated])
qed

lemma covered_set_cong: "set rs = set ss \<Longrightarrow> covered rs = covered ss"
  by (simp add: covered_def)

lemma coalesce_sorted:
  assumes "\<forall>r \<in> set rs. proper_range r"
  shows "covered (coalesceRanges (sort_key (\<lambda>r. (startLba r, sectorCount r)) rs)) = covered rs"
    and "separated (coalesceRanges (sort_key (\<lambda>r. (startLba r, sectorCount r)) rs))"
proof -
  let ?ys = "sort_key (\<lambda>r. (startLba r, sectorCount r)) rs"
  have set: "set ?ys = set rs" and sorted: "sorted (map startLba ?ys)"
    by (simp_all add: sorted_extent_starts)
  have proper: "\<forall>r \<in> set ?ys. proper_range r"
    using assms set by simp
  have "covered (coalesceRanges ?ys) = covered ?ys \<and> separated (coalesceRanges ?ys)"
  proof (cases ?ys)
    case Nil
    then show ?thesis by (simp add: coalesceRanges_def)
  next
    case (Cons p xs)
    note proper' = proper [unfolded Cons] and sorted' = sorted [unfolded Cons]
    from merge_ranges_covered [OF proper' sorted'] merge_ranges_separated [OF proper' sorted'] Cons
    show ?thesis
      unfolding coalesceRanges_def Cons foldl_push_or_merge_Cons by simp
  qed
  with set show "covered (coalesceRanges ?ys) = covered rs" and "separated (coalesceRanges ?ys)"
    by (simp_all add: covered_def)
qed

lemma normalizeRanges_Inr:
  assumes "normalizeRanges rs n l = Inr out"
  shows "rs \<noteq> []" and "\<forall>r \<in> set rs. within_extent n r"
    and "covered out = covered rs" and "separated out"
proof -
  let ?es = "map (\<lambda>r. \<lparr>startLba = startLba r, sectorCount = sectorCount r\<rparr>) rs"
  from assms show "rs \<noteq> []" and within: "\<forall>r \<in> set rs. within_extent n r"
    by (auto simp: normalizeRanges_def checked_ranges_Inr split: if_splits sum.splits)
  from assms have out: "out = coalesceRanges (sort_key (\<lambda>r. (startLba r, sectorCount r)) ?es)"
    by (auto simp: normalizeRanges_def checked_ranges_Inr split: if_splits sum.splits)
  have "\<forall>r \<in> set ?es. proper_range r"
    using within by (auto simp: within_extent_def proper_range_def)
  from coalesce_sorted [OF this] show "covered out = covered rs" and "separated out"
    unfolding out by simp_all
qed

lemma normalizeRanges_accepts:
  "is_ok (normalizeRanges rs n l) \<longleftrightarrow> rs \<noteq> [] \<and> (\<forall>r \<in> set rs. within_extent n r)"
proof -
  have "is_ok (normalizeRanges rs n l) \<longleftrightarrow>
      rs \<noteq> [] \<and> is_ok (map_result (checkedRange n l) rs)"
    by (auto simp: normalizeRanges_def split: sum.splits)
  then show ?thesis by (simp add: map_result_is_ok checkedRange_is_ok)
qed

section \<open>Intersecting and subtracting\<close>

text \<open>
  \<open>{...targetRange, startLba, sectorCount}\<close> keeps every other field of the target, so both
  routines are polymorphic in the fields a range record adds.
\<close>

definition intersectRange ::
  "'b unreadable_sector_range_scheme \<Rightarrow> 'a unreadable_sector_range_scheme
     \<Rightarrow> 'a unreadable_sector_range_scheme list" where
  "intersectRange sourceRange targetRange =
     (let sourceEnd = startLba sourceRange + sectorCount sourceRange;
          targetEnd = startLba targetRange + sectorCount targetRange;
          start = max (startLba sourceRange) (startLba targetRange);
          endLbaExclusive = min sourceEnd targetEnd
      in if endLbaExclusive > start
         then [targetRange\<lparr>startLba := start, sectorCount := endLbaExclusive - start\<rparr>]
         else [])"

definition intersections ::
  "'b unreadable_sector_range_scheme list \<Rightarrow> 'a unreadable_sector_range_scheme list
     \<Rightarrow> 'a unreadable_sector_range_scheme list" where
  "intersections source target =
     concat (map (\<lambda>sourceRange. concat (map (intersectRange sourceRange) target)) source)"

definition subtractRange ::
  "'b unreadable_sector_range_scheme \<Rightarrow> 'a unreadable_sector_range_scheme
     \<Rightarrow> 'a unreadable_sector_range_scheme list" where
  "subtractRange known segment =
     (let coveredEnd = startLba known + sectorCount known;
          segmentEnd = startLba segment + sectorCount segment
      in if coveredEnd \<le> startLba segment \<or> startLba known \<ge> segmentEnd then [segment]
         else (if startLba known > startLba segment
               then [segment\<lparr>startLba := startLba segment,
                             sectorCount := startLba known - startLba segment\<rparr>] else [])
            @ (if coveredEnd < segmentEnd
               then [segment\<lparr>startLba := coveredEnd,
                             sectorCount := segmentEnd - coveredEnd\<rparr>] else []))"

definition subtractRanges ::
  "'a unreadable_sector_range_scheme list \<Rightarrow> 'b unreadable_sector_range_scheme list
     \<Rightarrow> 'a unreadable_sector_range_scheme list" where
  "subtractRanges target known =
     concat (map (\<lambda>targetRange.
       foldl (\<lambda>segments c. concat (map (subtractRange c) segments)) [targetRange] known) target)"

lemma covered_concat: "covered (concat xss) = (\<Union>xs \<in> set xss. covered xs)"
  by (auto simp: covered_def)

lemma covered_intersectRange: "covered (intersectRange s t) = lbas s \<inter> lbas t"
  by (auto simp: intersectRange_def Let_def mem_lbas rangeEnd_def)

theorem covered_intersections:
  "covered (intersections source target) = covered source \<inter> covered target"
  unfolding intersections_def covered_concat
  by (auto simp: covered_concat covered_intersectRange) (auto simp: covered_def)

lemma covered_subtractRange: "covered (subtractRange k s) = lbas s - lbas k"
  by (auto simp: subtractRange_def Let_def mem_lbas rangeEnd_def)

lemma covered_subtractRange_map:
  "covered (concat (map (subtractRange k) segs)) = covered segs - lbas k"
  by (induction segs) (auto simp: covered_subtractRange)

lemma covered_subtract_fold:
  "covered (foldl (\<lambda>segments c. concat (map (subtractRange c) segments)) segs known)
     = covered segs - covered known"
  by (induction known arbitrary: segs) (auto simp: covered_subtractRange_map)

theorem covered_subtractRanges:
  "covered (subtractRanges target known) = covered target - covered known"
  by (induction target) (auto simp: subtractRanges_def covered_subtract_fold)

text \<open>Both keep an ascending target ascending, so sector counts stay cardinalities.\<close>

definition pieces_of ::
  "'a unreadable_sector_range_scheme \<Rightarrow> 'a unreadable_sector_range_scheme list \<Rightarrow> bool" where
  "pieces_of r ps \<longleftrightarrow> ascending ps
     \<and> (\<forall>p \<in> set ps. startLba r \<le> startLba p \<and> rangeEnd p \<le> rangeEnd r
          \<and> unreadable_sector_range.more p = unreadable_sector_range.more r)"

lemma ascending_append:
  "ascending (xs @ ys) \<longleftrightarrow>
     ascending xs \<and> ascending ys \<and> (\<forall>x \<in> set xs. \<forall>y \<in> set ys. rangeEnd x \<le> startLba y)"
  by (auto simp: ascending_def sorted_wrt_append)

lemma pieces_ascending:
  assumes "ascending xs" and "\<forall>x \<in> set xs. pieces_of x (f x)"
  shows "ascending (concat (map f xs))"
  using assms
proof (induction xs)
  case Nil
  then show ?case by simp
next
  case (Cons x xs)
  have "rangeEnd p \<le> startLba q" if "p \<in> set (f x)" "y \<in> set xs" "q \<in> set (f y)" for p q y
    using that Cons.prems
    by (force simp: pieces_of_def ascending_Cons)
  with Cons show ?case
    by (auto simp: ascending_append ascending_Cons pieces_of_def)
qed

lemma pieces_of_self: "proper_range r \<Longrightarrow> pieces_of r [r]"
  by (simp add: pieces_of_def ascending_def)

lemma pieces_of_concat:
  assumes "pieces_of r ps" and "\<forall>p \<in> set ps. pieces_of p (f p)"
  shows "pieces_of r (concat (map f ps))"
proof -
  have "ascending (concat (map f ps))"
    using assms by (auto simp: pieces_of_def intro: pieces_ascending)
  then show ?thesis
    using assms by (fastforce simp: pieces_of_def)
qed

lemma pieces_of_subtractRange:
  assumes "proper_range s" and "0 < sectorCount k"
  shows "pieces_of s (subtractRange k s)"
  using assms
  by (auto simp: pieces_of_def subtractRange_def Let_def ascending_def proper_range_def rangeEnd_def)

lemma pieces_of_subtract_fold:
  assumes "pieces_of r segs" and "\<forall>k \<in> set known. 0 < sectorCount k"
  shows "pieces_of r (foldl (\<lambda>segments c. concat (map (subtractRange c) segments)) segs known)"
  using assms
proof (induction known arbitrary: segs)
  case Nil
  then show ?case by simp
next
  case (Cons k known)
  have "\<forall>p \<in> set segs. proper_range p"
    using Cons.prems(1) by (simp add: pieces_of_def ascending_def)
  then have "\<forall>p \<in> set segs. pieces_of p (subtractRange k p)"
    using Cons.prems(2) by (simp add: pieces_of_subtractRange)
  then have "pieces_of r (concat (map (subtractRange k) segs))"
    using Cons.prems(1) by (rule pieces_of_concat [rotated])
  with Cons show ?case by simp
qed

lemma ascending_subtractRanges:
  assumes "ascending target" and "\<forall>k \<in> set known. 0 < sectorCount k"
  shows "ascending (subtractRanges target known)"
  unfolding subtractRanges_def
proof (rule pieces_ascending [OF assms(1)], rule ballI)
  fix r assume "r \<in> set target"
  with assms(1) have "pieces_of r [r]"
    by (simp add: ascending_def pieces_of_self)
  then show "pieces_of r
      (foldl (\<lambda>segments c. concat (map (subtractRange c) segments)) [r] known)"
    using assms(2) by (rule pieces_of_subtract_fold)
qed

lemma intersectRange_bounds:
  assumes "p \<in> set (intersectRange s t)"
  shows "startLba s \<le> startLba p" and "rangeEnd p \<le> rangeEnd s" and "startLba t \<le> startLba p"
    and "rangeEnd p \<le> rangeEnd t" and "0 < sectorCount p"
    and "unreadable_sector_range.more p = unreadable_sector_range.more t"
  using assms
  by (auto simp: intersectRange_def Let_def rangeEnd_def split: if_splits)

lemma pieces_of_intersectRange:
  assumes "proper_range t"
  shows "pieces_of t (intersectRange s t)"
  using assms
  by (auto simp: pieces_of_def intersectRange_def Let_def ascending_def proper_range_def rangeEnd_def
      split: if_splits)

lemma ascending_intersections:
  assumes "ascending source" and "ascending target"
  shows "ascending (intersections source target)"
  using assms(1)
proof (induction source)
  case Nil
  then show ?case by (simp add: intersections_def)
next
  case (Cons s source)
  have "\<forall>t \<in> set target. pieces_of t (intersectRange s t)"
    using assms(2) by (simp add: ascending_def pieces_of_intersectRange)
  with assms(2) have head: "ascending (concat (map (intersectRange s) target))"
    by (rule pieces_ascending)
  have "rangeEnd p \<le> startLba q"
    if "t \<in> set target" "p \<in> set (intersectRange s t)" "s' \<in> set source"
       "t' \<in> set target" "q \<in> set (intersectRange s' t')" for t p s' t' q
  proof -
    have "rangeEnd p \<le> rangeEnd s" using that(2) by (rule intersectRange_bounds)
    also have "\<dots> \<le> startLba s'" using that(3) Cons.prems by (simp add: ascending_Cons)
    also have "\<dots> \<le> startLba q" using that(5) by (rule intersectRange_bounds)
    finally show ?thesis .
  qed
  with head Cons show ?case
    by (auto simp: intersections_def ascending_append ascending_Cons)
qed

lemma intersections_more:
  assumes "p \<in> set (intersections source target)"
  obtains t where "t \<in> set target" and "lbas p \<subseteq> lbas t"
    and "unreadable_sector_range.more p = unreadable_sector_range.more t"
proof -
  from assms have "\<exists>s \<in> set source. \<exists>t \<in> set target. p \<in> set (intersectRange s t)"
    by (auto simp: intersections_def)
  then obtain s t where "s \<in> set source" "t \<in> set target"
    and p: "p \<in> set (intersectRange s t)" by blast
  then have "t \<in> set target" by simp
  moreover have "lbas p \<subseteq> lbas t"
    using intersectRange_bounds [OF p] by (auto simp: mem_lbas)
  ultimately show thesis using that intersectRange_bounds(6) [OF p] by blast
qed

text \<open>Splitting a target by a source loses no sector and counts none twice.\<close>

theorem intersect_subtract_partition:
  assumes "ascending source" and "ascending target"
  shows "sectorCount_of (intersections source target) + sectorCount_of (subtractRanges target source)
    = sectorCount_of target"
proof -
  have "ascending (subtractRanges target source)"
    using assms by (intro ascending_subtractRanges) (auto simp: ascending_def proper_range_def)
  moreover have "ascending (intersections source target)"
    using assms by (rule ascending_intersections)
  moreover have "card (covered target)
      = card (covered source \<inter> covered target) + card (covered target - covered source)"
    by (metis card_Int_Diff covered_finite inf_commute)
  ultimately show ?thesis
    using assms by (simp add: sectorCount_of_card covered_intersections covered_subtractRanges)
qed

end
