(* ===== verification/EvidenceTransition.thy ===== *)
theory EvidenceTransition
  imports SourceRanges "HOL-Library.Multiset"
begin

text \<open>
  The normalised map of Unrecovered Source and its one-sector transitions
  (\<open>packages/data-access/src/dvd-evidence-transition.ts\<close>).  A list of classified ranges is
  read as the partial map \<open>class_at\<close> from sectors to classifications; one recovery read is
  shown to be exactly one update of that map, and a canonical list to be determined by its map.
  The contract of the transition is the locale \<open>recovery_map\<close>, from which the facts about
  sequences of reads follow.
\<close>

section \<open>Classified ranges and the sector map they denote\<close>

datatype source_classification =
    Skipped_untested
  | Individually_failed
  | Other_classification string

record dvd_unrecovered_source_range = unreadable_sector_range +
  classification :: source_classification

datatype recovery_read_outcome = Recovered | Failed

definition class_at :: "dvd_unrecovered_source_range list \<Rightarrow> int \<Rightarrow> source_classification option" where
  "class_at rs x =
     map_option classification (find (\<lambda>r. startLba r \<le> x \<and> x < startLba r + sectorCount r) rs)"

definition abuts :: "dvd_unrecovered_source_range \<Rightarrow> dvd_unrecovered_source_range \<Rightarrow> bool" where
  "abuts previous r \<longleftrightarrow>
     classification previous = classification r \<and> startLba previous + sectorCount previous = startLba r"

definition canonical :: "dvd_unrecovered_source_range list \<Rightarrow> bool" where
  "canonical rs \<longleftrightarrow> ascending rs \<and> successively (\<lambda>a b. \<not> abuts a b) rs"

section \<open>The transition\<close>

definition replacementRanges ::
  "dvd_unrecovered_source_range \<Rightarrow> int \<Rightarrow> recovery_read_outcome \<Rightarrow> dvd_unrecovered_source_range list"
where
  "replacementRanges containing lba outcome =
     (let containingEndLbaExclusive = startLba containing + sectorCount containing in
        (if lba > startLba containing
         then [\<lparr>startLba = startLba containing, sectorCount = lba - startLba containing,
                classification = classification containing\<rparr>] else [])
      @ (if outcome = Failed
         then [\<lparr>startLba = lba, sectorCount = 1, classification = Individually_failed\<rparr>] else [])
      @ (if lba + 1 < containingEndLbaExclusive
         then [\<lparr>startLba = lba + 1, sectorCount = containingEndLbaExclusive - lba - 1,
                classification = classification containing\<rparr>] else []))"

definition renormalizeRanges ::
  "dvd_unrecovered_source_range list \<Rightarrow> dvd_unrecovered_source_range list" where
  "renormalizeRanges rs =
     foldl (push_or_merge abuts
       (\<lambda>previous r. previous\<lparr>sectorCount := sectorCount previous + sectorCount r\<rparr>)) [] rs"

definition dvdEvidenceRangesAfterRecoveryRead ::
  "dvd_unrecovered_source_range list \<Rightarrow> int \<Rightarrow> recovery_read_outcome
     \<Rightarrow> dvd_unrecovered_source_range list result" where
  "dvdEvidenceRangesAfterRecoveryRead ranges lba outcome =
     (case findIndex (\<lambda>r. lba \<ge> startLba r \<and> lba < startLba r + sectorCount r) ranges of
        None \<Rightarrow> Inl (DomainInvariantError
          ''Persisted DVD Archive Recovery evidence does not target Unrecovered Source'')
      | Some containingIndex \<Rightarrow>
          Inr (renormalizeRanges
            (take containingIndex ranges
             @ replacementRanges (ranges ! containingIndex) lba outcome
             @ drop (Suc containingIndex) ranges)))"

definition same_range :: "dvd_unrecovered_source_range \<Rightarrow> dvd_unrecovered_source_range \<Rightarrow> bool" where
  "same_range actual r \<longleftrightarrow> startLba actual = startLba r \<and> sectorCount actual = sectorCount r
     \<and> classification actual = classification r"

definition assertDvdEvidenceRangeTransition ::
  "dvd_unrecovered_source_range list \<Rightarrow> dvd_unrecovered_source_range list \<Rightarrow> int
     \<Rightarrow> recovery_read_outcome \<Rightarrow> unit result" where
  "assertDvdEvidenceRangeTransition previous current lba outcome =
     (case dvdEvidenceRangesAfterRecoveryRead previous lba outcome of
        Inl e \<Rightarrow> Inl e
      | Inr expected \<Rightarrow>
          if length expected \<noteq> length current
             \<or> list_ex (\<lambda>(r, index). index \<ge> length current \<or> \<not> same_range (current ! index) r)
                 (zip expected [0..<length expected])
          then Inl (DomainInvariantError
            ''Persisted DVD Archive Evidence ranges do not match their recovery read'')
          else Inr ())"

section \<open>Facts about the sector map\<close>

lemma class_at_simps [simp]:
  "class_at [] x = None"
  "class_at (r # rs) x = (if x \<in> lbas r then Some (classification r) else class_at rs x)"
  by (simp_all add: class_at_def mem_lbas rangeEnd_def)

lemma class_at_append:
  "class_at (rs @ ss) x = (case class_at rs x of None \<Rightarrow> class_at ss x | Some c \<Rightarrow> Some c)"
  by (induction rs) auto

lemma class_at_None: "class_at rs x = None \<longleftrightarrow> x \<notin> covered rs"
  by (induction rs) auto

lemma dom_class_at: "dom (class_at rs) = covered rs"
  using class_at_None by (auto simp: dom_def)

lemma class_at_outside: "(\<forall>r \<in> set rs. x \<notin> lbas r) \<Longrightarrow> class_at rs x = None"
  by (induction rs) auto

lemma class_at_before:
  "ascending (r # rs) \<Longrightarrow> x < startLba r \<Longrightarrow> class_at (r # rs) x = None"
  by (rule class_at_outside) (fastforce simp: ascending_Cons mem_lbas proper_range_def rangeEnd_def)

text \<open>The renormalising pass makes an ascending list canonical without changing its map.\<close>

abbreviation "join_abutting \<equiv>
  (\<lambda>previous r. previous\<lparr>sectorCount := sectorCount previous + sectorCount r\<rparr>)"

lemma join_abutting_simps:
  assumes "abuts p x" and "proper_range p" and "proper_range x"
  shows "lbas (join_abutting p x) = lbas p \<union> lbas x"
    and "classification (join_abutting p x) = classification p"
    and "proper_range (join_abutting p x)"
    and "rangeEnd (join_abutting p x) = rangeEnd x"
  using assms by (auto simp: abuts_def lbas_def rangeEnd_def proper_range_def)

lemma merge_abutting:
  assumes "ascending (p # xs)"
  shows "class_at (merge_from abuts join_abutting p xs) = class_at (p # xs)
    \<and> canonical (merge_from abuts join_abutting p xs)
    \<and> (\<exists>q qs. merge_from abuts join_abutting p xs = q # qs \<and> startLba q = startLba p
         \<and> classification q = classification p)"
  using assms
proof (induction xs arbitrary: p)
  case Nil
  then show ?case by (auto simp: canonical_def)
next
  case (Cons x xs)
  show ?case
  proof (cases "abuts p x")
    case True
    let ?q = "join_abutting p x"
    have q: "lbas ?q = lbas p \<union> lbas x" "classification ?q = classification p"
      "proper_range ?q" "rangeEnd ?q = rangeEnd x"
      using True Cons.prems by (simp_all add: join_abutting_simps ascending_Cons)
    have "ascending (?q # xs)"
      using q Cons.prems by (simp add: ascending_Cons)
    note IH = Cons.IH [OF this]
    have "class_at (?q # xs) = class_at (p # x # xs)"
      using True q by (auto simp: fun_eq_iff abuts_def)
    with IH True show ?thesis by (simp add: abuts_def)
  next
    case False
    from Cons.prems have "ascending (x # xs)" by (simp add: ascending_Cons)
    note IH = Cons.IH [OF this]
    then obtain q qs where q: "merge_from abuts join_abutting x xs = q # qs"
      "startLba q = startLba x" "classification q = classification x" by blast
    have "class_at (p # q # qs) = class_at (p # x # xs)"
      using IH q(1) by (auto simp: fun_eq_iff split: if_splits)
    moreover have "ascending (p # q # qs)"
    proof -
      have "\<forall>s \<in> set (q # qs). rangeEnd p \<le> startLba s"
        using IH q Cons.prems
        by (fastforce simp: canonical_def ascending_Cons proper_range_def rangeEnd_def)
      then show ?thesis using IH q(1) Cons.prems by (simp add: canonical_def ascending_Cons)
    qed
    moreover have "\<not> abuts p q"
      using False q by (simp add: abuts_def)
    ultimately show ?thesis
      using False IH q by (simp add: canonical_def)
  qed
qed

lemma renormalizeRanges_correct:
  assumes "ascending rs"
  shows "class_at (renormalizeRanges rs) = class_at rs" and "canonical (renormalizeRanges rs)"
proof -
  have "class_at (renormalizeRanges rs) = class_at rs \<and> canonical (renormalizeRanges rs)"
  proof (cases rs)
    case Nil
    then show ?thesis by (simp add: renormalizeRanges_def canonical_def)
  next
    case (Cons p xs)
    with merge_abutting [OF assms [unfolded Cons]] show ?thesis
      unfolding renormalizeRanges_def Cons foldl_push_or_merge_Cons by simp
  qed
  then show "class_at (renormalizeRanges rs) = class_at rs" and "canonical (renormalizeRanges rs)"
    by simp_all
qed

section \<open>A canonical list is determined by its sector map\<close>

lemma canonical_Cons:
  "canonical (r # rs) \<longleftrightarrow> proper_range r \<and> (\<forall>s \<in> set rs. rangeEnd r \<le> startLba s) \<and> canonical rs
     \<and> (rs \<noteq> [] \<longrightarrow> \<not> abuts r (hd rs))"
  by (cases rs) (auto simp: canonical_def ascending_Cons)

lemma canonical_ascending: "canonical rs \<Longrightarrow> ascending rs"
  by (simp add: canonical_def)

lemma class_at_head:
  "canonical (r # rs) \<Longrightarrow> class_at (r # rs) (startLba r) = Some (classification r)"
  by (simp add: canonical_Cons proper_lbas_nonempty)

lemma canonical_head_start_le:
  assumes "canonical (r # rs)" and "canonical (s # ss)"
    and eq: "class_at (r # rs) = class_at (s # ss)"
  shows "startLba s \<le> startLba r"
proof (rule ccontr)
  assume "\<not> startLba s \<le> startLba r"
  with assms(2) have "class_at (s # ss) (startLba r) = None"
    by (intro class_at_before canonical_ascending) auto
  with class_at_head [OF assms(1)] eq show False by simp
qed

lemma class_at_rangeEnd:
  assumes "canonical (r # rs)"
  shows "class_at (r # rs) (rangeEnd r) \<noteq> Some (classification r)"
proof (cases rs)
  case Nil
  then show ?thesis by (simp add: mem_lbas)
next
  case (Cons q qs)
  show ?thesis
  proof (cases "rangeEnd r = startLba q")
    case True
    with assms Cons have "classification r \<noteq> classification q"
      by (auto simp: canonical_Cons abuts_def rangeEnd_def)
    moreover have "canonical (q # qs)" using assms Cons by (simp add: canonical_Cons)
    note class_at_head [OF this]
    ultimately show ?thesis using True Cons by (simp add: mem_lbas)
  next
    case False
    moreover have "ascending (r # q # qs)"
      using assms Cons by (simp add: canonical_ascending)
    ultimately have "rangeEnd r < startLba q" and "ascending (q # qs)"
      by (auto simp: ascending_Cons)
    then have "class_at (q # qs) (rangeEnd r) = None"
      by (intro class_at_before)
    with Cons show ?thesis by (simp add: mem_lbas)
  qed
qed

lemma canonical_head_end_le:
  assumes r: "canonical (r # rs)" and s: "canonical (s # ss)"
    and eq: "class_at (r # rs) = class_at (s # ss)" and start: "startLba r = startLba s"
  shows "rangeEnd r \<le> rangeEnd s"
proof (rule ccontr)
  assume "\<not> rangeEnd r \<le> rangeEnd s"
  moreover have "startLba s < rangeEnd s"
    using s by (simp add: canonical_Cons proper_range_def rangeEnd_def)
  ultimately have "class_at (r # rs) (rangeEnd s) = Some (classification r)"
    using start by (simp add: mem_lbas)
  moreover have "classification r = classification s"
    using class_at_head [OF r] class_at_head [OF s] eq start by simp
  ultimately show False
    using class_at_rangeEnd [OF s] eq by simp
qed

lemma canonical_class_at_tail:
  assumes "canonical (r # rs)"
  shows "class_at rs = (\<lambda>x. if x \<in> lbas r then None else class_at (r # rs) x)"
proof -
  have "lbas r \<inter> covered rs = {}"
    using assms by (intro ascending_disjoint_head canonical_ascending)
  then have "class_at rs x = None" if "x \<in> lbas r" for x
    using that by (auto simp: class_at_None)
  then show ?thesis by auto
qed

lemma canonical_unique:
  "canonical rs \<Longrightarrow> canonical ss \<Longrightarrow> class_at rs = class_at ss \<Longrightarrow> rs = ss"
proof (induction rs arbitrary: ss)
  case Nil
  then have "covered ss = {}" by (metis dom_class_at covered_simps(1))
  with Nil.prems(2) show ?case
    by (simp add: covered_empty_iff canonical_def ascending_def)
next
  case (Cons r rs)
  note r = Cons.prems(1)
  have "ss \<noteq> []"
    using class_at_head [OF r] Cons.prems(3) by auto
  then obtain s ss' where ss: "ss = s # ss'" by (cases ss) auto
  note s = Cons.prems(2) [unfolded ss] and eq = Cons.prems(3) [unfolded ss]
  have start: "startLba r = startLba s"
    using canonical_head_start_le [OF r s eq] canonical_head_start_le [OF s r eq [symmetric]]
    by simp
  moreover have "rangeEnd r = rangeEnd s"
    using canonical_head_end_le [OF r s eq start]
      canonical_head_end_le [OF s r eq [symmetric] start [symmetric]] by simp
  moreover have "classification r = classification s"
    using class_at_head [OF r] class_at_head [OF s] eq start by simp
  ultimately have "r = s" by (simp add: rangeEnd_def)
  moreover have "class_at rs = class_at ss'"
    using canonical_class_at_tail [OF r] canonical_class_at_tail [OF s] eq \<open>r = s\<close> by metis
  with Cons.IH [of ss'] r s have "rs = ss'" by (simp add: canonical_Cons)
  ultimately show ?case using ss by simp
qed

section \<open>One recovery read is one map update\<close>

definition class_after :: "recovery_read_outcome \<Rightarrow> source_classification option" where
  "class_after outcome =
     (case outcome of Recovered \<Rightarrow> None | Failed \<Rightarrow> Some Individually_failed)"

lemma replacement_pieces:
  assumes "proper_range c" and "lba \<in> lbas c"
  shows "ascending (replacementRanges c lba outcome)"
    and "\<forall>p \<in> set (replacementRanges c lba outcome). startLba c \<le> startLba p \<and> rangeEnd p \<le> rangeEnd c"
  using assms
  by (auto simp: replacementRanges_def Let_def ascending_def proper_range_def rangeEnd_def mem_lbas)

lemma class_at_replacement:
  assumes "proper_range c" and "lba \<in> lbas c"
  shows "class_at (replacementRanges c lba outcome) x =
    (if x = lba then class_after outcome
     else if x \<in> lbas c then Some (classification c) else None)"
  using assms
  by (cases outcome)
    (auto simp: replacementRanges_def Let_def mem_lbas rangeEnd_def proper_range_def class_after_def)

lemma ascending_replace:
  assumes "ascending (pre @ c # post)" and "lba \<in> lbas c"
  shows "ascending (pre @ replacementRanges c lba outcome @ post)"
proof -
  have "proper_range c" using assms(1) by (simp add: ascending_append ascending_Cons)
  note replacement_pieces [OF this assms(2)]
  then show ?thesis
    using assms(1) by (fastforce simp: ascending_append ascending_Cons)
qed

lemma class_at_replace:
  assumes asc: "ascending (pre @ c # post)" and lba: "lba \<in> lbas c"
  shows "class_at (pre @ replacementRanges c lba outcome @ post)
    = (class_at (pre @ c # post))(lba := class_after outcome)"
proof
  fix x
  have c: "proper_range c" using asc by (simp add: ascending_append ascending_Cons)
  have "class_at pre lba = None"
    using asc lba by (fastforce simp: class_at_None ascending_append covered_def mem_lbas)
  moreover have "class_at post lba = None"
    using asc lba by (fastforce simp: class_at_None ascending_append ascending_Cons covered_def mem_lbas)
  ultimately show "class_at (pre @ replacementRanges c lba outcome @ post) x
      = ((class_at (pre @ c # post))(lba := class_after outcome)) x"
    using lba by (auto simp: class_at_append class_at_replacement [OF c lba] split: option.splits)
qed

lemma after_read_accepts:
  "is_ok (dvdEvidenceRangesAfterRecoveryRead rs lba outcome) \<longleftrightarrow> class_at rs lba \<noteq> None"
proof -
  let ?P = "\<lambda>r. lba \<ge> startLba r \<and> lba < startLba r + sectorCount r"
  have "findIndex ?P rs = None \<longleftrightarrow> class_at rs lba = None"
    by (auto simp: findIndex_None class_at_None covered_def mem_lbas rangeEnd_def)
  then show ?thesis
    by (auto simp: dvdEvidenceRangesAfterRecoveryRead_def split: option.splits)
qed

lemma after_read_correct:
  assumes "ascending rs" and "dvdEvidenceRangesAfterRecoveryRead rs lba outcome = Inr out"
  shows "class_at out = (class_at rs)(lba := class_after outcome)" and "canonical out"
proof -
  let ?P = "\<lambda>r. lba \<ge> startLba r \<and> lba < startLba r + sectorCount r"
  from assms(2) obtain i where i: "findIndex ?P rs = Some i"
    and out: "out = renormalizeRanges (take i rs @ replacementRanges (rs ! i) lba outcome
      @ drop (Suc i) rs)"
    by (auto simp: dvdEvidenceRangesAfterRecoveryRead_def split: option.splits)
  have lba: "lba \<in> lbas (rs ! i)"
    using findIndex_Some(2) [OF i] by (simp add: mem_lbas rangeEnd_def)
  have asc: "ascending (take i rs @ rs ! i # drop (Suc i) rs)"
    using assms(1) findIndex_Some(4) [OF i] by simp
  note new = ascending_replace [OF asc lba, of outcome]
  show "class_at out = (class_at rs)(lba := class_after outcome)"
    using class_at_replace [OF asc lba, of outcome] findIndex_Some(4) [OF i]
      renormalizeRanges_correct(1) [OF new] out by simp
  show "canonical out"
    using renormalizeRanges_correct(2) [OF new] out by simp
qed

section \<open>The contract of the transition, and sequences of reads\<close>

locale recovery_map =
  fixes after_read :: "'m \<Rightarrow> int \<Rightarrow> recovery_read_outcome \<Rightarrow> 'm result"
    and map_at :: "'m \<Rightarrow> int \<Rightarrow> source_classification option"
    and valid :: "'m \<Rightarrow> bool"
  assumes accepts: "valid m \<Longrightarrow> is_ok (after_read m x outcome) \<longleftrightarrow> map_at m x \<noteq> None"
    and at_after: "valid m \<Longrightarrow> after_read m x outcome = Inr m'
      \<Longrightarrow> map_at m' = (map_at m)(x := class_after outcome)"
    and valid_after: "valid m \<Longrightarrow> after_read m x outcome = Inr m' \<Longrightarrow> valid m'"
    and extensional: "valid m \<Longrightarrow> valid m' \<Longrightarrow> map_at m = map_at m' \<Longrightarrow> m = m'"
begin

abbreviation reads :: "'m \<Rightarrow> (int \<times> recovery_read_outcome) list \<Rightarrow> 'm result" where
  "reads m obs \<equiv> fold_result (\<lambda>m (x, outcome). after_read m x outcome) m obs"

lemma read_succeeds:
  assumes "valid m" and "map_at m x \<noteq> None"
  obtains m' where "after_read m x outcome = Inr m'" and "valid m'"
    and "map_at m' = (map_at m)(x := class_after outcome)"
proof -
  from assms obtain m' where m': "after_read m x outcome = Inr m'"
    using accepts is_ok_iff by metis
  with assms(1) show thesis using that at_after valid_after by blast
qed

lemma reads_distinct:
  assumes "valid m" and "distinct (map fst obs)" and "\<forall>x \<in> fst ` set obs. map_at m x \<noteq> None"
  shows "\<exists>m'. reads m obs = Inr m' \<and> valid m'
    \<and> map_at m' = (\<lambda>x. case map_of obs x of None \<Rightarrow> map_at m x | Some outcome \<Rightarrow> class_after outcome)"
  using assms
proof (induction obs arbitrary: m)
  case Nil
  then show ?case by simp
next
  case (Cons ob obs)
  obtain x outcome where ob: "ob = (x, outcome)" by (cases ob)
  with Cons.prems(1,3) obtain m1 where m1: "after_read m x outcome = Inr m1" "valid m1"
    "map_at m1 = (map_at m)(x := class_after outcome)"
    by (auto elim: read_succeeds)
  have "\<forall>y \<in> fst ` set obs. map_at m1 y \<noteq> None"
    using Cons.prems(2,3) ob m1(3) by (auto simp: rev_image_eqI)
  with Cons.IH [OF m1(2)] Cons.prems(2) obtain m' where m': "reads m1 obs = Inr m'" "valid m'"
    "map_at m' = (\<lambda>y. case map_of obs y of None \<Rightarrow> map_at m1 y | Some p \<Rightarrow> class_after p)"
    by auto
  have "map_of obs x = None"
    using Cons.prems(2) ob by (simp add: map_of_eq_None_iff)
  then have "map_at m' = (\<lambda>y. case map_of (ob # obs) y of None \<Rightarrow> map_at m y | Some p \<Rightarrow> class_after p)"
    using ob m1(3) m'(3) by (auto simp: fun_eq_iff split: option.splits)
  with m1(1) m'(1,2) ob show ?case by auto
qed

lemma reads_permuted:
  assumes "valid m" and "distinct (map fst obs)" and "\<forall>x \<in> fst ` set obs. map_at m x \<noteq> None"
    and "mset obs' = mset obs"
  shows "reads m obs' = reads m obs \<and> is_ok (reads m obs)"
proof -
  have set': "set obs' = set obs" using assms(4) by (rule mset_eq_setD)
  have distinct': "distinct (map fst obs')"
    using assms(2,4) by (metis mset_eq_imp_distinct_iff mset_map)
  have map: "map_of obs' = map_of obs"
    using assms(2) distinct' set' by (intro map_of_inject_set [THEN iffD2]) auto
  from reads_distinct [OF assms(1,2,3)] obtain m1 where m1: "reads m obs = Inr m1" "valid m1"
    "map_at m1 = (\<lambda>x. case map_of obs x of None \<Rightarrow> map_at m x | Some p \<Rightarrow> class_after p)" by auto
  from reads_distinct [OF assms(1) distinct'] assms(3) set' obtain m2 where
    m2: "reads m obs' = Inr m2" "valid m2"
    "map_at m2 = (\<lambda>x. case map_of obs' x of None \<Rightarrow> map_at m x | Some p \<Rightarrow> class_after p)" by auto
  have "m1 = m2" using m1 m2 map by (intro extensional) auto
  with m1 m2 show ?thesis by simp
qed

lemma recovered_everywhere:
  assumes "valid m" and "distinct xs" and "set xs = dom (map_at m)"
  shows "\<exists>m'. reads m (map (\<lambda>x. (x, Recovered)) xs) = Inr m' \<and> valid m' \<and> map_at m' = (\<lambda>_. None)"
proof -
  let ?obs = "map (\<lambda>x. (x, Recovered)) xs"
  have "distinct (map fst ?obs)" using assms(2) by (simp add: comp_def)
  moreover have "\<forall>x \<in> fst ` set ?obs. map_at m x \<noteq> None" using assms(3) by force
  ultimately obtain m' where m': "reads m ?obs = Inr m'" "valid m'"
    "map_at m' = (\<lambda>x. case map_of ?obs x of None \<Rightarrow> map_at m x | Some p \<Rightarrow> class_after p)"
    using reads_distinct [OF assms(1)] by blast
  have "map_at m' x = None" for x
  proof (cases "x \<in> set xs")
    case True
    then show ?thesis by (simp add: m'(3) map_of_map_restrict class_after_def)
  next
    case False
    with assms(3) show ?thesis by (auto simp: m'(3) map_of_map_restrict)
  qed
  with m' show ?thesis by blast
qed

lemma reads_dom:
  assumes "valid m" and "reads m obs = Inr m'"
  shows "valid m' \<and> dom (map_at m') \<subseteq> dom (map_at m)"
  using assms
proof (induction obs arbitrary: m)
  case Nil
  then show ?case by simp
next
  case (Cons ob obs)
  obtain x outcome where ob: "ob = (x, outcome)" by (cases ob)
  with Cons.prems obtain m1 where m1: "after_read m x outcome = Inr m1" "reads m1 obs = Inr m'"
    by (auto split: sum.splits)
  have "map_at m x \<noteq> None" using accepts [OF Cons.prems(1)] m1(1) is_ok_iff by blast
  then have "dom (map_at m1) \<subseteq> dom (map_at m)"
    using at_after [OF Cons.prems(1) m1(1)] by auto
  with Cons.IH [OF valid_after [OF Cons.prems(1) m1(1)] m1(2)] show ?case by blast
qed

end

interpretation evidence: recovery_map dvdEvidenceRangesAfterRecoveryRead class_at canonical
  by unfold_locales
    (auto simp: after_read_accepts dest: after_read_correct(1) after_read_correct(2)
      canonical_ascending canonical_unique)

section \<open>Properties\<close>

lemma sectorCount_of_dom: "canonical rs \<Longrightarrow> sectorCount_of rs = int (card (dom (class_at rs)))"
  by (simp add: sectorCount_of_card canonical_ascending dom_class_at)

lemma sectorCount_after_read:
  assumes "canonical rs" and "dvdEvidenceRangesAfterRecoveryRead rs lba outcome = Inr out"
  shows "sectorCount_of out = sectorCount_of rs - (if outcome = Recovered then 1 else 0)"
proof -
  have "class_at rs lba \<noteq> None"
    using evidence.accepts [OF assms(1)] assms(2) is_ok_iff by blast
  then have lba: "lba \<in> dom (class_at rs)" by blast
  have fin: "finite (dom (class_at rs))" by (simp add: dom_class_at)
  have "dom (class_at out) = (if outcome = Recovered then dom (class_at rs) - {lba}
      else dom (class_at rs))"
    using evidence.at_after [OF assms] lba
    by (cases outcome) (auto simp: class_after_def split: if_splits)
  moreover have "0 < card (dom (class_at rs))"
    using lba fin by (metis card_gt_0_iff empty_iff)
  ultimately have "int (card (dom (class_at out)))
      = int (card (dom (class_at rs))) - (if outcome = Recovered then 1 else 0)"
    using lba by (simp add: of_nat_diff Suc_leI)
  then show ?thesis
    using assms(1) evidence.valid_after [OF assms] by (simp add: sectorCount_of_dom)
qed

text \<open>
  C16: applying one persisted recovery read to a canonical map of Unrecovered Source is one
  update of the sector map it denotes: the sector read is removed when it was recovered and
  becomes individually failed when it was not, every other sector keeps its classification,
  the result is again canonical, and the number of unrecovered sectors falls by exactly one
  for a recovered read and stays for a failed one.
\<close>

theorem recovery_read_is_one_map_update:
  assumes "canonical rs" and "dvdEvidenceRangesAfterRecoveryRead rs lba outcome = Inr out"
  shows "canonical out
    \<and> class_at out = (class_at rs)(lba :=
        (case outcome of Recovered \<Rightarrow> None | Failed \<Rightarrow> Some Individually_failed))
    \<and> sectorCount_of out = sectorCount_of rs - (if outcome = Recovered then 1 else 0)"
  using evidence.valid_after [OF assms] evidence.at_after [OF assms] sectorCount_after_read [OF assms]
  by (simp add: class_after_def)

definition example_map :: "dvd_unrecovered_source_range list" where
  "example_map =
     [\<lparr>startLba = 10, sectorCount = 4, classification = Skipped_untested\<rparr>,
      \<lparr>startLba = 14, sectorCount = 1, classification = Individually_failed\<rparr>,
      \<lparr>startLba = 20, sectorCount = 2, classification = Skipped_untested\<rparr>]"

lemma canonical_example_map: "canonical example_map"
  by (simp add: example_map_def canonical_def ascending_def proper_range_def rangeEnd_def abuts_def)

theorem recovery_read_is_one_map_update_witness:
  "\<exists>out. dvdEvidenceRangesAfterRecoveryRead example_map 13 Failed = Inr out
    \<and> out = [\<lparr>startLba = 10, sectorCount = 3, classification = Skipped_untested\<rparr>,
        \<lparr>startLba = 13, sectorCount = 2, classification = Individually_failed\<rparr>,
        \<lparr>startLba = 20, sectorCount = 2, classification = Skipped_untested\<rparr>]
    \<and> canonical out \<and> sectorCount_of out = sectorCount_of example_map"
proof -
  let ?out = "[\<lparr>startLba = 10, sectorCount = 3, classification = Skipped_untested\<rparr>,
        \<lparr>startLba = 13, sectorCount = 2, classification = Individually_failed\<rparr>,
        \<lparr>startLba = 20, sectorCount = 2, classification = Skipped_untested\<rparr>]"
  have "dvdEvidenceRangesAfterRecoveryRead example_map 13 Failed = Inr ?out"
    by (simp add: example_map_def dvdEvidenceRangesAfterRecoveryRead_def renormalizeRanges_def
        replacementRanges_def push_or_merge_def abuts_def Let_def)
  with recovery_read_is_one_map_update [OF canonical_example_map this] show ?thesis by simp
qed

lemma same_range_iff: "same_range a b \<longleftrightarrow> a = b"
  by (auto simp: same_range_def)

lemma zip_upt_agrees:
  assumes "length expected = length current"
  shows "list_ex (\<lambda>(r, index). index \<ge> length current \<or> \<not> same_range (current ! index) r)
      (zip expected [0..<length expected]) \<longleftrightarrow> expected \<noteq> current"
proof -
  have "list_ex (\<lambda>(r, index). index \<ge> length current \<or> \<not> same_range (current ! index) r)
      (zip expected [0..<length expected]) \<longleftrightarrow> (\<exists>i < length current. current ! i \<noteq> expected ! i)"
    using assms by (auto simp: list_ex_length same_range_iff)
  also have "\<dots> \<longleftrightarrow> expected \<noteq> current"
    using assms by (auto simp: list_eq_iff_nth_eq)
  finally show ?thesis .
qed

lemma assert_transition_Inr:
  "assertDvdEvidenceRangeTransition previous current lba outcome = Inr () \<longleftrightarrow>
     dvdEvidenceRangesAfterRecoveryRead previous lba outcome = Inr current"
proof (cases "dvdEvidenceRangesAfterRecoveryRead previous lba outcome")
  case (Inl e)
  then show ?thesis by (simp add: assertDvdEvidenceRangeTransition_def)
next
  case (Inr expected)
  then show ?thesis
    using zip_upt_agrees [of expected current]
    by (cases "length expected = length current") (auto simp: assertDvdEvidenceRangeTransition_def)
qed

text \<open>
  C27: the check that a persisted manifest's ranges follow from their predecessor accepts a
  canonical successor map exactly when the sector read was unrecovered before and the
  successor's sector map is the predecessor's with that one sector updated.
\<close>

theorem assert_transition_accepts_exactly_the_update:
  assumes "canonical previous" and "canonical current"
  shows "assertDvdEvidenceRangeTransition previous current lba outcome = Inr () \<longleftrightarrow>
    class_at previous lba \<noteq> None \<and>
    class_at current = (class_at previous)(lba :=
      (case outcome of Recovered \<Rightarrow> None | Failed \<Rightarrow> Some Individually_failed))"
proof
  assume "assertDvdEvidenceRangeTransition previous current lba outcome = Inr ()"
  then have read: "dvdEvidenceRangesAfterRecoveryRead previous lba outcome = Inr current"
    by (simp add: assert_transition_Inr)
  then show "class_at previous lba \<noteq> None \<and> class_at current = (class_at previous)(lba :=
      (case outcome of Recovered \<Rightarrow> None | Failed \<Rightarrow> Some Individually_failed))"
    using evidence.accepts [OF assms(1), of lba outcome] evidence.at_after [OF assms(1) read]
    by (simp add: class_after_def)
next
  assume rhs: "class_at previous lba \<noteq> None \<and> class_at current = (class_at previous)(lba :=
      (case outcome of Recovered \<Rightarrow> None | Failed \<Rightarrow> Some Individually_failed))"
  then obtain out where "dvdEvidenceRangesAfterRecoveryRead previous lba outcome = Inr out"
    "canonical out" "class_at out = (class_at previous)(lba := class_after outcome)"
    using evidence.read_succeeds [OF assms(1)] by metis
  with rhs assms(2) show "assertDvdEvidenceRangeTransition previous current lba outcome = Inr ()"
    using evidence.extensional [of out current] by (simp add: assert_transition_Inr class_after_def)
qed

theorem assert_transition_accepts_exactly_the_update_witness:
  "class_at [\<lparr>startLba = 10, sectorCount = 4, classification = Skipped_untested\<rparr>,
      \<lparr>startLba = 20, sectorCount = 2, classification = Skipped_untested\<rparr>]
    = (class_at example_map)(14 := None)
   \<and> canonical example_map"
proof -
  let ?next = "[\<lparr>startLba = 10, sectorCount = 4, classification = Skipped_untested\<rparr>,
      \<lparr>startLba = 20, sectorCount = 2, classification = Skipped_untested\<rparr>]"
  have "canonical ?next"
    by (simp add: canonical_def ascending_def proper_range_def rangeEnd_def abuts_def)
  note iff = assert_transition_accepts_exactly_the_update [OF canonical_example_map this]
  have "assertDvdEvidenceRangeTransition example_map ?next 14 Recovered = Inr ()"
    by (simp add: example_map_def assertDvdEvidenceRangeTransition_def
        dvdEvidenceRangesAfterRecoveryRead_def renormalizeRanges_def replacementRanges_def
        push_or_merge_def abuts_def same_range_def Let_def upt_rec)
  then show ?thesis using iff canonical_example_map by simp
qed

text \<open>
  C29: the order in which a pass records its observations does not matter: any reordering of
  reads of distinct unrecovered sectors succeeds and leads to the same canonical map.
\<close>

theorem recovery_reads_commute:
  assumes "canonical rs" and "distinct (map fst observations)"
    and "\<forall>lba \<in> fst ` set observations. class_at rs lba \<noteq> None"
    and "mset reordered = mset observations"
  shows "is_ok (fold_result (\<lambda>m (lba, outcome). dvdEvidenceRangesAfterRecoveryRead m lba outcome)
        rs observations)
    \<and> fold_result (\<lambda>m (lba, outcome). dvdEvidenceRangesAfterRecoveryRead m lba outcome) rs reordered
      = fold_result (\<lambda>m (lba, outcome). dvdEvidenceRangesAfterRecoveryRead m lba outcome)
          rs observations"
  using evidence.reads_permuted [OF assms] by simp

theorem recovery_reads_commute_witness:
  "fold_result (\<lambda>m (lba, outcome). dvdEvidenceRangesAfterRecoveryRead m lba outcome) example_map
      [(21, Recovered), (12, Failed), (14, Recovered)]
   = fold_result (\<lambda>m (lba, outcome). dvdEvidenceRangesAfterRecoveryRead m lba outcome) example_map
      [(12, Failed), (14, Recovered), (21, Recovered)]"
  using recovery_reads_commute [OF canonical_example_map,
      of "[(12, Failed), (14, Recovered), (21, Recovered)]"
         "[(21, Recovered), (12, Failed), (14, Recovered)]"]
  by (simp add: example_map_def mem_lbas rangeEnd_def)

text \<open>
  A pass that recovers every unrecovered sector once, in any order, never fails and ends
  with an empty map, which is the state in which Archive Recovery completes.
\<close>

theorem full_recovery_empties_the_map:
  assumes "canonical rs" and "distinct sectors" and "set sectors = covered rs"
  shows "fold_result (\<lambda>m (lba, outcome). dvdEvidenceRangesAfterRecoveryRead m lba outcome) rs
    (map (\<lambda>lba. (lba, Recovered)) sectors) = Inr []"
proof -
  from evidence.recovered_everywhere [OF assms(1,2)] assms(3) obtain m' where
    "fold_result (\<lambda>m (lba, outcome). dvdEvidenceRangesAfterRecoveryRead m lba outcome) rs
       (map (\<lambda>lba. (lba, Recovered)) sectors) = Inr m'" and "canonical m'"
    and "class_at m' = class_at []"
    by (auto simp: dom_class_at fun_eq_iff)
  moreover have "canonical []" by (simp add: canonical_def)
  ultimately show ?thesis using canonical_unique by blast
qed

theorem full_recovery_empties_the_map_witness:
  "fold_result (\<lambda>m (lba, outcome). dvdEvidenceRangesAfterRecoveryRead m lba outcome) example_map
    (map (\<lambda>lba. (lba, Recovered)) [21, 10, 12, 11, 14, 13, 20]) = Inr []"
proof -
  have sectors: "set [21, 10, 12, 11, 14, 13, 20] = covered example_map"
    by (auto simp: example_map_def mem_lbas rangeEnd_def)
  have "distinct [21, 10, 12, 11, 14, 13, 20 :: int]" by simp
  from full_recovery_empties_the_map [OF canonical_example_map this sectors] show ?thesis .
qed

end
