(* ===== verification/ArchiveIntegrity.thy ===== *)
theory ArchiveIntegrity
  imports EvidenceTransition
begin

text \<open>
  Archive Integrity evidence (\<open>packages/data-access/src/archive-integrity.ts\<close>): the four kinds
  of evidence, their constructors with every rejected input, and the projection of the current
  evidence header onto an archive row.  The constructors are shown to accept exactly the
  normalised range lists, to count each bad sector once, and to enforce the salvage bounds.
\<close>

section \<open>Evidence\<close>

datatype archive_integrity = Unknown_integrity | Clean_read | Incomplete_read | Watchable_salvage

record dvd_title_bad_sector_count =
  titleNumber :: int
  titleBadSectorCount :: int

record archive_integrity_evidence =
  integrity :: archive_integrity
  policyVersion :: "string option"
  badSectorCount :: "int option"
  badAreaCount :: "nat option"
  badSectorRanges :: "unreadable_sector_range list option"
  badSectorCountsByTitle :: "dvd_title_bad_sector_count list option"

record dvd_archive_evidence_header =
  hdr_originalDiscArchiveId :: string
  hdr_evidenceFormat :: string
  hdr_boundaryEvidenceDigest :: string
  hdr_sectorSizeBytes :: int
  hdr_acceptedEndLbaExclusive :: int
  hdr_currentManifestId :: string
  hdr_currentManifestRevision :: int
  hdr_currentManifestDigest :: string
  hdr_unrecoveredSourceRanges :: "dvd_unrecovered_source_range list"

text \<open>The columns of an archive row that the projection replaces; a row has more of them.\<close>

record archive_row =
  arc_integrity :: archive_integrity
  arc_integrityEvidenceRevision :: "int option"
  arc_integrityPolicyVersion :: "string option"
  arc_badSectorCount :: "int option"
  arc_badAreaCount :: "nat option"
  arc_badSectorRanges :: "unreadable_sector_range list option"
  arc_badSectorCountsByTitle :: "dvd_title_bad_sector_count list option"

definition dvd_recovery_evidence_format :: string where
  "dvd_recovery_evidence_format = ''dvd-recovery-evidence-v1''"

definition normalizePolicyVersion :: "string \<Rightarrow> string result" where
  "normalizePolicyVersion version =
     (let normalized = js_trim version in
      if length normalized = 0 \<or> length normalized > 128
      then Inl (DomainInvariantError
        ''Archive Integrity policy version must contain 1 to 128 characters'')
      else Inr normalized)"

definition createCleanReadArchiveIntegrityEvidence :: "string \<Rightarrow> archive_integrity_evidence result" where
  "createCleanReadArchiveIntegrityEvidence version =
     (case normalizePolicyVersion version of
        Inl e \<Rightarrow> Inl e
      | Inr normalized \<Rightarrow> Inr \<lparr>integrity = Clean_read, policyVersion = Some normalized,
          badSectorCount = Some 0, badAreaCount = Some 0, badSectorRanges = Some [],
          badSectorCountsByTitle = None\<rparr>)"

definition plainRanges ::
  "'a unreadable_sector_range_scheme list \<Rightarrow> unreadable_sector_range list" where
  "plainRanges rs = map (\<lambda>r. \<lparr>startLba = startLba r, sectorCount = sectorCount r\<rparr>) rs"

text \<open>The range loops carry the end of the previous range and the sectors counted so far.\<close>

definition incompleteReadStep ::
  "int \<times> int \<Rightarrow> unreadable_sector_range \<Rightarrow> (int \<times> int) result" where
  "incompleteReadStep = (\<lambda>(previousEndLba, bad) r.
     let endLba = startLba r + sectorCount r in
     if \<not> is_safe_integer (startLba r) \<or> startLba r < 0
        \<or> \<not> is_safe_integer (sectorCount r) \<or> sectorCount r \<le> 0
        \<or> \<not> is_safe_integer endLba \<or> startLba r < previousEndLba
     then Inl (DomainInvariantError ''Incomplete-read sector ranges must be normalized'')
     else Inr (endLba, bad + sectorCount r))"

definition createIncompleteReadArchiveIntegrityEvidence ::
  "'a unreadable_sector_range_scheme list \<Rightarrow> archive_integrity_evidence result" where
  "createIncompleteReadArchiveIntegrityEvidence unresolved =
     (let ranges = plainRanges unresolved in
      case fold_result incompleteReadStep (-1, 0) ranges of
        Inl e \<Rightarrow> Inl e
      | Inr (_, bad) \<Rightarrow>
          if length ranges = 0 \<or> \<not> is_safe_integer bad
          then Inl (DomainInvariantError ''Incomplete-read evidence requires unresolved source'')
          else Inr \<lparr>integrity = Incomplete_read, policyVersion = Some dvd_recovery_evidence_format,
            badSectorCount = Some bad, badAreaCount = Some (length ranges),
            badSectorRanges = Some ranges, badSectorCountsByTitle = None\<rparr>)"

definition salvageStep ::
  "int \<times> int \<Rightarrow> unreadable_sector_range \<Rightarrow> (int \<times> int) result" where
  "salvageStep = (\<lambda>(previousEndLba, bad) r.
     let endLba = startLba r + sectorCount r in
     if \<not> is_safe_integer (startLba r) \<or> startLba r < 0
        \<or> \<not> is_safe_integer (sectorCount r) \<or> sectorCount r \<le> 0
        \<or> \<not> is_safe_integer endLba \<or> startLba r \<le> previousEndLba
     then Inl (DomainInvariantError ''Watchable-salvage sector ranges must be normalized'')
     else if sectorCount r \<noteq> 1
     then Inl (DomainInvariantError ''Watchable-salvage sector evidence exceeds the policy bound'')
     else Inr (endLba, bad + sectorCount r))"

definition salvageTitleStep ::
  "int \<Rightarrow> int \<Rightarrow> dvd_title_bad_sector_count \<Rightarrow> int result" where
  "salvageTitleStep bad previousTitleNumber t =
     (if \<not> is_safe_integer (titleNumber t) \<or> titleNumber t \<le> previousTitleNumber
         \<or> \<not> is_safe_integer (titleBadSectorCount t) \<or> titleBadSectorCount t \<le> 0
         \<or> titleBadSectorCount t > 16 \<or> titleBadSectorCount t > bad
      then Inl (DomainInvariantError
        ''Watchable-salvage per-title evidence exceeds the policy bound'')
      else Inr (titleNumber t))"

definition max_watchable_salvage_bad_sectors :: int where
  "max_watchable_salvage_bad_sectors = 32"

definition max_dvd_titles :: nat where
  "max_dvd_titles = 512"

definition createWatchableSalvageArchiveIntegrityEvidence ::
  "string \<Rightarrow> 'a unreadable_sector_range_scheme list \<Rightarrow> dvd_title_bad_sector_count list
     \<Rightarrow> archive_integrity_evidence result" where
  "createWatchableSalvageArchiveIntegrityEvidence version unreadable byTitle =
     (let ranges = plainRanges unreadable in
      case fold_result salvageStep (-1, 0) ranges of
        Inl e \<Rightarrow> Inl e
      | Inr (_, bad) \<Rightarrow>
          if length ranges = 0 \<or> \<not> is_safe_integer bad \<or> bad > max_watchable_salvage_bad_sectors
          then Inl (DomainInvariantError
            ''Watchable-salvage sector evidence exceeds the policy bound'')
          else if length byTitle > max_dvd_titles
          then Inl (DomainInvariantError
            ''Watchable-salvage per-title evidence exceeds the policy bound'')
          else (case fold_result (salvageTitleStep bad) 0 byTitle of
              Inl e \<Rightarrow> Inl e
            | Inr _ \<Rightarrow> (case normalizePolicyVersion version of
                Inl e \<Rightarrow> Inl e
              | Inr normalized \<Rightarrow> Inr \<lparr>integrity = Watchable_salvage,
                  policyVersion = Some normalized, badSectorCount = Some bad,
                  badAreaCount = Some (length ranges), badSectorRanges = Some ranges,
                  badSectorCountsByTitle = Some byTitle\<rparr>)))"

definition createUnknownArchiveIntegrityEvidence :: archive_integrity_evidence where
  "createUnknownArchiveIntegrityEvidence = \<lparr>integrity = Unknown_integrity, policyVersion = None,
     badSectorCount = None, badAreaCount = None, badSectorRanges = None,
     badSectorCountsByTitle = None\<rparr>"

definition withAuthoritativeDvdArchiveIntegrity ::
  "'a archive_row_scheme \<Rightarrow> dvd_archive_evidence_header option \<Rightarrow> 'a archive_row_scheme result" where
  "withAuthoritativeDvdArchiveIntegrity archive header =
     (case header of
        None \<Rightarrow> Inr archive
      | Some h \<Rightarrow>
          (case (if length (hdr_unrecoveredSourceRanges h) = 0
                 then createCleanReadArchiveIntegrityEvidence (hdr_evidenceFormat h)
                 else createIncompleteReadArchiveIntegrityEvidence (hdr_unrecoveredSourceRanges h)) of
             Inl e \<Rightarrow> Inl e
           | Inr evidence \<Rightarrow> Inr (archive\<lparr>
               arc_integrity := integrity evidence,
               arc_integrityEvidenceRevision := Some (hdr_currentManifestRevision h),
               arc_integrityPolicyVersion := policyVersion evidence,
               arc_badSectorCount := badSectorCount evidence,
               arc_badAreaCount := badAreaCount evidence,
               arc_badSectorRanges := None,
               arc_badSectorCountsByTitle := None\<rparr>)))"

section \<open>What the range loops accept\<close>

lemma plainRanges_simps [simp]:
  "length (plainRanges rs) = length rs" "plainRanges rs = [] \<longleftrightarrow> rs = []"
  "covered (plainRanges rs) = covered rs" "sectorCount_of (plainRanges rs) = sectorCount_of rs"
  "ascending (plainRanges rs) = ascending rs" "separated (plainRanges rs) = separated rs"
  by (simp_all add: plainRanges_def sectorCount_of_sum comp_def ascending_def separated_def
      proper_range_def rangeEnd_def sorted_wrt_map)

lemma plainRanges_ball:
  "(\<And>a b. P \<lparr>startLba = a, sectorCount = b\<rparr> = Q a b) \<Longrightarrow>
     (\<forall>r \<in> set (plainRanges rs). P r) \<longleftrightarrow> (\<forall>r \<in> set rs. Q (startLba r) (sectorCount r))"
  by (auto simp: plainRanges_def)

lemma incompleteReadStep_Inr [result_simps]:
  "incompleteReadStep (pe, n) r = Inr q \<longleftrightarrow>
     q = (rangeEnd r, n + sectorCount r) \<and> proper_range r \<and> is_safe_integer (rangeEnd r)
     \<and> pe \<le> startLba r"
  by (auto simp: incompleteReadStep_def Let_def rangeEnd_def proper_range_def is_safe_integer_def)

lemma incompleteRead_loop:
  "fold_result incompleteReadStep (pe, n) rs = Inr q \<longleftrightarrow>
     ascending rs \<and> (\<forall>r \<in> set rs. is_safe_integer (rangeEnd r) \<and> pe \<le> startLba r)
     \<and> q = (if rs = [] then pe else rangeEnd (last rs), n + sectorCount_of rs)"
proof (induction rs arbitrary: pe n)
  case Nil
  then show ?case by auto
next
  case (Cons r rs)
  have "fold_result incompleteReadStep (pe, n) (r # rs) = Inr q \<longleftrightarrow>
      (\<exists>s. incompleteReadStep (pe, n) r = Inr s \<and> fold_result incompleteReadStep s rs = Inr q)"
    by (auto split: sum.splits)
  also have "\<dots> \<longleftrightarrow> proper_range r \<and> is_safe_integer (rangeEnd r) \<and> pe \<le> startLba r
      \<and> fold_result incompleteReadStep (rangeEnd r, n + sectorCount r) rs = Inr q"
    by (auto simp: result_simps)
  finally show ?case
    unfolding Cons.IH
    by (fastforce simp: ascending_Cons proper_range_def rangeEnd_def)
qed

lemma ascending_total_bound:
  "ascending rs \<Longrightarrow> rs \<noteq> [] \<Longrightarrow> startLba (hd rs) + sectorCount_of rs \<le> rangeEnd (last rs)"
proof (induction rs)
  case (Cons r rs)
  show ?case
  proof (cases rs)
    case Nil
    then show ?thesis by (simp add: rangeEnd_def)
  next
    case (Cons s ss)
    with Cons.prems Cons.IH have "startLba s + sectorCount_of rs \<le> rangeEnd (last rs)"
      and "rangeEnd r \<le> startLba s"
      by (simp_all add: ascending_Cons)
    with Cons show ?thesis by (simp add: rangeEnd_def)
  qed
qed simp

lemma ascending_total_safe:
  assumes "ascending rs" and "\<forall>r \<in> set rs. is_safe_integer (rangeEnd r)"
  shows "is_safe_integer (sectorCount_of rs)"
proof (cases "rs = []")
  case True
  then show ?thesis by (simp add: is_safe_integer_def max_safe_integer_def)
next
  case False
  then have "0 \<le> startLba (hd rs)" and "is_safe_integer (rangeEnd (last rs))"
    using assms by (simp_all add: ascending_def proper_range_def)
  moreover have "0 \<le> sectorCount_of rs"
    using assms(1) by (simp add: sectorCount_of_card)
  ultimately show ?thesis
    using ascending_total_bound [OF assms(1) False] by (auto intro: is_safe_integer_between)
qed

lemma createIncompleteRead_Inr:
  "createIncompleteReadArchiveIntegrityEvidence rs = Inr e \<longleftrightarrow>
     rs \<noteq> [] \<and> ascending rs \<and> (\<forall>r \<in> set rs. is_safe_integer (rangeEnd r))
     \<and> e = \<lparr>integrity = Incomplete_read, policyVersion = Some dvd_recovery_evidence_format,
            badSectorCount = Some (sectorCount_of rs), badAreaCount = Some (length rs),
            badSectorRanges = Some (plainRanges rs), badSectorCountsByTitle = None\<rparr>"
proof -
  have safe: "(\<forall>r \<in> set (plainRanges rs). is_safe_integer (rangeEnd r) \<and> -1 \<le> startLba r)
      \<longleftrightarrow> (\<forall>r \<in> set rs. is_safe_integer (rangeEnd r) \<and> -1 \<le> startLba r)"
    by (auto simp: plainRanges_def rangeEnd_def)
  have start: "(\<forall>r \<in> set rs. is_safe_integer (rangeEnd r) \<and> -1 \<le> startLba r)
      \<longleftrightarrow> (\<forall>r \<in> set rs. is_safe_integer (rangeEnd r))" if "ascending rs"
    using that by (fastforce simp: ascending_def proper_range_def)
  have step: "createIncompleteReadArchiveIntegrityEvidence rs = Inr e \<longleftrightarrow>
      (\<exists>q. fold_result incompleteReadStep (-1, 0) (plainRanges rs) = Inr q
        \<and> rs \<noteq> [] \<and> is_safe_integer (snd q)
        \<and> e = \<lparr>integrity = Incomplete_read, policyVersion = Some dvd_recovery_evidence_format,
            badSectorCount = Some (snd q), badAreaCount = Some (length rs),
            badSectorRanges = Some (plainRanges rs), badSectorCountsByTitle = None\<rparr>)"
    by (auto simp: createIncompleteReadArchiveIntegrityEvidence_def Let_def split: sum.splits)
  show ?thesis
    unfolding step incompleteRead_loop
    using safe start ascending_total_safe [of rs] by (auto simp del: plainRanges_simps(2))
qed

lemma salvageStep_Inr [result_simps]:
  "salvageStep (pe, n) r = Inr q \<longleftrightarrow>
     q = (rangeEnd r, n + 1) \<and> 0 \<le> startLba r \<and> sectorCount r = 1
     \<and> is_safe_integer (rangeEnd r) \<and> pe < startLba r"
  by (auto simp: salvageStep_def Let_def rangeEnd_def is_safe_integer_def)

lemma salvage_loop:
  "fold_result salvageStep (pe, n) rs = Inr q \<Longrightarrow>
     separated rs \<and> (\<forall>r \<in> set rs. sectorCount r = 1 \<and> pe < startLba r) \<and> snd q = n + int (length rs)"
proof (induction rs arbitrary: pe n)
  case Nil
  then show ?case by auto
next
  case (Cons r rs)
  then obtain s where step: "salvageStep (pe, n) r = Inr s" "fold_result salvageStep s rs = Inr q"
    by (auto split: sum.splits)
  then have r: "0 \<le> startLba r" "sectorCount r = 1" "pe < startLba r"
    and rest: "fold_result salvageStep (rangeEnd r, n + 1) rs = Inr q"
    by (auto simp: result_simps)
  from Cons.IH [OF rest] r show ?case
    by (fastforce simp: separated_Cons proper_range_def rangeEnd_def)
qed

lemma salvageTitleStep_Inr [result_simps]:
  "salvageTitleStep bad p t = Inr q \<longleftrightarrow>
     q = titleNumber t \<and> is_safe_integer (titleNumber t) \<and> is_safe_integer (titleBadSectorCount t)
     \<and> p < titleNumber t \<and> 0 < titleBadSectorCount t \<and> titleBadSectorCount t \<le> min 16 bad"
  by (auto simp: salvageTitleStep_def)

lemma salvageTitle_loop:
  "fold_result (salvageTitleStep bad) p ts = Inr q \<Longrightarrow>
     sorted_wrt (<) (map titleNumber ts) \<and> (\<forall>t \<in> set ts. p < titleNumber t
       \<and> 0 < titleBadSectorCount t \<and> titleBadSectorCount t \<le> min 16 bad)"
proof (induction ts arbitrary: p)
  case Nil
  then show ?case by simp
next
  case (Cons t ts)
  then obtain u where "salvageTitleStep bad p t = Inr u"
    and "fold_result (salvageTitleStep bad) u ts = Inr q"
    by (auto split: sum.splits)
  then have t: "p < titleNumber t" "0 < titleBadSectorCount t" "titleBadSectorCount t \<le> min 16 bad"
    and rest: "fold_result (salvageTitleStep bad) (titleNumber t) ts = Inr q"
    by (simp_all add: result_simps)
  from Cons.IH [OF rest] t show ?case by force
qed

section \<open>Properties\<close>

text \<open>
  C31: incomplete-read evidence is accepted exactly for a nonempty ascending list of proper
  ranges whose ends are safe integers, and it then reports the exact number of distinct
  unresolved sectors, one area per range, and the ranges themselves without their
  classification.
\<close>

theorem incomplete_read_evidence_exact:
  "createIncompleteReadArchiveIntegrityEvidence rs = Inr e \<longleftrightarrow>
     rs \<noteq> [] \<and> ascending rs \<and> (\<forall>r \<in> set rs. is_safe_integer (rangeEnd r))
     \<and> e = \<lparr>integrity = Incomplete_read, policyVersion = Some dvd_recovery_evidence_format,
            badSectorCount = Some (int (card (covered rs))), badAreaCount = Some (length rs),
            badSectorRanges = Some (plainRanges rs), badSectorCountsByTitle = None\<rparr>"
  by (cases "ascending rs") (simp_all add: createIncompleteRead_Inr sectorCount_of_card)

theorem incomplete_read_evidence_exact_witness:
  "createIncompleteReadArchiveIntegrityEvidence example_map = Inr
     \<lparr>integrity = Incomplete_read, policyVersion = Some dvd_recovery_evidence_format,
      badSectorCount = Some (int (card (covered example_map))), badAreaCount = Some 3,
      badSectorRanges = Some (plainRanges example_map), badSectorCountsByTitle = None\<rparr>"
  by (rule incomplete_read_evidence_exact [THEN iffD2])
    (simp add: example_map_def ascending_def proper_range_def rangeEnd_def is_safe_integer_def
      max_safe_integer_def)

lemma recovery_format_policy:
  "createCleanReadArchiveIntegrityEvidence dvd_recovery_evidence_format =
     Inr \<lparr>integrity = Clean_read, policyVersion = Some dvd_recovery_evidence_format,
       badSectorCount = Some 0, badAreaCount = Some 0, badSectorRanges = Some [],
       badSectorCountsByTitle = None\<rparr>"
  by (simp add: createCleanReadArchiveIntegrityEvidence_def normalizePolicyVersion_def
      dvd_recovery_evidence_format_def js_trim_def js_whitespace_def Let_def)

text \<open>
  Projecting a recovery-evidence header with a canonical map whose sectors are safe
  integers onto its archive never fails; the archive becomes a clean read exactly when no
  source is unrecovered and an incomplete read otherwise, it reports the exact number of
  unrecovered sectors at the header's revision, and no other column changes.
\<close>

theorem authoritative_integrity_of_canonical_header:
  assumes "hdr_evidenceFormat h = dvd_recovery_evidence_format"
    and "canonical (hdr_unrecoveredSourceRanges h)"
    and "\<forall>r \<in> set (hdr_unrecoveredSourceRanges h). is_safe_integer (rangeEnd r)"
  shows "withAuthoritativeDvdArchiveIntegrity archive (Some h) = Inr (archive\<lparr>
    arc_integrity := (if hdr_unrecoveredSourceRanges h = [] then Clean_read else Incomplete_read),
    arc_integrityEvidenceRevision := Some (hdr_currentManifestRevision h),
    arc_integrityPolicyVersion := Some dvd_recovery_evidence_format,
    arc_badSectorCount := Some (int (card (dom (class_at (hdr_unrecoveredSourceRanges h))))),
    arc_badAreaCount := Some (length (hdr_unrecoveredSourceRanges h)),
    arc_badSectorRanges := None,
    arc_badSectorCountsByTitle := None\<rparr>)"
proof (cases "hdr_unrecoveredSourceRanges h = []")
  case True
  with assms(1) show ?thesis
    by (simp add: withAuthoritativeDvdArchiveIntegrity_def recovery_format_policy dom_class_at)
next
  case False
  with assms(2,3) have "createIncompleteReadArchiveIntegrityEvidence (hdr_unrecoveredSourceRanges h)
      = Inr \<lparr>integrity = Incomplete_read, policyVersion = Some dvd_recovery_evidence_format,
          badSectorCount = Some (sectorCount_of (hdr_unrecoveredSourceRanges h)),
          badAreaCount = Some (length (hdr_unrecoveredSourceRanges h)),
          badSectorRanges = Some (plainRanges (hdr_unrecoveredSourceRanges h)),
          badSectorCountsByTitle = None\<rparr>"
    by (simp add: createIncompleteRead_Inr canonical_ascending)
  with False assms(2) show ?thesis
    by (simp add: withAuthoritativeDvdArchiveIntegrity_def sectorCount_of_dom)
qed

theorem authoritative_integrity_of_canonical_header_witness:
  "\<exists>archive'. withAuthoritativeDvdArchiveIntegrity
      \<lparr>arc_integrity = Unknown_integrity, arc_integrityEvidenceRevision = None,
       arc_integrityPolicyVersion = None, arc_badSectorCount = None, arc_badAreaCount = None,
       arc_badSectorRanges = None, arc_badSectorCountsByTitle = None\<rparr>
      (Some \<lparr>hdr_originalDiscArchiveId = ''a'', hdr_evidenceFormat = dvd_recovery_evidence_format,
        hdr_boundaryEvidenceDigest = [], hdr_sectorSizeBytes = 2048,
        hdr_acceptedEndLbaExclusive = 100, hdr_currentManifestId = ''m'',
        hdr_currentManifestRevision = 3, hdr_currentManifestDigest = [],
        hdr_unrecoveredSourceRanges = example_map\<rparr>) = Inr archive'
    \<and> arc_integrity archive' = Incomplete_read
    \<and> arc_integrityEvidenceRevision archive' = Some 3"
proof -
  let ?a = "\<lparr>arc_integrity = Unknown_integrity, arc_integrityEvidenceRevision = None,
       arc_integrityPolicyVersion = None, arc_badSectorCount = None, arc_badAreaCount = None,
       arc_badSectorRanges = None, arc_badSectorCountsByTitle = None\<rparr>"
  let ?h = "\<lparr>hdr_originalDiscArchiveId = ''a'', hdr_evidenceFormat = dvd_recovery_evidence_format,
        hdr_boundaryEvidenceDigest = [], hdr_sectorSizeBytes = 2048,
        hdr_acceptedEndLbaExclusive = 100, hdr_currentManifestId = ''m'',
        hdr_currentManifestRevision = 3, hdr_currentManifestDigest = [],
        hdr_unrecoveredSourceRanges = example_map\<rparr>"
  have "\<forall>r \<in> set example_map. is_safe_integer (rangeEnd r)"
    by (simp add: example_map_def rangeEnd_def is_safe_integer_def max_safe_integer_def)
  then have "withAuthoritativeDvdArchiveIntegrity ?a (Some ?h) = Inr (?a\<lparr>
    arc_integrity := Incomplete_read,
    arc_integrityEvidenceRevision := Some 3,
    arc_integrityPolicyVersion := Some dvd_recovery_evidence_format,
    arc_badSectorCount := Some (int (card (dom (class_at example_map)))),
    arc_badAreaCount := Some (length example_map),
    arc_badSectorRanges := None,
    arc_badSectorCountsByTitle := None\<rparr>)"
    using authoritative_integrity_of_canonical_header [of ?h ?a] canonical_example_map
    by (simp add: example_map_def)
  then show ?thesis by simp
qed

text \<open>
  C32: accepted watchable-salvage evidence describes at most 32 single bad sectors, no two of
  them adjacent, with strictly increasing title numbers in at most 512 titles, each title
  charged with 1 to 16 sectors and never more than the disc has.
\<close>

theorem watchable_salvage_evidence_bounds:
  assumes "createWatchableSalvageArchiveIntegrityEvidence version rs titles = Inr e"
  shows "badSectorCount e = Some (int (card (covered rs)))
    \<and> 1 \<le> card (covered rs) \<and> card (covered rs) \<le> 32
    \<and> separated rs \<and> (\<forall>r \<in> set rs. sectorCount r = 1)
    \<and> badSectorCountsByTitle e = Some titles \<and> length titles \<le> 512
    \<and> sorted_wrt (<) (map titleNumber titles)
    \<and> (\<forall>t \<in> set titles. 1 \<le> titleNumber t \<and> 1 \<le> titleBadSectorCount t
        \<and> titleBadSectorCount t \<le> 16 \<and> titleBadSectorCount t \<le> int (card (covered rs)))"
proof -
  from assms obtain q p where loop: "fold_result salvageStep (-1, 0) (plainRanges rs) = Inr q"
    and nonempty: "rs \<noteq> []" and bound: "snd q \<le> 32" and len: "length titles \<le> 512"
    and titles: "fold_result (salvageTitleStep (snd q)) 0 titles = Inr p"
    and e: "badSectorCount e = Some (snd q)" "badSectorCountsByTitle e = Some titles"
    by (auto simp: createWatchableSalvageArchiveIntegrityEvidence_def Let_def
        max_watchable_salvage_bad_sectors_def max_dvd_titles_def split: sum.splits if_splits)
  note salvage = salvage_loop [OF loop]
  then have sep: "separated rs" and total: "snd q = int (length rs)" by simp_all
  from salvage have one: "\<forall>r \<in> set rs. sectorCount r = 1" by (auto simp: plainRanges_def)
  then have "sectorCount_of rs = int (length rs)" by (induction rs) auto
  then have card: "snd q = int (card (covered rs))" and "card (covered rs) = length rs"
    using sep total by (simp_all add: separated_ascending sectorCount_of_card)
  then have "1 \<le> card (covered rs)" and "card (covered rs) \<le> 32"
    using nonempty bound by (simp_all add: Suc_leI)
  with salvageTitle_loop [OF titles] card e sep one len show ?thesis by auto
qed

theorem watchable_salvage_evidence_bounds_witness:
  "\<exists>e. createWatchableSalvageArchiveIntegrityEvidence ''v1''
      [\<lparr>startLba = 5, sectorCount = 1\<rparr>, \<lparr>startLba = 7, sectorCount = 1\<rparr>]
      [\<lparr>titleNumber = 1, titleBadSectorCount = 2\<rparr>] = Inr e
    \<and> badSectorCount e = Some (int (card (covered
        [\<lparr>startLba = 5, sectorCount = 1\<rparr>, \<lparr>startLba = 7, sectorCount = 1\<rparr>])))"
proof -
  let ?rs = "[\<lparr>startLba = 5, sectorCount = 1\<rparr>, \<lparr>startLba = 7, sectorCount = 1\<rparr>]"
  let ?ts = "[\<lparr>titleNumber = 1, titleBadSectorCount = 2\<rparr>]"
  have "is_ok (createWatchableSalvageArchiveIntegrityEvidence ''v1'' ?rs ?ts)"
    by (simp add: createWatchableSalvageArchiveIntegrityEvidence_def plainRanges_def salvageStep_def
        salvageTitleStep_def normalizePolicyVersion_def js_trim_def js_whitespace_def
        is_safe_integer_def max_safe_integer_def max_watchable_salvage_bad_sectors_def
        max_dvd_titles_def Let_def)
  then obtain e where "createWatchableSalvageArchiveIntegrityEvidence ''v1'' ?rs ?ts = Inr e"
    by (auto simp: is_ok_iff)
  from this watchable_salvage_evidence_bounds [OF this] show ?thesis by blast
qed

end
