(* ===== verification/ArchiveBoundary.thy ===== *)
theory ArchiveBoundary
  imports Prelude
begin

text \<open>
  The evidence for where a DVD archive ends, \<open>packages/data-access/src/archive-boundary.ts\<close>,
  and the columns that persist it (\<open>internal/create-data-access.ts\<close>, the archive publication).

  A \<open>value: unknown\<close> is a \<open>boundary_value\<close>, each field present with its type or \<open>None\<close>; the code
  answers an absent field and a field of another type with the same error.  Sizes and
  addresses are \<open>int\<close>; the bit tests are the code's own.
\<close>

unbundle bit_operations_syntax

section \<open>Data\<close>

definition dvd_archive_boundary_policy_version :: string where
  "dvd_archive_boundary_policy_version = ''dvd-archive-boundary-v2''"

definition dvd_normal_endpoint_proof_version :: string where
  "dvd_normal_endpoint_proof_version = ''dvd-normal-endpoint-proof-v1''"

definition legacy_dvd_archive_boundary_policy_version :: string where
  "legacy_dvd_archive_boundary_policy_version = ''dvd-archive-boundary-v1''"

definition dvd_sector_size_bytes :: int where
  "dvd_sector_size_bytes = 2048"

definition max_dvd_content_bytes :: int where
  "max_dvd_content_bytes = 9000000000"

record boundary_base =
  policyVersion :: string
  reportedSizeBytes :: int
  publishedSizeBytes :: int
  excludedSectorCount :: int

record out_of_range_evidence =
  classifierVersion :: string
  scsiStatus :: int
  hostStatus :: int
  driverStatus :: int
  senseResponseCode :: int
  senseKey :: int
  asc :: int
  ascq :: int

record endpoint_proof =
  proofVersion :: string
  confirmationCount :: int
  proof_firstExcludedLba :: int
  proof_outOfRangeEvidence :: out_of_range_evidence

record normal_boundary_evidence = boundary_base +
  endpointProof :: endpoint_proof

record corrected_boundary_evidence = boundary_base +
  firstExcludedLba :: int
  maximumReferencedLba :: int
  outOfRangeEvidence :: out_of_range_evidence

datatype archive_boundary_evidence =
    Legacy_normal boundary_base
  | Normal normal_boundary_evidence
  | Corrected corrected_boundary_evidence

record boundary_value =
  v_policyVersion :: "string option"
  v_reportedSizeBytes :: "int option"
  v_publishedSizeBytes :: "int option"
  v_excludedSectorCount :: "int option"
  v_endpointProof :: "endpoint_proof option"
  v_firstExcludedLba :: "int option"
  v_maximumReferencedLba :: "int option"
  v_outOfRangeEvidence :: "out_of_range_evidence option"

record archive_boundary_columns =
  boundaryPolicyVersion :: "string option"
  boundaryReportedSizeBytes :: "int option"
  boundaryPublishedSizeBytes :: "int option"
  boundaryExcludedSectorCount :: "int option"
  boundaryFirstExcludedLba :: "int option"
  boundaryMaximumReferencedLba :: "int option"
  boundaryReadFailureClassifierVersion :: "string option"
  boundaryReadFailureScsiStatus :: "int option"
  boundaryReadFailureHostStatus :: "int option"
  boundaryReadFailureDriverStatus :: "int option"
  boundaryReadFailureSenseResponseCode :: "int option"
  boundaryReadFailureSenseKey :: "int option"
  boundaryReadFailureAsc :: "int option"
  boundaryReadFailureAscq :: "int option"

section \<open>Operations\<close>

definition isValidDvdSize :: "int \<Rightarrow> bool" where
  "isValidDvdSize value \<longleftrightarrow>
     is_safe_integer value \<and> 0 < value \<and> value \<le> max_dvd_content_bytes"

definition correctedEvidenceError :: js_error where
  "correctedEvidenceError =
     DomainInvariantError ''Corrected DVD archive-boundary evidence is invalid''"

definition normalEvidenceError :: js_error where
  "normalEvidenceError = DomainInvariantError ''Normal DVD archive-boundary evidence is invalid''"

definition normalizeOutOfRangeEvidence ::
  "out_of_range_evidence \<Rightarrow> js_error \<Rightarrow> out_of_range_evidence result" where
  "normalizeOutOfRangeEvidence e invalidEvidence =
     (if length (classifierVersion e) = 0
       \<or> length (classifierVersion e) > 128
       \<or> \<not> is_safe_integer (scsiStatus e)
       \<or> scsiStatus e < 0
       \<or> scsiStatus e > 0xff
       \<or> scsiStatus e AND 0xfe \<noteq> 2
       \<or> hostStatus e \<noteq> 0
       \<or> \<not> is_safe_integer (driverStatus e)
       \<or> driverStatus e < 0
       \<or> driverStatus e > 0xffff
       \<or> (driverStatus e AND 0x0f \<noteq> 0 \<and> driverStatus e AND 0x0f \<noteq> 8)
       \<or> (senseResponseCode e \<noteq> 0x70 \<and> senseResponseCode e \<noteq> 0x72)
       \<or> senseKey e \<noteq> 0x05
       \<or> asc e \<noteq> 0x21
       \<or> ascq e \<noteq> 0
      then Inl invalidEvidence
      else Inr \<lparr>classifierVersion = classifierVersion e, scsiStatus = scsiStatus e,
        hostStatus = hostStatus e, driverStatus = driverStatus e,
        senseResponseCode = senseResponseCode e, senseKey = senseKey e, asc = asc e,
        ascq = ascq e\<rparr>)"

definition createNormalDvdArchiveBoundaryEvidence ::
  "int \<Rightarrow> endpoint_proof option \<Rightarrow> normal_boundary_evidence result" where
  "createNormalDvdArchiveBoundaryEvidence reported proof_object =
     (case proof_object of
        None \<Rightarrow> Inl normalEvidenceError
      | Some p \<Rightarrow>
          if \<not> isValidDvdSize reported
           \<or> reported mod dvd_sector_size_bytes \<noteq> 0
           \<or> proofVersion p \<noteq> dvd_normal_endpoint_proof_version
           \<or> confirmationCount p \<noteq> 2
           \<or> \<not> is_safe_integer (proof_firstExcludedLba p)
           \<or> proof_firstExcludedLba p \<noteq> reported div dvd_sector_size_bytes
          then Inl normalEvidenceError
          else (case normalizeOutOfRangeEvidence (proof_outOfRangeEvidence p) normalEvidenceError of
              Inl e \<Rightarrow> Inl e
            | Inr out_of_range \<Rightarrow> Inr
                \<lparr>policyVersion = dvd_archive_boundary_policy_version,
                 reportedSizeBytes = reported,
                 publishedSizeBytes = reported,
                 excludedSectorCount = 0,
                 endpointProof =
                   \<lparr>proofVersion = dvd_normal_endpoint_proof_version, confirmationCount = 2,
                    proof_firstExcludedLba = proof_firstExcludedLba p,
                    proof_outOfRangeEvidence = out_of_range\<rparr>\<rparr>))"

definition createCorrectedDvdArchiveBoundaryEvidence ::
  "int \<Rightarrow> int \<Rightarrow> int \<Rightarrow> int \<Rightarrow> out_of_range_evidence option \<Rightarrow>
     corrected_boundary_evidence result" where
  "createCorrectedDvdArchiveBoundaryEvidence reported published first_excluded max_referenced
       out_of_range_object =
     (let excludedByteCount = reported - published in
      case out_of_range_object of
        None \<Rightarrow> Inl correctedEvidenceError
      | Some out_of_range_input \<Rightarrow>
          if \<not> isValidDvdSize reported
           \<or> \<not> isValidDvdSize published
           \<or> reported mod dvd_sector_size_bytes \<noteq> 0
           \<or> published mod dvd_sector_size_bytes \<noteq> 0
           \<or> published \<ge> reported
           \<or> \<not> is_safe_integer first_excluded
           \<or> first_excluded \<noteq> published div dvd_sector_size_bytes
           \<or> \<not> is_safe_integer max_referenced
           \<or> max_referenced < 0
           \<or> max_referenced \<ge> first_excluded
           \<or> \<not> is_safe_integer excludedByteCount
           \<or> excludedByteCount \<le> 0
           \<or> excludedByteCount mod dvd_sector_size_bytes \<noteq> 0
          then Inl correctedEvidenceError
          else (case normalizeOutOfRangeEvidence out_of_range_input correctedEvidenceError of
              Inl e \<Rightarrow> Inl e
            | Inr out_of_range \<Rightarrow> Inr
                \<lparr>policyVersion = legacy_dvd_archive_boundary_policy_version,
                 reportedSizeBytes = reported,
                 publishedSizeBytes = published,
                 excludedSectorCount = excludedByteCount div dvd_sector_size_bytes,
                 firstExcludedLba = first_excluded,
                 maximumReferencedLba = max_referenced,
                 outOfRangeEvidence = out_of_range\<rparr>))"

text \<open>
  The last guard of the normal validation compares every field of the endpoint proof with its
  normal form, and the cause of the failed read field by field.
\<close>

definition validateNormalDvdArchiveBoundaryEvidence ::
  "boundary_value option \<Rightarrow> int \<Rightarrow> normal_boundary_evidence result" where
  "validateNormalDvdArchiveBoundaryEvidence value publishedArchiveSizeBytes =
     (case value of
        None \<Rightarrow> Inl normalEvidenceError
      | Some v \<Rightarrow>
          (case (v_reportedSizeBytes v, v_endpointProof v) of
             (Some reported, Some p) \<Rightarrow>
               (case createNormalDvdArchiveBoundaryEvidence reported (Some p) of
                  Inl e \<Rightarrow> Inl e
                | Inr normalized \<Rightarrow>
                    let given = proof_outOfRangeEvidence p;
                        normal = proof_outOfRangeEvidence (endpointProof normalized) in
                    if v_policyVersion v \<noteq> Some (policyVersion normalized)
                     \<or> v_publishedSizeBytes v \<noteq> Some (publishedSizeBytes normalized)
                     \<or> v_excludedSectorCount v \<noteq> Some (excludedSectorCount normalized)
                     \<or> publishedArchiveSizeBytes \<noteq> publishedSizeBytes normalized
                     \<or> proofVersion p \<noteq> proofVersion (endpointProof normalized)
                     \<or> confirmationCount p \<noteq> confirmationCount (endpointProof normalized)
                     \<or> proof_firstExcludedLba p \<noteq> proof_firstExcludedLba (endpointProof normalized)
                     \<or> classifierVersion given \<noteq> classifierVersion normal
                     \<or> scsiStatus given \<noteq> scsiStatus normal
                     \<or> hostStatus given \<noteq> hostStatus normal
                     \<or> driverStatus given \<noteq> driverStatus normal
                     \<or> senseResponseCode given \<noteq> senseResponseCode normal
                     \<or> senseKey given \<noteq> senseKey normal
                     \<or> asc given \<noteq> asc normal
                     \<or> ascq given \<noteq> ascq normal
                    then Inl normalEvidenceError
                    else Inr normalized)
           | _ \<Rightarrow> Inl normalEvidenceError))"

definition validateLegacyNormalDvdArchiveBoundaryEvidence ::
  "boundary_value option \<Rightarrow> int \<Rightarrow> boundary_base result" where
  "validateLegacyNormalDvdArchiveBoundaryEvidence value publishedArchiveSizeBytes =
     (case value of
        None \<Rightarrow> Inl normalEvidenceError
      | Some v \<Rightarrow>
          (case (v_reportedSizeBytes v, v_publishedSizeBytes v) of
             (Some reported, Some published) \<Rightarrow>
               if v_policyVersion v \<noteq> Some legacy_dvd_archive_boundary_policy_version
                \<or> \<not> isValidDvdSize reported
                \<or> published \<noteq> reported
                \<or> v_excludedSectorCount v \<noteq> Some 0
                \<or> publishedArchiveSizeBytes \<noteq> published
               then Inl normalEvidenceError
               else Inr \<lparr>policyVersion = legacy_dvd_archive_boundary_policy_version,
                 reportedSizeBytes = reported, publishedSizeBytes = published,
                 excludedSectorCount = 0\<rparr>
           | _ \<Rightarrow> Inl normalEvidenceError))"

definition validateDvdArchiveBoundaryEvidence ::
  "boundary_value option \<Rightarrow> int \<Rightarrow> archive_boundary_evidence result" where
  "validateDvdArchiveBoundaryEvidence value publishedArchiveSizeBytes =
     (case value of
        None \<Rightarrow> Inl correctedEvidenceError
      | Some v \<Rightarrow>
          if v_excludedSectorCount v = None then Inl correctedEvidenceError
          else if v_excludedSectorCount v = Some 0 then
            (if v_policyVersion v = Some legacy_dvd_archive_boundary_policy_version
             then map_sum id Legacy_normal
               (validateLegacyNormalDvdArchiveBoundaryEvidence (Some v) publishedArchiveSizeBytes)
             else map_sum id Normal
               (validateNormalDvdArchiveBoundaryEvidence (Some v) publishedArchiveSizeBytes))
          else
            (case (v_reportedSizeBytes v, v_publishedSizeBytes v, v_firstExcludedLba v,
                   v_maximumReferencedLba v, v_outOfRangeEvidence v) of
               (Some reported, Some published, Some first_excluded, Some max_referenced,
                Some out_of_range) \<Rightarrow>
                 (case createCorrectedDvdArchiveBoundaryEvidence reported published first_excluded
                         max_referenced (Some out_of_range) of
                    Inl e \<Rightarrow> Inl e
                  | Inr normalized \<Rightarrow>
                      if v_policyVersion v \<noteq> Some (policyVersion normalized)
                       \<or> v_excludedSectorCount v \<noteq> Some (excludedSectorCount normalized)
                       \<or> publishedArchiveSizeBytes \<noteq> publishedSizeBytes normalized
                      then Inl correctedEvidenceError
                      else Inr (Corrected normalized))
             | _ \<Rightarrow> Inl correctedEvidenceError))"

text \<open>The fourteen columns, \<open>values\<close> in the code, as tests for \<open>null\<close>; the last ten are \<open>slice(4)\<close>.\<close>

definition null_columns :: "archive_boundary_columns \<Rightarrow> bool list" where
  "null_columns r =
     [boundaryPolicyVersion r = None, boundaryReportedSizeBytes r = None,
      boundaryPublishedSizeBytes r = None, boundaryExcludedSectorCount r = None,
      boundaryFirstExcludedLba r = None, boundaryMaximumReferencedLba r = None,
      boundaryReadFailureClassifierVersion r = None, boundaryReadFailureScsiStatus r = None,
      boundaryReadFailureHostStatus r = None, boundaryReadFailureDriverStatus r = None,
      boundaryReadFailureSenseResponseCode r = None, boundaryReadFailureSenseKey r = None,
      boundaryReadFailureAsc r = None, boundaryReadFailureAscq r = None]"

definition read_failure_columns :: "archive_boundary_columns \<Rightarrow> out_of_range_evidence option" where
  "read_failure_columns r =
     (case (boundaryReadFailureClassifierVersion r, boundaryReadFailureScsiStatus r,
            boundaryReadFailureHostStatus r, boundaryReadFailureDriverStatus r,
            boundaryReadFailureSenseResponseCode r, boundaryReadFailureSenseKey r,
            boundaryReadFailureAsc r, boundaryReadFailureAscq r) of
        (Some classifier, Some scsi, Some host, Some driver, Some response, Some key,
         Some sense_asc, Some sense_ascq) \<Rightarrow>
          Some \<lparr>classifierVersion = classifier, scsiStatus = scsi, hostStatus = host,
            driverStatus = driver, senseResponseCode = response, senseKey = key,
            asc = sense_asc, ascq = sense_ascq\<rparr>
      | _ \<Rightarrow> None)"

definition incompleteBoundaryError :: js_error where
  "incompleteBoundaryError =
     DomainInvariantError ''Persisted archive-boundary evidence is incomplete''"

definition contradictoryBoundaryError :: js_error where
  "contradictoryBoundaryError =
     DomainInvariantError ''Persisted archive-boundary evidence is contradictory''"

definition archiveBoundaryEvidenceFromRecord ::
  "archive_boundary_columns \<Rightarrow> archive_boundary_evidence option result" where
  "archiveBoundaryEvidenceFromRecord r =
     (if list_all id (null_columns r) then Inr None
      else
        case (boundaryPolicyVersion r, boundaryReportedSizeBytes r,
              boundaryPublishedSizeBytes r, boundaryExcludedSectorCount r) of
          (Some policy, Some reported, Some published, Some excluded) \<Rightarrow>
            let base = \<lparr>v_policyVersion = Some policy, v_reportedSizeBytes = Some reported,
                  v_publishedSizeBytes = Some published, v_excludedSectorCount = Some excluded,
                  v_endpointProof = None, v_firstExcludedLba = None,
                  v_maximumReferencedLba = None, v_outOfRangeEvidence = None\<rparr> in
            if excluded = 0 then
              (if policy = legacy_dvd_archive_boundary_policy_version
                  \<and> list_all id (drop 4 (null_columns r))
               then map_sum id (\<lambda>e. Some (Legacy_normal e))
                 (validateLegacyNormalDvdArchiveBoundaryEvidence (Some base) published)
               else if policy \<noteq> dvd_archive_boundary_policy_version
                  \<or> boundaryMaximumReferencedLba r \<noteq> None
               then Inl contradictoryBoundaryError
               else
                 case (boundaryFirstExcludedLba r, read_failure_columns r) of
                   (Some first_excluded, Some out_of_range) \<Rightarrow>
                     map_sum id (\<lambda>e. Some (Normal e))
                       (validateNormalDvdArchiveBoundaryEvidence
                         (Some (base\<lparr>v_endpointProof := Some
                           \<lparr>proofVersion = dvd_normal_endpoint_proof_version,
                            confirmationCount = 2, proof_firstExcludedLba = first_excluded,
                            proof_outOfRangeEvidence = out_of_range\<rparr>\<rparr>)) published)
                 | _ \<Rightarrow> Inl contradictoryBoundaryError)
            else
              (case (boundaryFirstExcludedLba r, boundaryMaximumReferencedLba r,
                     read_failure_columns r) of
                 (Some first_excluded, Some max_referenced, Some out_of_range) \<Rightarrow>
                   map_sum id Some
                     (validateDvdArchiveBoundaryEvidence
                       (Some (base\<lparr>v_firstExcludedLba := Some first_excluded,
                         v_maximumReferencedLba := Some max_referenced,
                         v_outOfRangeEvidence := Some out_of_range\<rparr>)) published)
               | _ \<Rightarrow> Inl incompleteBoundaryError)
        | _ \<Rightarrow> Inl incompleteBoundaryError)"

text \<open>The boundary columns of the row that a publication inserts.\<close>

definition boundaryProof ::
  "archive_boundary_evidence \<Rightarrow> (int \<times> int option \<times> out_of_range_evidence) option" where
  "boundaryProof evidence =
     (case evidence of
        Normal e \<Rightarrow> Some (proof_firstExcludedLba (endpointProof e), None,
                         proof_outOfRangeEvidence (endpointProof e))
      | Corrected e \<Rightarrow> Some (firstExcludedLba e, Some (maximumReferencedLba e),
                         outOfRangeEvidence e)
      | Legacy_normal e \<Rightarrow> None)"

fun boundary_base_of :: "archive_boundary_evidence \<Rightarrow> boundary_base" where
  "boundary_base_of (Legacy_normal e) = e"
| "boundary_base_of (Normal e) = boundary_base.truncate e"
| "boundary_base_of (Corrected e) = boundary_base.truncate e"

definition boundaryColumns :: "archive_boundary_evidence \<Rightarrow> archive_boundary_columns" where
  "boundaryColumns evidence =
     (let base = boundary_base_of evidence;
          first = map_option fst (boundaryProof evidence);
          max_referenced = Option.bind (boundaryProof evidence) (fst \<circ> snd);
          out_of_range = map_option (snd \<circ> snd) (boundaryProof evidence) in
      \<lparr>boundaryPolicyVersion = Some (policyVersion base),
       boundaryReportedSizeBytes = Some (reportedSizeBytes base),
       boundaryPublishedSizeBytes = Some (publishedSizeBytes base),
       boundaryExcludedSectorCount = Some (excludedSectorCount base),
       boundaryFirstExcludedLba = first,
       boundaryMaximumReferencedLba = max_referenced,
       boundaryReadFailureClassifierVersion = map_option classifierVersion out_of_range,
       boundaryReadFailureScsiStatus = map_option scsiStatus out_of_range,
       boundaryReadFailureHostStatus = map_option hostStatus out_of_range,
       boundaryReadFailureDriverStatus = map_option driverStatus out_of_range,
       boundaryReadFailureSenseResponseCode = map_option senseResponseCode out_of_range,
       boundaryReadFailureSenseKey = map_option senseKey out_of_range,
       boundaryReadFailureAsc = map_option asc out_of_range,
       boundaryReadFailureAscq = map_option ascq out_of_range\<rparr>)"

section \<open>What boundary evidence promises\<close>

text \<open>
  A read past the medium answered with CHECK CONDITION, ILLEGAL REQUEST, LOGICAL BLOCK ADDRESS
  OUT OF RANGE: the status and driver words may carry further bits, spelt out here as values.
\<close>

definition proves_out_of_range :: "out_of_range_evidence \<Rightarrow> bool" where
  "proves_out_of_range e \<longleftrightarrow>
     0 < length (classifierVersion e) \<and> length (classifierVersion e) \<le> 128
     \<and> (scsiStatus e = 2 \<or> scsiStatus e = 3) \<and> hostStatus e = 0
     \<and> 0 \<le> driverStatus e \<and> driverStatus e \<le> 65535
     \<and> (driverStatus e mod 16 = 0 \<or> driverStatus e mod 16 = 8)
     \<and> (senseResponseCode e = 112 \<or> senseResponseCode e = 114)
     \<and> senseKey e = 5 \<and> asc e = 33 \<and> ascq e = 0"

fun sound_boundary :: "archive_boundary_evidence \<Rightarrow> bool" where
  "sound_boundary (Legacy_normal e) \<longleftrightarrow>
     policyVersion e = legacy_dvd_archive_boundary_policy_version
     \<and> 0 < reportedSizeBytes e \<and> reportedSizeBytes e \<le> max_dvd_content_bytes
     \<and> publishedSizeBytes e = reportedSizeBytes e \<and> excludedSectorCount e = 0"
| "sound_boundary (Normal e) \<longleftrightarrow>
     policyVersion e = dvd_archive_boundary_policy_version
     \<and> 0 < reportedSizeBytes e \<and> reportedSizeBytes e \<le> max_dvd_content_bytes
     \<and> publishedSizeBytes e = reportedSizeBytes e \<and> excludedSectorCount e = 0
     \<and> proofVersion (endpointProof e) = dvd_normal_endpoint_proof_version
     \<and> confirmationCount (endpointProof e) = 2
     \<and> proof_firstExcludedLba (endpointProof e) * 2048 = publishedSizeBytes e
     \<and> proves_out_of_range (proof_outOfRangeEvidence (endpointProof e))"
| "sound_boundary (Corrected e) \<longleftrightarrow>
     policyVersion e = legacy_dvd_archive_boundary_policy_version
     \<and> reportedSizeBytes e \<le> max_dvd_content_bytes
     \<and> 0 \<le> maximumReferencedLba e \<and> maximumReferencedLba e < firstExcludedLba e
     \<and> firstExcludedLba e * 2048 = publishedSizeBytes e
     \<and> 0 < excludedSectorCount e
     \<and> (firstExcludedLba e + excludedSectorCount e) * 2048 = reportedSizeBytes e
     \<and> proves_out_of_range (outOfRangeEvidence e)"

definition empty_boundary_value :: boundary_value where
  "empty_boundary_value =
     \<lparr>v_policyVersion = None, v_reportedSizeBytes = None, v_publishedSizeBytes = None,
      v_excludedSectorCount = None, v_endpointProof = None, v_firstExcludedLba = None,
      v_maximumReferencedLba = None, v_outOfRangeEvidence = None\<rparr>"

text \<open>A value states a piece of evidence when it has all of the evidence's fields; it may have more.\<close>

definition states_base :: "boundary_value \<Rightarrow> boundary_base \<Rightarrow> bool" where
  "states_base v e \<longleftrightarrow>
     v_policyVersion v = Some (policyVersion e)
     \<and> v_reportedSizeBytes v = Some (reportedSizeBytes e)
     \<and> v_publishedSizeBytes v = Some (publishedSizeBytes e)
     \<and> v_excludedSectorCount v = Some (excludedSectorCount e)"

fun states :: "boundary_value \<Rightarrow> archive_boundary_evidence \<Rightarrow> bool" where
  "states v (Legacy_normal e) \<longleftrightarrow> states_base v e"
| "states v (Normal e) \<longleftrightarrow>
     states_base v (boundary_base.truncate e) \<and> v_endpointProof v = Some (endpointProof e)"
| "states v (Corrected e) \<longleftrightarrow>
     states_base v (boundary_base.truncate e)
     \<and> v_firstExcludedLba v = Some (firstExcludedLba e)
     \<and> v_maximumReferencedLba v = Some (maximumReferencedLba e)
     \<and> v_outOfRangeEvidence v = Some (outOfRangeEvidence e)"

section \<open>Facts\<close>

lemma scsi_check_condition:
  assumes "0 \<le> s" and "s \<le> 255"
  shows "s AND 254 = 2 \<longleftrightarrow> s = 2 \<or> s = (3::int)"
proof -
  have "list_all (\<lambda>s. s AND 254 = 2 \<longleftrightarrow> s = 2 \<or> s = (3::int)) [0..255]"
    by code_simp
  then show ?thesis using assms by (simp add: list_all_iff)
qed

lemma driver_status_mask: "d AND 15 = d mod (16::int)"
  using take_bit_eq_mask [of 4 d] by (simp add: take_bit_eq_mod mask_eq_exp_minus_1)

lemma normalizeOutOfRangeEvidence_Inr [result_simps]:
  "normalizeOutOfRangeEvidence e err = Inr n \<longleftrightarrow> n = e \<and> proves_out_of_range e"
  using scsi_check_condition [of "scsiStatus e"]
  by (auto simp: normalizeOutOfRangeEvidence_def proves_out_of_range_def driver_status_mask
      is_safe_integer_def max_safe_integer_def)

lemma isValidDvdSize_iff: "isValidDvdSize n \<longleftrightarrow> 0 < n \<and> n \<le> max_dvd_content_bytes"
  by (auto simp: isValidDvdSize_def is_safe_integer_def max_safe_integer_def
      max_dvd_content_bytes_def)

lemma whole_sectors: "(bytes mod 2048 = 0 \<and> sectors = bytes div 2048) \<longleftrightarrow> sectors * 2048 = (bytes::int)"
  by auto

lemma createNormal_Inr [result_simps]:
  "createNormalDvdArchiveBoundaryEvidence reported p = Inr e \<longleftrightarrow>
     p = Some (endpointProof e) \<and> reported = reportedSizeBytes e \<and> sound_boundary (Normal e)"
proof (cases p)
  case (Some q)
  have "is_safe_integer (proof_firstExcludedLba q)"
    if "proof_firstExcludedLba q * 2048 = reported" and "0 < reported"
      and "reported \<le> max_dvd_content_bytes"
    using that by (auto simp: is_safe_integer_def max_safe_integer_def max_dvd_content_bytes_def)
  then show ?thesis
    using whole_sectors [of reported "proof_firstExcludedLba q"]
    unfolding Some
    by (cases e, cases q, simp only: createNormalDvdArchiveBoundaryEvidence_def result_simps
        isValidDvdSize_iff dvd_sector_size_bytes_def option.case)
      auto
qed (auto simp: createNormalDvdArchiveBoundaryEvidence_def)

lemma corrected_extent:
  "(isValidDvdSize reported \<and> isValidDvdSize published
     \<and> reported mod dvd_sector_size_bytes = 0 \<and> published mod dvd_sector_size_bytes = 0
     \<and> published < reported
     \<and> is_safe_integer first_excluded \<and> first_excluded = published div dvd_sector_size_bytes
     \<and> is_safe_integer max_referenced \<and> 0 \<le> max_referenced \<and> max_referenced < first_excluded
     \<and> is_safe_integer (reported - published) \<and> 0 < reported - published
     \<and> (reported - published) mod dvd_sector_size_bytes = 0
     \<and> excluded = (reported - published) div dvd_sector_size_bytes)
   \<longleftrightarrow> reported \<le> max_dvd_content_bytes \<and> 0 \<le> max_referenced \<and> max_referenced < first_excluded
     \<and> first_excluded * 2048 = published \<and> 0 < excluded
     \<and> (first_excluded + excluded) * 2048 = reported" (is "?guards \<longleftrightarrow> ?extent")
proof
  assume ?guards
  then have "first_excluded * 2048 = published" and "excluded * 2048 = reported - published"
    using whole_sectors [of published first_excluded]
      whole_sectors [of "reported - published" excluded]
    by (simp_all add: dvd_sector_size_bytes_def)
  with \<open>?guards\<close> show ?extent
    by (simp add: isValidDvdSize_iff algebra_simps)
next
  assume extent: ?extent
  then have reported: "reported = (first_excluded + excluded) * 2048"
    and published: "published = first_excluded * 2048"
    and difference: "reported - published = excluded * 2048" by auto
  from extent reported have "first_excluded + excluded \<le> 9000000000"
    by (simp add: max_dvd_content_bytes_def)
  with extent show ?guards
    unfolding difference
    by (simp add: reported published isValidDvdSize_iff dvd_sector_size_bytes_def
        is_safe_integer_def max_safe_integer_def max_dvd_content_bytes_def)
qed

lemma createCorrected_Inr [result_simps]:
  "createCorrectedDvdArchiveBoundaryEvidence reported published first_excluded max_referenced p
     = Inr e \<longleftrightarrow>
     p = Some (outOfRangeEvidence e) \<and> reported = reportedSizeBytes e
     \<and> published = publishedSizeBytes e \<and> first_excluded = firstExcludedLba e
     \<and> max_referenced = maximumReferencedLba e \<and> sound_boundary (Corrected e)"
proof (cases p)
  case (Some q)
  show ?thesis
    using corrected_extent [of reported published first_excluded max_referenced
        "excludedSectorCount e"]
    unfolding Some
    by (cases e, simp only: createCorrectedDvdArchiveBoundaryEvidence_def result_simps Let_def
        option.case de_Morgan_disj not_le not_less not_not) auto
qed (auto simp: createCorrectedDvdArchiveBoundaryEvidence_def Let_def)

lemma validateNormal_Inr [result_simps]:
  "validateNormalDvdArchiveBoundaryEvidence (Some v) published = Inr e \<longleftrightarrow>
     states v (Normal e) \<and> published = publishedSizeBytes e \<and> sound_boundary (Normal e)"
proof (cases "(v_reportedSizeBytes v, v_endpointProof v)")
  case (Pair reported p)
  show ?thesis
  proof (cases "\<exists>r q. reported = Some r \<and> p = Some q")
    case True
    then obtain r q where "reported = Some r" and "p = Some q" by blast
    with Pair show ?thesis
      by (simp only: validateNormalDvdArchiveBoundaryEvidence_def result_simps Let_def
          option.case prod.case prod.inject)
        (auto simp: states_base_def boundary_base.truncate_def)
  next
    case False
    with Pair show ?thesis
      by (auto simp: validateNormalDvdArchiveBoundaryEvidence_def states_base_def
          boundary_base.truncate_def split: option.splits)
  qed
qed

lemma validateLegacyNormal_Inr [result_simps]:
  "validateLegacyNormalDvdArchiveBoundaryEvidence (Some v) published = Inr e \<longleftrightarrow>
     states v (Legacy_normal e) \<and> published = publishedSizeBytes e \<and> sound_boundary (Legacy_normal e)"
  by (cases e) (auto simp: validateLegacyNormalDvdArchiveBoundaryEvidence_def states_base_def
      isValidDvdSize_iff split: option.splits)

lemma validateDvdArchiveBoundaryEvidence_Inr [result_simps]:
  "validateDvdArchiveBoundaryEvidence (Some v) published = Inr e \<longleftrightarrow>
     states v e \<and> published = publishedSizeBytes (boundary_base_of e) \<and> sound_boundary e"
proof -
  consider (absent) "v_excludedSectorCount v = None"
    | (legacy) "v_excludedSectorCount v = Some 0"
        "v_policyVersion v = Some legacy_dvd_archive_boundary_policy_version"
    | (normal) "v_excludedSectorCount v = Some 0"
        "v_policyVersion v \<noteq> Some legacy_dvd_archive_boundary_policy_version"
    | (corrected) n where "v_excludedSectorCount v = Some n" "n \<noteq> 0" by fastforce
  then show ?thesis
  proof cases
    case absent
    then show ?thesis
      by (cases e) (auto simp: validateDvdArchiveBoundaryEvidence_def states_base_def)
  next
    case legacy
    then have "validateDvdArchiveBoundaryEvidence (Some v) published = Inr e \<longleftrightarrow>
        (\<exists>n. e = Legacy_normal n
          \<and> validateLegacyNormalDvdArchiveBoundaryEvidence (Some v) published = Inr n)"
      by (auto simp: validateDvdArchiveBoundaryEvidence_def map_sum_Inr)
    with legacy show ?thesis
      by (cases e) (auto simp: validateLegacyNormal_Inr states_base_def
          boundary_base.truncate_def dvd_archive_boundary_policy_version_def
          legacy_dvd_archive_boundary_policy_version_def)
  next
    case normal
    then have "validateDvdArchiveBoundaryEvidence (Some v) published = Inr e \<longleftrightarrow>
        (\<exists>n. e = Normal n \<and> validateNormalDvdArchiveBoundaryEvidence (Some v) published = Inr n)"
      by (auto simp: validateDvdArchiveBoundaryEvidence_def map_sum_Inr)
    with normal show ?thesis
      by (cases e) (auto simp: validateNormal_Inr states_base_def boundary_base.truncate_def)
  next
    case corrected
    then show ?thesis
      by (cases e) (auto simp: validateDvdArchiveBoundaryEvidence_def result_simps
          states_base_def boundary_base.truncate_def split: option.splits)
  qed
qed

lemma read_failure_columns_Some:
  "read_failure_columns r = Some e \<longleftrightarrow>
     boundaryReadFailureClassifierVersion r = Some (classifierVersion e)
     \<and> boundaryReadFailureScsiStatus r = Some (scsiStatus e)
     \<and> boundaryReadFailureHostStatus r = Some (hostStatus e)
     \<and> boundaryReadFailureDriverStatus r = Some (driverStatus e)
     \<and> boundaryReadFailureSenseResponseCode r = Some (senseResponseCode e)
     \<and> boundaryReadFailureSenseKey r = Some (senseKey e)
     \<and> boundaryReadFailureAsc r = Some (asc e)
     \<and> boundaryReadFailureAscq r = Some (ascq e)"
  by (cases e) (auto simp: read_failure_columns_def split: option.splits)

lemma endpoint_proof_eq:
  "\<lparr>proofVersion = a, confirmationCount = b, proof_firstExcludedLba = c,
    proof_outOfRangeEvidence = d\<rparr> = p \<longleftrightarrow>
     a = proofVersion p \<and> b = confirmationCount p \<and> c = proof_firstExcludedLba p
     \<and> d = proof_outOfRangeEvidence p"
  by (cases p) auto

lemma FromRecord_boundaryColumns:
  assumes "sound_boundary e"
  shows "archiveBoundaryEvidenceFromRecord (boundaryColumns e) = Inr (Some e)"
proof -
  have "validateDvdArchiveBoundaryEvidence (Some v) published = Inr e \<longleftrightarrow>
      states v e \<and> published = publishedSizeBytes (boundary_base_of e)" for v published
    using assms by (simp add: validateDvdArchiveBoundaryEvidence_Inr)
  moreover have "read_failure_columns (boundaryColumns e) = map_option (snd \<circ> snd) (boundaryProof e)"
    by (cases "boundaryProof e") (simp_all add: read_failure_columns_def boundaryColumns_def Let_def)
  ultimately show ?thesis
    using assms
    by (cases e) (simp_all add: archiveBoundaryEvidenceFromRecord_def null_columns_def
      boundaryColumns_def boundaryProof_def Let_def boundary_base.truncate_def map_sum_Inr
      validateLegacyNormal_Inr validateNormal_Inr states_base_def
      dvd_archive_boundary_policy_version_def legacy_dvd_archive_boundary_policy_version_def)
qed

lemma FromRecord_Some:
  assumes "archiveBoundaryEvidenceFromRecord r = Inr (Some e)"
  shows "sound_boundary e \<and> r = boundaryColumns e"
proof -
  have some: "\<not> list_all id (null_columns r)"
    using assms by (auto simp: archiveBoundaryEvidenceFromRecord_def)
  from assms obtain policy reported published excluded where
    base: "boundaryPolicyVersion r = Some policy" "boundaryReportedSizeBytes r = Some reported"
      "boundaryPublishedSizeBytes r = Some published"
      "boundaryExcludedSectorCount r = Some excluded"
    by (auto simp: archiveBoundaryEvidenceFromRecord_def some split: option.splits)
  note unfolded = assms [unfolded archiveBoundaryEvidenceFromRecord_def, simplified some base Let_def,
      simplified]
  consider (legacy) "excluded = 0" "policy = legacy_dvd_archive_boundary_policy_version"
      "list_all id (drop 4 (null_columns r))"
    | (normal) "excluded = 0" "\<not> (policy = legacy_dvd_archive_boundary_policy_version
        \<and> list_all id (drop 4 (null_columns r)))"
    | (corrected) "excluded \<noteq> 0" by blast
  then show ?thesis
  proof cases
    case legacy
    with unfolded base show ?thesis
      by (cases r) (auto simp: map_sum_Inr validateLegacyNormal_Inr states_base_def null_columns_def
          boundaryColumns_def boundaryProof_def Let_def)
  next
    case normal
    with unfolded have "policy = dvd_archive_boundary_policy_version"
      and "boundaryMaximumReferencedLba r = None"
      by (auto simp: split: if_splits)
    with normal unfolded base show ?thesis
      by (cases r) (auto simp: map_sum_Inr validateNormal_Inr states_base_def
          boundaryColumns_def boundaryProof_def Let_def boundary_base.truncate_def
          read_failure_columns_Some endpoint_proof_eq split: option.splits if_splits)
  next
    case corrected
    with unfolded base show ?thesis
      by (cases r; cases e) (auto simp: map_sum_Inr validateDvdArchiveBoundaryEvidence_Inr states_base_def
          boundaryColumns_def boundaryProof_def Let_def boundary_base.truncate_def
          read_failure_columns_Some split: option.splits if_splits)
  qed
qed

section \<open>Properties\<close>

text \<open>
  C25: \<open>validateDvdArchiveBoundaryEvidence\<close> accepts a value for an archive of a given size exactly
  when the value states sound boundary evidence for that size, and then returns that evidence:
  one of the three shapes, sizes positive, within the DVD maximum and, unless legacy, whole
  sectors, the published size ending at the first excluded sector, every referenced sector
  inside the published part, and a failed read that proves the address is out of range.
\<close>

theorem boundary_validation_exact:
  "validateDvdArchiveBoundaryEvidence (Some v) published = Inr e \<longleftrightarrow>
     states v e \<and> published = publishedSizeBytes (boundary_base_of e) \<and> sound_boundary e"
  by (rule validateDvdArchiveBoundaryEvidence_Inr)

text \<open>
  C24: Persistence round trip.  The columns that a publication writes for sound evidence read
  back as that evidence, and no other row reads back as it; a row reads back as no evidence
  exactly when all of its columns are null.
\<close>

theorem boundary_columns_roundtrip:
  "(archiveBoundaryEvidenceFromRecord r = Inr (Some e)
      \<longleftrightarrow> sound_boundary e \<and> r = boundaryColumns e)
   \<and> (archiveBoundaryEvidenceFromRecord r = Inr None \<longleftrightarrow> list_all id (null_columns r))"
proof (intro conjI)
  show "archiveBoundaryEvidenceFromRecord r = Inr (Some e)
      \<longleftrightarrow> sound_boundary e \<and> r = boundaryColumns e"
    using FromRecord_boundaryColumns FromRecord_Some by blast
  show "archiveBoundaryEvidenceFromRecord r = Inr None \<longleftrightarrow> list_all id (null_columns r)"
    by (auto simp: archiveBoundaryEvidenceFromRecord_def Let_def map_sum_Inr
        split: option.splits if_splits)
qed

definition example_boundary :: archive_boundary_evidence where
  "example_boundary = Normal
     \<lparr>policyVersion = ''dvd-archive-boundary-v2'', reportedSizeBytes = 204800,
      publishedSizeBytes = 204800, excludedSectorCount = 0,
      endpointProof = \<lparr>proofVersion = ''dvd-normal-endpoint-proof-v1'', confirmationCount = 2,
        proof_firstExcludedLba = 100,
        proof_outOfRangeEvidence = \<lparr>classifierVersion = ''v1'', scsiStatus = 2, hostStatus = 0,
          driverStatus = 8, senseResponseCode = 112, senseKey = 5, asc = 33, ascq = 0\<rparr>\<rparr>\<rparr>"

end
