(* ===== verification/Json.thy ===== *)
theory Json
  imports Prelude
begin

text \<open>
  The part of \<open>JSON.stringify\<close> that the canonical digest payloads use: arrays of strings, safe
  integers and \<open>null\<close>.  Strings are sequences of code units below 256; \<open>utf8\<close> is the encoding
  that \<open>Hash.update\<close> gives such a string.  The text of a value determines the value, also when
  more text follows, which is what makes a digest of the text a digest of the value.
\<close>

section \<open>Decimal numbers\<close>

fun decimal :: "nat \<Rightarrow> string" where
  "decimal n =
     (if n < 10 then [char_of (48 + n)] else decimal (n div 10) @ [char_of (48 + n mod 10)])"

declare decimal.simps [simp del]

definition js_number :: "int \<Rightarrow> string" where
  "js_number n = (if n < 0 then CHR ''-'' # decimal (nat (- n)) else decimal (nat n))"

definition is_digit :: "char \<Rightarrow> bool" where
  "is_digit c \<longleftrightarrow> 48 \<le> (of_char c :: nat) \<and> (of_char c :: nat) \<le> 57"

definition digits_value :: "string \<Rightarrow> nat" where
  "digits_value s = foldl (\<lambda>v c. 10 * v + (of_char c - 48)) 0 s"

lemma digits_value_snoc: "digits_value (s @ [c]) = 10 * digits_value s + (of_char c - 48)"
  by (simp add: digits_value_def)

lemma of_char_digit: "d < 10 \<Longrightarrow> (of_char (char_of (48 + d :: nat)) :: nat) = 48 + d"
  by simp

lemma digits_value_decimal [simp]: "digits_value (decimal n) = n"
proof (induction n rule: decimal.induct)
  case (1 n)
  show ?case
  proof (cases "n < 10")
    case True
    then show ?thesis by (simp add: decimal.simps [of n] digits_value_def)
  next
    case False
    then show ?thesis using 1 by (simp add: decimal.simps [of n] digits_value_snoc)
  qed
qed

lemma decimal_digits: "list_all is_digit (decimal n)"
proof (induction n rule: decimal.induct)
  case (1 n)
  have "n mod 10 \<le> 9" by simp
  with 1 show ?case by (simp add: decimal.simps [of n] is_digit_def)
qed

lemma decimal_nonempty [simp]: "decimal n \<noteq> []"
  by (simp add: decimal.simps [of n])

lemma decimal_inject [simp]: "decimal m = decimal n \<longleftrightarrow> m = n"
  by (metis digits_value_decimal)

lemma js_number_inject [simp]: "js_number a = js_number b \<longleftrightarrow> a = b"
proof -
  have "\<not> is_digit CHR ''-''" by (simp add: is_digit_def)
  then have "CHR ''-'' # s \<noteq> decimal n" for s n
    using decimal_digits [of n] by (metis list.pred_inject(2))
  then have "decimal n \<noteq> CHR ''-'' # s" for s n by metis
  with \<open>\<And>s n. CHR ''-'' # s \<noteq> decimal n\<close> show ?thesis by (auto simp: js_number_def)
qed

section \<open>Values and their text\<close>

datatype json_value =
    JNull
  | JBool bool
  | JInt int
  | JString string
  | JArray "json_value list"
  | JObject "(string \<times> json_value) list"

definition hex_digit :: "nat \<Rightarrow> char" where
  "hex_digit n = (if n < 10 then char_of (48 + n) else char_of (87 + n))"

definition json_escape :: "char \<Rightarrow> string" where
  "json_escape c =
     (let n = of_char c :: nat in
      if n = 34 then [CHR 0x5C, c]
      else if n = 92 then [CHR 0x5C, c]
      else if n = 8 then [CHR 0x5C, CHR ''b'']
      else if n = 9 then [CHR 0x5C, CHR ''t'']
      else if n = 10 then [CHR 0x5C, CHR ''n'']
      else if n = 12 then [CHR 0x5C, CHR ''f'']
      else if n = 13 then [CHR 0x5C, CHR ''r'']
      else if n < 32 then CHR 0x5C # ''u00'' @ [hex_digit (n div 16), hex_digit (n mod 16)]
      else [c])"

definition json_string :: "string \<Rightarrow> string" where
  "json_string s = CHR 0x22 # concat (map json_escape s) @ [CHR 0x22]"

fun json_stringify :: "json_value \<Rightarrow> string"
  and json_elements :: "json_value list \<Rightarrow> string"
  and json_members :: "(string \<times> json_value) list \<Rightarrow> string" where
  "json_stringify JNull = ''null''"
| "json_stringify (JBool b) = (if b then ''true'' else ''false'')"
| "json_stringify (JInt n) = js_number n"
| "json_stringify (JString s) = json_string s"
| "json_stringify (JArray xs) = ''['' @ json_elements xs @ '']''"
| "json_stringify (JObject ms) = ''{'' @ json_members ms @ ''}''"
| "json_elements [] = ''''"
| "json_elements [x] = json_stringify x"
| "json_elements (x # y # zs) = json_stringify x @ '','' @ json_elements (y # zs)"
| "json_members [] = ''''"
| "json_members [(k, v)] = json_string k @ '':'' @ json_stringify v"
| "json_members ((k, v) # m # ms) =
     json_string k @ '':'' @ json_stringify v @ '','' @ json_members (m # ms)"

fun utf8_unit :: "char \<Rightarrow> string" where
  "utf8_unit c =
     (let n = of_char c :: nat in
      if n < 128 then [c] else [char_of (192 + n div 64), char_of (128 + n mod 64)])"

definition utf8 :: "string \<Rightarrow> string" where
  "utf8 s = concat (map utf8_unit s)"


section \<open>Unambiguous encodings\<close>

text \<open>
  An encoding of symbols by words such that the first symbol can be read off the text.  Both
  the escapes of a JSON string and the bytes of a code unit are such encodings.
\<close>

locale prefix_code =
  fixes enc :: "'a \<Rightarrow> 'b list"
  assumes unambiguous: "enc a @ r = enc b @ s \<Longrightarrow> a = b \<and> r = s"
begin

lemma word_nonempty: "enc a \<noteq> []" if "a \<noteq> b"
  using unambiguous [of a "enc b" b "enc b"] unambiguous [of a "enc b" b "[]"] that by auto

lemma terminated_inject:
  assumes "concat (map enc xs) @ e # r = concat (map enc ys) @ e # s"
    and "\<And>a u v. enc a @ u \<noteq> e # v"
  shows "xs = ys \<and> r = s"
  using assms(1)
proof (induction xs arbitrary: ys)
  case Nil
  then show ?case using assms(2) by (cases ys) (auto, metis)
next
  case (Cons x xs)
  show ?case
  proof (cases ys)
    case Nil
    with Cons.prems assms(2) show ?thesis by auto
  next
    case (Cons y zs)
    with Cons.prems have "x = y"
      and "concat (map enc xs) @ e # r = concat (map enc zs) @ e # s"
      using unambiguous [of x "concat (map enc xs) @ e # r" y "concat (map enc zs) @ e # s"]
      by auto
    with Cons.IH Cons show ?thesis by simp
  qed
qed

lemma concat_inject:
  assumes "concat (map enc xs) = concat (map enc ys)" and "\<And>a. enc a \<noteq> []"
  shows "xs = ys"
  using assms(1)
proof (induction xs arbitrary: ys)
  case Nil
  then show ?case using assms(2) by (cases ys) auto
next
  case (Cons x xs)
  show ?case
  proof (cases ys)
    case Nil
    with Cons.prems assms(2) show ?thesis by auto
  next
    case (Cons y zs)
    with Cons.prems have "x = y" and "concat (map enc xs) = concat (map enc zs)"
      using unambiguous [of x "concat (map enc xs)" y "concat (map enc zs)"] by auto
    with Cons.IH Cons show ?thesis by simp
  qed
qed

end

lemma utf8_unit_lead: "(of_char c :: nat) < 128 \<or> 2 \<le> (of_char c :: nat) div 64 \<and> (of_char c :: nat) div 64 < 4"
proof -
  have "(of_char c :: nat) < 256" by simp
  then show ?thesis by linarith
qed

lemma utf8_unit_unambiguous:
  assumes "utf8_unit c @ r = utf8_unit d @ s"
  shows "c = d \<and> r = s"
proof -
  define m n where "m = (of_char c :: nat)" and "n = (of_char d :: nat)"
  have chars: "c = char_of m" "d = char_of n" by (simp_all add: m_def n_def)
  have bounds: "m < 128 \<or> 2 \<le> m div 64 \<and> m div 64 < 4" "n < 128 \<or> 2 \<le> n div 64 \<and> n div 64 < 4"
    using utf8_unit_lead by (simp_all add: m_def n_def)
  have codes: "of_char (char_of (192 + k div 64)) = 192 + k div 64"
    "of_char (char_of (128 + k mod 64)) = 128 + k mod 64" if "k div 64 < 4" for k :: nat
  proof -
    have "128 + k mod 64 < 256" by (rule order.strict_trans2 [of _ "128 + 64"]) simp_all
    then show "of_char (char_of (192 + k div 64)) = 192 + k div 64"
      "of_char (char_of (128 + k mod 64)) = 128 + k mod 64" using that by simp_all
  qed
  consider "m < 128" "n < 128" | "m < 128" "2 \<le> n div 64" "n div 64 < 4"
    | "2 \<le> m div 64" "m div 64 < 4" "n < 128"
    | "2 \<le> m div 64" "m div 64 < 4" "2 \<le> n div 64" "n div 64 < 4"
    using bounds by blast
  then show ?thesis
  proof cases
    case 1
    then show ?thesis using assms by (simp add: m_def n_def)
  next
    case 2
    then have "\<not> n < 128" by linarith
    with 2 assms have "c = char_of (192 + n div 64)" by (simp add: m_def n_def Let_def)
    then have "m = 192 + n div 64" using codes 2 by (simp add: m_def)
    with 2 show ?thesis by simp
  next
    case 3
    then have "\<not> m < 128" by linarith
    with 3 assms have "d = char_of (192 + m div 64)" by (simp add: m_def n_def Let_def)
    then have "n = 192 + m div 64" using codes 3 by (simp add: n_def)
    with 3 show ?thesis by simp
  next
    case 4
    then have "\<not> m < 128" "\<not> n < 128" by linarith+
    with assms have chars_eq: "char_of (192 + m div 64) = (char_of (192 + n div 64) :: char)"
      "char_of (128 + m mod 64) = (char_of (128 + n mod 64) :: char)" and "r = s"
      by (simp_all add: m_def n_def Let_def)
    from chars_eq have "192 + m div 64 = 192 + n div 64" "128 + m mod 64 = 128 + n mod 64"
      using codes 4 by metis+
    then have "m = n" by (metis add_left_cancel div_mult_mod_eq)
    with \<open>r = s\<close> chars show ?thesis by simp
  qed
qed

interpretation utf8: prefix_code utf8_unit
  by unfold_locales (rule utf8_unit_unambiguous)

lemma utf8_inject [simp]: "utf8 s = utf8 t \<longleftrightarrow> s = t"
  using utf8.concat_inject [of s t] by (auto simp: utf8_def Let_def)

section \<open>The text of a value determines the value\<close>

definition hex_value :: "char \<Rightarrow> nat" where
  "hex_value c = (if of_char c < (58::nat) then of_char c - 48 else of_char c - 87)"

definition json_unescape :: "string \<Rightarrow> char \<times> string" where
  "json_unescape t =
     (if hd t \<noteq> CHR 0x5C then (hd t, tl t)
      else
        let e = t ! 1 in
        if e = CHR ''u'' then (char_of (16 * hex_value (t ! 4) + hex_value (t ! 5)), drop 6 t)
        else if e = CHR ''b'' then (CHR 0x08, drop 2 t)
        else if e = CHR ''t'' then (CHR 0x09, drop 2 t)
        else if e = CHR ''n'' then (CHR 0x0A, drop 2 t)
        else if e = CHR ''f'' then (CHR 0x0C, drop 2 t)
        else if e = CHR ''r'' then (CHR 0x0D, drop 2 t)
        else (e, drop 2 t))"

lemma hex_value_hex_digit: "n < 16 \<Longrightarrow> hex_value (hex_digit n) = n"
  by (simp add: hex_value_def hex_digit_def)

lemma of_char_nat_iff: "of_char c = (of_char d :: nat) \<longleftrightarrow> c = d"
  by (rule of_char_eq_iff)

lemma control_char_codes:
  "(of_char c = (8::nat)) = (c = CHR 0x08)" "(of_char c = (9::nat)) = (c = CHR 0x09)"
  "(of_char c = (10::nat)) = (c = CHR 0x0A)" "(of_char c = (12::nat)) = (c = CHR 0x0C)"
  "(of_char c = (13::nat)) = (c = CHR 0x0D)" "(of_char c = (34::nat)) = (c = CHR 0x22)"
  "(of_char c = (92::nat)) = (c = CHR 0x5C)"
  using of_char_nat_iff [of c "CHR 0x08"] of_char_nat_iff [of c "CHR 0x09"]
    of_char_nat_iff [of c "CHR 0x0A"] of_char_nat_iff [of c "CHR 0x0C"]
    of_char_nat_iff [of c "CHR 0x0D"] of_char_nat_iff [of c "CHR 0x22"]
    of_char_nat_iff [of c "CHR 0x5C"]
  by simp_all

lemma json_unescape_escape: "json_unescape (json_escape c @ r) = (c, r)"
proof -
  define n where "n = (of_char c :: nat)"
  show ?thesis
  proof (cases "c \<in> {CHR 0x08, CHR 0x09, CHR 0x0A, CHR 0x0C, CHR 0x0D, CHR 0x22, CHR 0x5C}")
    case True
    then show ?thesis
      by (elim insertE) (simp_all add: json_escape_def json_unescape_def)
  next
    case False
    then have code: "n \<notin> {8, 9, 10, 12, 13, 34, 92}"
      using control_char_codes [of c] by (simp add: n_def)
    show ?thesis
    proof (cases "n < 32")
      case True
      then have "16 * (n div 16) + n mod 16 = n" "n div 16 < 16" "n mod 16 < 16" by auto
      with True code show ?thesis
        by (simp add: json_escape_def json_unescape_def n_def [symmetric] hex_value_hex_digit)
          (simp add: n_def)
    next
      case no_control: False
      with False code show ?thesis
        by (simp add: json_escape_def json_unescape_def n_def [symmetric])
    qed
  qed
qed

interpretation escape: prefix_code json_escape
proof unfold_locales
  fix a b :: char and r s :: string
  assume "json_escape a @ r = json_escape b @ s"
  then have "json_unescape (json_escape a @ r) = json_unescape (json_escape b @ s)" by simp
  then show "a = b \<and> r = s" by (simp add: json_unescape_escape)
qed

lemma json_escape_not_quote: "json_escape c @ u \<noteq> CHR 0x22 # v"
  by (auto simp: json_escape_def Let_def)

lemma json_string_inject:
  "json_string s @ u = json_string t @ v \<longleftrightarrow> s = t \<and> u = v"
  using escape.terminated_inject [of s "CHR 0x22" u t v] json_escape_not_quote
  by (auto simp: json_string_def)

definition separated_text :: "string \<Rightarrow> bool" where
  "separated_text r \<longleftrightarrow> r = [] \<or> hd r \<in> {CHR '','', CHR '']'', CHR ''}''}"

lemma digits_then_separator:
  assumes "ds @ r = es @ s" and "list_all is_digit ds" and "list_all is_digit es"
    and "separated_text r" and "separated_text s"
  shows "ds = es \<and> r = s"
proof -
  have "\<not> is_digit (CHR '','')" "\<not> is_digit (CHR '']'')" "\<not> is_digit (CHR ''}'')"
    by (simp_all add: is_digit_def)
  then have stop: "takeWhile is_digit t = []" if "separated_text t" for t
    using that by (cases t) (auto simp: separated_text_def)
  have "takeWhile is_digit (xs @ t) = xs" if "list_all is_digit xs" "separated_text t" for xs t
    using that stop by (simp add: list_all_iff takeWhile_append2)
  then show ?thesis using assms by (metis same_append_eq)
qed

lemma js_number_then_separator:
  assumes "js_number a @ r = js_number b @ s" and "separated_text r" and "separated_text s"
  shows "a = b \<and> r = s"
proof -
  have minus: "\<not> is_digit (CHR ''-'')" by (simp add: is_digit_def)
  have first: "hd (decimal n @ t) \<noteq> CHR ''-''" for n t
    using decimal_digits [of n] minus by (cases "decimal n") auto
  have "(a < 0) = (b < 0)"
    using assms(1) first [of "nat a" r] first [of "nat b" s]
    by (auto simp: js_number_def split: if_splits dest: arg_cong [of _ _ hd])
  with assms show ?thesis
    using digits_then_separator [of "decimal (nat (- a))" r "decimal (nat (- b))" s]
      digits_then_separator [of "decimal (nat a)" r "decimal (nat b)" s]
    by (auto simp: js_number_def decimal_digits split: if_splits)
qed

text \<open>The first character of a value's text tells its constructor.\<close>

lemma js_number_first: "hd (js_number n @ r) = CHR ''-'' \<or> is_digit (hd (js_number n @ r))"
  using decimal_digits [of "nat n"] by (cases "decimal (nat n)") (auto simp: js_number_def)

lemma js_number_first_not:
  "hd (js_number n @ r) \<notin> {CHR ''n'', CHR ''t'', CHR ''f'', CHR 0x22, CHR ''['', CHR '']'',
     CHR ''{''}"
proof -
  have "\<forall>c \<in> {CHR ''n'', CHR ''t'', CHR ''f'', CHR 0x22, CHR ''['', CHR '']'', CHR ''{''}.
      \<not> is_digit c"
    by (simp add: is_digit_def)
  then show ?thesis using js_number_first [of n r] by auto
qed

fun json_tag :: "json_value \<Rightarrow> char" where
  "json_tag JNull = CHR ''n''"
| "json_tag (JBool b) = (if b then CHR ''t'' else CHR ''f'')"
| "json_tag (JInt _) = CHR ''0''"
| "json_tag (JString _) = CHR 0x22"
| "json_tag (JArray _) = CHR ''[''"
| "json_tag (JObject _) = CHR ''{''"

lemma json_first:
  "hd (json_stringify v @ r) = (case v of JInt n \<Rightarrow> hd (js_number n @ r) | _ \<Rightarrow> json_tag v)"
  by (cases v) (simp_all add: json_string_def)

lemma json_tag_text:
  assumes "json_stringify v @ r = json_stringify w @ s"
  shows "json_tag v = json_tag w"
proof -
  have numbers: "hd (js_number n @ t) \<noteq> c" "c \<noteq> hd (js_number n @ t)"
    if "c \<in> {CHR ''n'', CHR ''t'', CHR ''f'', CHR 0x22, CHR ''['', CHR ''{''}" for n t c
    using that js_number_first_not [of n t] by auto
  from assms have "hd (json_stringify v @ r) = hd (json_stringify w @ s)" by (rule arg_cong)
  then show ?thesis
    unfolding json_first by (cases v; cases w) (simp_all add: numbers split: if_splits)
qed

lemma json_text_no_bracket: "json_stringify v @ r \<noteq> CHR '']'' # s"
proof
  assume "json_stringify v @ r = CHR '']'' # s"
  then have "hd (json_stringify v @ r) = CHR '']''" by simp
  then show False
    unfolding json_first using js_number_first_not by (cases v) (auto split: if_splits)
qed

lemma json_string_no_brace: "json_string k @ r \<noteq> CHR ''}'' # s"
  by (simp add: json_string_def)

lemma separated_text_simps [simp]:
  "separated_text []" "separated_text (CHR '','' # t)" "separated_text (CHR '']'' # t)"
  "separated_text (CHR ''}'' # t)"
  by (simp_all add: separated_text_def)

lemma json_elements_Cons:
  "json_elements (x # xs) @ t =
     json_stringify x @ (case xs of [] \<Rightarrow> t | y # ys \<Rightarrow> CHR '','' # json_elements xs @ t)"
  by (cases xs) simp_all

lemma json_members_Cons:
  "json_members ((k, v) # ms) @ t =
     json_string k @ CHR '':'' # json_stringify v
       @ (case ms of [] \<Rightarrow> t | m # ms' \<Rightarrow> CHR '','' # json_members ms @ t)"
  by (cases ms) simp_all

lemma json_text_unambiguous:
  "json_stringify v @ r = json_stringify w @ s \<Longrightarrow> separated_text r \<Longrightarrow> separated_text s \<Longrightarrow>
     v = w \<and> r = s"
  "json_elements vs @ CHR '']'' # r = json_elements ws @ CHR '']'' # s \<Longrightarrow> vs = ws \<and> r = s"
  "json_members ms @ CHR ''}'' # r = json_members ns @ CHR ''}'' # s \<Longrightarrow> ms = ns \<and> r = s"
proof (induction v and vs and ms arbitrary: w r s and ws r s and ns r s
    rule: json_stringify_json_elements_json_members.induct)
  case 1
  then show ?case using json_tag_text [OF 1(1)] by (cases w) (auto split: if_splits)
next
  case (2 b)
  then show ?case using json_tag_text [OF 2(1)] by (cases w) (auto split: if_splits)
next
  case (3 n)
  then show ?case using json_tag_text [OF 3(1)]
    by (cases w) (auto split: if_splits dest: js_number_then_separator)
next
  case (4 t)
  then show ?case using json_tag_text [OF 4(1)]
    by (cases w) (auto split: if_splits simp: json_string_inject)
next
  case (5 xs)
  obtain ys where "w = JArray ys"
    using json_tag_text [OF 5(2)] by (cases w) (auto split: if_splits)
  with 5 show ?case by simp
next
  case (6 ms)
  obtain ns where "w = JObject ns"
    using json_tag_text [OF 6(2)] by (cases w) (auto split: if_splits)
  with 6 show ?case by simp
next
  case 7
  then show ?case
    by (cases ws) (auto simp: json_elements_Cons json_text_no_bracket [symmetric])
next
  case (8 x)
  show ?case
  proof (cases ws)
    case Nil
    with 8(2) show ?thesis by (simp add: json_text_no_bracket)
  next
    case (Cons w' ws')
    with 8(2) have "x = w' \<and> CHR '']'' # r =
        (case ws' of [] \<Rightarrow> CHR '']'' # s | y # ys \<Rightarrow> CHR '','' # json_elements ws' @ CHR '']'' # s)"
      using json_elements_Cons [of w' ws' "CHR '']'' # s"]
      by (intro 8(1)) (simp_all split: list.split)
    with Cons show ?thesis by (auto split: list.splits)
  qed
next
  case (9 x y zs)
  show ?case
  proof (cases ws)
    case Nil
    with 9(3) show ?thesis by (simp add: json_text_no_bracket)
  next
    case (Cons w' ws')
    with 9(3) have "x = w' \<and> CHR '','' # json_elements (y # zs) @ CHR '']'' # r =
        (case ws' of [] \<Rightarrow> CHR '']'' # s | y # ys \<Rightarrow> CHR '','' # json_elements ws' @ CHR '']'' # s)"
      using json_elements_Cons [of w' ws' "CHR '']'' # s"]
      by (intro 9(1)) (simp_all split: list.split)
    then have "x = w'" and "json_elements (y # zs) @ CHR '']'' # r = json_elements ws' @ CHR '']'' # s"
      by (cases ws'; simp)+
    with 9(2) Cons show ?thesis by blast
  qed
next
  case 10
  then show ?case
    by (cases ns) (auto simp: json_members_Cons json_string_no_brace [symmetric])
next
  case (11 k v)
  show ?case
  proof (cases ns)
    case Nil
    with 11(2) show ?thesis by (simp add: json_string_no_brace)
  next
    case (Cons n' ns')
    obtain k' v' where n': "n' = (k', v')" by (cases n')
    let ?t = "case ns' of [] \<Rightarrow> CHR ''}'' # s | n # ns \<Rightarrow> CHR '','' # json_members ns' @ CHR ''}'' # s"
    have "json_string k @ CHR '':'' # json_stringify v @ CHR ''}'' # r =
        json_string k' @ CHR '':'' # json_stringify v' @ ?t"
      using 11(2) Cons n' json_members_Cons [of k' v' ns' "CHR ''}'' # s"] by simp
    then have "k = k'" and texts: "json_stringify v @ CHR ''}'' # r = json_stringify v' @ ?t"
      by (simp_all add: json_string_inject)
    from 11(1) [OF texts] have "v = v' \<and> CHR ''}'' # r = ?t" by (simp split: list.split)
    with Cons n' \<open>k = k'\<close> show ?thesis by (auto split: list.splits)
  qed
next
  case (12 k v m ms)
  show ?case
  proof (cases ns)
    case Nil
    with 12(3) show ?thesis by (simp add: json_string_no_brace)
  next
    case (Cons n' ns')
    obtain k' v' where n': "n' = (k', v')" by (cases n')
    let ?t = "case ns' of [] \<Rightarrow> CHR ''}'' # s | n # ns \<Rightarrow> CHR '','' # json_members ns' @ CHR ''}'' # s"
    have "json_string k @ CHR '':'' # json_stringify v @ CHR '','' # json_members (m # ms) @ CHR ''}'' # r =
        json_string k' @ CHR '':'' # json_stringify v' @ ?t"
      using 12(3) Cons n' json_members_Cons [of k' v' ns' "CHR ''}'' # s"] by simp
    then have "k = k'"
      and texts: "json_stringify v @ CHR '','' # json_members (m # ms) @ CHR ''}'' # r
        = json_stringify v' @ ?t"
      by (simp_all add: json_string_inject)
    from 12(1) [OF texts]
    have both: "v = v' \<and> CHR '','' # json_members (m # ms) @ CHR ''}'' # r = ?t"
      by (simp split: list.split)
    then have "json_members (m # ms) @ CHR ''}'' # r = json_members ns' @ CHR ''}'' # s"
      by (cases ns'; simp)
    with 12(2) Cons n' both \<open>k = k'\<close> show ?thesis by blast
  qed
qed

lemma json_stringify_inject [simp]: "json_stringify v = json_stringify w \<longleftrightarrow> v = w"
  using json_text_unambiguous(1) [of v "[]" w "[]"] by auto

section \<open>Canonical objects\<close>

text \<open>
  \<open>packages/data-access/src/canonical-json.ts\<close>: the entries of every object in the order of
  their keys.  The keys of the records hashed this way are names, never array indices.
\<close>

fun canonical_value :: "json_value \<Rightarrow> json_value"
  and canonical_values :: "json_value list \<Rightarrow> json_value list"
  and canonical_members :: "(string \<times> json_value) list \<Rightarrow> (string \<times> json_value) list" where
  "canonical_value (JArray xs) = JArray (canonical_values xs)"
| "canonical_value (JObject ms) = JObject (sort_key fst (canonical_members ms))"
| "canonical_value v = v"
| "canonical_values [] = []"
| "canonical_values (x # xs) = canonical_value x # canonical_values xs"
| "canonical_members [] = []"
| "canonical_members ((k, v) # ms) = (k, canonical_value v) # canonical_members ms"

definition canonicalJson :: "json_value \<Rightarrow> string" where
  "canonicalJson v = json_stringify (canonical_value v)"

text \<open>Objects with one canonical text have the same members, in whatever order they list them.\<close>

lemma canonical_members_keys: "map fst (canonical_members ms) = map fst ms"
  by (induction ms) auto

lemma canonical_members_map_of:
  "map_of (canonical_members ms) k = map_option canonical_value (map_of ms k)"
  by (induction ms) auto

lemma canonical_object_member:
  assumes "canonical_value (JObject ms) = canonical_value (JObject ns)"
    and "distinct (map fst ms)" and "distinct (map fst ns)"
  shows "map_option canonical_value (map_of ms k) = map_option canonical_value (map_of ns k)"
proof -
  have sorted: "map_of (sort_key fst (canonical_members xs)) = map_of (canonical_members xs)"
    if "distinct (map fst xs)" for xs
  proof (rule map_of_inject_set [THEN iffD2])
    show "distinct (map fst (canonical_members xs))"
      using that by (simp add: canonical_members_keys)
    then show "distinct (map fst (sort_key fst (canonical_members xs)))"
      by (simp add: distinct_map)
  qed simp
  from assms(1) have "sort_key fst (canonical_members ms) = sort_key fst (canonical_members ns)"
    by simp
  then have "map_of (canonical_members ms) = map_of (canonical_members ns)"
    using sorted assms(2,3) by metis
  then show ?thesis by (simp add: canonical_members_map_of [symmetric])
qed

section \<open>Evaluation\<close>

text \<open>
  Code equations that read a character by its bits and a number in binary, so that the texts of
  whole records can be evaluated.
\<close>

fun digit_char :: "int \<Rightarrow> char" where
  "digit_char d =
     (if d = 0 then CHR ''0'' else if d = 1 then CHR ''1'' else if d = 2 then CHR ''2''
      else if d = 3 then CHR ''3'' else if d = 4 then CHR ''4'' else if d = 5 then CHR ''5''
      else if d = 6 then CHR ''6'' else if d = 7 then CHR ''7'' else if d = 8 then CHR ''8''
      else CHR ''9'')"

function int_decimal :: "int \<Rightarrow> string" where
  "int_decimal n =
     (if n < 10 then [digit_char n] else int_decimal (n div 10) @ [digit_char (n mod 10)])"
  by auto
termination by (relation "measure nat") auto

declare int_decimal.simps [simp del]

lemma digit_char_of_char: "d < 10 \<Longrightarrow> of_char (digit_char (int d)) = (48 + d :: nat)"
proof -
  assume "d < 10"
  then have "d \<in> {0, 1, 2, 3, 4, 5, 6, 7, 8, 9}" by auto
  then show ?thesis by (elim insertE) simp_all
qed

lemma digit_char_nat: "d < 10 \<Longrightarrow> digit_char (int d) = char_of (48 + d)"
  using digit_char_of_char [of d] by (metis char_of_char)

lemma int_decimal_nat: "int_decimal (int n) = decimal n"
proof (induction n rule: decimal.induct)
  case (1 n)
  show ?case
  proof (cases "n < 10")
    case True
    then show ?thesis
      using digit_char_nat [of n] by (simp add: int_decimal.simps [of "int n"] decimal.simps [of n] del: digit_char.simps)
  next
    case False
    have "int n div 10 = int (n div 10)" and "int n mod 10 = int (n mod 10)"
      by (simp_all add: zdiv_int zmod_int)
    with False 1 digit_char_nat [of "n mod 10"] show ?thesis
      by (simp add: int_decimal.simps [of "int n"] decimal.simps [of n] del: digit_char.simps)
  qed
qed

lemma js_number_code [code]:
  "js_number n = (if n < 0 then CHR ''-'' # int_decimal (- n) else int_decimal n)"
  using int_decimal_nat [of "nat n"] int_decimal_nat [of "nat (- n)"] by (auto simp: js_number_def)

fun high_bit :: "char \<Rightarrow> bool" where
  "high_bit (Char _ _ _ _ _ _ _ b) = b"

fun control_char :: "char \<Rightarrow> bool" where
  "control_char (Char _ _ _ _ _ b5 b6 b7) = (\<not> b5 \<and> \<not> b6 \<and> \<not> b7)"

lemma high_bit_iff: "high_bit c \<longleftrightarrow> \<not> (of_char c :: nat) < 128"
  by (cases c) (simp add: of_char_def)

lemma control_char_iff: "control_char c \<longleftrightarrow> (of_char c :: nat) < 32"
  by (cases c) (simp add: of_char_def)

definition utf8_wide :: "char \<Rightarrow> string" where
  "utf8_wide c = (let n = of_char c :: nat in [char_of (192 + n div 64), char_of (128 + n mod 64)])"

definition json_control :: "char \<Rightarrow> string" where
  "json_control c =
     (let n = of_char c :: nat in
      CHR 0x5C # ''u00'' @ [hex_digit (n div 16), hex_digit (n mod 16)])"

lemma utf8_unit_code [code]: "utf8_unit c = (if high_bit c then utf8_wide c else [c])"
  by (simp add: high_bit_iff utf8_wide_def Let_def)

lemma json_escape_code [code]:
  "json_escape c =
     (if c = CHR 0x22 then [CHR 0x5C, c] else if c = CHR 0x5C then [CHR 0x5C, c]
      else if \<not> control_char c then [c]
      else if c = CHR 0x08 then [CHR 0x5C, CHR ''b''] else if c = CHR 0x09 then [CHR 0x5C, CHR ''t'']
      else if c = CHR 0x0A then [CHR 0x5C, CHR ''n''] else if c = CHR 0x0C then [CHR 0x5C, CHR ''f'']
      else if c = CHR 0x0D then [CHR 0x5C, CHR ''r'']
      else json_control c)"
  by (simp add: json_escape_def Let_def control_char_codes control_char_iff json_control_def)

end
