(* ===== verification/EvidenceDigests.thy ===== *)
theory EvidenceDigests
  imports Json ArchiveBoundary EvidenceTransition
begin

text \<open>
  The content digests of DVD Archive Evidence
  (\<open>packages/data-access/src/dvd-archive-evidence-digests.ts\<close>): of boundary evidence, of the map
  of Unrecovered Source, of a recovery read and of a manifest.  The hash of
  \<open>node:crypto\<close> is the parameter \<open>sha256\<close>, a function from the bytes hashed to the hexadecimal
  digest, of which nothing is assumed: equal digests are shown to mean equal contents, or two
  explicit texts, both given by the contents, that the hash does not tell apart.

  A field that may be \<open>undefined\<close> or \<open>null\<close> is an option of an option.
\<close>

section \<open>Data\<close>

definition nul_terminated :: "string \<Rightarrow> string" where
  "nul_terminated s = s @ [CHR 0x00]"

definition boundary_evidence_domain :: string where
  "boundary_evidence_domain = nul_terminated ''rip-dvd:dvd-archive-boundary-evidence:v1''"

definition source_ranges_domain :: string where
  "source_ranges_domain = nul_terminated ''rip-dvd:dvd-unrecovered-source-ranges:v1''"

definition recovery_read_evidence_domain :: string where
  "recovery_read_evidence_domain = nul_terminated ''rip-dvd:dvd-archive-recovery-read-evidence:v1''"

definition evidence_manifest_domain :: string where
  "evidence_manifest_domain = nul_terminated ''rip-dvd:dvd-archive-evidence-manifest:v1''"

record recovery_read_evidence =
  read_originalDiscArchiveId :: string
  fromManifestId :: string
  fromManifestRevision :: int
  read_startLba :: int
  read_sectorCount :: int
  read_outcome :: string
  verificationId :: "string option"
  discConfirmationId :: "string option option"

record manifest_digest_input =
  originalDiscArchiveId :: string
  revision :: int
  previousManifestId :: "string option"
  previousManifestDigest :: "string option"
  recoveryReadId :: "string option"
  recoveryReadEvidenceDigest :: "string option"
  evidenceFormat :: string
  imageFingerprint :: string
  sectorSizeBytes :: int
  acceptedEndLbaExclusive :: int
  manifestBoundaryPolicyVersion :: string
  manifestBoundaryReportedSizeBytes :: int
  manifestBoundaryPublishedSizeBytes :: int
  boundaryEvidenceDigest :: string
  unrecoveredSourceRanges :: "dvd_unrecovered_source_range list"

record manifest_digests =
  unrecoveredSourceRangesDigest :: string
  manifestDigest :: string

section \<open>Digests and guards\<close>

definition digest_text :: "string \<Rightarrow> json_value \<Rightarrow> string" where
  "digest_text domain payload = utf8 domain @ utf8 (json_stringify payload)"

definition digest :: "(string \<Rightarrow> string) \<Rightarrow> string \<Rightarrow> json_value \<Rightarrow> string" where
  "digest sha256 domain payload = sha256 (digest_text domain payload)"

definition requireNonEmptyString :: "string \<Rightarrow> string \<Rightarrow> unit result" where
  "requireNonEmptyString value description =
     reject_if (length value = 0) (DomainInvariantError (description @ '' must not be empty''))"

definition requireSafeInteger :: "int \<Rightarrow> string \<Rightarrow> int \<Rightarrow> unit result" where
  "requireSafeInteger value description minimum =
     reject_if (\<not> is_safe_integer value \<or> value < minimum)
       (DomainInvariantError
         (description @ '' must be a safe integer of at least '' @ js_number minimum))"

definition requireSha256Digest :: "string \<Rightarrow> string \<Rightarrow> unit result" where
  "requireSha256Digest value description =
     reject_if (\<not> is_sha256_hex value)
       (DomainInvariantError (description @ '' must be a lowercase SHA-256 digest''))"

definition invariant_if :: "bool \<Rightarrow> string \<Rightarrow> unit result" where
  "invariant_if b message = reject_if b (DomainInvariantError message)"

lemmas require_defs =
  requireNonEmptyString_def requireSafeInteger_def requireSha256Digest_def invariant_if_def

section \<open>Boundary evidence\<close>

definition out_of_range_payload :: "out_of_range_evidence \<Rightarrow> json_value" where
  "out_of_range_payload e =
     JArray [JString (classifierVersion e), JInt (scsiStatus e), JInt (hostStatus e),
       JInt (driverStatus e), JInt (senseResponseCode e), JInt (senseKey e), JInt (asc e),
       JInt (ascq e)]"

definition canonicalBoundaryPayload :: "archive_boundary_evidence \<Rightarrow> json_value result" where
  "canonicalBoundaryPayload evidence =
     (let base = boundary_base_of evidence;
          common = [JString (policyVersion base), JInt (reportedSizeBytes base),
            JInt (publishedSizeBytes base), JInt (excludedSectorCount base)] in
      if excludedSectorCount base = 0 then
        (if policyVersion base = legacy_dvd_archive_boundary_policy_version
         then Inl (DomainInvariantError
           ''DVD Archive Evidence requires complete Archive Boundary Evidence'')
         else
           case evidence of
             Normal e \<Rightarrow> Inr (JArray (common @
               [JArray [JString (proofVersion (endpointProof e)),
                  JInt (confirmationCount (endpointProof e)),
                  JInt (proof_firstExcludedLba (endpointProof e)),
                  out_of_range_payload (proof_outOfRangeEvidence (endpointProof e))]]))
           | _ \<Rightarrow> Inl (TypeError ''Cannot read properties of undefined''))
      else
        (case evidence of
           Corrected e \<Rightarrow> Inr (JArray (common @
             [JInt (firstExcludedLba e), JInt (maximumReferencedLba e),
              out_of_range_payload (outOfRangeEvidence e)]))
         | _ \<Rightarrow> Inl (DomainInvariantError ''Archive Boundary Evidence is invalid'')))"

text \<open>The evidence as the value that the validation reads: its fields, and no others.\<close>

definition base_value :: "boundary_base \<Rightarrow> boundary_value" where
  "base_value e = empty_boundary_value
     \<lparr>v_policyVersion := Some (policyVersion e),
      v_reportedSizeBytes := Some (reportedSizeBytes e),
      v_publishedSizeBytes := Some (publishedSizeBytes e),
      v_excludedSectorCount := Some (excludedSectorCount e)\<rparr>"

fun boundary_value_of :: "archive_boundary_evidence \<Rightarrow> boundary_value" where
  "boundary_value_of (Legacy_normal e) = base_value e"
| "boundary_value_of (Normal e) =
     (base_value (boundary_base.truncate e))\<lparr>v_endpointProof := Some (endpointProof e)\<rparr>"
| "boundary_value_of (Corrected e) =
     (base_value (boundary_base.truncate e))
       \<lparr>v_firstExcludedLba := Some (firstExcludedLba e),
        v_maximumReferencedLba := Some (maximumReferencedLba e),
        v_outOfRangeEvidence := Some (outOfRangeEvidence e)\<rparr>"

definition boundaryEvidencePayload :: "archive_boundary_evidence \<Rightarrow> json_value result" where
  "boundaryEvidencePayload evidence =
     (case validateDvdArchiveBoundaryEvidence (Some (boundary_value_of evidence))
             (publishedSizeBytes (boundary_base_of evidence)) of
        Inl e \<Rightarrow> Inl e
      | Inr normalized \<Rightarrow> canonicalBoundaryPayload normalized)"

definition createDvdArchiveBoundaryEvidenceDigest ::
  "(string \<Rightarrow> string) \<Rightarrow> archive_boundary_evidence \<Rightarrow> string result" where
  "createDvdArchiveBoundaryEvidenceDigest sha256 evidence =
     map_sum id (digest sha256 boundary_evidence_domain) (boundaryEvidencePayload evidence)"

definition assertDvdArchiveBoundaryEvidenceDigest ::
  "(string \<Rightarrow> string) \<Rightarrow> archive_boundary_evidence \<Rightarrow> string \<Rightarrow> unit result" where
  "assertDvdArchiveBoundaryEvidenceDigest sha256 evidence evidenceDigest =
     (case createDvdArchiveBoundaryEvidenceDigest sha256 evidence of
        Inl e \<Rightarrow> Inl e
      | Inr d \<Rightarrow> invariant_if (d \<noteq> evidenceDigest)
          ''Persisted DVD Archive Boundary Evidence digest does not match its contents'')"

section \<open>The map of Unrecovered Source\<close>

fun classification_text :: "source_classification \<Rightarrow> string" where
  "classification_text Skipped_untested = ''skipped_untested''"
| "classification_text Individually_failed = ''individually_failed''"
| "classification_text (Other_classification s) = s"

definition range_payload :: "dvd_unrecovered_source_range \<Rightarrow> json_value" where
  "range_payload r =
     JArray [JInt (startLba r), JInt (sectorCount r), JString (classification_text (classification r))]"

definition range_guards ::
  "dvd_unrecovered_source_range option \<Rightarrow> dvd_unrecovered_source_range \<Rightarrow> unit result" where
  "range_guards previous r = check_all
     [requireSafeInteger (startLba r) ''Unrecovered Source start LBA'' 0,
      requireSafeInteger (sectorCount r) ''Unrecovered Source sector count'' 1,
      invariant_if (classification r \<noteq> Skipped_untested \<and> classification r \<noteq> Individually_failed)
        ''Unrecovered Source classification is invalid'',
      invariant_if (\<not> is_safe_integer (startLba r + sectorCount r))
        ''Unrecovered Source range exceeds the safe integer limit'',
      (case previous of
         None \<Rightarrow> Inr ()
       | Some p \<Rightarrow> invariant_if
           (startLba r < startLba p + sectorCount p
            \<or> (startLba r = startLba p + sectorCount p \<and> classification r = classification p))
           ''Unrecovered Source ranges must be canonically normalized'')]"

fun canonical_ranges_from ::
  "dvd_unrecovered_source_range option \<Rightarrow> dvd_unrecovered_source_range list \<Rightarrow> json_value list result"
where
  "canonical_ranges_from previous [] = Inr []"
| "canonical_ranges_from previous (r # rs) =
     (case range_guards previous r of
        Inl e \<Rightarrow> Inl e
      | Inr _ \<Rightarrow> map_sum id (Cons (range_payload r)) (canonical_ranges_from (Some r) rs))"

definition canonicalSourceRangesPayload ::
  "dvd_unrecovered_source_range list \<Rightarrow> json_value result" where
  "canonicalSourceRangesPayload rs = map_sum id JArray (canonical_ranges_from None rs)"

definition createDvdUnrecoveredSourceRangesDigest ::
  "(string \<Rightarrow> string) \<Rightarrow> dvd_unrecovered_source_range list \<Rightarrow> string result" where
  "createDvdUnrecoveredSourceRangesDigest sha256 rs =
     map_sum id (digest sha256 source_ranges_domain) (canonicalSourceRangesPayload rs)"

definition assertDvdUnrecoveredSourceRangesDigest ::
  "(string \<Rightarrow> string) \<Rightarrow> dvd_unrecovered_source_range list \<Rightarrow> string \<Rightarrow> unit result" where
  "assertDvdUnrecoveredSourceRangesDigest sha256 rs rangesDigest =
     (case createDvdUnrecoveredSourceRangesDigest sha256 rs of
        Inl e \<Rightarrow> Inl e
      | Inr d \<Rightarrow> invariant_if (d \<noteq> rangesDigest)
          ''Persisted Unrecovered Source ranges digest does not match its contents'')"

section \<open>Recovery reads\<close>

definition json_option :: "string option \<Rightarrow> json_value" where
  "json_option s = (case s of None \<Rightarrow> JNull | Some t \<Rightarrow> JString t)"

definition recovery_read_guards :: "recovery_read_evidence \<Rightarrow> unit result" where
  "recovery_read_guards input = check_all
     [requireNonEmptyString (read_originalDiscArchiveId input)
        ''Recovery read Original Disc Archive ID'',
      requireNonEmptyString (fromManifestId input) ''Recovery read manifest ID'',
      requireSafeInteger (fromManifestRevision input) ''Recovery read manifest revision'' 1,
      requireSafeInteger (read_startLba input) ''Recovery read start LBA'' 0,
      invariant_if (read_sectorCount input \<noteq> 1)
        ''DVD Archive Recovery evidence must describe one sector'',
      invariant_if (read_outcome input \<noteq> ''recovered'' \<and> read_outcome input \<noteq> ''failed'')
        ''Recovery read outcome is invalid'']"

definition recovery_read_base :: "recovery_read_evidence \<Rightarrow> json_value list" where
  "recovery_read_base input =
     [JString (read_originalDiscArchiveId input), JString (fromManifestId input),
      JInt (fromManifestRevision input), JInt (read_startLba input),
      JInt (read_sectorCount input), JString (read_outcome input)]"

definition recoveryReadPayload :: "recovery_read_evidence \<Rightarrow> json_value result" where
  "recoveryReadPayload input =
     (case recovery_read_guards input of
        Inl e \<Rightarrow> Inl e
      | Inr _ \<Rightarrow>
          (case verificationId input of
             Some verification \<Rightarrow>
               (case check_all
                  [requireNonEmptyString verification ''Recovery read verification ID'',
                   if discConfirmationId input \<noteq> Some None
                   then requireNonEmptyString
                     (case discConfirmationId input of Some (Some s) \<Rightarrow> s | _ \<Rightarrow> '''')
                     ''Recovery read disc confirmation ID''
                   else Inr ()] of
                  Inl e \<Rightarrow> Inl e
                | Inr _ \<Rightarrow> Inr (JArray (recovery_read_base input
                    @ [JString verification, json_option (Option.bind (discConfirmationId input) id)])))
           | None \<Rightarrow>
               if discConfirmationId input \<noteq> None
               then Inl (DomainInvariantError ''Recovery read confirmation requires a verification'')
               else Inr (JArray (recovery_read_base input))))"

definition createDvdArchiveRecoveryReadEvidenceDigest ::
  "(string \<Rightarrow> string) \<Rightarrow> recovery_read_evidence \<Rightarrow> string result" where
  "createDvdArchiveRecoveryReadEvidenceDigest sha256 input =
     map_sum id (digest sha256 recovery_read_evidence_domain) (recoveryReadPayload input)"

definition assertDvdArchiveRecoveryReadEvidenceDigest ::
  "(string \<Rightarrow> string) \<Rightarrow> recovery_read_evidence \<Rightarrow> string \<Rightarrow> unit result" where
  "assertDvdArchiveRecoveryReadEvidenceDigest sha256 input evidenceDigest =
     (case createDvdArchiveRecoveryReadEvidenceDigest sha256 input of
        Inl e \<Rightarrow> Inl e
      | Inr d \<Rightarrow> invariant_if (d \<noteq> evidenceDigest)
          ''Persisted DVD Archive Recovery evidence digest does not match its contents'')"

section \<open>Manifests\<close>

definition manifest_extent_guards :: "manifest_digest_input \<Rightarrow> unit result list" where
  "manifest_extent_guards input =
     [requireNonEmptyString (originalDiscArchiveId input)
        ''Evidence manifest Original Disc Archive ID'',
      requireSafeInteger (revision input) ''Evidence manifest revision'' 1,
      requireNonEmptyString (imageFingerprint input) ''Evidence image fingerprint'',
      invariant_if (evidenceFormat input \<noteq> ''dvd-recovery-evidence-v1'')
        ''DVD Archive Evidence format is invalid'',
      invariant_if (length (imageFingerprint input) > 512)
        ''Evidence image fingerprint is too long'',
      invariant_if (sectorSizeBytes input \<noteq> 2048) ''DVD Archive Evidence sector size is invalid'',
      requireSafeInteger (acceptedEndLbaExclusive input) ''Evidence accepted end LBA'' 1,
      requireNonEmptyString (manifestBoundaryPolicyVersion input)
        ''Evidence boundary policy version'',
      invariant_if (length (manifestBoundaryPolicyVersion input) > 128)
        ''Evidence boundary policy version is too long'',
      requireSafeInteger (manifestBoundaryReportedSizeBytes input)
        ''Evidence reported boundary size'' 1,
      requireSafeInteger (manifestBoundaryPublishedSizeBytes input)
        ''Evidence published boundary size'' 1,
      requireSha256Digest (boundaryEvidenceDigest input) ''Archive Boundary Evidence digest'',
      invariant_if
        (manifestBoundaryPublishedSizeBytes input
           \<noteq> acceptedEndLbaExclusive input * sectorSizeBytes input
         \<or> manifestBoundaryPublishedSizeBytes input > manifestBoundaryReportedSizeBytes input)
        ''DVD Archive Evidence accepted extent is inconsistent'']"

definition manifest_range_guards :: "manifest_digest_input \<Rightarrow> unit result list" where
  "manifest_range_guards input =
     concat (map (\<lambda>r.
       [invariant_if (startLba r + sectorCount r > acceptedEndLbaExclusive input)
          ''Unrecovered Source range exceeds the accepted extent'',
        invariant_if (revision input = 1 \<and> classification r \<noteq> Skipped_untested)
          ''Initial DVD Archive Evidence may contain only skipped source ranges''])
       (unrecoveredSourceRanges input))"

definition manifest_link_guards :: "manifest_digest_input \<Rightarrow> unit result list" where
  "manifest_link_guards input =
     (if revision input = 1 then
        [invariant_if
           (previousManifestId input \<noteq> None \<or> previousManifestDigest input \<noteq> None
            \<or> recoveryReadId input \<noteq> None \<or> recoveryReadEvidenceDigest input \<noteq> None)
           ''Initial DVD evidence manifest must not reference a predecessor or recovery read'']
      else
        (case (previousManifestId input, previousManifestDigest input, recoveryReadId input,
               recoveryReadEvidenceDigest input) of
           (Some previous, Some previous_digest, Some read, Some read_digest) \<Rightarrow>
             [requireNonEmptyString previous ''Previous evidence manifest ID'',
              requireSha256Digest previous_digest ''Previous evidence manifest digest'',
              requireNonEmptyString read ''Recovery read ID'',
              requireSha256Digest read_digest ''Recovery read evidence digest'']
         | _ \<Rightarrow> [Inl (DomainInvariantError
             ''Later DVD evidence manifest must reference its predecessor and recovery read'')]))"

definition manifestPayload :: "manifest_digest_input \<Rightarrow> string \<Rightarrow> json_value" where
  "manifestPayload input ranges_digest =
     JArray
       [JString (originalDiscArchiveId input), JInt (revision input),
        json_option (previousManifestId input), json_option (previousManifestDigest input),
        json_option (recoveryReadId input), json_option (recoveryReadEvidenceDigest input),
        JString (evidenceFormat input), JString (imageFingerprint input),
        JInt (sectorSizeBytes input), JInt (acceptedEndLbaExclusive input),
        JString (manifestBoundaryPolicyVersion input),
        JInt (manifestBoundaryReportedSizeBytes input),
        JInt (manifestBoundaryPublishedSizeBytes input),
        JString (boundaryEvidenceDigest input), JString ranges_digest]"

definition createDvdArchiveEvidenceManifestDigests ::
  "(string \<Rightarrow> string) \<Rightarrow> manifest_digest_input \<Rightarrow> manifest_digests result" where
  "createDvdArchiveEvidenceManifestDigests sha256 input =
     (case check_all (manifest_extent_guards input @ manifest_range_guards input
             @ manifest_link_guards input) of
        Inl e \<Rightarrow> Inl e
      | Inr _ \<Rightarrow>
          (case createDvdUnrecoveredSourceRangesDigest sha256 (unrecoveredSourceRanges input) of
             Inl e \<Rightarrow> Inl e
           | Inr ranges_digest \<Rightarrow> Inr
               \<lparr>unrecoveredSourceRangesDigest = ranges_digest,
                manifestDigest =
                  digest sha256 evidence_manifest_domain (manifestPayload input ranges_digest)\<rparr>))"

definition assertDvdArchiveEvidenceManifestDigests ::
  "(string \<Rightarrow> string) \<Rightarrow> manifest_digest_input \<Rightarrow> manifest_digests \<Rightarrow> unit result" where
  "assertDvdArchiveEvidenceManifestDigests sha256 input digests =
     (case createDvdArchiveEvidenceManifestDigests sha256 input of
        Inl e \<Rightarrow> Inl e
      | Inr expected \<Rightarrow>
          (case assertDvdUnrecoveredSourceRangesDigest sha256 (unrecoveredSourceRanges input)
                  (unrecoveredSourceRangesDigest digests) of
             Inl e \<Rightarrow> Inl e
           | Inr _ \<Rightarrow> invariant_if (manifestDigest digests \<noteq> manifestDigest expected)
               ''Persisted DVD Archive Evidence digest does not match its contents''))"

section \<open>What the guards accept\<close>

lemma require_Inr [result_simps]:
  "requireNonEmptyString v d = Inr u \<longleftrightarrow> v \<noteq> ''''"
  "requireSafeInteger n d m = Inr u \<longleftrightarrow> is_safe_integer n \<and> m \<le> n"
  "requireSha256Digest v d = Inr u \<longleftrightarrow> is_sha256_hex v"
  "invariant_if b msg = Inr u \<longleftrightarrow> \<not> b"
  by (auto simp: require_defs result_simps)

lemma digest_text_inject [simp]:
  "digest_text domain p = digest_text domain q \<longleftrightarrow> p = q"
  by (simp add: digest_text_def)

text \<open>The map of Unrecovered Source that a digest accepts.\<close>

definition hashable_range :: "dvd_unrecovered_source_range \<Rightarrow> bool" where
  "hashable_range r \<longleftrightarrow> proper_range r \<and> is_safe_integer (rangeEnd r)
     \<and> classification r \<in> {Skipped_untested, Individually_failed}"

definition follows :: "dvd_unrecovered_source_range \<Rightarrow> dvd_unrecovered_source_range \<Rightarrow> bool" where
  "follows p r \<longleftrightarrow> rangeEnd p \<le> startLba r \<and> \<not> abuts p r"

lemma range_guards_Inr [result_simps]:
  "range_guards previous r = Inr u \<longleftrightarrow>
     hashable_range r \<and> (case previous of None \<Rightarrow> True | Some p \<Rightarrow> follows p r)"
  by (auto simp: range_guards_def result_simps hashable_range_def follows_def abuts_def
      proper_range_def rangeEnd_def is_safe_integer_def split: option.splits)

lemma canonical_ranges_from_Inr:
  "canonical_ranges_from previous rs = Inr js \<longleftrightarrow>
     js = map range_payload rs \<and> (\<forall>r \<in> set rs. hashable_range r)
     \<and> successively follows (case previous of None \<Rightarrow> rs | Some p \<Rightarrow> p # rs)"
proof (induction rs arbitrary: previous js)
  case Nil
  show ?case by (cases previous) auto
next
  case (Cons r rs)
  show ?case
    by (cases previous) (auto simp: result_simps Cons.IH split: sum.split)
qed

lemma follows_ascending:
  "\<forall>r \<in> set rs. proper_range r \<Longrightarrow> successively follows rs \<Longrightarrow>
     sorted_wrt (\<lambda>a b. rangeEnd a \<le> startLba b) rs"
proof (induction rs rule: induct_list012)
  case (3 a b rs)
  then have rest: "sorted_wrt (\<lambda>a b. rangeEnd a \<le> startLba b) (b # rs)" by simp
  have "rangeEnd a \<le> startLba b" using 3 by (simp add: follows_def)
  moreover have "startLba b \<le> rangeEnd b" using 3 by (simp add: proper_range_def rangeEnd_def)
  ultimately show ?case using rest by (auto intro: order_trans)
qed simp_all

lemma canonical_iff_follows:
  "canonical rs \<longleftrightarrow> (\<forall>r \<in> set rs. proper_range r) \<and> successively follows rs"
proof
  assume "canonical rs"
  then show "(\<forall>r \<in> set rs. proper_range r) \<and> successively follows rs"
    unfolding canonical_def ascending_def follows_def
    by (induction rs rule: induct_list012) auto
next
  assume rs: "(\<forall>r \<in> set rs. proper_range r) \<and> successively follows rs"
  then have "successively (\<lambda>a b. \<not> abuts a b) rs"
    by (auto simp: follows_def elim: successively_mono)
  with rs show "canonical rs"
    by (simp add: canonical_def ascending_def follows_ascending)
qed

lemma canonicalSourceRangesPayload_Inr [result_simps]:
  "canonicalSourceRangesPayload rs = Inr j \<longleftrightarrow>
     j = JArray (map range_payload rs) \<and> canonical rs \<and> (\<forall>r \<in> set rs. hashable_range r)"
  by (auto simp: canonicalSourceRangesPayload_def result_simps canonical_ranges_from_Inr
      canonical_iff_follows hashable_range_def)

lemma range_payload_inject:
  assumes "hashable_range r" and "hashable_range s"
  shows "range_payload r = range_payload s \<longleftrightarrow> r = s"
proof -
  have "classification_text (classification r) = classification_text (classification s) \<longleftrightarrow>
      classification r = classification s"
    using assms by (auto simp: hashable_range_def)
  then show ?thesis
    by (cases r; cases s) (auto simp: range_payload_def)
qed

lemma range_payloads_inject:
  assumes "\<forall>r \<in> set rs. hashable_range r" and "\<forall>r \<in> set ss. hashable_range r"
    and "map range_payload rs = map range_payload ss"
  shows "rs = ss"
proof (rule map_inj_on [OF assms(3)], rule inj_onI)
  fix r s
  assume "r \<in> set rs \<union> set ss" and "s \<in> set rs \<union> set ss" and "range_payload r = range_payload s"
  moreover from calculation assms have "hashable_range r" and "hashable_range s" by auto
  ultimately show "r = s" by (simp add: range_payload_inject)
qed

section \<open>What each payload determines\<close>

lemma states_boundary_value_of: "states (boundary_value_of e) e"
  by (cases e) (simp_all add: base_value_def states_base_def)

lemma states_determines:
  assumes "states (boundary_value_of e) e'" and "e' = Normal n \<or> e' = Corrected c"
  shows "e = e'"
proof -
  have base: "a = b" if "states_base v a" and "states_base v b" for v and a b :: boundary_base
    using that by (cases a; cases b) (simp add: states_base_def)
  from assms(2) show ?thesis
  proof
    assume "e' = Normal n"
    with assms(1) show ?thesis
      by (cases e; cases n)
        (auto simp: base_value_def empty_boundary_value_def states_base_def boundary_base.truncate_def
          intro!: normal_boundary_evidence.equality)
  next
    assume "e' = Corrected c"
    with assms(1) show ?thesis
      by (cases e; cases c)
        (auto simp: base_value_def empty_boundary_value_def states_base_def boundary_base.truncate_def
          intro!: corrected_boundary_evidence.equality)
  qed
qed

lemma boundaryEvidencePayload_Inr:
  assumes "boundaryEvidencePayload e = Inr j"
  shows "sound_boundary e \<and> (\<forall>l. e \<noteq> Legacy_normal l) \<and> canonicalBoundaryPayload e = Inr j"
proof -
  from assms obtain e' where e': "states (boundary_value_of e) e'" "sound_boundary e'"
    "canonicalBoundaryPayload e' = Inr j"
    by (auto simp: boundaryEvidencePayload_def result_simps)
  then have "\<exists>n c. e' = Normal n \<or> e' = Corrected c"
    by (cases e') (auto simp: canonicalBoundaryPayload_def Let_def)
  with states_determines e' have "e = e'" by blast
  with e' \<open>\<exists>n c. _\<close> show ?thesis by auto
qed

lemma out_of_range_payload_inject [simp]:
  "out_of_range_payload a = out_of_range_payload b \<longleftrightarrow> a = b"
  by (cases a; cases b) (auto simp: out_of_range_payload_def)

lemma canonicalBoundaryPayload_inject:
  assumes "canonicalBoundaryPayload e = Inr j" and "canonicalBoundaryPayload e' = Inr j"
  shows "e = e'"
proof -
  have shape: "(\<exists>n. d = Normal n \<and> j = JArray [JString (policyVersion n), JInt (reportedSizeBytes n),
          JInt (publishedSizeBytes n), JInt 0,
          JArray [JString (proofVersion (endpointProof n)),
            JInt (confirmationCount (endpointProof n)),
            JInt (proof_firstExcludedLba (endpointProof n)),
            out_of_range_payload (proof_outOfRangeEvidence (endpointProof n))]]
          \<and> excludedSectorCount n = 0)
     \<or> (\<exists>c. d = Corrected c \<and> j = JArray [JString (policyVersion c), JInt (reportedSizeBytes c),
          JInt (publishedSizeBytes c), JInt (excludedSectorCount c), JInt (firstExcludedLba c),
          JInt (maximumReferencedLba c), out_of_range_payload (outOfRangeEvidence c)])"
    if "canonicalBoundaryPayload d = Inr j" for d
    using that by (cases d) (auto simp: canonicalBoundaryPayload_def Let_def
        boundary_base.truncate_def split: if_splits)
  have normal: "n = m" if "policyVersion n = policyVersion m"
    "reportedSizeBytes n = reportedSizeBytes m" "publishedSizeBytes n = publishedSizeBytes m"
    "excludedSectorCount n = excludedSectorCount m"
    "proofVersion (endpointProof n) = proofVersion (endpointProof m)"
    "confirmationCount (endpointProof n) = confirmationCount (endpointProof m)"
    "proof_firstExcludedLba (endpointProof n) = proof_firstExcludedLba (endpointProof m)"
    "proof_outOfRangeEvidence (endpointProof n) = proof_outOfRangeEvidence (endpointProof m)"
    for n m :: normal_boundary_evidence
    using that by (intro normal_boundary_evidence.equality endpoint_proof.equality) auto
  show ?thesis
    using shape [OF assms(1)] shape [OF assms(2)]
    by (auto intro: normal corrected_boundary_evidence.equality)
qed

lemma json_option_inject [simp]: "json_option a = json_option b \<longleftrightarrow> a = b"
  by (cases a; cases b) (auto simp: json_option_def)

lemma recoveryReadPayload_shape:
  assumes "recoveryReadPayload r = Inr j"
  shows "j = JArray (recovery_read_base r) \<and> verificationId r = None \<and> discConfirmationId r = None
    \<or> (\<exists>v c. verificationId r = Some v \<and> discConfirmationId r = Some c
         \<and> j = JArray (recovery_read_base r @ [JString v, json_option c]))"
  using assms
  by (auto simp: recoveryReadPayload_def result_simps split: option.splits if_splits)

lemma recovery_read_base_inject:
  assumes "recovery_read_base a = recovery_read_base b" and "verificationId a = verificationId b"
    and "discConfirmationId a = discConfirmationId b"
  shows "a = b"
  using assms by (auto simp: recovery_read_base_def intro: recovery_read_evidence.equality)

lemma recoveryReadPayload_inject:
  assumes "recoveryReadPayload a = Inr j" and "recoveryReadPayload b = Inr j"
  shows "a = b"
proof -
  have "length (recovery_read_base r) = 6" for r by (simp add: recovery_read_base_def)
  then show ?thesis
    using recoveryReadPayload_shape [OF assms(1)] recoveryReadPayload_shape [OF assms(2)]
    by (auto dest: arg_cong [of _ _ length] intro!: recovery_read_base_inject)
qed

lemma manifestPayload_inject:
  assumes "manifestPayload a d = manifestPayload b e"
    and "unrecoveredSourceRanges a = unrecoveredSourceRanges b"
  shows "a = b"
  using assms by (auto simp: manifestPayload_def intro: manifest_digest_input.equality)

lemma manifestPayload_ranges_digest:
  "manifestPayload a d = manifestPayload b e \<Longrightarrow> d = e"
  by (simp add: manifestPayload_def)

text \<open>The two texts that a manifest hashes, and what makes a manifest admissible.\<close>

definition ranges_text :: "dvd_unrecovered_source_range list \<Rightarrow> string" where
  "ranges_text rs = digest_text source_ranges_domain (JArray (map range_payload rs))"

definition manifest_text :: "(string \<Rightarrow> string) \<Rightarrow> manifest_digest_input \<Rightarrow> string" where
  "manifest_text sha256 m = digest_text evidence_manifest_domain
     (manifestPayload m (sha256 (ranges_text (unrecoveredSourceRanges m))))"

definition admissible_manifest :: "manifest_digest_input \<Rightarrow> bool" where
  "admissible_manifest m \<longleftrightarrow>
     check_all (manifest_extent_guards m @ manifest_range_guards m @ manifest_link_guards m) = Inr ()
     \<and> canonical (unrecoveredSourceRanges m)
     \<and> (\<forall>r \<in> set (unrecoveredSourceRanges m). hashable_range r)"

lemma createRangesDigest_Inr [result_simps]:
  "createDvdUnrecoveredSourceRangesDigest sha256 rs = Inr d \<longleftrightarrow>
     d = sha256 (ranges_text rs) \<and> canonical rs \<and> (\<forall>r \<in> set rs. hashable_range r)"
  by (auto simp: createDvdUnrecoveredSourceRangesDigest_def result_simps digest_def ranges_text_def)

lemma createManifestDigests_Inr [result_simps]:
  "createDvdArchiveEvidenceManifestDigests sha256 m = Inr d \<longleftrightarrow>
     admissible_manifest m
     \<and> d = \<lparr>unrecoveredSourceRangesDigest = sha256 (ranges_text (unrecoveredSourceRanges m)),
            manifestDigest = sha256 (manifest_text sha256 m)\<rparr>"
  by (auto simp: createDvdArchiveEvidenceManifestDigests_def result_simps admissible_manifest_def
      digest_def manifest_text_def)

lemma assertManifestDigests_Inr [result_simps]:
  "assertDvdArchiveEvidenceManifestDigests sha256 m d = Inr u \<longleftrightarrow>
     createDvdArchiveEvidenceManifestDigests sha256 m = Inr d"
  by (cases d) (auto simp: assertDvdArchiveEvidenceManifestDigests_def
      assertDvdUnrecoveredSourceRangesDigest_def result_simps admissible_manifest_def)

lemma assertRecoveryReadDigest_Inr [result_simps]:
  "assertDvdArchiveRecoveryReadEvidenceDigest sha256 r d = Inr u \<longleftrightarrow>
     createDvdArchiveRecoveryReadEvidenceDigest sha256 r = Inr d"
  by (auto simp: assertDvdArchiveRecoveryReadEvidenceDigest_def result_simps)

lemma assertBoundaryDigest_Inr [result_simps]:
  "assertDvdArchiveBoundaryEvidenceDigest sha256 e d = Inr u \<longleftrightarrow>
     createDvdArchiveBoundaryEvidenceDigest sha256 e = Inr d"
  by (auto simp: assertDvdArchiveBoundaryEvidenceDigest_def result_simps)

lemma ranges_text_inject:
  assumes "admissible_manifest a" and "admissible_manifest b"
    and "ranges_text (unrecoveredSourceRanges a) = ranges_text (unrecoveredSourceRanges b)"
  shows "unrecoveredSourceRanges a = unrecoveredSourceRanges b"
  using assms by (auto simp: ranges_text_def admissible_manifest_def intro: range_payloads_inject)

section \<open>Digests identify contents\<close>

definition hash_clash :: "(string \<Rightarrow> string) \<Rightarrow> string \<Rightarrow> string \<Rightarrow> bool" where
  "hash_clash sha256 p q \<longleftrightarrow> p \<noteq> q \<and> sha256 p = sha256 q"

lemma equal_digest_cases:
  assumes "sha256 p = sha256 q"
  shows "p = q \<or> hash_clash sha256 p q"
  using assms by (auto simp: hash_clash_def)

lemma manifest_digest_cases:
  assumes "admissible_manifest a" and "admissible_manifest b"
    and "sha256 (manifest_text sha256 a) = sha256 (manifest_text sha256 b)"
  shows "a = b \<or> hash_clash sha256 (manifest_text sha256 a) (manifest_text sha256 b)
    \<or> hash_clash sha256 (ranges_text (unrecoveredSourceRanges a))
        (ranges_text (unrecoveredSourceRanges b))"
proof (cases "manifest_text sha256 a = manifest_text sha256 b")
  case True
  then have payloads: "manifestPayload a (sha256 (ranges_text (unrecoveredSourceRanges a)))
      = manifestPayload b (sha256 (ranges_text (unrecoveredSourceRanges b)))"
    by (simp add: manifest_text_def)
  from equal_digest_cases [of sha256 "ranges_text (unrecoveredSourceRanges a)" "ranges_text (unrecoveredSourceRanges b)", OF manifestPayload_ranges_digest [OF payloads]] show ?thesis
    using manifestPayload_inject [OF payloads] ranges_text_inject [OF assms(1,2)] by blast
next
  case False
  with assms(3) show ?thesis by (simp add: hash_clash_def)
qed

lemma nul_terminated_inject:
  assumes "nul_terminated s @ r = nul_terminated t @ u" and "CHR 0x00 \<notin> set s" and "CHR 0x00 \<notin> set t"
  shows "s = t \<and> r = u"
proof -
  have "takeWhile (\<lambda>c. c \<noteq> CHR 0x00) (nul_terminated v @ w) = v" if "CHR 0x00 \<notin> set v" for v w
    using that by (induction v) (auto simp: nul_terminated_def)
  with assms have "s = t" by metis
  with assms(1) show ?thesis by simp
qed

lemma utf8_append [simp]: "utf8 (x @ y) = utf8 x @ utf8 y"
  by (simp add: utf8_def)

lemma domains_distinct:
  assumes "digest_text (nul_terminated s) p = digest_text (nul_terminated t) q"
    and "CHR 0x00 \<notin> set s" and "CHR 0x00 \<notin> set t"
  shows "s = t \<and> p = q"
proof -
  from assms(1) have "utf8 (nul_terminated s @ json_stringify p) = utf8 (nul_terminated t @ json_stringify q)"
    by (simp only: digest_text_def utf8_append)
  then have "nul_terminated s @ json_stringify p = nul_terminated t @ json_stringify q"
    by (simp only: utf8_inject)
  from nul_terminated_inject [OF this assms(2,3)] show ?thesis by simp
qed

text \<open>The records that are hashed on their own.\<close>

datatype evidence_record =
    Boundary_record archive_boundary_evidence
  | Ranges_record "dvd_unrecovered_source_range list"
  | Read_record recovery_read_evidence

fun record_name :: "evidence_record \<Rightarrow> string" where
  "record_name (Boundary_record _) = ''rip-dvd:dvd-archive-boundary-evidence:v1''"
| "record_name (Ranges_record _) = ''rip-dvd:dvd-unrecovered-source-ranges:v1''"
| "record_name (Read_record _) = ''rip-dvd:dvd-archive-recovery-read-evidence:v1''"

fun record_payload :: "evidence_record \<Rightarrow> json_value result" where
  "record_payload (Boundary_record e) = boundaryEvidencePayload e"
| "record_payload (Ranges_record rs) = canonicalSourceRangesPayload rs"
| "record_payload (Read_record r) = recoveryReadPayload r"

fun record_digest :: "(string \<Rightarrow> string) \<Rightarrow> evidence_record \<Rightarrow> string result" where
  "record_digest sha256 (Boundary_record e) = createDvdArchiveBoundaryEvidenceDigest sha256 e"
| "record_digest sha256 (Ranges_record rs) = createDvdUnrecoveredSourceRangesDigest sha256 rs"
| "record_digest sha256 (Read_record r) = createDvdArchiveRecoveryReadEvidenceDigest sha256 r"

definition record_text :: "evidence_record \<Rightarrow> string" where
  "record_text a = (case record_payload a of
     Inl _ \<Rightarrow> '''' | Inr j \<Rightarrow> digest_text (nul_terminated (record_name a)) j)"

lemma record_digest_Inr:
  "record_digest sha256 a = Inr d \<longleftrightarrow>
     (\<exists>j. record_payload a = Inr j \<and> d = sha256 (record_text a))"
proof -
  have "record_digest sha256 a =
      map_sum id (digest sha256 (nul_terminated (record_name a))) (record_payload a)"
    by (cases a) (simp_all add:
      createDvdArchiveBoundaryEvidenceDigest_def createDvdArchiveRecoveryReadEvidenceDigest_def
      createDvdUnrecoveredSourceRangesDigest_def boundary_evidence_domain_def
      source_ranges_domain_def recovery_read_evidence_domain_def)
  then show ?thesis
    by (auto simp: record_text_def digest_def map_sum_Inr)
qed

lemma record_payload_inject:
  assumes "record_payload a = Inr j" and "record_payload b = Inr j" and "record_name a = record_name b"
  shows "a = b"
proof (cases a)
  case (Boundary_record e)
  with assms obtain e' where "b = Boundary_record e'" by (cases b) auto
  with Boundary_record assms show ?thesis
    by (auto dest!: boundaryEvidencePayload_Inr intro: canonicalBoundaryPayload_inject)
next
  case (Ranges_record rs)
  with assms obtain ss where "b = Ranges_record ss" by (cases b) auto
  with Ranges_record assms show ?thesis
    by (auto simp: canonicalSourceRangesPayload_Inr intro: range_payloads_inject)
next
  case (Read_record r)
  with assms obtain s where "b = Read_record s" by (cases b) auto
  with Read_record assms show ?thesis by (auto intro: recoveryReadPayload_inject)
qed

lemma record_text_inject:
  assumes "record_payload a = Inr j" and "record_payload b = Inr k" and "record_text a = record_text b"
  shows "a = b"
proof -
  have "CHR 0x00 \<notin> set (record_name c)" for c by (cases c) simp_all
  with assms domains_distinct [of "record_name a" j "record_name b" k]
  have "record_name a = record_name b" and "j = k" by (simp_all add: record_text_def)
  with assms show ?thesis by (auto intro: record_payload_inject)
qed

section \<open>Properties\<close>

text \<open>
  C30: The digest of a map of Unrecovered Source is given exactly for canonical maps of the two
  known classifications within the safe integers; any other list, unsorted, overlapping or with
  two ranges left to merge, is refused.
\<close>

theorem ranges_digest_exactly_for_canonical_maps:
  "is_ok (createDvdUnrecoveredSourceRangesDigest sha256 rs) \<longleftrightarrow>
     canonical rs \<and> (\<forall>r \<in> set rs. rangeEnd r \<le> max_safe_integer
       \<and> classification r \<in> {Skipped_untested, Individually_failed})"
  by (auto simp: is_ok_iff result_simps hashable_range_def canonical_def ascending_def
      is_safe_integer_def proper_range_def rangeEnd_def)

theorem ranges_digest_exactly_for_canonical_maps_witness:
  "is_ok (createDvdUnrecoveredSourceRangesDigest (\<lambda>s. s) example_map)"
  using canonical_example_map
  by (simp add: ranges_digest_exactly_for_canonical_maps)
    (simp add: example_map_def rangeEnd_def max_safe_integer_def)

text \<open>
  C26: Two records of boundary evidence, source map or recovery read that have one digest are the
  same record, of the same kind and with the same contents, unless the hash does not tell their
  canonical texts apart: the domain prefixes separate the kinds and the positional payloads
  leave out nothing.
\<close>

theorem evidence_digests_identify_records:
  assumes "record_digest sha256 a = Inr d" and "record_digest sha256 b = Inr d"
  shows "a = b \<or> hash_clash sha256 (record_text a) (record_text b)"
proof -
  from assms obtain j k where "record_payload a = Inr j" "record_payload b = Inr k"
    and "sha256 (record_text a) = sha256 (record_text b)"
    by (auto simp: record_digest_Inr)
  then show ?thesis using record_text_inject by (auto simp: hash_clash_def)
qed

theorem evidence_digests_identify_records_witness:
  "record_digest (\<lambda>s. ''0'') (Ranges_record []) = Inr ''0''
   \<and> hash_clash (\<lambda>s. ''0'') (record_text (Ranges_record [])) (record_text (Ranges_record example_map))"
proof -
  have "record_digest (\<lambda>s. ''0'') (Ranges_record []) = Inr ''0''"
    by (simp add: createDvdUnrecoveredSourceRangesDigest_def canonicalSourceRangesPayload_def
        digest_def)
  moreover have "record_digest (\<lambda>s. ''0'') (Ranges_record example_map) = Inr ''0''"
    using canonical_example_map
    by (simp add: createRangesDigest_Inr)
      (simp add: example_map_def hashable_range_def proper_range_def rangeEnd_def
        is_safe_integer_def max_safe_integer_def)
  ultimately show ?thesis
    using evidence_digests_identify_records [of "\<lambda>s. ''0''" "Ranges_record []" "''0''"
        "Ranges_record example_map"]
    by (simp add: example_map_def)
qed

text \<open>
  The digest of a manifest commits to all of it: two manifests with one digest agree in
  every field, their maps and the digests of predecessor and recovery read included, unless
  the hash does not tell apart the texts of the manifests or of their maps.
\<close>

theorem manifest_digest_binds_manifest:
  assumes "createDvdArchiveEvidenceManifestDigests sha256 a = Inr x"
    and "createDvdArchiveEvidenceManifestDigests sha256 b = Inr y"
    and "manifestDigest x = manifestDigest y"
  shows "a = b \<or> hash_clash sha256 (manifest_text sha256 a) (manifest_text sha256 b)
    \<or> hash_clash sha256 (ranges_text (unrecoveredSourceRanges a))
        (ranges_text (unrecoveredSourceRanges b))"
  using assms manifest_digest_cases [of a b sha256] by (auto simp: createManifestDigests_Inr)

definition example_manifest :: manifest_digest_input where
  "example_manifest =
     \<lparr>originalDiscArchiveId = ''archive'', revision = 1, previousManifestId = None,
      previousManifestDigest = None, recoveryReadId = None, recoveryReadEvidenceDigest = None,
      evidenceFormat = ''dvd-recovery-evidence-v1'', imageFingerprint = ''disc'',
      sectorSizeBytes = 2048, acceptedEndLbaExclusive = 100,
      manifestBoundaryPolicyVersion = ''dvd-archive-boundary-v2'',
      manifestBoundaryReportedSizeBytes = 204800, manifestBoundaryPublishedSizeBytes = 204800,
      boundaryEvidenceDigest = replicate 64 CHR ''a'', unrecoveredSourceRanges = []\<rparr>"

lemma create_example_manifest:
  assumes "fingerprint = ''disc'' \<or> fingerprint = ''other''"
  shows "createDvdArchiveEvidenceManifestDigests sha256 (example_manifest\<lparr>imageFingerprint := fingerprint\<rparr>) =
     Inr \<lparr>unrecoveredSourceRangesDigest = sha256 (ranges_text []),
       manifestDigest = sha256 (manifest_text sha256 (example_manifest\<lparr>imageFingerprint := fingerprint\<rparr>))\<rparr>"
proof -
  have "is_sha256_hex (replicate 64 CHR ''a'')"
    by (simp add: is_sha256_hex_def is_lower_hex_def list_all_iff)
  then have "admissible_manifest (example_manifest\<lparr>imageFingerprint := fingerprint\<rparr>)"
    using assms
    by (auto simp: admissible_manifest_def example_manifest_def manifest_extent_guards_def
        manifest_range_guards_def manifest_link_guards_def require_defs reject_if_def
        is_safe_integer_def max_safe_integer_def canonical_def)
  then show ?thesis by (simp add: createManifestDigests_Inr) (simp add: example_manifest_def)
qed

theorem manifest_digest_binds_manifest_witness:
  "let other = example_manifest\<lparr>imageFingerprint := ''other''\<rparr> in
     hash_clash (\<lambda>_. ''0'') (manifest_text (\<lambda>_. ''0'') (example_manifest\<lparr>imageFingerprint := ''disc''\<rparr>))
       (manifest_text (\<lambda>_. ''0'') other)"
  using manifest_digest_binds_manifest
    [OF create_example_manifest [of "''disc''" "\<lambda>_. ''0''"]
      create_example_manifest [of "''other''" "\<lambda>_. ''0''"]]
  by (simp add: example_manifest_def hash_clash_def)

end
