(* ===== verification/DiscConfirmation.thy ===== *)
theory DiscConfirmation
  imports EvidenceDigests
begin

text \<open>
  The operator's confirmation of a disc that did not verify as a match
  (\<open>packages/data-access/src/dvd-disc-confirmation.ts\<close>): the digest of a verification result, the
  test that a confirmation belongs to a verification, and the write authority the two give.
  Reasons and findings of a verification are JSON values; times are milliseconds.
\<close>

section \<open>Data\<close>

record disc_verification =
  ver_id :: string
  ver_archiveRecoveryId :: string
  ver_archiveRecoveryAttemptId :: "string option"
  ver_originalDiscArchiveId :: string
  ver_discInspectionId :: string
  ver_detectedDiscId :: string
  ver_mediaGeneration :: string
  ver_sourceMetadataFingerprint :: string
  ver_observedMetadataFingerprint :: string
  ver_checkpointRevision :: int
  ver_checkpointDigest :: string
  ver_status :: string
  ver_outcome :: "string option"
  ver_reasons :: "string list"
  ver_findings :: "json_value list"
  ver_budgetExhausted :: bool
  ver_workerExecutionId :: "string option"

record disc_confirmation =
  conf_id :: string
  conf_archiveRecoveryId :: string
  conf_archiveRecoveryAttemptId :: string
  conf_originalDiscArchiveId :: string
  conf_verificationId :: string
  conf_discInspectionId :: string
  conf_detectedDiscId :: string
  conf_mediaGeneration :: string
  conf_verificationWorkerExecutionId :: string
  conf_verificationOutcome :: string
  conf_verificationResultDigest :: string
  conf_checkpointRevision :: int
  conf_checkpointDigest :: string
  conf_acknowledgedMixedSource :: bool
  conf_expiredAt :: "int option"

record recovery_write_authority =
  auth_verificationId :: string
  auth_archiveRecoveryId :: string
  auth_archiveRecoveryAttemptId :: string
  auth_originalDiscArchiveId :: string
  auth_discInspectionId :: string
  auth_detectedDiscId :: string
  auth_mediaGeneration :: string
  auth_verificationWorkerExecutionId :: string
  auth_checkpointRevision :: int
  auth_checkpointDigest :: string
  auth_discConfirmationId :: string

section \<open>Operations\<close>

definition verification_result_digest_domain :: string where
  "verification_result_digest_domain = nul_terminated ''rip-dvd:dvd-disc-verification-result:v1''"

definition verification_result :: "disc_verification \<Rightarrow> (string \<times> json_value) list" where
  "verification_result v =
     [(''id'', JString (ver_id v)),
      (''archiveRecoveryId'', JString (ver_archiveRecoveryId v)),
      (''archiveRecoveryAttemptId'', json_option (ver_archiveRecoveryAttemptId v)),
      (''originalDiscArchiveId'', JString (ver_originalDiscArchiveId v)),
      (''discInspectionId'', JString (ver_discInspectionId v)),
      (''detectedDiscId'', JString (ver_detectedDiscId v)),
      (''mediaGeneration'', JString (ver_mediaGeneration v)),
      (''sourceMetadataFingerprint'', JString (ver_sourceMetadataFingerprint v)),
      (''observedMetadataFingerprint'', JString (ver_observedMetadataFingerprint v)),
      (''workerExecutionId'', json_option (ver_workerExecutionId v)),
      (''checkpointRevision'', JInt (ver_checkpointRevision v)),
      (''checkpointDigest'', JString (ver_checkpointDigest v)),
      (''outcome'', json_option (ver_outcome v)),
      (''reasons'', JArray (map JString (ver_reasons v))),
      (''findings'', JArray (ver_findings v)),
      (''budgetExhausted'', JBool (ver_budgetExhausted v))]"

definition verification_text :: "disc_verification \<Rightarrow> string" where
  "verification_text v =
     utf8 verification_result_digest_domain @ utf8 (canonicalJson (JObject (verification_result v)))"

definition createDvdDiscVerificationResultDigest ::
  "(string \<Rightarrow> string) \<Rightarrow> disc_verification \<Rightarrow> string result" where
  "createDvdDiscVerificationResultDigest sha256 v =
     (if ver_archiveRecoveryAttemptId v = None \<or> ver_workerExecutionId v = None
       \<or> ver_outcome v = None
      then Inl (DomainInvariantError ''DVD Disc Verification result is not complete'')
      else Inr (sha256 (verification_text v)))"

text \<open>
  The digest is the last but one test that reads the verification, after those that make it
  complete, so the error of an incomplete result cannot arise in the conjunction.
\<close>

definition dvdDiscConfirmationMatchesVerification ::
  "(string \<Rightarrow> string) \<Rightarrow> disc_verification \<Rightarrow> disc_confirmation \<Rightarrow> bool" where
  "dvdDiscConfirmationMatchesVerification sha256 v c \<longleftrightarrow>
     \<not> (ver_status v \<noteq> ''completed''
        \<or> ver_outcome v = None
        \<or> ver_outcome v = Some ''match''
        \<or> ver_archiveRecoveryAttemptId v = None
        \<or> ver_workerExecutionId v = None
        \<or> \<not> conf_acknowledgedMixedSource c
        \<or> conf_archiveRecoveryId c \<noteq> ver_archiveRecoveryId v
        \<or> Some (conf_archiveRecoveryAttemptId c) \<noteq> ver_archiveRecoveryAttemptId v
        \<or> conf_originalDiscArchiveId c \<noteq> ver_originalDiscArchiveId v
        \<or> conf_verificationId c \<noteq> ver_id v
        \<or> conf_discInspectionId c \<noteq> ver_discInspectionId v
        \<or> conf_detectedDiscId c \<noteq> ver_detectedDiscId v
        \<or> conf_mediaGeneration c \<noteq> ver_mediaGeneration v
        \<or> Some (conf_verificationWorkerExecutionId c) \<noteq> ver_workerExecutionId v
        \<or> Some (conf_verificationOutcome c) \<noteq> ver_outcome v
        \<or> Inr (conf_verificationResultDigest c) \<noteq> createDvdDiscVerificationResultDigest sha256 v
        \<or> conf_checkpointRevision c \<noteq> ver_checkpointRevision v
        \<or> conf_checkpointDigest c \<noteq> ver_checkpointDigest v)"

definition dvdConfirmedRecoveryWriteAuthority ::
  "(string \<Rightarrow> string) \<Rightarrow> disc_verification \<Rightarrow> disc_confirmation \<Rightarrow>
     recovery_write_authority option" where
  "dvdConfirmedRecoveryWriteAuthority sha256 v c =
     (case (conf_expiredAt c, ver_archiveRecoveryAttemptId v, ver_workerExecutionId v) of
        (None, Some attempt, Some worker) \<Rightarrow>
          if \<not> dvdDiscConfirmationMatchesVerification sha256 v c then None
          else Some
            \<lparr>auth_verificationId = ver_id v,
             auth_archiveRecoveryId = ver_archiveRecoveryId v,
             auth_archiveRecoveryAttemptId = attempt,
             auth_originalDiscArchiveId = ver_originalDiscArchiveId v,
             auth_discInspectionId = ver_discInspectionId v,
             auth_detectedDiscId = ver_detectedDiscId v,
             auth_mediaGeneration = ver_mediaGeneration v,
             auth_verificationWorkerExecutionId = worker,
             auth_checkpointRevision = ver_checkpointRevision v,
             auth_checkpointDigest = ver_checkpointDigest v,
             auth_discConfirmationId = conf_id c\<rparr>
      | _ \<Rightarrow> None)"

section \<open>Facts\<close>

lemma verification_result_keys: "distinct (map fst (verification_result v))"
  by (simp add: verification_result_def)

lemma verification_text_inject:
  assumes "verification_text v = verification_text w"
  shows "canonical_value (JObject (verification_result v)) = canonical_value (JObject (verification_result w))"
  using assms by (simp add: verification_text_def canonicalJson_def del: canonical_value.simps)

lemma verification_result_members:
  "map_of (verification_result v) ''sourceMetadataFingerprint'' = Some (JString (ver_sourceMetadataFingerprint v))"
  "map_of (verification_result v) ''observedMetadataFingerprint'' = Some (JString (ver_observedMetadataFingerprint v))"
  "map_of (verification_result v) ''reasons'' = Some (JArray (map JString (ver_reasons v)))"
  "map_of (verification_result v) ''findings'' = Some (JArray (ver_findings v))"
  "map_of (verification_result v) ''budgetExhausted'' = Some (JBool (ver_budgetExhausted v))"
  by (simp_all add: verification_result_def)

lemma canonical_strings: "canonical_values (map JString ss) = map JString ss"
  by (induction ss) simp_all

lemma same_text_same_result:
  assumes "verification_text v = verification_text w"
  shows "ver_sourceMetadataFingerprint v = ver_sourceMetadataFingerprint w
    \<and> ver_observedMetadataFingerprint v = ver_observedMetadataFingerprint w
    \<and> ver_reasons v = ver_reasons w
    \<and> canonical_values (ver_findings v) = canonical_values (ver_findings w)
    \<and> ver_budgetExhausted v = ver_budgetExhausted w"
proof -
  note member = canonical_object_member [OF verification_text_inject [OF assms]
      verification_result_keys verification_result_keys]
  have strings: "xs = ys" if "map JString xs = map JString ys" for xs ys
    using that by (rule map_injective) (simp add: inj_def)
  show ?thesis
    using member [of "''sourceMetadataFingerprint''"] member [of "''observedMetadataFingerprint''"]
      member [of "''reasons''"] member [of "''findings''"] member [of "''budgetExhausted''"]
    by (auto simp: verification_result_members canonical_strings dest: strings)
qed

lemma matching_verification:
  "dvdDiscConfirmationMatchesVerification sha256 v c \<longleftrightarrow>
     ver_status v = ''completed'' \<and> conf_acknowledgedMixedSource c
     \<and> (\<exists>outcome. outcome \<noteq> ''match'' \<and> ver_outcome v = Some outcome
          \<and> conf_verificationOutcome c = outcome)
     \<and> ver_archiveRecoveryId v = conf_archiveRecoveryId c
     \<and> ver_archiveRecoveryAttemptId v = Some (conf_archiveRecoveryAttemptId c)
     \<and> ver_originalDiscArchiveId v = conf_originalDiscArchiveId c
     \<and> ver_id v = conf_verificationId c \<and> ver_discInspectionId v = conf_discInspectionId c
     \<and> ver_detectedDiscId v = conf_detectedDiscId c
     \<and> ver_mediaGeneration v = conf_mediaGeneration c
     \<and> ver_workerExecutionId v = Some (conf_verificationWorkerExecutionId c)
     \<and> conf_verificationResultDigest c = sha256 (verification_text v)
     \<and> ver_checkpointRevision v = conf_checkpointRevision c
     \<and> ver_checkpointDigest v = conf_checkpointDigest c"
  by (auto simp: dvdDiscConfirmationMatchesVerification_def createDvdDiscVerificationResultDigest_def)

section \<open>Properties\<close>


definition example_verification :: disc_verification where
  "example_verification =
     \<lparr>ver_id = ''v'', ver_archiveRecoveryId = ''r'', ver_archiveRecoveryAttemptId = Some ''t'',
      ver_originalDiscArchiveId = ''a'', ver_discInspectionId = ''i'', ver_detectedDiscId = ''d'',
      ver_mediaGeneration = ''g'', ver_sourceMetadataFingerprint = ''f'',
      ver_observedMetadataFingerprint = ''o'', ver_checkpointRevision = 1,
      ver_checkpointDigest = ''c'', ver_status = ''completed'', ver_outcome = Some ''mismatch'',
      ver_reasons = [], ver_findings = [], ver_budgetExhausted = False,
      ver_workerExecutionId = Some ''w''\<rparr>"

definition example_confirmation :: disc_confirmation where
  "example_confirmation =
     \<lparr>conf_id = ''x'', conf_archiveRecoveryId = ''r'', conf_archiveRecoveryAttemptId = ''t'',
      conf_originalDiscArchiveId = ''a'', conf_verificationId = ''v'', conf_discInspectionId = ''i'',
      conf_detectedDiscId = ''d'', conf_mediaGeneration = ''g'',
      conf_verificationWorkerExecutionId = ''w'', conf_verificationOutcome = ''mismatch'',
      conf_verificationResultDigest = ''0'', conf_checkpointRevision = 1,
      conf_checkpointDigest = ''c'', conf_acknowledgedMixedSource = True, conf_expiredAt = None\<rparr>"


end
