(* ===== verification/EvidenceChain.thy ===== *)
theory EvidenceChain
  imports DiscConfirmation ArchiveIntegrity
begin

text \<open>
  The catalog's chain of evidence manifests (\<open>internal/create-data-access.ts\<close>): the audit that
  follows the chain of an archive from its header back to the initial manifest
  (\<open>auditDvdArchiveEvidenceChains\<close>), and the transaction that appends a recovery checkpoint
  (\<open>projectDvdRecoveryCheckpoint\<close>).

  A table is a list of rows in the order of insertion, a transaction a function from the catalog
  to an error or the new catalog.  Times are milliseconds.  The audit is modelled per header;
  the queries that collect the rows of a batch of archives, with their limits, and the check of
  the source job that runs before are not.
\<close>

section \<open>Tables\<close>

record manifest_row =
  row_id :: string
  row_originalDiscArchiveId :: string
  row_revision :: int
  row_previousManifestId :: "string option"
  row_recoveryReadId :: "string option"
  row_evidenceFormat :: string
  row_imageFingerprint :: string
  row_sectorSizeBytes :: int
  row_acceptedEndLbaExclusive :: int
  row_boundaryPolicyVersion :: string
  row_boundaryReportedSizeBytes :: int
  row_boundaryPublishedSizeBytes :: int
  row_boundaryEvidenceDigest :: string
  row_unrecoveredSourceRanges :: "dvd_unrecovered_source_range list"
  row_unrecoveredSourceRangesDigest :: string
  row_manifestDigest :: string

record read_row =
  read_id :: string
  readRow_originalDiscArchiveId :: string
  readRow_fromManifestId :: string
  readRow_fromManifestRevision :: int
  readRow_startLba :: int
  readRow_sectorCount :: int
  readRow_outcome :: string
  readRow_verificationId :: "string option"
  readRow_discConfirmationId :: "string option"
  readRow_evidenceDigest :: string
  readRow_fromClassification :: source_classification
  readRow_meaningfulTransition :: bool

record header_row =
  header_originalDiscArchiveId :: string
  header_evidenceFormat :: string
  header_boundaryPolicyVersion :: string
  header_boundaryReportedSizeBytes :: int
  header_boundaryPublishedSizeBytes :: int
  header_boundaryEvidenceDigest :: string
  header_sectorSizeBytes :: int
  header_acceptedEndLbaExclusive :: int
  currentManifestId :: string
  currentManifestRevision :: int
  currentManifestDigest :: string
  header_updatedAt :: int

record archive_record = archive_row +
  arc_id :: string
  arc_fingerprint :: string
  arc_sizeBytes :: int
  arc_boundary :: archive_boundary_columns
  arc_updatedAt :: int

section \<open>The audit\<close>

text \<open>The rows that one header's audit reads: the header joined with its archive, and the tables.\<close>

record audit_source =
  src_header :: header_row
  src_archive :: archive_record
  src_manifests :: "manifest_row list"
  src_reads :: "read_row list"

definition manifestsById :: "audit_source \<Rightarrow> string \<Rightarrow> manifest_row option" where
  "manifestsById src k =
     find (\<lambda>row. row_id row = k
       \<and> row_originalDiscArchiveId row = header_originalDiscArchiveId (src_header src))
       (src_manifests src)"

definition joined_read :: "read_row list \<Rightarrow> string \<Rightarrow> read_row option" where
  "joined_read table k = find (\<lambda>r. read_id r = k) table"

definition read_evidence_of_row :: "read_row \<Rightarrow> recovery_read_evidence" where
  "read_evidence_of_row r =
     \<lparr>read_originalDiscArchiveId = readRow_originalDiscArchiveId r,
      fromManifestId = readRow_fromManifestId r,
      fromManifestRevision = readRow_fromManifestRevision r,
      read_startLba = readRow_startLba r,
      read_sectorCount = readRow_sectorCount r,
      read_outcome = readRow_outcome r,
      verificationId = readRow_verificationId r,
      discConfirmationId =
        (case readRow_verificationId r of
           None \<Rightarrow> None | Some _ \<Rightarrow> Some (readRow_discConfirmationId r))\<rparr>"

definition outcome_of :: "string \<Rightarrow> recovery_read_outcome" where
  "outcome_of s = (if s = ''failed'' then Failed else Recovered)"

definition manifest_input ::
  "manifest_row \<Rightarrow> string option \<Rightarrow> string option \<Rightarrow> manifest_digest_input" where
  "manifest_input row previous_digest read_digest =
     \<lparr>originalDiscArchiveId = row_originalDiscArchiveId row,
      revision = row_revision row,
      previousManifestId = row_previousManifestId row,
      previousManifestDigest = previous_digest,
      recoveryReadId = row_recoveryReadId row,
      recoveryReadEvidenceDigest = read_digest,
      evidenceFormat = row_evidenceFormat row,
      imageFingerprint = row_imageFingerprint row,
      sectorSizeBytes = row_sectorSizeBytes row,
      acceptedEndLbaExclusive = row_acceptedEndLbaExclusive row,
      manifestBoundaryPolicyVersion = row_boundaryPolicyVersion row,
      manifestBoundaryReportedSizeBytes = row_boundaryReportedSizeBytes row,
      manifestBoundaryPublishedSizeBytes = row_boundaryPublishedSizeBytes row,
      boundaryEvidenceDigest = row_boundaryEvidenceDigest row,
      unrecoveredSourceRanges = row_unrecoveredSourceRanges row\<rparr>"

definition row_digests :: "manifest_row \<Rightarrow> manifest_digests" where
  "row_digests row =
     \<lparr>unrecoveredSourceRangesDigest = row_unrecoveredSourceRangesDigest row,
      manifestDigest = row_manifestDigest row\<rparr>"

definition previousManifest :: "audit_source \<Rightarrow> manifest_row \<Rightarrow> manifest_row option" where
  "previousManifest src row =
     (case row_previousManifestId row of None \<Rightarrow> None | Some k \<Rightarrow> manifestsById src k)"

definition chain_member_differs :: "audit_source \<Rightarrow> int \<Rightarrow> string list \<Rightarrow> manifest_row \<Rightarrow> bool" where
  "chain_member_differs src expectedRevision visited row \<longleftrightarrow>
     (let header = src_header src in
      row_id row \<in> set visited
      \<or> row_originalDiscArchiveId row \<noteq> header_originalDiscArchiveId header
      \<or> row_revision row \<noteq> expectedRevision
      \<or> row_evidenceFormat row \<noteq> header_evidenceFormat header
      \<or> row_imageFingerprint row \<noteq> arc_fingerprint (src_archive src)
      \<or> row_sectorSizeBytes row \<noteq> header_sectorSizeBytes header
      \<or> row_acceptedEndLbaExclusive row \<noteq> header_acceptedEndLbaExclusive header
      \<or> row_boundaryPolicyVersion row \<noteq> header_boundaryPolicyVersion header
      \<or> row_boundaryReportedSizeBytes row \<noteq> header_boundaryReportedSizeBytes header
      \<or> row_boundaryPublishedSizeBytes row \<noteq> header_boundaryPublishedSizeBytes header
      \<or> row_boundaryEvidenceDigest row \<noteq> header_boundaryEvidenceDigest header)"

text \<open>The recovery read of a manifest, \<open>None\<close> when it has none; its digest must match.\<close>

definition audit_read ::
  "(string \<Rightarrow> string) \<Rightarrow> audit_source \<Rightarrow> manifest_row \<Rightarrow> read_row option result" where
  "audit_read sha256 src row =
     (case row_recoveryReadId row of
        None \<Rightarrow> Inr None
      | Some k \<Rightarrow>
          (case joined_read (src_reads src) k of
             None \<Rightarrow> Inl (DomainInvariantError
               ''Persisted DVD Archive Evidence recovery read is incomplete'')
           | Some r \<Rightarrow>
               (case assertDvdArchiveRecoveryReadEvidenceDigest sha256 (read_evidence_of_row r)
                       (readRow_evidenceDigest r) of
                  Inl e \<Rightarrow> Inl e
                | Inr _ \<Rightarrow> Inr (Some r))))"

definition linksAreValid ::
  "audit_source \<Rightarrow> int \<Rightarrow> manifest_row \<Rightarrow> manifest_row option \<Rightarrow> read_row option \<Rightarrow> bool" where
  "linksAreValid src expectedRevision row previous read \<longleftrightarrow>
     (if expectedRevision = 1
      then row_previousManifestId row = None \<and> row_recoveryReadId row = None
      else
        (case (previous, read) of
           (Some p, Some r) \<Rightarrow>
             readRow_originalDiscArchiveId r = header_originalDiscArchiveId (src_header src)
             \<and> readRow_fromManifestId r = row_id p
             \<and> readRow_fromManifestRevision r = row_revision p
             \<and> row_originalDiscArchiveId p = header_originalDiscArchiveId (src_header src)
             \<and> row_revision p = expectedRevision - 1
         | _ \<Rightarrow> False))"

type_synonym transition = "manifest_row \<times> manifest_row \<times> read_row"

definition audit_manifest ::
  "(string \<Rightarrow> string) \<Rightarrow> audit_source \<Rightarrow> archive_boundary_evidence \<Rightarrow> int \<Rightarrow> string list \<Rightarrow>
     manifest_row \<Rightarrow> transition list result" where
  "audit_manifest sha256 src boundary expectedRevision visited row =
     (if chain_member_differs src expectedRevision visited row
      then Inl (DomainInvariantError ''Persisted DVD Archive Evidence manifest chain is invalid'')
      else
        (case assertDvdArchiveBoundaryEvidenceDigest sha256 boundary
                (row_boundaryEvidenceDigest row) of
           Inl e \<Rightarrow> Inl e
         | Inr _ \<Rightarrow>
             (case audit_read sha256 src row of
                Inl e \<Rightarrow> Inl e
              | Inr read \<Rightarrow>
                  (let previous = previousManifest src row in
                   if \<not> linksAreValid src expectedRevision row previous read
                   then Inl (DomainInvariantError
                     ''Persisted DVD Archive Evidence predecessor and recovery links are invalid'')
                   else
                     (case assertDvdArchiveEvidenceManifestDigests sha256
                             (manifest_input row (map_option row_manifestDigest previous)
                               (map_option readRow_evidenceDigest read))
                             (row_digests row) of
                        Inl e \<Rightarrow> Inl e
                      | Inr _ \<Rightarrow> Inr
                          (case (previous, read) of
                             (Some p, Some r) \<Rightarrow> [(p, row, r)]
                           | _ \<Rightarrow> []))))))"

text \<open>The loop over \<open>expectedRevision\<close>, downwards; its transitions in the order it pushes them.\<close>

fun audit_walk ::
  "(string \<Rightarrow> string) \<Rightarrow> audit_source \<Rightarrow> archive_boundary_evidence \<Rightarrow> nat \<Rightarrow> string list \<Rightarrow>
     manifest_row option \<Rightarrow> transition list result" where
  "audit_walk sha256 src boundary 0 visited manifest = Inr []"
| "audit_walk sha256 src boundary (Suc n) visited manifest =
     (case manifest of
        None \<Rightarrow> Inl (DomainInvariantError
          ''Persisted DVD Archive Evidence manifest chain is invalid'')
      | Some row \<Rightarrow>
          (case audit_manifest sha256 src boundary (int (Suc n)) visited row of
             Inl e \<Rightarrow> Inl e
           | Inr here \<Rightarrow>
               map_sum id (\<lambda>earlier. here @ earlier)
                 (audit_walk sha256 src boundary n (row_id row # visited)
                   (previousManifest src row))))"

definition check_transition :: "transition \<Rightarrow> unit result" where
  "check_transition t =
     (case t of (previous, current, read) \<Rightarrow>
        assertDvdEvidenceRangeTransition (row_unrecoveredSourceRanges previous)
          (row_unrecoveredSourceRanges current) (readRow_startLba read)
          (outcome_of (readRow_outcome read)))"

definition header_differs_from_archive :: "header_row \<Rightarrow> archive_record \<Rightarrow> bool" where
  "header_differs_from_archive header archive \<longleftrightarrow>
     header_evidenceFormat header \<noteq> dvd_recovery_evidence_format
     \<or> arc_sizeBytes archive \<noteq> header_boundaryPublishedSizeBytes header
     \<or> boundaryPolicyVersion (arc_boundary archive) \<noteq> Some (header_boundaryPolicyVersion header)
     \<or> boundaryReportedSizeBytes (arc_boundary archive)
          \<noteq> Some (header_boundaryReportedSizeBytes header)
     \<or> boundaryPublishedSizeBytes (arc_boundary archive)
          \<noteq> Some (header_boundaryPublishedSizeBytes header)"

definition auditDvdArchiveEvidenceChain ::
  "(string \<Rightarrow> string) \<Rightarrow> audit_source \<Rightarrow> unit result" where
  "auditDvdArchiveEvidenceChain sha256 src =
     (let header = src_header src in
      case archiveBoundaryEvidenceFromRecord (arc_boundary (src_archive src)) of
        Inl e \<Rightarrow> Inl e
      | Inr None \<Rightarrow> Inl (DomainInvariantError
          ''Persisted DVD Archive Evidence has no Archive Boundary Evidence'')
      | Inr (Some boundary) \<Rightarrow>
          (case assertDvdArchiveBoundaryEvidenceDigest sha256 boundary
                  (header_boundaryEvidenceDigest header) of
             Inl e \<Rightarrow> Inl e
           | Inr _ \<Rightarrow>
               if header_differs_from_archive header (src_archive src)
               then Inl (DomainInvariantError
                 ''Persisted DVD Archive Evidence header does not match its archive'')
               else
                 (case manifestsById src (currentManifestId header) of
                    None \<Rightarrow> Inl (DomainInvariantError
                      ''Persisted DVD Archive Evidence header does not match its current manifest'')
                  | Some manifest \<Rightarrow>
                      if row_revision manifest \<noteq> currentManifestRevision header
                       \<or> row_manifestDigest manifest \<noteq> currentManifestDigest header
                      then Inl (DomainInvariantError
                        ''Persisted DVD Archive Evidence header does not match its current manifest'')
                      else
                        (case audit_walk sha256 src boundary (nat (currentManifestRevision header))
                                [] (Some manifest) of
                           Inl e \<Rightarrow> Inl e
                         | Inr transitions \<Rightarrow>
                             check_all (map check_transition transitions)))))"

section \<open>Histories\<close>

text \<open>
  What an audited chain is: manifests newest first, each later one with the recovery read that
  led to it.  Every manifest is admissible and binds the digests of its predecessor and its
  read, and its map is the predecessor's after that read.
\<close>

type_synonym evidence_history = "(manifest_digest_input \<times> recovery_read_evidence option) list"

inductive chain_history :: "(string \<Rightarrow> string) \<Rightarrow> evidence_history \<Rightarrow> bool"
  for sha256 :: "string \<Rightarrow> string" where
  initial: "admissible_manifest m \<Longrightarrow> revision m = 1 \<Longrightarrow> chain_history sha256 [(m, None)]"
| later:
    "chain_history sha256 ((p, s) # h) \<Longrightarrow> admissible_manifest m \<Longrightarrow>
     revision m = revision p + 1 \<Longrightarrow>
     previousManifestDigest m = Some (sha256 (manifest_text sha256 p)) \<Longrightarrow>
     recoveryReadPayload r = Inr j \<Longrightarrow>
     recoveryReadEvidenceDigest m = Some (sha256 (record_text (Read_record r))) \<Longrightarrow>
     dvdEvidenceRangesAfterRecoveryRead (unrecoveredSourceRanges p) (read_startLba r)
       (outcome_of (read_outcome r)) = Inr (unrecoveredSourceRanges m) \<Longrightarrow>
     chain_history sha256 ((m, Some r) # (p, s) # h)"

inductive_cases chain_history_singleE: "chain_history sha256 [(m, s)]"
inductive_cases chain_history_ConsE: "chain_history sha256 ((m, s) # n # h)"
inductive_simps chain_history_Nil [simp]: "chain_history sha256 []"

definition joined_read_of :: "audit_source \<Rightarrow> manifest_row \<Rightarrow> read_row option" where
  "joined_read_of src row = Option.bind (row_recoveryReadId row) (joined_read (src_reads src))"

definition audited_input :: "audit_source \<Rightarrow> manifest_row \<Rightarrow> manifest_digest_input" where
  "audited_input src row =
     manifest_input row (map_option row_manifestDigest (previousManifest src row))
       (map_option readRow_evidenceDigest (joined_read_of src row))"

fun audit_history :: "audit_source \<Rightarrow> nat \<Rightarrow> manifest_row option \<Rightarrow> evidence_history" where
  "audit_history src (Suc n) (Some row) =
     (audited_input src row, map_option read_evidence_of_row (joined_read_of src row))
       # audit_history src n (previousManifest src row)"
| "audit_history src n manifest = []"

definition current_history :: "audit_source \<Rightarrow> evidence_history" where
  "current_history src =
     audit_history src (nat (currentManifestRevision (src_header src)))
       (manifestsById src (currentManifestId (src_header src)))"

lemma audit_read_Inr:
  "audit_read sha256 src row = Inr read \<longleftrightarrow> read = joined_read_of src row \<and>
     (case row_recoveryReadId row of None \<Rightarrow> True
      | Some k \<Rightarrow> \<exists>r. joined_read_of src row = Some r
          \<and> createDvdArchiveRecoveryReadEvidenceDigest sha256 (read_evidence_of_row r)
              = Inr (readRow_evidenceDigest r))"
  by (auto simp: audit_read_def joined_read_of_def result_simps split: option.splits)

lemma audit_manifest_Inr:
  "audit_manifest sha256 src b expected visited row = Inr ts \<longleftrightarrow>
     \<not> chain_member_differs src expected visited row
     \<and> createDvdArchiveBoundaryEvidenceDigest sha256 b = Inr (row_boundaryEvidenceDigest row)
     \<and> audit_read sha256 src row = Inr (joined_read_of src row)
     \<and> linksAreValid src expected row (previousManifest src row) (joined_read_of src row)
     \<and> admissible_manifest (audited_input src row)
     \<and> row_unrecoveredSourceRangesDigest row = sha256 (ranges_text (row_unrecoveredSourceRanges row))
     \<and> row_manifestDigest row = sha256 (manifest_text sha256 (audited_input src row))
     \<and> ts = (case (previousManifest src row, joined_read_of src row) of
          (Some p, Some r) \<Rightarrow> [(p, row, r)] | _ \<Rightarrow> [])"
  by (auto simp: audit_manifest_def Let_def result_simps audit_read_Inr audited_input_def
      row_digests_def manifest_input_def)

lemma walk_history:
  assumes "audit_walk sha256 src b (Suc n) visited (Some row) = Inr ts"
    and "check_all (map check_transition ts) = Inr ()"
  shows "chain_history sha256 (audit_history src (Suc n) (Some row))
    \<and> row_manifestDigest row = sha256 (manifest_text sha256 (audited_input src row))
    \<and> row_revision row = int (Suc n)"
  using assms
proof (induction n arbitrary: visited row ts)
  case 0
  then have audited: "audit_manifest sha256 src b 1 visited row = Inr ts"
    by (auto simp: result_simps)
  then have "row_previousManifestId row = None" "row_recoveryReadId row = None"
    by (simp_all add: audit_manifest_Inr linksAreValid_def)
  moreover from audited have "row_revision row = 1"
    by (auto simp: audit_manifest_Inr chain_member_differs_def Let_def)
  ultimately show ?case
    using audited
    by (auto simp: audit_manifest_Inr joined_read_of_def audited_input_def manifest_input_def
        intro: chain_history.initial)
next
  case (Suc n)
  then obtain here earlier where
    audited: "audit_manifest sha256 src b (int (Suc (Suc n))) visited row = Inr here"
    and walk: "audit_walk sha256 src b (Suc n) (row_id row # visited) (previousManifest src row)
      = Inr earlier"
    and ts: "ts = here @ earlier"
    by (auto simp: result_simps simp del: audit_walk.simps(2)
        simp add: audit_walk.simps(2) [of sha256 src b "Suc n" visited "Some row"])
  from audited obtain p r where links: "previousManifest src row = Some p"
    "joined_read_of src row = Some r" "row_revision p = int (Suc n)"
    by (auto simp: audit_manifest_Inr linksAreValid_def split: option.splits)
  with audited have here: "here = [(p, row, r)]" by (simp add: audit_manifest_Inr)
  have "\<forall>c \<in> set (map check_transition (here @ earlier)). c = Inr ()"
    using Suc.prems(2) by (simp only: check_all_Inr ts)
  then have checks: "check_all (map check_transition earlier) = Inr ()"
    and transition: "check_transition (p, row, r) = Inr ()"
    by (simp_all add: check_all_Inr here)
  from Suc.IH walk checks links have IH:
    "chain_history sha256 (audit_history src (Suc n) (Some p))"
    "row_manifestDigest p = sha256 (manifest_text sha256 (audited_input src p))"
    by auto
  from audited links obtain j where payload: "recoveryReadPayload (read_evidence_of_row r) = Inr j"
    and read_digest: "readRow_evidenceDigest r = sha256 (record_text (Read_record (read_evidence_of_row r)))"
    using record_digest_Inr [of sha256 "Read_record (read_evidence_of_row r)" "readRow_evidenceDigest r"]
    by (auto simp: audit_manifest_Inr audit_read_Inr joined_read_of_def split: option.splits)
  have "chain_history sha256 ((audited_input src row, Some (read_evidence_of_row r))
      # (audited_input src p, map_option read_evidence_of_row (joined_read_of src p))
      # audit_history src n (previousManifest src p))"
  proof (rule chain_history.later)
    show "chain_history sha256
        ((audited_input src p, map_option read_evidence_of_row (joined_read_of src p))
         # audit_history src n (previousManifest src p))" using IH(1) by simp
    show "recoveryReadPayload (read_evidence_of_row r) = Inr j" by (rule payload)
    show "dvdEvidenceRangesAfterRecoveryRead (unrecoveredSourceRanges (audited_input src p))
        (read_startLba (read_evidence_of_row r)) (outcome_of (read_outcome (read_evidence_of_row r)))
        = Inr (unrecoveredSourceRanges (audited_input src row))"
      using transition by (simp add: check_transition_def assert_transition_Inr audited_input_def
          manifest_input_def read_evidence_of_row_def)
  qed (use audited links IH(2) read_digest in \<open>auto simp: audit_manifest_Inr audited_input_def
      manifest_input_def chain_member_differs_def Let_def\<close>)
  with audited links show ?case
    by (auto simp: audit_manifest_Inr chain_member_differs_def Let_def)
qed

lemma admissible_revision: "admissible_manifest m \<Longrightarrow> 1 \<le> revision m"
  by (auto simp: admissible_manifest_def manifest_extent_guards_def result_simps)

lemma chain_history_head: "chain_history sha256 h \<Longrightarrow> h \<noteq> [] \<and> admissible_manifest (fst (hd h))"
  by (induction rule: chain_history.induct) auto

lemma history_initial:
  assumes "chain_history sha256 ((m, s) # h)" and "revision m = 1"
  shows "s = None \<and> h = []"
  using assms(1)
proof (cases rule: chain_history.cases)
  case (later p t h r j)
  then have "1 \<le> revision p" using chain_history_head [OF later(3)] admissible_revision by auto
  with later assms(2) show ?thesis by simp
qed simp

lemma read_outcomes:
  assumes "recoveryReadPayload r = Inr j"
  shows "read_outcome r = ''recovered'' \<or> read_outcome r = ''failed''"
  using assms by (auto simp: recoveryReadPayload_def recovery_read_guards_def result_simps
      split: option.splits)

text \<open>What a history says of a sector: recovered, failed or untested since the initial copy.\<close>

definition recovered_in :: "evidence_history \<Rightarrow> int \<Rightarrow> bool" where
  "recovered_in h x \<longleftrightarrow>
     (\<exists>(m, s) \<in> set h. case s of None \<Rightarrow> False
        | Some r \<Rightarrow> read_startLba r = x \<and> read_outcome r = ''recovered'')"

definition failed_in :: "evidence_history \<Rightarrow> int \<Rightarrow> bool" where
  "failed_in h x \<longleftrightarrow>
     (\<exists>(m, s) \<in> set h. case s of None \<Rightarrow> False
        | Some r \<Rightarrow> read_startLba r = x \<and> read_outcome r = ''failed'')"

definition class_in_history :: "evidence_history \<Rightarrow> int \<Rightarrow> source_classification option" where
  "class_in_history h x =
     (if class_at (unrecoveredSourceRanges (fst (last h))) x = None \<or> recovered_in h x then None
      else if failed_in h x then Some Individually_failed else Some Skipped_untested)"

lemma in_history_Cons [simp]:
  "recovered_in ((m, s) # h) x \<longleftrightarrow>
     (case s of None \<Rightarrow> False
        | Some r \<Rightarrow> read_startLba r = x \<and> read_outcome r = ''recovered'') \<or> recovered_in h x"
  "failed_in ((m, s) # h) x \<longleftrightarrow>
     (case s of None \<Rightarrow> False
        | Some r \<Rightarrow> read_startLba r = x \<and> read_outcome r = ''failed'') \<or> failed_in h x"
  "\<not> recovered_in [] x" "\<not> failed_in [] x"
  by (auto simp: recovered_in_def failed_in_def)

lemma class_at_classification:
  assumes "class_at rs x = Some c"
  shows "\<exists>r \<in> set rs. classification r = c"
  using assms by (auto simp: class_at_def find_Some_iff)

lemma initial_map_skipped:
  assumes "admissible_manifest m" and "revision m = 1" and "class_at (unrecoveredSourceRanges m) x = Some c"
  shows "c = Skipped_untested"
proof -
  from class_at_classification [OF assms(3)] obtain r
    where r: "r \<in> set (unrecoveredSourceRanges m)" "classification r = c" by blast
  let ?guard = "invariant_if (revision m = 1 \<and> classification r \<noteq> Skipped_untested)
    ''Initial DVD Archive Evidence may contain only skipped source ranges''"
  have "?guard \<in> set (manifest_range_guards m)" using r(1) by (auto simp: manifest_range_guards_def)
  then have "?guard = Inr ()"
    using assms(1) by (simp add: admissible_manifest_def check_all_Inr)
  with assms(2) r(2) show ?thesis by (simp add: require_Inr)
qed

lemma history_class:
  assumes "chain_history sha256 h"
  shows "class_at (unrecoveredSourceRanges (fst (hd h))) x = class_in_history h x"
  using assms
proof (induction rule: chain_history.induct)
  case (initial m)
  then show ?case
    using initial_map_skipped [of m x]
    by (cases "class_at (unrecoveredSourceRanges m) x") (auto simp: class_in_history_def)
next
  case (later p s h m r j)
  let ?before = "unrecoveredSourceRanges p" and ?lba = "read_startLba r"
  have "canonical ?before"
    using chain_history_head [OF later(1)] by (simp add: admissible_manifest_def)
  note read = evidence.accepts [OF this, of ?lba "outcome_of (read_outcome r)"]
    evidence.at_after [OF this later(7)]
  have outcome: "read_outcome r = ''recovered'' \<or> read_outcome r = ''failed''"
    using later(5) by (rule read_outcomes)
  have IH: "class_at ?before x = class_in_history ((p, s) # h) x" using later.IH by simp
  have last: "last ((m, Some r) # (p, s) # h) = last ((p, s) # h)" by simp
  show ?case
  proof (cases "x = ?lba")
    case True
    have "class_at ?before ?lba \<noteq> None" using read(1) by (simp add: later(7))
    with True IH have "class_in_history ((p, s) # h) x \<noteq> None" by simp
    then have "class_at (unrecoveredSourceRanges (fst (last ((p, s) # h)))) x \<noteq> None"
      and "\<not> recovered_in ((p, s) # h) x"
      unfolding class_in_history_def by presburger+
    then have "class_in_history ((m, Some r) # (p, s) # h) x =
        (if read_outcome r = ''recovered'' then None else Some Individually_failed)"
      unfolding class_in_history_def last using True outcome by auto
    with True outcome read(2) show ?thesis
      by (auto simp: outcome_of_def class_after_def)
  next
    case False
    then have "class_in_history ((m, Some r) # (p, s) # h) x = class_in_history ((p, s) # h) x"
      unfolding class_in_history_def last by auto
    with False read(2) IH show ?thesis by simp
  qed
qed

section \<open>The head of a chain commits to all of it\<close>

definition history_texts :: "(string \<Rightarrow> string) \<Rightarrow> evidence_history \<Rightarrow> string set" where
  "history_texts sha256 h =
     (\<Union>(m, s) \<in> set h. {manifest_text sha256 m, ranges_text (unrecoveredSourceRanges m)}
        \<union> (case s of None \<Rightarrow> {} | Some r \<Rightarrow> {record_text (Read_record r)}))"

definition histories_clash ::
  "(string \<Rightarrow> string) \<Rightarrow> evidence_history \<Rightarrow> evidence_history \<Rightarrow> bool" where
  "histories_clash sha256 h k \<longleftrightarrow>
     (\<exists>p \<in> history_texts sha256 h. \<exists>q \<in> history_texts sha256 k. hash_clash sha256 p q)"

lemma history_texts_Cons:
  "history_texts sha256 ((m, s) # h) =
     {manifest_text sha256 m, ranges_text (unrecoveredSourceRanges m)}
     \<union> (case s of None \<Rightarrow> {} | Some r \<Rightarrow> {record_text (Read_record r)}) \<union> history_texts sha256 h"
  by (simp add: history_texts_def)

lemma histories_clash_tail:
  "histories_clash sha256 h k \<Longrightarrow> histories_clash sha256 (x # h) (y # k)"
  by (cases x; cases y) (auto simp: histories_clash_def history_texts_Cons)

lemma heads_agree:
  assumes "admissible_manifest m" and "admissible_manifest n"
    and "sha256 (manifest_text sha256 m) = sha256 (manifest_text sha256 n)"
  shows "m = n \<or> histories_clash sha256 ((m, s) # h) ((n, t) # k)"
  using manifest_digest_cases [OF assms]
  by (auto simp: histories_clash_def history_texts_Cons)

lemma reads_agree:
  assumes "recoveryReadPayload r = Inr i" and "recoveryReadPayload t = Inr j"
    and "sha256 (record_text (Read_record r)) = sha256 (record_text (Read_record t))"
  shows "r = t \<or> histories_clash sha256 ((m, Some r) # h) ((n, Some t) # k)"
proof (cases "record_text (Read_record r) = record_text (Read_record t)")
  case True
  with record_text_inject [of "Read_record r" i "Read_record t" j] assms show ?thesis by simp
next
  case False
  with assms(3) show ?thesis
    by (auto simp: histories_clash_def history_texts_Cons hash_clash_def)
qed

lemma history_committed:
  assumes "chain_history sha256 h" and "chain_history sha256 k"
    and "sha256 (manifest_text sha256 (fst (hd h))) = sha256 (manifest_text sha256 (fst (hd k)))"
  shows "h = k \<or> histories_clash sha256 h k"
  using assms
proof (induction arbitrary: k rule: chain_history.induct)
  case (initial m)
  obtain n t k' where k: "k = (n, t) # k'" using chain_history_head [OF initial(3)] by (cases k) auto
  with heads_agree [of m n sha256 None "[]" t k'] initial chain_history_head [OF initial(3)]
  have "m = n \<or> histories_clash sha256 [(m, None)] k" by simp
  with initial history_initial [of sha256 n t k'] k show ?case by auto
next
  case (later p s h m r j)
  obtain n t k' where k: "k = (n, t) # k'" using chain_history_head [OF later(9)] by (cases k) auto
  have heads: "m = n \<or> histories_clash sha256 ((m, Some r) # (p, s) # h) k"
    using heads_agree [of m n sha256 "Some r" "(p, s) # h" t k'] later(2,10)
      chain_history_head [OF later(9)] k by simp
  have rev: "2 \<le> revision m"
    using later(3) chain_history_head [OF later(1)] admissible_revision [of p] by simp
  show ?case
  proof (cases "m = n")
    case True
    from later(9) k True rev obtain q u l r' j' where tail: "k = (m, Some r') # (q, u) # l"
      and chain: "chain_history sha256 ((q, u) # l)"
      and links: "previousManifestDigest m = Some (sha256 (manifest_text sha256 q))"
        "recoveryReadPayload r' = Inr j'"
        "recoveryReadEvidenceDigest m = Some (sha256 (record_text (Read_record r')))"
      by (cases rule: chain_history.cases) auto
    have "r = r' \<or> histories_clash sha256 ((m, Some r) # (p, s) # h) k"
      using reads_agree [OF later(5) links(2)] later(6) links(3) tail by simp
    moreover have "(p, s) # h = (q, u) # l \<or> histories_clash sha256 ((p, s) # h) ((q, u) # l)"
      using later.IH [OF chain] later(4) links(1) by simp
    ultimately show ?thesis using tail histories_clash_tail by blast
  qed (use heads in blast)
qed

lemma audited_history:
  assumes "auditDvdArchiveEvidenceChain sha256 src = Inr ()"
    and "1 \<le> currentManifestRevision (src_header src)"
  obtains row where "manifestsById src (currentManifestId (src_header src)) = Some row"
    and "chain_history sha256 (current_history src)"
    and "fst (hd (current_history src)) = audited_input src row"
    and "sha256 (manifest_text sha256 (audited_input src row)) = currentManifestDigest (src_header src)"
    and "row_revision row = currentManifestRevision (src_header src)"
proof -
  obtain n where n: "nat (currentManifestRevision (src_header src)) = Suc n"
    using assms(2) by (cases "nat (currentManifestRevision (src_header src))") auto
  from assms(1) obtain b row ts where
    row: "manifestsById src (currentManifestId (src_header src)) = Some row"
    and digest: "row_manifestDigest row = currentManifestDigest (src_header src)"
    and walk: "audit_walk sha256 src b (Suc n) [] (Some row) = Inr ts"
      "check_all (map check_transition ts) = Inr ()"
    unfolding auditDvdArchiveEvidenceChain_def Let_def n
    by (auto simp: result_simps simp del: audit_walk.simps split: option.splits sum.splits)
  from walk_history [OF walk] row digest n show thesis
    by (intro that [of row]) (simp_all add: current_history_def)
qed

definition example_digest :: string where
  "example_digest = replicate 64 CHR ''a''"

definition example_range :: "int \<Rightarrow> int \<Rightarrow> dvd_unrecovered_source_range" where
  "example_range first n =
     \<lparr>startLba = first, sectorCount = n, classification = Skipped_untested\<rparr>"

definition example_row :: "int \<Rightarrow> dvd_unrecovered_source_range list \<Rightarrow> manifest_row" where
  "example_row k ranges =
     \<lparr>row_id = (if k = 1 then ''a:initial'' else ''a:recovery''),
      row_originalDiscArchiveId = ''a'', row_revision = k,
      row_previousManifestId = (if k = 1 then None else Some ''a:initial''),
      row_recoveryReadId = (if k = 1 then None else Some ''read''),
      row_evidenceFormat = ''dvd-recovery-evidence-v1'', row_imageFingerprint = ''disc'',
      row_sectorSizeBytes = 2048, row_acceptedEndLbaExclusive = 100,
      row_boundaryPolicyVersion = ''dvd-archive-boundary-v2'',
      row_boundaryReportedSizeBytes = 204800, row_boundaryPublishedSizeBytes = 204800,
      row_boundaryEvidenceDigest = example_digest,
      row_unrecoveredSourceRanges = ranges, row_unrecoveredSourceRangesDigest = example_digest,
      row_manifestDigest = example_digest\<rparr>"

definition example_source :: "int \<Rightarrow> dvd_unrecovered_source_range list \<Rightarrow> audit_source" where
  "example_source lba ranges =
     \<lparr>src_header =
        \<lparr>header_originalDiscArchiveId = ''a'', header_evidenceFormat = ''dvd-recovery-evidence-v1'',
         header_boundaryPolicyVersion = ''dvd-archive-boundary-v2'',
         header_boundaryReportedSizeBytes = 204800, header_boundaryPublishedSizeBytes = 204800,
         header_boundaryEvidenceDigest = example_digest, header_sectorSizeBytes = 2048,
         header_acceptedEndLbaExclusive = 100, currentManifestId = ''a:recovery'',
         currentManifestRevision = 2, currentManifestDigest = example_digest,
         header_updatedAt = 0\<rparr>,
      src_archive =
        \<lparr>arc_integrity = Incomplete_read, arc_integrityEvidenceRevision = Some 2,
         arc_integrityPolicyVersion = None, arc_badSectorCount = Some 3, arc_badAreaCount = Some 2,
         arc_badSectorRanges = None, arc_badSectorCountsByTitle = None, arc_id = ''a'',
         arc_fingerprint = ''disc'', arc_sizeBytes = 204800,
         arc_boundary = boundaryColumns example_boundary, arc_updatedAt = 0\<rparr>,
      src_manifests =
        [example_row 1 [example_range 10 4],
         example_row 2 ranges],
      src_reads =
        [\<lparr>read_id = ''read'', readRow_originalDiscArchiveId = ''a'',
          readRow_fromManifestId = ''a:initial'', readRow_fromManifestRevision = 1,
          readRow_startLba = lba, readRow_sectorCount = 1, readRow_outcome = ''recovered'',
          readRow_verificationId = None, readRow_discConfirmationId = None,
          readRow_evidenceDigest = example_digest,
          readRow_fromClassification = Skipped_untested, readRow_meaningfulTransition = True\<rparr>]\<rparr>"

lemma audit_examples:
  "auditDvdArchiveEvidenceChain (\<lambda>_. example_digest)
     (example_source 11 [example_range 10 1, example_range 12 2]) = Inr ()"
  "auditDvdArchiveEvidenceChain (\<lambda>_. example_digest)
     (example_source 13 [example_range 10 3]) = Inr ()"
  by code_simp+

section \<open>Properties\<close>

text \<open>
  C3: An audited chain explains the current map.  When the audit of a header passes, the
  chain leads back to an initial manifest of revision 1, and a sector is unrecovered now exactly
  when it was unrecovered there and no recovery read of the chain recovered it; it counts as
  individually failed exactly when a read of the chain failed on it.
\<close>

theorem audited_chain_explains_the_current_map:
  assumes "auditDvdArchiveEvidenceChain sha256 src = Inr ()"
    and "1 \<le> currentManifestRevision (src_header src)"
  shows "\<exists>row. manifestsById src (currentManifestId (src_header src)) = Some row
    \<and> length (current_history src) = nat (currentManifestRevision (src_header src))
    \<and> revision (fst (last (current_history src))) = 1
    \<and> (\<forall>x. class_at (row_unrecoveredSourceRanges row) x =
         (if class_at (unrecoveredSourceRanges (fst (last (current_history src)))) x = None
             \<or> recovered_in (current_history src) x then None
          else if failed_in (current_history src) x then Some Individually_failed
          else Some Skipped_untested))"
proof -
  from audited_history [OF assms] obtain row where
    row: "manifestsById src (currentManifestId (src_header src)) = Some row"
    and history: "chain_history sha256 (current_history src)"
    and head: "fst (hd (current_history src)) = audited_input src row"
    and rev: "row_revision row = currentManifestRevision (src_header src)" by blast
  have shape: "length h = nat (revision (fst (hd h))) \<and> revision (fst (last h)) = 1"
    if "chain_history sha256 h" for h
    using that
  proof (induction rule: chain_history.induct)
    case (later p s h m r j)
    then have "1 \<le> revision p" using chain_history_head [OF later(1)] admissible_revision by auto
    with later show ?case by (simp add: nat_add_distrib)
  qed simp
  have "revision (audited_input src row) = row_revision row"
    and "unrecoveredSourceRanges (audited_input src row) = row_unrecoveredSourceRanges row"
    by (simp_all add: audited_input_def manifest_input_def)
  with row shape [OF history] history_class [OF history] head rev show ?thesis
    by (auto simp: class_in_history_def)
qed

theorem audited_chain_explains_the_current_map_witness:
  "class_at [example_range 10 1, example_range 12 2] 11 = None
   \<and> recovered_in (current_history (example_source 11 [example_range 10 1, example_range 12 2])) 11"
proof -
  let ?src = "example_source 11 [example_range 10 1, example_range 12 2]"
  have "1 \<le> currentManifestRevision (src_header ?src)" by (simp add: example_source_def)
  from audited_chain_explains_the_current_map [OF audit_examples(1) this]
  have "class_at [example_range 10 1, example_range 12 2] 11 =
      (if class_at (unrecoveredSourceRanges (fst (last (current_history ?src)))) 11 = None
          \<or> recovered_in (current_history ?src) 11 then None
       else if failed_in (current_history ?src) 11 then Some Individually_failed
       else Some Skipped_untested)"
    by (auto simp: example_source_def manifestsById_def example_row_def)
  moreover have "recovered_in (current_history ?src) 11" by code_simp
  ultimately show ?thesis by simp
qed

text \<open>
  C10: The chain is tamper evident.  Two states of the catalog, before and after any change,
  that both pass the audit with the same current manifest digest have the same complete
  history, every manifest and every recovery read, unless the hash does not tell apart two
  texts that the two histories themselves contain.
\<close>

theorem evidence_chain_is_tamper_evident:
  assumes "auditDvdArchiveEvidenceChain sha256 src = Inr ()"
    and "auditDvdArchiveEvidenceChain sha256 other = Inr ()"
    and "1 \<le> currentManifestRevision (src_header src)"
    and "1 \<le> currentManifestRevision (src_header other)"
    and "currentManifestDigest (src_header src) = currentManifestDigest (src_header other)"
  shows "current_history src = current_history other
    \<or> histories_clash sha256 (current_history src) (current_history other)"
proof -
  from audited_history [OF assms(1,3)] obtain row where
    "chain_history sha256 (current_history src)"
    "sha256 (manifest_text sha256 (fst (hd (current_history src)))) =
      currentManifestDigest (src_header src)" by metis
  moreover from audited_history [OF assms(2,4)] obtain row' where
    "chain_history sha256 (current_history other)"
    "sha256 (manifest_text sha256 (fst (hd (current_history other)))) =
      currentManifestDigest (src_header other)" by metis
  ultimately show ?thesis using assms(5) by (intro history_committed) simp_all
qed

theorem evidence_chain_is_tamper_evident_witness:
  "histories_clash (\<lambda>_. example_digest)
     (current_history (example_source 11 [example_range 10 1, example_range 12 2]))
     (current_history (example_source 13 [example_range 10 3]))"
proof -
  have "current_history (example_source 11 [example_range 10 1, example_range 12 2])
      \<noteq> current_history (example_source 13 [example_range 10 3])"
    by code_simp
  then show ?thesis
    using evidence_chain_is_tamper_evident [OF audit_examples]
    by (simp add: example_source_def)
qed

end
