(* ===== verification/RecoveryProjection.thy ===== *)
theory RecoveryProjection
  imports EvidenceChain
begin

text \<open>
  The transaction that records one committed recovery read in the catalog,
  \<open>projectDvdRecoveryCheckpoint\<close> in \<open>internal/create-data-access.ts\<close>, with or without the claim of
  a running recovery.  The catalog is the record of its tables; the clock is an argument.  The
  primary keys and unique indexes that the two insertions are under are modelled; the
  \<open>CHECK\<close> constraints of \<open>schema.ts\<close> repeat the digest guards and are not.
\<close>

section \<open>Tables\<close>

datatype archive_recovery_status =
    Eligible | Waiting_for_disc | Running | Paused | Stopping | Stopped | Completed | Faulted

datatype archive_recovery_pause_reason = No_progress | Storage_fault

datatype archive_recovery_work_status = Requested | Claimed

record archive_recovery =
  rec_id :: string
  rec_originalDiscArchiveId :: string
  rec_attemptId :: string
  rec_status :: archive_recovery_status
  rec_pauseReason :: "archive_recovery_pause_reason option"
  rec_updatedAt :: int

record archive_recovery_work =
  work_archiveRecoveryId :: string
  work_originalDiscArchiveId :: string
  work_attemptId :: string
  work_status :: archive_recovery_work_status
  work_verificationId :: "string option"
  work_discConfirmationId :: "string option"
  work_claimedBy :: "string option"
  work_claimToken :: "string option"
  passStartedAt :: "int option"
  passStartedManifestRevision :: "int option"
  passRecoveredSectorCount :: int
  passObservationCount :: "int option"
  passPositiveIntervalCount :: "int option"
  passMinimumIntervalMs :: "int option"
  passMaximumIntervalMs :: "int option"
  passLastObservedAt :: "int option"
  passCursorLba :: "int option"
  work_updatedAt :: int

record recovery_catalog =
  cat_headers :: "header_row list"
  cat_archives :: "archive_record list"
  cat_manifests :: "manifest_row list"
  cat_reads :: "read_row list"
  cat_recoveries :: "archive_recovery list"
  cat_work :: "archive_recovery_work list"
  cat_verifications :: "disc_verification list"
  cat_confirmations :: "disc_confirmation list"
  cat_completed_outcomes :: "string list"

record checkpoint_projection =
  prj_claim :: "archive_recovery_work option"
  prj_read :: recovery_read_evidence
  prj_readId :: string
  prj_evidenceDigest :: string
  prj_manifest :: manifest_digest_input
  prj_manifestId :: string
  prj_digests :: manifest_digests

definition update_where :: "('r \<Rightarrow> bool) \<Rightarrow> ('r \<Rightarrow> 'r) \<Rightarrow> 'r list \<Rightarrow> 'r list" where
  "update_where P f rows = map (\<lambda>row. if P row then f row else row) rows"

section \<open>Before the transaction\<close>

definition projection_mismatch :: "checkpoint_projection \<Rightarrow> bool" where
  "projection_mismatch prj \<longleftrightarrow>
     (let m = prj_manifest prj; r = prj_read prj in
      originalDiscArchiveId m \<noteq> read_originalDiscArchiveId r
      \<or> (case prj_claim prj of None \<Rightarrow> False
         | Some claim \<Rightarrow> work_originalDiscArchiveId claim \<noteq> originalDiscArchiveId m)
      \<or> revision m \<noteq> fromManifestRevision r + 1
      \<or> previousManifestId m \<noteq> Some (fromManifestId r)
      \<or> recoveryReadId m \<noteq> Some (prj_readId prj)
      \<or> recoveryReadEvidenceDigest m \<noteq> Some (prj_evidenceDigest prj)
      \<or> (case prj_claim prj of None \<Rightarrow> False
         | Some claim \<Rightarrow>
             work_verificationId claim = None
             \<or> verificationId r \<noteq> work_verificationId claim
             \<or> Option.bind (discConfirmationId r) id \<noteq> work_discConfirmationId claim))"

section \<open>Guards inside the transaction\<close>

definition requireCurrentArchiveRecoveryClaim ::
  "recovery_catalog \<Rightarrow> archive_recovery_work \<Rightarrow> unit result" where
  "requireCurrentArchiveRecoveryClaim c claim =
     (let stale = StaleJobAttemptError ''Archive Recovery work'' (work_archiveRecoveryId claim) in
      case find (\<lambda>r. rec_id r = work_archiveRecoveryId claim
              \<and> rec_originalDiscArchiveId r = work_originalDiscArchiveId claim) (cat_recoveries c) of
        None \<Rightarrow> Inl stale
      | Some recovery \<Rightarrow>
          (case find (\<lambda>w. work_archiveRecoveryId w = rec_id recovery) (cat_work c) of
             None \<Rightarrow> Inl stale
           | Some work \<Rightarrow> reject_if
               (work_status work \<noteq> Claimed
                \<or> work_claimToken work \<noteq> work_claimToken claim
                \<or> work_claimedBy work \<noteq> work_claimedBy claim
                \<or> work_attemptId work \<noteq> work_attemptId claim
                \<or> rec_attemptId recovery \<noteq> work_attemptId claim) stale))"

definition source_authorization_invalid ::
  "(string \<Rightarrow> string) \<Rightarrow> recovery_catalog \<Rightarrow> checkpoint_projection \<Rightarrow> string \<Rightarrow> bool" where
  "source_authorization_invalid sha256 c prj verification_id \<longleftrightarrow>
     (let archiveId = originalDiscArchiveId (prj_manifest prj);
          confirmation_id = Option.bind (discConfirmationId (prj_read prj)) id;
          confirmation = Option.bind confirmation_id
            (\<lambda>k. find (\<lambda>f. conf_id f = k) (cat_confirmations c)) in
      case find (\<lambda>v. ver_id v = verification_id) (cat_verifications c) of
        None \<Rightarrow> True
      | Some verification \<Rightarrow>
          ver_originalDiscArchiveId verification \<noteq> archiveId
          \<or> (confirmation_id \<noteq> None \<and> confirmation = None)
          \<or> (prj_claim prj \<noteq> None
             \<and> (case confirmation of None \<Rightarrow> False | Some f \<Rightarrow> conf_expiredAt f \<noteq> None))
          \<or> (case confirmation of
               None \<Rightarrow> ver_status verification \<noteq> ''completed''
                       \<or> ver_outcome verification \<noteq> Some ''match''
             | Some f \<Rightarrow> \<not> dvdDiscConfirmationMatchesVerification sha256 verification f))"

record projection_base =
  cur_header :: header_row
  cur_manifest :: manifest_row
  cur_archive :: archive_record
  cur_recovery :: archive_recovery

definition projection_current :: "recovery_catalog \<Rightarrow> string \<Rightarrow> projection_base result" where
  "projection_current c archiveId =
     (let missing = RecordNotFoundError ''DVD Archive Evidence'' archiveId in
      case find (\<lambda>h. header_originalDiscArchiveId h = archiveId) (cat_headers c) of
        None \<Rightarrow> Inl missing
      | Some header \<Rightarrow>
          (case (find (\<lambda>m. row_id m = currentManifestId header) (cat_manifests c),
                 find (\<lambda>a. arc_id a = archiveId) (cat_archives c),
                 find (\<lambda>r. rec_originalDiscArchiveId r = archiveId) (cat_recoveries c)) of
             (Some manifest, Some archive, Some recovery) \<Rightarrow> Inr
               \<lparr>cur_header = header, cur_manifest = manifest, cur_archive = archive,
                cur_recovery = recovery\<rparr>
           | _ \<Rightarrow> Inl missing))"

definition already_projected :: "projection_base \<Rightarrow> checkpoint_projection \<Rightarrow> bool" where
  "already_projected cur prj \<longleftrightarrow>
     currentManifestRevision (cur_header cur) = revision (prj_manifest prj)
     \<and> currentManifestId (cur_header cur) = prj_manifestId prj
     \<and> currentManifestDigest (cur_header cur) = manifestDigest (prj_digests prj)"

definition recovery_may_project :: "archive_recovery \<Rightarrow> bool" where
  "recovery_may_project r \<longleftrightarrow>
     rec_status r \<in> {Eligible, Running, Stopping, Faulted}
     \<or> (rec_status r = Paused \<and> rec_pauseReason r = Some Storage_fault)"

definition staleReasons :: "projection_base \<Rightarrow> checkpoint_projection \<Rightarrow> string list" where
  "staleReasons cur prj =
     (let header = cur_header cur; m = prj_manifest prj; r = prj_read prj in
      map snd (filter fst
        [(currentManifestId header \<noteq> fromManifestId r, ''manifest identity''),
         (currentManifestRevision header \<noteq> fromManifestRevision r, ''manifest revision''),
         (Some (currentManifestDigest header) \<noteq> previousManifestDigest m, ''previous digest''),
         (row_manifestDigest (cur_manifest cur) \<noteq> currentManifestDigest header,
            ''projected digest''),
         (row_originalDiscArchiveId (cur_manifest cur) \<noteq> originalDiscArchiveId m,
            ''archive identity''),
         (\<not> recovery_may_project (cur_recovery cur), ''recovery status''),
         (arc_integrityEvidenceRevision (cur_archive cur) \<noteq> Some (currentManifestRevision header),
            ''integrity revision'')]))"

fun join_comma :: "string list \<Rightarrow> string" where
  "join_comma [] = ''''"
| "join_comma [s] = s"
| "join_comma (s # t # ss) = s @ '', '' @ join_comma (t # ss)"

definition immutable_evidence_changed :: "manifest_row \<Rightarrow> manifest_digest_input \<Rightarrow> bool" where
  "immutable_evidence_changed current m \<longleftrightarrow>
     evidenceFormat m \<noteq> row_evidenceFormat current
     \<or> imageFingerprint m \<noteq> row_imageFingerprint current
     \<or> sectorSizeBytes m \<noteq> row_sectorSizeBytes current
     \<or> acceptedEndLbaExclusive m \<noteq> row_acceptedEndLbaExclusive current
     \<or> manifestBoundaryPolicyVersion m \<noteq> row_boundaryPolicyVersion current
     \<or> manifestBoundaryReportedSizeBytes m \<noteq> row_boundaryReportedSizeBytes current
     \<or> manifestBoundaryPublishedSizeBytes m \<noteq> row_boundaryPublishedSizeBytes current
     \<or> boundaryEvidenceDigest m \<noteq> row_boundaryEvidenceDigest current"

definition projection_guards :: "projection_base \<Rightarrow> checkpoint_projection \<Rightarrow> unit result" where
  "projection_guards cur prj = check_all
     [invariant_if (staleReasons cur prj \<noteq> [])
        (''DVD recovery checkpoint base revision is stale or inconsistent (''
          @ join_comma (staleReasons cur prj) @ '')''),
      invariant_if (immutable_evidence_changed (cur_manifest cur) (prj_manifest prj))
        ''DVD recovery checkpoint changed immutable archive evidence'',
      assertDvdEvidenceRangeTransition (row_unrecoveredSourceRanges (cur_manifest cur))
        (unrecoveredSourceRanges (prj_manifest prj)) (read_startLba (prj_read prj))
        (outcome_of (read_outcome (prj_read prj)))]"

section \<open>Writes\<close>

definition projected_read_row :: "checkpoint_projection \<Rightarrow> dvd_unrecovered_source_range \<Rightarrow> read_row" where
  "projected_read_row prj sourceRange =
     (let r = prj_read prj in
      \<lparr>read_id = prj_readId prj,
       readRow_originalDiscArchiveId = originalDiscArchiveId (prj_manifest prj),
       readRow_fromManifestId = fromManifestId r,
       readRow_fromManifestRevision = fromManifestRevision r,
       readRow_startLba = read_startLba r,
       readRow_sectorCount = read_sectorCount r,
       readRow_outcome = read_outcome r,
       readRow_verificationId = verificationId r,
       readRow_discConfirmationId = Option.bind (discConfirmationId r) id,
       readRow_evidenceDigest = prj_evidenceDigest prj,
       readRow_fromClassification = classification sourceRange,
       readRow_meaningfulTransition =
         (read_outcome r = ''recovered'' \<or> classification sourceRange = Skipped_untested)\<rparr>)"

definition projected_manifest_row :: "checkpoint_projection \<Rightarrow> manifest_row" where
  "projected_manifest_row prj =
     (let m = prj_manifest prj in
      \<lparr>row_id = prj_manifestId prj, row_originalDiscArchiveId = originalDiscArchiveId m,
       row_revision = revision m, row_previousManifestId = previousManifestId m,
       row_recoveryReadId = recoveryReadId m, row_evidenceFormat = evidenceFormat m,
       row_imageFingerprint = imageFingerprint m, row_sectorSizeBytes = sectorSizeBytes m,
       row_acceptedEndLbaExclusive = acceptedEndLbaExclusive m,
       row_boundaryPolicyVersion = manifestBoundaryPolicyVersion m,
       row_boundaryReportedSizeBytes = manifestBoundaryReportedSizeBytes m,
       row_boundaryPublishedSizeBytes = manifestBoundaryPublishedSizeBytes m,
       row_boundaryEvidenceDigest = boundaryEvidenceDigest m,
       row_unrecoveredSourceRanges = unrecoveredSourceRanges m,
       row_unrecoveredSourceRangesDigest = unrecoveredSourceRangesDigest (prj_digests prj),
       row_manifestDigest = manifestDigest (prj_digests prj)\<rparr>)"

text \<open>Primary keys, and the unique indexes of the manifest table.\<close>

definition insert_read :: "read_row \<Rightarrow> recovery_catalog \<Rightarrow> recovery_catalog result" where
  "insert_read r c =
     (if \<exists>q \<in> set (cat_reads c). read_id q = read_id r
      then Inl (SqliteError ''UNIQUE constraint failed'')
      else Inr (c\<lparr>cat_reads := cat_reads c @ [r]\<rparr>))"

definition insert_manifest :: "manifest_row \<Rightarrow> recovery_catalog \<Rightarrow> recovery_catalog result" where
  "insert_manifest m c =
     (if \<exists>q \<in> set (cat_manifests c).
          row_id q = row_id m
          \<or> (row_originalDiscArchiveId q = row_originalDiscArchiveId m
             \<and> (row_revision q = row_revision m \<or> row_manifestDigest q = row_manifestDigest m))
          \<or> (row_recoveryReadId m \<noteq> None \<and> row_recoveryReadId q = row_recoveryReadId m)
      then Inl (SqliteError ''UNIQUE constraint failed'')
      else Inr (c\<lparr>cat_manifests := cat_manifests c @ [m]\<rparr>))"

definition projection_timestamp :: "projection_base \<Rightarrow> int \<Rightarrow> int" where
  "projection_timestamp cur now =
     max now (max (header_updatedAt (cur_header cur) + 1)
       (max (arc_updatedAt (cur_archive cur) + 1) (rec_updatedAt (cur_recovery cur) + 1)))"

definition update_header :: "checkpoint_projection \<Rightarrow> int \<Rightarrow> recovery_catalog \<Rightarrow> recovery_catalog" where
  "update_header prj timestamp c =
     c\<lparr>cat_headers := update_where
       (\<lambda>h. header_originalDiscArchiveId h = originalDiscArchiveId (prj_manifest prj)
          \<and> currentManifestId h = fromManifestId (prj_read prj)
          \<and> currentManifestRevision h = fromManifestRevision (prj_read prj))
       (\<lambda>h. h\<lparr>currentManifestId := prj_manifestId prj,
          currentManifestRevision := revision (prj_manifest prj),
          currentManifestDigest := manifestDigest (prj_digests prj),
          header_updatedAt := timestamp\<rparr>)
       (cat_headers c)\<rparr>"

definition projected_sector_count :: "checkpoint_projection \<Rightarrow> int" where
  "projected_sector_count prj = sectorCount_of (plainRanges (unrecoveredSourceRanges (prj_manifest prj)))"

definition update_archive :: "checkpoint_projection \<Rightarrow> int \<Rightarrow> recovery_catalog \<Rightarrow> recovery_catalog" where
  "update_archive prj timestamp c =
     (let badSectorRanges = plainRanges (unrecoveredSourceRanges (prj_manifest prj));
          badSectorCount = projected_sector_count prj in
      c\<lparr>cat_archives := update_where
        (\<lambda>a. arc_id a = originalDiscArchiveId (prj_manifest prj))
        (\<lambda>a. a\<lparr>arc_integrity := (if badSectorCount = 0 then Clean_read else Incomplete_read),
           arc_integrityEvidenceRevision := Some (revision (prj_manifest prj)),
           arc_integrityPolicyVersion := Some ''dvd-recovery-evidence-v1'',
           arc_badSectorCount := Some badSectorCount,
           arc_badAreaCount := Some (length badSectorRanges),
           arc_badSectorRanges := Some badSectorRanges,
           arc_updatedAt := timestamp\<rparr>)
        (cat_archives c)\<rparr>)"

definition same_claim :: "checkpoint_projection \<Rightarrow> archive_recovery_work \<Rightarrow> bool" where
  "same_claim prj w \<longleftrightarrow>
     work_status w = Claimed
     \<and> (case prj_claim prj of None \<Rightarrow> True | Some claim \<Rightarrow> work_claimToken w = work_claimToken claim)"

definition projected_work ::
  "checkpoint_projection \<Rightarrow> projection_base \<Rightarrow> recovery_catalog \<Rightarrow> archive_recovery_work option" where
  "projected_work prj cur c =
     find (\<lambda>w. work_archiveRecoveryId w = rec_id (cur_recovery cur)
       \<and> work_attemptId w = rec_attemptId (cur_recovery cur) \<and> same_claim prj w) (cat_work c)"

definition projected_status ::
  "checkpoint_projection \<Rightarrow> projection_base \<Rightarrow> archive_recovery_work option \<Rightarrow>
     archive_recovery_status" where
  "projected_status prj cur work =
     (if rec_status (cur_recovery cur) \<in> {Stopping, Faulted, Paused}
      then rec_status (cur_recovery cur)
      else if work \<noteq> None then Running
      else if projected_sector_count prj = 0 then Completed else Eligible)"

definition update_recovery ::
  "checkpoint_projection \<Rightarrow> archive_recovery_status \<Rightarrow> int \<Rightarrow> recovery_catalog \<Rightarrow> recovery_catalog" where
  "update_recovery prj status timestamp c =
     c\<lparr>cat_recoveries := update_where
       (\<lambda>r. rec_originalDiscArchiveId r = originalDiscArchiveId (prj_manifest prj))
       (\<lambda>r. r\<lparr>rec_status := status, rec_updatedAt := timestamp\<rparr>) (cat_recoveries c)\<rparr>"

definition record_completion ::
  "projection_base \<Rightarrow> archive_recovery_status \<Rightarrow> recovery_catalog \<Rightarrow> recovery_catalog" where
  "record_completion cur status c =
     (if status = Completed \<and> rec_status (cur_recovery cur) \<noteq> Completed
      then c\<lparr>cat_completed_outcomes := cat_completed_outcomes c @ [rec_id (cur_recovery cur)]\<rparr>
      else c)"

section \<open>The observation of a pass\<close>

definition observe_pass ::
  "checkpoint_projection \<Rightarrow> archive_recovery_work \<Rightarrow> int \<Rightarrow>
     (archive_recovery_work \<Rightarrow> archive_recovery_work) result" where
  "observe_pass prj work timestamp =
     (let hasAnyObservationState =
            passObservationCount work \<noteq> None \<or> passPositiveIntervalCount work \<noteq> None
            \<or> passMinimumIntervalMs work \<noteq> None \<or> passMaximumIntervalMs work \<noteq> None
            \<or> passLastObservedAt work \<noteq> None in
      case (passStartedAt work, passStartedManifestRevision work) of
        (Some started, Some startedRevision) \<Rightarrow>
          (case (passObservationCount work, passPositiveIntervalCount work) of
             (Some observationCount, Some positiveIntervalCount) \<Rightarrow>
               if fromManifestRevision (prj_read prj) < startedRevision
               then Inl (DomainInvariantError
                 ''Archive Recovery pass observation state is inconsistent'')
               else
                 (let intervalMs = timestamp
                        - (case passLastObservedAt work of Some t \<Rightarrow> t | None \<Rightarrow> started);
                      positiveInterval = intervalMs > 0 in
                  Inr (\<lambda>w. w\<lparr>
                    passObservationCount := Some (observationCount + 1),
                    passPositiveIntervalCount :=
                      Some (positiveIntervalCount + (if positiveInterval then 1 else 0)),
                    passMinimumIntervalMs :=
                      (if positiveInterval
                       then Some (min (case passMinimumIntervalMs work of Some t \<Rightarrow> t
                                       | None \<Rightarrow> intervalMs) intervalMs)
                       else passMinimumIntervalMs work),
                    passMaximumIntervalMs :=
                      (if positiveInterval
                       then Some (max (case passMaximumIntervalMs work of Some t \<Rightarrow> t
                                       | None \<Rightarrow> intervalMs) intervalMs)
                       else passMaximumIntervalMs work),
                    passLastObservedAt := Some timestamp\<rparr>))
           | _ \<Rightarrow> Inl (DomainInvariantError
               ''Archive Recovery pass observation state is inconsistent''))
      | _ \<Rightarrow>
          if hasAnyObservationState
          then Inl (DomainInvariantError
            ''Archive Recovery pass observation state has no checkpoint boundary'')
          else Inr (\<lambda>w. w))"

definition update_work ::
  "checkpoint_projection \<Rightarrow> archive_recovery_work \<Rightarrow> int \<Rightarrow> recovery_catalog \<Rightarrow>
     recovery_catalog result" where
  "update_work prj work timestamp c =
     (case observe_pass prj work timestamp of
        Inl e \<Rightarrow> Inl e
      | Inr observationUpdate \<Rightarrow> Inr (c\<lparr>cat_work := update_where
          (\<lambda>w. work_archiveRecoveryId w = work_archiveRecoveryId work \<and> same_claim prj w)
          (\<lambda>w. (observationUpdate (w\<lparr>passCursorLba := Some (read_startLba (prj_read prj)),
             passRecoveredSectorCount := passRecoveredSectorCount w
               + (if read_outcome (prj_read prj) = ''recovered'' then 1 else 0)\<rparr>))
             \<lparr>work_updatedAt := timestamp\<rparr>)
          (cat_work c)\<rparr>))"

section \<open>The transaction\<close>

definition write_projection ::
  "checkpoint_projection \<Rightarrow> projection_base \<Rightarrow> dvd_unrecovered_source_range \<Rightarrow> int \<Rightarrow>
     recovery_catalog \<Rightarrow> recovery_catalog result" where
  "write_projection prj cur sourceRange timestamp c =
     (case insert_read (projected_read_row prj sourceRange) c of
        Inl e \<Rightarrow> Inl e
      | Inr c1 \<Rightarrow>
          (case insert_manifest (projected_manifest_row prj) c1 of
             Inl e \<Rightarrow> Inl e
           | Inr c2 \<Rightarrow>
               (let c3 = update_archive prj timestamp (update_header prj timestamp c2);
                    work = projected_work prj cur c3;
                    status = projected_status prj cur work;
                    c4 = record_completion cur status (update_recovery prj status timestamp c3) in
                case work of None \<Rightarrow> Inr c4 | Some w \<Rightarrow> update_work prj w timestamp c4)))"

definition projection_transaction ::
  "(string \<Rightarrow> string) \<Rightarrow> checkpoint_projection \<Rightarrow> int \<Rightarrow> recovery_catalog \<Rightarrow>
     recovery_catalog result" where
  "projection_transaction sha256 prj now c =
     (case check_all
        [case prj_claim prj of None \<Rightarrow> Inr () | Some claim \<Rightarrow> requireCurrentArchiveRecoveryClaim c claim,
         case verificationId (prj_read prj) of
           None \<Rightarrow> Inr ()
         | Some v \<Rightarrow> invariant_if (source_authorization_invalid sha256 c prj v)
             ''DVD recovery read source authorization is invalid''] of
        Inl e \<Rightarrow> Inl e
      | Inr _ \<Rightarrow>
          (case projection_current c (originalDiscArchiveId (prj_manifest prj)) of
             Inl e \<Rightarrow> Inl e
           | Inr cur \<Rightarrow>
               if already_projected cur prj then Inr c
               else
                 (case projection_guards cur prj of
                    Inl e \<Rightarrow> Inl e
                  | Inr _ \<Rightarrow>
                      (case find (\<lambda>r. read_startLba (prj_read prj) \<ge> startLba r
                               \<and> read_startLba (prj_read prj) < startLba r + sectorCount r)
                             (row_unrecoveredSourceRanges (cur_manifest cur)) of
                         None \<Rightarrow> Inl (DomainInvariantError
                           ''DVD recovery read has no predecessor source range'')
                       | Some sourceRange \<Rightarrow>
                           write_projection prj cur sourceRange (projection_timestamp cur now) c))))"

definition projectDvdRecoveryCheckpoint ::
  "(string \<Rightarrow> string) \<Rightarrow> checkpoint_projection \<Rightarrow> int \<Rightarrow> recovery_catalog \<Rightarrow>
     recovery_catalog result" where
  "projectDvdRecoveryCheckpoint sha256 prj now c =
     (case assertDvdArchiveRecoveryReadEvidenceDigest sha256 (prj_read prj) (prj_evidenceDigest prj) of
        Inl e \<Rightarrow> Inl e
      | Inr _ \<Rightarrow>
          (case assertDvdArchiveEvidenceManifestDigests sha256 (prj_manifest prj) (prj_digests prj) of
             Inl e \<Rightarrow> Inl e
           | Inr _ \<Rightarrow>
               if projection_mismatch prj
               then Inl (DomainInvariantError
                 ''DVD recovery checkpoint does not match its recovery read'')
               else projection_transaction sha256 prj now c))"

section \<open>Facts\<close>

lemma find_update_where:
  assumes "\<And>r. Q r \<Longrightarrow> P (f r) = P r"
  shows "find P (update_where Q f rows) = map_option (\<lambda>r. if Q r then f r else r) (find P rows)"
  using assms by (induction rows) (auto simp: update_where_def)

lemma insert_read_Inr [result_simps]:
  "insert_read r c = Inr c' \<longleftrightarrow>
     c' = c\<lparr>cat_reads := cat_reads c @ [r]\<rparr> \<and> (\<forall>q \<in> set (cat_reads c). read_id q \<noteq> read_id r)"
  by (auto simp: insert_read_def)

lemma insert_manifest_Inr:
  "insert_manifest m c = Inr c' \<Longrightarrow>
     c' = c\<lparr>cat_manifests := cat_manifests c @ [m]\<rparr> \<and> (\<forall>q \<in> set (cat_manifests c). row_id q \<noteq> row_id m)"
  by (auto simp: insert_manifest_def split: if_splits)

definition same_claim_columns :: "archive_recovery_work \<Rightarrow> archive_recovery_work \<Rightarrow> bool" where
  "same_claim_columns v w \<longleftrightarrow>
     work_archiveRecoveryId v = work_archiveRecoveryId w \<and> work_status v = work_status w
     \<and> work_claimToken v = work_claimToken w \<and> work_claimedBy v = work_claimedBy w
     \<and> work_attemptId v = work_attemptId w"

lemma observe_pass_claim:
  "observe_pass prj work timestamp = Inr f \<Longrightarrow> same_claim_columns (f w) w"
  by (auto simp: observe_pass_def Let_def same_claim_columns_def split: option.splits if_splits)

lemma update_work_columns:
  assumes "update_work prj work timestamp c = Inr c'"
  obtains Q f where "c' = c\<lparr>cat_work := update_where Q f (cat_work c)\<rparr>"
    and "\<And>w. same_claim_columns (f w) w"
proof -
  from assms obtain g where g: "observe_pass prj work timestamp = Inr g" and
    c': "c' = c\<lparr>cat_work := update_where
       (\<lambda>w. work_archiveRecoveryId w = work_archiveRecoveryId work \<and> same_claim prj w)
       (\<lambda>w. (g (w\<lparr>passCursorLba := Some (read_startLba (prj_read prj)),
          passRecoveredSectorCount := passRecoveredSectorCount w
            + (if read_outcome (prj_read prj) = ''recovered'' then 1 else 0)\<rparr>))
          \<lparr>work_updatedAt := timestamp\<rparr>)
       (cat_work c)\<rparr>"
    by (auto simp: update_work_def result_simps)
  have "same_claim_columns (g (w\<lparr>passCursorLba := Some (read_startLba (prj_read prj)),
          passRecoveredSectorCount := passRecoveredSectorCount w
            + (if read_outcome (prj_read prj) = ''recovered'' then 1 else 0)\<rparr>)
          \<lparr>work_updatedAt := timestamp\<rparr>) w" for w
    using observe_pass_claim [OF g] by (simp add: same_claim_columns_def)
  with c' show thesis by (rule that)
qed

lemma write_projection_tables:
  assumes "write_projection prj cur sourceRange timestamp c = Inr c'"
  obtains status Q f where
    "cat_manifests c' = cat_manifests c @ [projected_manifest_row prj]"
    and "\<forall>q \<in> set (cat_manifests c). row_id q \<noteq> prj_manifestId prj"
    and "cat_reads c' = cat_reads c @ [projected_read_row prj sourceRange]"
    and "\<forall>q \<in> set (cat_reads c). read_id q \<noteq> prj_readId prj"
    and "cat_headers c' = cat_headers (update_header prj timestamp c)"
    and "cat_archives c' = cat_archives (update_archive prj timestamp c)"
    and "cat_recoveries c' = cat_recoveries (update_recovery prj status timestamp c)"
    and "cat_verifications c' = cat_verifications c"
    and "cat_confirmations c' = cat_confirmations c"
    and "cat_work c' = update_where Q f (cat_work c)" and "\<And>w. same_claim_columns (f w) w"
proof -
  from assms obtain c1 c2 where
    c1: "insert_read (projected_read_row prj sourceRange) c = Inr c1"
    and c2: "insert_manifest (projected_manifest_row prj) c1 = Inr c2"
    and writes: "(let c3 = update_archive prj timestamp (update_header prj timestamp c2);
           work = projected_work prj cur c3;
           status = projected_status prj cur work;
           c4 = record_completion cur status (update_recovery prj status timestamp c3) in
         case work of None \<Rightarrow> Inr c4 | Some w \<Rightarrow> update_work prj w timestamp c4) = Inr c'"
    by (auto simp: write_projection_def simp del: Let_def split: sum.splits)
  define c3 where "c3 = update_archive prj timestamp (update_header prj timestamp c2)"
  define work where "work = projected_work prj cur c3"
  define status where "status = projected_status prj cur work"
  define c4 where "c4 = record_completion cur status (update_recovery prj status timestamp c3)"
  have last: "(case work of None \<Rightarrow> Inr c4 | Some w \<Rightarrow> update_work prj w timestamp c4) = Inr c'"
    using writes unfolding Let_def c3_def work_def status_def c4_def by assumption
  have "\<exists>Q f. c' = c4\<lparr>cat_work := update_where Q f (cat_work c4)\<rparr> \<and> (\<forall>w. same_claim_columns (f w) w)"
  proof (cases work)
    case None
    have "update_where (\<lambda>_. False) (\<lambda>w. w) rows = rows" for rows :: "archive_recovery_work list"
      by (simp add: update_where_def)
    moreover from None last have "c' = c4" by simp
    moreover have "\<forall>w. same_claim_columns ((\<lambda>w. w) w) w" by (simp add: same_claim_columns_def)
    ultimately show ?thesis
      by (intro exI [of _ "\<lambda>_. False"] exI [of _ "\<lambda>w. w"]) simp
  next
    case (Some w)
    with last show ?thesis by (auto elim!: update_work_columns)
  qed
  then obtain Q f where c': "c' = c4\<lparr>cat_work := update_where Q f (cat_work c4)\<rparr>"
    and f: "\<And>w. same_claim_columns (f w) w" by blast
  have fields: "cat_manifests c4 = cat_manifests c2" "cat_reads c4 = cat_reads c2"
    "cat_headers c4 = cat_headers (update_header prj timestamp c2)"
    "cat_archives c4 = cat_archives (update_archive prj timestamp c2)"
    "cat_recoveries c4 = cat_recoveries (update_recovery prj status timestamp c2)"
    "cat_verifications c4 = cat_verifications c2" "cat_confirmations c4 = cat_confirmations c2"
    "cat_work c4 = cat_work c2"
    by (simp_all add: c4_def c3_def record_completion_def update_recovery_def update_archive_def
        update_header_def Let_def)
  show thesis
    using c1 insert_manifest_Inr [OF c2] fields f
    by (intro that [of status Q f])
      (auto simp: result_simps c' projected_manifest_row_def projected_read_row_def Let_def
        update_header_def update_archive_def update_recovery_def)
qed

definition projection_authorized ::
  "(string \<Rightarrow> string) \<Rightarrow> recovery_catalog \<Rightarrow> checkpoint_projection \<Rightarrow> bool" where
  "projection_authorized sha256 c prj \<longleftrightarrow>
     (case prj_claim prj of None \<Rightarrow> True
      | Some claim \<Rightarrow> requireCurrentArchiveRecoveryClaim c claim = Inr ())
     \<and> (case verificationId (prj_read prj) of None \<Rightarrow> True
        | Some v \<Rightarrow> \<not> source_authorization_invalid sha256 c prj v)"

definition source_range_of ::
  "projection_base \<Rightarrow> checkpoint_projection \<Rightarrow> dvd_unrecovered_source_range option" where
  "source_range_of cur prj =
     find (\<lambda>r. read_startLba (prj_read prj) \<ge> startLba r
       \<and> read_startLba (prj_read prj) < startLba r + sectorCount r)
       (row_unrecoveredSourceRanges (cur_manifest cur))"

lemma projection_Inr:
  "projectDvdRecoveryCheckpoint sha256 prj now c = Inr c' \<longleftrightarrow>
     createDvdArchiveRecoveryReadEvidenceDigest sha256 (prj_read prj) = Inr (prj_evidenceDigest prj)
     \<and> createDvdArchiveEvidenceManifestDigests sha256 (prj_manifest prj) = Inr (prj_digests prj)
     \<and> \<not> projection_mismatch prj \<and> projection_authorized sha256 c prj
     \<and> (\<exists>cur. projection_current c (originalDiscArchiveId (prj_manifest prj)) = Inr cur
         \<and> (if already_projected cur prj then c' = c
            else projection_guards cur prj = Inr ()
              \<and> (\<exists>sourceRange. source_range_of cur prj = Some sourceRange
                 \<and> write_projection prj cur sourceRange (projection_timestamp cur now) c = Inr c')))"
proof -
  have auth: "check_all
        [case prj_claim prj of None \<Rightarrow> Inr () | Some claim \<Rightarrow> requireCurrentArchiveRecoveryClaim c claim,
         case verificationId (prj_read prj) of
           None \<Rightarrow> Inr ()
         | Some v \<Rightarrow> invariant_if (source_authorization_invalid sha256 c prj v)
             ''DVD recovery read source authorization is invalid''] = Inr u
      \<longleftrightarrow> projection_authorized sha256 c prj" for u
    by (auto simp add: check_all_Inr require_Inr projection_authorized_def simp del: check_all.simps
        split: option.split)
  have finish: "(if b then Inr x else r) = Inr y \<longleftrightarrow> (if b then y = x else r = Inr y)"
    for b and x y :: recovery_catalog and r :: "recovery_catalog result"
    by auto
  show ?thesis
    unfolding projectDvdRecoveryCheckpoint_def projection_transaction_def bind_error_Inr if_error_Inr
      auth assertRecoveryReadDigest_Inr assertManifestDigests_Inr bind_option_error_Inr finish
      source_range_of_def
    by simp
qed

lemma requireCurrent_updated:
  assumes "cat_recoveries c' = update_where R g (cat_recoveries c)"
    and "\<And>r. rec_id (g r) = rec_id r \<and> rec_originalDiscArchiveId (g r) = rec_originalDiscArchiveId r
           \<and> rec_attemptId (g r) = rec_attemptId r"
    and "cat_work c' = update_where Q f (cat_work c)" and "\<And>w. same_claim_columns (f w) w"
  shows "requireCurrentArchiveRecoveryClaim c' claim = requireCurrentArchiveRecoveryClaim c claim"
proof -
  have recoveries: "find (\<lambda>r. rec_id r = k \<and> rec_originalDiscArchiveId r = a) (cat_recoveries c') =
      map_option (\<lambda>r. if R r then g r else r)
        (find (\<lambda>r. rec_id r = k \<and> rec_originalDiscArchiveId r = a) (cat_recoveries c))" for k a
    using assms(2) by (simp add: assms(1) find_update_where)
  have work: "find (\<lambda>w. work_archiveRecoveryId w = k) (cat_work c') =
      map_option (\<lambda>w. if Q w then f w else w)
        (find (\<lambda>w. work_archiveRecoveryId w = k) (cat_work c))" for k
    using assms(4) by (simp add: assms(3) find_update_where same_claim_columns_def)
  show ?thesis
    using assms(2,4)
    by (auto simp: requireCurrentArchiveRecoveryClaim_def Let_def recoveries work
        same_claim_columns_def split: option.split)
qed

lemma projection_current_Inr:
  "projection_current c a = Inr cur \<longleftrightarrow>
     find (\<lambda>h. header_originalDiscArchiveId h = a) (cat_headers c) = Some (cur_header cur)
     \<and> find (\<lambda>m. row_id m = currentManifestId (cur_header cur)) (cat_manifests c) = Some (cur_manifest cur)
     \<and> find (\<lambda>x. arc_id x = a) (cat_archives c) = Some (cur_archive cur)
     \<and> find (\<lambda>r. rec_originalDiscArchiveId r = a) (cat_recoveries c) = Some (cur_recovery cur)"
  by (cases cur) (auto simp: projection_current_def Let_def split: option.splits)

lemma fresh_base:
  "staleReasons cur prj = [] \<longleftrightarrow>
     currentManifestId (cur_header cur) = fromManifestId (prj_read prj)
     \<and> currentManifestRevision (cur_header cur) = fromManifestRevision (prj_read prj)
     \<and> previousManifestDigest (prj_manifest prj) = Some (currentManifestDigest (cur_header cur))
     \<and> row_manifestDigest (cur_manifest cur) = currentManifestDigest (cur_header cur)
     \<and> row_originalDiscArchiveId (cur_manifest cur) = originalDiscArchiveId (prj_manifest prj)
     \<and> recovery_may_project (cur_recovery cur)
     \<and> arc_integrityEvidenceRevision (cur_archive cur) = Some (currentManifestRevision (cur_header cur))"
proof -
  have none: "map snd (filter fst xs) = [] \<longleftrightarrow> (\<forall>x \<in> set xs. \<not> fst x)"
    for xs :: "(bool \<times> string) list"
    by (induction xs) auto
  show ?thesis
    unfolding staleReasons_def Let_def none by (simp add: eq_commute [of "Some _"])
qed

lemma projection_guards_Inr:
  "projection_guards cur prj = Inr () \<longleftrightarrow>
     currentManifestId (cur_header cur) = fromManifestId (prj_read prj)
     \<and> currentManifestRevision (cur_header cur) = fromManifestRevision (prj_read prj)
     \<and> previousManifestDigest (prj_manifest prj) = Some (currentManifestDigest (cur_header cur))
     \<and> row_manifestDigest (cur_manifest cur) = currentManifestDigest (cur_header cur)
     \<and> row_originalDiscArchiveId (cur_manifest cur) = originalDiscArchiveId (prj_manifest prj)
     \<and> recovery_may_project (cur_recovery cur)
     \<and> arc_integrityEvidenceRevision (cur_archive cur) = Some (currentManifestRevision (cur_header cur))
     \<and> \<not> immutable_evidence_changed (cur_manifest cur) (prj_manifest prj)
     \<and> dvdEvidenceRangesAfterRecoveryRead (row_unrecoveredSourceRanges (cur_manifest cur))
         (read_startLba (prj_read prj)) (outcome_of (read_outcome (prj_read prj)))
         = Inr (unrecoveredSourceRanges (prj_manifest prj))"
  unfolding projection_guards_def check_all_Inr
  by (simp add: require_Inr fresh_base assert_transition_Inr) (intro iffI; elim conjE; simp)

lemma find_append: "find P (xs @ ys) = (case find P xs of None \<Rightarrow> find P ys | Some x \<Rightarrow> Some x)"
  by (induction xs) auto

lemma authorized_updated:
  assumes "requireCurrentArchiveRecoveryClaim c' = requireCurrentArchiveRecoveryClaim c"
    and "cat_verifications c' = cat_verifications c" and "cat_confirmations c' = cat_confirmations c"
  shows "projection_authorized sha256 c' prj = projection_authorized sha256 c prj"
proof -
  have "source_authorization_invalid sha256 c' prj = source_authorization_invalid sha256 c prj"
    by (rule ext) (simp only: source_authorization_invalid_def assms(2,3))
  then show ?thesis by (simp only: projection_authorized_def assms(1))
qed

definition advanced_header :: "checkpoint_projection \<Rightarrow> int \<Rightarrow> header_row \<Rightarrow> header_row" where
  "advanced_header prj timestamp h =
     h\<lparr>currentManifestId := prj_manifestId prj,
       currentManifestRevision := revision (prj_manifest prj),
       currentManifestDigest := manifestDigest (prj_digests prj),
       header_updatedAt := timestamp\<rparr>"

text \<open>What a projection that writes leaves behind, as the next transaction reads it.\<close>

lemma write_projection_current:
  assumes "projection_current c (originalDiscArchiveId (prj_manifest prj)) = Inr cur"
    and "projection_guards cur prj = Inr ()"
    and "write_projection prj cur sourceRange timestamp c = Inr c'"
  obtains cur' where "projection_current c' (originalDiscArchiveId (prj_manifest prj)) = Inr cur'"
    and "cur_header cur' = advanced_header prj timestamp (cur_header cur)"
    and "cur_manifest cur' = projected_manifest_row prj"
    and "arc_fingerprint (cur_archive cur') = arc_fingerprint (cur_archive cur)"
    and "arc_sizeBytes (cur_archive cur') = arc_sizeBytes (cur_archive cur)"
    and "arc_boundary (cur_archive cur') = arc_boundary (cur_archive cur)"
    and "projection_authorized sha256 c' prj = projection_authorized sha256 c prj"
proof -
  let ?a = "originalDiscArchiveId (prj_manifest prj)"
  note base = assms(1) [unfolded projection_current_Inr]
  note guards = assms(2) [unfolded projection_guards_Inr]
  from assms(3) obtain status Q f where
    tables: "cat_manifests c' = cat_manifests c @ [projected_manifest_row prj]"
      "\<forall>q \<in> set (cat_manifests c). row_id q \<noteq> prj_manifestId prj"
      "cat_headers c' = cat_headers (update_header prj timestamp c)"
      "cat_archives c' = cat_archives (update_archive prj timestamp c)"
      "cat_recoveries c' = cat_recoveries (update_recovery prj status timestamp c)"
      "cat_verifications c' = cat_verifications c" "cat_confirmations c' = cat_confirmations c"
      "cat_work c' = update_where Q f (cat_work c)" "\<And>w. same_claim_columns (f w) w"
    by (rule write_projection_tables) blast
  have header: "find (\<lambda>h. header_originalDiscArchiveId h = ?a) (cat_headers c') =
      Some (advanced_header prj timestamp (cur_header cur))"
  proof -
    have "header_originalDiscArchiveId (cur_header cur) = ?a"
      using base by (auto simp: find_Some_iff)
    with base guards show ?thesis
      by (simp add: tables(3) update_header_def find_update_where advanced_header_def)
  qed
  have archive: "\<exists>x. find (\<lambda>x. arc_id x = ?a) (cat_archives c') = Some x
      \<and> arc_fingerprint x = arc_fingerprint (cur_archive cur)
      \<and> arc_sizeBytes x = arc_sizeBytes (cur_archive cur)
      \<and> arc_boundary x = arc_boundary (cur_archive cur)"
    using base by (simp add: tables(4) update_archive_def Let_def find_update_where)
  have recovery: "\<exists>x. find (\<lambda>r. rec_originalDiscArchiveId r = ?a) (cat_recoveries c') = Some x"
    using base by (simp add: tables(5) update_recovery_def find_update_where)
  have manifest: "find (\<lambda>m. row_id m = prj_manifestId prj) (cat_manifests c') =
      Some (projected_manifest_row prj)"
  proof -
    have "find (\<lambda>m. row_id m = prj_manifestId prj) (cat_manifests c) = None"
      using tables(2) by (auto simp: find_None_iff)
    then show ?thesis
      by (simp add: tables(1) find_append projected_manifest_row_def Let_def)
  qed
  have "requireCurrentArchiveRecoveryClaim c' = requireCurrentArchiveRecoveryClaim c"
    by (rule ext, rule requireCurrent_updated
        [where R = "\<lambda>r. rec_originalDiscArchiveId r = ?a"
          and g = "\<lambda>r. r\<lparr>rec_status := status, rec_updatedAt := timestamp\<rparr>", OF _ _ tables(8,9)])
      (simp_all add: tables(5) update_recovery_def)
  then have authorized: "projection_authorized sha256 c' prj = projection_authorized sha256 c prj"
    by (rule authorized_updated [OF _ tables(6,7)])
  from archive recovery obtain x y where found: "find (\<lambda>x. arc_id x = ?a) (cat_archives c') = Some x"
    "find (\<lambda>r. rec_originalDiscArchiveId r = ?a) (cat_recoveries c') = Some y"
    and x: "arc_fingerprint x = arc_fingerprint (cur_archive cur)"
    "arc_sizeBytes x = arc_sizeBytes (cur_archive cur)"
    "arc_boundary x = arc_boundary (cur_archive cur)" by blast
  show thesis
  proof (rule that)
    let ?cur = "\<lparr>cur_header = advanced_header prj timestamp (cur_header cur),
      cur_manifest = projected_manifest_row prj, cur_archive = x, cur_recovery = y\<rparr>"
    show "projection_current c' ?a = Inr ?cur"
      using header found manifest by (simp add: projection_current_Inr advanced_header_def)
  qed (simp_all add: x authorized)
qed

lemma projection_repeated:
  assumes "projectDvdRecoveryCheckpoint sha256 prj now c = Inr c'"
  shows "projectDvdRecoveryCheckpoint sha256 prj later c' = Inr c'"
proof -
  from assms obtain cur where
    ok: "createDvdArchiveRecoveryReadEvidenceDigest sha256 (prj_read prj) = Inr (prj_evidenceDigest prj)"
      "createDvdArchiveEvidenceManifestDigests sha256 (prj_manifest prj) = Inr (prj_digests prj)"
      "\<not> projection_mismatch prj" "projection_authorized sha256 c prj"
    and cur: "projection_current c (originalDiscArchiveId (prj_manifest prj)) = Inr cur"
    and step: "if already_projected cur prj then c' = c
       else projection_guards cur prj = Inr ()
         \<and> (\<exists>sourceRange. source_range_of cur prj = Some sourceRange
            \<and> write_projection prj cur sourceRange (projection_timestamp cur now) c = Inr c')"
    unfolding projection_Inr by blast
  show ?thesis
  proof (cases "already_projected cur prj")
    case True
    with ok cur step show ?thesis by (auto simp: projection_Inr)
  next
    case False
    with step obtain sourceRange where "projection_guards cur prj = Inr ()"
      and "write_projection prj cur sourceRange (projection_timestamp cur now) c = Inr c'" by auto
    with cur obtain cur' where
      "projection_current c' (originalDiscArchiveId (prj_manifest prj)) = Inr cur'"
      "cur_header cur' = advanced_header prj (projection_timestamp cur now) (cur_header cur)"
      "projection_authorized sha256 c' prj = projection_authorized sha256 c prj"
      by (rule write_projection_current)
    with ok show ?thesis
      by (auto simp: projection_Inr already_projected_def advanced_header_def)
  qed
qed

section \<open>The audit after a projection\<close>

definition catalog_source :: "recovery_catalog \<Rightarrow> string \<Rightarrow> audit_source option" where
  "catalog_source c archiveId =
     (case (find (\<lambda>h. header_originalDiscArchiveId h = archiveId) (cat_headers c),
            find (\<lambda>a. arc_id a = archiveId) (cat_archives c)) of
        (Some header, Some archive) \<Rightarrow> Some
          \<lparr>src_header = header, src_archive = archive, src_manifests = cat_manifests c,
           src_reads = cat_reads c\<rparr>
      | _ \<Rightarrow> None)"

definition chain_audited :: "(string \<Rightarrow> string) \<Rightarrow> recovery_catalog \<Rightarrow> string \<Rightarrow> bool" where
  "chain_audited sha256 c archiveId \<longleftrightarrow>
     (case catalog_source c archiveId of None \<Rightarrow> False
      | Some src \<Rightarrow> auditDvdArchiveEvidenceChain sha256 src = Inr ())"

definition extends_source :: "audit_source \<Rightarrow> audit_source \<Rightarrow> bool" where
  "extends_source src' src \<longleftrightarrow>
     (\<exists>ms rs. src_manifests src' = src_manifests src @ ms \<and> src_reads src' = src_reads src @ rs)
     \<and> arc_fingerprint (src_archive src') = arc_fingerprint (src_archive src)
     \<and> arc_sizeBytes (src_archive src') = arc_sizeBytes (src_archive src)
     \<and> arc_boundary (src_archive src') = arc_boundary (src_archive src)
     \<and> header_originalDiscArchiveId (src_header src') = header_originalDiscArchiveId (src_header src)
     \<and> header_evidenceFormat (src_header src') = header_evidenceFormat (src_header src)
     \<and> header_boundaryPolicyVersion (src_header src') = header_boundaryPolicyVersion (src_header src)
     \<and> header_boundaryReportedSizeBytes (src_header src') = header_boundaryReportedSizeBytes (src_header src)
     \<and> header_boundaryPublishedSizeBytes (src_header src') = header_boundaryPublishedSizeBytes (src_header src)
     \<and> header_boundaryEvidenceDigest (src_header src') = header_boundaryEvidenceDigest (src_header src)
     \<and> header_sectorSizeBytes (src_header src') = header_sectorSizeBytes (src_header src)
     \<and> header_acceptedEndLbaExclusive (src_header src') = header_acceptedEndLbaExclusive (src_header src)"

lemma chain_member_extended:
  assumes "extends_source src' src" and "\<not> chain_member_differs src n visited row"
    and "row_id row \<notin> set visited'"
  shows "\<not> chain_member_differs src' n visited' row"
  using assms by (simp add: chain_member_differs_def extends_source_def Let_def)

lemma manifestsById_extended:
  assumes "extends_source src' src" and "manifestsById src k = Some row"
  shows "manifestsById src' k = Some row"
  using assms by (auto simp: manifestsById_def extends_source_def find_append)

lemma audit_manifest_extended:
  assumes ext: "extends_source src' src"
    and ok: "audit_manifest sha256 src b n visited row = Inr ts"
    and fresh: "row_id row \<notin> set visited'"
  shows "audit_manifest sha256 src' b n visited' row = Inr ts
    \<and> previousManifest src' row = previousManifest src row"
proof -
  note ok' = ok [unfolded audit_manifest_Inr]
  have reads: "joined_read_of src' row = joined_read_of src row"
  proof (cases "row_recoveryReadId row")
    case (Some k)
    with ok' obtain r where "joined_read_of src row = Some r" by (auto simp: audit_read_Inr)
    with Some ext show ?thesis
      by (auto simp: joined_read_of_def joined_read_def extends_source_def find_append)
  qed (simp add: joined_read_of_def)
  have previous: "previousManifest src' row = previousManifest src row"
  proof (cases "row_previousManifestId row")
    case (Some k)
    with ok' obtain p where "previousManifest src row = Some p"
      by (auto simp: linksAreValid_def split: if_splits option.splits)
    with Some manifestsById_extended [OF ext] show ?thesis by (auto simp: previousManifest_def)
  qed (simp add: previousManifest_def)
  have "\<not> chain_member_differs src' n visited' row"
    using chain_member_extended [OF ext _ fresh, of n visited] ok' by simp
  moreover have "audit_read sha256 src' row = Inr (joined_read_of src' row)"
    using ok' unfolding audit_read_Inr reads by blast
  moreover have "linksAreValid src' n row p r = linksAreValid src n row p r" for p r
    using ext by (simp add: linksAreValid_def extends_source_def split: option.split)
  moreover have "audited_input src' row = audited_input src row"
    by (simp add: audited_input_def previous reads)
  ultimately show ?thesis using ok' previous reads by (simp add: audit_manifest_Inr)
qed

lemma audit_walk_extended:
  assumes "extends_source src' src" and "audit_walk sha256 src b n visited manifest = Inr ts"
    and "\<forall>row \<in> set (src_manifests src). row_id row \<notin> extra"
    and "\<forall>row. manifest = Some row \<longrightarrow> row \<in> set (src_manifests src)"
    and "set visited' \<subseteq> set visited \<union> extra"
  shows "audit_walk sha256 src' b n visited' manifest = Inr ts"
  using assms(2,4,5)
proof (induction n arbitrary: visited visited' manifest ts)
  case 0
  then show ?case by simp
next
  case (Suc n)
  then obtain row here earlier where row: "manifest = Some row"
    and here: "audit_manifest sha256 src b (int (Suc n)) visited row = Inr here"
    and walk: "audit_walk sha256 src b n (row_id row # visited) (previousManifest src row) = Inr earlier"
    and ts: "ts = here @ earlier"
    by (auto simp: bind_option_error_Inr bind_error_Inr map_sum_Inr)
  have "row_id row \<notin> set visited"
    using here by (simp add: audit_manifest_Inr chain_member_differs_def Let_def)
  then have "row_id row \<notin> set visited'" using Suc.prems row assms(3) by blast
  note step = audit_manifest_extended [OF assms(1) here this]
  have "audit_walk sha256 src' b n (row_id row # visited') (previousManifest src row) = Inr earlier"
  proof (rule Suc.IH [OF walk])
    show "\<forall>r. previousManifest src row = Some r \<longrightarrow> r \<in> set (src_manifests src)"
      by (auto simp: previousManifest_def manifestsById_def find_Some_iff split: option.splits)
    show "set (row_id row # visited') \<subseteq> set (row_id row # visited) \<union> extra"
      using Suc.prems by auto
  qed
  with row step ts show ?case by simp
qed

lemma auditChain_Inr:
  "auditDvdArchiveEvidenceChain sha256 src = Inr () \<longleftrightarrow>
     (\<exists>boundary manifest ts.
        archiveBoundaryEvidenceFromRecord (arc_boundary (src_archive src)) = Inr (Some boundary)
        \<and> createDvdArchiveBoundaryEvidenceDigest sha256 boundary
            = Inr (header_boundaryEvidenceDigest (src_header src))
        \<and> \<not> header_differs_from_archive (src_header src) (src_archive src)
        \<and> manifestsById src (currentManifestId (src_header src)) = Some manifest
        \<and> row_revision manifest = currentManifestRevision (src_header src)
        \<and> row_manifestDigest manifest = currentManifestDigest (src_header src)
        \<and> audit_walk sha256 src boundary (nat (currentManifestRevision (src_header src))) []
            (Some manifest) = Inr ts
        \<and> (\<forall>t \<in> set ts. check_transition t = Inr ()))"
  unfolding auditDvdArchiveEvidenceChain_def Let_def
  by (auto simp add: bind_option_error_Inr bind_error_Inr if_error_Inr check_all_Inr
      assertBoundaryDigest_Inr simp del: check_all.simps audit_walk.simps split: sum.splits option.splits)

lemma manifestsById_row:
  assumes "manifestsById src k = Some row"
  shows "row \<in> set (src_manifests src) \<and> row_id row = k
    \<and> row_originalDiscArchiveId row = header_originalDiscArchiveId (src_header src)"
  using assms by (auto simp: manifestsById_def find_Some_iff)

text \<open>An archive that the projection is not about: only the tables have grown.\<close>

lemma audit_of_other_archive:
  assumes "auditDvdArchiveEvidenceChain sha256 src = Inr ()" and "extends_source src' src"
    and "src_header src' = src_header src"
  shows "auditDvdArchiveEvidenceChain sha256 src' = Inr ()"
proof -
  from assms(1) obtain boundary manifest ts where audited:
    "archiveBoundaryEvidenceFromRecord (arc_boundary (src_archive src)) = Inr (Some boundary)"
    "createDvdArchiveBoundaryEvidenceDigest sha256 boundary
       = Inr (header_boundaryEvidenceDigest (src_header src))"
    "\<not> header_differs_from_archive (src_header src) (src_archive src)"
    "manifestsById src (currentManifestId (src_header src)) = Some manifest"
    "row_revision manifest = currentManifestRevision (src_header src)"
    "row_manifestDigest manifest = currentManifestDigest (src_header src)"
    "audit_walk sha256 src boundary (nat (currentManifestRevision (src_header src))) []
       (Some manifest) = Inr ts"
    "\<forall>t \<in> set ts. check_transition t = Inr ()"
    unfolding auditChain_Inr by blast
  have "audit_walk sha256 src' boundary (nat (currentManifestRevision (src_header src))) []
      (Some manifest) = Inr ts"
    using manifestsById_row [OF audited(4)]
    by (intro audit_walk_extended [OF assms(2) audited(7), where extra = "{}"]) auto
  moreover have "\<not> header_differs_from_archive (src_header src') (src_archive src')"
    using audited(3) assms(2,3) by (simp add: header_differs_from_archive_def extends_source_def)
  moreover have "arc_boundary (src_archive src') = arc_boundary (src_archive src)"
    using assms(2) by (simp add: extends_source_def)
  ultimately show ?thesis
    unfolding auditChain_Inr
    using audited manifestsById_extended [OF assms(2) audited(4)] assms(3) by auto
qed

lemma read_row_roundtrip:
  assumes "recoveryReadPayload (prj_read prj) = Inr j"
    and "originalDiscArchiveId (prj_manifest prj) = read_originalDiscArchiveId (prj_read prj)"
  shows "read_evidence_of_row (projected_read_row prj sourceRange) = prj_read prj"
  using recoveryReadPayload_shape [OF assms(1)] assms(2)
  by (auto simp: read_evidence_of_row_def projected_read_row_def Let_def
      intro!: recovery_read_evidence.equality)

lemma projected_input:
  assumes "previousManifest src (projected_manifest_row prj) = Some p"
    and "previousManifestDigest (prj_manifest prj) = Some (row_manifestDigest p)"
    and "joined_read_of src (projected_manifest_row prj) = Some (projected_read_row prj sourceRange)"
    and "recoveryReadEvidenceDigest (prj_manifest prj) = Some (prj_evidenceDigest prj)"
  shows "audited_input src (projected_manifest_row prj) = prj_manifest prj"
  using assms
  by (auto simp: audited_input_def manifest_input_def projected_manifest_row_def Let_def
      projected_read_row_def intro!: manifest_digest_input.equality)

text \<open>The archive that the projection is about: the audit of the new manifest, then the old chain.\<close>

lemma audit_of_projected_manifest:
  assumes audited: "auditDvdArchiveEvidenceChain sha256 src = Inr ()"
    and extended: "extends_source src' src"
    and tables: "src_manifests src' = src_manifests src @ [projected_manifest_row prj]"
      "src_reads src' = src_reads src @ [projected_read_row prj sourceRange]"
      "\<forall>q \<in> set (src_manifests src). row_id q \<noteq> prj_manifestId prj"
      "\<forall>q \<in> set (src_reads src). read_id q \<noteq> prj_readId prj"
    and header: "src_header src' = advanced_header prj timestamp (src_header src)"
    and archive: "header_originalDiscArchiveId (src_header src) = originalDiscArchiveId (prj_manifest prj)"
    and digests: "createDvdArchiveRecoveryReadEvidenceDigest sha256 (prj_read prj) = Inr (prj_evidenceDigest prj)"
      "createDvdArchiveEvidenceManifestDigests sha256 (prj_manifest prj) = Inr (prj_digests prj)"
    and matches: "\<not> projection_mismatch prj"
    and current: "manifestsById src (currentManifestId (src_header src)) = Some current"
    and guards: "currentManifestId (src_header src) = fromManifestId (prj_read prj)"
      "currentManifestRevision (src_header src) = fromManifestRevision (prj_read prj)"
      "previousManifestDigest (prj_manifest prj) = Some (row_manifestDigest current)"
      "\<not> immutable_evidence_changed current (prj_manifest prj)"
      "dvdEvidenceRangesAfterRecoveryRead (row_unrecoveredSourceRanges current)
         (read_startLba (prj_read prj)) (outcome_of (read_outcome (prj_read prj)))
         = Inr (unrecoveredSourceRanges (prj_manifest prj))"
  shows "auditDvdArchiveEvidenceChain sha256 src' = Inr ()"
proof -
  let ?row = "projected_manifest_row prj" and ?read = "projected_read_row prj sourceRange"
  from audited obtain boundary ts where old:
    "archiveBoundaryEvidenceFromRecord (arc_boundary (src_archive src)) = Inr (Some boundary)"
    "createDvdArchiveBoundaryEvidenceDigest sha256 boundary
       = Inr (header_boundaryEvidenceDigest (src_header src))"
    "\<not> header_differs_from_archive (src_header src) (src_archive src)"
    "row_revision current = currentManifestRevision (src_header src)"
    "audit_walk sha256 src boundary (nat (currentManifestRevision (src_header src))) []
       (Some current) = Inr ts"
    "\<forall>t \<in> set ts. check_transition t = Inr ()"
    unfolding auditChain_Inr using current by auto
  from digests(1) obtain j where payload: "recoveryReadPayload (prj_read prj) = Inr j"
    by (auto simp: createDvdArchiveRecoveryReadEvidenceDigest_def map_sum_Inr)
  then have "1 \<le> fromManifestRevision (prj_read prj)"
    by (auto simp: recoveryReadPayload_def recovery_read_guards_def result_simps split: option.splits)
  then obtain n where n: "fromManifestRevision (prj_read prj) = int (Suc n)"
    by (intro that [of "nat (fromManifestRevision (prj_read prj)) - 1"]) linarith
  have m: "revision (prj_manifest prj) = int (Suc (Suc n))"
    "previousManifestId (prj_manifest prj) = Some (fromManifestId (prj_read prj))"
    "recoveryReadId (prj_manifest prj) = Some (prj_readId prj)"
    "recoveryReadEvidenceDigest (prj_manifest prj) = Some (prj_evidenceDigest prj)"
    "originalDiscArchiveId (prj_manifest prj) = read_originalDiscArchiveId (prj_read prj)"
    using matches n by (auto simp: projection_mismatch_def Let_def)
  note row_fields = projected_manifest_row_def [of prj, unfolded Let_def]
  have "nat (currentManifestRevision (src_header src)) = Suc n" using guards(2) n by simp
  with old(5) have old_walk: "audit_walk sha256 src boundary (Suc n) [] (Some current) = Inr ts"
    by metis
  then obtain here where old_current: "audit_manifest sha256 src boundary (int (Suc n)) [] current = Inr here"
    by (auto simp: bind_error_Inr)
  have current_row: "current \<in> set (src_manifests src)" "row_id current = fromManifestId (prj_read prj)"
    "row_originalDiscArchiveId current = header_originalDiscArchiveId (src_header src)"
    using manifestsById_row [OF current] guards(1) by auto
  have previous: "previousManifest src' ?row = Some current"
    using manifestsById_extended [OF extended current] guards(1)
    by (simp add: previousManifest_def row_fields m(2))
  have read: "joined_read_of src' ?row = Some ?read"
  proof -
    have "joined_read (src_reads src) (prj_readId prj) = None"
      using tables(4) by (auto simp: joined_read_def find_None_iff)
    then show ?thesis
      by (simp add: joined_read_of_def row_fields m(3) tables(2) joined_read_def find_append
          projected_read_row_def Let_def)
  qed
  have input: "audited_input src' ?row = prj_manifest prj"
    using projected_input [OF previous guards(3) read m(4)] .
  have not_differs: "\<not> chain_member_differs src' (int (Suc (Suc n))) [] ?row"
    using old_current extended guards(4) archive m(1)
    by (auto simp: audit_manifest_Inr chain_member_differs_def Let_def row_fields
        immutable_evidence_changed_def extends_source_def)
  have read_ok: "audit_read sha256 src' ?row = Inr (Some ?read)"
    using digests(1) read read_row_roundtrip [OF payload m(5)]
    by (simp add: audit_read_Inr row_fields m(3)) (simp add: projected_read_row_def Let_def)
  have links: "linksAreValid src' (int (Suc (Suc n))) ?row (Some current) (Some ?read)"
    using extended archive current_row guards(2) old(4) n
    by (simp add: linksAreValid_def projected_read_row_def Let_def extends_source_def)
  have same_boundary: "row_boundaryEvidenceDigest ?row = header_boundaryEvidenceDigest (src_header src)"
    using not_differs extended by (auto simp: chain_member_differs_def Let_def extends_source_def)
  have new: "audit_manifest sha256 src' boundary (int (Suc (Suc n))) [] ?row = Inr [(current, ?row, ?read)]"
    using not_differs links digests(2) old(2) same_boundary read_ok
    unfolding audit_manifest_Inr previous read input createManifestDigests_Inr
    by (simp add: row_fields)
  have rest: "audit_walk sha256 src' boundary (Suc n) [row_id ?row] (Some current) = Inr ts"
    using tables(3) current_row
    by (intro audit_walk_extended [OF extended old_walk, where extra = "{row_id ?row}"])
      (auto simp: row_fields)
  have walk: "audit_walk sha256 src' boundary (Suc (Suc n)) [] (Some ?row)
      = Inr ((current, ?row, ?read) # ts)"
    using new rest previous by (simp del: audit_walk.simps add: audit_walk.simps(2) [of _ _ _ "Suc n"])
  have transition: "check_transition (current, ?row, ?read) = Inr ()"
    using guards(5) by (simp add: check_transition_def assert_transition_Inr row_fields
        projected_read_row_def Let_def)
  have found: "manifestsById src' (prj_manifestId prj) = Some ?row"
  proof -
    have "manifestsById src (prj_manifestId prj) = None"
      using tables(3) by (auto simp: manifestsById_def find_None_iff)
    then show ?thesis
      using archive by (simp add: manifestsById_def tables(1) find_append header advanced_header_def
          row_fields)
  qed
  show ?thesis
    unfolding auditChain_Inr
  proof (intro exI conjI)
    show "archiveBoundaryEvidenceFromRecord (arc_boundary (src_archive src')) = Inr (Some boundary)"
      using old(1) extended by (simp add: extends_source_def)
    show "manifestsById src' (currentManifestId (src_header src')) = Some ?row"
      using found by (simp add: header advanced_header_def)
    show "audit_walk sha256 src' boundary (nat (currentManifestRevision (src_header src'))) []
        (Some ?row) = Inr ((current, ?row, ?read) # ts)"
    proof -
      have "nat (currentManifestRevision (src_header src')) = Suc (Suc n)"
        using m(1) by (simp add: header advanced_header_def)
      with walk show ?thesis by metis
    qed
  qed (use old(2,3,6) extended transition m(1) in
      \<open>auto simp: extends_source_def header advanced_header_def row_fields
        header_differs_from_archive_def\<close>)
qed

lemma catalog_source_Some:
  "catalog_source c a = Some src \<longleftrightarrow>
     find (\<lambda>h. header_originalDiscArchiveId h = a) (cat_headers c) = Some (src_header src)
     \<and> find (\<lambda>x. arc_id x = a) (cat_archives c) = Some (src_archive src)
     \<and> src_manifests src = cat_manifests c \<and> src_reads src = cat_reads c"
  by (cases src) (auto simp: catalog_source_def split: option.splits)

lemma chain_audited_iff:
  "chain_audited sha256 c a \<longleftrightarrow>
     (\<exists>src. catalog_source c a = Some src \<and> auditDvdArchiveEvidenceChain sha256 src = Inr ())"
  by (simp add: chain_audited_def split: option.split)

lemma projection_keeps_audited:
  assumes projected: "projectDvdRecoveryCheckpoint sha256 prj now c = Inr c'"
    and audited: "chain_audited sha256 c a"
  shows "chain_audited sha256 c' a"
proof -
  let ?a = "originalDiscArchiveId (prj_manifest prj)"
  from projected obtain cur where
    digests: "createDvdArchiveRecoveryReadEvidenceDigest sha256 (prj_read prj) = Inr (prj_evidenceDigest prj)"
      "createDvdArchiveEvidenceManifestDigests sha256 (prj_manifest prj) = Inr (prj_digests prj)"
    and matches: "\<not> projection_mismatch prj"
    and cur: "projection_current c ?a = Inr cur"
    and step: "if already_projected cur prj then c' = c
       else projection_guards cur prj = Inr ()
         \<and> (\<exists>sourceRange. source_range_of cur prj = Some sourceRange
            \<and> write_projection prj cur sourceRange (projection_timestamp cur now) c = Inr c')"
    unfolding projection_Inr by blast
  show ?thesis
  proof (cases "already_projected cur prj")
    case True
    with step audited show ?thesis by simp
  next
    case False
    define timestamp where "timestamp = projection_timestamp cur now"
    from False step obtain sourceRange where guards: "projection_guards cur prj = Inr ()"
      and wrote: "write_projection prj cur sourceRange timestamp c = Inr c'"
      by (auto simp: timestamp_def)
    from wrote obtain status Q f where
      tables: "cat_manifests c' = cat_manifests c @ [projected_manifest_row prj]"
        "\<forall>q \<in> set (cat_manifests c). row_id q \<noteq> prj_manifestId prj"
        "cat_reads c' = cat_reads c @ [projected_read_row prj sourceRange]"
        "\<forall>q \<in> set (cat_reads c). read_id q \<noteq> prj_readId prj"
        "cat_headers c' = cat_headers (update_header prj timestamp c)"
        "cat_archives c' = cat_archives (update_archive prj timestamp c)"
      by (rule write_projection_tables) blast
    from audited obtain src where src: "catalog_source c a = Some src"
      and ok: "auditDvdArchiveEvidenceChain sha256 src = Inr ()"
      unfolding chain_audited_iff by blast
    note src' = src [unfolded catalog_source_Some]
    show ?thesis
    proof (cases "a = ?a")
      case True
      note base = cur [unfolded projection_current_Inr] and g = guards [unfolded projection_guards_Inr]
      from guards cur wrote obtain cur' where cur':
        "projection_current c' ?a = Inr cur'"
        "cur_header cur' = advanced_header prj timestamp (cur_header cur)"
        "arc_fingerprint (cur_archive cur') = arc_fingerprint (cur_archive cur)"
        "arc_sizeBytes (cur_archive cur') = arc_sizeBytes (cur_archive cur)"
        "arc_boundary (cur_archive cur') = arc_boundary (cur_archive cur)"
        by (metis write_projection_current)
      have same: "src_header src = cur_header cur" "src_archive src = cur_archive cur"
        using src' base True by simp_all
      let ?new = "\<lparr>src_header = cur_header cur', src_archive = cur_archive cur',
        src_manifests = cat_manifests c', src_reads = cat_reads c'\<rparr>"
      have "catalog_source c' a = Some ?new"
        using cur'(1) True by (simp add: catalog_source_Some projection_current_Inr)
      moreover have archive: "header_originalDiscArchiveId (src_header src) = ?a"
        using src' True by (auto simp: find_Some_iff)
      moreover have current: "manifestsById src (currentManifestId (src_header src)) = Some (cur_manifest cur)"
      proof -
        from ok obtain row where row: "manifestsById src (currentManifestId (src_header src)) = Some row"
          unfolding auditChain_Inr by blast
        have found: "find (\<lambda>m. row_id m = currentManifestId (cur_header cur)) (cat_manifests c)
            = Some (cur_manifest cur)"
          and own: "row_originalDiscArchiveId (cur_manifest cur) = ?a" using base g by auto
        have "find (\<lambda>m. P m \<and> R m) rows = Some x" if "find P rows = Some x" and "R x"
          for P R :: "manifest_row \<Rightarrow> bool" and rows x
          using that by (induction rows) (auto split: if_splits)
        from this [OF found, of "\<lambda>m. row_originalDiscArchiveId m = ?a"] own show ?thesis
          using src' same archive by (simp add: manifestsById_def)
      qed
      moreover have "auditDvdArchiveEvidenceChain sha256 ?new = Inr ()"
      proof (rule audit_of_projected_manifest [OF ok, where prj = prj and sourceRange = sourceRange
            and timestamp = timestamp and current = "cur_manifest cur"])
        show "extends_source ?new src"
          using cur' tables same src' by (auto simp: extends_source_def advanced_header_def)
      qed (use tables cur' same src' archive digests matches current g in simp_all)
      ultimately show ?thesis unfolding chain_audited_iff by blast
    next
      case False
      have header: "find (\<lambda>h. header_originalDiscArchiveId h = a) (cat_headers c') = Some (src_header src)"
      proof -
        from src' have "header_originalDiscArchiveId (src_header src) = a"
          by (auto simp: find_Some_iff)
        with src' False show ?thesis
          by (simp add: tables(5) update_header_def find_update_where)
      qed
      have archive: "find (\<lambda>x. arc_id x = a) (cat_archives c') = Some (src_archive src)"
      proof -
        from src' have "arc_id (src_archive src) = a" by (auto simp: find_Some_iff)
        with src' False show ?thesis
          by (simp add: tables(6) update_archive_def Let_def find_update_where)
      qed
      let ?new = "src\<lparr>src_manifests := cat_manifests c', src_reads := cat_reads c'\<rparr>"
      have "catalog_source c' a = Some ?new"
        using header archive by (simp add: catalog_source_Some)
      moreover have "auditDvdArchiveEvidenceChain sha256 ?new = Inr ()"
        using tables src' by (intro audit_of_other_archive [OF ok]) (auto simp: extends_source_def)
      ultimately show ?thesis unfolding chain_audited_iff by blast
    qed
  qed
qed

section \<open>Properties\<close>

text \<open>
  C1: Projecting a checkpoint keeps every audited chain audited: that of the archive it is
  about, one manifest longer, and those of all others, whatever claim or clock it runs with.
\<close>

theorem projection_keeps_chains_audited:
  assumes "projectDvdRecoveryCheckpoint sha256 prj now c = Inr c'"
    and "chain_audited sha256 c archiveId"
  shows "chain_audited sha256 c' archiveId"
  using assms by (rule projection_keeps_audited)

text \<open>A hash that tells the revisions of two manifests apart, and nothing else.\<close>

definition example_hash :: "string \<Rightarrow> string" where
  "example_hash s =
     replicate 63 CHR ''a'' @ (if take 1 (drop 46 s) = ''2'' then ''b'' else ''a'')"

definition example_digests :: "manifest_digest_input \<Rightarrow> manifest_digests" where
  "example_digests m =
     \<lparr>unrecoveredSourceRangesDigest = example_hash (ranges_text (unrecoveredSourceRanges m)),
      manifestDigest = example_hash (manifest_text example_hash m)\<rparr>"

definition example_boundary_digest :: string where
  "example_boundary_digest =
     (case createDvdArchiveBoundaryEvidenceDigest example_hash example_boundary of
        Inl _ \<Rightarrow> '''' | Inr d \<Rightarrow> d)"

definition example_initial :: manifest_digest_input where
  "example_initial =
     \<lparr>originalDiscArchiveId = ''a'', revision = 1, previousManifestId = None,
      previousManifestDigest = None, recoveryReadId = None, recoveryReadEvidenceDigest = None,
      evidenceFormat = ''dvd-recovery-evidence-v1'', imageFingerprint = ''disc'',
      sectorSizeBytes = 2048, acceptedEndLbaExclusive = 100,
      manifestBoundaryPolicyVersion = ''dvd-archive-boundary-v2'',
      manifestBoundaryReportedSizeBytes = 204800, manifestBoundaryPublishedSizeBytes = 204800,
      boundaryEvidenceDigest = example_boundary_digest,
      unrecoveredSourceRanges = [example_range 10 1]\<rparr>"

definition example_read :: recovery_read_evidence where
  "example_read =
     \<lparr>read_originalDiscArchiveId = ''a'', fromManifestId = ''a:initial'', fromManifestRevision = 1,
      read_startLba = 10, read_sectorCount = 1, read_outcome = ''recovered'',
      verificationId = None, discConfirmationId = None\<rparr>"

definition example_read_digest :: string where
  "example_read_digest =
     (case createDvdArchiveRecoveryReadEvidenceDigest example_hash example_read of
        Inl _ \<Rightarrow> '''' | Inr d \<Rightarrow> d)"

definition example_projection :: "string \<Rightarrow> checkpoint_projection" where
  "example_projection k =
     (let m = example_initial\<lparr>revision := 2, previousManifestId := Some ''a:initial'',
            previousManifestDigest := Some (manifestDigest (example_digests example_initial)),
            recoveryReadId := Some ''read'', recoveryReadEvidenceDigest := Some example_read_digest,
            unrecoveredSourceRanges := []\<rparr> in
      \<lparr>prj_claim = None, prj_read = example_read, prj_readId = ''read'',
       prj_evidenceDigest = example_read_digest, prj_manifest = m, prj_manifestId = k,
       prj_digests = example_digests m\<rparr>)"

definition example_initial_row :: manifest_row where
  "example_initial_row =
     \<lparr>row_id = ''a:initial'', row_originalDiscArchiveId = ''a'', row_revision = 1,
      row_previousManifestId = None, row_recoveryReadId = None,
      row_evidenceFormat = ''dvd-recovery-evidence-v1'', row_imageFingerprint = ''disc'',
      row_sectorSizeBytes = 2048, row_acceptedEndLbaExclusive = 100,
      row_boundaryPolicyVersion = ''dvd-archive-boundary-v2'',
      row_boundaryReportedSizeBytes = 204800, row_boundaryPublishedSizeBytes = 204800,
      row_boundaryEvidenceDigest = example_boundary_digest,
      row_unrecoveredSourceRanges = [example_range 10 1],
      row_unrecoveredSourceRangesDigest = unrecoveredSourceRangesDigest (example_digests example_initial),
      row_manifestDigest = manifestDigest (example_digests example_initial)\<rparr>"

definition example_catalog :: recovery_catalog where
  "example_catalog =
     \<lparr>cat_headers =
        [(src_header (example_source 0 []))
           \<lparr>header_boundaryEvidenceDigest := example_boundary_digest,
            currentManifestId := ''a:initial'', currentManifestRevision := 1,
            currentManifestDigest := manifestDigest (example_digests example_initial)\<rparr>],
      cat_archives =
        [(src_archive (example_source 0 []))\<lparr>arc_integrityEvidenceRevision := Some 1\<rparr>],
      cat_manifests = [example_initial_row], cat_reads = [],
      cat_recoveries =
        [\<lparr>rec_id = ''r'', rec_originalDiscArchiveId = ''a'', rec_attemptId = ''t'',
          rec_status = Eligible, rec_pauseReason = None, rec_updatedAt = 0\<rparr>],
      cat_work = [], cat_verifications = [], cat_confirmations = [], cat_completed_outcomes = []\<rparr>"

lemma example_audited: "chain_audited example_hash example_catalog ''a''"
  by code_simp

lemma example_projected:
  "is_ok (projectDvdRecoveryCheckpoint example_hash (example_projection ''a:recovery:2'') 5 example_catalog)"
  by code_simp

theorem projection_keeps_chains_audited_witness:
  "\<exists>c'. projectDvdRecoveryCheckpoint example_hash (example_projection ''a:recovery:2'') 5 example_catalog
       = Inr c' \<and> chain_audited example_hash c' ''a''"
proof -
  from example_projected obtain c' where "projectDvdRecoveryCheckpoint example_hash
      (example_projection ''a:recovery:2'') 5 example_catalog = Inr c'"
    unfolding is_ok_iff by blast
  with projection_keeps_chains_audited [OF this example_audited] show ?thesis by blast
qed

text \<open>
  C23: Projecting is idempotent.  A worker that repeats a projection after losing the answer,
  or a reconciliation that finds it done, gets the same catalog, at any later time.
\<close>

theorem projection_is_idempotent:
  assumes "projectDvdRecoveryCheckpoint sha256 prj now c = Inr c'"
  shows "projectDvdRecoveryCheckpoint sha256 prj later c' = Inr c'"
  using assms by (rule projection_repeated)

theorem projection_is_idempotent_witness:
  "\<exists>c'. projectDvdRecoveryCheckpoint example_hash (example_projection ''a:recovery:2'') 5 example_catalog
       = Inr c'
     \<and> projectDvdRecoveryCheckpoint example_hash (example_projection ''a:recovery:2'') 9 c' = Inr c'"
proof -
  from example_projected obtain c' where "projectDvdRecoveryCheckpoint example_hash
      (example_projection ''a:recovery:2'') 5 example_catalog = Inr c'"
    unfolding is_ok_iff by blast
  with projection_is_idempotent [OF this, of 9] show ?thesis by blast
qed

lemma projected_header:
  assumes "projectDvdRecoveryCheckpoint sha256 prj now c = Inr c'"
  shows "\<exists>cur. projection_current c' (originalDiscArchiveId (prj_manifest prj)) = Inr cur
    \<and> already_projected cur prj"
proof -
  from projection_repeated [OF assms, of now] obtain cur where
    cur: "projection_current c' (originalDiscArchiveId (prj_manifest prj)) = Inr cur"
    and step: "if already_projected cur prj then c' = c'
       else projection_guards cur prj = Inr ()
         \<and> (\<exists>sourceRange. source_range_of cur prj = Some sourceRange
            \<and> write_projection prj cur sourceRange (projection_timestamp cur now) c' = Inr c')"
    unfolding projection_Inr by blast
  have "already_projected cur prj"
  proof (rule ccontr)
    assume "\<not> already_projected cur prj"
    with step obtain sourceRange where
      "write_projection prj cur sourceRange (projection_timestamp cur now) c' = Inr c'" by auto
    then have "cat_manifests c' = cat_manifests c' @ [projected_manifest_row prj]"
      by (rule write_projection_tables) blast
    then show False by simp
  qed
  with cur show ?thesis by blast
qed

text \<open>
  C22: No lost update.  Once a projection from some revision of an archive is in the catalog, a
  different one from the same revision is refused, whoever held the claim.
\<close>

theorem conflicting_projection_refused:
  assumes "projectDvdRecoveryCheckpoint sha256 prj now c = Inr c'"
    and "originalDiscArchiveId (prj_manifest other) = originalDiscArchiveId (prj_manifest prj)"
    and "fromManifestRevision (prj_read other) = fromManifestRevision (prj_read prj)"
    and "prj_manifestId other \<noteq> prj_manifestId prj
      \<or> manifestDigest (prj_digests other) \<noteq> manifestDigest (prj_digests prj)"
  shows "\<exists>e. projectDvdRecoveryCheckpoint sha256 other later c' = Inl e"
proof (cases "projectDvdRecoveryCheckpoint sha256 other later c'")
  case (Inr c2)
  from projected_header [OF assms(1)] obtain cur where
    cur: "projection_current c' (originalDiscArchiveId (prj_manifest prj)) = Inr cur"
    and done_cur: "already_projected cur prj" by blast
  from assms(1) have "\<not> projection_mismatch prj" by (simp add: projection_Inr)
  then have rev: "currentManifestRevision (cur_header cur) = fromManifestRevision (prj_read prj) + 1"
    using done_cur by (simp add: projection_mismatch_def already_projected_def Let_def)
  from Inr cur assms(2,4) done_cur have "projection_guards cur other = Inr ()"
    by (auto simp: projection_Inr already_projected_def)
  with rev assms(3) show ?thesis by (simp add: projection_guards_Inr)
qed blast

theorem conflicting_projection_refused_witness:
  "\<exists>c' e. projectDvdRecoveryCheckpoint example_hash (example_projection ''a:recovery:2'') 5
        example_catalog = Inr c'
     \<and> projectDvdRecoveryCheckpoint example_hash (example_projection ''other'') 9 c' = Inl e"
proof -
  from example_projected obtain c' where c': "projectDvdRecoveryCheckpoint example_hash
      (example_projection ''a:recovery:2'') 5 example_catalog = Inr c'"
    unfolding is_ok_iff by blast
  have "\<exists>e. projectDvdRecoveryCheckpoint example_hash (example_projection ''other'') 9 c' = Inl e"
    by (rule conflicting_projection_refused [OF c'])
      (simp_all add: example_projection_def Let_def)
  with c' show ?thesis by blast
qed

lemma projected_archive:
  assumes "projection_current c (originalDiscArchiveId (prj_manifest prj)) = Inr cur"
    and "write_projection prj cur sourceRange timestamp c = Inr c'"
    and "projection_current c' (originalDiscArchiveId (prj_manifest prj)) = Inr cur'"
  shows "arc_integrityEvidenceRevision (cur_archive cur') = Some (revision (prj_manifest prj))
    \<and> arc_badSectorCount (cur_archive cur') = Some (projected_sector_count prj)
    \<and> arc_integrity (cur_archive cur') =
        (if projected_sector_count prj = 0 then Clean_read else Incomplete_read)"
proof -
  from assms(2) have "cat_archives c' = cat_archives (update_archive prj timestamp c)"
    by (rule write_projection_tables) blast
  moreover have "arc_id (cur_archive cur) = originalDiscArchiveId (prj_manifest prj)"
    using assms(1) by (auto simp: projection_current_Inr find_Some_iff)
  ultimately show ?thesis
    using assms(1,3)
    by (auto simp: projection_current_Inr update_archive_def Let_def find_update_where
        dest!: sym [of _ "cur_archive cur'"])
qed

lemma audited_current_canonical:
  assumes "chain_audited sha256 c a" and "projection_current c a = Inr cur"
    and "row_originalDiscArchiveId (cur_manifest cur) = a"
    and "1 \<le> currentManifestRevision (cur_header cur)"
  shows "canonical (row_unrecoveredSourceRanges (cur_manifest cur))"
proof -
  from assms(1) obtain src where src: "catalog_source c a = Some src"
    and ok: "auditDvdArchiveEvidenceChain sha256 src = Inr ()"
    unfolding chain_audited_iff by blast
  have header: "src_header src = cur_header cur" "src_manifests src = cat_manifests c"
    using src assms(2) by (simp_all add: catalog_source_Some projection_current_Inr)
  have archive: "header_originalDiscArchiveId (src_header src) = a"
    using src by (auto simp: catalog_source_Some find_Some_iff)
  from ok assms(4) header(1) obtain row where row: "manifestsById src (currentManifestId (src_header src)) = Some row"
    and input: "fst (hd (current_history src)) = audited_input src row"
    and history: "chain_history sha256 (current_history src)"
    by (metis audited_history)
  have found: "find (\<lambda>m. row_id m = currentManifestId (cur_header cur)) (cat_manifests c)
      = Some (cur_manifest cur)"
    using assms(2) by (simp add: projection_current_Inr)
  have "find (\<lambda>m. P m \<and> R m) rows = Some x" if "find P rows = Some x" and "R x"
    for P R :: "manifest_row \<Rightarrow> bool" and rows x
    using that by (induction rows) (auto split: if_splits)
  from this [OF found, of "\<lambda>m. row_originalDiscArchiveId m = a"] assms(3) row header archive
  have "row = cur_manifest cur" by (simp add: manifestsById_def)
  with chain_history_head [OF history] input show ?thesis
    by (simp add: admissible_manifest_def audited_input_def manifest_input_def)
qed

text \<open>
  C17: What a projection that writes leaves behind.  The header is one revision further and
  later in time, its map differs in the one sector read, and the archive row states that
  revision with the number of sectors still unrecovered, clean exactly when there is none.
\<close>

theorem projection_advances_one_sector:
  assumes "projectDvdRecoveryCheckpoint sha256 prj now c = Inr c'"
    and "chain_audited sha256 c (originalDiscArchiveId (prj_manifest prj))"
  shows "c' = c \<or> (\<exists>cur cur'. let before = class_at (row_unrecoveredSourceRanges (cur_manifest cur));
        after = class_at (row_unrecoveredSourceRanges (cur_manifest cur'));
        lba = read_startLba (prj_read prj) in
      projection_current c (originalDiscArchiveId (prj_manifest prj)) = Inr cur
      \<and> projection_current c' (originalDiscArchiveId (prj_manifest prj)) = Inr cur'
      \<and> currentManifestRevision (cur_header cur') = currentManifestRevision (cur_header cur) + 1
      \<and> header_updatedAt (cur_header cur) < header_updatedAt (cur_header cur')
      \<and> before lba \<noteq> None
      \<and> after = before(lba := class_after (outcome_of (read_outcome (prj_read prj))))
      \<and> arc_integrityEvidenceRevision (cur_archive cur') = Some (currentManifestRevision (cur_header cur'))
      \<and> arc_badSectorCount (cur_archive cur') = Some (int (card (dom after)))
      \<and> (arc_integrity (cur_archive cur') = Clean_read \<longleftrightarrow> dom after = {}))"
proof -
  let ?a = "originalDiscArchiveId (prj_manifest prj)"
  from assms(1) obtain cur where
    digests: "createDvdArchiveRecoveryReadEvidenceDigest sha256 (prj_read prj) = Inr (prj_evidenceDigest prj)"
      "admissible_manifest (prj_manifest prj)"
    and matches: "\<not> projection_mismatch prj" and cur: "projection_current c ?a = Inr cur"
    and step: "if already_projected cur prj then c' = c
       else projection_guards cur prj = Inr ()
         \<and> (\<exists>sourceRange. source_range_of cur prj = Some sourceRange
            \<and> write_projection prj cur sourceRange (projection_timestamp cur now) c = Inr c')"
    unfolding projection_Inr createManifestDigests_Inr by blast
  show ?thesis
  proof (cases "already_projected cur prj")
    case False
    with step obtain sourceRange where guards: "projection_guards cur prj = Inr ()"
      and wrote: "write_projection prj cur sourceRange (projection_timestamp cur now) c = Inr c'" by auto
    note g = guards [unfolded projection_guards_Inr]
    from cur guards wrote obtain cur' where cur': "projection_current c' ?a = Inr cur'"
      "cur_header cur' = advanced_header prj (projection_timestamp cur now) (cur_header cur)"
      "cur_manifest cur' = projected_manifest_row prj"
      by (metis write_projection_current)
    have rev: "revision (prj_manifest prj) = currentManifestRevision (cur_header cur) + 1"
      using matches g by (simp add: projection_mismatch_def Let_def)
    have "1 \<le> currentManifestRevision (cur_header cur)"
      using digests(1) g by (auto simp: createDvdArchiveRecoveryReadEvidenceDigest_def map_sum_Inr
          recoveryReadPayload_def recovery_read_guards_def result_simps split: option.splits)
    then have canonical: "canonical (row_unrecoveredSourceRanges (cur_manifest cur))"
      using audited_current_canonical [OF assms(2) cur] g by simp
    have new_canonical: "canonical (unrecoveredSourceRanges (prj_manifest prj))"
      using digests(2) by (simp add: admissible_manifest_def)
    have count: "projected_sector_count prj = int (card (dom (class_at (unrecoveredSourceRanges (prj_manifest prj)))))"
      using sectorCount_of_dom [OF new_canonical] by (simp add: projected_sector_count_def)
    have ranges: "row_unrecoveredSourceRanges (cur_manifest cur') = unrecoveredSourceRanges (prj_manifest prj)"
      by (simp add: cur'(3) projected_manifest_row_def Let_def)
    have finite: "finite (dom (class_at (unrecoveredSourceRanges (prj_manifest prj))))"
      by (simp add: dom_class_at)
    show ?thesis
    proof (rule disjI2, rule exI [of _ cur], rule exI [of _ cur'], unfold Let_def ranges, intro conjI)
      show "class_at (row_unrecoveredSourceRanges (cur_manifest cur)) (read_startLba (prj_read prj)) \<noteq> None"
        using evidence.accepts [OF canonical] g by (metis is_ok_iff)
      show "class_at (unrecoveredSourceRanges (prj_manifest prj)) =
          (class_at (row_unrecoveredSourceRanges (cur_manifest cur)))
            (read_startLba (prj_read prj) := class_after (outcome_of (read_outcome (prj_read prj))))"
        using evidence.at_after [OF canonical] g by blast
      show "header_updatedAt (cur_header cur) < header_updatedAt (cur_header cur')"
        by (simp add: cur'(2) advanced_header_def projection_timestamp_def)
      show "arc_integrity (cur_archive cur') = Clean_read \<longleftrightarrow>
          dom (class_at (unrecoveredSourceRanges (prj_manifest prj))) = {}"
        using projected_archive [OF cur wrote cur'(1)] count finite by simp
    qed (use cur cur' rev count projected_archive [OF cur wrote cur'(1)] in
        \<open>simp_all add: advanced_header_def\<close>)
  qed (use step in simp)
qed

lemma example_advanced:
  "case projectDvdRecoveryCheckpoint example_hash (example_projection ''a:recovery:2'') 5 example_catalog of
     Inl _ \<Rightarrow> False
   | Inr c' \<Rightarrow> cat_reads c' \<noteq> []"
  by code_simp

theorem projection_advances_one_sector_witness:
  "\<exists>c' cur'. projectDvdRecoveryCheckpoint example_hash (example_projection ''a:recovery:2'') 5
        example_catalog = Inr c'
     \<and> projection_current c' ''a'' = Inr cur' \<and> arc_integrity (cur_archive cur') = Clean_read"
proof -
  let ?prj = "example_projection ''a:recovery:2''"
  from example_projected obtain c' where
    c': "projectDvdRecoveryCheckpoint example_hash ?prj 5 example_catalog = Inr c'"
    unfolding is_ok_iff by blast
  have prj: "originalDiscArchiveId (prj_manifest ?prj) = ''a''" "prj_read ?prj = example_read"
    by (simp_all add: example_projection_def example_initial_def Let_def)
  have "c' \<noteq> example_catalog" using example_advanced c' by (auto simp: example_catalog_def)
  with projection_advances_one_sector [OF c', unfolded prj, OF example_audited]
  obtain cur cur' where advanced: "projection_current example_catalog ''a'' = Inr cur"
    "projection_current c' ''a'' = Inr cur'"
    "class_at (row_unrecoveredSourceRanges (cur_manifest cur')) =
      (class_at (row_unrecoveredSourceRanges (cur_manifest cur)))
        (read_startLba example_read := class_after (outcome_of (read_outcome example_read)))"
    "arc_integrity (cur_archive cur') = Clean_read \<longleftrightarrow>
      dom (class_at (row_unrecoveredSourceRanges (cur_manifest cur'))) = {}"
    unfolding Let_def by blast
  have "read_startLba example_read = 10" "class_after (outcome_of (read_outcome example_read)) = None"
    by (simp_all add: example_read_def outcome_of_def class_after_def)
  moreover have "cur_manifest cur = example_initial_row"
  proof -
    have "find (\<lambda>m. row_id m = currentManifestId (cur_header cur)) [example_initial_row]
        = Some (cur_manifest cur)"
      using advanced(1) by (simp add: projection_current_Inr example_catalog_def)
    then show ?thesis by (simp split: if_splits)
  qed
  ultimately have "dom (class_at (row_unrecoveredSourceRanges (cur_manifest cur'))) = {}"
    unfolding advanced(3)
    by (auto simp: example_initial_row_def example_range_def class_at_def split: if_splits)
  with advanced c' show ?thesis by blast
qed

end
