(* ===== verification/TitleTiming.thy ===== *)
theory TitleTiming
  imports EvidenceDigests "HOL-Library.AList"
begin

text \<open>
  The evidence that places unrecovered source in the playback of a title, and the playback it is
  estimated to affect: the timing part of
  \<open>packages/data-access/src/dvd-title-damage-assessment.ts\<close>.  Fields that the code tests with
  \<open>Array.isArray\<close> are lists here.  A \<open>Map\<close> built from key-value pairs keeps the place of the
  first value of a key and the contents of the last, as \<open>AList.update\<close> does.
\<close>

section \<open>Data\<close>

record unknown_reason =
  reason_code :: string
  reason_message :: string

datatype timing_coverage = Source_span | Whole_cell | Other_coverage string

record timing_span =
  span_sourceRange :: unreadable_sector_range
  startMilliseconds :: int
  endMilliseconds :: int
  timingMethod :: string
  span_coverage :: timing_coverage

record timing_occurrence =
  playbackOccurrence :: int
  occurrence_spans :: "timing_span list"
  occurrence_unknownReasons :: "unknown_reason list"

record timing_evidence =
  timing_policyVersion :: string
  timing_occurrences :: "timing_occurrence list"

record affected_interval =
  iv_playbackOccurrence :: int
  iv_startMilliseconds :: int
  iv_endMilliseconds :: int
  iv_timingMethods :: "string list"
  iv_coverage :: timing_coverage
  iv_sourceRanges :: "dvd_unrecovered_source_range list"

record unknown_coverage =
  uc_playbackOccurrence :: int
  uc_unrecoveredSourceSectorCount :: int
  uc_unrecoveredSourceRanges :: "dvd_unrecovered_source_range list"
  uc_reasons :: "unknown_reason list"

record affected_playback =
  ap_policyVersion :: string
  ap_intervals :: "affected_interval list"
  ap_unknownCoverage :: "unknown_coverage list"

definition dvd_title_damage_timing_policy_version :: string where
  "dvd_title_damage_timing_policy_version = ''dvd-title-damage-timing-v1''"

section \<open>Reasons\<close>

definition upper_case :: "char \<Rightarrow> bool" where
  "upper_case c \<longleftrightarrow> c \<in> set ''ABCDEFGHIJKLMNOPQRSTUVWXYZ''"

definition lower_case :: "char \<Rightarrow> bool" where
  "lower_case c \<longleftrightarrow> c \<in> set ''abcdefghijklmnopqrstuvwxyz''"

definition is_reason_code :: "string \<Rightarrow> bool" where
  "is_reason_code s \<longleftrightarrow>
     (case s of [] \<Rightarrow> False
      | c # cs \<Rightarrow> upper_case c \<and> length cs \<le> 127
          \<and> list_all (\<lambda>d. upper_case d \<or> is_digit d \<or> d = CHR ''_'') cs)"

text \<open>\<open>[...new Map(xs.map((x) => [key(x), x])).values()]\<close>\<close>

definition map_values :: "('a \<Rightarrow> 'k) \<Rightarrow> 'a list \<Rightarrow> 'a list" where
  "map_values key xs = map snd (foldl (\<lambda>entries x. AList.update (key x) x entries) [] xs)"

definition normalizedReason :: "unknown_reason \<Rightarrow> unknown_reason result" where
  "normalizedReason reason =
     (if \<not> is_reason_code (reason_code reason) \<or> \<not> boundedText (reason_message reason) 512
      then Inl (TypeError ''Invalid DVD title source coverage reason'')
      else Inr \<lparr>reason_code = reason_code reason, reason_message = reason_message reason\<rparr>)"

definition validateUnknownReasons :: "unknown_reason list \<Rightarrow> unknown_reason list result" where
  "validateUnknownReasons reasons =
     map_sum id
       (\<lambda>normalized. sort_key (\<lambda>r. (reason_code r, reason_message r))
         (map_values (\<lambda>r. reason_code r @ CHR 0x00 # reason_message r) normalized))
       (map_result normalizedReason reasons)"

section \<open>Unrecovered source\<close>

fun validate_unrecovered_from ::
  "int \<Rightarrow> int \<Rightarrow> dvd_unrecovered_source_range list \<Rightarrow> dvd_unrecovered_source_range list result" where
  "validate_unrecovered_from acceptedEnd previousEnd [] = Inr []"
| "validate_unrecovered_from acceptedEnd previousEnd (r # ranges) =
     (if classification r \<noteq> Skipped_untested \<and> classification r \<noteq> Individually_failed
      then Inl (TypeError ''Invalid Unrecovered Source classification'')
      else case normalizeRanges [r] acceptedEnd ''Unrecovered Source range'' of
        Inl e \<Rightarrow> Inl e
      | Inr normalizedRanges \<Rightarrow>
          (let normalized = hd normalizedRanges in
           if startLba normalized \<le> previousEnd
           then Inl (TypeError ''Unrecovered Source ranges must be normalized'')
           else map_sum id
             (Cons \<lparr>startLba = startLba normalized, sectorCount = sectorCount normalized,
                    classification = classification r\<rparr>)
             (validate_unrecovered_from acceptedEnd
               (startLba normalized + sectorCount normalized - 1) ranges)))"

definition validateUnrecoveredRanges ::
  "dvd_unrecovered_source_range list \<Rightarrow> int \<Rightarrow> dvd_unrecovered_source_range list result" where
  "validateUnrecoveredRanges ranges acceptedEnd = validate_unrecovered_from acceptedEnd (-1) ranges"

definition source_joins :: "dvd_unrecovered_source_range \<Rightarrow> dvd_unrecovered_source_range \<Rightarrow> bool" where
  "source_joins previous r \<longleftrightarrow>
     \<not> (classification previous \<noteq> classification r
        \<or> startLba r > startLba previous + sectorCount previous)"

definition source_join ::
  "dvd_unrecovered_source_range \<Rightarrow> dvd_unrecovered_source_range \<Rightarrow> dvd_unrecovered_source_range" where
  "source_join previous r =
     previous\<lparr>sectorCount :=
       max (startLba previous + sectorCount previous) (startLba r + sectorCount r)
         - startLba previous\<rparr>"

definition normalizeUnrecoveredSourceRanges ::
  "dvd_unrecovered_source_range list \<Rightarrow> dvd_unrecovered_source_range list" where
  "normalizeUnrecoveredSourceRanges ranges =
     foldl (push_or_merge source_joins source_join) []
       (sort_key (\<lambda>r. (startLba r, sectorCount r, classification_text (classification r))) ranges)"

section \<open>Timing evidence\<close>

definition is_policy_name :: "string \<Rightarrow> bool" where
  "is_policy_name s \<longleftrightarrow>
     (case s of [] \<Rightarrow> False
      | c # cs \<Rightarrow> (lower_case c \<or> is_digit c) \<and> length cs \<le> 127
          \<and> list_all (\<lambda>d. lower_case d \<or> is_digit d \<or> d \<in> set ''._-'') cs)"

definition normalizeTimingSpan ::
  "unreadable_sector_range list \<Rightarrow> int \<Rightarrow> timing_span \<Rightarrow> timing_span result" where
  "normalizeTimingSpan uniqueSourceRanges acceptedEnd entry =
     (case normalizeRanges [span_sourceRange entry] acceptedEnd ''DVD title timing source range'' of
        Inl e \<Rightarrow> Inl e
      | Inr normalizedRanges \<Rightarrow>
          (let sourceRange = hd normalizedRanges in
           if length (subtractRanges [sourceRange] uniqueSourceRanges) > 0
           then Inl (TypeError ''DVD title timing evidence falls outside the title source map'')
           else case nonnegativeSafeInteger (startMilliseconds entry) ''DVD title timing start'' of
             Inl e \<Rightarrow> Inl e
           | Inr start \<Rightarrow>
               (case positiveSafeInteger (endMilliseconds entry) ''DVD title timing end'' of
                  Inl e \<Rightarrow> Inl e
                | Inr finish \<Rightarrow>
                    if finish \<le> start
                     \<or> \<not> is_policy_name (timingMethod entry)
                     \<or> (span_coverage entry \<noteq> Source_span \<and> span_coverage entry \<noteq> Whole_cell)
                    then Inl (TypeError ''Invalid DVD title timing span'')
                    else Inr \<lparr>span_sourceRange = sourceRange, startMilliseconds = start,
                      endMilliseconds = finish, timingMethod = timingMethod entry,
                      span_coverage = span_coverage entry\<rparr>)))"

fun coverage_text :: "timing_coverage \<Rightarrow> string" where
  "coverage_text Source_span = ''source_span''"
| "coverage_text Whole_cell = ''whole_cell''"
| "coverage_text (Other_coverage s) = s"

definition span_order :: "timing_span \<Rightarrow> int \<times> int \<times> int \<times> int \<times> int \<times> string" where
  "span_order entry =
     (if span_coverage entry = Source_span then 0 else 1,
      startLba (span_sourceRange entry), sectorCount (span_sourceRange entry),
      startMilliseconds entry, endMilliseconds entry, timingMethod entry)"

definition span_json :: "timing_span \<Rightarrow> json_value" where
  "span_json entry = JObject
     [(''sourceRange'', JObject
        [(''startLba'', JInt (startLba (span_sourceRange entry))),
         (''sectorCount'', JInt (sectorCount (span_sourceRange entry)))]),
      (''startMilliseconds'', JInt (startMilliseconds entry)),
      (''endMilliseconds'', JInt (endMilliseconds entry)),
      (''timingMethod'', JString (timingMethod entry)),
      (''coverage'', JString (coverage_text (span_coverage entry)))]"

definition normalizeOccurrence ::
  "unreadable_sector_range list \<Rightarrow> int \<Rightarrow> int list \<Rightarrow> timing_occurrence \<Rightarrow>
     timing_occurrence result" where
  "normalizeOccurrence uniqueSourceRanges acceptedEnd seen occurrence =
     (case positiveSafeInteger (playbackOccurrence occurrence) ''DVD title playback occurrence'' of
        Inl e \<Rightarrow> Inl e
      | Inr n \<Rightarrow>
          if n \<in> set seen
          then Inl (TypeError ''Invalid or repeated DVD title playback occurrence'')
          else (case map_result (normalizeTimingSpan uniqueSourceRanges acceptedEnd)
                  (occurrence_spans occurrence) of
              Inl e \<Rightarrow> Inl e
            | Inr spans \<Rightarrow>
                (case validateUnknownReasons (occurrence_unknownReasons occurrence) of
                   Inl e \<Rightarrow> Inl e
                 | Inr reasons \<Rightarrow> Inr
                     \<lparr>playbackOccurrence = n,
                      occurrence_spans = map_values (\<lambda>entry. canonicalJson (span_json entry))
                        (sort_key span_order spans),
                      occurrence_unknownReasons = reasons\<rparr>)))"

fun normalize_occurrences ::
  "unreadable_sector_range list \<Rightarrow> int \<Rightarrow> int list \<Rightarrow> timing_occurrence list \<Rightarrow>
     timing_occurrence list result" where
  "normalize_occurrences uniqueSourceRanges acceptedEnd seen [] = Inr []"
| "normalize_occurrences uniqueSourceRanges acceptedEnd seen (occurrence # occurrences) =
     (case normalizeOccurrence uniqueSourceRanges acceptedEnd seen occurrence of
        Inl e \<Rightarrow> Inl e
      | Inr normalized \<Rightarrow>
          map_sum id (Cons normalized)
            (normalize_occurrences uniqueSourceRanges acceptedEnd
              (playbackOccurrence normalized # seen) occurrences))"

definition normalizeTimingEvidence ::
  "timing_evidence option \<Rightarrow> unreadable_sector_range list \<Rightarrow> int \<Rightarrow> timing_evidence option result"
where
  "normalizeTimingEvidence evidence uniqueSourceRanges acceptedEnd =
     (case evidence of
        None \<Rightarrow> Inr None
      | Some given \<Rightarrow>
          if timing_policyVersion given \<noteq> dvd_title_damage_timing_policy_version
           \<or> length (timing_occurrences given) = 0
          then Inl (TypeError ''Invalid DVD title timing evidence'')
          else map_sum id
            (\<lambda>occurrences. Some \<lparr>timing_policyVersion = timing_policyVersion given,
               timing_occurrences = sort_key playbackOccurrence occurrences\<rparr>)
            (normalize_occurrences uniqueSourceRanges acceptedEnd [] (timing_occurrences given)))"

section \<open>Affected playback\<close>

definition intervals_join :: "affected_interval \<Rightarrow> affected_interval \<Rightarrow> bool" where
  "intervals_join previous candidate \<longleftrightarrow>
     \<not> (iv_playbackOccurrence previous \<noteq> iv_playbackOccurrence candidate
        \<or> iv_startMilliseconds candidate \<ge> iv_endMilliseconds previous)"

definition join_intervals :: "affected_interval \<Rightarrow> affected_interval \<Rightarrow> affected_interval" where
  "join_intervals previous candidate =
     previous
       \<lparr>iv_endMilliseconds := max (iv_endMilliseconds previous) (iv_endMilliseconds candidate),
        iv_coverage := (if iv_coverage previous = Whole_cell \<or> iv_coverage candidate = Whole_cell
          then Whole_cell else Source_span),
        iv_timingMethods := sort (remdups (iv_timingMethods previous @ iv_timingMethods candidate)),
        iv_sourceRanges := normalizeUnrecoveredSourceRanges
          (iv_sourceRanges previous @ iv_sourceRanges candidate)\<rparr>"

definition mergeAffectedPlaybackIntervals :: "affected_interval list \<Rightarrow> affected_interval list" where
  "mergeAffectedPlaybackIntervals candidates =
     foldl (push_or_merge intervals_join join_intervals) []
       (sort_key (\<lambda>c. (iv_playbackOccurrence c, iv_startMilliseconds c, iv_endMilliseconds c,
          coverage_text (iv_coverage c))) candidates)"

fun place_spans ::
  "int \<Rightarrow> timing_span list \<Rightarrow> dvd_unrecovered_source_range list \<Rightarrow>
     affected_interval list \<times> dvd_unrecovered_source_range list" where
  "place_spans occurrence [] remaining = ([], remaining)"
| "place_spans occurrence (entry # spans) remaining =
     (let matched = intersections [span_sourceRange entry] remaining in
      if length matched = 0 then place_spans occurrence spans remaining
      else
        (let (candidates, rest) =
           place_spans occurrence spans (subtractRanges remaining [span_sourceRange entry]) in
         (\<lparr>iv_playbackOccurrence = occurrence,
           iv_startMilliseconds = startMilliseconds entry,
           iv_endMilliseconds = endMilliseconds entry,
           iv_timingMethods = [timingMethod entry],
           iv_coverage = span_coverage entry,
           iv_sourceRanges = matched\<rparr> # candidates, rest)))"

fun place_occurrences ::
  "dvd_unrecovered_source_range list \<Rightarrow> timing_occurrence list \<Rightarrow>
     (affected_interval list \<times> unknown_coverage list) result" where
  "place_occurrences known [] = Inr ([], [])"
| "place_occurrences known (occurrence # occurrences) =
     (let (candidates, remaining) =
        place_spans (playbackOccurrence occurrence) (occurrence_spans occurrence) known in
      if length remaining > 0 \<and> length (occurrence_unknownReasons occurrence) = 0
      then Inl (TypeError ''Unplaced DVD title damage requires an explicit timing reason'')
      else
        map_sum id
          (\<lambda>(laterCandidates, laterUnknown).
             (candidates @ laterCandidates,
              (if length remaining > 0
               then [\<lparr>uc_playbackOccurrence = playbackOccurrence occurrence,
                 uc_unrecoveredSourceSectorCount = sectorCount_of remaining,
                 uc_unrecoveredSourceRanges = remaining,
                 uc_reasons = occurrence_unknownReasons occurrence\<rparr>]
               else []) @ laterUnknown))
          (place_occurrences known occurrences))"

definition estimateAffectedPlayback ::
  "timing_evidence option \<Rightarrow> dvd_unrecovered_source_range list \<Rightarrow> affected_playback option result" where
  "estimateAffectedPlayback timingEvidence knownUnrecoveredSourceRanges =
     (case timingEvidence of
        None \<Rightarrow> Inr None
      | Some evidence \<Rightarrow>
          map_sum id
            (\<lambda>(candidates, unknownCoverage). Some
               \<lparr>ap_policyVersion = timing_policyVersion evidence,
                ap_intervals = mergeAffectedPlaybackIntervals candidates,
                ap_unknownCoverage = unknownCoverage\<rparr>)
            (place_occurrences knownUnrecoveredSourceRanges (timing_occurrences evidence)))"

section \<open>Lemmas: Map values\<close>

lemma update_fst: "set (map fst (AList.update k v al)) = insert k (set (map fst al))"
  by (induction al) auto

lemma update_entries: "set (AList.update k v al) \<subseteq> insert (k, v) (set al)"
  by (induction al) auto

lemma map_values_subset: "set (map_values key xs) \<subseteq> set xs"
proof -
  have "set (foldl (\<lambda>e x. AList.update (key x) x e) al xs) \<subseteq> set al \<union> (\<lambda>x. (key x, x)) ` set xs" for al
  proof (induction xs arbitrary: al)
    case (Cons x xs)
    have "set (foldl (\<lambda>e x. AList.update (key x) x e) (AList.update (key x) x al) xs)
        \<subseteq> set (AList.update (key x) x al) \<union> (\<lambda>x. (key x, x)) ` set xs" by (rule Cons)
    with update_entries [of "key x" x al] show ?case by auto
  qed simp
  from this [of "[]"] show ?thesis by (force simp: map_values_def)
qed

text \<open>With a key that tells the elements apart, the values are the distinct elements in order.\<close>

lemma update_keyed:
  assumes "inj_on key (insert x (set ys))"
  shows "AList.update (key x) x (map (\<lambda>y. (key y, y)) ys)
    = map (\<lambda>y. (key y, y)) (if x \<in> set ys then ys else ys @ [x])"
  using assms
proof (induction ys)
  case (Cons y ys)
  then have ih: "AList.update (key x) x (map (\<lambda>y. (key y, y)) ys)
      = map (\<lambda>y. (key y, y)) (if x \<in> set ys then ys else ys @ [x])"
    by (intro Cons.IH) (auto intro: inj_on_subset)
  have "key x = key y \<longleftrightarrow> x = y" using Cons.prems by (rule inj_on_eq_iff) simp_all
  with ih show ?case by auto
qed simp

lemma foldl_update_keyed:
  assumes "inj_on key (set ys \<union> set xs)"
  shows "foldl (\<lambda>e x. AList.update (key x) x e) (map (\<lambda>y. (key y, y)) ys) xs
    = map (\<lambda>y. (key y, y)) (foldl (\<lambda>out x. if x \<in> set out then out else out @ [x]) ys xs)"
  using assms
proof (induction xs arbitrary: ys)
  case (Cons x xs)
  have "inj_on key (insert x (set ys))" using Cons.prems by (rule inj_on_subset) auto
  moreover have "inj_on key (set (if x \<in> set ys then ys else ys @ [x]) \<union> set xs)"
    using Cons.prems by (rule inj_on_subset) auto
  ultimately show ?case using Cons.IH by (simp add: update_keyed del: if_image_distrib)
qed simp

lemma map_values_keyed:
  assumes "inj_on key (set xs)"
  shows "map_values key xs = foldl (\<lambda>out x. if x \<in> set out then out else out @ [x]) [] xs"
  using foldl_update_keyed [of key "[]" xs] assms by (simp add: map_values_def comp_def)

lemma push_new_facts:
  "set (foldl (\<lambda>out x. if x \<in> set out then out else out @ [x]) ys xs) = set ys \<union> set xs"
  "distinct ys \<Longrightarrow> distinct (foldl (\<lambda>out x. if x \<in> set out then out else out @ [x]) ys xs)"
  "distinct (ys @ xs) \<Longrightarrow> foldl (\<lambda>out x. if x \<in> set out then out else out @ [x]) ys xs = ys @ xs"
  by (induction xs arbitrary: ys) auto

lemma push_new_sorted:
  "sorted (map f (ys @ xs)) \<Longrightarrow>
     sorted (map f (foldl (\<lambda>out x. if x \<in> set out then out else out @ [x]) ys xs))"
  by (induction xs arbitrary: ys) (auto simp: sorted_append)

lemma map_values_facts:
  assumes "inj_on key (set xs)"
  shows "set (map_values key xs) = set xs" and "distinct (map_values key xs)"
    and "distinct xs \<Longrightarrow> map_values key xs = xs"
    and "sorted (map f xs) \<Longrightarrow> sorted (map f (map_values key xs))"
  using map_values_keyed [OF assms] push_new_facts [of "[]" xs] push_new_sorted [of f "[]" xs] by simp_all
section \<open>Lemmas: reasons\<close>

definition valid_reason :: "unknown_reason \<Rightarrow> bool" where
  "valid_reason r \<longleftrightarrow> is_reason_code (reason_code r) \<and> boundedText (reason_message r) 512"

abbreviation "reason_key \<equiv> (\<lambda>r. reason_code r @ CHR 0x00 # reason_message r)"

abbreviation "reason_order \<equiv> (\<lambda>r. (reason_code r, reason_message r))"

lemma nul_free_split:
  "c \<notin> set a \<Longrightarrow> c \<notin> set b \<Longrightarrow> a @ c # x = b @ c # y \<longleftrightarrow> a = b \<and> x = y"
proof (induction a arbitrary: b)
  case Nil
  then show ?case by (cases b) auto
next
  case (Cons d a)
  then show ?case by (cases b) auto
qed

lemma nul_no_code_unit: "\<not> upper_case CHR 0x00" "\<not> is_digit CHR 0x00"
  by (simp_all add: upper_case_def is_digit_def)

lemma reason_code_nul: "is_reason_code s \<Longrightarrow> CHR 0x00 \<notin> set s"
  using nul_no_code_unit by (cases s) (auto simp: is_reason_code_def list_all_iff)

lemma reason_key_inj: "\<forall>r \<in> set rs. valid_reason r \<Longrightarrow> inj_on reason_key (set rs)"
  by (rule inj_onI) (auto simp: valid_reason_def nul_free_split reason_code_nul
      intro!: unknown_reason.equality)

lemma normalizedReason_Inr: "normalizedReason r = Inr q \<longleftrightarrow> q = r \<and> valid_reason r"
  by (auto simp: normalizedReason_def valid_reason_def)

lemma normalizedReasons_Inr:
  "map_result normalizedReason rs = Inr qs \<longleftrightarrow> qs = rs \<and> (\<forall>r \<in> set rs. valid_reason r)"
  unfolding map_result_Inr_iff
  by (induction rs arbitrary: qs) (auto simp: list_all2_Cons1 normalizedReason_Inr)

lemma validateUnknownReasons_Inr:
  "validateUnknownReasons rs = Inr out \<longleftrightarrow>
     (\<forall>r \<in> set rs. valid_reason r) \<and> out = sort_key reason_order (map_values reason_key rs)"
  by (auto simp: validateUnknownReasons_def map_sum_Inr normalizedReasons_Inr)

lemma validateUnknownReasons_facts:
  assumes "validateUnknownReasons rs = Inr out"
  shows "set out = set rs" and "distinct out" and "sorted (map reason_order out)"
    and "\<forall>r \<in> set rs. valid_reason r"
  using assms map_values_facts(1,2) [OF reason_key_inj [of rs]]
  by (simp_all add: validateUnknownReasons_Inr)

lemma sort_key_sorted: "sorted (map f xs) \<Longrightarrow> sort_key f xs = xs"
  by (rule sort_key_id_if_sorted)

lemma validateUnknownReasons_again:
  assumes "validateUnknownReasons rs = Inr out"
  shows "validateUnknownReasons out = Inr out"
proof -
  note facts = validateUnknownReasons_facts [OF assms]
  then have "inj_on reason_key (set out)" by (intro reason_key_inj) simp
  with facts show ?thesis by (simp add: validateUnknownReasons_Inr map_values_facts(3) sort_key_sorted)
qed

section \<open>Lemmas: unrecovered source\<close>

lemma normalizeRanges_single:
  "normalizeRanges [r] n l = map_sum id (\<lambda>q. [q]) (checkedRange n l r)"
  by (simp add: normalizeRanges_def coalesceRanges_def push_or_merge_def split: sum.splits)

definition known_class :: "dvd_unrecovered_source_range \<Rightarrow> bool" where
  "known_class r \<longleftrightarrow> classification r = Skipped_untested \<or> classification r = Individually_failed"

lemma validate_unrecovered_from_Inr:
  "validate_unrecovered_from n p rs = Inr out \<longleftrightarrow>
     out = rs \<and> ascending rs \<and> (\<forall>r \<in> set rs. within_extent n r \<and> known_class r \<and> p < startLba r)"
proof (induction rs arbitrary: p out)
  case (Cons r rs)
  have "validate_unrecovered_from n p (r # rs) = Inr out \<longleftrightarrow>
      known_class r \<and> within_extent n r \<and> p < startLba r
      \<and> (\<exists>rest. validate_unrecovered_from n (rangeEnd r - 1) rs = Inr rest \<and> out = r # rest)"
    by (auto simp: normalizeRanges_single map_sum_Inr bind_error_Inr if_error_Inr checkedRange_Inr
        known_class_def rangeEnd_def Let_def)
  also have "\<dots> \<longleftrightarrow> out = r # rs \<and> ascending (r # rs)
      \<and> (\<forall>q \<in> set (r # rs). within_extent n q \<and> known_class q \<and> p < startLba q)"
    by (auto simp: Cons.IH ascending_Cons within_extent_def proper_range_def rangeEnd_def)
  finally show ?case .
qed auto

lemma validateUnrecoveredRanges_Inr:
  "validateUnrecoveredRanges rs n = Inr out \<longleftrightarrow>
     out = rs \<and> ascending rs \<and> (\<forall>r \<in> set rs. within_extent n r \<and> known_class r)"
  by (auto simp: validateUnrecoveredRanges_def validate_unrecovered_from_Inr within_extent_def
      proper_range_def)

section \<open>Lemmas: disjoint ranges in any order\<close>

definition disjoint_ranges :: "'a unreadable_sector_range_scheme list \<Rightarrow> bool" where
  "disjoint_ranges rs \<longleftrightarrow> (\<forall>r \<in> set rs. proper_range r) \<and> distinct rs
     \<and> (\<forall>r \<in> set rs. \<forall>s \<in> set rs. r \<noteq> s \<longrightarrow> lbas r \<inter> lbas s = {})"

lemma proper_not_empty: "proper_range r \<Longrightarrow> lbas r \<noteq> {}"
  using proper_lbas_nonempty by fastforce

lemma disjoint_ranges_Nil [simp]: "disjoint_ranges []"
  by (simp add: disjoint_ranges_def)

lemma disjoint_ranges_append:
  "disjoint_ranges (rs @ ss) \<longleftrightarrow>
     disjoint_ranges rs \<and> disjoint_ranges ss \<and> covered rs \<inter> covered ss = {}"
proof
  assume all: "disjoint_ranges (rs @ ss)"
  then have "lbas r \<inter> lbas s = {}" if "r \<in> set rs" "s \<in> set ss" for r s
  proof -
    have "r \<noteq> s" using all that by (auto simp: disjoint_ranges_def)
    with all that show ?thesis by (simp add: disjoint_ranges_def)
  qed
  with all show "disjoint_ranges rs \<and> disjoint_ranges ss \<and> covered rs \<inter> covered ss = {}"
    by (auto simp: disjoint_ranges_def covered_def)
next
  assume parts: "disjoint_ranges rs \<and> disjoint_ranges ss \<and> covered rs \<inter> covered ss = {}"
  then have cross: "lbas r \<inter> lbas s = {}" if "r \<in> set rs" "s \<in> set ss" for r s
    using that by (auto simp: covered_def)
  then have "set rs \<inter> set ss = {}"
    using parts proper_not_empty by (fastforce simp: disjoint_ranges_def)
  moreover have "\<forall>r \<in> set rs. \<forall>s \<in> set ss. lbas r \<inter> lbas s = {} \<and> lbas s \<inter> lbas r = {}"
    using cross by (simp add: Int_commute)
  ultimately show "disjoint_ranges (rs @ ss)"
    using parts by (simp add: disjoint_ranges_def ball_Un)
qed

lemma disjoint_ranges_Cons:
  "disjoint_ranges (r # rs) \<longleftrightarrow> proper_range r \<and> disjoint_ranges rs \<and> lbas r \<inter> covered rs = {}"
proof -
  have "disjoint_ranges [r] \<longleftrightarrow> proper_range r" by (simp add: disjoint_ranges_def)
  then show ?thesis using disjoint_ranges_append [of "[r]" rs] by simp
qed

lemma ascending_disjoint: "ascending rs \<Longrightarrow> disjoint_ranges rs"
proof (induction rs)
  case (Cons r rs)
  then show ?case
    using ascending_disjoint_head [OF Cons.prems] by (simp add: disjoint_ranges_Cons ascending_Cons)
qed simp

lemma disjoint_sorted_ascending:
  "disjoint_ranges rs \<Longrightarrow> sorted (map startLba rs) \<Longrightarrow> ascending rs"
proof (induction rs)
  case (Cons r rs)
  have "rangeEnd r \<le> startLba s" if "s \<in> set rs" for s
  proof (rule ccontr)
    assume "\<not> rangeEnd r \<le> startLba s"
    moreover have "proper_range s" using that Cons.prems(1) by (simp add: disjoint_ranges_def)
    ultimately have "startLba s \<in> lbas r \<and> startLba s \<in> lbas s"
      using that Cons.prems(2) by (simp add: mem_lbas proper_range_def rangeEnd_def)
    with that Cons.prems(1) show False by (auto simp: disjoint_ranges_Cons covered_def)
  qed
  with Cons show ?case by (simp add: ascending_Cons disjoint_ranges_Cons)
qed simp

lemma disjoint_ranges_mset: "mset rs = mset ss \<Longrightarrow> disjoint_ranges rs \<longleftrightarrow> disjoint_ranges ss"
  using mset_eq_setD [of rs ss] mset_eq_imp_distinct_iff [of rs ss] by (auto simp: disjoint_ranges_def)

lemma sectorCount_of_mset: "mset rs = mset ss \<Longrightarrow> sectorCount_of rs = sectorCount_of ss"
  by (metis sectorCount_of_sum mset_map sum_mset_sum_list)

lemma disjoint_sectorCount: "disjoint_ranges rs \<Longrightarrow> sectorCount_of rs = int (card (covered rs))"
proof (induction rs)
  case (Cons r rs)
  then show ?case by (simp add: disjoint_ranges_Cons card_Un_disjoint card_lbas)
qed simp

section \<open>Lemmas: normalised source\<close>

abbreviation "source_order \<equiv>
  (\<lambda>r. (startLba r, sectorCount r, classification_text (classification r)))"

lemma merge_sources:
  assumes "ascending (p # rs)"
  shows "ascending (merge_from source_joins source_join p rs)
    \<and> covered (merge_from source_joins source_join p rs) = covered (p # rs)
    \<and> class_at (merge_from source_joins source_join p rs) = class_at (p # rs)
    \<and> (\<forall>q \<in> set (merge_from source_joins source_join p rs). startLba p \<le> startLba q)"
  using assms
proof (induction rs arbitrary: p)
  case Nil
  then show ?case by simp
next
  case (Cons r rs)
  show ?case
  proof (cases "source_joins p r")
    case True
    with Cons.prems have joined: "source_join p r = p\<lparr>sectorCount := sectorCount p + sectorCount r\<rparr>"
      and end_p: "rangeEnd p = startLba r" and same: "classification p = classification r"
      by (auto simp: source_joins_def source_join_def ascending_Cons rangeEnd_def proper_range_def)
    let ?q = "p\<lparr>sectorCount := sectorCount p + sectorCount r\<rparr>"
    have lbas: "lbas ?q = lbas p \<union> lbas r"
      using Cons.prems end_p by (auto simp: mem_lbas rangeEnd_def ascending_Cons proper_range_def)
    moreover have asc: "ascending (?q # rs)"
      using Cons.prems end_p by (auto simp: ascending_Cons rangeEnd_def proper_range_def)
    moreover have "class_at (?q # rs) = class_at (p # r # rs)"
      using lbas same by (auto simp: fun_eq_iff)
    moreover note Cons.IH [OF asc]
    ultimately show ?thesis using True joined by auto
  next
    case False
    have "ascending (r # rs)" using Cons.prems by (simp add: ascending_Cons)
    from Cons.IH [OF this] False Cons.prems show ?thesis
      by (auto simp: ascending_Cons fun_eq_iff proper_range_def rangeEnd_def dest: bspec)
  qed
qed

lemma normalized_sources:
  assumes "disjoint_ranges rs"
  shows "ascending (normalizeUnrecoveredSourceRanges rs)"
    and "covered (normalizeUnrecoveredSourceRanges rs) = covered rs"
    and "sectorCount_of (normalizeUnrecoveredSourceRanges rs) = sectorCount_of rs"
proof -
  let ?ys = "sort_key source_order rs"
  have "disjoint_ranges ?ys" using assms disjoint_ranges_mset [of ?ys rs] by simp
  moreover have "sorted (map startLba ?ys)"
    using sorted_sort_key [of source_order rs]
    by (auto simp: sorted_map less_eq_prod_def elim!: sorted_wrt_mono_rel [rotated])
  ultimately have asc: "ascending ?ys" by (rule disjoint_sorted_ascending)
  have cov: "covered ?ys = covered rs" by (rule covered_set_cong) simp
  have "ascending (normalizeUnrecoveredSourceRanges rs)
      \<and> covered (normalizeUnrecoveredSourceRanges rs) = covered rs"
  proof (cases ?ys)
    case Nil
    with cov show ?thesis by (simp add: normalizeUnrecoveredSourceRanges_def)
  next
    case (Cons p qs)
    with asc cov merge_sources [of p qs] show ?thesis
      by (simp add: normalizeUnrecoveredSourceRanges_def foldl_push_or_merge_Cons del: foldl_Cons)
  qed
  then show "ascending (normalizeUnrecoveredSourceRanges rs)"
    and cov: "covered (normalizeUnrecoveredSourceRanges rs) = covered rs" by simp_all
  then show "sectorCount_of (normalizeUnrecoveredSourceRanges rs) = sectorCount_of rs"
    using assms by (simp add: sectorCount_of_card disjoint_sectorCount)
qed
section \<open>Lemmas: affected playback\<close>

definition sources_of :: "int \<Rightarrow> affected_interval list \<Rightarrow> dvd_unrecovered_source_range list" where
  "sources_of n intervals =
     concat (map iv_sourceRanges (filter (\<lambda>c. iv_playbackOccurrence c = n) intervals))"

definition playback_of :: "int \<Rightarrow> affected_interval list \<Rightarrow> int set" where
  "playback_of n intervals =
     (\<Union>c \<in> {c \<in> set intervals. iv_playbackOccurrence c = n}.
        {iv_startMilliseconds c ..< iv_endMilliseconds c})"

lemma sources_of_simps [simp]:
  "sources_of n [] = []"
  "sources_of n (c # cs) =
     (if iv_playbackOccurrence c = n then iv_sourceRanges c else []) @ sources_of n cs"
  "sources_of n (cs @ ds) = sources_of n cs @ sources_of n ds"
  by (simp_all add: sources_of_def)

lemma playback_of_simps [simp]:
  "playback_of n [] = {}"
  "playback_of n (c # cs) =
     (if iv_playbackOccurrence c = n then {iv_startMilliseconds c ..< iv_endMilliseconds c} else {})
       \<union> playback_of n cs"
  "playback_of n (cs @ ds) = playback_of n cs \<union> playback_of n ds"
  by (auto simp: playback_of_def)

definition proper_interval :: "affected_interval \<Rightarrow> bool" where
  "proper_interval c \<longleftrightarrow> iv_startMilliseconds c < iv_endMilliseconds c"

definition proper_span :: "timing_span \<Rightarrow> bool" where
  "proper_span s \<longleftrightarrow> proper_range (span_sourceRange s) \<and> startMilliseconds s < endMilliseconds s"

lemma place_spans_sources:
  assumes "place_spans n ss rem = (cs, rest)" and "ascending rem" and "\<forall>s \<in> set ss. proper_span s"
  shows "ascending rest \<and> disjoint_ranges (sources_of n cs @ rest)
    \<and> covered (sources_of n cs) \<union> covered rest = covered rem
    \<and> (\<forall>c \<in> set cs. iv_playbackOccurrence c = n \<and> proper_interval c)"
  using assms
proof (induction ss arbitrary: rem cs rest)
  case Nil
  then show ?case by (simp add: ascending_disjoint)
next
  case (Cons s ss)
  let ?matched = "intersections [span_sourceRange s] rem"
  let ?left = "subtractRanges rem [span_sourceRange s]"
  show ?case
  proof (cases "?matched = []")
    case True
    with Cons show ?thesis by simp
  next
    case False
    with Cons.prems(1) obtain ds where ds: "place_spans n ss ?left = (ds, rest)"
      and cs: "cs = \<lparr>iv_playbackOccurrence = n, iv_startMilliseconds = startMilliseconds s,
           iv_endMilliseconds = endMilliseconds s, iv_timingMethods = [timingMethod s],
           iv_coverage = span_coverage s, iv_sourceRanges = ?matched\<rparr> # ds"
      by (auto simp: Let_def split: prod.splits)
    have s: "proper_range (span_sourceRange s)" "proper_interval (hd cs)"
      using Cons.prems(3) cs by (simp_all add: proper_span_def proper_interval_def)
    have left: "ascending ?left"
      using Cons.prems(2) s(1) by (intro ascending_subtractRanges) (simp_all add: proper_range_def)
    have matched: "disjoint_ranges ?matched"
      using Cons.prems(2) s(1) by (intro ascending_disjoint ascending_intersections) (simp_all add: ascending_Cons)
    have cov: "covered ?matched = lbas (span_sourceRange s) \<inter> covered rem"
      "covered ?left = covered rem - lbas (span_sourceRange s)"
      by (simp_all add: covered_intersections covered_subtractRanges)
    from Cons.IH [OF ds left] Cons.prems(3)
    have ih: "ascending rest" "disjoint_ranges (sources_of n ds @ rest)"
      "covered (sources_of n ds) \<union> covered rest = covered ?left"
      "\<forall>c \<in> set ds. iv_playbackOccurrence c = n \<and> proper_interval c" by simp_all
    have "disjoint_ranges (?matched @ sources_of n ds @ rest)"
      using ih matched cov by (subst disjoint_ranges_append) auto
    with ih s cov cs show ?thesis by auto
  qed
qed

abbreviation "interval_order \<equiv>
  (\<lambda>c. (iv_playbackOccurrence c, iv_startMilliseconds c, iv_endMilliseconds c,
     coverage_text (iv_coverage c)))"

definition not_after :: "affected_interval \<Rightarrow> affected_interval \<Rightarrow> bool" where
  "not_after a b \<longleftrightarrow> iv_playbackOccurrence a < iv_playbackOccurrence b
     \<or> iv_playbackOccurrence a = iv_playbackOccurrence b
       \<and> iv_startMilliseconds a \<le> iv_startMilliseconds b"

definition wholly_before :: "affected_interval \<Rightarrow> affected_interval \<Rightarrow> bool" where
  "wholly_before a b \<longleftrightarrow> iv_playbackOccurrence a < iv_playbackOccurrence b
     \<or> iv_playbackOccurrence a = iv_playbackOccurrence b
       \<and> iv_endMilliseconds a \<le> iv_startMilliseconds b"

lemma not_after_trans: "not_after a b \<Longrightarrow> not_after b c \<Longrightarrow> not_after a c"
  by (auto simp: not_after_def)

lemma merge_intervals_order:
  assumes "sorted_wrt not_after (p # cs)" and "\<forall>c \<in> set (p # cs). proper_interval c"
  shows "sorted_wrt wholly_before (merge_from intervals_join join_intervals p cs)
    \<and> (\<forall>c \<in> set (merge_from intervals_join join_intervals p cs). not_after p c \<and> proper_interval c)
    \<and> playback_of n (merge_from intervals_join join_intervals p cs) = playback_of n (p # cs)"
  using assms
proof (induction cs arbitrary: p)
  case Nil
  then show ?case by (simp add: not_after_def)
next
  case (Cons c cs)
  show ?case
  proof (cases "intervals_join p c")
    case True
    let ?q = "join_intervals p c"
    have q: "iv_playbackOccurrence ?q = iv_playbackOccurrence p"
      "iv_startMilliseconds ?q = iv_startMilliseconds p"
      "iv_endMilliseconds ?q = max (iv_endMilliseconds p) (iv_endMilliseconds c)"
      by (simp_all add: join_intervals_def)
    have same: "\<And>d. not_after ?q d = not_after p d" by (simp add: not_after_def q)
    have "sorted_wrt not_after (?q # cs)" and "\<forall>d \<in> set (?q # cs). proper_interval d"
      using Cons.prems q by (auto simp: same proper_interval_def)
    note ih = Cons.IH [OF this]
    have "playback_of n (?q # cs) = playback_of n (p # c # cs)"
      using True Cons.prems q by (auto simp: intervals_join_def not_after_def proper_interval_def)
    with ih True same show ?thesis by simp
  next
    case False
    have "sorted_wrt not_after (c # cs)" and "\<forall>d \<in> set (c # cs). proper_interval d"
      using Cons.prems by simp_all
    note ih = Cons.IH [OF this]
    have "wholly_before p d" if "not_after c d" for d
      using False Cons.prems(1) that by (auto simp: intervals_join_def not_after_def wholly_before_def)
    moreover have "not_after p p" by (simp add: not_after_def)
    moreover have "not_after p c" using Cons.prems(1) by simp
    ultimately show ?thesis
      using False ih Cons.prems(2) by (auto intro: not_after_trans)
  qed
qed

lemma merge_intervals_sources:
  assumes "\<And>n. disjoint_ranges (sources_of n (p # cs))"
  shows "disjoint_ranges (sources_of n (merge_from intervals_join join_intervals p cs))
    \<and> covered (sources_of n (merge_from intervals_join join_intervals p cs))
      = covered (sources_of n (p # cs))"
  using assms
proof (induction cs arbitrary: p)
  case Nil
  then show ?case by simp
next
  case (Cons c cs)
  show ?case
  proof (cases "intervals_join p c")
    case True
    let ?q = "join_intervals p c"
    have occ: "iv_playbackOccurrence c = iv_playbackOccurrence p"
      "iv_playbackOccurrence ?q = iv_playbackOccurrence p"
      using True by (simp_all add: intervals_join_def join_intervals_def)
    let ?srcs = "iv_sourceRanges p @ iv_sourceRanges c"
    have "disjoint_ranges (?srcs @ sources_of (iv_playbackOccurrence p) cs)"
      using Cons.prems [of "iv_playbackOccurrence p"] occ by simp
    then have srcs: "disjoint_ranges ?srcs" by (simp only: disjoint_ranges_append)
    then have norm: "disjoint_ranges (iv_sourceRanges ?q)" "covered (iv_sourceRanges ?q) = covered ?srcs"
      using normalized_sources [OF srcs] by (simp_all add: join_intervals_def ascending_disjoint)
    have step: "disjoint_ranges (sources_of m (?q # cs))
        \<and> covered (sources_of m (?q # cs)) = covered (sources_of m (p # c # cs))" for m
      using Cons.prems [of m] norm occ by (auto simp: disjoint_ranges_append)
    from Cons.IH [of ?q] step True show ?thesis by simp
  next
    case False
    have "\<And>m. disjoint_ranges (sources_of m (c # cs))"
      using Cons.prems by (simp add: disjoint_ranges_append split: if_splits)
    from Cons.IH [OF this] False Cons.prems [of n] show ?thesis
      by (auto simp: disjoint_ranges_append)
  qed
qed
definition span_playback :: "timing_span \<Rightarrow> int set" where
  "span_playback s = {startMilliseconds s ..< endMilliseconds s}"

text \<open>The playback of the spans that touch a set of sectors.\<close>

definition touching :: "timing_span list \<Rightarrow> int set \<Rightarrow> int set" where
  "touching ss sectors =
     (\<Union>s \<in> {s \<in> set ss. lbas (span_sourceRange s) \<inter> sectors \<noteq> {}}. span_playback s)"

lemma touching_simps [simp]:
  "touching [] sectors = {}"
  "touching (s # ss) sectors =
     (if lbas (span_sourceRange s) \<inter> sectors = {} then {} else span_playback s) \<union> touching ss sectors"
  by (auto simp: touching_def)

lemma touching_mono: "A \<subseteq> B \<Longrightarrow> touching ss A \<subseteq> touching ss B"
  by (induction ss) auto

lemma place_spans_exact:
  assumes "place_spans n ss rem = (cs, rest)"
  shows "covered rest = covered rem - covered (map span_sourceRange ss)
    \<and> playback_of n cs \<subseteq> touching ss (covered rem)
    \<and> (\<forall>x \<in> covered rem \<inter> covered (map span_sourceRange ss).
         \<exists>s \<in> set ss. x \<in> lbas (span_sourceRange s) \<and> span_playback s \<subseteq> playback_of n cs)"
  using assms
proof (induction ss arbitrary: rem cs rest)
  case Nil
  then show ?case by simp
next
  case (Cons s ss)
  let ?matched = "intersections [span_sourceRange s] rem"
  let ?left = "subtractRanges rem [span_sourceRange s]"
  have left: "covered ?left = covered rem - lbas (span_sourceRange s)"
    by (simp add: covered_subtractRanges)
  show ?case
  proof (cases "?matched = []")
    case True
    then have "lbas (span_sourceRange s) \<inter> covered rem = {}"
      using covered_intersections [of "[span_sourceRange s]" rem] by simp
    moreover from True Cons.prems have "place_spans n ss rem = (cs, rest)" by simp
    note Cons.IH [OF this]
    ultimately show ?thesis by auto
  next
    case False
    with Cons.prems obtain ds where ds: "place_spans n ss ?left = (ds, rest)"
      and playback: "playback_of n cs = span_playback s \<union> playback_of n ds"
      by (auto simp: Let_def span_playback_def split: prod.splits)
    obtain r where "r \<in> set ?matched" using False by fastforce
    then have "0 < sectorCount r" by (auto simp: intersections_def dest: intersectRange_bounds(5))
    then have "startLba r \<in> covered ?matched"
      using \<open>r \<in> set ?matched\<close> by (auto simp: covered_def mem_lbas rangeEnd_def)
    then have meets: "lbas (span_sourceRange s) \<inter> covered rem \<noteq> {}"
      by (auto simp: covered_intersections)
    note ih = Cons.IH [OF ds, unfolded left]
    have "touching ss (covered rem - lbas (span_sourceRange s)) \<subseteq> touching ss (covered rem)"
      by (rule touching_mono) blast
    with ih meets playback have "playback_of n cs \<subseteq> touching (s # ss) (covered rem)"
      by auto
    moreover have "\<exists>q \<in> set (s # ss). x \<in> lbas (span_sourceRange q)
        \<and> span_playback q \<subseteq> playback_of n cs"
      if "x \<in> covered rem \<inter> covered (map span_sourceRange (s # ss))" for x
    proof (cases "x \<in> lbas (span_sourceRange s)")
      case True
      with playback show ?thesis by auto
    next
      case False
      with that have "x \<in> (covered rem - lbas (span_sourceRange s)) \<inter> covered (map span_sourceRange ss)"
        by auto
      with ih obtain q where "q \<in> set ss" "x \<in> lbas (span_sourceRange q)"
        "span_playback q \<subseteq> playback_of n ds" by blast
      with playback show ?thesis by auto
    qed
    ultimately show ?thesis using ih by auto
  qed
qed

definition unknown_of :: "int \<Rightarrow> unknown_coverage list \<Rightarrow> dvd_unrecovered_source_range list" where
  "unknown_of n us =
     concat (map uc_unrecoveredSourceRanges (filter (\<lambda>u. uc_playbackOccurrence u = n) us))"

lemma unknown_of_simps [simp]:
  "unknown_of n [] = []"
  "unknown_of n (u # us) =
     (if uc_playbackOccurrence u = n then uc_unrecoveredSourceRanges u else []) @ unknown_of n us"
  "unknown_of n (us @ vs) = unknown_of n us @ unknown_of n vs"
  by (simp_all add: unknown_of_def)

definition explained :: "unknown_coverage \<Rightarrow> bool" where
  "explained u \<longleftrightarrow> uc_reasons u \<noteq> [] \<and> uc_unrecoveredSourceRanges u \<noteq> []
     \<and> uc_unrecoveredSourceSectorCount u = sectorCount_of (uc_unrecoveredSourceRanges u)"

lemma place_occurrences_Cons_Inr:
  "place_occurrences known (q # os) = Inr (cs, us) \<longleftrightarrow>
     (\<exists>here rest ds vs. place_spans (playbackOccurrence q) (occurrence_spans q) known = (here, rest)
        \<and> (rest = [] \<or> occurrence_unknownReasons q \<noteq> [])
        \<and> place_occurrences known os = Inr (ds, vs) \<and> cs = here @ ds
        \<and> us = (if rest \<noteq> [] then [\<lparr>uc_playbackOccurrence = playbackOccurrence q,
             uc_unrecoveredSourceSectorCount = sectorCount_of rest, uc_unrecoveredSourceRanges = rest,
             uc_reasons = occurrence_unknownReasons q\<rparr>] else []) @ vs)"
  by (auto simp: map_sum_Inr split: prod.splits)

text \<open>What the loop over occurrences has placed, per occurrence.\<close>

definition placed_exactly ::
  "dvd_unrecovered_source_range list \<Rightarrow> timing_occurrence \<Rightarrow> affected_interval list \<Rightarrow>
     unknown_coverage list \<Rightarrow> bool" where
  "placed_exactly known q cs us \<longleftrightarrow>
     (let n = playbackOccurrence q; timed = covered (map span_sourceRange (occurrence_spans q)) in
      disjoint_ranges (sources_of n cs @ unknown_of n us)
      \<and> covered (sources_of n cs) = covered known \<inter> timed
      \<and> covered (unknown_of n us) = covered known - timed
      \<and> playback_of n cs \<subseteq> touching (occurrence_spans q) (covered known)
      \<and> (\<forall>x \<in> covered known \<inter> timed. \<exists>s \<in> set (occurrence_spans q).
           x \<in> lbas (span_sourceRange s) \<and> span_playback s \<subseteq> playback_of n cs))"

definition proper_occurrences :: "timing_occurrence list \<Rightarrow> bool" where
  "proper_occurrences os \<longleftrightarrow> distinct (map playbackOccurrence os)
     \<and> (\<forall>q \<in> set os. \<forall>s \<in> set (occurrence_spans q). proper_span s)"

lemma place_spans_placed:
  assumes "place_spans (playbackOccurrence q) (occurrence_spans q) known = (cs, rest)"
    and "ascending known" and "\<forall>s \<in> set (occurrence_spans q). proper_span s"
    and "unknown_of (playbackOccurrence q) us = rest"
  shows "placed_exactly known q cs us"
proof -
  note sources = place_spans_sources [OF assms(1-3)] and exact = place_spans_exact [OF assms(1)]
  have "covered (sources_of (playbackOccurrence q) cs) \<inter> covered rest = {}"
    using sources by (simp add: disjoint_ranges_append)
  with sources exact have "covered (sources_of (playbackOccurrence q) cs)
      = covered known \<inter> covered (map span_sourceRange (occurrence_spans q))" by blast
  with sources exact assms(4) show ?thesis by (simp add: placed_exactly_def)
qed

lemma place_occurrences_placed:
  assumes "place_occurrences known os = Inr (cs, us)" and "ascending known" and "proper_occurrences os"
  shows "(\<forall>q \<in> set os. placed_exactly known q cs us) \<and> (\<forall>c \<in> set cs. proper_interval c)
    \<and> (\<forall>u \<in> set us. explained u)
    \<and> (\<forall>c \<in> set cs. iv_playbackOccurrence c \<in> playbackOccurrence ` set os)
    \<and> (\<forall>u \<in> set us. uc_playbackOccurrence u \<in> playbackOccurrence ` set os)"
  using assms
proof (induction os arbitrary: cs us)
  case Nil
  then show ?case by simp
next
  case (Cons q os)
  from Cons.prems(1) [unfolded place_occurrences_Cons_Inr] obtain here rest ds vs where
    here: "place_spans (playbackOccurrence q) (occurrence_spans q) known = (here, rest)"
    and reasons: "rest = [] \<or> occurrence_unknownReasons q \<noteq> []"
    and later: "place_occurrences known os = Inr (ds, vs)" and cs: "cs = here @ ds"
    and us: "us = (if rest \<noteq> [] then [\<lparr>uc_playbackOccurrence = playbackOccurrence q,
             uc_unrecoveredSourceSectorCount = sectorCount_of rest, uc_unrecoveredSourceRanges = rest,
             uc_reasons = occurrence_unknownReasons q\<rparr>] else []) @ vs" by blast
  have proper: "\<forall>s \<in> set (occurrence_spans q). proper_span s" "proper_occurrences os"
    and fresh: "playbackOccurrence q \<notin> playbackOccurrence ` set os"
    using Cons.prems(3) by (auto simp: proper_occurrences_def)
  note ih = Cons.IH [OF later Cons.prems(2) proper(2)]
  note sources = place_spans_sources [OF here Cons.prems(2) proper(1)]
  have foreign: "\<forall>c \<in> set ds. iv_playbackOccurrence c \<noteq> playbackOccurrence q"
    "\<forall>u \<in> set vs. uc_playbackOccurrence u \<noteq> playbackOccurrence q"
    using ih fresh by metis+
  have none: "sources_of (playbackOccurrence q) ds = []" "playback_of (playbackOccurrence q) ds = {}"
    "unknown_of (playbackOccurrence q) vs = []"
    using foreign by (auto simp: sources_of_def playback_of_def unknown_of_def)
  let ?own = "if rest \<noteq> [] then [\<lparr>uc_playbackOccurrence = playbackOccurrence q,
             uc_unrecoveredSourceSectorCount = sectorCount_of rest, uc_unrecoveredSourceRanges = rest,
             uc_reasons = occurrence_unknownReasons q\<rparr>] else []"
  have "placed_exactly known q here ?own"
    by (rule place_spans_placed [OF here Cons.prems(2) proper(1)]) simp
  then have head: "placed_exactly known q cs us"
    using none by (simp add: placed_exactly_def cs us)
  have other: "sources_of n here = []" "playback_of n here = {}" "unknown_of n ?own = []"
    if "n \<noteq> playbackOccurrence q" for n
    using that sources by (auto simp: sources_of_def playback_of_def)
  have tail: "placed_exactly known p cs us" if "p \<in> set os" for p
  proof -
    have "playbackOccurrence p \<noteq> playbackOccurrence q" using that fresh by (metis image_eqI)
    with ih that other [of "playbackOccurrence p"] show ?thesis
      by (simp add: placed_exactly_def cs us)
  qed
  have "\<forall>u \<in> set ?own. explained u" using reasons by (auto simp: explained_def)
  with head tail ih sources cs us show ?case by auto
qed
lemma merged_intervals:
  assumes "\<forall>c \<in> set cs. proper_interval c" and "\<And>n. disjoint_ranges (sources_of n cs)"
  shows "sorted_wrt wholly_before (mergeAffectedPlaybackIntervals cs)"
    and "\<forall>c \<in> set (mergeAffectedPlaybackIntervals cs). proper_interval c"
    and "playback_of n (mergeAffectedPlaybackIntervals cs) = playback_of n cs"
    and "disjoint_ranges (sources_of n (mergeAffectedPlaybackIntervals cs))"
    and "covered (sources_of n (mergeAffectedPlaybackIntervals cs)) = covered (sources_of n cs)"
proof -
  let ?ys = "sort_key interval_order cs"
  have sorted: "sorted_wrt not_after ?ys"
    using sorted_sort_key [of interval_order cs]
    by (auto simp: sorted_map less_eq_prod_def not_after_def elim!: sorted_wrt_mono_rel [rotated])
  have mset: "mset (sources_of m ?ys) = mset (sources_of m cs)" for m
    by (simp add: sources_of_def mset_concat flip: sum_mset_sum_list)
  have disjoint: "disjoint_ranges (sources_of m ?ys)" for m
    using assms(2) disjoint_ranges_mset [OF mset] by simp
  have covered: "covered (sources_of n ?ys) = covered (sources_of n cs)"
    by (rule covered_set_cong) (rule mset_eq_setD [OF mset])
  have playback: "playback_of n ?ys = playback_of n cs" by (simp add: playback_of_def)
  have all: "sorted_wrt wholly_before (mergeAffectedPlaybackIntervals cs)
      \<and> (\<forall>c \<in> set (mergeAffectedPlaybackIntervals cs). proper_interval c)
      \<and> playback_of n (mergeAffectedPlaybackIntervals cs) = playback_of n cs
      \<and> disjoint_ranges (sources_of n (mergeAffectedPlaybackIntervals cs))
      \<and> covered (sources_of n (mergeAffectedPlaybackIntervals cs)) = covered (sources_of n cs)"
  proof (cases ?ys)
    case Nil
    with covered playback show ?thesis by (simp add: mergeAffectedPlaybackIntervals_def)
  next
    case (Cons p ds)
    have merged: "mergeAffectedPlaybackIntervals cs = merge_from intervals_join join_intervals p ds"
      unfolding mergeAffectedPlaybackIntervals_def Cons by (rule foldl_push_or_merge_Cons)
    have proper: "\<forall>c \<in> set (p # ds). proper_interval c" 
      using assms(1) unfolding Cons [symmetric] by simp
    have order: "sorted_wrt not_after (p # ds)" using sorted unfolding Cons .
    have sources: "\<And>m. disjoint_ranges (sources_of m (p # ds))" using disjoint unfolding Cons .
    have "covered (sources_of n (p # ds)) = covered (sources_of n cs)"
      and "playback_of n (p # ds) = playback_of n cs" 
      using covered playback unfolding Cons .
    with merge_intervals_order [OF order proper, of n] merge_intervals_sources [OF sources, of n]
    show ?thesis unfolding merged by metis
  qed
  then show "sorted_wrt wholly_before (mergeAffectedPlaybackIntervals cs)"
    and "\<forall>c \<in> set (mergeAffectedPlaybackIntervals cs). proper_interval c"
    and "playback_of n (mergeAffectedPlaybackIntervals cs) = playback_of n cs"
    and "disjoint_ranges (sources_of n (mergeAffectedPlaybackIntervals cs))"
    and "covered (sources_of n (mergeAffectedPlaybackIntervals cs)) = covered (sources_of n cs)"
    by simp_all
qed

section \<open>Lemmas: normalised timing evidence\<close>

definition valid_span :: "unreadable_sector_range list \<Rightarrow> int \<Rightarrow> timing_span \<Rightarrow> bool" where
  "valid_span unique n s \<longleftrightarrow>
     within_extent n (span_sourceRange s) \<and> lbas (span_sourceRange s) \<subseteq> covered unique
     \<and> is_safe_integer (startMilliseconds s) \<and> 0 \<le> startMilliseconds s
     \<and> is_safe_integer (endMilliseconds s) \<and> startMilliseconds s < endMilliseconds s
     \<and> is_policy_name (timingMethod s)
     \<and> (span_coverage s = Source_span \<or> span_coverage s = Whole_cell)"

lemma valid_span_proper: "valid_span unique n s \<Longrightarrow> proper_span s"
  by (simp add: valid_span_def proper_span_def within_extent_def)

lemma subtract_all:
  assumes "proper_range r" and "ascending known"
  shows "subtractRanges [r] known = [] \<longleftrightarrow> lbas r \<subseteq> covered known"
proof -
  have "ascending (subtractRanges [r] known)"
    using assms by (intro ascending_subtractRanges) (auto simp: ascending_def proper_range_def)
  then have "subtractRanges [r] known = [] \<longleftrightarrow> covered (subtractRanges [r] known) = {}"
    by (simp add: ascending_def covered_empty_iff)
  then show ?thesis by (simp add: covered_subtractRanges)
qed

lemma range_eta [simp]: "\<lparr>startLba = startLba r, sectorCount = sectorCount r\<rparr> = r"
  for r :: unreadable_sector_range by simp

lemma normalizeTimingSpan_Inr:
  assumes "ascending unique"
  shows "normalizeTimingSpan unique n s = Inr q \<longleftrightarrow> q = s \<and> valid_span unique n s"
proof -
  have "normalizeTimingSpan unique n s = Inr q \<longleftrightarrow>
      within_extent n (span_sourceRange s) \<and> subtractRanges [span_sourceRange s] unique = []
      \<and> q = s \<and> is_safe_integer (startMilliseconds s) \<and> 0 \<le> startMilliseconds s
      \<and> is_safe_integer (endMilliseconds s) \<and> startMilliseconds s < endMilliseconds s
      \<and> is_policy_name (timingMethod s)
      \<and> (span_coverage s = Source_span \<or> span_coverage s = Whole_cell)"
    by (cases s) (auto simp: normalizeTimingSpan_def normalizeRanges_single map_sum_Inr bind_error_Inr
        if_error_Inr checkedRange_Inr nonnegativeSafeInteger_Inr positiveSafeInteger_Inr Let_def)
  then show ?thesis
    using subtract_all [OF _ assms, of "span_sourceRange s"]
    by (auto simp: valid_span_def within_extent_def)
qed

lemma normalizeTimingSpans_Inr:
  assumes "ascending unique"
  shows "map_result (normalizeTimingSpan unique n) ss = Inr qs \<longleftrightarrow>
     qs = ss \<and> (\<forall>s \<in> set ss. valid_span unique n s)"
  unfolding map_result_Inr_iff
  by (induction ss arbitrary: qs) (auto simp: list_all2_Cons1 normalizeTimingSpan_Inr [OF assms])

abbreviation "span_key \<equiv> (\<lambda>s. canonicalJson (span_json s))"

lemma span_json_inject:
  assumes "canonicalJson (span_json a) = canonicalJson (span_json b)"
    and "valid_span unique n a" and "valid_span unique n b"
  shows "a = b"
proof -
  let ?object = "\<lambda>s. [(''sourceRange'', JObject
        [(''startLba'', JInt (startLba (span_sourceRange s))),
         (''sectorCount'', JInt (sectorCount (span_sourceRange s)))]),
      (''startMilliseconds'', JInt (startMilliseconds s)),
      (''endMilliseconds'', JInt (endMilliseconds s)),
      (''timingMethod'', JString (timingMethod s)),
      (''coverage'', JString (coverage_text (span_coverage s)))]"
  have "canonical_value (JObject (?object a)) = canonical_value (JObject (?object b))"
    using assms(1) by (simp add: canonicalJson_def span_json_def del: canonical_value.simps)
  note member = canonical_object_member [OF this]
  have "canonical_value (JObject [(''startLba'', JInt (startLba (span_sourceRange a))),
         (''sectorCount'', JInt (sectorCount (span_sourceRange a)))])
      = canonical_value (JObject [(''startLba'', JInt (startLba (span_sourceRange b))),
         (''sectorCount'', JInt (sectorCount (span_sourceRange b)))])"
    using member [of "''sourceRange''"] by (simp del: canonical_value.simps)
  note range = canonical_object_member [OF this]
  have "span_sourceRange a = span_sourceRange b"
    using range [of "''startLba''"] range [of "''sectorCount''"] by simp
  moreover have "span_coverage a = span_coverage b"
    using member [of "''coverage''"] assms(2,3) by (auto simp: valid_span_def)
  ultimately show ?thesis
    using member [of "''startMilliseconds''"] member [of "''endMilliseconds''"]
      member [of "''timingMethod''"] by (simp add: timing_span.equality)
qed
lemma span_key_inj: "\<forall>s \<in> set ss. valid_span unique n s \<Longrightarrow> inj_on span_key (set ss)"
  by (rule inj_onI) (blast intro: span_json_inject)

definition normal_occurrence :: "unreadable_sector_range list \<Rightarrow> int \<Rightarrow> timing_occurrence \<Rightarrow> bool" where
  "normal_occurrence unique n q \<longleftrightarrow>
     is_safe_integer (playbackOccurrence q) \<and> 1 \<le> playbackOccurrence q
     \<and> (\<forall>s \<in> set (occurrence_spans q). valid_span unique n s)
     \<and> distinct (occurrence_spans q) \<and> sorted (map span_order (occurrence_spans q))
     \<and> validateUnknownReasons (occurrence_unknownReasons q) = Inr (occurrence_unknownReasons q)"

lemma normalizeOccurrence_Inr:
  assumes "ascending unique"
  shows "normalizeOccurrence unique n seen q = Inr p \<longleftrightarrow>
     is_safe_integer (playbackOccurrence q) \<and> 1 \<le> playbackOccurrence q
     \<and> playbackOccurrence q \<notin> set seen
     \<and> (\<forall>s \<in> set (occurrence_spans q). valid_span unique n s)
     \<and> (\<exists>reasons. validateUnknownReasons (occurrence_unknownReasons q) = Inr reasons
         \<and> p = \<lparr>playbackOccurrence = playbackOccurrence q,
             occurrence_spans = map_values span_key (sort_key span_order (occurrence_spans q)),
             occurrence_unknownReasons = reasons\<rparr>)"
  by (auto simp: normalizeOccurrence_def bind_error_Inr if_error_Inr positiveSafeInteger_Inr
      normalizeTimingSpans_Inr [OF assms])

lemma normalizeOccurrence_normal:
  assumes "ascending unique" and "normalizeOccurrence unique n seen q = Inr p"
  shows "normal_occurrence unique n p" and "playbackOccurrence p = playbackOccurrence q"
    and "playbackOccurrence p \<notin> set seen"
    and "set (occurrence_spans p) = set (occurrence_spans q)"
proof -
  let ?ss = "sort_key span_order (occurrence_spans q)"
  from assms(2) [unfolded normalizeOccurrence_Inr [OF assms(1)]] obtain reasons where
    q: "is_safe_integer (playbackOccurrence q)" "1 \<le> playbackOccurrence q"
      "playbackOccurrence q \<notin> set seen" "\<forall>s \<in> set ?ss. valid_span unique n s"
    and reasons: "validateUnknownReasons (occurrence_unknownReasons q) = Inr reasons"
    and p: "p = \<lparr>playbackOccurrence = playbackOccurrence q,
             occurrence_spans = map_values span_key ?ss, occurrence_unknownReasons = reasons\<rparr>"
    by auto
  note kept = map_values_facts [OF span_key_inj [OF q(4)]]
  show "normal_occurrence unique n p"
    using q kept(1,2) kept(4) [of span_order] validateUnknownReasons_again [OF reasons] p
    by (simp add: normal_occurrence_def)
  show "playbackOccurrence p = playbackOccurrence q" and "playbackOccurrence p \<notin> set seen"
    and "set (occurrence_spans p) = set (occurrence_spans q)"
    using p q(3) kept(1) by simp_all
qed

lemma normalizeOccurrence_again:
  assumes "ascending unique" and "normal_occurrence unique n q" and "playbackOccurrence q \<notin> set seen"
  shows "normalizeOccurrence unique n seen q = Inr q"
proof -
  have "inj_on span_key (set (occurrence_spans q))"
    using assms(2) by (intro span_key_inj [of _ unique n]) (simp add: normal_occurrence_def)
  then show ?thesis
    using assms(2,3) unfolding normalizeOccurrence_Inr [OF assms(1)]
    by (simp add: normal_occurrence_def sort_key_sorted map_values_facts(3))
qed

lemma normalize_occurrences_normal:
  assumes "ascending unique" and "normalize_occurrences unique n seen qs = Inr ps"
  shows "(\<forall>p \<in> set ps. normal_occurrence unique n p) \<and> distinct (map playbackOccurrence ps)
    \<and> playbackOccurrence ` set ps \<inter> set seen = {} \<and> length ps = length qs"
  using assms(2)
proof (induction qs arbitrary: seen ps)
  case Nil
  then show ?case by simp
next
  case (Cons q qs)
  then obtain p rest where p: "normalizeOccurrence unique n seen q = Inr p"
    and rest: "normalize_occurrences unique n (playbackOccurrence p # seen) qs = Inr rest"
    and ps: "ps = p # rest" by (auto simp: bind_error_Inr map_sum_Inr)
  from Cons.IH [OF rest] normalizeOccurrence_normal [OF assms(1) p] ps show ?case by auto
qed

lemma normalize_occurrences_again:
  assumes "ascending unique"
  shows "\<forall>q \<in> set qs. normal_occurrence unique n q \<Longrightarrow> distinct (map playbackOccurrence qs) \<Longrightarrow>
    playbackOccurrence ` set qs \<inter> set seen = {} \<Longrightarrow> normalize_occurrences unique n seen qs = Inr qs"
proof (induction qs arbitrary: seen)
  case (Cons q qs)
  have "normalizeOccurrence unique n seen q = Inr q"
    using Cons.prems by (intro normalizeOccurrence_again [OF assms]) auto
  moreover have "normalize_occurrences unique n (playbackOccurrence q # seen) qs = Inr qs"
    using Cons.prems by (intro Cons.IH) auto
  ultimately show ?case by simp
qed simp

definition normal_timing :: "unreadable_sector_range list \<Rightarrow> int \<Rightarrow> timing_evidence \<Rightarrow> bool" where
  "normal_timing unique n t \<longleftrightarrow>
     timing_policyVersion t = dvd_title_damage_timing_policy_version
     \<and> timing_occurrences t \<noteq> []
     \<and> (\<forall>q \<in> set (timing_occurrences t). normal_occurrence unique n q)
     \<and> sorted_wrt (<) (map playbackOccurrence (timing_occurrences t))"

lemma normalizeTimingEvidence_None: "normalizeTimingEvidence g unique n = Inr None \<longleftrightarrow> g = None"
  by (cases g) (auto simp: normalizeTimingEvidence_def map_sum_Inr)

lemma normalizeTimingEvidence_normal:
  assumes "ascending unique" and "normalizeTimingEvidence g unique n = Inr (Some t)"
  shows "normal_timing unique n t"
proof -
  from assms(2) obtain given qs where g: "g = Some given"
      "timing_policyVersion given = dvd_title_damage_timing_policy_version"
      "timing_occurrences given \<noteq> []"
    and qs: "normalize_occurrences unique n [] (timing_occurrences given) = Inr qs"
    and t: "t = \<lparr>timing_policyVersion = timing_policyVersion given,
      timing_occurrences = sort_key playbackOccurrence qs\<rparr>"
    by (auto simp: normalizeTimingEvidence_def map_sum_Inr if_error_Inr split: option.splits)
  note normal = normalize_occurrences_normal [OF assms(1) qs]
  have "mset (map playbackOccurrence (sort_key playbackOccurrence qs))
      = mset (map playbackOccurrence qs)" by simp
  then have "distinct (map playbackOccurrence (sort_key playbackOccurrence qs))"
    using normal mset_eq_imp_distinct_iff by blast
  then have "sorted_wrt (<) (map playbackOccurrence (sort_key playbackOccurrence qs))"
    by (simp add: strict_sorted_iff)
  moreover have "qs \<noteq> []" using normal g(3) by auto
  then have "sort_key playbackOccurrence qs \<noteq> []" by (metis mset_sort mset_zero_iff)
  ultimately show ?thesis using normal g t by (simp add: normal_timing_def)
qed

lemma normal_timing_again:
  assumes "ascending unique" and "normal_timing unique n t"
  shows "normalizeTimingEvidence (Some t) unique n = Inr (Some t)"
proof -
  have "sorted (map playbackOccurrence (timing_occurrences t))
      \<and> distinct (map playbackOccurrence (timing_occurrences t))"
    using assms(2) by (simp add: normal_timing_def strict_sorted_iff)
  moreover from this have "normalize_occurrences unique n [] (timing_occurrences t)
      = Inr (timing_occurrences t)"
    using assms by (intro normalize_occurrences_again) (simp_all add: normal_timing_def)
  ultimately show ?thesis
    using assms(2) by (simp add: normalizeTimingEvidence_def normal_timing_def sort_key_sorted)
qed

lemma normal_timing_proper: "normal_timing unique n t \<Longrightarrow> proper_occurrences (timing_occurrences t)"
  by (auto simp: normal_timing_def proper_occurrences_def strict_sorted_iff normal_occurrence_def
      intro: valid_span_proper)

lemma estimate_placed:
  assumes "estimateAffectedPlayback (Some t) known = Inr (Some p)" and "ascending known"
    and "proper_occurrences (timing_occurrences t)"
  shows "(\<forall>q \<in> set (timing_occurrences t).
        placed_exactly known q (ap_intervals p) (ap_unknownCoverage p))
    \<and> sorted_wrt wholly_before (ap_intervals p) \<and> (\<forall>c \<in> set (ap_intervals p). proper_interval c)
    \<and> (\<forall>u \<in> set (ap_unknownCoverage p). explained u)"
proof -
  from assms(1) obtain cs us where placed: "place_occurrences known (timing_occurrences t) = Inr (cs, us)"
    and p: "ap_intervals p = mergeAffectedPlaybackIntervals cs" "ap_unknownCoverage p = us"
    by (auto simp: estimateAffectedPlayback_def map_sum_Inr)
  note facts = place_occurrences_placed [OF placed assms(2,3)]
  have "disjoint_ranges (sources_of n cs)" for n
  proof (cases "n \<in> playbackOccurrence ` set (timing_occurrences t)")
    case True
    with facts show ?thesis by (auto simp: placed_exactly_def disjoint_ranges_append Let_def)
  next
    case False
    with facts have "\<forall>c \<in> set cs. iv_playbackOccurrence c \<noteq> n" by metis
    then have "sources_of n cs = []" by (induction cs) auto
    then show ?thesis by simp
  qed
  note merged = merged_intervals [OF _ this]
  have proper: "\<forall>c \<in> set cs. proper_interval c" using facts by blast
  have "placed_exactly known q (ap_intervals p) us" if "placed_exactly known q cs us" for q
    using that merged(3-5) [OF proper] unfolding placed_exactly_def p
    by (simp add: Let_def disjoint_ranges_append) blast
  with facts merged(1,2) [OF proper] p show ?thesis by simp
qed
lemma place_occurrences_Inl:
  "place_occurrences known qs = Inl e \<longleftrightarrow>
     e = TypeError ''Unplaced DVD title damage requires an explicit timing reason''
     \<and> (\<exists>q \<in> set qs. snd (place_spans (playbackOccurrence q) (occurrence_spans q) known) \<noteq> []
          \<and> occurrence_unknownReasons q = [])"
proof (induction qs)
  case (Cons q qs)
  show ?case
    by (cases "place_spans (playbackOccurrence q) (occurrence_spans q) known";
        cases "place_occurrences known qs") (use Cons.IH in auto)
qed simp

section \<open>Properties\<close>

text \<open>
  C40: The Unrecovered Source of an assessment is taken exactly when it is in ascending order
  without overlaps, inside the accepted extent and of the two known classifications, and then
  as it is.
\<close>

theorem unrecovered_ranges_taken_exactly:
  "validateUnrecoveredRanges rs n = Inr out \<longleftrightarrow>
     out = rs \<and> ascending rs
     \<and> (\<forall>r \<in> set rs. is_safe_integer (rangeEnd r) \<and> rangeEnd r \<le> n
          \<and> classification r \<in> {Skipped_untested, Individually_failed})"
  by (auto simp: validateUnrecoveredRanges_Inr within_extent_def known_class_def ascending_def)

definition example_refs :: "unreadable_sector_range list" where
  "example_refs = [\<lparr>startLba = 0, sectorCount = 60\<rparr>, \<lparr>startLba = 40, sectorCount = 60\<rparr>]"

definition example_unrecovered :: "dvd_unrecovered_source_range list" where
  "example_unrecovered =
     [\<lparr>startLba = 2, sectorCount = 6, classification = Skipped_untested\<rparr>,
      \<lparr>startLba = 30, sectorCount = 1, classification = Individually_failed\<rparr>]"

theorem unrecovered_ranges_taken_exactly_witness:
  "validateUnrecoveredRanges example_unrecovered 100 = Inr example_unrecovered"
  by (simp add: unrecovered_ranges_taken_exactly)
    (simp add: example_unrecovered_def ascending_def proper_range_def rangeEnd_def is_safe_integer_def
      max_safe_integer_def)

definition example_timing :: timing_evidence where
  "example_timing =
     \<lparr>timing_policyVersion = ''dvd-title-damage-timing-v1'',
      timing_occurrences =
        [\<lparr>playbackOccurrence = 1,
          occurrence_spans =
            [\<lparr>span_sourceRange = \<lparr>startLba = 5, sectorCount = 15\<rparr>, startMilliseconds = 500,
              endMilliseconds = 2000, timingMethod = ''cell'', span_coverage = Whole_cell\<rparr>,
             \<lparr>span_sourceRange = \<lparr>startLba = 0, sectorCount = 6\<rparr>, startMilliseconds = 0,
              endMilliseconds = 1000, timingMethod = ''vobu'', span_coverage = Source_span\<rparr>],
          occurrence_unknownReasons =
            [\<lparr>reason_code = ''NO_TIMING'', reason_message = ''The cell has no timing.''\<rparr>]\<rparr>]\<rparr>"

definition example_placed :: timing_evidence where
  "example_placed = example_timing\<lparr>timing_occurrences := map
     (\<lambda>q. q\<lparr>occurrence_spans := rev (occurrence_spans q)\<rparr>) (timing_occurrences example_timing)\<rparr>"

lemma example_normalized:
  "normalizeRanges example_refs 100 ''title'' = Inr [\<lparr>startLba = 0, sectorCount = 100\<rparr>]"
  "normalizeTimingEvidence (Some example_timing) [\<lparr>startLba = 0, sectorCount = 100\<rparr>] 100
     = Inr (Some example_placed)"
  by code_simp+
text \<open>
  C39: Normalised timing evidence is a normal form.  It lies within the source of its title,
  each span lasts some time, its occurrences are numbered in increasing order, and normalising
  it again returns it unchanged, which is what lets a persisted assessment be rebuilt.
\<close>

theorem timing_evidence_normal_form:
  assumes "normalizeRanges references n label = Inr unique"
    and "normalizeTimingEvidence given unique n = Inr (Some t)"
  shows "normalizeTimingEvidence (Some t) unique n = Inr (Some t)
    \<and> timing_occurrences t \<noteq> [] \<and> sorted_wrt (<) (map playbackOccurrence (timing_occurrences t))
    \<and> (\<forall>q \<in> set (timing_occurrences t). \<forall>s \<in> set (occurrence_spans q).
         lbas (span_sourceRange s) \<subseteq> covered references
         \<and> startMilliseconds s < endMilliseconds s)"
proof -
  have unique: "ascending unique" "covered unique = covered references"
    using normalizeRanges_Inr [OF assms(1)] by (simp_all add: separated_ascending)
  note normal = normalizeTimingEvidence_normal [OF unique(1) assms(2)]
  then show ?thesis
    using normal_timing_again [OF unique(1) normal] unique(2)
    by (simp add: normal_timing_def normal_occurrence_def valid_span_def)
qed

theorem timing_evidence_normal_form_witness:
  "normalizeTimingEvidence (Some example_placed) [\<lparr>startLba = 0, sectorCount = 100\<rparr>] 100
     = Inr (Some example_placed)"
  using timing_evidence_normal_form [OF example_normalized] by blast

text \<open>What the steps before the estimate establish.\<close>

lemma damage_context:
  assumes "normalizeRanges references n label = Inr unique"
    and "normalizeTimingEvidence given unique n = Inr (Some t)"
    and "validateUnrecoveredRanges unrecovered n = Inr ranges"
  shows "ascending (intersections unique ranges)"
    and "covered (intersections unique ranges) = covered references \<inter> covered unrecovered"
    and "proper_occurrences (timing_occurrences t)"
proof -
  have unique: "ascending unique" "covered unique = covered references"
    using normalizeRanges_Inr [OF assms(1)] by (simp_all add: separated_ascending)
  have ranges: "ranges = unrecovered" "ascending ranges"
    using assms(3) by (simp_all add: validateUnrecoveredRanges_Inr)
  show "ascending (intersections unique ranges)"
    and "covered (intersections unique ranges) = covered references \<inter> covered unrecovered"
    using unique ranges by (simp_all add: ascending_intersections covered_intersections)
  show "proper_occurrences (timing_occurrences t)"
    by (rule normal_timing_proper [OF normalizeTimingEvidence_normal [OF unique(1) assms(2)]])
qed

text \<open>
  C37: The estimate accounts for every damaged sector of a title in every playback occurrence:
  a damaged sector is attributed to an interval of the occurrence exactly when one of its timing
  spans covers the sector, and is reported as unplaced otherwise; none is counted twice.
\<close>

theorem affected_playback_accounts_for_damage:
  assumes "normalizeRanges references n label = Inr unique"
    and "normalizeTimingEvidence given unique n = Inr (Some t)"
    and "validateUnrecoveredRanges unrecovered n = Inr ranges"
    and "estimateAffectedPlayback (Some t) (intersections unique ranges) = Inr (Some p)"
    and "q \<in> set (timing_occurrences t)"
  shows "let damaged = covered references \<inter> covered unrecovered;
      timed = covered (map span_sourceRange (occurrence_spans q));
      placed = sources_of (playbackOccurrence q) (ap_intervals p);
      unplaced = unknown_of (playbackOccurrence q) (ap_unknownCoverage p) in
    covered placed = damaged \<inter> timed \<and> covered unplaced = damaged - timed
    \<and> sectorCount_of placed + sectorCount_of unplaced = int (card damaged)"
proof -
  let ?known = "intersections unique ranges"
  note damage = damage_context [OF assms(1-3)]
  have "placed_exactly ?known q (ap_intervals p) (ap_unknownCoverage p)"
    using estimate_placed [OF assms(4) damage(1,3)] assms(5) by blast
  then have exact: "disjoint_ranges (sources_of (playbackOccurrence q) (ap_intervals p)
        @ unknown_of (playbackOccurrence q) (ap_unknownCoverage p))"
    "covered (sources_of (playbackOccurrence q) (ap_intervals p)) = covered references
        \<inter> covered unrecovered \<inter> covered (map span_sourceRange (occurrence_spans q))"
    "covered (unknown_of (playbackOccurrence q) (ap_unknownCoverage p)) = covered references
        \<inter> covered unrecovered - covered (map span_sourceRange (occurrence_spans q))"
    using damage(2) by (simp_all add: placed_exactly_def Let_def)
  then show ?thesis
    using disjoint_sectorCount [OF exact(1)] by (simp add: Let_def Un_Diff_Int Un_commute)
qed

text \<open>The estimate of the example, damaged in sectors 2 to 7 and 30.\<close>

definition example_playback :: affected_playback where
  "example_playback =
     \<lparr>ap_policyVersion = ''dvd-title-damage-timing-v1'',
      ap_intervals =
        [\<lparr>iv_playbackOccurrence = 1, iv_startMilliseconds = 0, iv_endMilliseconds = 2000,
          iv_timingMethods = [''cell'', ''vobu''], iv_coverage = Whole_cell,
          iv_sourceRanges = [\<lparr>startLba = 2, sectorCount = 6, classification = Skipped_untested\<rparr>]\<rparr>],
      ap_unknownCoverage =
        [\<lparr>uc_playbackOccurrence = 1, uc_unrecoveredSourceSectorCount = 1,
          uc_unrecoveredSourceRanges =
            [\<lparr>startLba = 30, sectorCount = 1, classification = Individually_failed\<rparr>],
          uc_reasons =
            [\<lparr>reason_code = ''NO_TIMING'', reason_message = ''The cell has no timing.''\<rparr>]\<rparr>]\<rparr>"

lemma example_estimated:
  "validateUnrecoveredRanges example_unrecovered 100 = Inr example_unrecovered"
  "estimateAffectedPlayback (Some example_placed)
     (intersections [\<lparr>startLba = 0, sectorCount = 100\<rparr>] example_unrecovered)
     = Inr (Some example_playback)"
  by code_simp+

theorem affected_playback_accounts_for_damage_witness:
  "sectorCount_of (sources_of 1 (ap_intervals example_playback))
     + sectorCount_of (unknown_of 1 (ap_unknownCoverage example_playback))
   = int (card (covered example_refs \<inter> covered example_unrecovered))"
proof -
  let ?q = "hd (timing_occurrences example_placed)"
  have "?q \<in> set (timing_occurrences example_placed)" and "playbackOccurrence ?q = 1"
    by (simp_all add: example_placed_def example_timing_def)
  with affected_playback_accounts_for_damage [OF example_normalized example_estimated, of ?q]
  show ?thesis by (simp add: Let_def)
qed

text \<open>
  C38: The estimated intervals are a timeline.  They are ordered, last some time and do not
  overlap within an occurrence; they cover no more than the timing spans that touch damaged
  source, and for every damaged sector that is timed at all the whole of a span that covers it.
\<close>

theorem affected_playback_is_a_timeline:
  assumes "normalizeRanges references n label = Inr unique"
    and "normalizeTimingEvidence given unique n = Inr (Some t)"
    and "validateUnrecoveredRanges unrecovered n = Inr ranges"
    and "estimateAffectedPlayback (Some t) (intersections unique ranges) = Inr (Some p)"
  shows "sorted_wrt wholly_before (ap_intervals p)
    \<and> (\<forall>c \<in> set (ap_intervals p). iv_startMilliseconds c < iv_endMilliseconds c)
    \<and> (\<forall>q \<in> set (timing_occurrences t).
         let damaged = covered references \<inter> covered unrecovered;
           affected = playback_of (playbackOccurrence q) (ap_intervals p) in
         affected \<subseteq> touching (occurrence_spans q) damaged
         \<and> (\<forall>x \<in> damaged \<inter> covered (map span_sourceRange (occurrence_spans q)).
              \<exists>s \<in> set (occurrence_spans q).
                x \<in> lbas (span_sourceRange s) \<and> span_playback s \<subseteq> affected))"
proof -
  note damage = damage_context [OF assms(1-3)]
  note placed = estimate_placed [OF assms(4) damage(1,3)]
  then have "sorted_wrt wholly_before (ap_intervals p)"
    and "\<forall>c \<in> set (ap_intervals p). iv_startMilliseconds c < iv_endMilliseconds c"
    by (simp_all add: proper_interval_def)
  moreover have "placed_exactly (intersections unique ranges) q (ap_intervals p) (ap_unknownCoverage p)"
    if "q \<in> set (timing_occurrences t)" for q using placed that by blast
  ultimately show ?thesis
    unfolding placed_exactly_def Let_def damage(2) by blast
qed

theorem affected_playback_is_a_timeline_witness:
  "sorted_wrt wholly_before (ap_intervals example_playback)
    \<and> list_all (\<lambda>c. iv_startMilliseconds c < iv_endMilliseconds c)
         (ap_intervals example_playback)"
  using affected_playback_is_a_timeline [OF example_normalized example_estimated]
  unfolding list_all_iff by blast

text \<open>
  C40: Damage is never left unexplained.  The estimate fails exactly when some occurrence has a
  damaged sector that none of its spans covers and gives no reason why its timing is incomplete.
\<close>

theorem unplaced_damage_requires_reasons:
  assumes "normalizeRanges references n label = Inr unique"
    and "normalizeTimingEvidence given unique n = Inr (Some t)"
    and "validateUnrecoveredRanges unrecovered n = Inr ranges"
  shows "estimateAffectedPlayback (Some t) (intersections unique ranges) = Inl e \<longleftrightarrow>
    e = TypeError ''Unplaced DVD title damage requires an explicit timing reason''
    \<and> (\<exists>q \<in> set (timing_occurrences t). occurrence_unknownReasons q = []
         \<and> \<not> covered references \<inter> covered unrecovered
              \<subseteq> covered (map span_sourceRange (occurrence_spans q)))"
proof -
  let ?known = "intersections unique ranges"
  note damage = damage_context [OF assms(1-3)]
  have unplaced: "snd (place_spans (playbackOccurrence q) (occurrence_spans q) ?known) \<noteq> [] \<longleftrightarrow>
      \<not> covered ?known \<subseteq> covered (map span_sourceRange (occurrence_spans q))"
    if "q \<in> set (timing_occurrences t)" for q
  proof -
    obtain cs rest where place: "place_spans (playbackOccurrence q) (occurrence_spans q) ?known
        = (cs, rest)" by (rule prod.exhaust)
    have "\<forall>s \<in> set (occurrence_spans q). proper_span s"
      using damage(3) that by (simp add: proper_occurrences_def)
    then have "ascending rest" using place_spans_sources [OF place damage(1)] by blast
    then have "rest = [] \<longleftrightarrow> covered rest = {}" by (simp add: ascending_def covered_empty_iff)
    with place place_spans_exact [OF place] show ?thesis by auto
  qed
  have "estimateAffectedPlayback (Some t) ?known = Inl e \<longleftrightarrow>
      place_occurrences ?known (timing_occurrences t) = Inl e"
    by (cases "place_occurrences ?known (timing_occurrences t)")
      (auto simp: estimateAffectedPlayback_def)
  with unplaced damage(2) show ?thesis by (auto simp: place_occurrences_Inl)
qed

theorem unplaced_damage_requires_reasons_witness:
  "\<not> is_ok (estimateAffectedPlayback
     (Some (example_placed\<lparr>timing_occurrences := map (\<lambda>q. q\<lparr>occurrence_unknownReasons := []\<rparr>)
        (timing_occurrences example_placed)\<rparr>))
     (intersections [\<lparr>startLba = 0, sectorCount = 100\<rparr>] example_unrecovered))"
proof -
  let ?t = "example_placed\<lparr>timing_occurrences := map (\<lambda>q. q\<lparr>occurrence_unknownReasons := []\<rparr>)
    (timing_occurrences example_placed)\<rparr>"
  have "normalizeTimingEvidence (Some ?t) [\<lparr>startLba = 0, sectorCount = 100\<rparr>] 100 = Inr (Some ?t)"
    by code_simp
  note iff = unplaced_damage_requires_reasons [OF example_normalized(1) this example_estimated(1)]
  have "30 \<in> covered example_refs \<inter> covered example_unrecovered"
    by (simp add: example_refs_def example_unrecovered_def mem_lbas rangeEnd_def)
  moreover have "30 \<notin> covered (map span_sourceRange (occurrence_spans (hd (timing_occurrences ?t))))"
    by (simp add: example_placed_def example_timing_def mem_lbas rangeEnd_def)
  moreover have "hd (timing_occurrences ?t) \<in> set (timing_occurrences ?t)"
    and "occurrence_unknownReasons (hd (timing_occurrences ?t)) = []"
    by (simp_all add: example_placed_def example_timing_def)
  ultimately have "estimateAffectedPlayback (Some ?t)
      (intersections [\<lparr>startLba = 0, sectorCount = 100\<rparr>] example_unrecovered)
    = Inl (TypeError ''Unplaced DVD title damage requires an explicit timing reason'')"
    using iff by blast
  then show ?thesis by simp
qed

end
