(* ===== verification/TitleDamage.thy ===== *)
theory TitleDamage
  imports TitleTiming
begin

text \<open>
  The DVD Title Damage Assessment, \<open>createDvdTitleDamageAssessment\<close> of
  \<open>packages/data-access/src/dvd-title-damage-assessment.ts\<close>: which unrecovered source each title
  needs, what no title accounts for, and when a disc is proved free of missing title source.
  A percentage is the exact rational of which the code has the nearest double.  The identity that
  hashes the semantic evidence, with its percentages printed as doubles, is not modelled.
\<close>

section \<open>Data\<close>

datatype structural_outcome = Valid | Invalid | Indeterminate | Not_run

record structural_findings =
  dvdNavigation :: structural_outcome
  titleEnumeration :: structural_outcome

datatype reference_kind = Navigation | Multiplexed_content | Other_kind string

record title_source_reference = unreadable_sector_range +
  reference_kind :: reference_kind

record selected_path_entry =
  programNumber :: int
  cellNumber :: int
  vobId :: int
  cellId :: int

record playback_selection =
  selectedPath :: "selected_path_entry list"
  angleNumber :: int
  chapterStart :: int
  chapterEnd :: int

datatype mapping_state = Complete | Partial | Other_state string

record mapping_coverage =
  mapping_state :: mapping_state
  mapping_policyVersion :: string
  mapping_unknownReasons :: "unknown_reason list"

record title_mapping =
  titleIdentityId :: string
  titleIdentityObservationId :: string
  displayTitleNumber :: int
  title_selection :: playback_selection
  sourceReferences :: "title_source_reference list"
  mappingCoverage :: mapping_coverage
  title_timingEvidence :: "timing_evidence option"

datatype confirmed_outcome = Mismatch | Inconclusive | Other_outcome string

record continuity_provenance =
  prov_discConfirmationId :: string
  prov_archiveRecoveryId :: string
  prov_archiveRecoveryAttemptId :: string
  prov_verificationId :: string
  prov_verificationOutcome :: confirmed_outcome
  prov_verificationResultDigest :: string
  prov_manifestRevision :: int
  prov_manifestDigest :: string
  prov_recoveredSourceRanges :: "unreadable_sector_range list"

record continuity_input =
  continuity_policyVersion :: string
  continuity_provenance :: "continuity_provenance list"

record source_continuity = continuity_input +
  sourceContinuityRiskSectorCount :: int

record continuity_risk_range = unreadable_sector_range +
  risk_discConfirmationId :: string
  risk_verificationOutcome :: confirmed_outcome

record damage_checkpoint =
  checkpoint_originalDiscArchiveId :: string
  checkpoint_manifestId :: string
  checkpoint_manifestRevision :: int
  checkpoint_manifestDigest :: string
  checkpoint_acceptedEndLbaExclusive :: int

record damage_assessment_input =
  input_checkpoint :: damage_checkpoint
  input_titleIdentityReviewSetIdentity :: string
  input_catalogMappingProjectionId :: "string option"
  input_structuralAssessmentIdentity :: string
  input_structuralFindings :: structural_findings
  input_unrecoveredSourceRanges :: "dvd_unrecovered_source_range list"
  input_sourceContinuity :: "continuity_input option"
  input_titles :: "title_mapping list"

record assessment_item =
  item_titleIdentityId :: string
  item_titleIdentityObservationId :: string
  item_displayTitleNumber :: int
  item_selection :: playback_selection
  item_mappingCoverage :: mapping_coverage
  item_uniqueSourceRanges :: "unreadable_sector_range list"
  item_uniqueSourceSectorCount :: "int option"
  item_knownUnrecoveredSourceRanges :: "dvd_unrecovered_source_range list"
  item_unrecoveredUniqueSourceSectorCount :: int
  item_titleMissingSourcePercentage :: "rat option"
  item_knownSourceContinuityRiskRanges :: "continuity_risk_range list"
  item_sourceContinuityRiskSectorCount :: int
  item_timingEvidence :: "timing_evidence option"
  item_estimatedAffectedPlayback :: "affected_playback option"

record unknown_title_impact =
  impact_unrecoveredSourceSectorCount :: int
  impact_unrecoveredSourceRanges :: "dvd_unrecovered_source_range list"
  impact_reasons :: "unknown_reason list"

record unattributed_risk =
  unattributed_sourceSectorCount :: int
  unattributed_sourceRanges :: "continuity_risk_range list"

record damage_assessment =
  assessment_checkpoint :: damage_checkpoint
  assessment_titleIdentityReviewSetIdentity :: string
  assessment_structuralAssessmentIdentity :: string
  assessment_structuralFindings :: structural_findings
  assessment_sourceContinuity :: "source_continuity option"
  assessment_items :: "assessment_item list"
  assessment_unknownTitleImpact :: unknown_title_impact
  assessment_unattributedSourceContinuityRisk :: "unattributed_risk option"
  noTitleMissingSourceProved :: bool

definition dvd_title_damage_source_continuity_policy_version :: string where
  "dvd_title_damage_source_continuity_policy_version = ''dvd-title-source-continuity-v1''"

section \<open>Checkpoint and continuity\<close>

definition validateCheckpoint :: "damage_checkpoint \<Rightarrow> damage_checkpoint result" where
  "validateCheckpoint c =
     (if \<not> boundedText (checkpoint_originalDiscArchiveId c) 128
       \<or> \<not> boundedText (checkpoint_manifestId c) 256
       \<or> \<not> is_safe_integer (checkpoint_manifestRevision c)
       \<or> checkpoint_manifestRevision c < 1
       \<or> \<not> is_sha256_hex (checkpoint_manifestDigest c)
       \<or> \<not> is_safe_integer (checkpoint_acceptedEndLbaExclusive c)
       \<or> checkpoint_acceptedEndLbaExclusive c < 1
      then Inl (TypeError ''Invalid DVD Title Damage Assessment checkpoint'')
      else Inr c)"

definition provenance_invalid :: "string list \<Rightarrow> continuity_provenance \<Rightarrow> bool" where
  "provenance_invalid seen entry \<longleftrightarrow>
     \<not> boundedText (prov_discConfirmationId entry) 128
     \<or> prov_discConfirmationId entry \<in> set seen
     \<or> \<not> boundedText (prov_archiveRecoveryId entry) 128
     \<or> \<not> boundedText (prov_archiveRecoveryAttemptId entry) 128
     \<or> \<not> boundedText (prov_verificationId entry) 128
     \<or> (prov_verificationOutcome entry \<noteq> Mismatch \<and> prov_verificationOutcome entry \<noteq> Inconclusive)
     \<or> \<not> is_sha256_hex (prov_verificationResultDigest entry)
     \<or> \<not> is_safe_integer (prov_manifestRevision entry)
     \<or> prov_manifestRevision entry < 1
     \<or> \<not> is_sha256_hex (prov_manifestDigest entry)"

fun normalize_provenance ::
  "int \<Rightarrow> string list \<Rightarrow> continuity_provenance list \<Rightarrow> continuity_provenance list result" where
  "normalize_provenance acceptedEnd seen [] = Inr []"
| "normalize_provenance acceptedEnd seen (entry # entries) =
     (if provenance_invalid seen entry
      then Inl (TypeError ''Invalid DVD source-continuity provenance'')
      else case normalizeRanges (prov_recoveredSourceRanges entry) acceptedEnd
               ''Confirmed DVD recovery source range'' of
        Inl e \<Rightarrow> Inl e
      | Inr ranges \<Rightarrow>
          map_sum id (Cons (entry\<lparr>prov_recoveredSourceRanges := ranges\<rparr>))
            (normalize_provenance acceptedEnd (prov_discConfirmationId entry # seen) entries))"

definition provenance_risks :: "continuity_provenance list \<Rightarrow> continuity_risk_range list" where
  "provenance_risks provenance =
     concat (map (\<lambda>entry. map (\<lambda>r. \<lparr>startLba = startLba r, sectorCount = sectorCount r,
         risk_discConfirmationId = prov_discConfirmationId entry,
         risk_verificationOutcome = prov_verificationOutcome entry\<rparr>)
       (prov_recoveredSourceRanges entry)) provenance)"

fun overlaps_from :: "int \<Rightarrow> 'a unreadable_sector_range_scheme list \<Rightarrow> bool" where
  "overlaps_from previousEnd [] \<longleftrightarrow> False"
| "overlaps_from previousEnd (r # rs) \<longleftrightarrow>
     startLba r < previousEnd \<or> overlaps_from (startLba r + sectorCount r) rs"

definition normalizeSourceContinuity ::
  "continuity_input option \<Rightarrow> int \<Rightarrow> source_continuity option result" where
  "normalizeSourceContinuity given acceptedEnd =
     (case given of
        None \<Rightarrow> Inr None
      | Some evidence \<Rightarrow>
          if continuity_policyVersion evidence \<noteq> dvd_title_damage_source_continuity_policy_version
          then Inl (TypeError ''Invalid DVD source-continuity evidence'')
          else (case normalize_provenance acceptedEnd [] (continuity_provenance evidence) of
              Inl e \<Rightarrow> Inl e
            | Inr normalized \<Rightarrow>
                (let provenance = sort_key prov_discConfirmationId normalized;
                     riskRanges = sort_key (\<lambda>r. (startLba r, sectorCount r, risk_discConfirmationId r))
                       (provenance_risks provenance) in
                 if overlaps_from (-1) riskRanges
                 then Inl (TypeError ''Confirmed DVD recovery source ranges must not overlap'')
                 else Inr (Some
                   \<lparr>continuity_policyVersion = continuity_policyVersion evidence,
                    continuity_provenance = provenance,
                    sourceContinuityRiskSectorCount = sectorCount_of riskRanges\<rparr>))))"

definition sourceContinuityRiskRanges :: "source_continuity option \<Rightarrow> continuity_risk_range list" where
  "sourceContinuityRiskRanges sourceContinuity =
     (case sourceContinuity of None \<Rightarrow> [] | Some c \<Rightarrow> provenance_risks (continuity_provenance c))"

definition dvdTitleDamageAssessmentRequiresAcceptance :: "damage_assessment \<Rightarrow> bool" where
  "dvdTitleDamageAssessmentRequiresAcceptance a \<longleftrightarrow>
     \<not> noTitleMissingSourceProved a
     \<or> (case assessment_sourceContinuity a of None \<Rightarrow> 0 | Some c \<Rightarrow> sourceContinuityRiskSectorCount c) > 0"

section \<open>One title\<close>

definition normalizePathEntry :: "selected_path_entry \<Rightarrow> selected_path_entry result" where
  "normalizePathEntry entry =
     (case positiveSafeInteger (programNumber entry) ''DVD title program number'' of
        Inl e \<Rightarrow> Inl e
      | Inr program \<Rightarrow>
          (case positiveSafeInteger (cellNumber entry) ''DVD title cell number'' of
             Inl e \<Rightarrow> Inl e
           | Inr cell \<Rightarrow>
               (case positiveSafeInteger (vobId entry) ''DVD title VOB ID'' of
                  Inl e \<Rightarrow> Inl e
                | Inr vob \<Rightarrow>
                    (case positiveSafeInteger (cellId entry) ''DVD title cell ID'' of
                       Inl e \<Rightarrow> Inl e
                     | Inr cell_id \<Rightarrow> Inr \<lparr>programNumber = program, cellNumber = cell, vobId = vob,
                         cellId = cell_id\<rparr>))))"

definition normalizeSelection :: "playback_selection \<Rightarrow> playback_selection result" where
  "normalizeSelection s =
     (case map_result normalizePathEntry (selectedPath s) of
        Inl e \<Rightarrow> Inl e
      | Inr path \<Rightarrow>
          (case positiveSafeInteger (angleNumber s) ''DVD title angle number'' of
             Inl e \<Rightarrow> Inl e
           | Inr angle \<Rightarrow>
               (case positiveSafeInteger (chapterStart s) ''DVD title chapter start'' of
                  Inl e \<Rightarrow> Inl e
                | Inr first \<Rightarrow>
                    (case positiveSafeInteger (chapterEnd s) ''DVD title chapter end'' of
                       Inl e \<Rightarrow> Inl e
                     | Inr final \<Rightarrow>
                         if length path = 0 \<or> final < first
                         then Inl (TypeError ''Invalid concrete DVD title playback selection'')
                         else Inr \<lparr>selectedPath = path, angleNumber = angle, chapterStart = first,
                           chapterEnd = final\<rparr>))))"

definition checkReference :: "title_source_reference \<Rightarrow> title_source_reference result" where
  "checkReference r =
     (if reference_kind r \<noteq> Navigation \<and> reference_kind r \<noteq> Multiplexed_content
      then Inl (TypeError ''Invalid DVD title source reference kind'')
      else Inr \<lparr>startLba = startLba r, sectorCount = sectorCount r,
        reference_kind = reference_kind r\<rparr>)"

definition checkCoverage :: "bool \<Rightarrow> mapping_coverage \<Rightarrow> mapping_coverage result" where
  "checkCoverage structuralMapIsValid coverage =
     (if mapping_state coverage \<noteq> Complete \<and> mapping_state coverage \<noteq> Partial
      then Inl (TypeError ''Invalid DVD title source mapping coverage'')
      else if \<not> is_policy_name (mapping_policyVersion coverage)
      then Inl (TypeError ''Invalid DVD title source mapping policy version'')
      else case validateUnknownReasons (mapping_unknownReasons coverage) of
        Inl e \<Rightarrow> Inl e
      | Inr reasons \<Rightarrow>
          if mapping_state coverage = Complete \<and> (\<not> structuralMapIsValid \<or> length reasons > 0)
          then Inl (TypeError
            ''Complete title source coverage requires valid navigation and title enumeration'')
          else if mapping_state coverage = Partial \<and> length reasons = 0
          then Inl (TypeError ''Partial title source coverage requires an explicit unknown reason'')
          else Inr \<lparr>mapping_state = mapping_state coverage,
            mapping_policyVersion = mapping_policyVersion coverage,
            mapping_unknownReasons = reasons\<rparr>)"

definition titleSource ::
  "int \<Rightarrow> title_mapping \<Rightarrow> unreadable_sector_range list result" where
  "titleSource acceptedEnd title =
     (case map_result checkReference (sourceReferences title) of
        Inl e \<Rightarrow> Inl e
      | Inr references \<Rightarrow> normalizeRanges references acceptedEnd ''DVD title source reference'')"

definition title_item ::
  "dvd_unrecovered_source_range list \<Rightarrow> continuity_risk_range list \<Rightarrow> title_mapping \<Rightarrow> int \<Rightarrow>
     playback_selection \<Rightarrow> unreadable_sector_range list \<Rightarrow> timing_evidence option \<Rightarrow>
     mapping_coverage \<Rightarrow> assessment_item result" where
  "title_item unrecovered risks title display selection unique timing coverage =
     (let known = intersections unique unrecovered;
          missing = sectorCount_of known;
          knownRisks = intersections unique risks;
          denominator = (if mapping_state coverage = Complete then Some (sectorCount_of unique) else None) in
      case estimateAffectedPlayback timing known of
        Inl e \<Rightarrow> Inl e
      | Inr estimated \<Rightarrow> Inr
          \<lparr>item_titleIdentityId = titleIdentityId title,
           item_titleIdentityObservationId = titleIdentityObservationId title,
           item_displayTitleNumber = display,
           item_selection = selection,
           item_mappingCoverage = coverage,
           item_uniqueSourceRanges = unique,
           item_uniqueSourceSectorCount = denominator,
           item_knownUnrecoveredSourceRanges = known,
           item_unrecoveredUniqueSourceSectorCount = missing,
           item_titleMissingSourcePercentage =
             map_option (\<lambda>d. of_int missing / of_int d * 100) denominator,
           item_knownSourceContinuityRiskRanges = knownRisks,
           item_sourceContinuityRiskSectorCount = sectorCount_of knownRisks,
           item_timingEvidence = timing,
           item_estimatedAffectedPlayback = estimated\<rparr>)"

definition assessTitle ::
  "int \<Rightarrow> bool \<Rightarrow> dvd_unrecovered_source_range list \<Rightarrow> continuity_risk_range list \<Rightarrow>
     title_mapping \<Rightarrow> assessment_item result" where
  "assessTitle acceptedEnd structuralMapIsValid unrecovered risks title =
     (case positiveSafeInteger (displayTitleNumber title) ''DVD title display number'' of
        Inl e \<Rightarrow> Inl e
      | Inr display \<Rightarrow>
          (case normalizeSelection (title_selection title) of
             Inl e \<Rightarrow> Inl e
           | Inr selection \<Rightarrow>
               (case titleSource acceptedEnd title of
                  Inl e \<Rightarrow> Inl e
                | Inr unique \<Rightarrow>
                    (case normalizeTimingEvidence (title_timingEvidence title) unique acceptedEnd of
                       Inl e \<Rightarrow> Inl e
                     | Inr timing \<Rightarrow>
                         (case checkCoverage structuralMapIsValid (mappingCoverage title) of
                            Inl e \<Rightarrow> Inl e
                          | Inr coverage \<Rightarrow>
                              title_item unrecovered risks title display selection unique timing
                                coverage)))))"

fun assess_titles ::
  "(title_mapping \<Rightarrow> assessment_item result) \<Rightarrow> string list \<Rightarrow> string list \<Rightarrow>
     title_mapping list \<Rightarrow> assessment_item list result" where
  "assess_titles assess seenIdentities seenObservations [] = Inr []"
| "assess_titles assess seenIdentities seenObservations (title # titles) =
     (if \<not> boundedText (titleIdentityId title) 128
       \<or> \<not> boundedText (titleIdentityObservationId title) 128
       \<or> titleIdentityId title \<in> set seenIdentities
       \<or> titleIdentityObservationId title \<in> set seenObservations
      then Inl (TypeError ''Invalid or repeated DVD Title Identity reference'')
      else case assess title of
        Inl e \<Rightarrow> Inl e
      | Inr item \<Rightarrow>
          map_sum id (Cons item)
            (assess_titles assess (titleIdentityId title # seenIdentities)
              (titleIdentityObservationId title # seenObservations) titles))"

section \<open>The assessment\<close>

definition is_structural_identity :: "string \<Rightarrow> bool" where
  "is_structural_identity s \<longleftrightarrow>
     (let prefix = ''dvd-structural-assessment:'' in
      take (length prefix) s = prefix \<and> is_sha256_hex (drop (length prefix) s))"

definition dependency_identity_invalid :: "damage_assessment_input \<Rightarrow> bool" where
  "dependency_identity_invalid i \<longleftrightarrow>
     \<not> is_sha256_hex (input_titleIdentityReviewSetIdentity i)
     \<or> (case input_catalogMappingProjectionId i of None \<Rightarrow> False | Some p \<Rightarrow> \<not> is_sha256_hex p)
     \<or> \<not> is_structural_identity (input_structuralAssessmentIdentity i)"

definition structuralMapIsValid :: "structural_findings \<Rightarrow> bool" where
  "structuralMapIsValid f \<longleftrightarrow> dvdNavigation f = Valid \<and> titleEnumeration f = Valid"

definition knownTitleSource ::
  "int \<Rightarrow> assessment_item list \<Rightarrow> unreadable_sector_range list result" where
  "knownTitleSource acceptedEnd items =
     (let inputs = concat (map item_uniqueSourceRanges items) in
      if length inputs = 0 then Inr []
      else normalizeRanges inputs acceptedEnd ''Known DVD title source range'')"

definition impactReasons :: "structural_findings \<Rightarrow> assessment_item list \<Rightarrow> unknown_reason list" where
  "impactReasons findings items =
     (if dvdNavigation findings \<noteq> Valid
      then [\<lparr>reason_code = ''DVD_NAVIGATION_NOT_PROVED'',
             reason_message = ''DVD navigation is not proved for this checkpoint.''\<rparr>] else [])
     @ (if titleEnumeration findings \<noteq> Valid
        then [\<lparr>reason_code = ''TITLE_ENUMERATION_NOT_PROVED'',
               reason_message = ''Title enumeration is not proved for this checkpoint.''\<rparr>] else [])
     @ (if list_ex (\<lambda>item. mapping_state (item_mappingCoverage item) = Partial) items
        then [\<lparr>reason_code = ''TITLE_SOURCE_MAP_INCOMPLETE'',
               reason_message =
                 ''At least one selected title path has incomplete source coverage.''\<rparr>] else [])"

definition conclude ::
  "damage_assessment_input \<Rightarrow> dvd_unrecovered_source_range list \<Rightarrow> source_continuity option \<Rightarrow>
     assessment_item list \<Rightarrow> damage_assessment result" where
  "conclude i unrecovered continuity items =
     (if list_ex (\<lambda>item. item_timingEvidence item = None) items
       \<and> list_ex (\<lambda>item. item_timingEvidence item \<noteq> None) items
      then Inl (TypeError
        ''DVD Title Damage Assessment cannot mix legacy and current timing evidence'')
      else case knownTitleSource (checkpoint_acceptedEndLbaExclusive (input_checkpoint i)) items of
        Inl e \<Rightarrow> Inl e
      | Inr knownTitleSourceRanges \<Rightarrow>
          (case validateUnknownReasons (impactReasons (input_structuralFindings i) items) of
             Inl e \<Rightarrow> Inl e
           | Inr reasons \<Rightarrow>
               (let unknownRanges = subtractRanges unrecovered knownTitleSourceRanges;
                    impact = \<lparr>impact_unrecoveredSourceSectorCount = sectorCount_of unknownRanges,
                      impact_unrecoveredSourceRanges = unknownRanges, impact_reasons = reasons\<rparr>;
                    unattributed = subtractRanges (sourceContinuityRiskRanges continuity)
                      knownTitleSourceRanges in
                if continuity = None \<and> list_ex (\<lambda>item. item_timingEvidence item \<noteq> None) items
                then Inl (TypeError
                  ''Current DVD title timing evidence requires source-continuity evidence'')
                else Inr
                  \<lparr>assessment_checkpoint = input_checkpoint i,
                   assessment_titleIdentityReviewSetIdentity = input_titleIdentityReviewSetIdentity i,
                   assessment_structuralAssessmentIdentity = input_structuralAssessmentIdentity i,
                   assessment_structuralFindings = input_structuralFindings i,
                   assessment_sourceContinuity = continuity,
                   assessment_items = items,
                   assessment_unknownTitleImpact = impact,
                   assessment_unattributedSourceContinuityRisk =
                     (if continuity = None then None else Some
                       \<lparr>unattributed_sourceSectorCount = sectorCount_of unattributed,
                        unattributed_sourceRanges = unattributed\<rparr>),
                   noTitleMissingSourceProved =
                     structuralMapIsValid (input_structuralFindings i)
                     \<and> list_all (\<lambda>item. mapping_state (item_mappingCoverage item) = Complete
                          \<and> item_unrecoveredUniqueSourceSectorCount item = 0) items
                     \<and> impact_unrecoveredSourceSectorCount impact = 0\<rparr>)))"

definition createDvdTitleDamageAssessment :: "damage_assessment_input \<Rightarrow> damage_assessment result" where
  "createDvdTitleDamageAssessment i =
     (case validateCheckpoint (input_checkpoint i) of
        Inl e \<Rightarrow> Inl e
      | Inr checkpoint \<Rightarrow>
          if dependency_identity_invalid i
          then Inl (TypeError ''Invalid DVD Title Damage Assessment dependency identity'')
          else (let acceptedEnd = checkpoint_acceptedEndLbaExclusive checkpoint in
            case validateUnrecoveredRanges (input_unrecoveredSourceRanges i) acceptedEnd of
              Inl e \<Rightarrow> Inl e
            | Inr unrecovered \<Rightarrow>
                (case normalizeSourceContinuity (input_sourceContinuity i) acceptedEnd of
                   Inl e \<Rightarrow> Inl e
                 | Inr continuity \<Rightarrow>
                     (case assess_titles (assessTitle acceptedEnd
                             (structuralMapIsValid (input_structuralFindings i)) unrecovered
                             (sourceContinuityRiskRanges continuity)) [] [] (input_titles i) of
                        Inl e \<Rightarrow> Inl e
                      | Inr items \<Rightarrow>
                          conclude i unrecovered continuity
                            (sort_key (\<lambda>item. (item_displayTitleNumber item,
                               item_titleIdentityObservationId item)) items)))))"

section \<open>Lemmas: disjoint ranges\<close>

lemma pieces_of_covered: "pieces_of r ps \<Longrightarrow> covered ps \<subseteq> lbas r"
  by (fastforce simp: pieces_of_def covered_def mem_lbas)

lemma disjoint_pieces:
  assumes "disjoint_ranges rs" and "\<forall>r \<in> set rs. pieces_of r (f r)"
  shows "disjoint_ranges (concat (map f rs))"
  using assms
proof (induction rs)
  case (Cons r rs)
  have "covered (f r) \<subseteq> lbas r" using Cons.prems(2) by (simp add: pieces_of_covered)
  moreover have "covered (concat (map f rs)) \<subseteq> covered rs"
    using Cons.prems(2) by (simp add: covered_concat covered_def [of rs]) (blast dest: pieces_of_covered)
  moreover have "disjoint_ranges (f r)"
    using Cons.prems(2) by (simp add: pieces_of_def ascending_disjoint)
  ultimately show ?case
    using Cons by (auto simp: disjoint_ranges_append disjoint_ranges_Cons)
qed simp

lemma disjoint_subtractRanges:
  assumes "disjoint_ranges target" and "\<forall>k \<in> set known. 0 < sectorCount k"
  shows "disjoint_ranges (subtractRanges target known)"
  unfolding subtractRanges_def using assms(2)
  by (intro disjoint_pieces [OF assms(1)] ballI pieces_of_subtract_fold)
    (use assms(1) in \<open>auto simp: disjoint_ranges_def intro: pieces_of_self\<close>)

lemma disjoint_intersections:
  assumes "ascending source" and "disjoint_ranges target"
  shows "disjoint_ranges (intersections source target)"
  using assms(1)
proof (induction source)
  case Nil
  then show ?case by (simp add: intersections_def)
next
  case (Cons s source)
  let ?here = "concat (map (intersectRange s) target)"
  have "disjoint_ranges ?here"
    by (rule disjoint_pieces [OF assms(2)])
      (use assms(2) in \<open>auto simp: disjoint_ranges_def intro: pieces_of_intersectRange\<close>)
  moreover have "covered ?here \<subseteq> lbas s" by (auto simp: covered_concat covered_intersectRange)
  moreover have "covered (intersections source target) \<subseteq> covered source"
    by (simp add: covered_intersections)
  moreover have "intersections (s # source) target = ?here @ intersections source target"
    by (simp add: intersections_def)
  ultimately show ?case
    using Cons ascending_disjoint_head [OF Cons.prems] by (auto simp: disjoint_ranges_append ascending_Cons)
qed

section \<open>Lemmas: source continuity\<close>

lemma normalize_provenance_Inr:
  assumes "normalize_provenance n seen entries = Inr out"
  shows "list_all2 (\<lambda>given entry.
        normalizeRanges (prov_recoveredSourceRanges given) n ''Confirmed DVD recovery source range''
          = Inr (prov_recoveredSourceRanges entry)
        \<and> entry = given\<lparr>prov_recoveredSourceRanges := prov_recoveredSourceRanges entry\<rparr>) entries out
    \<and> distinct (map prov_discConfirmationId out)
    \<and> prov_discConfirmationId ` set out \<inter> set seen = {}"
  using assms
proof (induction entries arbitrary: seen out)
  case Nil
  then show ?case by simp
next
  case (Cons entry entries)
  from Cons.prems obtain ranges rest where fresh: "prov_discConfirmationId entry \<notin> set seen"
    and ranges: "normalizeRanges (prov_recoveredSourceRanges entry) n
      ''Confirmed DVD recovery source range'' = Inr ranges"
    and rest: "normalize_provenance n (prov_discConfirmationId entry # seen) entries = Inr rest"
    and out: "out = entry\<lparr>prov_recoveredSourceRanges := ranges\<rparr> # rest"
    by (auto simp: provenance_invalid_def if_error_Inr bind_error_Inr map_sum_Inr)
  from Cons.IH [OF rest] fresh ranges out show ?case by auto
qed

lemma overlaps_from_ascending:
  assumes "\<forall>r \<in> set rs. proper_range r"
  shows "\<not> overlaps_from p rs \<longleftrightarrow> ascending rs \<and> (\<forall>r \<in> set rs. p \<le> startLba r)"
  using assms
proof (induction rs arbitrary: p)
  case (Cons r rs)
  then show ?case
    by (fastforce simp: ascending_Cons rangeEnd_def proper_range_def)
qed simp

lemma covered_provenance_risks:
  "covered (provenance_risks ps) = (\<Union>p \<in> set ps. covered (prov_recoveredSourceRanges p))"
  by (auto simp: provenance_risks_def covered_def lbas_def rangeEnd_def)

lemma provenance_risks_proper:
  "\<forall>p \<in> set ps. \<forall>r \<in> set (prov_recoveredSourceRanges p). proper_range r \<Longrightarrow>
     \<forall>r \<in> set (provenance_risks ps). proper_range r"
  by (auto simp: provenance_risks_def proper_range_def)

text \<open>The recovered ranges a normalised continuity names are disjoint, and all are counted.\<close>

definition recovered_source :: "continuity_input option \<Rightarrow> int set" where
  "recovered_source given =
     (case given of None \<Rightarrow> {}
      | Some evidence \<Rightarrow> \<Union>p \<in> set (continuity_provenance evidence). covered (prov_recoveredSourceRanges p))"

lemma normalizeSourceContinuity_Inr:
  assumes "normalizeSourceContinuity given n = Inr continuity"
  shows "disjoint_ranges (sourceContinuityRiskRanges continuity)"
    and "covered (sourceContinuityRiskRanges continuity) = recovered_source given"
    and "continuity = None \<longleftrightarrow> given = None"
    and "continuity = Some c \<Longrightarrow> sourceContinuityRiskSectorCount c = int (card (recovered_source given))"
proof -
  have "disjoint_ranges (sourceContinuityRiskRanges continuity)
    \<and> covered (sourceContinuityRiskRanges continuity) = recovered_source given
    \<and> (continuity = None \<longleftrightarrow> given = None)
    \<and> (\<forall>c. continuity = Some c \<longrightarrow>
         sourceContinuityRiskSectorCount c = sectorCount_of (sourceContinuityRiskRanges continuity))"
  proof (cases given)
    case None
    with assms show ?thesis
      by (simp add: normalizeSourceContinuity_def sourceContinuityRiskRanges_def recovered_source_def)
  next
    case (Some evidence)
    let ?sorted = "\<lambda>ps. sort_key (\<lambda>r. (startLba r, sectorCount r, risk_discConfirmationId r))
      (provenance_risks (sort_key prov_discConfirmationId ps))"
    from assms Some obtain ps where
      ps: "normalize_provenance n [] (continuity_provenance evidence) = Inr ps"
      and no_overlap: "\<not> overlaps_from (-1) (?sorted ps)"
      and continuity: "continuity = Some \<lparr>continuity_policyVersion = continuity_policyVersion evidence,
          continuity_provenance = sort_key prov_discConfirmationId ps,
          sourceContinuityRiskSectorCount = sectorCount_of (?sorted ps)\<rparr>"
      by (auto simp: normalizeSourceContinuity_def Let_def if_error_Inr bind_error_Inr)
    have normalized: "list_all2 (\<lambda>given entry. separated (prov_recoveredSourceRanges entry)
        \<and> covered (prov_recoveredSourceRanges entry) = covered (prov_recoveredSourceRanges given))
        (continuity_provenance evidence) ps"
      using normalize_provenance_Inr [OF ps]
      by (auto elim!: list_all2_mono dest: normalizeRanges_Inr(3) normalizeRanges_Inr(4))
    then have "\<forall>p \<in> set ps. separated (prov_recoveredSourceRanges p)"
      by (auto simp: list_all2_conv_all_nth in_set_conv_nth)
    then have "\<forall>r \<in> set (?sorted ps). proper_range r"
      using provenance_risks_proper [of "sort_key prov_discConfirmationId ps"] by (simp add: separated_def)
    with no_overlap have "disjoint_ranges (?sorted ps)"
      by (simp add: overlaps_from_ascending ascending_disjoint)
    then have disjoint: "disjoint_ranges (provenance_risks (sort_key prov_discConfirmationId ps))"
      by (rule disjoint_ranges_mset [THEN iffD1, rotated]) simp
    have "(\<Union>p \<in> set ps. covered (prov_recoveredSourceRanges p))
        = (\<Union>p \<in> set (continuity_provenance evidence). covered (prov_recoveredSourceRanges p))"
      using normalized by (induction rule: list_all2_induct) auto
    moreover have "sectorCount_of (?sorted ps)
        = sectorCount_of (provenance_risks (sort_key prov_discConfirmationId ps))"
      by (rule sectorCount_of_mset) simp
    ultimately show ?thesis
      using disjoint continuity Some
      by (simp add: sourceContinuityRiskRanges_def recovered_source_def covered_provenance_risks)
  qed
  then show "disjoint_ranges (sourceContinuityRiskRanges continuity)"
    and "covered (sourceContinuityRiskRanges continuity) = recovered_source given"
    and "continuity = None \<longleftrightarrow> given = None"
    and "continuity = Some c \<Longrightarrow> sourceContinuityRiskSectorCount c = int (card (recovered_source given))"
    using disjoint_sectorCount by metis+
qed
section \<open>Lemmas: one title\<close>

lemma checkCoverage_Inr:
  assumes "checkCoverage valid c = Inr d"
  shows "mapping_state d = mapping_state c"
    and "mapping_state c = Complete \<and> valid \<and> mapping_unknownReasons d = []
      \<or> mapping_state c = Partial \<and> mapping_unknownReasons d \<noteq> []"
  using assms by (auto simp: checkCoverage_def if_error_Inr bind_error_Inr)

lemma checkReference_Inr: "checkReference r = Inr q \<Longrightarrow> q = r"
  by (cases r) (auto simp: checkReference_def split: if_splits)

lemma titleSource_Inr:
  assumes "titleSource n title = Inr unique"
  shows "normalizeRanges (sourceReferences title) n ''DVD title source reference'' = Inr unique"
proof -
  from assms obtain refs where refs: "map_result checkReference (sourceReferences title) = Inr refs"
    and unique: "normalizeRanges refs n ''DVD title source reference'' = Inr unique"
    by (auto simp: titleSource_def bind_error_Inr)
  from refs have "list_all2 (\<lambda>r q. q = r) (sourceReferences title) refs"
    unfolding map_result_Inr_iff by (rule list_all2_mono) (rule checkReference_Inr)
  then have "refs = sourceReferences title" by (simp add: list_all2_conv_all_nth list_eq_iff_nth_eq)
  with unique show ?thesis by simp
qed

text \<open>What an item states about its title.\<close>

definition assessed ::
  "int \<Rightarrow> bool \<Rightarrow> dvd_unrecovered_source_range list \<Rightarrow> continuity_risk_range list \<Rightarrow>
     title_mapping \<Rightarrow> assessment_item \<Rightarrow> bool" where
  "assessed n valid unrecovered risks title item \<longleftrightarrow>
     item_titleIdentityId item = titleIdentityId title
     \<and> item_titleIdentityObservationId item = titleIdentityObservationId title
     \<and> item_displayTitleNumber item = displayTitleNumber title
     \<and> mapping_state (item_mappingCoverage item) = mapping_state (mappingCoverage title)
     \<and> (mapping_state (mappingCoverage title) = Complete \<and> valid
        \<or> mapping_state (mappingCoverage title) = Partial)
     \<and> item_uniqueSourceRanges item \<noteq> [] \<and> separated (item_uniqueSourceRanges item)
     \<and> (\<forall>r \<in> set (item_uniqueSourceRanges item). within_extent n r)
     \<and> covered (item_uniqueSourceRanges item) = covered (sourceReferences title)
     \<and> item_uniqueSourceSectorCount item =
         (if mapping_state (mappingCoverage title) = Complete
          then Some (sectorCount_of (item_uniqueSourceRanges item)) else None)
     \<and> item_knownUnrecoveredSourceRanges item = intersections (item_uniqueSourceRanges item) unrecovered
     \<and> item_unrecoveredUniqueSourceSectorCount item
         = sectorCount_of (item_knownUnrecoveredSourceRanges item)
     \<and> item_titleMissingSourcePercentage item =
         map_option (\<lambda>d. of_int (item_unrecoveredUniqueSourceSectorCount item) / of_int d * 100)
           (item_uniqueSourceSectorCount item)
     \<and> item_knownSourceContinuityRiskRanges item = intersections (item_uniqueSourceRanges item) risks
     \<and> item_sourceContinuityRiskSectorCount item
         = sectorCount_of (item_knownSourceContinuityRiskRanges item)
     \<and> normalizeTimingEvidence (title_timingEvidence title) (item_uniqueSourceRanges item) n
         = Inr (item_timingEvidence item)
     \<and> estimateAffectedPlayback (item_timingEvidence item) (item_knownUnrecoveredSourceRanges item)
         = Inr (item_estimatedAffectedPlayback item)"

lemma within_lbas: "lbas r \<subseteq> {0 ..< n}" if "within_extent n r"
  using that by (auto simp: within_extent_def proper_range_def mem_lbas)

lemma normalized_within:
  assumes "normalizeRanges rs n l = Inr out" and "r \<in> set out"
  shows "within_extent n r"
proof -
  note facts = normalizeRanges_Inr [OF assms(1)]
  have r: "proper_range r" "lbas r \<subseteq> covered rs"
    using facts(3,4) assms(2) by (auto simp: separated_def covered_def)
  then have "rangeEnd r - 1 \<in> covered rs" by (auto simp: mem_lbas proper_range_def rangeEnd_def)
  then obtain q where q: "q \<in> set rs" "rangeEnd r - 1 < rangeEnd q"
    by (auto simp: covered_def mem_lbas)
  with facts(2) r(1) show ?thesis
    by (auto simp: within_extent_def proper_range_def rangeEnd_def is_safe_integer_def)
qed

lemma assessTitle_assessed:
  assumes "assessTitle n valid unrecovered risks title = Inr item"
  shows "assessed n valid unrecovered risks title item"
proof -
  from assms obtain selection unique timing coverage where
    source: "titleSource n title = Inr unique"
    and timing: "normalizeTimingEvidence (title_timingEvidence title) unique n = Inr timing"
    and coverage: "checkCoverage valid (mappingCoverage title) = Inr coverage"
    and item: "title_item unrecovered risks title (displayTitleNumber title) selection unique timing
      coverage = Inr item"
    by (auto simp: assessTitle_def bind_error_Inr positiveSafeInteger_Inr)
  note unique = normalizeRanges_Inr [OF titleSource_Inr [OF source]]
  have within: "\<forall>r \<in> set unique. within_extent n r"
    using normalized_within [OF titleSource_Inr [OF source]] by blast
  have nonempty: "unique \<noteq> []"
  proof
    assume "unique = []"
    with unique have "covered (sourceReferences title) = {}"
      and "\<forall>r \<in> set (sourceReferences title). proper_range r"
      by (simp_all add: within_extent_def)
    with unique(1) show False by (simp add: covered_empty_iff)
  qed
  show ?thesis
    using item checkCoverage_Inr [OF coverage] timing unique(3,4) within nonempty
    by (auto simp: title_item_def assessed_def Let_def bind_error_Inr)
qed

text \<open>The loop over the titles.\<close>

lemma assess_titles_Inr:
  "assess_titles assess ids obs titles = Inr items \<longleftrightarrow>
     list_all2 (\<lambda>t i. assess t = Inr i) titles items
     \<and> distinct (map titleIdentityId titles) \<and> distinct (map titleIdentityObservationId titles)
     \<and> titleIdentityId ` set titles \<inter> set ids = {}
     \<and> titleIdentityObservationId ` set titles \<inter> set obs = {}
     \<and> (\<forall>t \<in> set titles. boundedText (titleIdentityId t) 128
          \<and> boundedText (titleIdentityObservationId t) 128)"
proof (induction titles arbitrary: ids obs items)
  case (Cons t titles)
  have "assess_titles assess ids obs (t # titles) = Inr items \<longleftrightarrow>
      boundedText (titleIdentityId t) 128 \<and> boundedText (titleIdentityObservationId t) 128
      \<and> titleIdentityId t \<notin> set ids \<and> titleIdentityObservationId t \<notin> set obs
      \<and> (\<exists>i rest. assess t = Inr i \<and> items = i # rest
          \<and> assess_titles assess (titleIdentityId t # ids) (titleIdentityObservationId t # obs) titles
            = Inr rest)"
    by (auto simp: if_error_Inr bind_error_Inr map_sum_Inr)
  then show ?case unfolding Cons.IH by (auto simp: list_all2_Cons1)
qed auto
section \<open>Lemmas: the assessment\<close>

definition title_source :: "damage_assessment_input \<Rightarrow> int set" where
  "title_source i = (\<Union>t \<in> set (input_titles i). covered (sourceReferences t))"

abbreviation "accepted_end i \<equiv> checkpoint_acceptedEndLbaExclusive (input_checkpoint i)"

abbreviation "item_order \<equiv>
  (\<lambda>item. (item_displayTitleNumber item, item_titleIdentityObservationId item))"

abbreviation "title_assessment i continuity \<equiv>
  assessTitle (accepted_end i) (structuralMapIsValid (input_structuralFindings i))
    (input_unrecoveredSourceRanges i) (sourceContinuityRiskRanges continuity)"

lemma create_Inr:
  "createDvdTitleDamageAssessment i = Inr a \<longleftrightarrow>
     validateCheckpoint (input_checkpoint i) = Inr (input_checkpoint i)
     \<and> \<not> dependency_identity_invalid i
     \<and> validateUnrecoveredRanges (input_unrecoveredSourceRanges i) (accepted_end i)
         = Inr (input_unrecoveredSourceRanges i)
     \<and> (\<exists>continuity items.
         normalizeSourceContinuity (input_sourceContinuity i) (accepted_end i) = Inr continuity
         \<and> assess_titles (title_assessment i continuity) [] [] (input_titles i) = Inr items
         \<and> conclude i (input_unrecoveredSourceRanges i) continuity (sort_key item_order items) = Inr a)"
proof -
  have checkpoint: "validateCheckpoint c = Inr d \<longleftrightarrow> d = c \<and> validateCheckpoint c = Inr c" for c d
    by (auto simp: validateCheckpoint_def)
  have unrecovered: "validateUnrecoveredRanges rs n = Inr out \<longleftrightarrow>
      out = rs \<and> validateUnrecoveredRanges rs n = Inr rs" for rs n out
    by (auto simp: validateUnrecoveredRanges_Inr)
  show ?thesis
    unfolding createDvdTitleDamageAssessment_def Let_def bind_error_Inr if_error_Inr
    by (subst checkpoint, subst unrecovered) auto
qed

text \<open>What the conclusion puts together.\<close>

lemma conclude_Inr:
  assumes "conclude i unrecovered continuity items = Inr a"
  obtains known where "knownTitleSource (accepted_end i) items = Inr known"
    and "assessment_items a = items" and "assessment_sourceContinuity a = continuity"
    and "assessment_structuralFindings a = input_structuralFindings i"
    and "impact_unrecoveredSourceRanges (assessment_unknownTitleImpact a) = subtractRanges unrecovered known"
    and "impact_unrecoveredSourceSectorCount (assessment_unknownTitleImpact a)
      = sectorCount_of (subtractRanges unrecovered known)"
    and "assessment_unattributedSourceContinuityRisk a = (if continuity = None then None else Some
      \<lparr>unattributed_sourceSectorCount
         = sectorCount_of (subtractRanges (sourceContinuityRiskRanges continuity) known),
       unattributed_sourceRanges = subtractRanges (sourceContinuityRiskRanges continuity) known\<rparr>)"
    and "noTitleMissingSourceProved a \<longleftrightarrow> structuralMapIsValid (input_structuralFindings i)
      \<and> (\<forall>item \<in> set items. mapping_state (item_mappingCoverage item) = Complete
           \<and> item_unrecoveredUniqueSourceSectorCount item = 0)
      \<and> sectorCount_of (subtractRanges unrecovered known) = 0"
    and "continuity = None \<Longrightarrow> \<forall>item \<in> set items. item_timingEvidence item = None"
  using assms that
  by (auto simp: conclude_def Let_def if_error_Inr bind_error_Inr list_ex_iff list_all_iff)

lemma knownTitleSource_covered:
  assumes "knownTitleSource n items = Inr known"
  shows "ascending known"
    and "covered known = (\<Union>item \<in> set items. covered (item_uniqueSourceRanges item))"
proof -
  let ?inputs = "concat (map item_uniqueSourceRanges items)"
  have "ascending known \<and> covered known = covered ?inputs"
  proof (cases "?inputs = []")
    case True
    with assms have "known = []" by (simp add: knownTitleSource_def Let_def del: concat_eq_Nil_conv)
    then show ?thesis unfolding True by simp
  next
    case False
    with assms have "normalizeRanges ?inputs n ''Known DVD title source range'' = Inr known"
      by (simp add: knownTitleSource_def Let_def del: concat_eq_Nil_conv)
    from normalizeRanges_Inr(3,4) [OF this] show ?thesis by (simp add: separated_ascending)
  qed
  then show "ascending known"
    and "covered known = (\<Union>item \<in> set items. covered (item_uniqueSourceRanges item))"
    by (simp_all add: covered_concat)
qed

definition item_of_title ::
  "damage_assessment_input \<Rightarrow> source_continuity option \<Rightarrow> title_mapping \<Rightarrow> assessment_item \<Rightarrow> bool" where
  "item_of_title i continuity title item \<longleftrightarrow>
     assessed (accepted_end i) (structuralMapIsValid (input_structuralFindings i))
       (input_unrecoveredSourceRanges i) (sourceContinuityRiskRanges continuity) title item"

lemma create_parts:
  assumes "createDvdTitleDamageAssessment i = Inr a"
  shows "ascending (input_unrecoveredSourceRanges i)"
    and "normalizeSourceContinuity (input_sourceContinuity i) (accepted_end i)
      = Inr (assessment_sourceContinuity a)"
    and "\<forall>item \<in> set (assessment_items a). \<exists>t \<in> set (input_titles i).
      item_of_title i (assessment_sourceContinuity a) t item"
    and "\<forall>t \<in> set (input_titles i). \<exists>item \<in> set (assessment_items a).
      item_of_title i (assessment_sourceContinuity a) t item"
    and "(\<Union>item \<in> set (assessment_items a). covered (item_uniqueSourceRanges item)) = title_source i"
    and "\<exists>known. ascending known \<and> covered known = title_source i \<and>
      conclude i (input_unrecoveredSourceRanges i) (assessment_sourceContinuity a) (assessment_items a)
        = Inr a \<and> knownTitleSource (accepted_end i) (assessment_items a) = Inr known"
proof -
  from assms [unfolded create_Inr] obtain continuity items where
    unrecovered: "validateUnrecoveredRanges (input_unrecoveredSourceRanges i) (accepted_end i)
      = Inr (input_unrecoveredSourceRanges i)"
    and continuity: "normalizeSourceContinuity (input_sourceContinuity i) (accepted_end i) = Inr continuity"
    and items: "assess_titles (title_assessment i continuity) [] [] (input_titles i) = Inr items"
    and conclude: "conclude i (input_unrecoveredSourceRanges i) continuity (sort_key item_order items) = Inr a"
    by blast
  from conclude obtain known where known: "knownTitleSource (accepted_end i) (sort_key item_order items) = Inr known"
    and a: "assessment_items a = sort_key item_order items" "assessment_sourceContinuity a = continuity"
    by (rule conclude_Inr)
  show "ascending (input_unrecoveredSourceRanges i)"
    using unrecovered by (simp add: validateUnrecoveredRanges_Inr)
  show "normalizeSourceContinuity (input_sourceContinuity i) (accepted_end i)
      = Inr (assessment_sourceContinuity a)" using continuity a by simp
  have pairs: "list_all2 (item_of_title i continuity) (input_titles i) items"
    using items [unfolded assess_titles_Inr]
    by (auto simp: item_of_title_def elim!: list_all2_mono intro: assessTitle_assessed)
  then have to_title: "\<forall>item \<in> set items. \<exists>t \<in> set (input_titles i). item_of_title i continuity t item"
    and to_item: "\<forall>t \<in> set (input_titles i). \<exists>item \<in> set items. item_of_title i continuity t item"
    by (fastforce simp: list_all2_conv_all_nth in_set_conv_nth)+
  then show "\<forall>item \<in> set (assessment_items a). \<exists>t \<in> set (input_titles i).
      item_of_title i (assessment_sourceContinuity a) t item"
    and "\<forall>t \<in> set (input_titles i). \<exists>item \<in> set (assessment_items a).
      item_of_title i (assessment_sourceContinuity a) t item"
    using a by simp_all
  have same: "covered (item_uniqueSourceRanges item) = covered (sourceReferences t)"
    if "item_of_title i continuity t item" for t item
    using that by (simp add: item_of_title_def assessed_def)
  show source: "(\<Union>item \<in> set (assessment_items a). covered (item_uniqueSourceRanges item)) = title_source i"
  proof (intro equalityI subsetI)
    fix x assume "x \<in> (\<Union>item \<in> set (assessment_items a). covered (item_uniqueSourceRanges item))"
    with a to_title same show "x \<in> title_source i" by (fastforce simp: title_source_def)
  next
    fix x assume "x \<in> title_source i"
    with a to_item same show "x \<in> (\<Union>item \<in> set (assessment_items a). covered (item_uniqueSourceRanges item))"
      by (fastforce simp: title_source_def)
  qed
  show "\<exists>known. ascending known \<and> covered known = title_source i \<and>
      conclude i (input_unrecoveredSourceRanges i) (assessment_sourceContinuity a) (assessment_items a)
        = Inr a \<and> knownTitleSource (accepted_end i) (assessment_items a) = Inr known"
    using knownTitleSource_covered [OF known] known conclude a source by auto
qed
lemma create_no_title_missing:
  assumes "createDvdTitleDamageAssessment i = Inr a"
  shows "noTitleMissingSourceProved a \<longleftrightarrow>
    structuralMapIsValid (input_structuralFindings i)
    \<and> (\<forall>t \<in> set (input_titles i). mapping_state (mappingCoverage t) = Complete)
    \<and> input_unrecoveredSourceRanges i = []"
proof -
  let ?unrecovered = "input_unrecoveredSourceRanges i"
  note parts = create_parts [OF assms]
  from parts(6) obtain known where known: "ascending known" "covered known = title_source i"
    and concluded: "conclude i ?unrecovered (assessment_sourceContinuity a) (assessment_items a) = Inr a"
    and source: "knownTitleSource (accepted_end i) (assessment_items a) = Inr known" by blast
  have proved: "noTitleMissingSourceProved a \<longleftrightarrow> structuralMapIsValid (input_structuralFindings i)
      \<and> (\<forall>item \<in> set (assessment_items a). mapping_state (item_mappingCoverage item) = Complete
           \<and> item_unrecoveredUniqueSourceSectorCount item = 0)
      \<and> sectorCount_of (subtractRanges ?unrecovered known) = 0"
    by (rule conclude_Inr [OF concluded]) (simp add: source)
  have "ascending (subtractRanges ?unrecovered known)"
    using parts(1) known(1) by (intro ascending_subtractRanges) (auto simp: ascending_def proper_range_def)
  then have rest: "sectorCount_of (subtractRanges ?unrecovered known) = 0 \<longleftrightarrow>
      covered ?unrecovered \<subseteq> title_source i"
    by (simp add: sectorCount_of_card covered_subtractRanges known(2))
  have missing: "item_unrecoveredUniqueSourceSectorCount item = 0 \<longleftrightarrow>
      covered (item_uniqueSourceRanges item) \<inter> covered ?unrecovered = {}"
    if "item \<in> set (assessment_items a)" for item
  proof -
    have "separated (item_uniqueSourceRanges item)"
      and "item_unrecoveredUniqueSourceSectorCount item
        = sectorCount_of (intersections (item_uniqueSourceRanges item) ?unrecovered)"
      using parts(3) that by (auto simp: item_of_title_def assessed_def)
    with parts(1) show ?thesis
      by (simp add: sectorCount_of_card ascending_intersections separated_ascending covered_intersections)
  qed
  have complete: "(\<forall>item \<in> set (assessment_items a). mapping_state (item_mappingCoverage item) = Complete)
      \<longleftrightarrow> (\<forall>t \<in> set (input_titles i). mapping_state (mappingCoverage t) = Complete)"
    using parts(3,4) unfolding item_of_title_def assessed_def by metis
  have "(\<forall>item \<in> set (assessment_items a).
        covered (item_uniqueSourceRanges item) \<inter> covered ?unrecovered = {}) \<longleftrightarrow>
      title_source i \<inter> covered ?unrecovered = {}"
    unfolding parts(5) [symmetric] by blast
  then have "(\<forall>item \<in> set (assessment_items a). item_unrecoveredUniqueSourceSectorCount item = 0)
      \<and> sectorCount_of (subtractRanges ?unrecovered known) = 0 \<longleftrightarrow> covered ?unrecovered = {}"
    using missing rest by auto
  moreover have "covered ?unrecovered = {} \<longleftrightarrow> ?unrecovered = []"
    using parts(1) by (simp add: ascending_def covered_empty_iff)
  ultimately show ?thesis using proved complete by blast
qed

section \<open>Properties\<close>

text \<open>
  C33: A disc is proved free of missing title source exactly when its navigation and title
  enumeration are valid, every selected title has complete source coverage, and no sector at all
  is unrecovered: damage outside every title refutes the proof as much as damage inside one.
\<close>

theorem no_title_missing_source_proved_exactly:
  assumes "createDvdTitleDamageAssessment i = Inr a"
  shows "noTitleMissingSourceProved a \<longleftrightarrow>
    dvdNavigation (input_structuralFindings i) = Valid
    \<and> titleEnumeration (input_structuralFindings i) = Valid
    \<and> (\<forall>t \<in> set (input_titles i). mapping_state (mappingCoverage t) = Complete)
    \<and> input_unrecoveredSourceRanges i = []"
  using create_no_title_missing [OF assms] by (auto simp: structuralMapIsValid_def)

definition example_digest :: string where
  "example_digest = replicate 64 CHR ''a''"

definition example_title :: "string \<Rightarrow> int \<Rightarrow> title_source_reference list \<Rightarrow> mapping_coverage \<Rightarrow>
    timing_evidence option \<Rightarrow> title_mapping" where
  "example_title name number references coverage timing =
     \<lparr>titleIdentityId = name, titleIdentityObservationId = name @ ''-seen'',
      displayTitleNumber = number,
      title_selection = \<lparr>selectedPath = [\<lparr>programNumber = 1, cellNumber = 1, vobId = 1, cellId = 1\<rparr>],
        angleNumber = 1, chapterStart = 1, chapterEnd = 4\<rparr>,
      sourceReferences = references, mappingCoverage = coverage, title_timingEvidence = timing\<rparr>"

definition example_titles :: "title_mapping list" where
  "example_titles =
     [example_title ''main'' 2
        [\<lparr>startLba = 0, sectorCount = 60, reference_kind = Navigation\<rparr>,
         \<lparr>startLba = 40, sectorCount = 60, reference_kind = Multiplexed_content\<rparr>]
        \<lparr>mapping_state = Complete, mapping_policyVersion = ''map-v1'', mapping_unknownReasons = []\<rparr>
        (Some example_timing),
      example_title ''extra'' 1
        [\<lparr>startLba = 120, sectorCount = 10, reference_kind = Multiplexed_content\<rparr>]
        \<lparr>mapping_state = Partial, mapping_policyVersion = ''map-v1'',
         mapping_unknownReasons =
           [\<lparr>reason_code = ''CELL_MISSING'', reason_message = ''A cell is missing.''\<rparr>]\<rparr>
        (Some (example_timing\<lparr>timing_occurrences :=
           [\<lparr>playbackOccurrence = 1, occurrence_spans = [], occurrence_unknownReasons =
             [\<lparr>reason_code = ''NO_TIMING'', reason_message = ''The cell has no timing.''\<rparr>]\<rparr>]\<rparr>))]"

definition example_continuity :: continuity_input where
  "example_continuity =
     \<lparr>continuity_policyVersion = ''dvd-title-source-continuity-v1'',
      continuity_provenance =
        [\<lparr>prov_discConfirmationId = ''c'', prov_archiveRecoveryId = ''r'',
          prov_archiveRecoveryAttemptId = ''t'', prov_verificationId = ''v'',
          prov_verificationOutcome = Mismatch, prov_verificationResultDigest = example_digest,
          prov_manifestRevision = 1, prov_manifestDigest = example_digest,
          prov_recoveredSourceRanges =
            [\<lparr>startLba = 98, sectorCount = 4\<rparr>, \<lparr>startLba = 125, sectorCount = 1\<rparr>]\<rparr>]\<rparr>"

definition example_input :: "dvd_unrecovered_source_range list \<Rightarrow> damage_assessment_input" where
  "example_input unrecovered =
     \<lparr>input_checkpoint = \<lparr>checkpoint_originalDiscArchiveId = ''a'', checkpoint_manifestId = ''m'',
        checkpoint_manifestRevision = 3, checkpoint_manifestDigest = example_digest,
        checkpoint_acceptedEndLbaExclusive = 200\<rparr>,
      input_titleIdentityReviewSetIdentity = example_digest,
      input_catalogMappingProjectionId = None,
      input_structuralAssessmentIdentity = ''dvd-structural-assessment:'' @ example_digest,
      input_structuralFindings = \<lparr>dvdNavigation = Valid, titleEnumeration = Valid\<rparr>,
      input_unrecoveredSourceRanges = unrecovered,
      input_sourceContinuity = Some example_continuity,
      input_titles = example_titles\<rparr>"

definition example_damage :: "dvd_unrecovered_source_range list" where
  "example_damage = example_unrecovered
     @ [\<lparr>startLba = 110, sectorCount = 12, classification = Skipped_untested\<rparr>]"

lemma example_assessed: "is_ok (createDvdTitleDamageAssessment (example_input example_damage))"
  by code_simp
theorem no_title_missing_source_proved_exactly_witness:
  "\<exists>a. createDvdTitleDamageAssessment (example_input example_damage) = Inr a
     \<and> \<not> noTitleMissingSourceProved a"
proof -
  obtain a where a: "createDvdTitleDamageAssessment (example_input example_damage) = Inr a"
    using example_assessed unfolding is_ok_iff by blast
  have "input_unrecoveredSourceRanges (example_input example_damage) \<noteq> []"
    by (simp add: example_input_def example_damage_def)
  with a no_title_missing_source_proved_exactly [OF a] show ?thesis by blast
qed

text \<open>
  C34: The assessment accounts for every unrecovered sector.  Each title is charged with exactly
  the distinct unrecovered sectors its references cover, whatever overlap the references have,
  and the unknown impact is exactly the unrecovered sectors that no title references.
\<close>

theorem damage_is_accounted_for:
  assumes "createDvdTitleDamageAssessment i = Inr a"
  shows "impact_unrecoveredSourceSectorCount (assessment_unknownTitleImpact a)
      = int (card (covered (input_unrecoveredSourceRanges i) - title_source i))
    \<and> covered (impact_unrecoveredSourceRanges (assessment_unknownTitleImpact a))
      = covered (input_unrecoveredSourceRanges i) - title_source i
    \<and> (\<forall>t \<in> set (input_titles i). \<exists>item \<in> set (assessment_items a).
         item_titleIdentityId item = titleIdentityId t
         \<and> covered (item_knownUnrecoveredSourceRanges item)
           = covered (sourceReferences t) \<inter> covered (input_unrecoveredSourceRanges i)
         \<and> item_unrecoveredUniqueSourceSectorCount item
           = int (card (covered (sourceReferences t) \<inter> covered (input_unrecoveredSourceRanges i))))"
proof -
  let ?unrecovered = "input_unrecoveredSourceRanges i"
  note parts = create_parts [OF assms]
  from parts(6) obtain known where known: "ascending known" "covered known = title_source i"
    and concluded: "conclude i ?unrecovered (assessment_sourceContinuity a) (assessment_items a) = Inr a"
    and source: "knownTitleSource (accepted_end i) (assessment_items a) = Inr known" by blast
  have impact: "impact_unrecoveredSourceRanges (assessment_unknownTitleImpact a)
        = subtractRanges ?unrecovered known"
    "impact_unrecoveredSourceSectorCount (assessment_unknownTitleImpact a)
        = sectorCount_of (subtractRanges ?unrecovered known)"
    by (rule conclude_Inr [OF concluded], simp add: source)+
  have "ascending (subtractRanges ?unrecovered known)"
    using parts(1) known(1) by (intro ascending_subtractRanges) (auto simp: ascending_def proper_range_def)
  note unknown = impact sectorCount_of_card [OF this] covered_subtractRanges [of ?unrecovered known]
  have "covered (item_knownUnrecoveredSourceRanges item)
        = covered (sourceReferences t) \<inter> covered ?unrecovered
      \<and> item_unrecoveredUniqueSourceSectorCount item
        = int (card (covered (sourceReferences t) \<inter> covered ?unrecovered))"
    if "item_of_title i (assessment_sourceContinuity a) t item" for t item
    using that parts(1) by (simp add: item_of_title_def assessed_def covered_intersections
        sectorCount_of_card ascending_intersections separated_ascending)
  moreover have "item_titleIdentityId item = titleIdentityId t"
    if "item_of_title i (assessment_sourceContinuity a) t item" for t item
    using that by (simp add: item_of_title_def assessed_def)
  ultimately show ?thesis using unknown known(2) parts(4) by metis
qed

theorem damage_is_accounted_for_witness:
  "\<exists>a. createDvdTitleDamageAssessment (example_input example_damage) = Inr a
     \<and> covered (impact_unrecoveredSourceRanges (assessment_unknownTitleImpact a))
       = covered example_damage - title_source (example_input example_damage)"
proof -
  obtain a where a: "createDvdTitleDamageAssessment (example_input example_damage) = Inr a"
    using example_assessed unfolding is_ok_iff by blast
  with damage_is_accounted_for [OF a] show ?thesis by (auto simp: example_input_def)
qed

lemma percentage_bounds:
  fixes m d :: nat
  assumes "0 < d" and "m \<le> d"
  shows "0 \<le> (of_nat m / of_nat d * 100 :: rat)" and "(of_nat m / of_nat d * 100 :: rat) \<le> 100"
    and "(of_nat m / of_nat d * 100 :: rat) = 0 \<longleftrightarrow> m = 0"
    and "(of_nat m / of_nat d * 100 :: rat) = 100 \<longleftrightarrow> m = d"
proof -
  have scale: "x * 100 = 100 \<longleftrightarrow> x = 1" "x * 100 \<le> 100 \<longleftrightarrow> x \<le> 1" for x :: rat by linarith+
  show "(of_nat m / of_nat d * 100 :: rat) = 100 \<longleftrightarrow> m = d"
    and "(of_nat m / of_nat d * 100 :: rat) \<le> 100"
    unfolding scale using assms by auto
qed (use assms in simp_all)

text \<open>
  A title's missing source percentage is given exactly for complete coverage; it lies between
  0 and 100, and reaches 0 exactly when no source of the title is unrecovered and 100 exactly
  when all of it is.
\<close>

theorem missing_source_percentage_bounds:
  assumes "createDvdTitleDamageAssessment i = Inr a" and "item \<in> set (assessment_items a)"
  shows "\<exists>t \<in> set (input_titles i). item_titleIdentityId item = titleIdentityId t
    \<and> (case item_titleMissingSourcePercentage item of
         None \<Rightarrow> mapping_state (mappingCoverage t) = Partial
       | Some p \<Rightarrow> mapping_state (mappingCoverage t) = Complete \<and> 0 \<le> p \<and> p \<le> 100
           \<and> (p = 0 \<longleftrightarrow> covered (sourceReferences t) \<inter> covered (input_unrecoveredSourceRanges i) = {})
           \<and> (p = 100 \<longleftrightarrow> covered (sourceReferences t) \<subseteq> covered (input_unrecoveredSourceRanges i)))"
proof -
  let ?unrecovered = "input_unrecoveredSourceRanges i"
  note parts = create_parts [OF assms(1)]
  from parts(3) assms(2) obtain t where t: "t \<in> set (input_titles i)"
    and item: "item_of_title i (assessment_sourceContinuity a) t item" by blast
  let ?unique = "item_uniqueSourceRanges item" and ?source = "covered (sourceReferences t)"
  have unique: "separated ?unique" "?unique \<noteq> []" "covered ?unique = ?source"
    using item by (simp_all add: item_of_title_def assessed_def)
  have charged: "item_unrecoveredUniqueSourceSectorCount item = sectorCount_of (intersections ?unique ?unrecovered)"
    using item by (simp add: item_of_title_def assessed_def)
  have counts: "sectorCount_of ?unique = int (card ?source)"
    "item_unrecoveredUniqueSourceSectorCount item = int (card (?source \<inter> covered ?unrecovered))"
    using sectorCount_of_card [OF separated_ascending [OF unique(1)]] charged
      sectorCount_of_card [OF ascending_intersections [OF separated_ascending [OF unique(1)] parts(1)]]
    by (simp_all only: unique(3) covered_intersections)
  have "?source \<noteq> {}" using unique by (auto simp: separated_def covered_empty_iff)
  then have positive: "0 < card ?source" by (simp add: card_gt_0_iff)
  have subset: "card (?source \<inter> covered ?unrecovered) \<le> card ?source" by (rule card_mono) auto
  have all: "card (?source \<inter> covered ?unrecovered) = card ?source \<longleftrightarrow> ?source \<subseteq> covered ?unrecovered"
    by (metis Int_absorb2 Int_lower1 card_subset_eq covered_finite inf.orderI)
  show ?thesis
  proof (intro bexI [OF _ t] conjI)
    show "item_titleIdentityId item = titleIdentityId t"
      using item by (simp add: item_of_title_def assessed_def)
    show "case item_titleMissingSourcePercentage item of
         None \<Rightarrow> mapping_state (mappingCoverage t) = Partial
       | Some p \<Rightarrow> mapping_state (mappingCoverage t) = Complete \<and> 0 \<le> p \<and> p \<le> 100
           \<and> (p = 0 \<longleftrightarrow> ?source \<inter> covered ?unrecovered = {})
           \<and> (p = 100 \<longleftrightarrow> ?source \<subseteq> covered ?unrecovered)"
    proof (cases "mapping_state (mappingCoverage t) = Complete")
      case False
      with item show ?thesis by (simp add: item_of_title_def assessed_def)
    next
      case True
      let ?p = "of_nat (card (?source \<inter> covered ?unrecovered)) / of_nat (card ?source) * 100 :: rat"
      have p: "item_titleMissingSourcePercentage item = Some ?p"
        using item True counts by (simp add: item_of_title_def assessed_def)
      note bounds = percentage_bounds [OF positive subset]
      have "?p = 0 \<longleftrightarrow> ?source \<inter> covered ?unrecovered = {}"
        unfolding bounds(3) by (simp add: card_eq_0_iff)
      moreover have "?p = 100 \<longleftrightarrow> ?source \<subseteq> covered ?unrecovered"
        unfolding bounds(4) by (rule all)
      moreover note bounds(1,2)
      ultimately show ?thesis using p True by simp
    qed
  qed
qed

theorem missing_source_percentage_bounds_witness:
  "\<exists>a item (t :: title_mapping). createDvdTitleDamageAssessment (example_input example_damage) = Inr a
     \<and> item \<in> set (assessment_items a) \<and> item_titleIdentityId item = titleIdentityId t"
proof -
  obtain a where a: "createDvdTitleDamageAssessment (example_input example_damage) = Inr a"
    using example_assessed unfolding is_ok_iff by blast
  have "hd example_titles \<in> set (input_titles (example_input example_damage))"
    by (simp add: example_input_def example_titles_def)
  with create_parts(4) [OF a] obtain item where "item \<in> set (assessment_items a)" by blast
  moreover from missing_source_percentage_bounds [OF a this] obtain t :: title_mapping
    where "item_titleIdentityId item = titleIdentityId t" by blast
  ultimately show ?thesis using a by blast
qed

text \<open>
  C35: Confirmed recovery risk is accounted for.  The recovered ranges of the confirmations do not
  overlap, the assessment counts each of their sectors once, and the unattributed risk is exactly
  those that no title references.
\<close>

theorem continuity_risk_is_accounted_for:
  assumes "createDvdTitleDamageAssessment i = Inr a"
    and "assessment_sourceContinuity a = Some c"
  shows "sourceContinuityRiskSectorCount c = int (card (recovered_source (input_sourceContinuity i)))
    \<and> (\<exists>u. assessment_unattributedSourceContinuityRisk a = Some u
        \<and> covered (unattributed_sourceRanges u)
          = recovered_source (input_sourceContinuity i) - title_source i
        \<and> unattributed_sourceSectorCount u
          = int (card (recovered_source (input_sourceContinuity i) - title_source i)))
    \<and> (\<forall>t \<in> set (input_titles i). \<exists>item \<in> set (assessment_items a).
         item_titleIdentityId item = titleIdentityId t
         \<and> item_sourceContinuityRiskSectorCount item
           = int (card (covered (sourceReferences t) \<inter> recovered_source (input_sourceContinuity i))))"
proof -
  let ?risks = "sourceContinuityRiskRanges (assessment_sourceContinuity a)"
  note parts = create_parts [OF assms(1)]
  note continuity = normalizeSourceContinuity_Inr [OF parts(2)]
  from parts(6) obtain known where known: "ascending known" "covered known = title_source i"
    and concluded: "conclude i (input_unrecoveredSourceRanges i) (assessment_sourceContinuity a)
      (assessment_items a) = Inr a"
    and source: "knownTitleSource (accepted_end i) (assessment_items a) = Inr known" by blast
  have unattributed: "assessment_unattributedSourceContinuityRisk a = Some
      \<lparr>unattributed_sourceSectorCount = sectorCount_of (subtractRanges ?risks known),
       unattributed_sourceRanges = subtractRanges ?risks known\<rparr>"
    by (rule conclude_Inr [OF concluded]) (simp add: source assms(2))
  have "disjoint_ranges (subtractRanges ?risks known)"
    using known(1) by (intro disjoint_subtractRanges [OF continuity(1)]) (auto simp: ascending_def proper_range_def)
  note rest = disjoint_sectorCount [OF this] covered_subtractRanges [of ?risks known]
  have "item_titleIdentityId item = titleIdentityId t
      \<and> item_sourceContinuityRiskSectorCount item
        = int (card (covered (sourceReferences t) \<inter> recovered_source (input_sourceContinuity i)))"
    if "item_of_title i (assessment_sourceContinuity a) t item" for t item
  proof -
    have item: "separated (item_uniqueSourceRanges item)"
      "covered (item_uniqueSourceRanges item) = covered (sourceReferences t)"
      "item_sourceContinuityRiskSectorCount item
        = sectorCount_of (intersections (item_uniqueSourceRanges item) ?risks)"
      "item_titleIdentityId item = titleIdentityId t"
      using that by (simp_all add: item_of_title_def assessed_def)
    have "disjoint_ranges (intersections (item_uniqueSourceRanges item) ?risks)"
      using item(1) continuity(1) by (intro disjoint_intersections separated_ascending)
    with item continuity(2) show ?thesis by (simp add: disjoint_sectorCount covered_intersections)
  qed
  then show ?thesis
    using continuity(2) continuity(4) [OF assms(2)] unattributed rest known(2) parts(4)
    by (metis unattributed_risk.select_convs(1,2))
qed
theorem continuity_risk_is_accounted_for_witness:
  "\<exists>a c. createDvdTitleDamageAssessment (example_input example_damage) = Inr a
     \<and> assessment_sourceContinuity a = Some c
     \<and> sourceContinuityRiskSectorCount c = int (card (recovered_source (Some example_continuity)))"
proof -
  obtain a where a: "createDvdTitleDamageAssessment (example_input example_damage) = Inr a"
    using example_assessed unfolding is_ok_iff by blast
  have input: "input_sourceContinuity (example_input example_damage) = Some example_continuity"
    by (simp add: example_input_def)
  with normalizeSourceContinuity_Inr(3) [OF create_parts(2) [OF a]] obtain c
    where c: "assessment_sourceContinuity a = Some c" by auto
  with continuity_risk_is_accounted_for [OF a c] a input show ?thesis by auto
qed

text \<open>
  When an operator must accept an assessment.  Acceptance is required unless the disc is
  proved free of missing title source and no sector was recovered under a confirmation that the
  disc in the drive may not be the archived one.
\<close>

theorem acceptance_required_exactly:
  assumes "createDvdTitleDamageAssessment i = Inr a"
  shows "dvdTitleDamageAssessmentRequiresAcceptance a \<longleftrightarrow>
    dvdNavigation (input_structuralFindings i) \<noteq> Valid
    \<or> titleEnumeration (input_structuralFindings i) \<noteq> Valid
    \<or> (\<exists>t \<in> set (input_titles i). mapping_state (mappingCoverage t) = Partial)
    \<or> input_unrecoveredSourceRanges i \<noteq> []
    \<or> recovered_source (input_sourceContinuity i) \<noteq> {}"
proof -
  note parts = create_parts [OF assms]
  note continuity = normalizeSourceContinuity_Inr [OF parts(2)]
  have finite: "finite (recovered_source (input_sourceContinuity i))"
    unfolding continuity(2) [symmetric] by simp
  have "(case assessment_sourceContinuity a of None \<Rightarrow> 0
        | Some c \<Rightarrow> sourceContinuityRiskSectorCount c) > 0
      \<longleftrightarrow> recovered_source (input_sourceContinuity i) \<noteq> {}"
  proof (cases "assessment_sourceContinuity a")
    case None
    then have "input_sourceContinuity i = None" using continuity(3) by simp
    with None show ?thesis by (simp add: recovered_source_def)
  next
    case (Some c)
    with continuity(4) [OF Some] finite show ?thesis by (simp add: card_gt_0_iff)
  qed
  moreover have "mapping_state (mappingCoverage t) \<noteq> Complete
      \<longleftrightarrow> mapping_state (mappingCoverage t) = Partial" if "t \<in> set (input_titles i)" for t
    using parts(4) that unfolding item_of_title_def assessed_def by fastforce
  ultimately show ?thesis
    unfolding dvdTitleDamageAssessmentRequiresAcceptance_def create_no_title_missing [OF assms]
      structuralMapIsValid_def by blast
qed

theorem acceptance_required_exactly_witness:
  "\<exists>a. createDvdTitleDamageAssessment (example_input example_damage) = Inr a
     \<and> dvdTitleDamageAssessmentRequiresAcceptance a"
proof -
  obtain a where a: "createDvdTitleDamageAssessment (example_input example_damage) = Inr a"
    using example_assessed unfolding is_ok_iff by blast
  have "input_unrecoveredSourceRanges (example_input example_damage) \<noteq> []"
    by (simp add: example_input_def example_damage_def)
  with a acceptance_required_exactly [OF a] show ?thesis by blast
qed

lemma conclude_titles:
  "conclude (i\<lparr>input_titles := titles\<rparr>) unrecovered continuity items
     = conclude i unrecovered continuity items"
  unfolding conclude_def Let_def by (simp cong: sum.case_cong if_cong)

lemma list_all2_functional:
  "list_all2 (\<lambda>x y. f x = Inr y) xs ys \<longleftrightarrow>
     ys = map (\<lambda>x. projr (f x)) xs \<and> (\<forall>x \<in> set xs. is_ok (f x))"
  by (induction xs arbitrary: ys) (auto simp: list_all2_Cons1 is_ok_iff)

lemma item_order_observations:
  assumes "assess_titles (title_assessment i continuity) ids obs titles = Inr items"
  shows "inj_on item_order (set items)"
proof -
  have pairs: "list_all2 (\<lambda>t item. item_titleIdentityObservationId item = titleIdentityObservationId t)
      titles items" and titles: "distinct (map titleIdentityObservationId titles)"
    using assms [unfolded assess_titles_Inr]
    by (auto elim!: list_all2_mono dest: assessTitle_assessed simp: assessed_def)
  from pairs have "map item_titleIdentityObservationId items = map titleIdentityObservationId titles"
    by (induction rule: list_all2_induct) simp_all
  with titles have "inj_on item_titleIdentityObservationId (set items)"
    by (metis distinct_map)
  then show ?thesis by (auto simp: inj_on_def)
qed

text \<open>
  C36: The order in which the titles are given does not matter: any reordering of them gives the
  same assessment.
\<close>

theorem assessment_ignores_title_order:
  assumes "createDvdTitleDamageAssessment i = Inr a" and "mset titles = mset (input_titles i)"
  shows "createDvdTitleDamageAssessment (i\<lparr>input_titles := titles\<rparr>) = Inr a"
proof -
  let ?j = "i\<lparr>input_titles := titles\<rparr>"
  from assms(1) [unfolded create_Inr] obtain continuity items where
    before: "validateCheckpoint (input_checkpoint i) = Inr (input_checkpoint i)"
      "\<not> dependency_identity_invalid i"
      "validateUnrecoveredRanges (input_unrecoveredSourceRanges i) (accepted_end i)
        = Inr (input_unrecoveredSourceRanges i)"
      "normalizeSourceContinuity (input_sourceContinuity i) (accepted_end i) = Inr continuity"
    and items: "assess_titles (title_assessment i continuity) [] [] (input_titles i) = Inr items"
    and conclude: "conclude i (input_unrecoveredSourceRanges i) continuity (sort_key item_order items) = Inr a"
    by blast
  let ?assess = "title_assessment i continuity"
  let ?items = "map (\<lambda>t. projr (?assess t)) titles"
  have set: "set titles = set (input_titles i)" using assms(2) by (rule mset_eq_setD)
  have distinct: "distinct (map f titles) \<longleftrightarrow> distinct (map f (input_titles i))"
    for f :: "title_mapping \<Rightarrow> string"
    using assms(2) by (intro mset_eq_imp_distinct_iff) simp
  from items have again: "assess_titles ?assess [] [] titles = Inr ?items"
    unfolding assess_titles_Inr list_all2_functional distinct set by auto
  from items have "mset ?items = mset items"
    unfolding assess_titles_Inr list_all2_functional using assms(2) by simp
  then have "sort_key item_order ?items = sort_key item_order items"
    using item_order_observations [OF again]
    by (intro sort_key_inj_key_eq) simp_all
  moreover have "\<not> dependency_identity_invalid ?j"
    using before(2) by (simp add: dependency_identity_invalid_def)
  ultimately show ?thesis
    unfolding create_Inr using before again conclude by (auto simp: conclude_titles)
qed

theorem assessment_ignores_title_order_witness:
  "createDvdTitleDamageAssessment (example_input example_damage)
   = createDvdTitleDamageAssessment (example_input example_damage\<lparr>input_titles := rev example_titles\<rparr>)"
proof -
  obtain a where a: "createDvdTitleDamageAssessment (example_input example_damage) = Inr a"
    using example_assessed unfolding is_ok_iff by blast
  with assessment_ignores_title_order [OF a, of "rev example_titles"] show ?thesis
    by (simp add: example_input_def)
qed

end
