(* ===== verification/FailureReports.thy ===== *)
theory FailureReports
  imports Json "HOL-Library.AList"
begin

text \<open>
  Encode Job Failure Reports: \<open>packages/data-access/src/encode-job-failure-report.ts\<close>, the
  conversion of a report to and from its row (\<open>encodeJobFailureReportRecord\<close> and
  \<open>toEncodeJobFailureReport\<close> in \<open>internal/create-data-access.ts\<close>) and the \<open>CHECK\<close> constraints of
  the table \<open>encode_job_failure_reports\<close> in \<open>internal/schema.ts\<close>.

  A report reaches the validator as an untyped JavaScript value, so it is one here too
  (\<open>js_value\<close>), with its properties read by \<open>js_get\<close>.  The \<open>CHECK\<close>s are evaluated in SQL's
  three-valued logic (\<open>bool option\<close>, \<open>None\<close> for NULL), where a constraint fails only on false.
\<close>

section \<open>JavaScript values\<close>

text \<open>
  A finite double is a rational; NaN and the infinities fail every test the code makes in the
  same way and are one value.
\<close>

datatype js_double = Finite rat | NonFinite

datatype js_value =
    JsUndefined
  | JsNull
  | JsBool bool
  | JsNumber js_double
  | JsString string
  | JsArray "js_value list"
  | JsObject "(string \<times> js_value) list"

text \<open>\<open>value.key\<close>, for a value that is neither \<open>null\<close> nor \<open>undefined\<close>.\<close>

fun js_get :: "js_value \<Rightarrow> string \<Rightarrow> js_value" where
  "js_get (JsObject members) key =
     (case map_of members key of None \<Rightarrow> JsUndefined | Some v \<Rightarrow> v)"
| "js_get _ key = JsUndefined"

text \<open>\<open>typeof value === "object" && value !== null\<close>, and \<open>Object.keys(value)\<close>.\<close>

fun js_is_object :: "js_value \<Rightarrow> bool" where
  "js_is_object (JsObject members) = True"
| "js_is_object (JsArray elements) = True"
| "js_is_object _ = False"

fun js_keys :: "js_value \<Rightarrow> string list" where
  "js_keys (JsObject members) = map fst members"
| "js_keys (JsArray elements) = map decimal [0..<length elements]"
| "js_keys _ = []"

text \<open>\<open>values.includes(value)\<close> on a constant array of strings.\<close>

fun js_includes :: "string list \<Rightarrow> js_value \<Rightarrow> bool" where
  "js_includes strings (JsString s) = (s \<in> set strings)"
| "js_includes strings _ = False"

definition js_is :: "js_value \<Rightarrow> string \<Rightarrow> bool" where
  "js_is v s \<longleftrightarrow> v = JsString s"

fun js_isFinite :: "js_value \<Rightarrow> bool" where
  "js_isFinite (JsNumber (Finite q)) = True"
| "js_isFinite _ = False"

fun js_isSafeInteger :: "js_value \<Rightarrow> bool" where
  "js_isSafeInteger (JsNumber (Finite q)) = (of_int \<lfloor>q\<rfloor> = q \<and> is_safe_integer \<lfloor>q\<rfloor>)"
| "js_isSafeInteger _ = False"

text \<open>The value of a finite number; read only where \<open>isFinite\<close> or \<open>isSafeInteger\<close> holds.\<close>

fun js_rat :: "js_value \<Rightarrow> rat" where
  "js_rat (JsNumber (Finite q)) = q"
| "js_rat _ = 0"

text \<open>\<open>{ ...value, [key]: member }\<close>.\<close>

fun js_spread :: "js_value \<Rightarrow> string \<Rightarrow> js_value \<Rightarrow> js_value" where
  "js_spread (JsObject members) key member = JsObject (AList.update key member members)"
| "js_spread _ key member = JsObject [(key, member)]"

lemma js_get_spread [simp]:
  "js_is_object v \<Longrightarrow> js_get (js_spread v k m) k' =
     (if k' = k then m else (case v of JsObject ms \<Rightarrow> js_get v k' | _ \<Rightarrow> JsUndefined))"
  by (cases v) (auto simp: update_conv')

section \<open>The vocabulary of a report\<close>

definition ENCODE_JOB_FAILURE_REASON_CODES :: "string list" where
  "ENCODE_JOB_FAILURE_REASON_CODES =
     [''input_unavailable'', ''invalid_configuration'', ''output_conflict'',
      ''unsafe_output_state'', ''command_failed'', ''command_timeout'',
      ''output_validation_failed'', ''unknown_failure'', ''cleanup_failed'',
      ''publication_failed'', ''lease_expired'', ''worker_interrupted'',
      ''publication_recovery_failed'']"

definition ENCODE_JOB_FAILURE_PHASES :: "string list" where
  "ENCODE_JOB_FAILURE_PHASES =
     [''preparation'', ''scanning'', ''previewing'', ''encoding'', ''validation'', ''cleanup'',
      ''publication'', ''recovery'']"

definition ENCODE_JOB_FAILURE_RETRYABILITIES :: "string list" where
  "ENCODE_JOB_FAILURE_RETRYABILITIES = [''appropriate'', ''after_action'', ''not_appropriate'']"

definition ENCODE_JOB_FAILURE_VALIDATION_CHECKS :: "string list" where
  "ENCODE_JOB_FAILURE_VALIDATION_CHECKS =
     [''subtitle_streams'', ''subtitle_packets'', ''subtitle_cleanup'', ''video_metadata'',
      ''duration_metadata'', ''video_packets'', ''audio_timing'', ''video_decode'',
      ''output_file'']"

definition ENCODE_JOB_FAILURE_SIGNALS :: "string list" where
  "ENCODE_JOB_FAILURE_SIGNALS =
     [''SIGABRT'', ''SIGALRM'', ''SIGBREAK'', ''SIGBUS'', ''SIGCHLD'', ''SIGCONT'', ''SIGFPE'',
      ''SIGHUP'', ''SIGILL'', ''SIGINT'', ''SIGIO'', ''SIGIOT'', ''SIGKILL'', ''SIGLOST'',
      ''SIGPIPE'', ''SIGPOLL'', ''SIGPROF'', ''SIGPWR'', ''SIGQUIT'', ''SIGSEGV'',
      ''SIGSTKFLT'', ''SIGSTOP'', ''SIGSYS'', ''SIGTERM'', ''SIGTRAP'', ''SIGTSTP'',
      ''SIGTTIN'', ''SIGTTOU'', ''SIGUNUSED'', ''SIGURG'', ''SIGUSR1'', ''SIGUSR2'',
      ''SIGVTALRM'', ''SIGWINCH'', ''SIGXCPU'', ''SIGXFSZ'', ''SIGINFO'']"

definition ENCODE_JOB_FAILURE_CONTEXTS :: "string list" where
  "ENCODE_JOB_FAILURE_CONTEXTS =
     [''partial_output'', ''replacement_artifact'', ''published_output'',
      ''publication_completion'', ''publication_mutation'', ''job_claim'',
      ''publication_cleanup'', ''worker_shutdown'', ''publication_recovery'',
      ''cleanup_recovery'']"

definition ENCODE_JOB_FAILURE_CLEANUP_OPERATIONS :: "string list" where
  "ENCODE_JOB_FAILURE_CLEANUP_OPERATIONS =
     [''partial_output'', ''replacement_artifact'', ''published_output'',
      ''publication_completion'']"

definition ENCODE_JOB_FAILURE_PUBLICATION_OPERATIONS :: "string list" where
  "ENCODE_JOB_FAILURE_PUBLICATION_OPERATIONS =
     [''publication_mutation'', ''publication_completion'']"

definition ENCODE_JOB_FAILURE_LEASE_SCOPES :: "string list" where
  "ENCODE_JOB_FAILURE_LEASE_SCOPES = [''job_claim'', ''publication_cleanup'']"

definition ENCODE_JOB_FAILURE_INTERRUPTION_SOURCES :: "string list" where
  "ENCODE_JOB_FAILURE_INTERRUPTION_SOURCES = [''worker_shutdown'', ''publication_completion'']"

definition ENCODE_JOB_FAILURE_RECOVERY_OPERATIONS :: "string list" where
  "ENCODE_JOB_FAILURE_RECOVERY_OPERATIONS = [''publication_recovery'', ''cleanup_recovery'']"

definition ENCODE_JOB_FAILURE_DIAGNOSTIC_MAX_LENGTH :: nat where
  "ENCODE_JOB_FAILURE_DIAGNOSTIC_MAX_LENGTH = 500"

definition ENCODE_JOB_FAILURE_DURATION_MAX_SECONDS :: rat where
  "ENCODE_JOB_FAILURE_DURATION_MAX_SECONDS = 604800"

lemmas failure_vocabulary =
  ENCODE_JOB_FAILURE_REASON_CODES_def ENCODE_JOB_FAILURE_PHASES_def
  ENCODE_JOB_FAILURE_RETRYABILITIES_def ENCODE_JOB_FAILURE_VALIDATION_CHECKS_def
  ENCODE_JOB_FAILURE_SIGNALS_def ENCODE_JOB_FAILURE_CONTEXTS_def
  ENCODE_JOB_FAILURE_CLEANUP_OPERATIONS_def ENCODE_JOB_FAILURE_PUBLICATION_OPERATIONS_def
  ENCODE_JOB_FAILURE_LEASE_SCOPES_def ENCODE_JOB_FAILURE_INTERRUPTION_SOURCES_def
  ENCODE_JOB_FAILURE_RECOVERY_OPERATIONS_def

section \<open>Validation\<close>

definition report_error :: "string \<Rightarrow> js_error" where
  "report_error what = DomainInvariantError (''Encode Job Failure Report '' @ what)"

definition requireAllowlistedKeys :: "js_value \<Rightarrow> string list \<Rightarrow> string \<Rightarrow> unit result" where
  "requireAllowlistedKeys v allowedKeys field =
     reject_if (\<not> js_is_object v \<or> list_ex (\<lambda>k. k \<notin> set allowedKeys) (js_keys v))
       (report_error (field @ '' is invalid''))"

text \<open>\<open>input.diagnostic?.trim() || null\<close>.\<close>

fun trimmed_diagnostic :: "js_value \<Rightarrow> js_value" where
  "trimmed_diagnostic (JsString s) = (let t = js_trim s in if t = [] then JsNull else JsString t)"
| "trimmed_diagnostic _ = JsNull"

fun js_length :: "js_value \<Rightarrow> nat" where
  "js_length (JsString s) = length s"
| "js_length _ = 0"

definition evidence_keys :: "js_value \<Rightarrow> string list" where
  "evidence_keys kind =
     (if js_is kind ''exit_status'' then [''kind'', ''exitStatus'']
      else if js_is kind ''signal'' then [''kind'', ''signal'']
      else if js_is kind ''timeout'' then [''kind'', ''timeoutSeconds'']
      else if js_is kind ''duration'' then [''kind'', ''expectedSeconds'', ''observedSeconds'']
      else if js_is kind ''validation_check'' then [''kind'', ''check'']
      else if js_is kind ''none'' then [''kind'']
      else if js_is kind ''cleanup'' then [''kind'', ''operation'']
      else if js_is kind ''publication'' then [''kind'', ''operation'']
      else if js_is kind ''lease'' then [''kind'', ''scope'']
      else if js_is kind ''interruption'' then [''kind'', ''source'']
      else if js_is kind ''recovery'' then [''kind'', ''operation'']
      else [])"

text \<open>The chain of \<open>input.reasonCode === ...\<close> branches.\<close>

definition require_classification ::
  "js_value \<Rightarrow> js_value \<Rightarrow> js_value \<Rightarrow> js_value \<Rightarrow> unit result" where
  "require_classification reasonCode phase retryability evidence =
    (let kind = js_get evidence ''kind'';
         commandPhase = js_is phase ''scanning'' \<or> js_is phase ''previewing''
           \<or> js_is phase ''encoding'' in
     if js_is reasonCode ''command_failed'' then
       if \<not> commandPhase \<or> \<not> js_is retryability ''appropriate'' then
         Inl (report_error ''command failure classification is invalid'')
       else if js_is kind ''exit_status'' then
         reject_if (\<not> js_isSafeInteger (js_get evidence ''exitStatus'')
             \<or> js_rat (js_get evidence ''exitStatus'') < 1
             \<or> 255 < js_rat (js_get evidence ''exitStatus''))
           (report_error ''exit status is invalid'')
       else reject_if (\<not> js_is kind ''signal''
             \<or> \<not> js_includes ENCODE_JOB_FAILURE_SIGNALS (js_get evidence ''signal''))
           (report_error ''command failure evidence is invalid'')
     else if js_is reasonCode ''command_timeout'' then
       reject_if (\<not> commandPhase \<or> \<not> js_is retryability ''appropriate''
           \<or> \<not> js_is kind ''timeout''
           \<or> \<not> js_isSafeInteger (js_get evidence ''timeoutSeconds'')
           \<or> js_rat (js_get evidence ''timeoutSeconds'') < 1
           \<or> 604800 < js_rat (js_get evidence ''timeoutSeconds''))
         (report_error ''timeout evidence is invalid'')
     else if js_is reasonCode ''output_validation_failed'' then
       if js_is kind ''duration'' then
         reject_if (\<not> js_isFinite (js_get evidence ''expectedSeconds'')
             \<or> js_rat (js_get evidence ''expectedSeconds'') \<le> 0
             \<or> ENCODE_JOB_FAILURE_DURATION_MAX_SECONDS < js_rat (js_get evidence ''expectedSeconds'')
             \<or> \<not> js_isFinite (js_get evidence ''observedSeconds'')
             \<or> js_rat (js_get evidence ''observedSeconds'') < 0
             \<or> ENCODE_JOB_FAILURE_DURATION_MAX_SECONDS < js_rat (js_get evidence ''observedSeconds''))
           (report_error ''duration evidence is invalid'')
       else reject_if (\<not> js_is kind ''validation_check''
             \<or> \<not> js_includes ENCODE_JOB_FAILURE_VALIDATION_CHECKS (js_get evidence ''check''))
           (report_error ''validation evidence is invalid'')
     else if js_is reasonCode ''cleanup_failed'' then
       reject_if (\<not> js_is phase ''cleanup'' \<or> \<not> js_is retryability ''after_action''
           \<or> \<not> js_is kind ''cleanup''
           \<or> \<not> js_includes ENCODE_JOB_FAILURE_CLEANUP_OPERATIONS (js_get evidence ''operation''))
         (report_error ''cleanup evidence is invalid'')
     else if js_is reasonCode ''publication_failed'' then
       reject_if (\<not> js_is phase ''publication'' \<or> \<not> js_is retryability ''after_action''
           \<or> \<not> js_is kind ''publication''
           \<or> \<not> js_includes ENCODE_JOB_FAILURE_PUBLICATION_OPERATIONS (js_get evidence ''operation''))
         (report_error ''publication evidence is invalid'')
     else if js_is reasonCode ''lease_expired'' then
       reject_if (\<not> js_is retryability ''after_action'' \<or> \<not> js_is kind ''lease''
           \<or> \<not> js_includes ENCODE_JOB_FAILURE_LEASE_SCOPES (js_get evidence ''scope'')
           \<or> (js_is (js_get evidence ''scope'') ''publication_cleanup''
               \<and> \<not> js_is phase ''publication'' \<and> \<not> js_is phase ''cleanup'')
           \<or> (js_is (js_get evidence ''scope'') ''job_claim''
               \<and> (js_is phase ''cleanup'' \<or> js_is phase ''recovery'')))
         (report_error ''lease evidence is invalid'')
     else if js_is reasonCode ''worker_interrupted'' then
       reject_if (\<not> js_is retryability ''after_action'' \<or> \<not> js_is kind ''interruption''
           \<or> \<not> js_includes ENCODE_JOB_FAILURE_INTERRUPTION_SOURCES (js_get evidence ''source'')
           \<or> (js_is (js_get evidence ''source'') ''publication_completion''
               \<and> \<not> js_is phase ''publication'')
           \<or> js_is phase ''cleanup'' \<or> js_is phase ''recovery'')
         (report_error ''interruption evidence is invalid'')
     else if js_is reasonCode ''publication_recovery_failed'' then
       reject_if (\<not> js_is phase ''recovery'' \<or> \<not> js_is retryability ''after_action''
           \<or> \<not> js_is kind ''recovery''
           \<or> \<not> js_includes ENCODE_JOB_FAILURE_RECOVERY_OPERATIONS (js_get evidence ''operation''))
         (report_error ''recovery evidence is invalid'')
     else reject_if (\<not> js_is kind ''none'')
         (report_error ''evidence is invalid for its reason code''))"

definition validateEncodeJobFailureReport :: "js_value \<Rightarrow> js_value result" where
  "validateEncodeJobFailureReport input =
    (let diagnostic = trimmed_diagnostic (js_get input ''diagnostic'');
         evidence = js_get input ''evidence'' in
     case check_all
       [requireAllowlistedKeys input
          [''schemaVersion'', ''reasonCode'', ''phase'', ''retryability'', ''diagnostic'',
           ''evidence''] ''fields'',
        reject_if (js_get input ''schemaVersion'' \<noteq> JsNumber (Finite 1))
          (report_error ''schema version is invalid''),
        reject_if (\<not> js_includes ENCODE_JOB_FAILURE_REASON_CODES (js_get input ''reasonCode''))
          (report_error ''reason code is invalid''),
        reject_if (\<not> js_includes ENCODE_JOB_FAILURE_PHASES (js_get input ''phase''))
          (report_error ''phase is invalid''),
        reject_if (\<not> js_includes ENCODE_JOB_FAILURE_RETRYABILITIES (js_get input ''retryability''))
          (report_error ''retryability is invalid''),
        reject_if (js_get input ''diagnostic'' \<noteq> JsUndefined \<and> js_get input ''diagnostic'' \<noteq> JsNull
            \<and> \<not> (case js_get input ''diagnostic'' of JsString s \<Rightarrow> True | _ \<Rightarrow> False))
          (report_error ''diagnostic is invalid''),
        reject_if (ENCODE_JOB_FAILURE_DIAGNOSTIC_MAX_LENGTH < js_length diagnostic)
          (report_error ''diagnostic cannot exceed 500 characters''),
        requireAllowlistedKeys evidence (evidence_keys (js_get evidence ''kind'')) ''evidence'',
        require_classification (js_get input ''reasonCode'') (js_get input ''phase'')
          (js_get input ''retryability'') evidence] of
       Inl e \<Rightarrow> Inl e
     | Inr _ \<Rightarrow> Inr (js_spread input ''diagnostic'' diagnostic))"

section \<open>Rows\<close>

text \<open>
  A row of \<open>encode_job_failure_reports\<close>.  A cell that may be NULL or of several storage classes
  is a \<open>js_value\<close>, with \<open>JsNull\<close> for NULL.
\<close>

record failure_report_row =
  fr_id :: string
  fr_encodeJobId :: string
  fr_schemaVersion :: js_value
  fr_workerKind :: js_value
  fr_reasonCode :: js_value
  fr_phase :: js_value
  fr_retryability :: js_value
  fr_diagnostic :: js_value
  fr_exitStatus :: js_value
  fr_signal :: js_value
  fr_timeoutSeconds :: js_value
  fr_validationCheck :: js_value
  fr_expectedSeconds :: js_value
  fr_observedSeconds :: js_value
  fr_context :: js_value
  fr_sequence :: int
  fr_occurredAt :: int
  fr_createdAt :: int

definition encodeJobFailureEvidenceContext :: "js_value \<Rightarrow> js_value" where
  "encodeJobFailureEvidenceContext evidence =
    (let kind = js_get evidence ''kind'' in
     if js_is kind ''cleanup'' \<or> js_is kind ''publication'' \<or> js_is kind ''recovery''
       then js_get evidence ''operation''
     else if js_is kind ''lease'' then js_get evidence ''scope''
     else if js_is kind ''interruption'' then js_get evidence ''source''
     else JsNull)"

definition encodeJobFailureEvidenceFromContext :: "js_value \<Rightarrow> js_value \<Rightarrow> js_value" where
  "encodeJobFailureEvidenceFromContext reasonCode context =
    (if js_is reasonCode ''cleanup_failed''
         \<and> js_includes ENCODE_JOB_FAILURE_CLEANUP_OPERATIONS context
       then JsObject [(''kind'', JsString ''cleanup''), (''operation'', context)]
     else if js_is reasonCode ''publication_failed''
         \<and> js_includes ENCODE_JOB_FAILURE_PUBLICATION_OPERATIONS context
       then JsObject [(''kind'', JsString ''publication''), (''operation'', context)]
     else if js_is reasonCode ''lease_expired''
         \<and> js_includes ENCODE_JOB_FAILURE_LEASE_SCOPES context
       then JsObject [(''kind'', JsString ''lease''), (''scope'', context)]
     else if js_is reasonCode ''worker_interrupted''
         \<and> js_includes ENCODE_JOB_FAILURE_INTERRUPTION_SOURCES context
       then JsObject [(''kind'', JsString ''interruption''), (''source'', context)]
     else if js_is reasonCode ''publication_recovery_failed''
         \<and> js_includes ENCODE_JOB_FAILURE_RECOVERY_OPERATIONS context
       then JsObject [(''kind'', JsString ''recovery''), (''operation'', context)]
     else JsNull)"

text \<open>\<open>reportId\<close> is the identifier drawn by \<open>newId\<close>.\<close>

definition encodeJobFailureReportRecord ::
  "string \<Rightarrow> string \<Rightarrow> js_value \<Rightarrow> int \<Rightarrow> int \<Rightarrow> failure_report_row" where
  "encodeJobFailureReportRecord reportId encodeJobId report sequence occurredAt =
    (let evidence = js_get report ''evidence'';
         cell = (\<lambda>kind field. if js_is (js_get evidence ''kind'') kind
                   then js_get evidence field else JsNull) in
     \<lparr>fr_id = reportId, fr_encodeJobId = encodeJobId,
      fr_schemaVersion = js_get report ''schemaVersion'',
      fr_workerKind = JsString ''encode_worker'',
      fr_reasonCode = js_get report ''reasonCode'',
      fr_phase = js_get report ''phase'',
      fr_retryability = js_get report ''retryability'',
      fr_diagnostic = js_get report ''diagnostic'',
      fr_exitStatus = cell ''exit_status'' ''exitStatus'',
      fr_signal = cell ''signal'' ''signal'',
      fr_timeoutSeconds = cell ''timeout'' ''timeoutSeconds'',
      fr_validationCheck = cell ''validation_check'' ''check'',
      fr_expectedSeconds = cell ''duration'' ''expectedSeconds'',
      fr_observedSeconds = cell ''duration'' ''observedSeconds'',
      fr_context = encodeJobFailureEvidenceContext evidence,
      fr_sequence = sequence, fr_occurredAt = occurredAt, fr_createdAt = occurredAt\<rparr>)"

text \<open>The report read back: the row's own columns, and the evidence they spell.\<close>

record stored_failure_report =
  sr_row :: failure_report_row
  sr_evidence :: js_value

definition toEncodeJobFailureReport :: "failure_report_row \<Rightarrow> stored_failure_report result" where
  "toEncodeJobFailureReport row =
    (if fr_schemaVersion row \<noteq> JsNumber (Finite 1)
     then Inl (report_error ''schema version is unsupported'')
     else
       let evidence =
         (if fr_exitStatus row \<noteq> JsNull
            then JsObject [(''kind'', JsString ''exit_status''), (''exitStatus'', fr_exitStatus row)]
          else if fr_signal row \<noteq> JsNull
            then JsObject [(''kind'', JsString ''signal''), (''signal'', fr_signal row)]
          else if fr_timeoutSeconds row \<noteq> JsNull
            then JsObject [(''kind'', JsString ''timeout''),
                           (''timeoutSeconds'', fr_timeoutSeconds row)]
          else if fr_expectedSeconds row \<noteq> JsNull \<and> fr_observedSeconds row \<noteq> JsNull
            then JsObject [(''kind'', JsString ''duration''),
                           (''expectedSeconds'', fr_expectedSeconds row),
                           (''observedSeconds'', fr_observedSeconds row)]
          else if fr_validationCheck row \<noteq> JsNull
            then JsObject [(''kind'', JsString ''validation_check''),
                           (''check'', fr_validationCheck row)]
          else if fr_context row \<noteq> JsNull
            then encodeJobFailureEvidenceFromContext (fr_reasonCode row) (fr_context row)
          else JsObject [(''kind'', JsString ''none'')]) in
       if evidence = JsNull then Inl (report_error ''has no valid evidence'')
       else Inr \<lparr>sr_row = row, sr_evidence = evidence\<rparr>)"

section \<open>The constraints of the table\<close>

type_synonym sql_bool = "bool option"

definition sql_and :: "sql_bool list \<Rightarrow> sql_bool" where
  "sql_and xs = (if Some False \<in> set xs then Some False else if None \<in> set xs then None
                 else Some True)"

definition sql_or :: "sql_bool list \<Rightarrow> sql_bool" where
  "sql_or xs = (if Some True \<in> set xs then Some True else if None \<in> set xs then None
                else Some False)"

definition sql_is_null :: "js_value \<Rightarrow> sql_bool" where
  "sql_is_null v = Some (v = JsNull)"

definition sql_eq :: "js_value \<Rightarrow> string \<Rightarrow> sql_bool" where
  "sql_eq v s = (if v = JsNull then None else Some (v = JsString s))"

definition sql_in :: "js_value \<Rightarrow> string list \<Rightarrow> sql_bool" where
  "sql_in v ss = (if v = JsNull then None else Some (js_includes ss v))"

text \<open>\<open>typeof\<close>: an integral number in a column is stored, or reads, as an integer.\<close>

fun sql_typeof :: "js_value \<Rightarrow> string" where
  "sql_typeof (JsNumber (Finite q)) = (if of_int \<lfloor>q\<rfloor> = q then ''integer'' else ''real'')"
| "sql_typeof (JsNumber NonFinite) = ''real''"
| "sql_typeof (JsString s) = ''text''"
| "sql_typeof JsNull = ''null''"
| "sql_typeof _ = ''blob''"

text \<open>A numeric comparison; a value that is not a finite number fails it.\<close>

fun sql_number :: "(rat \<Rightarrow> bool) \<Rightarrow> js_value \<Rightarrow> sql_bool" where
  "sql_number P (JsNumber (Finite q)) = Some (P q)"
| "sql_number P JsNull = None"
| "sql_number P _ = Some False"

text \<open>SQLite's \<open>length\<close> of a text counts the characters before the first NUL.\<close>

fun sql_length :: "js_value \<Rightarrow> nat" where
  "sql_length (JsString s) = length (takeWhile (\<lambda>c. c \<noteq> CHR 0x00) s)"
| "sql_length _ = 0"

definition check_passes :: "sql_bool \<Rightarrow> bool" where
  "check_passes b \<longleftrightarrow> b \<noteq> Some False"

definition nulls :: "js_value list \<Rightarrow> sql_bool list" where
  "nulls vs = map sql_is_null vs"

definition context_only :: "failure_report_row \<Rightarrow> sql_bool list" where
  "context_only r = nulls [fr_exitStatus r, fr_signal r, fr_timeoutSeconds r,
     fr_validationCheck r, fr_expectedSeconds r, fr_observedSeconds r]"

text \<open>\<open>encode_job_failure_reports_evidence_check\<close>.\<close>

definition evidence_check :: "failure_report_row \<Rightarrow> sql_bool" where
  "evidence_check r = sql_or
    [sql_and ([sql_eq (fr_reasonCode r) ''command_failed'']
       @ nulls [fr_timeoutSeconds r, fr_validationCheck r, fr_expectedSeconds r,
                fr_observedSeconds r, fr_context r]
       @ [sql_or
           [sql_and [Some (sql_typeof (fr_exitStatus r) = ''integer''),
                     sql_number (\<lambda>q. 1 \<le> q \<and> q \<le> 255) (fr_exitStatus r),
                     sql_is_null (fr_signal r)],
            sql_and [sql_is_null (fr_exitStatus r),
                     sql_in (fr_signal r) ENCODE_JOB_FAILURE_SIGNALS]]]),
     sql_and ([sql_eq (fr_reasonCode r) ''command_timeout'',
               sql_is_null (fr_exitStatus r), sql_is_null (fr_signal r),
               Some (sql_typeof (fr_timeoutSeconds r) = ''integer''),
               sql_number (\<lambda>q. 1 \<le> q \<and> q \<le> 604800) (fr_timeoutSeconds r)]
       @ nulls [fr_validationCheck r, fr_expectedSeconds r, fr_observedSeconds r, fr_context r]),
     sql_and ([sql_eq (fr_reasonCode r) ''output_validation_failed'']
       @ nulls [fr_exitStatus r, fr_signal r, fr_timeoutSeconds r, fr_context r]
       @ [sql_or
           [sql_and [sql_in (fr_validationCheck r) ENCODE_JOB_FAILURE_VALIDATION_CHECKS,
                     sql_is_null (fr_expectedSeconds r), sql_is_null (fr_observedSeconds r)],
            sql_and [sql_is_null (fr_validationCheck r),
                     Some (sql_typeof (fr_expectedSeconds r) \<in> {''integer'', ''real''}),
                     sql_number (\<lambda>q. 0 < q) (fr_expectedSeconds r),
                     sql_number (\<lambda>q. q \<le> 604800) (fr_expectedSeconds r),
                     Some (sql_typeof (fr_observedSeconds r) \<in> {''integer'', ''real''}),
                     sql_number (\<lambda>q. 0 \<le> q) (fr_observedSeconds r),
                     sql_number (\<lambda>q. q \<le> 604800) (fr_observedSeconds r)]]]),
     sql_and ([sql_in (fr_reasonCode r)
                 [''input_unavailable'', ''invalid_configuration'', ''output_conflict'',
                  ''unsafe_output_state'', ''unknown_failure'']]
       @ context_only r @ [sql_is_null (fr_context r)]),
     sql_and ([sql_eq (fr_reasonCode r) ''cleanup_failed''] @ context_only r
       @ [sql_in (fr_context r) [''partial_output'', ''replacement_artifact'',
            ''published_output'', ''publication_completion'']]),
     sql_and ([sql_eq (fr_reasonCode r) ''publication_failed''] @ context_only r
       @ [sql_in (fr_context r) [''publication_mutation'', ''publication_completion'']]),
     sql_and ([sql_eq (fr_reasonCode r) ''lease_expired''] @ context_only r
       @ [sql_in (fr_context r) [''job_claim'', ''publication_cleanup'']]),
     sql_and ([sql_eq (fr_reasonCode r) ''worker_interrupted''] @ context_only r
       @ [sql_in (fr_context r) [''worker_shutdown'', ''publication_completion'']]),
     sql_and ([sql_eq (fr_reasonCode r) ''publication_recovery_failed''] @ context_only r
       @ [sql_in (fr_context r) [''publication_recovery'', ''cleanup_recovery'']])]"

text \<open>\<open>encode_job_failure_reports_reason_phase_check\<close>.\<close>

definition reason_phase_check :: "failure_report_row \<Rightarrow> sql_bool" where
  "reason_phase_check r =
    (let reason = fr_reasonCode r; phase = fr_phase r;
         after = sql_eq (fr_retryability r) ''after_action'';
         working = [''preparation'', ''scanning'', ''previewing'', ''encoding'', ''validation'',
                    ''publication''] in
     sql_or
      [sql_in reason [''input_unavailable'', ''invalid_configuration'', ''output_conflict'',
         ''unsafe_output_state'', ''command_failed'', ''command_timeout'',
         ''output_validation_failed'', ''unknown_failure''],
       sql_and [sql_eq reason ''cleanup_failed'', sql_eq phase ''cleanup'', after],
       sql_and [sql_eq reason ''publication_failed'', sql_eq phase ''publication'', after],
       sql_and [sql_eq reason ''lease_expired'', after,
         sql_or [sql_and [sql_eq (fr_context r) ''publication_cleanup'',
                          sql_in phase [''publication'', ''cleanup'']],
                 sql_and [sql_eq (fr_context r) ''job_claim'', sql_in phase working]]],
       sql_and [sql_eq reason ''worker_interrupted'', after,
         sql_or [sql_and [sql_eq (fr_context r) ''publication_completion'',
                          sql_eq phase ''publication''],
                 sql_and [sql_eq (fr_context r) ''worker_shutdown'', sql_in phase working]]],
       sql_and [sql_eq reason ''publication_recovery_failed'', sql_eq phase ''recovery'', after]])"

definition failure_report_checks :: "failure_report_row \<Rightarrow> bool" where
  "failure_report_checks r \<longleftrightarrow> list_all check_passes
    [Some (fr_schemaVersion r = JsNumber (Finite 1)),
     sql_eq (fr_workerKind r) ''encode_worker'',
     sql_in (fr_reasonCode r) ENCODE_JOB_FAILURE_REASON_CODES,
     sql_in (fr_phase r) ENCODE_JOB_FAILURE_PHASES,
     sql_in (fr_retryability r) ENCODE_JOB_FAILURE_RETRYABILITIES,
     sql_or [sql_is_null (fr_diagnostic r),
       sql_and [Some (sql_typeof (fr_diagnostic r) = ''text''),
                Some (1 \<le> sql_length (fr_diagnostic r) \<and> sql_length (fr_diagnostic r) \<le> 500)]],
     Some (1 \<le> fr_sequence r),
     evidence_check r,
     reason_phase_check r]
   \<and> list_all (\<lambda>v. v \<noteq> JsNull \<and> v \<noteq> JsUndefined)
       [fr_schemaVersion r, fr_workerKind r, fr_reasonCode r, fr_phase r, fr_retryability r]"

section \<open>What a validated report says\<close>

text \<open>
  The reports the code means to accept, as typed data: the evidence of each kind, and which
  reason, phase and retryability it goes with.
\<close>

datatype failure_evidence =
    ExitStatus int
  | Signal string
  | Timeout int
  | Duration rat rat
  | ValidationCheck string
  | Cleanup string
  | Publication string
  | Lease string
  | Interruption string
  | Recovery string
  | NoEvidence

fun evidence_object :: "failure_evidence \<Rightarrow> js_value" where
  "evidence_object (ExitStatus n) =
     JsObject [(''kind'', JsString ''exit_status''), (''exitStatus'', JsNumber (Finite (of_int n)))]"
| "evidence_object (Signal s) = JsObject [(''kind'', JsString ''signal''), (''signal'', JsString s)]"
| "evidence_object (Timeout n) =
     JsObject [(''kind'', JsString ''timeout''), (''timeoutSeconds'', JsNumber (Finite (of_int n)))]"
| "evidence_object (Duration e q) =
     JsObject [(''kind'', JsString ''duration''), (''expectedSeconds'', JsNumber (Finite e)),
               (''observedSeconds'', JsNumber (Finite q))]"
| "evidence_object (ValidationCheck s) =
     JsObject [(''kind'', JsString ''validation_check''), (''check'', JsString s)]"
| "evidence_object (Cleanup s) =
     JsObject [(''kind'', JsString ''cleanup''), (''operation'', JsString s)]"
| "evidence_object (Publication s) =
     JsObject [(''kind'', JsString ''publication''), (''operation'', JsString s)]"
| "evidence_object (Lease s) = JsObject [(''kind'', JsString ''lease''), (''scope'', JsString s)]"
| "evidence_object (Interruption s) =
     JsObject [(''kind'', JsString ''interruption''), (''source'', JsString s)]"
| "evidence_object (Recovery s) =
     JsObject [(''kind'', JsString ''recovery''), (''operation'', JsString s)]"
| "evidence_object NoEvidence = JsObject [(''kind'', JsString ''none'')]"

definition working_phases :: "string list" where
  "working_phases = [''preparation'', ''scanning'', ''previewing'', ''encoding'', ''validation'',
     ''publication'']"

inductive admissible_report :: "string \<Rightarrow> string \<Rightarrow> string \<Rightarrow> failure_evidence \<Rightarrow> bool" where
  exit_status: "p \<in> {''scanning'', ''previewing'', ''encoding''} \<Longrightarrow> 1 \<le> n \<Longrightarrow> n \<le> 255 \<Longrightarrow>
    admissible_report ''command_failed'' p ''appropriate'' (ExitStatus n)"
| signal: "p \<in> {''scanning'', ''previewing'', ''encoding''} \<Longrightarrow>
    s \<in> set ENCODE_JOB_FAILURE_SIGNALS \<Longrightarrow>
    admissible_report ''command_failed'' p ''appropriate'' (Signal s)"
| timeout: "p \<in> {''scanning'', ''previewing'', ''encoding''} \<Longrightarrow> 1 \<le> n \<Longrightarrow> n \<le> 604800 \<Longrightarrow>
    admissible_report ''command_timeout'' p ''appropriate'' (Timeout n)"
| duration: "0 < e \<Longrightarrow> e \<le> 604800 \<Longrightarrow> 0 \<le> q \<Longrightarrow> q \<le> 604800 \<Longrightarrow>
    admissible_report ''output_validation_failed'' p t (Duration e q)"
| validation_check: "s \<in> set ENCODE_JOB_FAILURE_VALIDATION_CHECKS \<Longrightarrow>
    admissible_report ''output_validation_failed'' p t (ValidationCheck s)"
| cleanup: "s \<in> set ENCODE_JOB_FAILURE_CLEANUP_OPERATIONS \<Longrightarrow>
    admissible_report ''cleanup_failed'' ''cleanup'' ''after_action'' (Cleanup s)"
| publication: "s \<in> set ENCODE_JOB_FAILURE_PUBLICATION_OPERATIONS \<Longrightarrow>
    admissible_report ''publication_failed'' ''publication'' ''after_action'' (Publication s)"
| lease_cleanup: "p \<in> {''publication'', ''cleanup''} \<Longrightarrow>
    admissible_report ''lease_expired'' p ''after_action'' (Lease ''publication_cleanup'')"
| lease_claim: "p \<in> set working_phases \<Longrightarrow>
    admissible_report ''lease_expired'' p ''after_action'' (Lease ''job_claim'')"
| interrupted_publication:
    "admissible_report ''worker_interrupted'' ''publication'' ''after_action''
       (Interruption ''publication_completion'')"
| interrupted_worker: "p \<in> set working_phases \<Longrightarrow>
    admissible_report ''worker_interrupted'' p ''after_action'' (Interruption ''worker_shutdown'')"
| recovery: "s \<in> set ENCODE_JOB_FAILURE_RECOVERY_OPERATIONS \<Longrightarrow>
    admissible_report ''publication_recovery_failed'' ''recovery'' ''after_action'' (Recovery s)"
| no_evidence: "r \<in> {''input_unavailable'', ''invalid_configuration'', ''output_conflict'',
      ''unsafe_output_state'', ''unknown_failure''} \<Longrightarrow>
    admissible_report r p t NoEvidence"

fun js_members :: "js_value \<Rightarrow> string \<Rightarrow> js_value option" where
  "js_members (JsObject members) = map_of members"
| "js_members _ = Map.empty"

lemma js_get_members: "js_get v k = (case js_members v k of None \<Rightarrow> JsUndefined | Some w \<Rightarrow> w)"
  by (cases v) simp_all

lemma js_includes_iff: "js_includes ss v \<longleftrightarrow> (\<exists>s \<in> set ss. v = JsString s)"
  by (cases v) auto

lemma js_isSafeInteger_cases:
  assumes "js_isSafeInteger v"
  obtains n where "v = JsNumber (Finite (of_int n))" and "is_safe_integer n"
proof -
  from assms obtain q where "v = JsNumber (Finite q)" and "of_int \<lfloor>q\<rfloor> = q"
    and "is_safe_integer \<lfloor>q\<rfloor>" by (cases v rule: js_isSafeInteger.cases) auto
  then show thesis using that [of "\<lfloor>q\<rfloor>"] by metis
qed

lemma js_isFinite_cases:
  assumes "js_isFinite v"
  obtains q where "v = JsNumber (Finite q)"
  using assms by (cases v rule: js_isFinite.cases) auto

lemma same_members_get:
  "js_members e = js_members (evidence_object ev) \<Longrightarrow> js_get e k = js_get (evidence_object ev) k"
  by (simp add: js_get_members)

lemma same_members_object:
  assumes "js_members e = js_members (evidence_object ev)"
  obtains ms where "e = JsObject ms"
proof -
  have "js_members (evidence_object ev) ''kind'' \<noteq> None" by (cases ev) simp_all
  then have "js_members e ''kind'' \<noteq> None" by (simp add: assms)
  with that show thesis by (cases e) simp_all
qed

lemma members_of_keys:
  assumes "js_is_object e" and "\<not> list_ex (\<lambda>k. k \<notin> fst ` set ms) (js_keys e)"
    and "\<And>k v. map_of ms k = Some v \<Longrightarrow> js_get e k = v \<and> v \<noteq> JsUndefined"
    and "ms \<noteq> []"
  shows "js_members e = js_members (JsObject ms)"
proof -
  from \<open>ms \<noteq> []\<close> have "map_of ms (fst (hd ms)) = Some (snd (hd ms))" by (cases ms) auto
  then obtain k v where "map_of ms k = Some v" by blast
  with assms(1,3) obtain es where e: "e = JsObject es"
    by (cases e) auto
  have "map_of es k = map_of ms k" for k
  proof (cases "map_of ms k")
    case None
    then have "k \<notin> fst ` set ms" by (simp add: map_of_eq_None_iff)
    with assms(2) have "k \<notin> fst ` set es" by (auto simp: e list_ex_iff)
    then have "map_of es k = None" by (simp add: map_of_eq_None_iff)
    with None show ?thesis by simp
  next
    case (Some v)
    with assms(3) [OF this] show ?thesis by (auto simp: e split: option.splits)
  qed
  then show ?thesis by (auto simp: e)
qed

lemma members_field:
  assumes "js_is_object e" and "\<not> list_ex (\<lambda>k. k \<notin> set (evidence_keys (js_get e ''kind''))) (js_keys e)"
    and "js_get e ''kind'' = JsString kind" and "evidence_keys (JsString kind) = [''kind'', field]"
    and "js_get e field = v" and "v \<noteq> JsUndefined"
  shows "js_members e = js_members (JsObject [(''kind'', JsString kind), (field, v)])"
  using assms by (intro members_of_keys) (auto split: if_splits)

lemma members_duration:
  assumes "js_is_object e" and "\<not> list_ex (\<lambda>k. k \<notin> set (evidence_keys (js_get e ''kind''))) (js_keys e)"
    and "js_get e ''kind'' = JsString ''duration''"
    and "js_get e ''expectedSeconds'' = JsNumber (Finite x)"
    and "js_get e ''observedSeconds'' = JsNumber (Finite y)"
  shows "js_members e = js_members (evidence_object (Duration x y))"
  unfolding evidence_object.simps using assms
  by (intro members_of_keys) (auto simp: evidence_keys_def js_is_def split: if_splits)

lemma members_none:
  assumes "js_is_object e" and "\<not> list_ex (\<lambda>k. k \<notin> set (evidence_keys (js_get e ''kind''))) (js_keys e)"
    and "js_get e ''kind'' = JsString ''none''"
  shows "js_members e = js_members (evidence_object NoEvidence)"
  unfolding evidence_object.simps using assms
  by (intro members_of_keys) (auto simp: evidence_keys_def js_is_def split: if_splits)

lemma evidence_keys_simps:
  "evidence_keys (JsString ''exit_status'') = [''kind'', ''exitStatus'']"
  "evidence_keys (JsString ''signal'') = [''kind'', ''signal'']"
  "evidence_keys (JsString ''timeout'') = [''kind'', ''timeoutSeconds'']"
  "evidence_keys (JsString ''validation_check'') = [''kind'', ''check'']"
  "evidence_keys (JsString ''cleanup'') = [''kind'', ''operation'']"
  "evidence_keys (JsString ''publication'') = [''kind'', ''operation'']"
  "evidence_keys (JsString ''lease'') = [''kind'', ''scope'']"
  "evidence_keys (JsString ''interruption'') = [''kind'', ''source'']"
  "evidence_keys (JsString ''recovery'') = [''kind'', ''operation'']"
  by (simp_all add: evidence_keys_def js_is_def)

text \<open>An object whose keys are those its \<open>kind\<close> allows, and the evidence it spells.\<close>

definition allowlisted_evidence :: "js_value \<Rightarrow> bool" where
  "allowlisted_evidence e \<longleftrightarrow> js_is_object e
     \<and> \<not> list_ex (\<lambda>k. k \<notin> set (evidence_keys (js_get e ''kind''))) (js_keys e)"

definition spells_admissible :: "string \<Rightarrow> string \<Rightarrow> string \<Rightarrow> js_value \<Rightarrow> bool" where
  "spells_admissible r p t e \<longleftrightarrow>
     (\<exists>ev. js_members e = js_members (evidence_object ev) \<and> admissible_report r p t ev)"

lemma spells_field:
  assumes "allowlisted_evidence e" and "evidence_object ev = JsObject [(''kind'', JsString k), (f, v)]"
    and "js_get e ''kind'' = JsString k" and "js_get e f = v"
    and "evidence_keys (JsString k) = [''kind'', f]" and "v \<noteq> JsUndefined"
    and "admissible_report r p t ev"
  shows "spells_admissible r p t e"
  using members_field [of e k f v] assms unfolding allowlisted_evidence_def spells_admissible_def
  by metis

lemmas classification_cases = require_classification_def Let_def js_is_def reject_if_def
  js_includes_iff

lemma command_failed_admissible:
  assumes "require_classification (JsString ''command_failed'') (JsString p) (JsString t) e = Inr ()"
    and e: "allowlisted_evidence e"
  shows "spells_admissible ''command_failed'' p t e"
proof -
  from assms(1) have p: "p \<in> {''scanning'', ''previewing'', ''encoding''}"
    and t: "t = ''appropriate''" by (auto simp: classification_cases split: if_splits)
  show ?thesis
  proof (cases "js_get e ''kind'' = JsString ''exit_status''")
    case True
    with assms(1) have number: "js_isSafeInteger (js_get e ''exitStatus'')"
      and range: "1 \<le> js_rat (js_get e ''exitStatus'')" "js_rat (js_get e ''exitStatus'') \<le> 255"
      by (auto simp: classification_cases not_less split: if_splits)
    from number obtain n where n: "js_get e ''exitStatus'' = JsNumber (Finite (of_int n))"
      by (rule js_isSafeInteger_cases)
    with range have "1 \<le> n" and "n \<le> 255" by simp_all
    with p t show ?thesis
      by (intro spells_field [OF e evidence_object.simps(1) True n evidence_keys_simps(1)])
        (simp_all add: admissible_report.exit_status)
  next
    case False
    with assms(1) obtain s where s: "js_get e ''kind'' = JsString ''signal''"
      "js_get e ''signal'' = JsString s" and "s \<in> set ENCODE_JOB_FAILURE_SIGNALS"
      by (auto simp: classification_cases split: if_splits)
    with p t show ?thesis
      by (intro spells_field [OF e evidence_object.simps(2) s evidence_keys_simps(2)])
        (simp_all add: admissible_report.signal)
  qed
qed

lemma command_timeout_admissible:
  assumes "require_classification (JsString ''command_timeout'') (JsString p) (JsString t) e = Inr ()"
    and e: "allowlisted_evidence e"
  shows "spells_admissible ''command_timeout'' p t e"
proof -
  from assms(1) have p: "p \<in> {''scanning'', ''previewing'', ''encoding''}"
    and t: "t = ''appropriate''" and kind: "js_get e ''kind'' = JsString ''timeout''"
    and number: "js_isSafeInteger (js_get e ''timeoutSeconds'')"
    and range: "1 \<le> js_rat (js_get e ''timeoutSeconds'')"
      "js_rat (js_get e ''timeoutSeconds'') \<le> 604800"
    by (auto simp: classification_cases not_less split: if_splits)
  from number obtain n where n: "js_get e ''timeoutSeconds'' = JsNumber (Finite (of_int n))"
    by (rule js_isSafeInteger_cases)
  with range have "1 \<le> n" and "n \<le> 604800" by simp_all
  with p t show ?thesis
    by (intro spells_field [OF e evidence_object.simps(3) kind n evidence_keys_simps(3)])
      (simp_all add: admissible_report.timeout)
qed

lemma output_validation_failed_admissible:
  assumes "require_classification (JsString ''output_validation_failed'') (JsString p) (JsString t) e
      = Inr ()"
    and e: "allowlisted_evidence e"
  shows "spells_admissible ''output_validation_failed'' p t e"
proof (cases "js_get e ''kind'' = JsString ''duration''")
  case True
  with assms(1) have number: "js_isFinite (js_get e ''expectedSeconds'')"
      "js_isFinite (js_get e ''observedSeconds'')"
    and range: "0 < js_rat (js_get e ''expectedSeconds'')"
      "js_rat (js_get e ''expectedSeconds'') \<le> 604800"
      "0 \<le> js_rat (js_get e ''observedSeconds'')"
      "js_rat (js_get e ''observedSeconds'') \<le> 604800"
    by (auto simp: classification_cases not_less not_le ENCODE_JOB_FAILURE_DURATION_MAX_SECONDS_def
        split: if_splits)
  from number(1) obtain x where x: "js_get e ''expectedSeconds'' = JsNumber (Finite x)"
    by (rule js_isFinite_cases)
  from number(2) obtain y where y: "js_get e ''observedSeconds'' = JsNumber (Finite y)"
    by (rule js_isFinite_cases)
  from range x y have "admissible_report ''output_validation_failed'' p t (Duration x y)"
    by (simp add: admissible_report.duration)
  with members_duration [OF _ _ True x y] e show ?thesis
    unfolding allowlisted_evidence_def spells_admissible_def by blast
next
  case False
  with assms(1) obtain s where s: "js_get e ''kind'' = JsString ''validation_check''"
    "js_get e ''check'' = JsString s" and "s \<in> set ENCODE_JOB_FAILURE_VALIDATION_CHECKS"
    by (auto simp: classification_cases split: if_splits)
  then show ?thesis
    by (intro spells_field [OF e evidence_object.simps(5) s evidence_keys_simps(4)])
      (simp_all add: admissible_report.validation_check)
qed

lemma operation_failed_admissible:
  assumes "require_classification (JsString r) (JsString p) (JsString t) e = Inr ()"
    and e: "allowlisted_evidence e"
    and r: "r = ''cleanup_failed'' \<or> r = ''publication_failed'' \<or> r = ''publication_recovery_failed''"
  shows "spells_admissible r p t e"
  using r
proof (elim disjE)
  assume r: "r = ''cleanup_failed''"
  with assms(1) obtain s where s: "js_get e ''kind'' = JsString ''cleanup''"
    "js_get e ''operation'' = JsString s" and "p = ''cleanup''" and "t = ''after_action''"
    and "s \<in> set ENCODE_JOB_FAILURE_CLEANUP_OPERATIONS"
    by (auto simp: classification_cases split: if_splits)
  then show ?thesis unfolding r
    by (intro spells_field [OF e evidence_object.simps(6) s evidence_keys_simps(5)])
      (simp_all add: admissible_report.cleanup)
next
  assume r: "r = ''publication_failed''"
  with assms(1) obtain s where s: "js_get e ''kind'' = JsString ''publication''"
    "js_get e ''operation'' = JsString s" and "p = ''publication''" and "t = ''after_action''"
    and "s \<in> set ENCODE_JOB_FAILURE_PUBLICATION_OPERATIONS"
    by (auto simp: classification_cases split: if_splits)
  then show ?thesis unfolding r
    by (intro spells_field [OF e evidence_object.simps(7) s evidence_keys_simps(6)])
      (simp_all add: admissible_report.publication)
next
  assume r: "r = ''publication_recovery_failed''"
  with assms(1) obtain s where s: "js_get e ''kind'' = JsString ''recovery''"
    "js_get e ''operation'' = JsString s" and "p = ''recovery''" and "t = ''after_action''"
    and "s \<in> set ENCODE_JOB_FAILURE_RECOVERY_OPERATIONS"
    by (auto simp: classification_cases split: if_splits)
  then show ?thesis unfolding r
    by (intro spells_field [OF e evidence_object.simps(10) s evidence_keys_simps(9)])
      (simp_all add: admissible_report.recovery)
qed

lemma worker_phase:
  "p \<in> set ENCODE_JOB_FAILURE_PHASES \<Longrightarrow> p \<noteq> ''cleanup'' \<Longrightarrow> p \<noteq> ''recovery'' \<Longrightarrow>
    p \<in> set working_phases"
  by (auto simp: working_phases_def ENCODE_JOB_FAILURE_PHASES_def)

lemma lease_expired_admissible:
  assumes "require_classification (JsString ''lease_expired'') (JsString p) (JsString t) e = Inr ()"
    and e: "allowlisted_evidence e" and "p \<in> set ENCODE_JOB_FAILURE_PHASES"
  shows "spells_admissible ''lease_expired'' p t e"
proof -
  have "t = ''after_action'' \<and> js_get e ''kind'' = JsString ''lease''
      \<and> (\<exists>s \<in> set ENCODE_JOB_FAILURE_LEASE_SCOPES. js_get e ''scope'' = JsString s)
      \<and> (js_get e ''scope'' = JsString ''publication_cleanup'' \<longrightarrow> p = ''publication'' \<or> p = ''cleanup'')
      \<and> (js_get e ''scope'' = JsString ''job_claim'' \<longrightarrow> p \<noteq> ''cleanup'' \<and> p \<noteq> ''recovery'')"
    using assms(1) by (simp add: classification_cases split: if_splits)
  then obtain s where s: "js_get e ''kind'' = JsString ''lease''" "js_get e ''scope'' = JsString s"
    and "t = ''after_action''" and scope: "s \<in> set ENCODE_JOB_FAILURE_LEASE_SCOPES"
    and "s = ''publication_cleanup'' \<Longrightarrow> p = ''publication'' \<or> p = ''cleanup''"
    and "s = ''job_claim'' \<Longrightarrow> p \<noteq> ''cleanup'' \<and> p \<noteq> ''recovery''" by blast
  moreover from scope have "s = ''job_claim'' \<or> s = ''publication_cleanup''"
    by (simp add: ENCODE_JOB_FAILURE_LEASE_SCOPES_def)
  ultimately have "admissible_report ''lease_expired'' p t (Lease s)"
    using worker_phase [OF assms(3)]
    by (elim disjE) (simp_all add: admissible_report.lease_cleanup admissible_report.lease_claim)
  then show ?thesis
    by (intro spells_field [OF e evidence_object.simps(8) s evidence_keys_simps(7)]) simp_all
qed

lemma worker_interrupted_admissible:
  assumes "require_classification (JsString ''worker_interrupted'') (JsString p) (JsString t) e = Inr ()"
    and e: "allowlisted_evidence e" and "p \<in> set ENCODE_JOB_FAILURE_PHASES"
  shows "spells_admissible ''worker_interrupted'' p t e"
proof -
  have "t = ''after_action'' \<and> js_get e ''kind'' = JsString ''interruption''
      \<and> (\<exists>s \<in> set ENCODE_JOB_FAILURE_INTERRUPTION_SOURCES. js_get e ''source'' = JsString s)
      \<and> (js_get e ''source'' = JsString ''publication_completion'' \<longrightarrow> p = ''publication'')
      \<and> p \<noteq> ''cleanup'' \<and> p \<noteq> ''recovery''"
    using assms(1) by (simp add: classification_cases split: if_splits)
  then obtain s where s: "js_get e ''kind'' = JsString ''interruption''"
    "js_get e ''source'' = JsString s" and "t = ''after_action''"
    and source: "s \<in> set ENCODE_JOB_FAILURE_INTERRUPTION_SOURCES"
    and "s = ''publication_completion'' \<Longrightarrow> p = ''publication''"
    and "p \<noteq> ''cleanup''" "p \<noteq> ''recovery''" by blast
  moreover from source have "s = ''worker_shutdown'' \<or> s = ''publication_completion''"
    by (simp add: ENCODE_JOB_FAILURE_INTERRUPTION_SOURCES_def)
  ultimately have "admissible_report ''worker_interrupted'' p t (Interruption s)"
    using worker_phase [OF assms(3)]
    by (elim disjE) (simp_all add: admissible_report.interrupted_publication
        admissible_report.interrupted_worker)
  then show ?thesis
    by (intro spells_field [OF e evidence_object.simps(9) s evidence_keys_simps(8)]) simp_all
qed

lemma other_reason_admissible:
  assumes "require_classification (JsString r) (JsString p) (JsString t) e = Inr ()"
    and e: "allowlisted_evidence e"
    and r: "r \<in> {''input_unavailable'', ''invalid_configuration'', ''output_conflict'',
      ''unsafe_output_state'', ''unknown_failure''}"
  shows "spells_admissible r p t e"
proof -
  from r assms(1) have "js_get e ''kind'' = JsString ''none''"
    by (elim insertE emptyE) (simp_all add: classification_cases split: if_splits)
  with members_none e admissible_report.no_evidence [OF r] show ?thesis
    unfolding allowlisted_evidence_def spells_admissible_def by blast
qed

lemma classification_admissible:
  assumes "require_classification (JsString r) (JsString p) (JsString t) e = Inr ()"
    and "allowlisted_evidence e"
    and "r \<in> set ENCODE_JOB_FAILURE_REASON_CODES" and "p \<in> set ENCODE_JOB_FAILURE_PHASES"
  shows "spells_admissible r p t e"
proof -
  from assms(3) have "r = ''command_failed'' \<or> r = ''command_timeout''
      \<or> r = ''output_validation_failed'' \<or> r = ''lease_expired'' \<or> r = ''worker_interrupted''
      \<or> (r = ''cleanup_failed'' \<or> r = ''publication_failed'' \<or> r = ''publication_recovery_failed'')
      \<or> r \<in> {''input_unavailable'', ''invalid_configuration'', ''output_conflict'',
              ''unsafe_output_state'', ''unknown_failure''}"
    unfolding ENCODE_JOB_FAILURE_REASON_CODES_def list.set insert_iff empty_iff by argo
  then show ?thesis
    using assms(1,2,4) command_failed_admissible command_timeout_admissible
      output_validation_failed_admissible lease_expired_admissible worker_interrupted_admissible
      operation_failed_admissible other_reason_admissible
    by metis
qed

lemma same_members_keys:
  assumes "js_members e = js_members (evidence_object ev)"
  shows "js_is_object e" and "set (js_keys e) = set (js_keys (evidence_object ev))"
proof -
  from assms obtain ms where e: "e = JsObject ms" by (rule same_members_object)
  obtain es where ev: "evidence_object ev = JsObject es" by (cases ev) simp_all
  from assms have "dom (map_of ms) = dom (map_of es)" by (simp add: e ev)
  then show "js_is_object e" and "set (js_keys e) = set (js_keys (evidence_object ev))"
    by (simp_all add: e ev dom_map_of_conv_image_fst)
qed

lemma evidence_keys_other:
  "evidence_keys (JsString ''duration'') = [''kind'', ''expectedSeconds'', ''observedSeconds'']"
  "evidence_keys (JsString ''none'') = [''kind'']"
  by (simp_all add: evidence_keys_def js_is_def)

lemma admissible_allowlisted:
  assumes "js_members e = js_members (evidence_object ev)"
  shows "allowlisted_evidence e"
proof -
  have "set (js_keys (evidence_object ev))
      = set (evidence_keys (js_get (evidence_object ev) ''kind''))"
    by (cases ev) (simp_all add: evidence_keys_simps evidence_keys_other)
  with same_members_keys [OF assms] same_members_get [OF assms, of "''kind''"] show ?thesis
    unfolding allowlisted_evidence_def list_ex_iff by simp
qed

lemma admissible_passes:
  assumes "admissible_report r p t ev" and "js_members e = js_members (evidence_object ev)"
  shows "require_classification (JsString r) (JsString p) (JsString t) e = Inr ()"
proof -
  note get = same_members_get [OF assms(2)]
  note defs = require_classification_def get js_is_def reject_if_def
  show ?thesis using assms(1)
  proof cases
    case (exit_status n)
    then show ?thesis
      by (elim insertE emptyE) (simp_all add: defs is_safe_integer_def max_safe_integer_def)
  next
    case (signal s)
    then show ?thesis by (elim insertE emptyE) (simp_all add: defs)
  next
    case (timeout n)
    then show ?thesis
      by (elim insertE emptyE) (simp_all add: defs is_safe_integer_def max_safe_integer_def)
  next
    case (duration x y)
    then show ?thesis by (simp add: defs ENCODE_JOB_FAILURE_DURATION_MAX_SECONDS_def)
  next
    case (lease_claim)
    then show ?thesis
      by (simp add: defs ENCODE_JOB_FAILURE_LEASE_SCOPES_def working_phases_def) (elim disjE; simp)
  next
    case (interrupted_worker)
    then show ?thesis
      by (simp add: defs ENCODE_JOB_FAILURE_INTERRUPTION_SOURCES_def working_phases_def)
        (elim disjE; simp)
  next
    case no_evidence
    then show ?thesis by (elim insertE emptyE) (simp_all add: defs)
  next
    case lease_cleanup
    then show ?thesis
      by (elim insertE emptyE) (simp_all add: defs ENCODE_JOB_FAILURE_LEASE_SCOPES_def)
  qed (simp_all add: defs ENCODE_JOB_FAILURE_INTERRUPTION_SOURCES_def)
qed

lemma spells_admissible_iff:
  assumes "r \<in> set ENCODE_JOB_FAILURE_REASON_CODES" and "p \<in> set ENCODE_JOB_FAILURE_PHASES"
  shows "spells_admissible r p t e \<longleftrightarrow> allowlisted_evidence e
    \<and> require_classification (JsString r) (JsString p) (JsString t) e = Inr ()"
  using admissible_passes admissible_allowlisted classification_admissible [OF _ _ assms]
  unfolding spells_admissible_def by blast

definition acceptable_diagnostic :: "js_value \<Rightarrow> bool" where
  "acceptable_diagnostic d \<longleftrightarrow> d = JsUndefined \<or> d = JsNull
     \<or> (\<exists>s. d = JsString s \<and> length (js_trim s) \<le> 500)"

lemma trimmed_acceptable:
  "acceptable_diagnostic d \<longleftrightarrow>
     \<not> (d \<noteq> JsUndefined \<and> d \<noteq> JsNull \<and> \<not> (case d of JsString s \<Rightarrow> True | _ \<Rightarrow> False))
     \<and> \<not> 500 < js_length (trimmed_diagnostic d)"
  by (cases d) (auto simp: acceptable_diagnostic_def Let_def)


lemma requireAllowlistedKeys_Inr [result_simps]:
  "requireAllowlistedKeys v ks f = Inr u \<longleftrightarrow> js_is_object v \<and> set (js_keys v) \<subseteq> set ks"
  by (auto simp: requireAllowlistedKeys_def reject_if_def list_ex_iff)

lemma allowlisted_evidence_checked:
  "allowlisted_evidence e \<longleftrightarrow>
     requireAllowlistedKeys e (evidence_keys (js_get e ''kind'')) field = Inr ()"
  by (auto simp: allowlisted_evidence_def result_simps list_ex_iff)
lemma validate_iff:
  "validateEncodeJobFailureReport input = Inr report \<longleftrightarrow>
     js_is_object input
     \<and> set (js_keys input) \<subseteq> {''schemaVersion'', ''reasonCode'', ''phase'', ''retryability'',
         ''diagnostic'', ''evidence''}
     \<and> js_get input ''schemaVersion'' = JsNumber (Finite 1)
     \<and> acceptable_diagnostic (js_get input ''diagnostic'')
     \<and> (\<exists>r \<in> set ENCODE_JOB_FAILURE_REASON_CODES. \<exists>p \<in> set ENCODE_JOB_FAILURE_PHASES.
          \<exists>t \<in> set ENCODE_JOB_FAILURE_RETRYABILITIES.
            js_get input ''reasonCode'' = JsString r \<and> js_get input ''phase'' = JsString p
            \<and> js_get input ''retryability'' = JsString t
            \<and> spells_admissible r p t (js_get input ''evidence''))
     \<and> report = js_spread input ''diagnostic'' (trimmed_diagnostic (js_get input ''diagnostic''))"
  (is "?lhs \<longleftrightarrow> ?rhs")
proof -
  let ?e = "js_get input ''evidence''"
  have "?lhs \<longleftrightarrow> js_is_object input
     \<and> set (js_keys input) \<subseteq> {''schemaVersion'', ''reasonCode'', ''phase'', ''retryability'',
         ''diagnostic'', ''evidence''}
     \<and> js_get input ''schemaVersion'' = JsNumber (Finite 1)
     \<and> js_includes ENCODE_JOB_FAILURE_REASON_CODES (js_get input ''reasonCode'')
     \<and> js_includes ENCODE_JOB_FAILURE_PHASES (js_get input ''phase'')
     \<and> js_includes ENCODE_JOB_FAILURE_RETRYABILITIES (js_get input ''retryability'')
     \<and> acceptable_diagnostic (js_get input ''diagnostic'')
     \<and> allowlisted_evidence ?e
     \<and> require_classification (js_get input ''reasonCode'') (js_get input ''phase'')
         (js_get input ''retryability'') ?e = Inr ()
     \<and> report = js_spread input ''diagnostic'' (trimmed_diagnostic (js_get input ''diagnostic''))"
    unfolding validateEncodeJobFailureReport_def Let_def trimmed_acceptable
      ENCODE_JOB_FAILURE_DIAGNOSTIC_MAX_LENGTH_def allowlisted_evidence_checked [of _ "''evidence''"]
      bind_error_Inr check_all_Inr list.set ball_simps requireAllowlistedKeys_Inr
      [of input] reject_if_Inr not_not sum.inject
    by (simp only: conj_ac eq_commute [of report] simp_thms)
  also have "\<dots> \<longleftrightarrow> ?rhs"
    unfolding js_includes_iff using spells_admissible_iff by auto
  finally show ?thesis .
qed

section \<open>A validated report is storable and reads back\<close>

lemma js_trim_length: "length (js_trim s) \<le> length s"
  unfolding js_trim_def using length_dropWhile_le
  by (metis length_rev order.trans)

lemma validated_fields:
  assumes "validateEncodeJobFailureReport input = Inr report"
  shows "js_get report ''diagnostic'' = trimmed_diagnostic (js_get input ''diagnostic'')"
    and "k \<noteq> ''diagnostic'' \<Longrightarrow> js_get report k = js_get input k"
proof -
  from assms [unfolded validate_iff]
  have report: "report = js_spread input ''diagnostic'' (trimmed_diagnostic (js_get input ''diagnostic''))"
    and "js_get input ''schemaVersion'' = JsNumber (Finite 1)" by blast+
  from this(2) obtain ms where "input = JsObject ms" by (cases input) simp_all
  then show "js_get report ''diagnostic'' = trimmed_diagnostic (js_get input ''diagnostic'')"
    and "k \<noteq> ''diagnostic'' \<Longrightarrow> js_get report k = js_get input k"
    by (simp_all add: report update_conv')
qed

lemma validated_report:
  assumes "validateEncodeJobFailureReport input = Inr report"
  obtains r p t ev where "js_get report ''schemaVersion'' = JsNumber (Finite 1)"
    and "js_get report ''reasonCode'' = JsString r" and "r \<in> set ENCODE_JOB_FAILURE_REASON_CODES"
    and "js_get report ''phase'' = JsString p" and "p \<in> set ENCODE_JOB_FAILURE_PHASES"
    and "js_get report ''retryability'' = JsString t" and "t \<in> set ENCODE_JOB_FAILURE_RETRYABILITIES"
    and "js_members (js_get report ''evidence'') = js_members (evidence_object ev)"
    and "admissible_report r p t ev"
    and "js_get report ''diagnostic'' = JsNull
      \<or> (\<exists>s. js_get report ''diagnostic'' = JsString s \<and> s \<noteq> [] \<and> length s \<le> 500)"
proof -
  from assms [unfolded validate_iff] obtain r p t where valid: "js_is_object input"
      "js_get input ''schemaVersion'' = JsNumber (Finite 1)"
      "acceptable_diagnostic (js_get input ''diagnostic'')"
      "r \<in> set ENCODE_JOB_FAILURE_REASON_CODES" "p \<in> set ENCODE_JOB_FAILURE_PHASES"
      "t \<in> set ENCODE_JOB_FAILURE_RETRYABILITIES"
      "js_get input ''reasonCode'' = JsString r" "js_get input ''phase'' = JsString p"
      "js_get input ''retryability'' = JsString t"
      "spells_admissible r p t (js_get input ''evidence'')"
    by blast
  note kept = validated_fields [OF assms]
  have "js_get report ''diagnostic'' = JsNull
      \<or> (\<exists>s. js_get report ''diagnostic'' = JsString s \<and> s \<noteq> [] \<and> length s \<le> 500)"
    using valid(3) unfolding kept(1) by (cases "js_get input ''diagnostic''")
      (auto simp: acceptable_diagnostic_def Let_def)
  moreover from valid(10) obtain ev
    where "js_members (js_get input ''evidence'') = js_members (evidence_object ev)"
      and "admissible_report r p t ev" by (auto simp: spells_admissible_def)
  ultimately show thesis using valid(2,4-9) by (intro that) (simp_all add: kept)
qed

lemma sql_and_True: "sql_and xs = Some True \<longleftrightarrow> (\<forall>x \<in> set xs. x = Some True)"
    "Some True = sql_and xs \<longleftrightarrow> (\<forall>x \<in> set xs. x = Some True)"
  by (auto simp: sql_and_def split: if_splits) (metis (full_types) option.exhaust)+

lemma sql_or_True: "sql_or xs = Some True \<longleftrightarrow> Some True \<in> set xs"
    "Some True = sql_or xs \<longleftrightarrow> Some True \<in> set xs"
  by (auto simp: sql_or_def)

lemma check_passes_True [simp]: "check_passes (Some True)" "\<not> check_passes (Some False)"
  by (simp_all add: check_passes_def)

text \<open>The row of a report whose evidence is known.\<close>

lemma record_of_evidence:
  assumes "js_members (js_get report ''evidence'') = js_members (evidence_object ev)"
  shows "encodeJobFailureReportRecord i j report n o' =
    (let row = encodeJobFailureReportRecord i j
       (JsObject [(''schemaVersion'', js_get report ''schemaVersion''),
          (''reasonCode'', js_get report ''reasonCode''), (''phase'', js_get report ''phase''),
          (''retryability'', js_get report ''retryability''),
          (''diagnostic'', js_get report ''diagnostic''), (''evidence'', evidence_object ev)]) n o'
     in row)"
  unfolding encodeJobFailureReportRecord_def encodeJobFailureEvidenceContext_def Let_def
  by (simp add: same_members_get [OF assms])

definition admissible_row :: "failure_report_row \<Rightarrow> bool" where
  "admissible_row row \<longleftrightarrow> (\<exists>i j r p t d ev n time. admissible_report r p t ev
     \<and> row = encodeJobFailureReportRecord i j
         (JsObject [(''schemaVersion'', JsNumber (Finite 1)), (''reasonCode'', JsString r),
            (''phase'', JsString p), (''retryability'', JsString t), (''diagnostic'', d),
            (''evidence'', evidence_object ev)]) n time)"

lemmas row_of_evidence = encodeJobFailureReportRecord_def encodeJobFailureEvidenceContext_def Let_def
  js_is_def

lemmas sql_simps = sql_or_True sql_and_True sql_eq_def sql_in_def sql_is_null_def

lemma admissible_row_evidence: "admissible_row row \<Longrightarrow> evidence_check row = Some True"
  unfolding admissible_row_def
proof (elim exE conjE)
  fix i j r p t d ev n time
  assume admissible: "admissible_report r p t ev"
    and row: "row = encodeJobFailureReportRecord i j
         (JsObject [(''schemaVersion'', JsNumber (Finite 1)), (''reasonCode'', JsString r),
            (''phase'', JsString p), (''retryability'', JsString t), (''diagnostic'', d),
            (''evidence'', evidence_object ev)]) n time"
  note defs = row row_of_evidence evidence_check_def context_only_def nulls_def sql_simps
  from admissible show "evidence_check row = Some True"
  proof cases
    case no_evidence
    then show ?thesis by (elim insertE emptyE) (simp_all add: defs)
  qed (simp_all add: defs ENCODE_JOB_FAILURE_CLEANUP_OPERATIONS_def
      ENCODE_JOB_FAILURE_PUBLICATION_OPERATIONS_def ENCODE_JOB_FAILURE_RECOVERY_OPERATIONS_def)
qed

lemma admissible_row_phase: "admissible_row row \<Longrightarrow> reason_phase_check row = Some True"
  unfolding admissible_row_def
proof (elim exE conjE)
  fix i j r p t d ev n time
  assume admissible: "admissible_report r p t ev"
    and row: "row = encodeJobFailureReportRecord i j
         (JsObject [(''schemaVersion'', JsNumber (Finite 1)), (''reasonCode'', JsString r),
            (''phase'', JsString p), (''retryability'', JsString t), (''diagnostic'', d),
            (''evidence'', evidence_object ev)]) n time"
  note defs = row row_of_evidence reason_phase_check_def sql_simps
  from admissible show "reason_phase_check row = Some True"
  proof cases
    case no_evidence
    then show ?thesis by (elim insertE emptyE) (simp_all add: defs)
  qed (simp_all add: defs working_phases_def)
qed

text \<open>
  A validated report's row is an admissible row, whatever the key order of the report it came
  from.
\<close>

lemma validated_row:
  assumes "validateEncodeJobFailureReport input = Inr report"
    and row: "row = encodeJobFailureReportRecord i j report n time"
  shows "admissible_row row" and "fr_diagnostic row = js_get report ''diagnostic''"
    and "fr_schemaVersion row = JsNumber (Finite 1)" and "fr_workerKind row = JsString ''encode_worker''"
    and "js_includes ENCODE_JOB_FAILURE_REASON_CODES (fr_reasonCode row)"
    and "js_includes ENCODE_JOB_FAILURE_PHASES (fr_phase row)"
    and "js_includes ENCODE_JOB_FAILURE_RETRYABILITIES (fr_retryability row)"
    and "fr_sequence row = n"
proof -
  from assms(1) obtain r p t ev where fields: "js_get report ''schemaVersion'' = JsNumber (Finite 1)"
      "js_get report ''reasonCode'' = JsString r" "r \<in> set ENCODE_JOB_FAILURE_REASON_CODES"
      "js_get report ''phase'' = JsString p" "p \<in> set ENCODE_JOB_FAILURE_PHASES"
      "js_get report ''retryability'' = JsString t" "t \<in> set ENCODE_JOB_FAILURE_RETRYABILITIES"
    and ev: "js_members (js_get report ''evidence'') = js_members (evidence_object ev)"
    and admissible: "admissible_report r p t ev" by (rule validated_report)
  from record_of_evidence [OF ev, of i j n time] admissible have "admissible_row row"
    unfolding admissible_row_def row fields Let_def by blast
  then show "admissible_row row" .
  from fields show "fr_diagnostic row = js_get report ''diagnostic''"
    and "fr_schemaVersion row = JsNumber (Finite 1)" and "fr_workerKind row = JsString ''encode_worker''"
    and "js_includes ENCODE_JOB_FAILURE_REASON_CODES (fr_reasonCode row)"
    and "js_includes ENCODE_JOB_FAILURE_PHASES (fr_phase row)"
    and "js_includes ENCODE_JOB_FAILURE_RETRYABILITIES (fr_retryability row)"
    and "fr_sequence row = n"
    by (simp_all add: row encodeJobFailureReportRecord_def Let_def)
qed

lemma diagnostic_check:
  assumes "d = JsNull \<or> (\<exists>s. d = JsString s \<and> s \<noteq> [] \<and> length s \<le> 500)"
  shows "check_passes (sql_or [sql_is_null d, sql_and [Some (sql_typeof d = ''text''),
      Some (1 \<le> sql_length d \<and> sql_length d \<le> 500)]])
    \<longleftrightarrow> \<not> (\<exists>s. d = JsString (CHR 0x00 # s))"
  using assms
proof (elim disjE exE conjE)
  fix s assume d: "d = JsString s" and "s \<noteq> []" and "length s \<le> 500"
  then obtain c cs where s: "s = c # cs" by (cases s) auto
  have "length (takeWhile (\<lambda>c. c \<noteq> CHR 0x00) s) \<le> 500"
    using length_takeWhile_le \<open>length s \<le> 500\<close> by (rule order.trans)
  then show ?thesis
    by (auto simp: d s check_passes_def sql_or_def sql_and_def sql_is_null_def)
qed (simp add: sql_is_null_def sql_or_def)

lemma validated_row_checks:
  assumes "validateEncodeJobFailureReport input = Inr report"
    and row_def: "row = encodeJobFailureReportRecord reportId jobId report sequence time"
  shows "failure_report_checks row \<longleftrightarrow>
    1 \<le> sequence \<and> \<not> (\<exists>s. js_get report ''diagnostic'' = JsString (CHR 0x00 # s))"
proof -
  note row = validated_row [OF assms]
  have included: "js_includes ss v \<Longrightarrow> sql_in v ss = Some True \<and> v \<noteq> JsNull \<and> v \<noteq> JsUndefined" for ss v
    by (cases v) (simp_all add: sql_in_def)
  note codes = included [OF row(5)] included [OF row(6)] included [OF row(7)]
  from assms(1) have "js_get report ''diagnostic'' = JsNull
      \<or> (\<exists>s. js_get report ''diagnostic'' = JsString s \<and> s \<noteq> [] \<and> length s \<le> 500)"
    by (rule validated_report)
  note diagnostic = diagnostic_check [OF this]
  show ?thesis
    unfolding failure_report_checks_def row(2,3,4,8) list.pred_inject
      admissible_row_evidence [OF row(1)] admissible_row_phase [OF row(1)]
    using codes diagnostic by (simp add: sql_eq_def) (auto simp: check_passes_def)
qed

text \<open>
  C14: What the validator lets through, the table takes.  A validated report becomes a row that
  meets every CHECK constraint of \<open>encode_job_failure_reports\<close>, its evidence columns and the
  pairing of reason, phase and retryability included, with one exception: a diagnostic that
  begins with a NUL character, whose \<open>length\<close> is zero to SQLite.
\<close>

theorem validated_report_is_storable:
  assumes "validateEncodeJobFailureReport input = Inr report"
  shows "failure_report_checks (encodeJobFailureReportRecord reportId jobId report sequence time) \<longleftrightarrow>
    1 \<le> sequence \<and> \<not> (\<exists>s. js_get report ''diagnostic'' = JsString (CHR 0x00 # s))"
  using assms by (rule validated_row_checks) (rule refl)

definition example_report :: js_value where
  "example_report = JsObject
     [(''schemaVersion'', JsNumber (Finite 1)), (''reasonCode'', JsString ''command_failed''),
      (''phase'', JsString ''encoding''), (''retryability'', JsString ''appropriate''),
      (''diagnostic'', JsString '' exit ''),
      (''evidence'', JsObject [(''exitStatus'', JsNumber (Finite 3)), (''kind'', JsString ''exit_status'')])]"

definition example_validated :: js_value where
  "example_validated = JsObject
     [(''schemaVersion'', JsNumber (Finite 1)), (''reasonCode'', JsString ''command_failed''),
      (''phase'', JsString ''encoding''), (''retryability'', JsString ''appropriate''),
      (''diagnostic'', JsString ''exit''),
      (''evidence'', JsObject [(''exitStatus'', JsNumber (Finite 3)), (''kind'', JsString ''exit_status'')])]"

lemma example_report_validated:
  "validateEncodeJobFailureReport example_report = Inr example_validated"
  by (simp add: example_report_def example_validated_def validateEncodeJobFailureReport_def
      requireAllowlistedKeys_def reject_if_def require_classification_def js_is_def
      js_trim_def js_whitespace_def evidence_keys_def is_safe_integer_def max_safe_integer_def
      ENCODE_JOB_FAILURE_DIAGNOSTIC_MAX_LENGTH_def ENCODE_JOB_FAILURE_REASON_CODES_def
      ENCODE_JOB_FAILURE_PHASES_def ENCODE_JOB_FAILURE_RETRYABILITIES_def Let_def)

theorem validated_report_is_storable_witness:
  "failure_report_checks (encodeJobFailureReportRecord ''r'' ''j'' example_validated 1 5)"
  using validated_report_is_storable [OF example_report_validated, of "''r''" "''j''" 1 5]
  by (simp add: example_validated_def)

lemma admissible_row_reads_back:
  assumes "admissible_report r p t ev"
    and row: "row = encodeJobFailureReportRecord i j
         (JsObject [(''schemaVersion'', JsNumber (Finite 1)), (''reasonCode'', JsString r),
            (''phase'', JsString p), (''retryability'', JsString t), (''diagnostic'', d),
            (''evidence'', evidence_object ev)]) n time"
  shows "toEncodeJobFailureReport row = Inr \<lparr>sr_row = row, sr_evidence = evidence_object ev\<rparr>"
proof -
  have cells: "fr_schemaVersion row = JsNumber (Finite 1)" "fr_reasonCode row = JsString r"
    "fr_exitStatus row = (case ev of ExitStatus n \<Rightarrow> JsNumber (Finite (of_int n)) | _ \<Rightarrow> JsNull)"
    "fr_signal row = (case ev of Signal s \<Rightarrow> JsString s | _ \<Rightarrow> JsNull)"
    "fr_timeoutSeconds row = (case ev of Timeout n \<Rightarrow> JsNumber (Finite (of_int n)) | _ \<Rightarrow> JsNull)"
    "fr_expectedSeconds row = (case ev of Duration x y \<Rightarrow> JsNumber (Finite x) | _ \<Rightarrow> JsNull)"
    "fr_observedSeconds row = (case ev of Duration x y \<Rightarrow> JsNumber (Finite y) | _ \<Rightarrow> JsNull)"
    "fr_validationCheck row = (case ev of ValidationCheck s \<Rightarrow> JsString s | _ \<Rightarrow> JsNull)"
    "fr_context row = (case ev of Cleanup s \<Rightarrow> JsString s | Publication s \<Rightarrow> JsString s
       | Lease s \<Rightarrow> JsString s | Interruption s \<Rightarrow> JsString s | Recovery s \<Rightarrow> JsString s | _ \<Rightarrow> JsNull)"
    unfolding row encodeJobFailureReportRecord_def Let_def failure_report_row.simps
      encodeJobFailureEvidenceContext_def js_get.simps
    by (cases ev; simp add: js_is_def)+
  note eval = toEncodeJobFailureReport_def cells Let_def encodeJobFailureEvidenceFromContext_def js_is_def
        ENCODE_JOB_FAILURE_LEASE_SCOPES_def ENCODE_JOB_FAILURE_INTERRUPTION_SOURCES_def
  from assms(1) show ?thesis
    by cases (simp_all add: eval)
qed
text \<open>
  C20: A stored report reads back.  The row of a validated report converts to a report with the
  row's own columns and the evidence that was recorded, property for property, whatever kind of
  evidence it is and in whatever order its keys were written.
\<close>

theorem stored_report_reads_back:
  assumes "validateEncodeJobFailureReport input = Inr report"
  shows "\<exists>s. toEncodeJobFailureReport (encodeJobFailureReportRecord reportId jobId report n time) = Inr s
    \<and> js_members (sr_evidence s) = js_members (js_get input ''evidence'')
    \<and> fr_reasonCode (sr_row s) = js_get input ''reasonCode''
    \<and> fr_phase (sr_row s) = js_get input ''phase''
    \<and> fr_retryability (sr_row s) = js_get input ''retryability''
    \<and> fr_diagnostic (sr_row s) = trimmed_diagnostic (js_get input ''diagnostic'')"
proof -
  from assms obtain r p t ev where fields: "js_get report ''schemaVersion'' = JsNumber (Finite 1)"
      "js_get report ''reasonCode'' = JsString r" "js_get report ''phase'' = JsString p"
      "js_get report ''retryability'' = JsString t"
    and ev: "js_members (js_get report ''evidence'') = js_members (evidence_object ev)"
    and admissible: "admissible_report r p t ev" by (rule validated_report)
  note kept = validated_fields [OF assms]
  from ev have "js_members (js_get input ''evidence'') = js_members (evidence_object ev)"
    by (simp add: kept)
  moreover have "toEncodeJobFailureReport (encodeJobFailureReportRecord reportId jobId report n time)
      = Inr \<lparr>sr_row = encodeJobFailureReportRecord reportId jobId report n time,
             sr_evidence = evidence_object ev\<rparr>"
    unfolding record_of_evidence [OF ev] Let_def fields
    by (rule admissible_row_reads_back [OF admissible refl])
  ultimately show ?thesis
    using kept by (simp add: encodeJobFailureReportRecord_def Let_def)
qed

theorem stored_report_reads_back_witness:
  "\<exists>s. toEncodeJobFailureReport (encodeJobFailureReportRecord ''r'' ''j'' example_validated 1 5) = Inr s
    \<and> js_members (sr_evidence s) = js_members (js_get example_report ''evidence'')"
  using stored_report_reads_back [OF example_report_validated] by blast

text \<open>
  C21: The validator accepts exactly the admissible reports.  Its chain of branches is equivalent
  to the table \<open>admissible_report\<close>: an object with no foreign keys, of schema version 1, whose
  diagnostic trims to at most 500 characters, and whose evidence spells one of the eleven kinds
  with the values, reason, phase and retryability that kind allows.
\<close>

theorem validation_accepts_exactly_admissible_reports:
  "is_ok (validateEncodeJobFailureReport input) \<longleftrightarrow>
     js_is_object input
     \<and> set (js_keys input) \<subseteq> {''schemaVersion'', ''reasonCode'', ''phase'', ''retryability'',
         ''diagnostic'', ''evidence''}
     \<and> js_get input ''schemaVersion'' = JsNumber (Finite 1)
     \<and> acceptable_diagnostic (js_get input ''diagnostic'')
     \<and> (\<exists>r \<in> set ENCODE_JOB_FAILURE_REASON_CODES. \<exists>p \<in> set ENCODE_JOB_FAILURE_PHASES.
          \<exists>t \<in> set ENCODE_JOB_FAILURE_RETRYABILITIES.
            js_get input ''reasonCode'' = JsString r \<and> js_get input ''phase'' = JsString p
            \<and> js_get input ''retryability'' = JsString t
            \<and> spells_admissible r p t (js_get input ''evidence''))"
  unfolding is_ok_iff validate_iff by (simp only: ex_simps simp_thms)

end
