(* ===== verification/EncodingProfiles.thy ===== *)
theory EncodingProfiles
  imports FailureReports
begin

text \<open>
  Encoding Profiles: the HandBrake presets an operator may choose
  (\<open>packages/config/src/handbrake-presets.ts\<close>) and what keeps a profile from being queued
  (\<open>packages/data-access/src/encoding-profile-eligibility.ts\<close>).
\<close>

definition HANDBRAKE_PRESET_GROUPS :: "(string \<times> string list) list" where
  "HANDBRAKE_PRESET_GROUPS = [
    (''General'',
      [''Very Fast 2160p60 4K AV1'', ''Very Fast 2160p60 4K HEVC'', ''Very Fast 1080p30'',
       ''Very Fast 720p30'', ''Very Fast 576p25'', ''Very Fast 480p30'',
       ''Fast 2160p60 4K AV1'', ''Fast 2160p60 4K HEVC'', ''Fast 1080p30'',
       ''Fast 720p30'', ''Fast 576p25'', ''Fast 480p30'', ''HQ 2160p60 4K AV1 Surround'',
       ''HQ 2160p60 4K HEVC Surround'', ''HQ 1080p30 Surround'', ''HQ 720p30 Surround'',
       ''HQ 576p25 Surround'', ''HQ 480p30 Surround'',
       ''Super HQ 2160p60 4K AV1 Surround'', ''Super HQ 2160p60 4K HEVC Surround'',
       ''Super HQ 1080p30 Surround'', ''Super HQ 720p30 Surround'',
       ''Super HQ 576p25 Surround'', ''Super HQ 480p30 Surround'']),
    (''Web'',
      [''Creator 2160p60 4K'', ''Creator 1440p60 2.5K'', ''Creator 1080p60'',
       ''Creator 720p60'', ''Social 25 MB 30 Seconds 1080p60'',
       ''Social 25 MB 1 Minute 720p60'', ''Social 25 MB 2 Minutes 540p60'',
       ''Social 25 MB 5 Minutes 360p60'']),
    (''Devices'',
      [''Amazon Fire 2160p60 4K HEVC Surround'', ''Amazon Fire 1080p30 Surround'',
       ''Amazon Fire 720p30'', ''Android 1080p30'', ''Android 720p30'',
       ''Android 576p25'', ''Android 480p30'', ''Apple 2160p60 4K HEVC Surround'',
       ''Apple 1080p60 Surround'', ''Apple 1080p30 Surround'', ''Apple 720p30 Surround'',
       ''Apple 540p30 Surround'', ''Chromecast 2160p60 4K HEVC Surround'',
       ''Chromecast 1080p60 Surround'', ''Chromecast 1080p30 Surround'',
       ''Playstation 2160p60 4K Surround'', ''Playstation 1080p30 Surround'',
       ''Playstation 720p30'', ''Playstation 540p30'', ''Roku 2160p60 4K HEVC Surround'',
       ''Roku 1080p30 Surround'', ''Roku 720p30 Surround'', ''Roku 576p25'',
       ''Roku 480p30'', ''Xbox 1080p30 Surround'']),
    (''Matroska'',
      [''AV1 MKV 2160p60 4K'', ''H.265 MKV 2160p60 4K'', ''H.265 MKV 1080p30'',
       ''H.265 MKV 720p30'', ''H.265 MKV 576p25'', ''H.265 MKV 480p30'',
       ''H.264 MKV 2160p60 4K'', ''H.264 MKV 1080p30'', ''H.264 MKV 720p30'',
       ''H.264 MKV 576p25'', ''H.264 MKV 480p30'', ''VP9 MKV 2160p60 4K'',
       ''VP9 MKV 1080p30'', ''VP9 MKV 720p30'', ''VP9 MKV 576p25'', ''VP9 MKV 480p30'']),
    (''Hardware'',
      [''AV1 QSV 2160p 4K'', ''H.265 NVENC 2160p 4K'', ''H.265 NVENC 1080p'',
       ''H.265 QSV 2160p 4K'', ''H.265 QSV 1080p'', ''H.265 VCN 2160p 4K'',
       ''H.265 VCN 1080p'', ''H.265 MF 2160p 4K'', ''H.265 MF 1080p'',
       ''H.265 Apple VideoToolbox 2160p 4K'', ''H.265 Apple VideoToolbox 1080p'']),
    (''Professional'',
      [''Production Max'', ''Production Standard'', ''Production Proxy 1080p'',
       ''Production Proxy 540p'', ''Preservation FFV1''])]"

definition HANDBRAKE_PRESETS :: "string list" where
  "HANDBRAKE_PRESETS = concat (map snd HANDBRAKE_PRESET_GROUPS)"

definition isHandBrakePreset :: "string \<Rightarrow> bool" where
  "isHandBrakePreset value \<longleftrightarrow> value \<in> set HANDBRAKE_PRESETS"

datatype profile_blocking_reason = Inactive | WrongMediaDomain | UnsupportedPreset | UnsupportedContainer

fun reason_text :: "profile_blocking_reason \<Rightarrow> string" where
  "reason_text Inactive = ''inactive''"
| "reason_text WrongMediaDomain = ''wrong_media_domain''"
| "reason_text UnsupportedPreset = ''unsupported_preset''"
| "reason_text UnsupportedContainer = ''unsupported_container''"

record encoding_profile =
  pf_id :: string
  pf_isActive :: bool
  pf_mediaDomain :: string
  pf_settings :: js_value

definition encodingProfileSettingsBlockingReasons :: "js_value \<Rightarrow> profile_blocking_reason list" where
  "encodingProfileSettingsBlockingReasons settings =
     (case js_get settings ''preset'' of
        JsString p \<Rightarrow> if isHandBrakePreset p then [] else [UnsupportedPreset]
      | _ \<Rightarrow> [UnsupportedPreset])
   @ (if js_get settings ''container'' \<in> {JsUndefined, JsString ''mkv''} then []
      else [UnsupportedContainer])"

definition encodingProfileQueueBlockingReasons :: "encoding_profile \<Rightarrow> profile_blocking_reason list" where
  "encodingProfileQueueBlockingReasons profile =
     (if pf_isActive profile then [] else [Inactive])
   @ (if pf_mediaDomain profile = ''dvd_video'' then [] else [WrongMediaDomain])
   @ encodingProfileSettingsBlockingReasons (pf_settings profile)"

text \<open>The presets are distinct, so an operator's choice names one preset of one group.\<close>

lemma handbrake_presets: "length HANDBRAKE_PRESETS = 89 \<and> distinct HANDBRAKE_PRESETS"
  by code_simp

end
