(* ===== verification/EncodeJobs.thy ===== *)
theory EncodeJobs
  imports EncodingProfiles
begin

text \<open>
  The Encode Job table and the transactions an encode attempt goes through: the rows and the
  constraints of \<open>encode_jobs\<close> (\<open>internal/schema.ts\<close>), and the queue adapter of
  \<open>internal/create-data-access.ts\<close> (\<open>encodeJobAdapter\<close>) with the conditions its statements
  share, the cancellation of a job and the leases of a claim.

  The database is the record \<open>encode_catalog\<close>.  A transaction takes it and returns an error, in
  which case it is rolled back, or its result with the new catalog.  Dates are the integers
  \<open>getTime()\<close> returns; \<open>now()\<close> and the identifiers drawn by \<open>newId\<close> are arguments.
\<close>

section \<open>Rows\<close>

datatype encode_job_status =
  Queued | Running | CancellationRequested | Completed | Failed | Cancelled

datatype encode_progress_phase = Scanning | Previewing | Encoding | Validation

datatype filesystem_verification_status = Accessible | Missing | Inaccessible | VerificationError

datatype catalog_review_outcome = NeedsReview | ReviewedWithSelections | ArchiveOnly

fun status_text :: "encode_job_status \<Rightarrow> string" where
  "status_text Queued = ''queued''"
| "status_text Running = ''running''"
| "status_text CancellationRequested = ''cancellation_requested''"
| "status_text Completed = ''completed''"
| "status_text Failed = ''failed''"
| "status_text Cancelled = ''cancelled''"

record encode_job =
  ej_id :: string
  ej_predecessorEncodeJobId :: "string option"
  ej_discSelectionId :: string
  ej_encodingProfileId :: string
  ej_expectedSourceDecision :: "json_value option"
  ej_outputPath :: string
  ej_reservesOutputPath :: bool
  ej_status :: encode_job_status
  ej_priority :: int
  ej_replaceExistingOutput :: bool
  ej_replacementOutputIdentity :: "string option"
  ej_partialCleanupOutputPath :: "string option"
  ej_partialCleanupClaimToken :: "string option"
  ej_partialCleanupLeaseToken :: "string option"
  ej_publicationPending :: bool
  ej_publicationCompletionPending :: bool
  ej_progressPhase :: "encode_progress_phase option"
  ej_progressPercent :: int
  ej_progressEtaSeconds :: "int option"
  ej_claimedBy :: "string option"
  ej_claimToken :: "string option"
  ej_claimedAt :: "int option"
  ej_startedAt :: "int option"
  ej_completedAt :: "int option"
  ej_outputValidationResult :: "string option"
  ej_outputValidationFilesystemIdentity :: "string option"
  ej_outputValidatedAt :: "int option"
  ej_outputCompleteness :: "string option"
  ej_errorMessage :: "string option"
  ej_verificationStatus :: "filesystem_verification_status option"
  ej_verificationMessage :: "string option"
  ej_verifiedAt :: "int option"
  ej_createdAt :: int
  ej_updatedAt :: int

text \<open>
  The CHECK constraints of a row (the columns' types give the enumerations and the columns that
  are not null).
\<close>

definition encode_job_checks :: "encode_job \<Rightarrow> bool" where
  "encode_job_checks j \<longleftrightarrow>
     0 \<le> ej_progressPercent j \<and> ej_progressPercent j \<le> 100
   \<and> (ej_progressEtaSeconds j = None \<or> 0 \<le> the (ej_progressEtaSeconds j))
   \<and> (ej_reservesOutputPath j
       \<or> ej_status j \<in> {CancellationRequested, Completed, Failed, Cancelled})
   \<and> ej_predecessorEncodeJobId j \<noteq> Some (ej_id j)
   \<and> (ej_replacementOutputIdentity j = None \<or> ej_replaceExistingOutput j)
   \<and> (ej_partialCleanupOutputPath j = None) = (ej_partialCleanupClaimToken j = None)
   \<and> (\<not> ej_publicationPending j \<or> ej_partialCleanupClaimToken j \<noteq> None)
   \<and> (\<not> ej_publicationCompletionPending j \<or> ej_publicationPending j)
   \<and> (ej_partialCleanupLeaseToken j = None \<or> ej_partialCleanupClaimToken j \<noteq> None)
   \<and> (ej_verificationStatus j = None) = (ej_verificationMessage j = None)
   \<and> (ej_verificationStatus j = None) = (ej_verifiedAt j = None)
   \<and> ((ej_outputValidationResult j = None \<and> ej_outputValidationFilesystemIdentity j = None
         \<and> ej_outputValidatedAt j = None \<and> ej_outputCompleteness j = None)
       \<or> (ej_outputValidationResult j = Some ''passed''
         \<and> ej_outputValidationFilesystemIdentity j \<notin> {None, Some []}
         \<and> ej_outputValidatedAt j \<noteq> None
         \<and> ej_outputCompleteness j = Some ''complete''))"

record disc_selection_row =
  ds_id :: string
  ds_originalDiscArchiveId :: string
  ds_isCatalogActive :: bool

record original_archive_row =
  oa_id :: string
  oa_catalogReviewOutcome :: catalog_review_outcome
  oa_legacyCutoverPending :: bool

record archive_recovery_row =
  rec_id :: string
  rec_originalDiscArchiveId :: string

record recovery_work_row =
  rw_archiveRecoveryId :: string
  rw_originalDiscArchiveId :: string

record evidence_header_row =
  eh_originalDiscArchiveId :: string
  eh_evidenceFormat :: string

record archive_job_row =
  aj_originalDiscArchiveId :: "string option"
  aj_evidenceFormat :: "string option"

text \<open>A Title Damage decision, with the Disc Selections its snapshot maps.\<close>

record title_damage_decision_row =
  td_id :: string
  td_originalDiscArchiveId :: string
  td_decision :: string
  td_recordedAt :: int
  td_mappedDiscSelectionIds :: "string list"

text \<open>What the claim compares of the source a caller resolved for a job.\<close>

record encode_claim_source =
  cs_archiveId :: string
  cs_selectionId :: string
  cs_profileId :: string
  cs_decision :: json_value
  cs_outputPath :: string

record encode_claim_snapshot_row =
  sn_id :: string
  sn_encodeJobId :: string
  sn_source :: encode_claim_source
  sn_createdAt :: int

record output_validation_row =
  ov_id :: string
  ov_encodeJobId :: string
  ov_claimToken :: string
  ov_filesystemIdentity :: string
  ov_validatedAt :: int
  ov_sourceSnapshot :: "encode_claim_snapshot_row option"
  ov_evidence :: json_value

record publication_authority_row =
  pa_replacementEncodeJobId :: string
  pa_claimToken :: string
  pa_retainedOutputPath :: string
  pa_filesystemIdentity :: string

record failed_output_input =
  fi_outputPath :: string
  fi_filesystemIdentity :: string
  fi_changeTimeMs :: js_double
  fi_failure :: js_value

record failed_output_row =
  fo_id :: string
  fo_encodeJobId :: string
  fo_claimToken :: string
  fo_input :: failed_output_input
  fo_validatedAt :: int
  fo_sourceSnapshot :: "encode_claim_snapshot_row option"

record retained_output_row =
  rt_id :: string
  rt_predecessorEncodeJobId :: string
  rt_replacementEncodeJobId :: string
  rt_sourceEncodeJobId :: string
  rt_retainedOutputPath :: string
  rt_filesystemIdentity :: string
  rt_validationResult :: "string option"
  rt_validationFilesystemIdentity :: "string option"
  rt_validatedAt :: "int option"
  rt_completeness :: "string option"
  rt_state :: string
  rt_cleanupEligible :: bool
  rt_retainedAt :: int

text \<open>
  A recorded mutation.  Its outcome is kept as the job itself: the code writes it as JSON and
  restores the dates when it reads it back.
\<close>

record mutation_invocation_row =
  mi_key :: string
  mi_operation :: string
  mi_semanticInput :: string
  mi_outcome :: encode_job
  mi_createdAt :: int

record encode_catalog =
  encodeJobs :: "encode_job list"
  discSelections :: "disc_selection_row list"
  originalDiscArchives :: "original_archive_row list"
  encodingProfiles :: "encoding_profile list"
  archiveRecoveries :: "archive_recovery_row list"
  archiveRecoveryWork :: "recovery_work_row list"
  evidenceHeaders :: "evidence_header_row list"
  archiveJobs :: "archive_job_row list"
  titleDamageDecisions :: "title_damage_decision_row list"
  encodeClaimSnapshots :: "encode_claim_snapshot_row list"
  encodeOutputValidations :: "output_validation_row list"
  publicationAuthorities :: "publication_authority_row list"
  failedEncodeOutputs :: "failed_output_row list"
  retainedEncodeOutputs :: "retained_output_row list"
  failureReports :: "failure_report_row list"
  mutationInvocations :: "mutation_invocation_row list"

type_synonym 'a encode_transaction = "('a \<times> encode_catalog) result"

text \<open>\<open>internal/validation.ts\<close>.\<close>

definition requireNonEmpty :: "string \<Rightarrow> string \<Rightarrow> string result" where
  "requireNonEmpty value name =
    (let normalized = js_trim value in
     if normalized = [] then Inl (DomainInvariantError (name @ '' must not be empty''))
     else Inr normalized)"

section \<open>Statements\<close>

text \<open>\<open>=\<close> of a nullable column and a value that may be null: NULL equals nothing.\<close>

definition column_eq :: "'a option \<Rightarrow> 'a option \<Rightarrow> bool" where
  "column_eq column v \<longleftrightarrow> column \<noteq> None \<and> column = v"

text \<open>The unique index \<open>encode_jobs_output_path_unique\<close>.\<close>

definition reserved_paths :: "encode_job list \<Rightarrow> string list" where
  "reserved_paths jobs = map ej_outputPath (filter ej_reservesOutputPath jobs)"

text \<open>
  \<open>update(encodeJobs).set(...).where(...).returning()\<close>.  The condition of a row may look at the
  whole catalog, as it stood before the statement.
\<close>

definition update_encodeJobs ::
  "(encode_job \<Rightarrow> bool) \<Rightarrow> (encode_job \<Rightarrow> encode_job) \<Rightarrow> encode_catalog
     \<Rightarrow> encode_job list encode_transaction" where
  "update_encodeJobs condition set_row c =
    (let jobs = map (\<lambda>j. if condition j then set_row j else j) (encodeJobs c);
         changed = map set_row (filter condition (encodeJobs c)) in
     if \<not> list_all encode_job_checks changed then Inl (SqliteError ''CHECK constraint failed'')
     else if \<not> distinct (reserved_paths jobs) then Inl (SqliteError ''UNIQUE constraint failed'')
     else Inr (changed, c\<lparr>encodeJobs := jobs\<rparr>))"

text \<open>The same with \<open>.get()\<close>: the first row returned.\<close>

definition update_encodeJob ::
  "(encode_job \<Rightarrow> bool) \<Rightarrow> (encode_job \<Rightarrow> encode_job) \<Rightarrow> encode_catalog
     \<Rightarrow> encode_job option encode_transaction" where
  "update_encodeJob condition set_row c =
    map_sum id (\<lambda>(changed, c'). (case changed of [] \<Rightarrow> None | j # _ \<Rightarrow> Some j, c'))
      (update_encodeJobs condition set_row c)"

definition find_encodeJob :: "encode_catalog \<Rightarrow> string \<Rightarrow> encode_job option" where
  "find_encodeJob c i = find (\<lambda>j. ej_id j = i) (encodeJobs c)"

definition find_discSelection :: "encode_catalog \<Rightarrow> string \<Rightarrow> disc_selection_row option" where
  "find_discSelection c i = find (\<lambda>s. ds_id s = i) (discSelections c)"

definition find_originalDiscArchive :: "encode_catalog \<Rightarrow> string \<Rightarrow> original_archive_row option" where
  "find_originalDiscArchive c i = find (\<lambda>a. oa_id a = i) (originalDiscArchives c)"

text \<open>
  The inner join of a job's Disc Selection with its archive; both are joined by primary key, so
  there is at most one such pair.
\<close>

definition job_source ::
  "encode_catalog \<Rightarrow> encode_job \<Rightarrow> (disc_selection_row \<times> original_archive_row) option" where
  "job_source c j =
    (case find_discSelection c (ej_discSelectionId j) of
       None \<Rightarrow> None
     | Some s \<Rightarrow> map_option (Pair s) (find_originalDiscArchive c (ds_originalDiscArchiveId s)))"

definition job_source_satisfies ::
  "encode_catalog \<Rightarrow> (disc_selection_row \<Rightarrow> original_archive_row \<Rightarrow> bool) \<Rightarrow> encode_job \<Rightarrow> bool" where
  "job_source_satisfies c P j = (case job_source c j of None \<Rightarrow> False | Some (s, a) \<Rightarrow> P s a)"

section \<open>Conditions\<close>

definition ENCODE_JOB_LEASE_DURATION_MS :: int where
  "ENCODE_JOB_LEASE_DURATION_MS = 60000"

definition JOB_RECOVERY_LIMIT :: nat where
  "JOB_RECOVERY_LIMIT = 100"

definition DVD_RECOVERY_EVIDENCE_FORMAT :: string where
  "DVD_RECOVERY_EVIDENCE_FORMAT = ''dvd-recovery-evidence-v1''"

text \<open>
  How the database was opened: whether it has the tables of recovery evidence, and whether the
  gate that keeps such archives from being encoded is closed.
\<close>

record encode_gate =
  hasDvdRecoveryEvidenceSchema :: bool
  allowDvdRecoveryEvidenceEncoding :: bool

definition dvdRecoveryEvidenceEncodingGateClosed :: "encode_gate \<Rightarrow> bool" where
  "dvdRecoveryEvidenceEncodingGateClosed g \<longleftrightarrow>
     hasDvdRecoveryEvidenceSchema g \<and> \<not> allowDvdRecoveryEvidenceEncoding g"

definition dvdRecoveryEvidenceMarkerCondition :: "encode_catalog \<Rightarrow> string \<Rightarrow> bool" where
  "dvdRecoveryEvidenceMarkerCondition c archiveId \<longleftrightarrow>
     list_ex (\<lambda>h. eh_originalDiscArchiveId h = archiveId) (evidenceHeaders c)
   \<or> list_ex (\<lambda>a. aj_originalDiscArchiveId a = Some archiveId
        \<and> aj_evidenceFormat a = Some DVD_RECOVERY_EVIDENCE_FORMAT) (archiveJobs c)"

text \<open>\<open>dvdRecoveryEvidenceEncodeExclusion.forArchive\<close>.\<close>

definition encodeExclusion_forArchive :: "encode_gate \<Rightarrow> encode_catalog \<Rightarrow> string \<Rightarrow> bool" where
  "encodeExclusion_forArchive g c archiveId \<longleftrightarrow>
     (dvdRecoveryEvidenceEncodingGateClosed g \<longrightarrow> \<not> dvdRecoveryEvidenceMarkerCondition c archiveId)"

definition noArchiveRecoveryWorkCondition :: "encode_catalog \<Rightarrow> string \<Rightarrow> bool" where
  "noArchiveRecoveryWorkCondition c archiveId \<longleftrightarrow>
     \<not> list_ex (\<lambda>w. rw_originalDiscArchiveId w = archiveId) (archiveRecoveryWork c)"

text \<open>The latest decision of an archive, by \<open>recorded_at\<close> and then \<open>id\<close>, both descending.\<close>

definition latest_title_damage_decision ::
  "encode_catalog \<Rightarrow> string \<Rightarrow> title_damage_decision_row option" where
  "latest_title_damage_decision c archiveId =
    (case sort_key (\<lambda>d. (td_recordedAt d, td_id d))
        (filter (\<lambda>d. td_originalDiscArchiveId d = archiveId) (titleDamageDecisions c)) of
       [] \<Rightarrow> None
     | d # ds \<Rightarrow> Some (last (d # ds)))"

definition noWithdrawnTitleDamageAcceptanceForSelection ::
  "encode_catalog \<Rightarrow> string \<Rightarrow> string \<Rightarrow> bool" where
  "noWithdrawnTitleDamageAcceptanceForSelection c archiveId selectionId \<longleftrightarrow>
    (case latest_title_damage_decision c archiveId of
       None \<Rightarrow> True
     | Some d \<Rightarrow> \<not> (td_decision d = ''withdrawn'' \<and> selectionId \<in> set (td_mappedDiscSelectionIds d)))"

definition isEncodeJobSafelyTerminal :: "encode_job \<Rightarrow> bool" where
  "isEncodeJobSafelyTerminal j \<longleftrightarrow>
     ej_status j \<in> {Completed, Failed, Cancelled}
   \<and> ej_partialCleanupOutputPath j = None
   \<and> ej_partialCleanupClaimToken j = None
   \<and> ej_partialCleanupLeaseToken j = None
   \<and> \<not> ej_publicationPending j
   \<and> \<not> ej_publicationCompletionPending j"

text \<open>\<open>correctedEncodePredecessorReadyCondition\<close> says the same of a row joined as predecessor.\<close>

definition predecessorEncodeJob :: "encode_catalog \<Rightarrow> encode_job \<Rightarrow> encode_job option" where
  "predecessorEncodeJob c j =
    (case ej_predecessorEncodeJobId j of None \<Rightarrow> None | Some p \<Rightarrow> find_encodeJob c p)"

definition predecessorStillEligible :: "encode_catalog \<Rightarrow> encode_job \<Rightarrow> bool" where
  "predecessorStillEligible c j \<longleftrightarrow> ej_predecessorEncodeJobId j = None
     \<or> (case predecessorEncodeJob c j of None \<Rightarrow> False | Some p \<Rightarrow> isEncodeJobSafelyTerminal p)"

definition encodeAttemptCondition ::
  "encode_gate \<Rightarrow> encode_catalog \<Rightarrow> encode_job \<Rightarrow> int \<Rightarrow> encode_job \<Rightarrow> bool" where
  "encodeAttemptCondition g c claim timestamp j \<longleftrightarrow>
     ej_id j = ej_id claim
   \<and> ej_status j = Running
   \<and> column_eq (ej_claimToken j) (ej_claimToken claim)
   \<and> timestamp - ENCODE_JOB_LEASE_DURATION_MS < ej_updatedAt j
   \<and> job_source_satisfies c
       (\<lambda>s a. ds_isCatalogActive s \<and> \<not> oa_legacyCutoverPending a
          \<and> encodeExclusion_forArchive g c (oa_id a)) j"

section \<open>What a transaction writes beside the job\<close>

definition clearCorrectedEncodePublicationAuthority ::
  "string \<Rightarrow> encode_catalog \<Rightarrow> encode_catalog" where
  "clearCorrectedEncodePublicationAuthority jobId c =
     c\<lparr>publicationAuthorities :=
        filter (\<lambda>a. pa_replacementEncodeJobId a \<noteq> jobId) (publicationAuthorities c)\<rparr>"

definition latest_report_sequence :: "encode_catalog \<Rightarrow> string \<Rightarrow> int" where
  "latest_report_sequence c jobId =
     Max (insert 0 (set (map fr_sequence
       (filter (\<lambda>r. fr_encodeJobId r = jobId) (failureReports c)))))"

definition insert_failureReport ::
  "failure_report_row \<Rightarrow> failure_report_row list \<Rightarrow> failure_report_row list result" where
  "insert_failureReport row rows =
    (if fr_id row \<in> set (map fr_id rows) then Inl (SqliteError ''UNIQUE constraint failed'')
     else if \<not> failure_report_checks row then Inl (SqliteError ''CHECK constraint failed'')
     else Inr (rows @ [row]))"

text \<open>
  \<open>appendEncodeJobFailureReports\<close>; \<open>drawn\<close> gives the identifiers \<open>newId\<close> draws, in turn.
\<close>

definition appendEncodeJobFailureReports ::
  "string option \<Rightarrow> js_value list option \<Rightarrow> int \<Rightarrow> (nat \<Rightarrow> string) \<Rightarrow> encode_catalog
     \<Rightarrow> encode_catalog result" where
  "appendEncodeJobFailureReports encodeJobId reports occurredAt drawn c =
    (case (encodeJobId, reports) of
       (Some jobId, Some rs) \<Rightarrow>
         let latestSequence = latest_report_sequence c jobId in
         map_sum id (\<lambda>rows. c\<lparr>failureReports := rows\<rparr>)
           (fold_result (\<lambda>rows (index, report).
              insert_failureReport
                (encodeJobFailureReportRecord (drawn index) jobId report
                   (latestSequence + int index + 1) occurredAt) rows)
            (failureReports c) (enumerate 0 rs))
     | _ \<Rightarrow> Inr c)"

text \<open>The constraints of \<open>validation_failed_encode_outputs\<close> on a new row.\<close>

definition failed_output_checks :: "failed_output_row \<Rightarrow> failed_output_row list \<Rightarrow> bool" where
  "failed_output_checks row rows \<longleftrightarrow>
     js_get (fi_failure (fo_input row)) ''reasonCode'' = JsString ''output_validation_failed''
   \<and> js_get (fi_failure (fo_input row)) ''phase'' = JsString ''validation''
   \<and> (case fo_sourceSnapshot row of None \<Rightarrow> True
      | Some s \<Rightarrow> sn_id s = fo_claimToken row \<and> sn_encodeJobId s = fo_encodeJobId row)
   \<and> list_all (\<lambda>r. fo_id r \<noteq> fo_id row
        \<and> \<not> (fo_encodeJobId r = fo_encodeJobId row \<and> fo_claimToken r = fo_claimToken row)
        \<and> fi_outputPath (fo_input r) \<noteq> fi_outputPath (fo_input row)) rows"

definition appendValidationFailedOutput ::
  "encode_job \<Rightarrow> encode_job option \<Rightarrow> failed_output_input option \<Rightarrow> int \<Rightarrow> string \<Rightarrow> encode_catalog
     \<Rightarrow> encode_catalog result" where
  "appendValidationFailedOutput claim updated input timestamp drawnId c =
    (case (updated, input) of
       (Some j, Some i) \<Rightarrow>
         let token = the (ej_claimToken claim);
             snapshot = find (\<lambda>s. sn_id s = token) (encodeClaimSnapshots c);
             row = \<lparr>fo_id = drawnId, fo_encodeJobId = ej_id claim, fo_claimToken = token,
                    fo_input = i, fo_validatedAt = timestamp, fo_sourceSnapshot = snapshot\<rparr> in
         if ej_publicationPending j \<or> ej_partialCleanupOutputPath j \<noteq> None
              \<or> fi_outputPath i = ej_outputPath j then
           Inl (DomainInvariantError
             ''Failed Encode Output cannot share publication or cleanup authority'')
         else if list_ex (\<lambda>v. ov_encodeJobId v = ej_id claim \<and> ov_claimToken v = token)
                   (encodeOutputValidations c) then
           Inl (DomainInvariantError
             ''A passing Encode Output validation cannot become a failed artifact'')
         else if (case snapshot of None \<Rightarrow> False
                  | Some s \<Rightarrow> sn_encodeJobId s \<noteq> ej_id claim
                      \<or> cs_outputPath (sn_source s) \<noteq> ej_outputPath j) then
           Inl (DomainInvariantError ''Failed Encode Output claim provenance is inconsistent'')
         else if \<not> failed_output_checks row (failedEncodeOutputs c) then
           Inl (SqliteError ''constraint failed'')
         else Inr (c\<lparr>failedEncodeOutputs := failedEncodeOutputs c @ [row]\<rparr>)
     | _ \<Rightarrow> Inr c)"

section \<open>Claiming a job\<close>

record encode_claim_options =
  co_jobId :: string
  co_snapshotSource :: "encode_job \<Rightarrow> encode_claim_source result"

definition dvdRecoveryEvidenceFormatForArchive ::
  "string option \<Rightarrow> string option list \<Rightarrow> string option result" where
  "dvdRecoveryEvidenceFormatForArchive headerFormat jobFormats =
    (let formats = concat (map (\<lambda>f. case f of None \<Rightarrow> [] | Some s \<Rightarrow> [s]) (headerFormat # jobFormats)) in
     if list_ex (\<lambda>f. f \<noteq> DVD_RECOVERY_EVIDENCE_FORMAT) formats then
       Inl (DomainInvariantError ''Persisted DVD Archive Evidence format is invalid'')
     else Inr (if formats = [] then None else Some DVD_RECOVERY_EVIDENCE_FORMAT))"

definition archive_evidence_format :: "encode_catalog \<Rightarrow> string \<Rightarrow> string option result" where
  "archive_evidence_format c archiveId =
     dvdRecoveryEvidenceFormatForArchive
       (map_option eh_evidenceFormat
          (find (\<lambda>h. eh_originalDiscArchiveId h = archiveId) (evidenceHeaders c)))
       (map aj_evidenceFormat
          (filter (\<lambda>a. aj_originalDiscArchiveId a = Some archiveId) (archiveJobs c)))"

text \<open>A job's source may be encoded: what the select and the update of a claim both require.\<close>

definition encodable_source ::
  "encode_catalog \<Rightarrow> (string \<Rightarrow> bool) \<Rightarrow> encode_job \<Rightarrow> bool" where
  "encodable_source c exclusion j \<longleftrightarrow> job_source_satisfies c
     (\<lambda>s a. ds_isCatalogActive s
        \<and> oa_catalogReviewOutcome a = ReviewedWithSelections
        \<and> \<not> oa_legacyCutoverPending a
        \<and> noArchiveRecoveryWorkCondition c (oa_id a)
        \<and> exclusion (oa_id a)
        \<and> noWithdrawnTitleDamageAcceptanceForSelection c (oa_id a) (ej_discSelectionId j)) j"

definition claimable ::
  "encode_gate \<Rightarrow> encode_catalog \<Rightarrow> encode_claim_options option \<Rightarrow> encode_job \<Rightarrow> bool" where
  "claimable g c options j \<longleftrightarrow>
     ej_status j = Queued
   \<and> (case options of None \<Rightarrow> True | Some opts \<Rightarrow> ej_id j = co_jobId opts)
   \<and> ej_partialCleanupClaimToken j = None
   \<and> ej_partialCleanupOutputPath j = None
   \<and> ej_partialCleanupLeaseToken j = None
   \<and> encodable_source c
       (case options of None \<Rightarrow> (\<lambda>a. \<not> dvdRecoveryEvidenceMarkerCondition c a)
        | Some _ \<Rightarrow> encodeExclusion_forArchive g c) j
   \<and> predecessorStillEligible c j"

definition queue_key :: "encode_job \<Rightarrow> int \<times> int \<times> string" where
  "queue_key j = (- ej_priority j, ej_createdAt j, ej_id j)"

definition next_claimable ::
  "encode_gate \<Rightarrow> encode_catalog \<Rightarrow> encode_claim_options option \<Rightarrow> encode_job option" where
  "next_claimable g c options =
    (case sort_key queue_key (filter (claimable g c options) (encodeJobs c)) of
       [] \<Rightarrow> None | j # _ \<Rightarrow> Some j)"

definition inherits_replacement :: "encode_catalog \<Rightarrow> encode_job \<Rightarrow> bool" where
  "inherits_replacement c j =
    (case predecessorEncodeJob c j of
       None \<Rightarrow> False
     | Some p \<Rightarrow> ej_outputPath j = ej_outputPath p
         \<and> (ej_status p = Completed \<or> ej_replaceExistingOutput p))"

definition asRunningEncodeJob :: "encode_job \<Rightarrow> encode_job result" where
  "asRunningEncodeJob j =
    (if ej_status j \<noteq> Running \<or> ej_claimToken j = None
     then Inl (DomainInvariantError ''Claimed Encode Job is not running'') else Inr j)"

definition asClaimedEncodeJob :: "encode_job \<Rightarrow> encode_job result" where
  "asClaimedEncodeJob j =
    (if (ej_status j \<noteq> Running \<and> ej_status j \<noteq> CancellationRequested) \<or> ej_claimToken j = None
     then Inl (DomainInvariantError ''Claimed Encode Job has no active claim'') else Inr j)"

definition claim_row ::
  "encode_catalog \<Rightarrow> encode_job \<Rightarrow> string \<Rightarrow> string \<Rightarrow> int \<Rightarrow> encode_job \<Rightarrow> encode_job" where
  "claim_row c next workerId token timestamp j =
     j\<lparr>ej_status := Running,
       ej_replaceExistingOutput := ej_replaceExistingOutput next \<or> inherits_replacement c next,
       ej_claimedBy := Some workerId, ej_claimToken := Some token,
       ej_claimedAt := Some timestamp, ej_startedAt := Some timestamp,
       ej_errorMessage := None, ej_updatedAt := timestamp\<rparr>"

definition claim_condition :: "encode_gate \<Rightarrow> encode_catalog \<Rightarrow> encode_job \<Rightarrow> encode_job \<Rightarrow> bool" where
  "claim_condition g c next j \<longleftrightarrow> ej_status j = Queued \<and> ej_id j = ej_id next
     \<and> predecessorStillEligible c j \<and> encodable_source c (encodeExclusion_forArchive g c) j"

definition insert_claim_snapshot ::
  "string \<Rightarrow> encode_claim_source option \<Rightarrow> int \<Rightarrow> encode_job \<Rightarrow> encode_catalog
     \<Rightarrow> encode_catalog result" where
  "insert_claim_snapshot token source timestamp j c =
    (case source of
       None \<Rightarrow> Inr c
     | Some s \<Rightarrow>
         if list_ex (\<lambda>r. sn_id r = token) (encodeClaimSnapshots c)
         then Inl (SqliteError ''UNIQUE constraint failed'')
         else Inr (c\<lparr>encodeClaimSnapshots := encodeClaimSnapshots c
                @ [\<lparr>sn_id = token, sn_encodeJobId = ej_id j, sn_source = s,
                    sn_createdAt = timestamp\<rparr>]\<rparr>))"

definition option_json :: "json_value option \<Rightarrow> json_value" where
  "option_json d = (case d of None \<Rightarrow> JNull | Some v \<Rightarrow> v)"

definition write_claim ::
  "encode_gate \<Rightarrow> encode_job \<Rightarrow> string \<Rightarrow> string \<Rightarrow> int \<Rightarrow> encode_claim_source option \<Rightarrow> encode_catalog
     \<Rightarrow> encode_job option encode_transaction" where
  "write_claim g queued workerId token timestamp source c =
    (case update_encodeJob (claim_condition g c queued)
            (claim_row c queued workerId token timestamp) c of
       Inl e \<Rightarrow> Inl e
     | Inr (None, c') \<Rightarrow> Inr (None, c')
     | Inr (Some claimed, c') \<Rightarrow>
       (case insert_claim_snapshot token source timestamp claimed c' of
          Inl e \<Rightarrow> Inl e
        | Inr c'' \<Rightarrow> map_sum id (\<lambda>j. (Some j, c'')) (asRunningEncodeJob claimed)))"

text \<open>\<open>encodeJobAdapter.claim\<close>.\<close>

definition claim_encodeJob ::
  "encode_gate \<Rightarrow> string \<Rightarrow> string \<Rightarrow> int \<Rightarrow> encode_claim_options option \<Rightarrow> encode_catalog
     \<Rightarrow> encode_job option encode_transaction" where
  "claim_encodeJob g workerId token timestamp options c =
    (case next_claimable g c options of
       None \<Rightarrow> Inr (None, c)
     | Some queued \<Rightarrow>
       (case find_discSelection c (ej_discSelectionId queued) of
          None \<Rightarrow> Inl (RecordNotFoundError ''Disc Selection'' (ej_discSelectionId queued))
        | Some selection \<Rightarrow>
          (case archive_evidence_format c (ds_originalDiscArchiveId selection) of
             Inl e \<Rightarrow> Inl e
           | Inr format \<Rightarrow>
             (case (format, options) of
                (Some _, None) \<Rightarrow> Inr (None, c)
              | _ \<Rightarrow>
                (case (case (format, options) of
                         (Some _, Some opts) \<Rightarrow> map_sum id Some (co_snapshotSource opts queued)
                       | _ \<Rightarrow> Inr None) of
                   Inl e \<Rightarrow> Inl e
                 | Inr source \<Rightarrow>
                   if (case source of None \<Rightarrow> False
                       | Some s \<Rightarrow> cs_archiveId s \<noteq> ds_originalDiscArchiveId selection
                           \<or> cs_selectionId s \<noteq> ej_discSelectionId queued
                           \<or> cs_profileId s \<noteq> ej_encodingProfileId queued
                           \<or> canonicalJson (cs_decision s)
                               \<noteq> canonicalJson (option_json (ej_expectedSourceDecision queued)))
                   then Inl (DomainInvariantError
                     ''Encode claim source does not match the queued decision'')
                   else write_claim g queued workerId token timestamp source c)))))"

section \<open>Updating an attempt\<close>

text \<open>
  \<open>AttemptUpdate\<close> of \<open>internal/job-queue.ts\<close>: a property that is \<open>undefined\<close> (the outer
  \<open>None\<close>) leaves its column alone.
\<close>

record attempt_update =
  au_status :: "encode_job_status option"
  au_progressPercent :: "int option"
  au_completedAt :: "int option option"
  au_errorMessage :: "string option option"
  au_updatedAt :: int

record progress_details =
  pd_phase :: encode_progress_phase
  pd_etaSeconds :: "int option"

record attempt_failure_options =
  af_preserveReplacementAuthority :: bool
  af_failureReports :: "js_value list option"
  af_validationFailedOutput :: "failed_output_input option"

definition given :: "'a option \<Rightarrow> 'a \<Rightarrow> 'a" where
  "given update current = (case update of None \<Rightarrow> current | Some v \<Rightarrow> v)"

definition set_attempt :: "attempt_update \<Rightarrow> encode_job \<Rightarrow> encode_job" where
  "set_attempt u j =
     j\<lparr>ej_status := given (au_status u) (ej_status j),
       ej_progressPercent := given (au_progressPercent u) (ej_progressPercent j),
       ej_completedAt := given (au_completedAt u) (ej_completedAt j),
       ej_errorMessage := given (au_errorMessage u) (ej_errorMessage j),
       ej_updatedAt := au_updatedAt u\<rparr>"

definition preserves_authority :: "attempt_failure_options option \<Rightarrow> bool" where
  "preserves_authority failureOptions =
     (case failureOptions of None \<Rightarrow> False | Some o' \<Rightarrow> af_preserveReplacementAuthority o')"

definition drop_replacement :: "encode_job \<Rightarrow> encode_job" where
  "drop_replacement j = j\<lparr>ej_replaceExistingOutput := False, ej_replacementOutputIdentity := None\<rparr>"

definition attempt_row ::
  "attempt_update \<Rightarrow> attempt_failure_options option \<Rightarrow> encode_job \<Rightarrow> encode_job" where
  "attempt_row u failureOptions j =
    (let updated = set_attempt u j in
     if au_status u = Some Completed then
       drop_replacement (updated\<lparr>ej_progressEtaSeconds := None\<rparr>)
     else if au_status u = Some Failed then
       (if preserves_authority failureOptions then updated\<lparr>ej_progressEtaSeconds := None\<rparr>
        else drop_replacement (updated\<lparr>ej_progressEtaSeconds := None\<rparr>))
     else updated)"

definition progress_row ::
  "attempt_update \<Rightarrow> progress_details \<Rightarrow> attempt_failure_options option \<Rightarrow> encode_job \<Rightarrow> encode_job" where
  "progress_row u details failureOptions j =
    (let updated = (set_attempt u j)\<lparr>ej_progressPhase := Some (pd_phase details),
           ej_progressEtaSeconds :=
             (if au_status u = Some Failed then None else pd_etaSeconds details)\<rparr> in
     if au_status u = Some Failed \<and> \<not> preserves_authority failureOptions
     then drop_replacement updated else updated)"

text \<open>What both updates do after the row has been written.\<close>

definition attempt_written ::
  "encode_job \<Rightarrow> attempt_update \<Rightarrow> attempt_failure_options option \<Rightarrow> string \<Rightarrow> (nat \<Rightarrow> string)
     \<Rightarrow> encode_job option \<Rightarrow> encode_catalog \<Rightarrow> encode_job option encode_transaction" where
  "attempt_written claim u failureOptions outputId drawn updated c =
    (let failed = (au_status u = Some Failed);
         c1 = (if updated \<noteq> None \<and> failed \<and> \<not> preserves_authority failureOptions
               then clearCorrectedEncodePublicationAuthority (ej_id (the updated)) c else c) in
     case appendValidationFailedOutput claim updated
            (Option.bind failureOptions af_validationFailedOutput) (au_updatedAt u) outputId c1 of
       Inl e \<Rightarrow> Inl e
     | Inr c2 \<Rightarrow>
         map_sum id (Pair updated)
           (appendEncodeJobFailureReports (if failed then map_option ej_id updated else None)
              (Option.bind failureOptions af_failureReports) (au_updatedAt u) drawn c2))"

text \<open>\<open>encodeJobAdapter.updateAttempt\<close> and \<open>updateProgressAttempt\<close>.\<close>

definition updateAttempt_encodeJob ::
  "encode_gate \<Rightarrow> string \<Rightarrow> (nat \<Rightarrow> string) \<Rightarrow> encode_job \<Rightarrow> attempt_update
     \<Rightarrow> attempt_failure_options option \<Rightarrow> encode_catalog \<Rightarrow> encode_job option encode_transaction" where
  "updateAttempt_encodeJob g outputId drawn claim u failureOptions c =
    (case update_encodeJob
            (\<lambda>j. encodeAttemptCondition g c claim (au_updatedAt u) j
               \<and> (au_status u = Some Completed \<longrightarrow> ej_predecessorEncodeJobId j = None))
            (attempt_row u failureOptions) c of
       Inl e \<Rightarrow> Inl e
     | Inr (updated, c') \<Rightarrow> attempt_written claim u failureOptions outputId drawn updated c')"

definition updateProgressAttempt_encodeJob ::
  "encode_gate \<Rightarrow> string \<Rightarrow> (nat \<Rightarrow> string) \<Rightarrow> encode_job \<Rightarrow> attempt_update \<Rightarrow> progress_details
     \<Rightarrow> attempt_failure_options option \<Rightarrow> encode_catalog \<Rightarrow> encode_job option encode_transaction" where
  "updateProgressAttempt_encodeJob g outputId drawn claim u details failureOptions c =
    (case update_encodeJob (encodeAttemptCondition g c claim (au_updatedAt u))
            (progress_row u details failureOptions) c of
       Inl e \<Rightarrow> Inl e
     | Inr (updated, c') \<Rightarrow> attempt_written claim u failureOptions outputId drawn updated c')"

section \<open>Requeueing\<close>

text \<open>
  \<open>Date.prototype.toISOString\<close>, for the dates of the years 0 to 9999: the civil date of a count
  of days (a year that starts in March, in eras of 400 years), and its padded fields.
\<close>

definition civil_date :: "int \<Rightarrow> int \<times> int \<times> int" where
  "civil_date days =
    (let z = days + 719468;
         era = z div 146097;
         doe = z mod 146097;
         yoe = (doe - doe div 1460 + doe div 36524 - doe div 146096) div 365;
         doy = doe - (365 * yoe + yoe div 4 - yoe div 100);
         mp = (5 * doy + 2) div 153;
         d = doy - (153 * mp + 2) div 5 + 1;
         m = (if mp < 10 then mp + 3 else mp - 9) in
     (yoe + era * 400 + (if m \<le> 2 then 1 else 0), m, d))"

definition padded :: "nat \<Rightarrow> int \<Rightarrow> string" where
  "padded width n = (let s = decimal (nat n) in replicate (width - length s) (CHR ''0'') @ s)"

definition toISOString :: "int \<Rightarrow> string" where
  "toISOString time =
    (let (y, m, d) = civil_date (time div 86400000); t = time mod 86400000 in
     padded 4 y @ ''-'' @ padded 2 m @ ''-'' @ padded 2 d @ ''T''
       @ padded 2 (t div 3600000) @ '':'' @ padded 2 (t div 60000 mod 60) @ '':''
       @ padded 2 (t div 1000 mod 60) @ ''.'' @ padded 3 (t mod 1000) @ ''Z'')"

record encode_requeue_options =
  ro_expectedSourceDecision :: "json_value option"
  ro_assertSourceDecision :: "unit result option"
  ro_outputPath :: "string option"
  ro_priority :: "int option"
  ro_mutationKey :: "string option"
  ro_expectedRevision :: "string option"
  ro_acknowledgeReplacement :: "bool option"

text \<open>Passing no options and passing an empty record of options is the same to every use.\<close>

definition no_requeue_options :: encode_requeue_options where
  "no_requeue_options = \<lparr>ro_expectedSourceDecision = None, ro_assertSourceDecision = None,
     ro_outputPath = None, ro_priority = None, ro_mutationKey = None, ro_expectedRevision = None,
     ro_acknowledgeReplacement = None\<rparr>"

definition encodeRequeueSemanticInput :: "string \<Rightarrow> encode_requeue_options \<Rightarrow> string" where
  "encodeRequeueSemanticInput i options =
    (let text = (\<lambda>v. case v of None \<Rightarrow> JNull | Some s \<Rightarrow> JString s) in
     json_stringify (JObject
      ([(''id'', JString i),
        (''outputPath'', text (ro_outputPath options)),
        (''priority'', case ro_priority options of None \<Rightarrow> JNull | Some n \<Rightarrow> JInt n),
        (''expectedRevision'', text (ro_expectedRevision options)),
        (''acknowledgeReplacement'', JBool (given (ro_acknowledgeReplacement options) False))]
       @ (case ro_expectedSourceDecision options of None \<Rightarrow> []
          | Some d \<Rightarrow> [(''expectedSourceDecision'', canonical_value d)]))))"

definition replayEncodeMutation ::
  "encode_catalog \<Rightarrow> string option \<Rightarrow> string \<Rightarrow> string \<Rightarrow> encode_job option result" where
  "replayEncodeMutation c mutationKey operation semanticInput =
    (case mutationKey of
       None \<Rightarrow> Inr None
     | Some key \<Rightarrow>
       (case find (\<lambda>m. mi_key m = key) (mutationInvocations c) of
          None \<Rightarrow> Inr None
        | Some previous \<Rightarrow>
            if mi_operation previous \<noteq> operation \<or> mi_semanticInput previous \<noteq> semanticInput
            then Inl (DomainInvariantError
              ''Mutation key has already been used for different operation or inputs'')
            else Inr (Some (mi_outcome previous))))"

definition saveEncodeMutation ::
  "string option \<Rightarrow> string \<Rightarrow> string \<Rightarrow> int \<Rightarrow> encode_job \<Rightarrow> encode_catalog
     \<Rightarrow> encode_job encode_transaction" where
  "saveEncodeMutation mutationKey operation semanticInput timestamp outcome c =
    (case mutationKey of
       None \<Rightarrow> Inr (outcome, c)
     | Some key \<Rightarrow>
         if list_ex (\<lambda>m. mi_key m = key) (mutationInvocations c)
         then Inl (SqliteError ''UNIQUE constraint failed'')
         else Inr (outcome, c\<lparr>mutationInvocations := mutationInvocations c
                @ [\<lparr>mi_key = key, mi_operation = operation, mi_semanticInput = semanticInput,
                    mi_outcome = outcome, mi_createdAt = timestamp\<rparr>]\<rparr>))"

definition EncodeWorkConflictError :: js_error where
  "EncodeWorkConflictError = DomainInvariantError (''Archive Recovery and queued or running Encode ''
     @ ''Jobs cannot use the same Original Disc Archive.'')"

definition requireNoArchiveRecoveryWork :: "encode_catalog \<Rightarrow> string \<Rightarrow> unit result" where
  "requireNoArchiveRecoveryWork c archiveId =
    (case find (\<lambda>r. rec_originalDiscArchiveId r = archiveId) (archiveRecoveries c) of
       None \<Rightarrow> Inr ()
     | Some r \<Rightarrow> reject_if (list_ex (\<lambda>w. rw_archiveRecoveryId w = rec_id r) (archiveRecoveryWork c))
         EncodeWorkConflictError)"

definition requireDvdRecoveryEvidenceEncodingAvailableForEncodeJob ::
  "encode_gate \<Rightarrow> encode_catalog \<Rightarrow> string \<Rightarrow> unit result" where
  "requireDvdRecoveryEvidenceEncodingAvailableForEncodeJob g c jobId =
    (if \<not> hasDvdRecoveryEvidenceSchema g then Inr ()
     else
       case Option.bind (find_encodeJob c jobId) (\<lambda>j. find_discSelection c (ej_discSelectionId j)) of
         None \<Rightarrow> Inr ()
       | Some s \<Rightarrow>
           check_all
             [requireNoArchiveRecoveryWork c (ds_originalDiscArchiveId s),
              reject_if (dvdRecoveryEvidenceEncodingGateClosed g
                  \<and> dvdRecoveryEvidenceMarkerCondition c (ds_originalDiscArchiveId s))
                DvdRecoveryEvidenceEncodingUnavailableError])"

definition requeue_output_path ::
  "encode_job_status \<Rightarrow> encode_job \<Rightarrow> encode_requeue_options \<Rightarrow> string option" where
  "requeue_output_path expectedStatus current options =
     (if expectedStatus = Completed \<or> ej_replaceExistingOutput current
      then Some (ej_outputPath current) else ro_outputPath options)"

definition keeps_output_path ::
  "encode_job_status \<Rightarrow> encode_job \<Rightarrow> encode_requeue_options \<Rightarrow> bool" where
  "keeps_output_path expectedStatus current options \<longleftrightarrow>
     (let path = requeue_output_path expectedStatus current options in
      path = None \<or> path = Some (ej_outputPath current))"

definition preserves_terminal_replacement ::
  "encode_job_status \<Rightarrow> encode_job \<Rightarrow> encode_requeue_options \<Rightarrow> bool" where
  "preserves_terminal_replacement expectedStatus current options \<longleftrightarrow>
     expectedStatus \<noteq> Completed \<and> keeps_output_path expectedStatus current options
     \<and> ej_replaceExistingOutput current"

text \<open>The consequences of replacing an output, shown to the operator, must still be those.\<close>

definition require_replacement_preview ::
  "encode_catalog \<Rightarrow> string \<Rightarrow> encode_job_status \<Rightarrow> encode_job \<Rightarrow> encode_requeue_options
     \<Rightarrow> unit result" where
  "require_replacement_preview c jobId expectedStatus current options =
    (if ro_mutationKey options \<noteq> None
        \<and> (expectedStatus = Completed \<or> ej_replaceExistingOutput current) then
       check_all
         [reject_if (ro_acknowledgeReplacement options \<noteq> Some True
              \<or> ro_expectedRevision options \<in> {None, Some []})
            (DomainInvariantError ''Encode Job replacement consequences must be acknowledged''),
          reject_if (case find_encodeJob c jobId of
                       None \<Rightarrow> True
                     | Some latest \<Rightarrow> ej_status latest \<noteq> expectedStatus
                         \<or> ej_replaceExistingOutput latest \<noteq> ej_replaceExistingOutput current
                         \<or> Some (toISOString (ej_updatedAt latest)) \<noteq> ro_expectedRevision options)
            (DomainInvariantError ''Encode Job replacement preview is stale'')]
     else Inr ())"

definition requeue_row ::
  "encode_job_status \<Rightarrow> encode_job \<Rightarrow> int \<Rightarrow> encode_requeue_options \<Rightarrow> encode_job \<Rightarrow> encode_job" where
  "requeue_row expectedStatus current timestamp options j =
    (let keeps = keeps_output_path expectedStatus current options;
         preserves = preserves_terminal_replacement expectedStatus current options;
         requeued = j\<lparr>ej_status := Queued, ej_progressPercent := 0, ej_claimToken := None,
           ej_claimedBy := None, ej_claimedAt := None, ej_startedAt := None,
           ej_errorMessage := None, ej_updatedAt := timestamp,
           ej_completedAt := ej_completedAt current,
           ej_expectedSourceDecision := ro_expectedSourceDecision options,
           ej_outputPath := given (requeue_output_path expectedStatus current options)
             (ej_outputPath j),
           ej_reservesOutputPath := True,
           ej_priority := given (ro_priority options) (ej_priority j),
           ej_progressPhase := None, ej_progressEtaSeconds := None,
           ej_replaceExistingOutput := (expectedStatus = Completed \<and> keeps) \<or> preserves,
           ej_replacementOutputIdentity :=
             (if preserves then ej_replacementOutputIdentity current else None)\<rparr> in
     if keeps then requeued
     else requeued\<lparr>ej_verificationStatus := None, ej_verificationMessage := None,
            ej_verifiedAt := None\<rparr>)"

definition requeue_condition ::
  "encode_gate \<Rightarrow> encode_catalog \<Rightarrow> string \<Rightarrow> encode_job_status \<Rightarrow> encode_job \<Rightarrow> bool" where
  "requeue_condition g c jobId expectedStatus j \<longleftrightarrow>
     ej_id j = jobId
   \<and> ej_status j = expectedStatus
   \<and> ej_partialCleanupOutputPath j = None
   \<and> ej_partialCleanupClaimToken j = None
   \<and> ej_partialCleanupLeaseToken j = None
   \<and> \<not> ej_publicationPending j
   \<and> job_source_satisfies c
       (\<lambda>s a. ds_isCatalogActive s \<and> oa_catalogReviewOutcome a = ReviewedWithSelections
          \<and> \<not> oa_legacyCutoverPending a \<and> encodeExclusion_forArchive g c (oa_id a)) j"

text \<open>\<open>encodeJobAdapter.requeue\<close>; \<open>recordedAt\<close> is the \<open>now()\<close> of the recorded mutation.\<close>

definition requeue_encodeJob ::
  "encode_gate \<Rightarrow> string \<Rightarrow> encode_job_status \<Rightarrow> encode_job \<Rightarrow> int \<Rightarrow> int \<Rightarrow> encode_requeue_options
     \<Rightarrow> encode_catalog \<Rightarrow> encode_job option encode_transaction" where
  "requeue_encodeJob g jobId expectedStatus current timestamp recordedAt options c =
    (let semanticInput = encodeRequeueSemanticInput jobId options;
         targetOutputPath = given (requeue_output_path expectedStatus current options)
           (ej_outputPath current) in
     case replayEncodeMutation c (ro_mutationKey options) ''encode_job.requeue'' semanticInput of
       Inl e \<Rightarrow> Inl e
     | Inr (Some replay) \<Rightarrow> Inr (Some replay, c)
     | Inr None \<Rightarrow>
       (case check_all
          [given (ro_assertSourceDecision options) (Inr ()),
           requireDvdRecoveryEvidenceEncodingAvailableForEncodeJob g c jobId,
           require_replacement_preview c jobId expectedStatus current options,
           reject_if (list_ex (\<lambda>j. ej_outputPath j = targetOutputPath \<and> ej_reservesOutputPath j
               \<and> ej_id j \<noteq> jobId) (encodeJobs c))
             (DomainInvariantError
               (''Encode Job output is already assigned: '' @ targetOutputPath))] of
          Inl e \<Rightarrow> Inl e
        | Inr _ \<Rightarrow>
          (case update_encodeJob (requeue_condition g c jobId expectedStatus)
                  (requeue_row expectedStatus current timestamp options) c of
             Inl e \<Rightarrow> Inl e
           | Inr (None, c') \<Rightarrow> Inr (None, c')
           | Inr (Some requeued, c') \<Rightarrow>
               map_sum id (\<lambda>(j, c''). (Some j, c''))
                 (saveEncodeMutation (ro_mutationKey options) ''encode_job.requeue'' semanticInput
                    recordedAt requeued
                    (clearCorrectedEncodePublicationAuthority (ej_id requeued) c')))))"
section \<open>Cancelling a job\<close>

definition request_cancellation_row ::
  "bool \<Rightarrow> encode_job \<Rightarrow> int \<Rightarrow> encode_job \<Rightarrow> encode_job" where
  "request_cancellation_row protectsCorrectedSamePath current timestamp j =
     j\<lparr>ej_status := (if ej_status current = Running then CancellationRequested else Cancelled),
       ej_reservesOutputPath :=
         (if ej_status current = Queued
          then ej_replaceExistingOutput current \<or> protectsCorrectedSamePath else True),
       ej_progressEtaSeconds := None, ej_updatedAt := timestamp\<rparr>"

definition requestEncodeJobCancellation ::
  "string \<Rightarrow> int \<Rightarrow> encode_catalog \<Rightarrow> encode_job encode_transaction" where
  "requestEncodeJobCancellation jobId timestamp c =
    (case find_encodeJob c jobId of
       None \<Rightarrow> Inl (RecordNotFoundError ''encode job'' jobId)
     | Some current \<Rightarrow>
       if ej_status current \<noteq> Queued \<and> ej_status current \<noteq> Running then
         Inl (InvalidStatusTransitionError ''encode job'' (status_text (ej_status current)) ''cancelled'')
       else if ej_status current = Running \<and> ej_claimToken current = None then
         Inl (DomainInvariantError ''Running Encode Job has no claim token'')
       else
         let protects = (case predecessorEncodeJob c current of
               None \<Rightarrow> False | Some p \<Rightarrow> ej_outputPath p = ej_outputPath current) in
         (case update_encodeJob
                (\<lambda>j. ej_id j = jobId \<and> ej_status j = ej_status current
                   \<and> (ej_status current = Running \<longrightarrow> column_eq (ej_claimToken j) (ej_claimToken current)))
                (request_cancellation_row protects current timestamp) c of
            Inl e \<Rightarrow> Inl e
          | Inr (None, c') \<Rightarrow> Inl (InvalidStatusTransitionError ''encode job''
              (status_text (ej_status current))
              (if ej_status current = Running then ''cancellation_requested'' else ''cancelled''))
          | Inr (Some updated, c') \<Rightarrow> Inr (updated, c')))"

definition requestCancellation ::
  "string \<Rightarrow> string option \<Rightarrow> int \<Rightarrow> int \<Rightarrow> encode_catalog \<Rightarrow> encode_job encode_transaction" where
  "requestCancellation jobId mutationKey timestamp recordedAt c =
    (let semanticInput = json_stringify (JObject [(''id'', JString jobId)]) in
     case replayEncodeMutation c mutationKey ''encode_job.cancel'' semanticInput of
       Inl e \<Rightarrow> Inl e
     | Inr (Some replay) \<Rightarrow> Inr (replay, c)
     | Inr None \<Rightarrow>
       (case requestEncodeJobCancellation jobId timestamp c of
          Inl e \<Rightarrow> Inl e
        | Inr (updated, c') \<Rightarrow>
            saveEncodeMutation mutationKey ''encode_job.cancel'' semanticInput recordedAt updated c'))"

text \<open>The authority over a partial output that is handed to a cleanup.\<close>

record encode_partial_cleanup =
  pc_jobId :: string
  pc_outputPath :: string
  pc_claimToken :: string
  pc_leaseToken :: "string option"
  pc_publicationPending :: bool

definition cleanup_lease_eq :: "encode_partial_cleanup \<Rightarrow> encode_job \<Rightarrow> bool" where
  "cleanup_lease_eq cleanup j \<longleftrightarrow>
    (case pc_leaseToken cleanup of
       None \<Rightarrow> ej_partialCleanupLeaseToken j = None
     | Some t \<Rightarrow> ej_partialCleanupLeaseToken j = Some t)"

definition cleanup_paths_eq :: "encode_partial_cleanup \<Rightarrow> encode_job \<Rightarrow> bool" where
  "cleanup_paths_eq cleanup j \<longleftrightarrow> ej_partialCleanupOutputPath j = Some (pc_outputPath cleanup)
     \<and> ej_partialCleanupClaimToken j = Some (pc_claimToken cleanup)"

text \<open>The sub-select on a corrected replacement that took over the output path.\<close>

definition corrected_replacement_holds :: "encode_catalog \<Rightarrow> encode_job \<Rightarrow> bool" where
  "corrected_replacement_holds c claim \<longleftrightarrow>
     list_ex (\<lambda>r. ej_predecessorEncodeJobId r = Some (ej_id claim)
        \<and> ej_outputPath r = ej_outputPath claim \<and> ej_reservesOutputPath r) (encodeJobs c)"

definition cancelled_row ::
  "encode_catalog \<Rightarrow> encode_job \<Rightarrow> bool \<Rightarrow> int \<Rightarrow> encode_job \<Rightarrow> encode_job" where
  "cancelled_row c claim cleanupPending timestamp j =
     j\<lparr>ej_status := Cancelled,
       ej_reservesOutputPath :=
         \<not> corrected_replacement_holds c claim \<and> ej_replaceExistingOutput claim,
       ej_partialCleanupOutputPath := (if cleanupPending then Some (ej_outputPath claim) else None),
       ej_partialCleanupClaimToken := (if cleanupPending then ej_claimToken claim else None),
       ej_partialCleanupLeaseToken := None,
       ej_publicationPending := False, ej_publicationCompletionPending := False,
       ej_progressEtaSeconds := None, ej_claimedBy := None, ej_claimToken := None,
       ej_claimedAt := None, ej_completedAt := ej_completedAt claim, ej_errorMessage := None,
       ej_updatedAt := timestamp\<rparr>"

definition cancellation_condition ::
  "encode_job \<Rightarrow> bool \<Rightarrow> encode_partial_cleanup option \<Rightarrow> int \<Rightarrow> encode_job \<Rightarrow> bool" where
  "cancellation_condition claim cleanupPending cleanup timestamp j \<longleftrightarrow>
     ej_id j = ej_id claim
   \<and> ej_status j = CancellationRequested
   \<and> column_eq (ej_claimToken j) (ej_claimToken claim)
   \<and> \<not> ej_publicationPending j
   \<and> \<not> ej_publicationCompletionPending j
   \<and> (if cleanupPending then
        timestamp - ENCODE_JOB_LEASE_DURATION_MS < ej_updatedAt j
        \<and> (case cleanup of
             None \<Rightarrow> ej_partialCleanupLeaseToken j = None
               \<and> ((ej_partialCleanupOutputPath j = None \<and> ej_partialCleanupClaimToken j = None)
                 \<or> (ej_partialCleanupOutputPath j = Some (ej_outputPath claim)
                   \<and> column_eq (ej_partialCleanupClaimToken j) (ej_claimToken claim)))
           | Some p \<Rightarrow> cleanup_paths_eq p j \<and> cleanup_lease_eq p j)
      else ej_partialCleanupOutputPath j = None \<and> ej_partialCleanupClaimToken j = None
        \<and> ej_partialCleanupLeaseToken j = None)"

definition completeEncodeCancellation ::
  "encode_job \<Rightarrow> js_value list \<Rightarrow> encode_partial_cleanup option \<Rightarrow> int \<Rightarrow> (nat \<Rightarrow> string)
     \<Rightarrow> encode_catalog \<Rightarrow> encode_job encode_transaction" where
  "completeEncodeCancellation claim reports cleanup timestamp drawn c =
    (let cleanupPending = (reports \<noteq> []) in
     if (case cleanup of None \<Rightarrow> False
         | Some p \<Rightarrow> pc_jobId p \<noteq> ej_id claim \<or> Some (pc_claimToken p) \<noteq> ej_claimToken claim
             \<or> pc_publicationPending p)
     then Inl (DomainInvariantError ''Encode Job cancellation cleanup provenance is invalid'')
     else
       (case update_encodeJob (cancellation_condition claim cleanupPending cleanup timestamp)
               (cancelled_row c claim cleanupPending timestamp) c of
          Inl e \<Rightarrow> Inl e
        | Inr (None, c') \<Rightarrow> Inl (StaleJobAttemptError ''encode job'' (ej_id claim))
        | Inr (Some cancelled, c') \<Rightarrow>
          (case appendEncodeJobFailureReports (Some (ej_id cancelled)) (Some reports) timestamp
                  drawn c' of
             Inl e \<Rightarrow> Inl e
           | Inr c'' \<Rightarrow>
               Inr (cancelled,
                 if \<not> cleanupPending
                 then clearCorrectedEncodePublicationAuthority (ej_id cancelled) c'' else c''))))"

definition validated_reports :: "js_value list \<Rightarrow> js_value list result" where
  "validated_reports inputs = map_result validateEncodeJobFailureReport inputs"

definition completeCancellationWithReports ::
  "encode_job \<Rightarrow> encode_partial_cleanup option \<Rightarrow> js_value list \<Rightarrow> int \<Rightarrow> (nat \<Rightarrow> string)
     \<Rightarrow> encode_catalog \<Rightarrow> encode_job encode_transaction" where
  "completeCancellationWithReports claim cleanup reportInputs timestamp drawn c =
    (if reportInputs = [] \<or> 10 < length reportInputs then
       Inl (DomainInvariantError
         ''Encode Job cancellation cleanup must include between one and ten reports'')
     else
       (case validated_reports reportInputs of
          Inl e \<Rightarrow> Inl e
        | Inr reports \<Rightarrow>
            if list_ex (\<lambda>r. js_get r ''reasonCode'' \<noteq> JsString ''cleanup_failed'') reports
            then Inl (DomainInvariantError
              ''Encode Job cancellation cleanup report reason is invalid'')
            else completeEncodeCancellation claim reports cleanup timestamp drawn c))"

definition completeExpiredCancellation ::
  "encode_job \<Rightarrow> int \<Rightarrow> encode_catalog \<Rightarrow> encode_job encode_transaction" where
  "completeExpiredCancellation claim timestamp c =
    (case update_encodeJob
            (\<lambda>j. ej_id j = ej_id claim \<and> ej_status j = CancellationRequested
               \<and> column_eq (ej_claimToken j) (ej_claimToken claim)
               \<and> ej_updatedAt j \<le> timestamp - ENCODE_JOB_LEASE_DURATION_MS)
            (cancelled_row c claim True timestamp) c of
       Inl e \<Rightarrow> Inl e
     | Inr (None, c') \<Rightarrow> Inl (StaleJobAttemptError ''encode job'' (ej_id claim))
     | Inr (Some recovered, c') \<Rightarrow> Inr (recovered, c'))"

section \<open>Leases\<close>

definition touch :: "int \<Rightarrow> encode_job \<Rightarrow> encode_job" where
  "touch timestamp j = j\<lparr>ej_updatedAt := timestamp\<rparr>"

definition renewClaim :: "encode_job \<Rightarrow> int \<Rightarrow> encode_catalog \<Rightarrow> encode_job encode_transaction" where
  "renewClaim claim timestamp c =
    (case update_encodeJob
            (\<lambda>j. ej_id j = ej_id claim \<and> ej_status j \<in> {Running, CancellationRequested}
               \<and> column_eq (ej_claimToken j) (ej_claimToken claim)
               \<and> timestamp - ENCODE_JOB_LEASE_DURATION_MS < ej_updatedAt j)
            (touch timestamp) c of
       Inl e \<Rightarrow> Inl e
     | Inr (None, c') \<Rightarrow> Inl (StaleJobAttemptError ''encode job'' (ej_id claim))
     | Inr (Some renewed, c') \<Rightarrow> map_sum id (\<lambda>j. (j, c')) (asClaimedEncodeJob renewed))"

definition lease_expired_condition :: "int \<Rightarrow> encode_job \<Rightarrow> bool" where
  "lease_expired_condition timestamp j \<longleftrightarrow> ej_status j = Running
     \<and> ej_partialCleanupLeaseToken j = None
     \<and> ej_updatedAt j \<le> timestamp - ENCODE_JOB_LEASE_DURATION_MS"

definition expired_ids :: "int \<Rightarrow> encode_catalog \<Rightarrow> string list" where
  "expired_ids timestamp c =
     map ej_id (take JOB_RECOVERY_LIMIT
       (sort_key (\<lambda>j. (ej_updatedAt j, ej_id j))
         (filter (lease_expired_condition timestamp) (encodeJobs c))))"

definition recovered_row :: "int \<Rightarrow> encode_job \<Rightarrow> encode_job" where
  "recovered_row timestamp j =
     j\<lparr>ej_status := Failed, ej_progressEtaSeconds := None,
       ej_partialCleanupOutputPath := Some (ej_outputPath j),
       ej_partialCleanupClaimToken := ej_claimToken j, ej_partialCleanupLeaseToken := None,
       ej_errorMessage := Some ''Encode worker lease expired'', ej_updatedAt := timestamp\<rparr>"

fun phase_text :: "encode_progress_phase \<Rightarrow> string" where
  "phase_text Scanning = ''scanning''"
| "phase_text Previewing = ''previewing''"
| "phase_text Encoding = ''encoding''"
| "phase_text Validation = ''validation''"

definition lease_report :: "string \<Rightarrow> string \<Rightarrow> string \<Rightarrow> js_value" where
  "lease_report phase diagnostic scope = JsObject
     [(''schemaVersion'', JsNumber (Finite 1)), (''reasonCode'', JsString ''lease_expired''),
      (''phase'', JsString phase), (''retryability'', JsString ''after_action''),
      (''diagnostic'', JsString diagnostic),
      (''evidence'', JsObject [(''kind'', JsString ''lease''), (''scope'', JsString scope)])]"

definition recovered_phase :: "encode_job \<Rightarrow> string" where
  "recovered_phase j = (if ej_publicationPending j then ''publication''
     else case ej_progressPhase j of None \<Rightarrow> ''preparation'' | Some p \<Rightarrow> phase_text p)"

text \<open>\<open>drawn\<close> gives one identifier per recovered job, in turn.\<close>

definition recoverExpiredClaims ::
  "int \<Rightarrow> (nat \<Rightarrow> string) \<Rightarrow> encode_catalog \<Rightarrow> encode_job list encode_transaction" where
  "recoverExpiredClaims timestamp drawn c =
    (let ids = expired_ids timestamp c in
     if ids = [] then Inr ([], c)
     else
       (case update_encodeJobs
              (\<lambda>j. ej_id j \<in> set ids \<and> lease_expired_condition timestamp j)
              (recovered_row timestamp) c of
          Inl e \<Rightarrow> Inl e
        | Inr (recovered, c') \<Rightarrow>
            map_sum id (Pair recovered)
              (fold_result (\<lambda>cat (index, j).
                 case validateEncodeJobFailureReport
                        (lease_report (recovered_phase j) ''Encode Job claim lease expired''
                           ''job_claim'') of
                   Inl e \<Rightarrow> Inl e
                 | Inr report \<Rightarrow>
                     appendEncodeJobFailureReports (Some (ej_id j)) (Some [report]) timestamp
                       (\<lambda>_. drawn index) cat)
               c' (enumerate 0 recovered))))"

section \<open>Facts about statements\<close>

lemma update_encodeJobs_Inr [result_simps]:
  "update_encodeJobs P f c = Inr (changed, c') \<longleftrightarrow>
     (let jobs = map (\<lambda>j. if P j then f j else j) (encodeJobs c) in
      changed = map f (filter P (encodeJobs c)) \<and> list_all encode_job_checks changed
      \<and> distinct (reserved_paths jobs) \<and> c' = c\<lparr>encodeJobs := jobs\<rparr>)"
  by (auto simp: update_encodeJobs_def Let_def)

lemma update_encodeJob_Inr [result_simps]:
  "update_encodeJob P f c = Inr (r, c') \<longleftrightarrow>
     (\<exists>changed. update_encodeJobs P f c = Inr (changed, c')
       \<and> r = (case changed of [] \<Rightarrow> None | j # _ \<Rightarrow> Some j))"
  by (auto simp: update_encodeJob_def map_sum_Inr)

text \<open>Every row is as it was, or changed in a way that \<open>R\<close> allows.\<close>

definition job_changes ::
  "(encode_job \<Rightarrow> encode_job \<Rightarrow> bool) \<Rightarrow> encode_catalog \<Rightarrow> encode_catalog \<Rightarrow> bool" where
  "job_changes R c c' \<longleftrightarrow> list_all2 (\<lambda>j j'. j' = j \<or> R j j') (encodeJobs c) (encodeJobs c')"

lemma job_changes_same [simp]: "encodeJobs c' = encodeJobs c \<Longrightarrow> job_changes R c c'"
  by (simp add: job_changes_def list.rel_refl)

lemma job_changes_mono:
  assumes "job_changes R c c'" and "\<And>j j'. j \<in> set (encodeJobs c) \<Longrightarrow> R j j' \<Longrightarrow> S j j'"
  shows "job_changes S c c'"
  using assms unfolding job_changes_def by (auto elim!: list.rel_mono_strong)

lemma update_changes:
  assumes "update_encodeJobs P f c = Inr (changed, c')"
    and "\<And>j. j \<in> set (encodeJobs c) \<Longrightarrow> P j \<Longrightarrow> R j (f j)"
  shows "job_changes R c c'"
  using assms by (auto simp: result_simps Let_def job_changes_def list_all2_map2 list_all2_same)

lemma update_one_changes:
  assumes "update_encodeJob P f c = Inr (r, c')"
    and "\<And>j. j \<in> set (encodeJobs c) \<Longrightarrow> P j \<Longrightarrow> R j (f j)"
  shows "job_changes R c c'"
  using assms update_changes by (auto simp: update_encodeJob_Inr)

lemma update_returned:
  assumes "update_encodeJob P f c = Inr (Some j', c')"
  obtains j where "j \<in> set (encodeJobs c)" and "P j" and "j' = f j" and "j' \<in> set (encodeJobs c')"
proof -
  from assms obtain j js where found: "filter P (encodeJobs c) = j # js" and j': "j' = f j"
    and c': "encodeJobs c' = map (\<lambda>j. if P j then f j else j) (encodeJobs c)"
    by (auto simp: result_simps Let_def split: list.splits)
  then have "j \<in> set (filter P (encodeJobs c))" by simp
  then have "j \<in> set (encodeJobs c)" and "P j" by simp_all
  then show thesis using that j' c' by force
qed

lemma update_refused:
  "update_encodeJob P f c = Inr (None, c') \<Longrightarrow> encodeJobs c' = encodeJobs c"
  by (auto simp: result_simps Let_def filter_empty_conv intro!: map_idI split: list.splits)

lemma update_refused_catalog:
  assumes "update_encodeJob P f c = Inr (None, c')"
  shows "c' = c"
proof -
  from assms obtain jobs where "c' = c\<lparr>encodeJobs := jobs\<rparr>"
    by (auto simp: update_encodeJob_Inr update_encodeJobs_Inr Let_def)
  with update_refused [OF assms] show ?thesis by simp
qed

lemma update_nothing:
  assumes "distinct (reserved_paths (encodeJobs c))" and "\<And>j. j \<in> set (encodeJobs c) \<Longrightarrow> \<not> P j"
  shows "update_encodeJob P f c = Inr (None, c)"
proof -
  from assms(2) have none: "filter P (encodeJobs c) = []"
      "map (\<lambda>j. if P j then f j else j) (encodeJobs c) = encodeJobs c"
    by (auto simp: filter_empty_conv intro: map_idI)
  with assms(1) show ?thesis by (simp add: update_encodeJob_def update_encodeJobs_def)
qed

lemma clearCorrectedEncodePublicationAuthority_jobs [simp]:
  "encodeJobs (clearCorrectedEncodePublicationAuthority i c) = encodeJobs c"
  by (simp add: clearCorrectedEncodePublicationAuthority_def)

lemma appendEncodeJobFailureReports_jobs:
  "appendEncodeJobFailureReports i rs t d c = Inr c' \<Longrightarrow> encodeJobs c' = encodeJobs c"
  by (auto simp: appendEncodeJobFailureReports_def Let_def map_sum_Inr split: option.splits)

lemma appendValidationFailedOutput_jobs:
  "appendValidationFailedOutput claim u i t d c = Inr c' \<Longrightarrow> encodeJobs c' = encodeJobs c"
  by (auto simp: appendValidationFailedOutput_def Let_def split: option.splits if_splits)

lemma attempt_written_jobs:
  assumes "attempt_written claim u fo i d updated c = Inr (r, c')"
  shows "r = updated" and "encodeJobs c' = encodeJobs c"
proof -
  from assms obtain c2 where "appendValidationFailedOutput claim updated
      (Option.bind fo af_validationFailedOutput) (au_updatedAt u) i
      (if updated \<noteq> None \<and> au_status u = Some Failed \<and> \<not> preserves_authority fo
       then clearCorrectedEncodePublicationAuthority (ej_id (the updated)) c else c) = Inr c2"
    and "appendEncodeJobFailureReports
      (if au_status u = Some Failed then map_option ej_id updated else None)
      (Option.bind fo af_failureReports) (au_updatedAt u) d c2 = Inr c'" and "r = updated"
    by (auto simp: attempt_written_def Let_def map_sum_Inr split: sum.splits)
  then show "r = updated" and "encodeJobs c' = encodeJobs c"
    by (auto dest!: appendValidationFailedOutput_jobs appendEncodeJobFailureReports_jobs)
qed

lemma insert_claim_snapshot_jobs:
  "insert_claim_snapshot token s t j c = Inr c' \<Longrightarrow> encodeJobs c' = encodeJobs c"
  by (auto simp: insert_claim_snapshot_def split: option.splits if_splits)

lemma saveEncodeMutation_jobs:
  "saveEncodeMutation k op s t j c = Inr (r, c') \<Longrightarrow> r = j \<and> encodeJobs c' = encodeJobs c"
  by (auto simp: saveEncodeMutation_def split: option.splits if_splits)

section \<open>Claims\<close>

lemma sort_key_first:
  assumes "sort_key f xs = j # js"
  shows "j \<in> set xs" and "k \<in> set xs \<Longrightarrow> f j \<le> f k"
proof -
  have elements: "set xs = set (j # js)" using assms set_sort by metis
  then show "j \<in> set xs" by simp
  have "sorted (map f (j # js))" using assms sorted_sort_key by metis
  then show "k \<in> set xs \<Longrightarrow> f j \<le> f k" using elements by auto
qed

lemma next_claimable_Some:
  assumes "next_claimable g c options = Some j"
  shows "j \<in> set (encodeJobs c)" and "claimable g c options j"
    and "k \<in> set (encodeJobs c) \<Longrightarrow> claimable g c options k \<Longrightarrow> queue_key j \<le> queue_key k"
proof -
  from assms obtain js where "sort_key queue_key (filter (claimable g c options) (encodeJobs c)) = j # js"
    by (auto simp: next_claimable_def split: list.splits)
  note first = sort_key_first [OF this]
  then show "j \<in> set (encodeJobs c)" and "claimable g c options j"
    and "k \<in> set (encodeJobs c) \<Longrightarrow> claimable g c options k \<Longrightarrow> queue_key j \<le> queue_key k"
    by auto
qed

lemma next_claimable_None:
  "next_claimable g c options = None \<longleftrightarrow> (\<forall>k \<in> set (encodeJobs c). \<not> claimable g c options k)"
proof -
  let ?eligible = "filter (claimable g c options) (encodeJobs c)"
  have "next_claimable g c options = None \<longleftrightarrow> sort_key queue_key ?eligible = []"
    by (simp add: next_claimable_def split: list.split)
  also have "\<dots> \<longleftrightarrow> ?eligible = []" by (metis length_0_conv length_sort)
  finally show ?thesis by (simp add: filter_empty_conv)
qed

lemma job_source_satisfies_mono:
  "job_source_satisfies c P j \<Longrightarrow> (\<And>s a. P s a \<Longrightarrow> Q s a) \<Longrightarrow> job_source_satisfies c Q j"
  by (auto simp: job_source_satisfies_def split: option.splits)

lemma claimable_condition: "claimable g c options j \<Longrightarrow> claim_condition g c j j"
  by (auto simp: claimable_def claim_condition_def encodable_source_def encodeExclusion_forArchive_def
      split: option.splits elim!: job_source_satisfies_mono)

text \<open>Without options only archives that bear no mark of recovery evidence are considered.\<close>

lemma unmarked_format:
  assumes "\<not> dvdRecoveryEvidenceMarkerCondition c archiveId"
    and "archive_evidence_format c archiveId = Inr format"
  shows "format = None"
proof -
  let ?jobs = "map aj_evidenceFormat
    (filter (\<lambda>a. aj_originalDiscArchiveId a = Some archiveId) (archiveJobs c))"
  have header: "find (\<lambda>h. eh_originalDiscArchiveId h = archiveId) (evidenceHeaders c) = None"
    using assms(1) by (auto simp: find_None_iff dvdRecoveryEvidenceMarkerCondition_def list_ex_iff)
  have unmarked: "Some DVD_RECOVERY_EVIDENCE_FORMAT \<notin> set ?jobs"
    using assms(1) by (auto simp: dvdRecoveryEvidenceMarkerCondition_def list_ex_iff)
  define formats where
    "formats = concat (map (\<lambda>f. case f of None \<Rightarrow> [] | Some s \<Rightarrow> [s]) (None # ?jobs))"
  have "(if list_ex (\<lambda>f. f \<noteq> DVD_RECOVERY_EVIDENCE_FORMAT) formats
      then Inl (DomainInvariantError ''Persisted DVD Archive Evidence format is invalid'')
      else Inr (if formats = [] then None else Some DVD_RECOVERY_EVIDENCE_FORMAT)) = Inr format"
    using assms(2) unfolding archive_evidence_format_def header
      dvdRecoveryEvidenceFormatForArchive_def Let_def formats_def option.map .
  then have checked: "\<not> list_ex (\<lambda>f. f \<noteq> DVD_RECOVERY_EVIDENCE_FORMAT) formats"
    and format: "format = (if formats = [] then None else Some DVD_RECOVERY_EVIDENCE_FORMAT)"
    by (auto simp only: if_error_Inr sum.inject)
  have "f \<in> set formats \<Longrightarrow> Some f \<in> set ?jobs" for f
    by (auto simp: formats_def split: option.splits)
  with checked unmarked have "formats = []" by (cases formats) (auto simp: list_ex_iff)
  with format show ?thesis by simp
qed

definition unique_ids :: "encode_catalog \<Rightarrow> bool" where
  "unique_ids c \<longleftrightarrow> distinct (map ej_id (encodeJobs c))"

lemma unique_idsD:
  "unique_ids c \<Longrightarrow> j \<in> set (encodeJobs c) \<Longrightarrow> k \<in> set (encodeJobs c) \<Longrightarrow> ej_id j = ej_id k \<Longrightarrow> j = k"
  by (auto simp: unique_ids_def distinct_map dest: inj_onD)

lemma find_encodeJob_Some:
  "find_encodeJob c i = Some j \<Longrightarrow> j \<in> set (encodeJobs c) \<and> ej_id j = i"
  by (auto simp: find_encodeJob_def find_Some_iff)

lemma find_encodeJob_member:
  "unique_ids c \<Longrightarrow> j \<in> set (encodeJobs c) \<Longrightarrow> find_encodeJob c (ej_id j) = Some j"
proof (cases "find_encodeJob c (ej_id j)")
  case None
  moreover assume "j \<in> set (encodeJobs c)"
  ultimately show ?thesis by (auto simp: find_encodeJob_def find_None_iff)
next
  case (Some k)
  moreover assume "unique_ids c" and "j \<in> set (encodeJobs c)"
  ultimately show ?thesis using find_encodeJob_Some [OF Some] unique_idsD by blast
qed

text \<open>An update that names one identifier writes at most one row.\<close>

lemma update_by_id:
  assumes "unique_ids c" and "update_encodeJob P f c = Inr (Some j', c')"
    and "\<And>k. P k \<Longrightarrow> ej_id k = i"
  obtains j where "j \<in> set (encodeJobs c)" and "P j" and "ej_id j = i" and "j' = f j"
    and "encodeJobs c' = map (\<lambda>k. if ej_id k = i then j' else k) (encodeJobs c)"
proof -
  from assms(2) obtain j where j: "j \<in> set (encodeJobs c)" "P j" "j' = f j" by (rule update_returned)
  from assms(2) have c': "encodeJobs c' = map (\<lambda>j. if P j then f j else j) (encodeJobs c)"
    by (auto simp: result_simps Let_def)
  have "(if P k then f k else k) = (if ej_id k = i then j' else k)" if "k \<in> set (encodeJobs c)" for k
    using unique_idsD [OF assms(1) that j(1)] assms(3) j by auto
  then have "encodeJobs c' = map (\<lambda>k. if ej_id k = i then j' else k) (encodeJobs c)"
    unfolding c' by (rule map_cong [OF refl])
  with j assms(3) show thesis by (intro that) auto
qed

lemma claim_update:
  assumes "claim_encodeJob g w token t options c = Inr (r, c')" and next_job: "next_claimable g c options = Some j"
  obtains c1 where "update_encodeJob (claim_condition g c j) (claim_row c j w token t) c = Inr (r, c1)"
    and "r \<noteq> None" and "encodeJobs c' = encodeJobs c1"
proof -
  note j = next_claimable_Some [OF next_job]
  from j(2) obtain s a where source: "job_source c j = Some (s, a)"
    and exclusion: "options = None \<Longrightarrow> \<not> dvdRecoveryEvidenceMarkerCondition c (oa_id a)"
    by (auto simp: claimable_def encodable_source_def job_source_satisfies_def split: option.splits)
  from source have s: "find_discSelection c (ej_discSelectionId j) = Some s"
    and a: "oa_id a = ds_originalDiscArchiveId s"
    by (auto simp: job_source_def find_originalDiscArchive_def find_Some_iff split: option.splits)
  from assms(1) obtain format where format: "archive_evidence_format c (oa_id a) = Inr format"
    by (auto simp: claim_encodeJob_def next_job s a split: sum.splits)
  have "options = None \<Longrightarrow> format = None" using exclusion format by (rule unmarked_format)
  with assms(1) obtain source where written: "write_claim g j w token t source c = Inr (r, c')"
    unfolding claim_encodeJob_def next_job option.case s a [symmetric] format sum.case
    by (cases format; cases options) (simp_all only: bind_error_Inr if_error_Inr prod.case option.case
        option.simps; blast)+
  then obtain r' c1 where
      update: "update_encodeJob (claim_condition g c j) (claim_row c j w token t) c = Inr (r', c1)"
    and result: "(case r' of None \<Rightarrow> Inr (None, c1) | Some claimed \<Rightarrow>
        (case insert_claim_snapshot token source t claimed c1 of
           Inl e \<Rightarrow> Inl e
         | Inr c'' \<Rightarrow> map_sum id (\<lambda>j. (Some j, c'')) (asRunningEncodeJob claimed))) = Inr (r, c')"
    by (auto simp: write_claim_def split: sum.splits option.splits)
  obtain claimed where r': "r' = Some claimed"
  proof (cases r')
    case None
    with update have "filter (claim_condition g c j) (encodeJobs c) = []"
      by (auto simp: result_simps Let_def split: list.splits)
    with j(1) claimable_condition [OF j(2)] show thesis by (auto simp: filter_empty_conv)
  qed
  from result r' have "r = Some claimed" and "encodeJobs c' = encodeJobs c1"
    by (auto simp: asRunningEncodeJob_def dest: insert_claim_snapshot_jobs split: sum.splits if_splits)
  with update r' show thesis by (intro that [of c1]) simp_all
qed

lemma claim_queued:
  assumes "unique_ids c" and "claim_encodeJob g w token t options c = Inr (r, c')"
    and next_job: "next_claimable g c options = Some j"
  obtains claim where "r = Some claim" and "claim = claim_row c j w token t j"
    and "encodeJobs c' = map (\<lambda>k. if ej_id k = ej_id j then claim else k) (encodeJobs c)"
proof -
  from assms(2,3) obtain c1 claim where
      update: "update_encodeJob (claim_condition g c j) (claim_row c j w token t) c = Inr (Some claim, c1)"
    and "r = Some claim" and jobs: "encodeJobs c' = encodeJobs c1"
    by (rule claim_update) auto
  from update obtain k where "k \<in> set (encodeJobs c)" "ej_id k = ej_id j"
    and claimed: "claim = claim_row c j w token t k"
    and "encodeJobs c1 = map (\<lambda>k. if ej_id k = ej_id j then claim else k) (encodeJobs c)"
    by (rule update_by_id [OF assms(1)]) (simp add: claim_condition_def)
  moreover from this have "k = j"
    using unique_idsD [OF assms(1) _ next_claimable_Some(1) [OF next_job]] by blast
  ultimately show thesis using \<open>r = Some claim\<close> jobs by (intro that [of claim]) simp_all
qed

lemma claim_idle:
  "next_claimable g c options = None \<Longrightarrow> claim_encodeJob g w token t options c = Inr (None, c)"
  by (simp add: claim_encodeJob_def)

definition example_job :: encode_job where
  "example_job = \<lparr>ej_id = ''job-1'', ej_predecessorEncodeJobId = None,
     ej_discSelectionId = ''selection-1'', ej_encodingProfileId = ''profile-1'',
     ej_expectedSourceDecision = None, ej_outputPath = ''/media/a.mkv'',
     ej_reservesOutputPath = True, ej_status = Queued, ej_priority = 0,
     ej_replaceExistingOutput = False, ej_replacementOutputIdentity = None,
     ej_partialCleanupOutputPath = None, ej_partialCleanupClaimToken = None,
     ej_partialCleanupLeaseToken = None, ej_publicationPending = False,
     ej_publicationCompletionPending = False, ej_progressPhase = None, ej_progressPercent = 0,
     ej_progressEtaSeconds = None, ej_claimedBy = None, ej_claimToken = None,
     ej_claimedAt = None, ej_startedAt = None, ej_completedAt = None,
     ej_outputValidationResult = None, ej_outputValidationFilesystemIdentity = None,
     ej_outputValidatedAt = None, ej_outputCompleteness = None, ej_errorMessage = None,
     ej_verificationStatus = None, ej_verificationMessage = None, ej_verifiedAt = None,
     ej_createdAt = 10, ej_updatedAt = 10\<rparr>"

definition example_urgent_job :: encode_job where
  "example_urgent_job = example_job\<lparr>ej_id := ''job-2'', ej_discSelectionId := ''selection-2'',
     ej_outputPath := ''/media/b.mkv'', ej_priority := 5, ej_createdAt := 20\<rparr>"

definition example_catalog :: encode_catalog where
  "example_catalog = \<lparr>encodeJobs = [example_job, example_urgent_job],
     discSelections =
       [\<lparr>ds_id = ''selection-1'', ds_originalDiscArchiveId = ''archive-1'', ds_isCatalogActive = True\<rparr>,
        \<lparr>ds_id = ''selection-2'', ds_originalDiscArchiveId = ''archive-1'', ds_isCatalogActive = True\<rparr>],
     originalDiscArchives =
       [\<lparr>oa_id = ''archive-1'', oa_catalogReviewOutcome = ReviewedWithSelections,
         oa_legacyCutoverPending = False\<rparr>],
     encodingProfiles = [], archiveRecoveries = [], archiveRecoveryWork = [], evidenceHeaders = [], archiveJobs = [],
     titleDamageDecisions = [], encodeClaimSnapshots = [], encodeOutputValidations = [],
     publicationAuthorities = [], failedEncodeOutputs = [], retainedEncodeOutputs = [],
     failureReports = [], mutationInvocations = []\<rparr>"

definition example_gate :: encode_gate where
  "example_gate = \<lparr>hasDvdRecoveryEvidenceSchema = True, allowDvdRecoveryEvidenceEncoding = False\<rparr>"

definition example_claimed :: encode_job where
  "example_claimed = claim_row example_catalog example_urgent_job ''worker'' ''token-1'' 1000
     example_urgent_job"

lemma example_claim:
  "claim_encodeJob example_gate ''worker'' ''token-1'' 1000 None example_catalog
     = Inr (Some example_claimed,
         example_catalog\<lparr>encodeJobs := [example_job, example_claimed]\<rparr>)"
  by code_simp

text \<open>
  C11: The queue hands out its first claimable job.  A claim returns nothing, and changes nothing,
  exactly when no job is claimable; otherwise it takes a claimable job that no other precedes by
  priority, creation time and identifier, and writes that row alone: running, with the new token,
  the worker and the time, and the error of an earlier attempt cleared.
\<close>

theorem claim_takes_the_first_claimable_job:
  assumes "unique_ids c" and "claim_encodeJob g workerId token timestamp options c = Inr (r, c')"
  shows "case r of
      None \<Rightarrow> c' = c \<and> (\<forall>k \<in> set (encodeJobs c). \<not> claimable g c options k)
    | Some claim \<Rightarrow> \<exists>j \<in> set (encodeJobs c). claimable g c options j
        \<and> (\<forall>k \<in> set (encodeJobs c). claimable g c options k \<longrightarrow>
             ej_priority k < ej_priority j \<or> ej_priority k = ej_priority j
               \<and> (ej_createdAt j < ej_createdAt k
                  \<or> ej_createdAt j = ej_createdAt k \<and> ej_id j \<le> ej_id k))
        \<and> claim = claim_row c j workerId token timestamp j
        \<and> encodeJobs c' = map (\<lambda>k. if ej_id k = ej_id j then claim else k) (encodeJobs c)"
proof (cases "next_claimable g c options")
  case None
  with assms(2) have "r = None" and "c' = c" by (simp_all add: claim_idle)
  with None show ?thesis by (simp add: next_claimable_None)
next
  case (Some j)
  from assms Some obtain claim where "r = Some claim" and "claim = claim_row c j workerId token timestamp j"
    and "encodeJobs c' = map (\<lambda>k. if ej_id k = ej_id j then claim else k) (encodeJobs c)"
    by (rule claim_queued)
  then show ?thesis using next_claimable_Some [OF Some] by (fastforce simp: queue_key_def)
qed

theorem claim_takes_the_first_claimable_job_witness:
  "\<exists>j \<in> set (encodeJobs example_catalog). claimable example_gate example_catalog None j
      \<and> example_claimed = claim_row example_catalog j ''worker'' ''token-1'' 1000 j"
proof -
  have "unique_ids example_catalog" by code_simp
  from claim_takes_the_first_claimable_job [OF this example_claim] show ?thesis by auto
qed



end
