(* ===== verification/EncodePublication.thy ===== *)
theory EncodePublication
  imports EncodeJobs
begin

text \<open>
  The publication of an encoded output and the cleanup of a partial one
  (\<open>internal/create-data-access.ts\<close>, \<open>registerPartialCleanup\<close> to \<open>completePartialCleanup\<close>,
  \<open>finalizePublishedEncodeJob\<close>, \<open>retainCorrectedEncodeOutput\<close>).

  Some of these operations commit several transactions, and may throw after the first one has
  been committed; such an operation returns the catalog it leaves beside its result.  What the
  file system says is an argument: the two answers of \<open>publicationMatches()\<close>, and the paths and
  directories of \<open>publication_filesystem\<close>.
\<close>

type_synonym 'a encode_operation = "encode_catalog \<times> 'a result"

section \<open>Registering a partial output\<close>

definition register_cleanup_row :: "encode_job \<Rightarrow> bool \<Rightarrow> int \<Rightarrow> encode_job \<Rightarrow> encode_job" where
  "register_cleanup_row claim publicationPending timestamp j =
     j\<lparr>ej_partialCleanupOutputPath := Some (ej_outputPath claim),
       ej_partialCleanupClaimToken := ej_claimToken claim,
       ej_partialCleanupLeaseToken := None,
       ej_publicationPending := publicationPending, ej_updatedAt := timestamp\<rparr>"

definition registerPartialCleanup ::
  "encode_gate \<Rightarrow> encode_job \<Rightarrow> bool \<Rightarrow> int \<Rightarrow> encode_catalog
     \<Rightarrow> encode_partial_cleanup encode_transaction" where
  "registerPartialCleanup g claim publicationPending timestamp c =
    (case update_encodeJob (encodeAttemptCondition g c claim timestamp)
            (register_cleanup_row claim publicationPending timestamp) c of
       Inl e \<Rightarrow> Inl e
     | Inr (None, c') \<Rightarrow> Inl (StaleJobAttemptError ''encode job'' (ej_id claim))
     | Inr (Some updated, c') \<Rightarrow>
         Inr (\<lparr>pc_jobId = ej_id updated, pc_outputPath = ej_outputPath claim,
               pc_claimToken = the (ej_claimToken claim), pc_leaseToken = None,
               pc_publicationPending = publicationPending\<rparr>, c'))"

definition revokePublication ::
  "encode_job \<Rightarrow> encode_partial_cleanup \<Rightarrow> int \<Rightarrow> encode_catalog
     \<Rightarrow> encode_partial_cleanup encode_transaction" where
  "revokePublication claim cleanup timestamp c =
    (if \<not> pc_publicationPending cleanup then
       Inl (DomainInvariantError ''Encode Job cleanup is not publication provenance'')
     else
       (case update_encodeJob
               (\<lambda>j. ej_id j = ej_id claim \<and> ej_status j \<in> {Running, CancellationRequested}
                  \<and> column_eq (ej_claimToken j) (ej_claimToken claim)
                  \<and> timestamp - ENCODE_JOB_LEASE_DURATION_MS < ej_updatedAt j
                  \<and> cleanup_paths_eq cleanup j \<and> cleanup_lease_eq cleanup j
                  \<and> ej_publicationPending j)
               (\<lambda>j. j\<lparr>ej_publicationPending := False, ej_updatedAt := timestamp\<rparr>) c of
          Inl e \<Rightarrow> Inl e
        | Inr (None, c') \<Rightarrow> Inl (StaleJobAttemptError ''encode job publication'' (pc_jobId cleanup))
        | Inr (Some _, c') \<Rightarrow> Inr (cleanup\<lparr>pc_publicationPending := False\<rparr>, c')))"

section \<open>Cleaning up a partial output\<close>

definition lease_row :: "string \<Rightarrow> int \<Rightarrow> encode_job \<Rightarrow> encode_job" where
  "lease_row leaseToken timestamp j =
     j\<lparr>ej_partialCleanupLeaseToken := Some leaseToken, ej_updatedAt := timestamp\<rparr>"

text \<open>\<open>leaseToken\<close> is the identifier drawn by \<open>newId\<close>.\<close>

definition claimPartialCleanup ::
  "encode_partial_cleanup \<Rightarrow> string \<Rightarrow> int \<Rightarrow> encode_catalog
     \<Rightarrow> encode_partial_cleanup encode_transaction" where
  "claimPartialCleanup cleanup leaseToken timestamp c =
    (if pc_publicationPending cleanup then
       Inl (DomainInvariantError ''Encode Job publication cleanup cannot be claimed for rollback'')
     else
       (case update_encodeJob
               (\<lambda>j. ej_id j = pc_jobId cleanup \<and> ej_status j \<in> {Failed, Completed, Cancelled}
                  \<and> cleanup_paths_eq cleanup j \<and> \<not> ej_publicationPending j
                  \<and> (ej_partialCleanupLeaseToken j = None
                     \<or> ej_updatedAt j \<le> timestamp - ENCODE_JOB_LEASE_DURATION_MS))
               (lease_row leaseToken timestamp) c of
          Inl e \<Rightarrow> Inl e
        | Inr (None, c') \<Rightarrow> Inl (StaleJobAttemptError ''encode job cleanup'' (pc_jobId cleanup))
        | Inr (Some _, c') \<Rightarrow> Inr (cleanup\<lparr>pc_leaseToken := Some leaseToken\<rparr>, c')))"

definition renewPartialCleanup ::
  "encode_partial_cleanup \<Rightarrow> int \<Rightarrow> encode_catalog \<Rightarrow> encode_partial_cleanup encode_transaction" where
  "renewPartialCleanup cleanup timestamp c =
    (if pc_leaseToken cleanup = None then
       Inl (DomainInvariantError ''Encode Job cleanup renewal requires a cleanup lease'')
     else
       (case update_encodeJob
               (\<lambda>j. ej_id j = pc_jobId cleanup \<and> ej_status j \<in> {Failed, Completed, Cancelled}
                  \<and> cleanup_paths_eq cleanup j
                  \<and> ej_partialCleanupLeaseToken j = pc_leaseToken cleanup
                  \<and> \<not> ej_publicationPending j
                  \<and> timestamp - ENCODE_JOB_LEASE_DURATION_MS < ej_updatedAt j)
               (touch timestamp) c of
          Inl e \<Rightarrow> Inl e
        | Inr (None, c') \<Rightarrow> Inl (StaleJobAttemptError ''encode job cleanup'' (pc_jobId cleanup))
        | Inr (Some _, c') \<Rightarrow> Inr (cleanup, c')))"

definition completedAtAfterInterruptedPublication :: "encode_catalog \<Rightarrow> encode_job \<Rightarrow> int option" where
  "completedAtAfterInterruptedPublication c j =
    (if (ej_predecessorEncodeJobId j = None \<and> ej_replaceExistingOutput j)
        \<or> list_ex (\<lambda>r. rt_replacementEncodeJobId r = ej_id j) (retainedEncodeOutputs c)
     then ej_completedAt j else None)"

definition releases_reservation :: "encode_catalog \<Rightarrow> encode_job \<Rightarrow> bool" where
  "releases_reservation c j \<longleftrightarrow> ej_status j = Failed \<and> \<not> ej_replaceExistingOutput j
     \<and> job_source_satisfies c
         (\<lambda>s a. \<not> ds_isCatalogActive s \<and> oa_catalogReviewOutcome a \<noteq> NeedsReview) j"

definition complete_cleanup_row :: "encode_catalog \<Rightarrow> encode_job \<Rightarrow> encode_job" where
  "complete_cleanup_row c j =
     j\<lparr>ej_status := (if ej_publicationCompletionPending j then Failed else ej_status j),
       ej_completedAt := (if ej_publicationCompletionPending j
         then completedAtAfterInterruptedPublication c j else ej_completedAt j),
       ej_errorMessage := (if ej_publicationCompletionPending j
         then Some ''Encode publication completion was interrupted'' else ej_errorMessage j),
       ej_partialCleanupOutputPath := None, ej_partialCleanupClaimToken := None,
       ej_partialCleanupLeaseToken := None, ej_publicationPending := False,
       ej_publicationCompletionPending := False,
       ej_reservesOutputPath := \<not> releases_reservation c j \<and> ej_reservesOutputPath j\<rparr>"

definition interruption_report :: js_value where
  "interruption_report = JsObject
     [(''schemaVersion'', JsNumber (Finite 1)), (''reasonCode'', JsString ''worker_interrupted''),
      (''phase'', JsString ''publication''), (''retryability'', JsString ''after_action''),
      (''diagnostic'', JsString ''Encode publication completion was interrupted''),
      (''evidence'', JsObject [(''kind'', JsString ''interruption''),
                               (''source'', JsString ''publication_completion'')])]"

text \<open>\<open>drawnId\<close> and \<open>occurredAt\<close> are the identifier and the time of the report.\<close>

definition completePartialCleanup ::
  "encode_partial_cleanup \<Rightarrow> string \<Rightarrow> int \<Rightarrow> encode_catalog \<Rightarrow> encode_job encode_transaction" where
  "completePartialCleanup cleanup drawnId occurredAt c =
    (let condition = (\<lambda>j. ej_id j = pc_jobId cleanup \<and> cleanup_paths_eq cleanup j
            \<and> cleanup_lease_eq cleanup j);
         interrupted = (case find condition (encodeJobs c) of
            None \<Rightarrow> False | Some j \<Rightarrow> ej_publicationCompletionPending j) in
     case update_encodeJob condition (complete_cleanup_row c) c of
       Inl e \<Rightarrow> Inl e
     | Inr (Some updated, c') \<Rightarrow>
         (let c1 = clearCorrectedEncodePublicationAuthority (pc_jobId cleanup) c' in
          if interrupted then
            (case validateEncodeJobFailureReport interruption_report of
               Inl e \<Rightarrow> Inl e
             | Inr report \<Rightarrow>
                 map_sum id (Pair updated)
                   (appendEncodeJobFailureReports (Some (ej_id updated)) (Some [report]) occurredAt
                      (\<lambda>_. drawnId) c1))
          else Inr (updated, c1))
     | Inr (None, c') \<Rightarrow>
         (case find_encodeJob c' (pc_jobId cleanup) of
            None \<Rightarrow> Inl (StaleJobAttemptError ''encode job cleanup'' (pc_jobId cleanup))
          | Some current \<Rightarrow>
              if ej_partialCleanupOutputPath current = None
                 \<and> ej_partialCleanupClaimToken current = None
                 \<and> ej_partialCleanupLeaseToken current = None
                 \<and> \<not> ej_publicationPending current
              then Inr (current, clearCorrectedEncodePublicationAuthority (pc_jobId cleanup) c')
              else Inl (StaleJobAttemptError ''encode job cleanup'' (pc_jobId cleanup))))"

section \<open>Beginning a publication\<close>

text \<open>
  The file system, and Node's path functions on it: \<open>resolve\<close> depends on the working directory,
  \<open>realpath\<close> is \<open>None\<close> where \<open>realpathSync\<close> throws.
\<close>

record publication_filesystem =
  fs_resolve :: "string \<Rightarrow> string"
  fs_dirname :: "string \<Rightarrow> string"
  fs_basename :: "string \<Rightarrow> string"
  fs_join :: "string \<Rightarrow> string \<Rightarrow> string"
  fs_realpath :: "string \<Rightarrow> string option"
  fs_isDirectory :: "string \<Rightarrow> bool"

definition require_retained_path ::
  "publication_filesystem \<Rightarrow> encode_catalog \<Rightarrow> encode_job \<Rightarrow> string \<Rightarrow> unit result" where
  "require_retained_path fs c claim path =
    (if fs_resolve fs path \<noteq> path then
       Inl (DomainInvariantError ''Retained Encode output path is not claim scoped'')
     else
       (case find (\<lambda>j. ej_id j = ej_id claim \<and> column_eq (ej_claimToken j) (ej_claimToken claim))
               (encodeJobs c) of
          None \<Rightarrow> Inr ()
        | Some attempt \<Rightarrow>
            let resolved = fs_resolve fs (ej_outputPath attempt) in
            (case fs_realpath fs (fs_dirname fs resolved) of
               None \<Rightarrow> Inl (DomainInvariantError ''Encode Job output directory is unavailable'')
             | Some directory \<Rightarrow>
                 check_all
                   [reject_if (\<not> fs_isDirectory fs directory)
                      (DomainInvariantError ''Encode Job output directory is unavailable''),
                    reject_if (path \<noteq> fs_join fs directory
                        (fs_basename fs resolved @ ''.failed.'' @ the (ej_claimToken attempt)))
                      (DomainInvariantError
                        ''Retained Encode output path does not match the Encode Job output'')])))"

text \<open>
  \<open>insert ... onConflictDoUpdate\<close>: the row of the job is replaced, or appended; its path is
  unique in the table.
\<close>

definition upsert_publicationAuthority ::
  "publication_authority_row \<Rightarrow> encode_catalog \<Rightarrow> encode_catalog result" where
  "upsert_publicationAuthority row c =
    (let same = (\<lambda>a. pa_replacementEncodeJobId a = pa_replacementEncodeJobId row);
         rows = publicationAuthorities c in
     if list_ex (\<lambda>a. \<not> same a \<and> pa_retainedOutputPath a = pa_retainedOutputPath row) rows
     then Inl (SqliteError ''UNIQUE constraint failed'')
     else Inr (c\<lparr>publicationAuthorities :=
       (if list_ex same rows then map (\<lambda>a. if same a then row else a) rows else rows @ [row])\<rparr>))"

definition beginPublicationMutation ::
  "encode_gate \<Rightarrow> publication_filesystem \<Rightarrow> encode_job \<Rightarrow> encode_partial_cleanup \<Rightarrow> string option
     \<Rightarrow> string \<Rightarrow> int \<Rightarrow> encode_catalog \<Rightarrow> encode_partial_cleanup encode_transaction" where
  "beginPublicationMutation g fs claim cleanup retainedOutputPath leaseToken timestamp c =
    (if \<not> pc_publicationPending cleanup \<or> pc_leaseToken cleanup \<noteq> None then
       Inl (DomainInvariantError ''Encode Job publication mutation requires unfenced provenance'')
     else
       (case (case retainedOutputPath of None \<Rightarrow> Inr None
              | Some path \<Rightarrow> map_sum id Some (requireNonEmpty path ''retainedOutputPath'')) of
          Inl e \<Rightarrow> Inl e
        | Inr path \<Rightarrow>
          (case (case path of None \<Rightarrow> Inr () | Some p \<Rightarrow> require_retained_path fs c claim p) of
             Inl e \<Rightarrow> Inl e
           | Inr _ \<Rightarrow>
             (case update_encodeJob
                     (\<lambda>j. encodeAttemptCondition g c claim timestamp j \<and> cleanup_paths_eq cleanup j
                        \<and> ej_publicationPending j \<and> ej_partialCleanupLeaseToken j = None)
                     (lease_row leaseToken timestamp) c of
                Inl e \<Rightarrow> Inl e
              | Inr (None, c') \<Rightarrow> Inl (StaleJobAttemptError ''encode job'' (ej_id claim))
              | Inr (Some renewed, c') \<Rightarrow>
                  let leased = cleanup\<lparr>pc_leaseToken := Some leaseToken\<rparr> in
                  (case (ej_predecessorEncodeJobId renewed, ej_replacementOutputIdentity renewed, path) of
                     (None, _, None) \<Rightarrow> Inr (leased, c')
                   | (None, _, Some _) \<Rightarrow> Inl (DomainInvariantError
                       ''Only corrected Encode Jobs can stage retained output paths'')
                   | (Some _, None, None) \<Rightarrow> Inr (leased, c')
                   | (Some _, None, Some _) \<Rightarrow> Inl (DomainInvariantError
                       ''Corrected publication without a prior final cannot stage retained output authority'')
                   | (Some _, Some _, None) \<Rightarrow> Inl (DomainInvariantError
                       ''Corrected publication mutation requires retained output authority'')
                   | (Some _, Some identity, Some p) \<Rightarrow>
                       map_sum id (Pair leased)
                         (upsert_publicationAuthority
                            \<lparr>pa_replacementEncodeJobId = ej_id renewed,
                             pa_claimToken = the (ej_claimToken claim),
                             pa_retainedOutputPath = p, pa_filesystemIdentity = identity\<rparr> c'))))))"

definition recoverExpiredPublicationMutation ::
  "encode_partial_cleanup \<Rightarrow> js_value option \<Rightarrow> int \<Rightarrow> (nat \<Rightarrow> string) \<Rightarrow> encode_catalog
     \<Rightarrow> encode_job encode_transaction" where
  "recoverExpiredPublicationMutation cleanup recoveryFailureReportInput timestamp drawn c =
    (if pc_leaseToken cleanup = None then
       Inl (DomainInvariantError
         ''Encode Job publication mutation recovery requires fenced provenance'')
     else
       (case validateEncodeJobFailureReport
               (lease_report (if pc_publicationPending cleanup then ''publication'' else ''cleanup'')
                  ''Encode publication cleanup lease expired'' ''publication_cleanup'') of
          Inl e \<Rightarrow> Inl e
        | Inr report \<Rightarrow>
          (case map_result validateEncodeJobFailureReport
                  (case recoveryFailureReportInput of None \<Rightarrow> [] | Some i \<Rightarrow> [i]) of
             Inl e \<Rightarrow> Inl e
           | Inr recoveryReports \<Rightarrow>
             if list_ex (\<lambda>r. js_get r ''reasonCode'' \<noteq> JsString ''publication_recovery_failed''
                  \<or> js_get (js_get r ''evidence'') ''kind'' \<noteq> JsString ''recovery''
                  \<or> js_get (js_get r ''evidence'') ''operation''
                      \<noteq> JsString (if pc_publicationPending cleanup then ''publication_recovery''
                                  else ''cleanup_recovery'')) recoveryReports
             then Inl (DomainInvariantError
               ''Expired Encode publication recovery report reason is invalid'')
             else
               (case update_encodeJob
                       (\<lambda>j. ej_id j = pc_jobId cleanup \<and> ej_status j = Running
                          \<and> ej_publicationPending j = pc_publicationPending cleanup
                          \<and> cleanup_paths_eq cleanup j
                          \<and> ej_partialCleanupLeaseToken j = pc_leaseToken cleanup
                          \<and> ej_updatedAt j \<le> timestamp - ENCODE_JOB_LEASE_DURATION_MS)
                       (\<lambda>j. j\<lparr>ej_status := Failed, ej_partialCleanupLeaseToken := None,
                          ej_errorMessage := Some ''Encode publication mutation was abandoned'',
                          ej_updatedAt := timestamp\<rparr>) c of
                  Inl e \<Rightarrow> Inl e
                | Inr (None, c') \<Rightarrow> Inl (StaleJobAttemptError ''encode job publication mutation''
                    (pc_jobId cleanup))
                | Inr (Some updated, c') \<Rightarrow>
                    map_sum id (Pair updated)
                      (appendEncodeJobFailureReports (Some (ej_id updated))
                         (Some (report # recoveryReports)) timestamp drawn c')))))"

section \<open>Retaining the output a correction replaces\<close>

text \<open>An absent provenance and an empty one are the same to every use.\<close>

record published_output_validation =
  pv_result :: string
  pv_filesystemIdentity :: string
  pv_completeness :: string

record publication_provenance =
  pp_retainedOutputPath :: "string option"
  pp_retainedOutputIdentity :: "string option"
  pp_publishedOutputValidation :: "published_output_validation option"

definition retained_output_checks :: "retained_output_row \<Rightarrow> bool" where
  "retained_output_checks r \<longleftrightarrow>
     rt_predecessorEncodeJobId r \<noteq> rt_replacementEncodeJobId r
   \<and> rt_sourceEncodeJobId r \<in> {rt_predecessorEncodeJobId r, rt_replacementEncodeJobId r}
   \<and> rt_state r = ''retained'' \<and> rt_cleanupEligible r
   \<and> ((rt_validationResult r = None \<and> rt_validationFilesystemIdentity r = None
         \<and> rt_validatedAt r = None \<and> rt_completeness r = None)
       \<or> (rt_validationResult r = Some ''passed''
         \<and> rt_validationFilesystemIdentity r \<notin> {None, Some []}
         \<and> rt_validatedAt r \<noteq> None \<and> rt_completeness r = Some ''complete''))"

text \<open>
  \<open>existing\<close> is the row of the same path, if any; the row inserted otherwise is read back by the
  code, and is the one that was written.
\<close>

definition retainCorrectedEncodeOutput ::
  "encode_job \<Rightarrow> publication_provenance \<Rightarrow> string \<Rightarrow> int \<Rightarrow> encode_catalog \<Rightarrow> encode_catalog result" where
  "retainCorrectedEncodeOutput job provenance drawnId timestamp c =
    (let authority = find (\<lambda>a. pa_replacementEncodeJobId a = ej_id job) (publicationAuthorities c);
         fail = (\<lambda>m. Inl (DomainInvariantError m)) in
     case pp_retainedOutputPath provenance of
       None \<Rightarrow>
         if pp_retainedOutputIdentity provenance \<noteq> None
            \<or> (ej_predecessorEncodeJobId job \<noteq> None \<and> ej_replacementOutputIdentity job \<noteq> None)
            \<or> authority \<noteq> None
         then fail ''Retained Encode output provenance is incomplete'' else Inr c
     | Some givenPath \<Rightarrow>
       (case requireNonEmpty givenPath ''retainedOutputPath'' of
          Inl e \<Rightarrow> Inl e
        | Inr path \<Rightarrow>
          (case (ej_predecessorEncodeJobId job, pp_retainedOutputIdentity provenance) of
             (Some predecessor, Some identity) \<Rightarrow>
               if ej_replacementOutputIdentity job \<noteq> None
                  \<and> ej_replacementOutputIdentity job \<noteq> Some identity
               then fail ''Retained Encode output requires corrected replacement provenance''
               else
                 (case authority of
                    None \<Rightarrow> fail ''Retained Encode output path conflicts with publication authority''
                  | Some a \<Rightarrow>
                    if Some (pa_claimToken a) \<noteq> ej_claimToken job \<or> pa_retainedOutputPath a \<noteq> path
                    then fail ''Retained Encode output path conflicts with publication authority''
                    else if pa_filesystemIdentity a \<noteq> identity
                    then fail ''Retained Encode output identity conflicts with publication authority''
                    else
                      (case find (\<lambda>r. rt_retainedOutputPath r = path) (retainedEncodeOutputs c) of
                         Some existing \<Rightarrow>
                           if rt_predecessorEncodeJobId existing \<noteq> predecessor
                              \<or> rt_replacementEncodeJobId existing \<noteq> ej_id job
                              \<or> rt_filesystemIdentity existing \<noteq> identity
                              \<or> rt_state existing \<noteq> ''retained'' \<or> \<not> rt_cleanupEligible existing
                           then fail ''Retained Encode output provenance conflicts with publication''
                           else Inr c
                       | None \<Rightarrow>
                         if ej_replacementOutputIdentity job = None
                         then fail ''Retained Encode output requires corrected replacement provenance''
                         else
                           let sourceId = (if ej_completedAt job = None then predecessor
                                           else ej_id job) in
                           (case find_encodeJob c sourceId of
                              None \<Rightarrow> Inl (RecordNotFoundError
                                ''retained Encode output source job'' sourceId)
                            | Some source \<Rightarrow>
                              let row = \<lparr>rt_id = drawnId, rt_predecessorEncodeJobId = predecessor,
                                    rt_replacementEncodeJobId = ej_id job,
                                    rt_sourceEncodeJobId = sourceId, rt_retainedOutputPath = path,
                                    rt_filesystemIdentity = identity,
                                    rt_validationResult = ej_outputValidationResult source,
                                    rt_validationFilesystemIdentity =
                                      ej_outputValidationFilesystemIdentity source,
                                    rt_validatedAt = ej_outputValidatedAt source,
                                    rt_completeness = ej_outputCompleteness source,
                                    rt_state = ''retained'', rt_cleanupEligible = True,
                                    rt_retainedAt = timestamp\<rparr> in
                              if \<not> retained_output_checks row
                                 \<or> drawnId \<in> set (map rt_id (retainedEncodeOutputs c))
                              then Inl (SqliteError ''constraint failed'')
                              else Inr (c\<lparr>retainedEncodeOutputs :=
                                retainedEncodeOutputs c @ [row]\<rparr>))))
           | _ \<Rightarrow> fail ''Retained Encode output requires corrected replacement provenance'')))"

section \<open>Completing a publication\<close>

record replayed_completion =
  rc_completedAt :: "int option"
  rc_outputValidationResult :: "string option"
  rc_outputValidationFilesystemIdentity :: "string option"
  rc_outputValidatedAt :: "int option"
  rc_outputCompleteness :: "string option"

definition finalized_row ::
  "publication_provenance \<Rightarrow> output_validation_row option \<Rightarrow> replayed_completion option \<Rightarrow> int
     \<Rightarrow> encode_job \<Rightarrow> encode_job" where
  "finalized_row provenance validationRecord replayed finalizedAt j =
    (let validation = pp_publishedOutputValidation provenance;
         completion = (case replayed of
             Some r \<Rightarrow> r
           | None \<Rightarrow>
               \<lparr>rc_completedAt = Some finalizedAt,
                rc_outputValidationResult = map_option pv_result validation,
                rc_outputValidationFilesystemIdentity =
                  map_option pv_filesystemIdentity validation,
                rc_outputValidatedAt = (case validation of None \<Rightarrow> None
                  | Some _ \<Rightarrow> Some (case validationRecord of None \<Rightarrow> finalizedAt
                                    | Some r \<Rightarrow> ov_validatedAt r)),
                rc_outputCompleteness = map_option pv_completeness validation\<rparr>) in
     j\<lparr>ej_completedAt := rc_completedAt completion,
       ej_outputValidationResult := rc_outputValidationResult completion,
       ej_outputValidationFilesystemIdentity := rc_outputValidationFilesystemIdentity completion,
       ej_outputValidatedAt := rc_outputValidatedAt completion,
       ej_outputCompleteness := rc_outputCompleteness completion,
       ej_replaceExistingOutput := False, ej_replacementOutputIdentity := None,
       ej_publicationCompletionPending := False, ej_updatedAt := finalizedAt\<rparr>)"

definition source_claim_token :: "encode_job \<Rightarrow> string option" where
  "source_claim_token j = (case ej_partialCleanupClaimToken j of
     None \<Rightarrow> ej_claimToken j | Some t \<Rightarrow> Some t)"

definition finalizePublishedEncodeJob ::
  "(encode_job \<Rightarrow> bool) \<Rightarrow> publication_provenance \<Rightarrow> string \<Rightarrow> string \<Rightarrow> replayed_completion option
     \<Rightarrow> string \<Rightarrow> int \<Rightarrow> encode_catalog \<Rightarrow> encode_job option encode_transaction" where
  "finalizePublishedEncodeJob completionCondition provenance operation jobId replayed drawnId
     finalizedAt c =
    (case find completionCondition (encodeJobs c) of
       None \<Rightarrow> Inl (StaleJobAttemptError operation jobId)
     | Some current \<Rightarrow>
         let validationRecord =
           (case pp_publishedOutputValidation provenance of
              None \<Rightarrow> None
            | Some validation \<Rightarrow>
                find (\<lambda>v. ov_encodeJobId v = jobId
                    \<and> Some (ov_claimToken v) = source_claim_token current
                    \<and> ov_filesystemIdentity v = pv_filesystemIdentity validation)
                  (encodeOutputValidations c)) in
         if replayed = None \<and> validationRecord = None
            \<and> (case source_claim_token current of None \<Rightarrow> False
               | Some t \<Rightarrow> list_ex (\<lambda>s. sn_id s = t) (encodeClaimSnapshots c))
         then Inl (DomainInvariantError
           ''Claimed source output requires its exact recorded validation'')
         else
           (case retainCorrectedEncodeOutput current provenance drawnId finalizedAt c of
              Inl e \<Rightarrow> Inl e
            | Inr c' \<Rightarrow> update_encodeJob completionCondition
                (finalized_row provenance validationRecord replayed finalizedAt) c'))"

text \<open>What the operations below commit first: the job is completed, its completion pending.\<close>

definition completion_pending_row :: "int \<Rightarrow> encode_job \<Rightarrow> encode_job" where
  "completion_pending_row timestamp j =
     j\<lparr>ej_status := Completed, ej_publicationCompletionPending := True,
       ej_progressPercent := 100, ej_progressEtaSeconds := None, ej_errorMessage := None,
       ej_updatedAt := timestamp\<rparr>"

definition completion_condition :: "encode_partial_cleanup \<Rightarrow> encode_job \<Rightarrow> bool" where
  "completion_condition cleanup j \<longleftrightarrow> ej_id j = pc_jobId cleanup \<and> ej_status j = Completed
     \<and> ej_publicationCompletionPending j \<and> ej_publicationPending j
     \<and> cleanup_paths_eq cleanup j \<and> cleanup_lease_eq cleanup j"

text \<open>
  A transaction of which the result is committed or, on an error, undone; \<open>then_commit\<close> goes on
  from it.
\<close>

definition committed :: "encode_catalog \<Rightarrow> 'a encode_transaction \<Rightarrow> 'a encode_operation" where
  "committed c r = (case r of Inl e \<Rightarrow> (c, Inl e) | Inr (x, c') \<Rightarrow> (c', Inr x))"

definition then_commit ::
  "'a encode_operation \<Rightarrow> ('a \<Rightarrow> encode_catalog \<Rightarrow> 'b encode_operation) \<Rightarrow> 'b encode_operation" where
  "then_commit op k = (case op of (c, Inl e) \<Rightarrow> (c, Inl e) | (c, Inr x) \<Rightarrow> k x c)"

definition require_found ::
  "js_error \<Rightarrow> encode_job option \<Rightarrow> encode_catalog \<Rightarrow> encode_job encode_operation" where
  "require_found e updated c = (c, case updated of None \<Rightarrow> Inl e | Some j \<Rightarrow> Inr j)"

text \<open>
  \<open>completePublishedMutation\<close>.  \<open>t1\<close>, \<open>t2\<close> are the times of the two statements that may
  follow each other, \<open>drawnId\<close> the identifier of a retained output.
\<close>

definition completePublishedMutation ::
  "encode_partial_cleanup \<Rightarrow> bool \<Rightarrow> bool \<Rightarrow> publication_provenance \<Rightarrow> string \<Rightarrow> int \<Rightarrow> int
     \<Rightarrow> encode_catalog \<Rightarrow> encode_job encode_operation" where
  "completePublishedMutation cleanup matchesBefore matchesAfter provenance drawnId t1 t2 c =
    (let stale = StaleJobAttemptError ''encode job publication mutation'' (pc_jobId cleanup) in
     if \<not> pc_publicationPending cleanup \<or> pc_leaseToken cleanup = None then
       (c, Inl (DomainInvariantError
         ''Encode Job publication mutation completion requires fenced provenance''))
     else if \<not> matchesBefore then (c, Inl stale)
     else
       then_commit
         (then_commit
           (committed c (update_encodeJob
             (\<lambda>j. ej_id j = pc_jobId cleanup \<and> ej_status j = Running \<and> ej_publicationPending j
                \<and> cleanup_paths_eq cleanup j
                \<and> ej_partialCleanupLeaseToken j = pc_leaseToken cleanup)
             (completion_pending_row t1) c))
           (require_found stale))
         (\<lambda>_ c1.
           if \<not> matchesAfter then
             then_commit
               (committed c1 (update_encodeJob (completion_condition cleanup)
                 (\<lambda>j. j\<lparr>ej_status := Running, ej_publicationCompletionPending := False,
                    ej_completedAt := completedAtAfterInterruptedPublication c1 j,
                    ej_updatedAt := t2\<rparr>) c1))
               (\<lambda>_ c2. (c2, Inl stale))
           else
             then_commit
               (committed c1 (finalizePublishedEncodeJob (completion_condition cleanup) provenance
                 ''encode job publication mutation'' (pc_jobId cleanup) None drawnId t2 c1))
               (require_found stale)))"

text \<open>
  \<open>renewPublishedPartial\<close> and \<open>completePublishedPartial\<close>.  The lease is kept, or \<open>drawnToken\<close>
  becomes it.
\<close>

definition published_partial_condition :: "encode_partial_cleanup \<Rightarrow> encode_job \<Rightarrow> bool" where
  "published_partial_condition cleanup j \<longleftrightarrow> ej_id j = pc_jobId cleanup
     \<and> ej_status j \<in> {Failed, Completed} \<and> ej_publicationPending j
     \<and> cleanup_paths_eq cleanup j \<and> cleanup_lease_eq cleanup j"

definition own_published_partial ::
  "encode_partial_cleanup \<Rightarrow> string \<Rightarrow> int \<Rightarrow> encode_catalog \<Rightarrow> encode_job encode_operation" where
  "own_published_partial cleanup drawnToken timestamp c =
    (if \<not> pc_publicationPending cleanup then
       (c, Inl (DomainInvariantError ''Encode Job cleanup is not publication provenance''))
     else
       then_commit
         (committed c (update_encodeJob (published_partial_condition cleanup)
           (lease_row (given (pc_leaseToken cleanup) drawnToken) timestamp) c))
         (require_found (StaleJobAttemptError ''encode job publication'' (pc_jobId cleanup))))"

definition renewPublishedPartial ::
  "encode_partial_cleanup \<Rightarrow> bool \<Rightarrow> string \<Rightarrow> int \<Rightarrow> encode_catalog
     \<Rightarrow> encode_partial_cleanup encode_operation" where
  "renewPublishedPartial cleanup matches drawnToken timestamp c =
     then_commit (own_published_partial cleanup drawnToken timestamp c)
       (\<lambda>_ c1. (c1,
          if \<not> matches
          then Inl (StaleJobAttemptError ''encode job publication'' (pc_jobId cleanup))
          else Inr (cleanup\<lparr>pc_leaseToken := Some (given (pc_leaseToken cleanup) drawnToken)\<rparr>)))"

text \<open>The completion an earlier run had already recorded is kept.\<close>

definition replayed_of :: "encode_job \<Rightarrow> replayed_completion option" where
  "replayed_of owned =
    (if ej_status owned = Completed \<and> \<not> ej_publicationCompletionPending owned
     then Some \<lparr>rc_completedAt = ej_completedAt owned,
       rc_outputValidationResult = ej_outputValidationResult owned,
       rc_outputValidationFilesystemIdentity = ej_outputValidationFilesystemIdentity owned,
       rc_outputValidatedAt = ej_outputValidatedAt owned,
       rc_outputCompleteness = ej_outputCompleteness owned\<rparr>
     else None)"

definition restored_row :: "encode_job \<Rightarrow> int \<Rightarrow> encode_job \<Rightarrow> encode_job" where
  "restored_row owned timestamp j =
     j\<lparr>ej_status := ej_status owned,
       ej_publicationCompletionPending := ej_publicationCompletionPending owned,
       ej_completedAt := ej_completedAt owned, ej_errorMessage := ej_errorMessage owned,
       ej_updatedAt := timestamp\<rparr>"

definition completePublishedPartial ::
  "encode_partial_cleanup \<Rightarrow> bool \<Rightarrow> bool \<Rightarrow> publication_provenance \<Rightarrow> string \<Rightarrow> string \<Rightarrow> int \<Rightarrow> int
     \<Rightarrow> int \<Rightarrow> encode_catalog \<Rightarrow> (encode_partial_cleanup \<times> encode_job) encode_operation" where
  "completePublishedPartial cleanup matchesBefore matchesAfter provenance drawnToken drawnId t1 t2 t3 c =
    (let stale = StaleJobAttemptError ''encode job publication'' (pc_jobId cleanup);
         leased = cleanup\<lparr>pc_leaseToken := Some (given (pc_leaseToken cleanup) drawnToken)\<rparr> in
     then_commit (own_published_partial cleanup drawnToken t1 c)
       (\<lambda>owned c1.
         if \<not> matchesBefore then (c1, Inl stale)
         else
           then_commit
             (then_commit
               (committed c1 (update_encodeJob (published_partial_condition leased)
                 (completion_pending_row t1) c1))
               (require_found stale))
             (\<lambda>_ c2.
               let restore = (\<lambda>t. then_commit
                     (committed c2 (update_encodeJob (completion_condition leased)
                       (restored_row owned t) c2))
                     (require_found stale)) in
               if \<not> matchesAfter then then_commit (restore t2) (\<lambda>_ c3. (c3, Inl stale))
               else
                 (case finalizePublishedEncodeJob (completion_condition leased) provenance
                         ''encode job publication'' (pc_jobId cleanup) (replayed_of owned) drawnId t2
                         c2 of
                    Inr (Some finalized, c3) \<Rightarrow> (c3, Inr (leased, finalized))
                  | Inr (None, c3) \<Rightarrow> (c3, Inl stale)
                  | Inl e \<Rightarrow>
                      if replayed_of owned \<noteq> None
                      then then_commit (restore t3) (\<lambda>_ c3. (c3, Inl e)) else (c2, Inl e)))))"

text \<open>\<open>completePublishedClaim\<close>.\<close>

definition published_claim_condition ::
  "encode_gate \<Rightarrow> encode_catalog \<Rightarrow> encode_job \<Rightarrow> encode_partial_cleanup \<Rightarrow> int \<Rightarrow> encode_job \<Rightarrow> bool" where
  "published_claim_condition g c claim cleanup timestamp j \<longleftrightarrow>
     (if pc_leaseToken cleanup = None then encodeAttemptCondition g c claim timestamp j
      else ej_id j = ej_id claim \<and> ej_status j = Running
        \<and> column_eq (ej_claimToken j) (ej_claimToken claim))
   \<and> ej_publicationPending j \<and> cleanup_paths_eq cleanup j \<and> cleanup_lease_eq cleanup j"

definition completePublishedClaim ::
  "encode_gate \<Rightarrow> encode_job \<Rightarrow> encode_partial_cleanup \<Rightarrow> bool \<Rightarrow> bool \<Rightarrow> publication_provenance
     \<Rightarrow> string \<Rightarrow> int \<Rightarrow> int \<Rightarrow> encode_catalog \<Rightarrow> encode_job encode_operation" where
  "completePublishedClaim g claim cleanup matchesBefore matchesAfter provenance drawnId t1 t2 c =
    (let stale = StaleJobAttemptError ''encode job publication'' (pc_jobId cleanup);
         completed = (\<lambda>j. completion_condition cleanup j
            \<and> column_eq (ej_claimToken j) (ej_claimToken claim)) in
     if \<not> pc_publicationPending cleanup then
       (c, Inl (DomainInvariantError ''Encode Job cleanup is not publication provenance''))
     else
       then_commit
         (committed c
           (case update_encodeJob (published_claim_condition g c claim cleanup t1) (touch t1) c of
              Inl e \<Rightarrow> Inl e
            | Inr (owned, c1) \<Rightarrow>
                if owned = None \<or> \<not> matchesBefore then Inl stale
                else
                  (case update_encodeJob (published_claim_condition g c1 claim cleanup t1)
                          (completion_pending_row t1) c1 of
                     Inl e \<Rightarrow> Inl e
                   | Inr (None, c2) \<Rightarrow> Inl stale
                   | Inr (Some updated, c2) \<Rightarrow> Inr (updated, c2))))
         (\<lambda>_ c2.
           if \<not> matchesAfter then
             then_commit
               (committed c2 (update_encodeJob completed
                 (\<lambda>j. j\<lparr>ej_status := Failed, ej_publicationCompletionPending := False,
                    ej_completedAt := completedAtAfterInterruptedPublication c2 j,
                    ej_errorMessage := Some ''Encode publication changed across completion commit'',
                    ej_updatedAt := t2\<rparr>) c2))
               (\<lambda>_ c3. (c3, Inl stale))
           else
             then_commit
               (committed c2 (finalizePublishedEncodeJob completed provenance
                 ''encode job publication'' (pc_jobId cleanup) None drawnId t2 c2))
               (require_found stale)))"

end
