(* ===== verification/EncodeLifecycle.thy ===== *)
theory EncodeLifecycle
  imports EncodePublication
begin

text \<open>
  The life of an Encode Job, seen from the tokens that fence its attempts: an abstract state
  machine over a job's status and claim token, the discipline every row of \<open>encode_jobs\<close> obeys,
  and the proof that each transaction of \<open>EncodeJobs\<close> and \<open>EncodePublication\<close> moves the jobs
  along that machine and keeps the discipline.
\<close>

section \<open>The abstract machine\<close>

type_synonym claim_view = "encode_job_status \<times> string option"

definition claim_view :: "encode_job \<Rightarrow> claim_view" where
  "claim_view j = (ej_status j, ej_claimToken j)"

text \<open>
  What may happen to a job between two claims.  A completion may be undone while its publication
  is pending: it goes on running (the file system changed during the commit), or fails (it was
  interrupted); a failed publication may be found complete.  No move gives a job a new token, and
  a job that lost its token is cancelled or queued.
\<close>

inductive moves :: "claim_view \<Rightarrow> claim_view \<Rightarrow> bool" where
  finished: "s \<in> {Completed, Failed} \<Longrightarrow> moves (Running, Some t) (s, Some t)"
| resumed: "moves (Completed, Some t) (Running, Some t)"
| settled: "s \<in> {Completed, Failed} \<Longrightarrow> s' \<in> {Completed, Failed} \<Longrightarrow> moves (s, t) (s', t)"
| withdrawn: "moves (Queued, None) (Cancelled, None)"
| stopping: "moves (Running, Some t) (CancellationRequested, Some t)"
| stopped: "moves (CancellationRequested, Some t) (Cancelled, None)"
| requeued: "s \<in> {Completed, Failed, Cancelled} \<Longrightarrow> moves (s, t) (Queued, None)"

inductive_simps moves_from_running [simp]: "moves (Running, t) v"
inductive_simps moves_from_queued [simp]: "moves (Queued, t) v"
inductive_simps moves_from_stopping [simp]: "moves (CancellationRequested, t) v"
inductive_cases moves_bearing: "moves v (s, Some t)"

abbreviation moves_on :: "claim_view \<Rightarrow> claim_view \<Rightarrow> bool" where
  "moves_on \<equiv> moves\<^sup>*\<^sup>*"

lemma moves_keep_token: "moves v v' \<Longrightarrow> snd v' = Some t \<Longrightarrow> snd v = Some t"
  by (cases v'; auto elim!: moves_bearing)

lemma moves_on_keep_token: "moves_on v v' \<Longrightarrow> snd v' = Some t \<Longrightarrow> snd v = Some t"
  by (induction rule: rtranclp_induct) (auto dest: moves_keep_token)

section \<open>The discipline of the rows\<close>

text \<open>
  A queued job has no token and nothing to clean up; an attempt that is under way has a token; a
  completion is pending only on a completed job; and a partial output belongs to the job's own
  attempt, except after a cancellation, which takes the token away.
\<close>

definition disciplined :: "encode_job \<Rightarrow> bool" where
  "disciplined j \<longleftrightarrow>
     (ej_status j = Queued \<longrightarrow> ej_claimToken j = None \<and> ej_partialCleanupClaimToken j = None)
   \<and> (ej_status j \<in> {Running, CancellationRequested} \<longrightarrow> ej_claimToken j \<noteq> None)
   \<and> (ej_publicationCompletionPending j \<longrightarrow> ej_status j = Completed)
   \<and> (ej_status j \<noteq> Cancelled \<longrightarrow> ej_partialCleanupClaimToken j \<noteq> None
        \<longrightarrow> ej_partialCleanupClaimToken j = ej_claimToken j)"

definition catalog_wf :: "encode_catalog \<Rightarrow> bool" where
  "catalog_wf c \<longleftrightarrow> unique_ids c \<and> distinct (reserved_paths (encodeJobs c))
     \<and> (\<forall>j \<in> set (encodeJobs c). encode_job_checks j \<and> disciplined j)"

lemma catalog_wf_unique_ids: "catalog_wf c \<Longrightarrow> unique_ids c"
  and catalog_wf_checks: "catalog_wf c \<Longrightarrow> j \<in> set (encodeJobs c) \<Longrightarrow> encode_job_checks j"
  and catalog_wf_disciplined: "catalog_wf c \<Longrightarrow> j \<in> set (encodeJobs c) \<Longrightarrow> disciplined j"
  and catalog_wf_paths: "catalog_wf c \<Longrightarrow> distinct (reserved_paths (encodeJobs c))"
  by (simp_all add: catalog_wf_def)

text \<open>A job may become another row: the same job, moved along the machine.\<close>

definition job_step :: "encode_job \<Rightarrow> encode_job \<Rightarrow> bool" where
  "job_step j j' \<longleftrightarrow> ej_id j' = ej_id j \<and> disciplined j' \<and> moves_on (claim_view j) (claim_view j')"

text \<open>Every job moves along the machine, and the catalog that results is well formed.\<close>

definition moved :: "encode_job \<Rightarrow> encode_job \<Rightarrow> bool" where
  "moved j j' \<longleftrightarrow> ej_id j' = ej_id j \<and> moves_on (claim_view j) (claim_view j')"

lemma moved_refl [simp]: "moved j j"
  by (simp add: moved_def)

lemma moved_trans:
  assumes "moved j j'" and "moved j' j''"
  shows "moved j j''"
proof -
  from assms have "moves_on (claim_view j) (claim_view j')" and "moves_on (claim_view j') (claim_view j'')"
    by (simp_all add: moved_def)
  then have "moves_on (claim_view j) (claim_view j'')" by (rule rtranclp_trans)
  with assms show ?thesis by (simp add: moved_def)
qed

definition steps :: "encode_catalog \<Rightarrow> encode_catalog \<Rightarrow> bool" where
  "steps c c' \<longleftrightarrow> catalog_wf c' \<and> list_all2 moved (encodeJobs c) (encodeJobs c')"

lemma steps_refl: "catalog_wf c \<Longrightarrow> steps c c"
  by (simp add: steps_def list.rel_refl)

lemma catalog_wf_jobs:
  assumes "encodeJobs c' = encodeJobs c"
  shows "catalog_wf c' \<longleftrightarrow> catalog_wf c"
  unfolding catalog_wf_def unique_ids_def assms ..

lemma steps_jobs: "steps c c' \<Longrightarrow> encodeJobs c'' = encodeJobs c' \<Longrightarrow> steps c c''"
  using catalog_wf_jobs [of c'' c'] by (simp add: steps_def)

lemma steps_same: "catalog_wf c \<Longrightarrow> encodeJobs c' = encodeJobs c \<Longrightarrow> steps c c'"
  by (rule steps_jobs [OF steps_refl])

lemma steps_wf: "steps c c' \<Longrightarrow> catalog_wf c'"
  by (simp add: steps_def)

lemma steps_trans:
  assumes "steps c c'" and "steps c' c''"
  shows "steps c c''"
proof -
  have "list_all2 moved (encodeJobs c) (encodeJobs c'')"
    by (rule list_all2_trans [where ?P1.0 = moved and ?P2.0 = moved]) (use assms in \<open>auto simp: steps_def elim: moved_trans\<close>)
  with assms(2) show ?thesis by (simp add: steps_def)
qed

lemma update_wf:
  assumes "catalog_wf c" and "update_encodeJobs P f c = Inr (changed, c')"
    and "\<And>j. j \<in> set (encodeJobs c) \<Longrightarrow> P j \<Longrightarrow> disciplined j \<Longrightarrow> encode_job_checks j \<Longrightarrow>
      ej_id (f j) = ej_id j \<and> disciplined (f j)"
  shows "catalog_wf c'"
proof -
  let ?f = "\<lambda>j. if P j then f j else j"
  from assms(2) have c': "c' = c\<lparr>encodeJobs := map ?f (encodeJobs c)\<rparr>"
    and "distinct (reserved_paths (map ?f (encodeJobs c)))"
    and checks: "list_all encode_job_checks (map f (filter P (encodeJobs c)))"
    by (auto simp: result_simps Let_def)
  have step: "ej_id (?f j) = ej_id j \<and> disciplined (?f j)" if "j \<in> set (encodeJobs c)" for j
    using assms(1) that assms(3) [OF that] by (simp add: catalog_wf_def)
  have "map ej_id (map ?f (encodeJobs c)) = map ej_id (encodeJobs c)"
    using step by auto
  then have "unique_ids c'" using assms(1) unfolding c'
    by (simp add: catalog_wf_def unique_ids_def del: map_map)
  moreover have "encode_job_checks (?f j)" if "j \<in> set (encodeJobs c)" for j
    using checks that assms(1) by (simp add: list_all_iff catalog_wf_def)
  with step have "encode_job_checks k \<and> disciplined k" if "k \<in> set (map ?f (encodeJobs c))" for k
    using that by (auto simp only: set_map)
  ultimately show ?thesis using \<open>distinct _\<close> unfolding catalog_wf_def c' by simp
qed

lemma update_steps:
  assumes "catalog_wf c" and "update_encodeJobs P f c = Inr (changed, c')"
    and "\<And>j. j \<in> set (encodeJobs c) \<Longrightarrow> P j \<Longrightarrow> disciplined j \<Longrightarrow> encode_job_checks j \<Longrightarrow> job_step j (f j)"
  shows "steps c c'"
proof -
  have step: "job_step j (f j)" if "j \<in> set (encodeJobs c)" "P j" for j
    using assms(1) that by (auto intro: assms(3) catalog_wf_checks catalog_wf_disciplined)
  have "catalog_wf c'"
    by (rule update_wf [OF assms(1,2)]) (use step in \<open>simp_all add: job_step_def\<close>)
  moreover have "job_changes moved c c'"
    by (rule update_changes [OF assms(2)]) (use step in \<open>simp add: job_step_def moved_def\<close>)
  then have "list_all2 moved (encodeJobs c) (encodeJobs c')"
    by (auto simp: job_changes_def elim!: list.rel_mono_strong)
  ultimately show ?thesis by (simp add: steps_def)
qed

lemma update_one_steps:
  assumes "catalog_wf c" and "update_encodeJob P f c = Inr (r, c')"
    and "\<And>j. j \<in> set (encodeJobs c) \<Longrightarrow> P j \<Longrightarrow> disciplined j \<Longrightarrow> encode_job_checks j \<Longrightarrow> job_step j (f j)"
  shows "steps c c'"
  using assms update_steps by (auto simp: update_encodeJob_Inr)

text \<open>A row whose status, tokens and pending completion stay as they are has not moved.\<close>

lemma job_step_unmoved:
  assumes "disciplined j" and "ej_id j' = ej_id j" and "ej_status j' = ej_status j"
    and "ej_claimToken j' = ej_claimToken j"
    and "ej_partialCleanupClaimToken j' \<in> {None, ej_partialCleanupClaimToken j}"
    and "ej_publicationCompletionPending j' \<longrightarrow> ej_publicationCompletionPending j"
  shows "job_step j j'"
  using assms by (auto simp: job_step_def disciplined_def claim_view_def)

lemma job_step_moved:
  assumes "moves (claim_view j) (claim_view j')" and "ej_id j' = ej_id j" and "disciplined j'"
  shows "job_step j j'"
  using assms by (auto simp: job_step_def)

section \<open>Attempts\<close>

lemma encodeAttemptCondition_running:
  "encodeAttemptCondition g c claim t j \<Longrightarrow> ej_id j = ej_id claim \<and> ej_status j = Running
     \<and> ej_claimToken j = ej_claimToken claim \<and> ej_claimToken claim \<noteq> None"
  by (auto simp: encodeAttemptCondition_def column_eq_def)

lemma job_step_finished:
  assumes "disciplined j" and "ej_status j = Running" and "ej_status j' \<in> {Running, Completed, Failed}"
    and "ej_id j' = ej_id j" and "ej_claimToken j' = ej_claimToken j"
    and "ej_partialCleanupClaimToken j' \<in> {None, ej_partialCleanupClaimToken j, ej_claimToken j}"
    and "ej_publicationCompletionPending j' \<longrightarrow> ej_status j' = Completed"
  shows "job_step j j'"
proof -
  from assms(1,2) obtain t where "ej_claimToken j = Some t" by (auto simp: disciplined_def)
  with assms have "moves_on (claim_view j) (claim_view j')"
    by (auto simp: claim_view_def intro: r_into_rtranclp [of moves, OF finished])
  moreover have "disciplined j'" using assms by (auto simp: disciplined_def)
  ultimately show ?thesis using assms(4) by (simp add: job_step_def)
qed

lemma attempt_row_step:
  assumes "disciplined j" and "ej_status j = Running" and "au_status u \<in> {None, Some Completed, Some Failed}"
  shows "job_step j (attempt_row u fo j)" and "job_step j (progress_row u d fo j)"
proof -
  from assms(1,2) have "\<not> ej_publicationCompletionPending j" by (auto simp: disciplined_def)
  with assms show "job_step j (attempt_row u fo j)" and "job_step j (progress_row u d fo j)"
    by (auto intro!: job_step_finished [OF assms(1,2)]
        simp: attempt_row_def progress_row_def set_attempt_def drop_replacement_def given_def Let_def)
qed

lemma updateAttempt_steps:
  assumes "catalog_wf c" and "au_status u \<in> {None, Some Completed, Some Failed}"
    and "updateAttempt_encodeJob g o' d claim u fo c = Inr (r, c')"
  shows "steps c c'"
proof -
  from assms(3) obtain r1 c1 where update: "update_encodeJob
      (\<lambda>j. encodeAttemptCondition g c claim (au_updatedAt u) j
         \<and> (au_status u = Some Completed \<longrightarrow> ej_predecessorEncodeJobId j = None))
      (attempt_row u fo) c = Inr (r1, c1)"
    and rest: "attempt_written claim u fo o' d r1 c1 = Inr (r, c')"
    by (auto simp: updateAttempt_encodeJob_def split: sum.splits)
  have "steps c c1"
    by (rule update_one_steps [OF assms(1) update])
      (auto intro: attempt_row_step(1) [OF _ _ assms(2)] dest: encodeAttemptCondition_running)
  then show ?thesis by (rule steps_jobs) (rule attempt_written_jobs [OF rest])
qed

lemma updateProgressAttempt_steps:
  assumes "catalog_wf c" and "au_status u \<in> {None, Some Completed, Some Failed}"
    and "updateProgressAttempt_encodeJob g o' d claim u details fo c = Inr (r, c')"
  shows "steps c c'"
proof -
  from assms(3) obtain r1 c1 where update: "update_encodeJob
      (encodeAttemptCondition g c claim (au_updatedAt u)) (progress_row u details fo) c = Inr (r1, c1)"
    and rest: "attempt_written claim u fo o' d r1 c1 = Inr (r, c')"
    by (auto simp: updateProgressAttempt_encodeJob_def split: sum.splits)
  have "steps c c1"
    by (rule update_one_steps [OF assms(1) update])
      (auto intro: attempt_row_step(2) [OF _ _ assms(2)] dest: encodeAttemptCondition_running)
  then show ?thesis by (rule steps_jobs) (rule attempt_written_jobs [OF rest])
qed

lemma requeue_row_step:
  assumes "disciplined j" and "encode_job_checks j" and "requeue_condition g c i s j"
    and "s \<in> {Completed, Failed, Cancelled}"
  shows "job_step j (requeue_row s current t options j)"
proof (rule job_step_moved)
  show "disciplined (requeue_row s current t options j)" using assms
    by (auto simp: disciplined_def requeue_row_def requeue_condition_def encode_job_checks_def Let_def)
  show "moves (claim_view j) (claim_view (requeue_row s current t options j))"
    using assms(3,4)
    by (auto simp: claim_view_def requeue_row_def requeue_condition_def Let_def intro: moves.requeued)
qed (simp add: requeue_row_def Let_def)

lemma requeue_encodeJob_cases:
  assumes "requeue_encodeJob g i s current t rec options c = Inr (r, c')"
  obtains (replayed) "c' = c" and "r \<noteq> None"
  | (written) r1 c1 where
      "update_encodeJob (requeue_condition g c i s) (requeue_row s current t options) c = Inr (r1, c1)"
      and "encodeJobs c' = encodeJobs c1" and "r = r1" and "r1 = None \<Longrightarrow> c' = c1"
proof (cases "replayEncodeMutation c (ro_mutationKey options) ''encode_job.requeue''
    (encodeRequeueSemanticInput i options)")
  case (Inr replay)
  show thesis
  proof (cases replay)
    case None
    with assms Inr obtain r1 c1 where update: "update_encodeJob (requeue_condition g c i s)
        (requeue_row s current t options) c = Inr (r1, c1)"
      and rest: "(case r1 of None \<Rightarrow> Inr (None, c1)
        | Some requeued \<Rightarrow> map_sum id (\<lambda>(j, c''). (Some j, c''))
            (saveEncodeMutation (ro_mutationKey options) ''encode_job.requeue''
              (encodeRequeueSemanticInput i options) rec requeued
              (clearCorrectedEncodePublicationAuthority (ej_id requeued) c1))) = Inr (r, c')"
      by (auto simp: requeue_encodeJob_def Let_def split: sum.splits option.splits)
    from rest have "encodeJobs c' = encodeJobs c1 \<and> r = r1 \<and> (r1 = None \<longrightarrow> c' = c1)"
      by (auto simp: map_sum_Inr dest!: saveEncodeMutation_jobs split: option.splits)
    with update show thesis by (intro written [of r1 c1]) auto
  next
    case (Some job)
    with assms Inr show thesis by (intro replayed) (auto simp: requeue_encodeJob_def Let_def)
  qed
qed (use assms in \<open>simp add: requeue_encodeJob_def Let_def\<close>)

lemma requeue_steps:
  assumes "catalog_wf c" and "s \<in> {Completed, Failed, Cancelled}"
    and "requeue_encodeJob g i s current t rec options c = Inr (r, c')"
  shows "steps c c'"
  using assms(3)
proof (cases rule: requeue_encodeJob_cases)
  case replayed
  with assms(1) show ?thesis by (simp add: steps_refl)
next
  case (written r1 c1)
  have "steps c c1"
    by (rule update_one_steps [OF assms(1) written(1)]) (rule requeue_row_step [OF _ _ _ assms(2)])
  then show ?thesis using written(2) by (rule steps_jobs)
qed
section \<open>Cancellations and leases\<close>

lemma update_then_steps:
  assumes "catalog_wf c" and "update_encodeJob P f c = Inr (r, c1)" and "encodeJobs c' = encodeJobs c1"
    and "\<And>j. P j \<Longrightarrow> disciplined j \<Longrightarrow> encode_job_checks j \<Longrightarrow> job_step j (f j)"
  shows "steps c c'"
  by (rule steps_jobs [OF update_one_steps [OF assms(1,2)] assms(3)]) (rule assms(4))

lemma request_cancellation_step:
  assumes "disciplined j" and "ej_status j = ej_status current" and "ej_status j \<in> {Queued, Running}"
  shows "job_step j (request_cancellation_row protects current t j)"
proof (rule job_step_moved)
  show "disciplined (request_cancellation_row protects current t j)" using assms
    by (auto simp: disciplined_def request_cancellation_row_def)
  show "moves (claim_view j) (claim_view (request_cancellation_row protects current t j))"
    using assms by (auto simp: claim_view_def request_cancellation_row_def disciplined_def)
qed (simp add: request_cancellation_row_def)

lemma requestEncodeJobCancellation_update:
  assumes "requestEncodeJobCancellation i t c = Inr (r, c')"
  obtains current protects where "find_encodeJob c i = Some current"
    and "ej_status current \<in> {Queued, Running}"
    and "update_encodeJob (\<lambda>j. ej_id j = i \<and> ej_status j = ej_status current
        \<and> (ej_status current = Running \<longrightarrow> column_eq (ej_claimToken j) (ej_claimToken current)))
      (request_cancellation_row protects current t) c = Inr (Some r, c')"
proof -
  from assms obtain current where current: "find_encodeJob c i = Some current"
    by (auto simp: requestEncodeJobCancellation_def split: option.splits)
  let ?protects = "case predecessorEncodeJob c current of
    None \<Rightarrow> False | Some p \<Rightarrow> ej_outputPath p = ej_outputPath current"
  let ?update = "update_encodeJob (\<lambda>j. ej_id j = i \<and> ej_status j = ej_status current
      \<and> (ej_status current = Running \<longrightarrow> column_eq (ej_claimToken j) (ej_claimToken current)))
    (request_cancellation_row ?protects current t) c"
  note call = assms [unfolded requestEncodeJobCancellation_def current option.case Let_def if_error_Inr]
  then have "ej_status current \<in> {Queued, Running}" by blast
  moreover from call have "?update = Inr (Some r, c')"
    by (cases ?update) (auto split: option.splits prod.splits)
  ultimately show thesis using current that by blast
qed

lemma requestCancellation_steps:
  assumes "catalog_wf c" and "requestCancellation i key t rec c = Inr (r, c')"
  shows "steps c c'"
proof (cases "replayEncodeMutation c key ''encode_job.cancel'' (json_stringify (JObject [(''id'', JString i)]))")
  case (Inr replay)
  show ?thesis
  proof (cases replay)
    case None
    with assms(2) Inr obtain r1 c1 where request: "requestEncodeJobCancellation i t c = Inr (r1, c1)"
      and jobs: "encodeJobs c' = encodeJobs c1"
      by (auto simp: requestCancellation_def Let_def dest!: saveEncodeMutation_jobs split: sum.splits)
    from request obtain current protects where "find_encodeJob c i = Some current"
      and status: "ej_status current \<in> {Queued, Running}"
      and update: "update_encodeJob (\<lambda>j. ej_id j = i \<and> ej_status j = ej_status current
          \<and> (ej_status current = Running \<longrightarrow> column_eq (ej_claimToken j) (ej_claimToken current)))
        (request_cancellation_row protects current t) c = Inr (Some r1, c1)"
      by (rule requestEncodeJobCancellation_update)
    show ?thesis
      by (rule update_then_steps [OF assms(1) update jobs])
        (rule request_cancellation_step, use status in auto)
  next
    case (Some job)
    with assms Inr show ?thesis by (auto simp: requestCancellation_def Let_def intro: steps_refl)
  qed
qed (use assms in \<open>simp add: requestCancellation_def Let_def\<close>)

lemma cancelled_row_step:
  assumes "disciplined j" and "ej_id j = ej_id claim" and "ej_status j = CancellationRequested"
  shows "job_step j (cancelled_row c claim pending t j)"
proof (rule job_step_moved)
  show "disciplined (cancelled_row c claim pending t j)"
    by (simp add: disciplined_def cancelled_row_def)
  show "moves (claim_view j) (claim_view (cancelled_row c claim pending t j))"
    using assms by (auto simp: claim_view_def cancelled_row_def disciplined_def)
qed (simp add: cancelled_row_def)

lemma completeEncodeCancellation_steps:
  assumes "catalog_wf c" and "completeEncodeCancellation claim reports cleanup t d c = Inr (r, c')"
  shows "steps c c'"
proof -
  from assms(2) obtain c1 c2 where
      update: "update_encodeJob (cancellation_condition claim (reports \<noteq> []) cleanup t)
        (cancelled_row c claim (reports \<noteq> []) t) c = Inr (Some r, c1)"
    and append: "appendEncodeJobFailureReports (Some (ej_id r)) (Some reports) t d c1 = Inr c2"
    and "encodeJobs c' = encodeJobs c2"
    by (auto simp: completeEncodeCancellation_def Let_def split: option.splits if_splits sum.splits)
  then have "encodeJobs c' = encodeJobs c1" by (auto dest: appendEncodeJobFailureReports_jobs)
  then show ?thesis
    by (rule update_then_steps [OF assms(1) update])
      (auto simp: cancellation_condition_def intro: cancelled_row_step)
qed

lemma completeCancellationWithReports_steps:
  "catalog_wf c \<Longrightarrow> completeCancellationWithReports claim cleanup inputs t d c = Inr (r, c') \<Longrightarrow> steps c c'"
  by (auto simp: completeCancellationWithReports_def intro: completeEncodeCancellation_steps
      split: if_splits sum.splits)

lemma completeExpiredCancellation_steps:
  assumes "catalog_wf c" and "completeExpiredCancellation claim t c = Inr (r, c')"
  shows "steps c c'"
proof -
  from assms(2) have "update_encodeJob
      (\<lambda>j. ej_id j = ej_id claim \<and> ej_status j = CancellationRequested
         \<and> column_eq (ej_claimToken j) (ej_claimToken claim)
         \<and> ej_updatedAt j \<le> t - ENCODE_JOB_LEASE_DURATION_MS)
      (cancelled_row c claim True t) c = Inr (Some r, c')"
    by (auto simp: completeExpiredCancellation_def split: option.splits sum.splits)
  from update_one_steps [OF assms(1) this] show ?thesis by (auto intro: cancelled_row_step)
qed

lemma touch_step: "disciplined j \<Longrightarrow> job_step j (touch t j)"
  by (rule job_step_unmoved) (simp_all add: touch_def)

lemma renewClaim_steps:
  assumes "catalog_wf c" and "renewClaim claim t c = Inr (r, c')"
  shows "steps c c'"
proof -
  from assms(2) obtain r' where "update_encodeJob
      (\<lambda>j. ej_id j = ej_id claim \<and> ej_status j \<in> {Running, CancellationRequested}
         \<and> column_eq (ej_claimToken j) (ej_claimToken claim)
         \<and> t - ENCODE_JOB_LEASE_DURATION_MS < ej_updatedAt j)
      (touch t) c = Inr (Some r', c')"
    by (auto simp: renewClaim_def map_sum_Inr split: option.splits sum.splits)
  from update_one_steps [OF assms(1) this] show ?thesis by (auto intro: touch_step)
qed

lemma recovered_row_step:
  "disciplined j \<Longrightarrow> ej_status j = Running \<Longrightarrow> job_step j (recovered_row t j)"
  by (rule job_step_finished) (auto simp: recovered_row_def disciplined_def)

lemma recovery_reports_jobs:
  assumes "fold_result (\<lambda>cat (index, j).
      case validateEncodeJobFailureReport (report j) of
        Inl e \<Rightarrow> Inl e
      | Inr report \<Rightarrow> appendEncodeJobFailureReports (Some (ej_id j)) (Some [report]) t (\<lambda>_. d index) cat)
    c rows = Inr c'"
  shows "encodeJobs c' = encodeJobs c"
  by (rule fold_result_invariant [where I = "\<lambda>c'. encodeJobs c' = encodeJobs c", OF _ assms])
    (auto dest!: appendEncodeJobFailureReports_jobs split: sum.splits)

lemma recoverExpiredClaims_steps:
  assumes "catalog_wf c" and "recoverExpiredClaims t d c = Inr (r, c')"
  shows "steps c c'"
proof (cases "expired_ids t c = []")
  case True
  with assms show ?thesis by (simp add: recoverExpiredClaims_def steps_refl)
next
  case False
  with assms(2) obtain c1 where update: "update_encodeJobs
      (\<lambda>j. ej_id j \<in> set (expired_ids t c) \<and> lease_expired_condition t j) (recovered_row t) c = Inr (r, c1)"
    and "encodeJobs c' = encodeJobs c1"
    by (auto simp: recoverExpiredClaims_def Let_def map_sum_Inr dest!: recovery_reports_jobs split: sum.splits)
  have "steps c c1"
    by (rule update_steps [OF assms(1) update]) (auto simp: lease_expired_condition_def intro: recovered_row_step)
  then show ?thesis using \<open>encodeJobs c' = _\<close> by (rule steps_jobs)
qed
section \<open>Publication and cleanup\<close>

lemma registerPartialCleanup_steps:
  assumes "catalog_wf c" and "registerPartialCleanup g claim pending t c = Inr (r, c')"
  shows "steps c c'"
proof -
  from assms(2) obtain updated where update: "update_encodeJob (encodeAttemptCondition g c claim t)
      (register_cleanup_row claim pending t) c = Inr (Some updated, c')"
    by (auto simp: registerPartialCleanup_def split: option.splits sum.splits)
  show ?thesis
    by (rule update_one_steps [OF assms(1) update], rule job_step_finished)
      (auto simp: register_cleanup_row_def disciplined_def dest: encodeAttemptCondition_running)
qed

text \<open>The rows below leave the status and the token alone.\<close>

lemma lease_row_step: "disciplined j \<Longrightarrow> job_step j (lease_row l t j)"
  by (rule job_step_unmoved) (simp_all add: lease_row_def)

lemma revokePublication_steps:
  assumes "catalog_wf c" and "revokePublication claim cleanup t c = Inr (r, c')"
  shows "steps c c'"
proof -
  from assms(2) obtain P r1 where
      update: "update_encodeJob P (\<lambda>j. j\<lparr>ej_publicationPending := False, ej_updatedAt := t\<rparr>) c
        = Inr (r1, c')"
    by (auto simp: revokePublication_def split: option.splits sum.splits if_splits)
  show ?thesis
    by (rule update_one_steps [OF assms(1) update], rule job_step_unmoved) simp_all
qed

lemma claimPartialCleanup_steps:
  assumes "catalog_wf c" and "claimPartialCleanup cleanup l t c = Inr (r, c')"
  shows "steps c c'"
proof -
  from assms(2) obtain P r1 where update: "update_encodeJob P (lease_row l t) c = Inr (r1, c')"
    by (auto simp: claimPartialCleanup_def split: option.splits sum.splits if_splits)
  show ?thesis by (rule update_one_steps [OF assms(1) update], rule lease_row_step)
qed

lemma renewPartialCleanup_steps:
  assumes "catalog_wf c" and "renewPartialCleanup cleanup t c = Inr (r, c')"
  shows "steps c c'"
proof -
  from assms(2) obtain P r1 where update: "update_encodeJob P (touch t) c = Inr (r1, c')"
    by (auto simp: renewPartialCleanup_def split: option.splits sum.splits if_splits)
  show ?thesis by (rule update_one_steps [OF assms(1) update], rule touch_step)
qed

lemma job_step_settled:
  assumes "disciplined j" and "ej_status j \<in> {Completed, Failed}" and "ej_status j' \<in> {Completed, Failed}"
    and "ej_id j' = ej_id j" and "ej_claimToken j' = ej_claimToken j"
    and "ej_partialCleanupClaimToken j' \<in> {None, ej_partialCleanupClaimToken j}"
    and "ej_publicationCompletionPending j' \<longrightarrow> ej_status j' = Completed"
  shows "job_step j j'"
proof (rule job_step_moved)
  show "moves (claim_view j) (claim_view j')"
    unfolding claim_view_def assms(5) by (rule settled) (use assms in auto)
  have "ej_partialCleanupClaimToken j' \<noteq> None \<Longrightarrow> ej_partialCleanupClaimToken j' = ej_claimToken j'"
    using assms(1,2,6) unfolding disciplined_def assms(5) by auto
  with assms(3,7) show "disciplined j'" unfolding disciplined_def by auto
qed (rule assms(4))

lemma complete_cleanup_step:
  assumes "disciplined j"
  shows "job_step j (complete_cleanup_row c j)"
proof (cases "ej_publicationCompletionPending j")
  case True
  with assms have "ej_status j = Completed" by (simp add: disciplined_def)
  with True show ?thesis
    by (intro job_step_settled [OF assms]) (simp_all add: complete_cleanup_row_def)
next
  case False
  then show ?thesis by (intro job_step_unmoved [OF assms]) (simp_all add: complete_cleanup_row_def)
qed

lemma completePartialCleanup_steps:
  assumes "catalog_wf c" and "completePartialCleanup cleanup i t c = Inr (r, c')"
  shows "steps c c'"
proof -
  let ?P = "\<lambda>j. ej_id j = pc_jobId cleanup \<and> cleanup_paths_eq cleanup j \<and> cleanup_lease_eq cleanup j"
  obtain r1 c1 where update: "update_encodeJob ?P (complete_cleanup_row c) c = Inr (r1, c1)"
    using assms(2) by (auto simp: completePartialCleanup_def Let_def split: sum.splits)
  have "encodeJobs c' = encodeJobs c1"
  proof (cases r1)
    case None
    with assms(2) update show ?thesis
      by (auto simp: completePartialCleanup_def Let_def split: option.splits if_splits)
  next
    case (Some updated)
    with assms(2) update show ?thesis
      by (auto simp: completePartialCleanup_def Let_def map_sum_Inr
          dest!: appendEncodeJobFailureReports_jobs split: sum.splits if_splits)
  qed
  then show ?thesis
    by (rule update_then_steps [OF assms(1) update]) (rule complete_cleanup_step)
qed

lemma upsert_publicationAuthority_jobs:
  "upsert_publicationAuthority row c = Inr c' \<Longrightarrow> encodeJobs c' = encodeJobs c"
  by (auto simp: upsert_publicationAuthority_def Let_def split: if_splits)

lemma beginPublicationMutation_steps:
  assumes "catalog_wf c" and "beginPublicationMutation g fs claim cleanup path l t c = Inr (r, c')"
  shows "steps c c'"
proof -
  let ?P = "\<lambda>j. encodeAttemptCondition g c claim t j \<and> cleanup_paths_eq cleanup j
      \<and> ej_publicationPending j \<and> ej_partialCleanupLeaseToken j = None"
  from assms(2) obtain r1 c1 where update: "update_encodeJob ?P (lease_row l t) c = Inr (r1, c1)"
    and "encodeJobs c' = encodeJobs c1"
    by (auto simp: beginPublicationMutation_def Let_def map_sum_Inr
        dest!: upsert_publicationAuthority_jobs split: if_splits option.splits sum.splits prod.splits)
  then show ?thesis
    by (rule update_then_steps [OF assms(1)]) (rule lease_row_step)
qed

lemma recoverExpiredPublicationMutation_steps:
  assumes "catalog_wf c" and "recoverExpiredPublicationMutation cleanup i t d c = Inr (r, c')"
  shows "steps c c'"
proof -
  let ?P = "\<lambda>j. ej_id j = pc_jobId cleanup \<and> ej_status j = Running
      \<and> ej_publicationPending j = pc_publicationPending cleanup
      \<and> cleanup_paths_eq cleanup j \<and> ej_partialCleanupLeaseToken j = pc_leaseToken cleanup
      \<and> ej_updatedAt j \<le> t - ENCODE_JOB_LEASE_DURATION_MS"
  let ?row = "\<lambda>j. j\<lparr>ej_status := Failed, ej_partialCleanupLeaseToken := None,
      ej_errorMessage := Some ''Encode publication mutation was abandoned'', ej_updatedAt := t\<rparr>"
  from assms(2) obtain r1 c1 where update: "update_encodeJob ?P ?row c = Inr (r1, c1)"
    and "encodeJobs c' = encodeJobs c1"
    by (auto simp: recoverExpiredPublicationMutation_def map_sum_Inr
        dest!: appendEncodeJobFailureReports_jobs split: if_splits option.splits sum.splits)
  then show ?thesis
    by (rule update_then_steps [OF assms(1)]) (rule job_step_finished, auto simp: disciplined_def)
qed
text \<open>Operations of several transactions: what each commits is a step.\<close>

lemma committed_steps:
  assumes "catalog_wf c" and "\<And>x c'. transaction = Inr (x, c') \<Longrightarrow> steps c c'"
  shows "steps c (fst (committed c transaction))"
  using assms by (auto simp: committed_def intro: steps_refl split: sum.splits)

lemma then_commit_steps:
  assumes "steps c (fst op)"
    and "\<And>x c1. op = (c1, Inr x) \<Longrightarrow> catalog_wf c1 \<Longrightarrow> steps c1 (fst (k x c1))"
  shows "steps c (fst (then_commit op k))"
proof (cases op)
  case (Pair c1 r)
  show ?thesis
  proof (cases r)
    case (Inr x)
    with Pair assms(1) have "steps c c1" by simp
    moreover have "steps c1 (fst (k x c1))"
      by (rule assms(2)) (use Pair Inr \<open>steps c c1\<close> in \<open>auto intro: steps_wf\<close>)
    ultimately show ?thesis using Pair Inr by (auto simp: then_commit_def intro: steps_trans)
  qed (use Pair assms(1) in \<open>simp add: then_commit_def\<close>)
qed

lemma then_commit_Inr [result_simps]:
  "then_commit op k = (c', Inr x) \<longleftrightarrow> (\<exists>y c1. op = (c1, Inr y) \<and> k y c1 = (c', Inr x))"
  by (cases op) (auto simp: then_commit_def split: sum.splits)

lemma committed_Inr [result_simps]:
  "committed c transaction = (c', Inr x) \<longleftrightarrow> transaction = Inr (x, c')"
  by (auto simp: committed_def split: sum.splits)

lemma require_found_Inr [result_simps]:
  "require_found e updated c = (c', Inr j) \<longleftrightarrow> c' = c \<and> updated = Some j"
  by (auto simp: require_found_def split: option.splits)

lemma fst_require_found [simp]: "fst (require_found e updated c) = c"
  by (simp add: require_found_def)

lemma committed_update_steps:
  assumes "catalog_wf c" and "\<And>j. P j \<Longrightarrow> disciplined j \<Longrightarrow> encode_job_checks j \<Longrightarrow> job_step j (f j)"
  shows "steps c (fst (committed c (update_encodeJob P f c)))"
  by (rule committed_steps [OF assms(1)]) (rule update_one_steps [OF assms(1)], assumption, rule assms(2))

lemma committed_found_steps:
  assumes "catalog_wf c" and "\<And>j. P j \<Longrightarrow> disciplined j \<Longrightarrow> encode_job_checks j \<Longrightarrow> job_step j (f j)"
  shows "steps c (fst (then_commit (committed c (update_encodeJob P f c)) (require_found e)))"
  by (rule then_commit_steps [OF committed_update_steps [OF assms]]) (auto intro: steps_refl)

lemma retainCorrectedEncodeOutput_jobs:
  assumes "retainCorrectedEncodeOutput j p i t c = Inr c'"
  shows "encodeJobs c' = encodeJobs c"
proof (cases "pp_retainedOutputPath p")
  case None
  with assms show ?thesis
    by (auto simp: retainCorrectedEncodeOutput_def Let_def split: if_splits)
next
  case (Some path)
  with assms show ?thesis
    by (auto simp: retainCorrectedEncodeOutput_def Let_def
        split: sum.splits option.splits if_splits)
qed

lemma finalized_row_step:
  assumes "disciplined j"
  shows "job_step j (finalized_row p v replayed t j)"
  by (rule job_step_unmoved [OF assms]) (simp_all add: finalized_row_def Let_def)

lemma finalizePublishedEncodeJob_steps:
  assumes "catalog_wf c" and "finalizePublishedEncodeJob P p name i replayed d t c = Inr (r, c')"
  shows "steps c c'"
proof -
  from assms(2) obtain current v c1 where retain: "retainCorrectedEncodeOutput current p d t c = Inr c1"
    and update: "update_encodeJob P (finalized_row p v replayed t) c1 = Inr (r, c')"
    by (auto simp: finalizePublishedEncodeJob_def Let_def split: option.splits sum.splits if_splits)
  have "steps c c1" by (rule steps_same [OF assms(1) retainCorrectedEncodeOutput_jobs [OF retain]])
  also have "steps c1 c'"
    by (rule update_one_steps [OF steps_wf [OF \<open>steps c c1\<close>] update]) (rule finalized_row_step)
  finally (steps_trans) show ?thesis .
qed

lemma committed_finalize_steps:
  "catalog_wf c \<Longrightarrow>
     steps c (fst (then_commit
       (committed c (finalizePublishedEncodeJob P p name i replayed d t c)) (require_found e)))"
  by (rule then_commit_steps [OF committed_steps])
    (auto intro: steps_refl finalizePublishedEncodeJob_steps)

lemma completion_pending_step:
  assumes "disciplined j" and "ej_status j \<in> {Running, Completed, Failed}"
  shows "job_step j (completion_pending_row t j)"
proof (cases "ej_status j = Running")
  case True
  then show ?thesis
    by (intro job_step_finished [OF assms(1)]) (simp_all add: completion_pending_row_def)
next
  case False
  with assms(2) show ?thesis
    by (intro job_step_settled [OF assms(1)]) (auto simp: completion_pending_row_def)
qed

text \<open>A pending completion that is undone: the row is running again, or has its earlier status.\<close>

lemma job_step_resumed:
  assumes "disciplined j" and "encode_job_checks j" and "ej_status j = Completed"
    and "ej_publicationPending j"
    and "ej_status j' = Running" and "ej_id j' = ej_id j" and "ej_claimToken j' = ej_claimToken j"
    and "ej_partialCleanupClaimToken j' = ej_partialCleanupClaimToken j"
    and "\<not> ej_publicationCompletionPending j'"
  shows "job_step j j'"
proof -
  from assms(1-4) obtain token where token: "ej_claimToken j = Some token"
    by (auto simp: disciplined_def encode_job_checks_def)
  then have "ej_partialCleanupClaimToken j' \<noteq> None \<Longrightarrow> ej_partialCleanupClaimToken j' = Some token"
    using assms(1,3) unfolding assms(8) disciplined_def by auto
  then have "disciplined j'" using assms(5,7,9) token unfolding disciplined_def by auto
  moreover have "moves (claim_view j) (claim_view j')"
    unfolding claim_view_def assms(3,5,7) token by (rule resumed)
  ultimately show ?thesis using assms(6) by (intro job_step_moved)
qed

lemmas commit_steps = then_commit_steps committed_found_steps committed_update_steps
  committed_finalize_steps

lemma resumed_row_step:
  assumes "disciplined j" and "encode_job_checks j" and "completion_condition cleanup j"
  shows "job_step j (j\<lparr>ej_status := Running, ej_publicationCompletionPending := False,
    ej_completedAt := done_at, ej_updatedAt := t\<rparr>)"
  by (rule job_step_resumed [OF assms(1,2)]) (use assms(3) in \<open>simp_all add: completion_condition_def\<close>)

lemma interrupted_row_step:
  assumes "disciplined j" and "completion_condition cleanup j"
  shows "job_step j (j\<lparr>ej_status := Failed, ej_publicationCompletionPending := False,
    ej_completedAt := done_at, ej_errorMessage := message, ej_updatedAt := t\<rparr>)"
  by (rule job_step_settled [OF assms(1)]) (use assms(2) in \<open>simp_all add: completion_condition_def\<close>)

lemma completePublishedMutation_steps:
  assumes "catalog_wf c"
  shows "steps c (fst (completePublishedMutation cleanup before after p d t1 t2 c))"
  using assms unfolding completePublishedMutation_def Let_def
  by (auto intro!: commit_steps steps_refl completion_pending_step resumed_row_step)

text \<open>What \<open>own_published_partial\<close> returns is a job that has failed or is completed.\<close>

lemma own_published_partial_steps:
  assumes "catalog_wf c"
  shows "steps c (fst (own_published_partial cleanup l t c))"
  using assms unfolding own_published_partial_def
  by (auto intro!: commit_steps steps_refl lease_row_step)

lemma own_published_partial_owned:
  assumes "catalog_wf c" and "own_published_partial cleanup l t c = (c', Inr owned)"
  shows "ej_status owned \<in> {Completed, Failed}
     \<and> (ej_publicationCompletionPending owned \<longrightarrow> ej_status owned = Completed)"
proof -
  from assms(2) have "update_encodeJob (published_partial_condition cleanup)
      (lease_row (given (pc_leaseToken cleanup) l) t) c = Inr (Some owned, c')"
    by (auto simp: own_published_partial_def then_commit_Inr committed_Inr require_found_Inr
        split: if_splits)
  then obtain j where "j \<in> set (encodeJobs c)" "published_partial_condition cleanup j"
    "owned = lease_row (given (pc_leaseToken cleanup) l) t j"
    by (rule update_returned)
  with catalog_wf_disciplined [OF assms(1)] show ?thesis
    by (auto simp: published_partial_condition_def lease_row_def disciplined_def)
qed

lemma renewPublishedPartial_steps:
  "catalog_wf c \<Longrightarrow> steps c (fst (renewPublishedPartial cleanup m l t c))"
  unfolding renewPublishedPartial_def
  by (auto intro!: then_commit_steps own_published_partial_steps steps_refl)

lemma restored_row_step:
  assumes "disciplined j" and "ej_status j = Completed" and "ej_status owned \<in> {Completed, Failed}"
    and "ej_publicationCompletionPending owned \<longrightarrow> ej_status owned = Completed"
  shows "job_step j (restored_row owned t j)"
  by (rule job_step_settled [OF assms(1)]) (use assms(2-) in \<open>auto simp: restored_row_def\<close>)

lemma completePublishedPartial_steps:
  assumes "catalog_wf c"
  shows "steps c (fst (completePublishedPartial cleanup before after p l d t1 t2 t3 c))"
  unfolding completePublishedPartial_def Let_def
proof (rule then_commit_steps [OF own_published_partial_steps [OF assms]], goal_cases)
  case (1 owned c1)
  note owned = own_published_partial_owned [OF assms 1(1)]
  let ?leased = "cleanup\<lparr>pc_leaseToken := Some (given (pc_leaseToken cleanup) l)\<rparr>"
  have restore: "steps c2 (fst (then_commit (committed c2 (update_encodeJob (completion_condition ?leased)
      (restored_row owned t) c2)) (require_found e)))" if "catalog_wf c2" for c2 t e
    using that by (rule committed_found_steps)
      (rule restored_row_step, use owned in \<open>simp_all add: completion_condition_def\<close>)
  have restored: "steps c2 (fst (then_commit
      (then_commit (committed c2 (update_encodeJob (completion_condition ?leased) (restored_row owned t) c2))
        (require_found e)) (\<lambda>_ c3. (c3, Inl e'))))" if "catalog_wf c2" for c2 t e e'
    by (rule then_commit_steps [OF restore [OF that]]) (auto intro: steps_refl)
  have finish: "steps c2 (fst (case finalizePublishedEncodeJob (completion_condition ?leased) p
        name i replayed d t c2 of
      Inr (Some finalized, c3) \<Rightarrow> (c3, Inr (?leased, finalized))
    | Inr (None, c3) \<Rightarrow> (c3, Inl e)
    | Inl e \<Rightarrow>
        if replayed \<noteq> None
        then then_commit
          (then_commit (committed c2 (update_encodeJob (completion_condition ?leased)
            (restored_row owned t') c2)) (require_found e''))
          (\<lambda>_ c3. (c3, Inl e))
        else (c2, Inl e)))" if "catalog_wf c2" for c2 name i replayed t t' e e''
    using finalizePublishedEncodeJob_steps [OF that, of "completion_condition ?leased"] restored [OF that]
    by (auto intro: steps_refl that split: sum.split option.split)
  show ?case
  proof (cases before)
    case True
    then have not: "\<not> \<not> before" by simp
    have complete: "steps c1 (fst (then_commit (committed c1 (update_encodeJob (published_partial_condition ?leased)
        (completion_pending_row t1) c1)) (require_found e)))" for e
      using 1(2) by (rule committed_found_steps)
        (auto simp: published_partial_condition_def intro: completion_pending_step)
    show ?thesis unfolding if_not_P [OF not]
      by (rule then_commit_steps [OF complete]) (auto intro: restored finish)
  qed (use 1(2) in \<open>simp add: steps_refl\<close>)
qed

lemma published_claim_running:
  "published_claim_condition g c claim cleanup t j \<Longrightarrow> ej_status j = Running"
  by (auto simp: published_claim_condition_def encodeAttemptCondition_def split: if_splits)

lemma owned_claim_steps:
  assumes "catalog_wf c"
    and "(case update_encodeJob (published_claim_condition g c claim cleanup t) (touch t) c of
        Inl e \<Rightarrow> Inl e
      | Inr (owned, c1) \<Rightarrow>
          if owned = None \<or> \<not> before then Inl stale
          else
            (case update_encodeJob (published_claim_condition g c1 claim cleanup t)
                    (completion_pending_row t) c1 of
               Inl e \<Rightarrow> Inl e
             | Inr (None, c2) \<Rightarrow> Inl stale
             | Inr (Some updated, c2) \<Rightarrow> Inr (updated, c2))) = Inr (r, c')"
  shows "steps c c'"
proof -
  from assms(2) obtain owned c1 where
      touched: "update_encodeJob (published_claim_condition g c claim cleanup t) (touch t) c
        = Inr (owned, c1)"
    and completed: "update_encodeJob (published_claim_condition g c1 claim cleanup t)
        (completion_pending_row t) c1 = Inr (Some r, c')"
    by (auto split: sum.splits if_splits option.splits)
  have "steps c c1" by (rule update_one_steps [OF assms(1) touched]) (rule touch_step)
  also have "steps c1 c'"
    by (rule update_one_steps [OF steps_wf [OF \<open>steps c c1\<close>] completed])
      (auto intro: completion_pending_step dest: published_claim_running)
  finally (steps_trans) show ?thesis .
qed

lemma completePublishedClaim_steps:
  assumes "catalog_wf c"
  shows "steps c (fst (completePublishedClaim g claim cleanup before after p d t1 t2 c))"
proof (cases "pc_publicationPending cleanup")
  case True
  then have pending: "\<not> \<not> pc_publicationPending cleanup" by simp
  show ?thesis
    unfolding completePublishedClaim_def Let_def if_not_P [OF pending]
  proof (rule then_commit_steps, goal_cases)
    case 1
    show ?case by (rule committed_steps [OF assms], rule owned_claim_steps [OF assms])
  next
    case (2 x c2)
    then show ?case by (auto intro!: commit_steps steps_refl intro: interrupted_row_step)
  qed
qed (use assms in \<open>simp add: completePublishedClaim_def Let_def steps_refl\<close>)

section \<open>Claims\<close>

text \<open>A claim gives one queued job a token; no other job is touched.\<close>

definition claims :: "string \<Rightarrow> encode_catalog \<Rightarrow> encode_catalog \<Rightarrow> bool" where
  "claims token c c' \<longleftrightarrow> catalog_wf c' \<and>
     (\<exists>j claim. j \<in> set (encodeJobs c) \<and> ej_id claim = ej_id j
        \<and> claim_view j = (Queued, None) \<and> claim_view claim = (Running, Some token)
        \<and> encodeJobs c' = map (\<lambda>k. if ej_id k = ej_id j then claim else k) (encodeJobs c))"

lemma find_encodeJob_replaced:
  assumes "encodeJobs c' = map (\<lambda>k. if ej_id k = ej_id j then j else k) (encodeJobs c)"
    and "k \<in> set (encodeJobs c)" and "ej_id k = ej_id j"
  shows "find_encodeJob c' (ej_id j) = Some j"
    and "i \<noteq> ej_id j \<Longrightarrow> find_encodeJob c' i = find_encodeJob c i"
proof -
  have "x \<in> set xs \<Longrightarrow> ej_id x = ej_id j \<Longrightarrow>
      find (\<lambda>y. ej_id y = ej_id j) (map (\<lambda>k. if ej_id k = ej_id j then j else k) xs) = Some j" for x xs
    by (induction xs) auto
  with assms show "find_encodeJob c' (ej_id j) = Some j" by (simp add: find_encodeJob_def)
  have "i \<noteq> ej_id j \<Longrightarrow> find (\<lambda>y. ej_id y = i) (map (\<lambda>k. if ej_id k = ej_id j then j else k) xs)
      = find (\<lambda>y. ej_id y = i) xs" for xs
    by (induction xs) auto
  with assms(1) show "i \<noteq> ej_id j \<Longrightarrow> find_encodeJob c' i = find_encodeJob c i"
    by (simp add: find_encodeJob_def)
qed

lemma claim_encodeJob_wf:
  assumes "catalog_wf c" and "claim_encodeJob g w token t options c = Inr (r, c')"
  shows "catalog_wf c'"
proof (cases "next_claimable g c options")
  case None
  with assms show ?thesis by (auto simp: claim_idle)
next
  case (Some j)
  with assms(2) obtain c1 changed where
      update: "update_encodeJobs (claim_condition g c j) (claim_row c j w token t) c = Inr (changed, c1)"
    and jobs: "encodeJobs c' = encodeJobs c1"
    by (rule claim_update) (auto simp: update_encodeJob_Inr)
  have "catalog_wf c1"
    by (rule update_wf [OF assms(1) update])
      (auto simp: claim_condition_def disciplined_def claim_row_def)
  then show ?thesis using catalog_wf_jobs [OF jobs] by blast
qed

lemma claim_encodeJob_claims:
  assumes wf: "catalog_wf c" and call: "claim_encodeJob g w token t options c = Inr (r, c')"
  shows "case r of None \<Rightarrow> c' = c
    | Some claim \<Rightarrow> claims token c c' \<and> claim_view claim = (Running, Some token)
        \<and> find_encodeJob c' (ej_id claim) = Some claim
        \<and> (\<forall>i. i \<noteq> ej_id claim \<longrightarrow> find_encodeJob c' i = find_encodeJob c i)"
proof (cases "next_claimable g c options")
  case None
  with call show ?thesis by (auto simp: claim_idle)
next
  case (Some j)
  note j = next_claimable_Some(1) [OF Some]
  have queued: "claim_view j = (Queued, None)"
    using next_claimable_Some(2) [OF Some] catalog_wf_disciplined [OF wf j]
    by (simp add: claimable_def claim_view_def disciplined_def)
  from catalog_wf_unique_ids [OF wf] call Some obtain claim where r: "r = Some claim"
    and claim: "claim = claim_row c j w token t j"
    and "encodeJobs c' = map (\<lambda>k. if ej_id k = ej_id j then claim else k) (encodeJobs c)"
    by (rule claim_queued)
  moreover have id: "ej_id claim = ej_id j" and view: "claim_view claim = (Running, Some token)"
    by (simp_all add: claim claim_row_def claim_view_def)
  ultimately have jobs: "encodeJobs c' = map (\<lambda>k. if ej_id k = ej_id claim then claim else k) (encodeJobs c)"
    by simp
  have "claims token c c'" unfolding claims_def
    using claim_encodeJob_wf [OF wf call] j id queued view jobs by auto
  with r view find_encodeJob_replaced [OF jobs j id [symmetric]] show ?thesis by simp
qed

end
