(* ===== verification/JobQueue.thy ===== *)
theory JobQueue
  imports EncodeJobs
begin

text \<open>
  The job queue controller, \<open>packages/data-access/src/internal/job-queue.ts\<close>: claims, progress
  that is written at most once per second unless it moved by five points, and the three ways an
  attempt ends.  The controller works on an adapter; its laws are the locale \<open>attempt_store\<close>, and
  \<open>encodeJobAdapter\<close> of \<open>internal/create-data-access.ts\<close> is shown to meet them.

  A call of the controller returns its new state also when it throws: the catalog is then as the
  adapter left it, but what the controller remembers of the progress may have changed.
\<close>

section \<open>The adapter\<close>

text \<open>What the controller reads of a job (\<open>JobRecord\<close>).\<close>

record job_record =
  jr_id :: string
  jr_status :: encode_job_status
  jr_progressPercent :: int
  jr_claimToken :: "string option"

text \<open>
  \<open>JobQueueAdapter\<close>.  The optional methods are options; a method that writes is a transaction on
  the catalog.  The type \<open>RequeueUpdate\<close> fixes every property but \<open>updatedAt\<close>, which is the
  integer passed to \<open>requeue\<close>.
\<close>

record ('job, 'cat, 'completion, 'requeue, 'claim, 'details, 'failure) job_queue_adapter =
  jq_recordType :: string
  jq_view :: "'job \<Rightarrow> job_record"
  jq_find :: "'cat \<Rightarrow> string \<Rightarrow> 'job option"
  jq_claim :: "string \<Rightarrow> string \<Rightarrow> int \<Rightarrow> 'claim option \<Rightarrow> 'cat \<Rightarrow> ('job option \<times> 'cat) result"
  jq_updateAttempt :: "'job \<Rightarrow> attempt_update \<Rightarrow> 'completion option \<Rightarrow> 'failure option \<Rightarrow> 'cat
    \<Rightarrow> ('job option \<times> 'cat) result"
  jq_updateProgressAttempt :: "('job \<Rightarrow> attempt_update \<Rightarrow> 'details \<Rightarrow> 'failure option \<Rightarrow> 'cat
    \<Rightarrow> ('job option \<times> 'cat) result) option"
  jq_progressDetailsChanged :: "('details option \<Rightarrow> 'details option \<Rightarrow> bool) option"
  jq_isAttemptCurrent :: "('job \<Rightarrow> 'job \<Rightarrow> int \<Rightarrow> bool) option"
  jq_requeue :: "string \<Rightarrow> encode_job_status \<Rightarrow> 'job \<Rightarrow> int \<Rightarrow> 'requeue option \<Rightarrow> 'cat
    \<Rightarrow> ('job option \<times> 'cat) result"

record 'details progress_entry =
  pe_token :: "string option"
  pe_latest :: int
  pe_lastPersisted :: int
  pe_lastPersistedAt :: int
  pe_latestDetails :: "'details option"
  pe_lastPersistedDetails :: "'details option"

record ('cat, 'details) job_queue =
  queue_catalog :: 'cat
  queue_progress :: "string \<Rightarrow> 'details progress_entry option"

section \<open>The controller\<close>

definition PROGRESS_WRITE_INTERVAL_MS :: int where
  "PROGRESS_WRITE_INTERVAL_MS = 1000"

definition PROGRESS_WRITE_DELTA :: int where
  "PROGRESS_WRITE_DELTA = 5"

fun requireProgress :: "js_double \<Rightarrow> int result" where
  "requireProgress (Finite q) =
     (if of_int \<lfloor>q\<rfloor> \<noteq> q \<or> q < 0 \<or> 100 < q
      then Inl (DomainInvariantError ''progressPercent must be an integer between 0 and 100'')
      else Inr \<lfloor>q\<rfloor>)"
| "requireProgress NonFinite =
     Inl (DomainInvariantError ''progressPercent must be an integer between 0 and 100'')"

definition view_id where "view_id A j = jr_id (jq_view A j)"
definition view_status where "view_status A j = jr_status (jq_view A j)"
definition view_token where "view_token A j = jr_claimToken (jq_view A j)"
definition view_progress where "view_progress A j = jr_progressPercent (jq_view A j)"

definition requireRecord where
  "requireRecord A c jobId =
    (case jq_find A c jobId of
       None \<Rightarrow> Inl (RecordNotFoundError (jq_recordType A) jobId) | Some j \<Rightarrow> Inr j)"

definition stale_attempt where
  "stale_attempt A claim = StaleJobAttemptError (jq_recordType A) (view_id A claim)"

definition requireActiveAttempt where
  "requireActiveAttempt A c claim timestamp =
    (case requireRecord A c (view_id A claim) of
       Inl e \<Rightarrow> Inl e
     | Inr current \<Rightarrow>
         if view_status A current \<noteq> Running \<or> view_token A current \<noteq> view_token A claim
            \<or> (case jq_isAttemptCurrent A of None \<Rightarrow> False | Some f \<Rightarrow> \<not> f current claim timestamp)
         then Inl (stale_attempt A claim) else Inr current)"

definition requireAttemptUpdate where
  "requireAttemptUpdate A claim u completion progressDetails failureOptions c =
    (case (case (progressDetails, jq_updateProgressAttempt A) of
             (Some details, Some f) \<Rightarrow> f claim u details failureOptions c
           | _ \<Rightarrow> jq_updateAttempt A claim u completion failureOptions c) of
       Inl e \<Rightarrow> Inl e
     | Inr (None, c') \<Rightarrow> Inl (stale_attempt A claim)
     | Inr (Some updated, c') \<Rightarrow> Inr (updated, c'))"

definition progress_update :: "int \<Rightarrow> int \<Rightarrow> attempt_update" where
  "progress_update percent timestamp = \<lparr>au_status = None, au_progressPercent = Some percent,
     au_completedAt = None, au_errorMessage = None, au_updatedAt = timestamp\<rparr>"

text \<open>\<open>claimNext\<close>; \<open>token\<close> is what \<open>createToken\<close> draws.\<close>

definition claimNext where
  "claimNext A workerId token timestamp options q =
    (case requireNonEmpty workerId ''workerId'' of
       Inl e \<Rightarrow> (q, Inl e)
     | Inr worker \<Rightarrow>
       (case jq_claim A worker token timestamp options (queue_catalog q) of
          Inl e \<Rightarrow> (q, Inl e)
        | Inr (None, c) \<Rightarrow> (q\<lparr>queue_catalog := c\<rparr>, Inr None)
        | Inr (Some claim, c) \<Rightarrow>
            (q\<lparr>queue_catalog := c,
               queue_progress := (queue_progress q)(view_id A claim := None)\<rparr>, Inr (Some claim))))"

text \<open>\<open>updateProgress\<close>; \<open>t1\<close> and \<open>t2\<close> are its two readings of the clock.\<close>

definition progress_due where
  "progress_due A requested timestamp details entry \<longleftrightarrow>
     PROGRESS_WRITE_DELTA \<le> \<bar>requested - pe_lastPersisted entry\<bar>
   \<or> PROGRESS_WRITE_INTERVAL_MS \<le> timestamp - pe_lastPersistedAt entry
   \<or> (case jq_progressDetailsChanged A of None \<Rightarrow> False
      | Some f \<Rightarrow> f details (pe_lastPersistedDetails entry))"

text \<open>A progress that is persisted at once, and remembered as such.\<close>

definition write_progress where
  "write_progress A claim requested details timestamp q =
    (case requireAttemptUpdate A claim (progress_update requested timestamp) None details None
            (queue_catalog q) of
       Inl e \<Rightarrow> (q, Inl e)
     | Inr (updated, c) \<Rightarrow>
         (q\<lparr>queue_catalog := c,
            queue_progress := (queue_progress q)(view_id A claim \<mapsto>
              \<lparr>pe_token = view_token A claim, pe_latest = requested, pe_lastPersisted = requested,
               pe_lastPersistedAt = timestamp, pe_latestDetails = details,
               pe_lastPersistedDetails = details\<rparr>)\<rparr>, Inr updated))"

text \<open>
  The first report of an attempt is written; a later one is noted, and written when it is due.
  When such a write throws, what was noted stays.
\<close>

definition updateProgress where
  "updateProgress A claim progressPercent details t1 t2 q =
    (case requireProgress progressPercent of
       Inl e \<Rightarrow> (q, Inl e)
     | Inr requested \<Rightarrow>
       (case requireActiveAttempt A (queue_catalog q) claim t1 of
          Inl e \<Rightarrow> (q, Inl e)
        | Inr current \<Rightarrow>
          (case queue_progress q (view_id A claim) of
             None \<Rightarrow> write_progress A claim requested details t2 q
           | Some entry \<Rightarrow>
               if pe_token entry \<noteq> view_token A claim
               then write_progress A claim requested details t2 q
               else
                 let noted = q\<lparr>queue_progress := (queue_progress q)(view_id A claim \<mapsto>
                       entry\<lparr>pe_latest := requested, pe_latestDetails := details\<rparr>)\<rparr> in
                 if progress_due A requested t2 details entry
                 then write_progress A claim requested details t2 noted
                 else (noted, Inr current))))"

text \<open>\<open>complete\<close>, \<open>fail\<close> and \<open>requeue\<close>.\<close>

definition forget_progress where
  "forget_progress i c q = q\<lparr>queue_catalog := c, queue_progress := (queue_progress q)(i := None)\<rparr>"

definition complete where
  "complete A claim completion t1 t2 q =
    (case requireActiveAttempt A (queue_catalog q) claim t1 of
       Inl e \<Rightarrow> (q, Inl e)
     | Inr current \<Rightarrow>
       (case requireAttemptUpdate A claim
               \<lparr>au_status = Some Completed, au_progressPercent = Some 100,
                au_completedAt = Some (Some t2), au_errorMessage = Some None, au_updatedAt = t2\<rparr>
               (Some completion) None None (queue_catalog q) of
          Inl e \<Rightarrow> (q, Inl e)
        | Inr (completed, c) \<Rightarrow> (forget_progress (view_id A claim) c q, Inr completed)))"

definition fail where
  "fail A claim errorMessage options t1 t2 q =
    (case requireActiveAttempt A (queue_catalog q) claim t1 of
       Inl e \<Rightarrow> (q, Inl e)
     | Inr current \<Rightarrow>
       let pending = queue_progress q (view_id A claim) in
       (case requireNonEmpty errorMessage ''errorMessage'' of
          Inl e \<Rightarrow> (q, Inl e)
        | Inr message \<Rightarrow>
          (case requireAttemptUpdate A claim
                  \<lparr>au_status = Some Failed,
                   au_progressPercent = Some (case pending of
                     None \<Rightarrow> view_progress A current | Some entry \<Rightarrow> pe_latest entry),
                   au_completedAt = None, au_errorMessage = Some (Some message),
                   au_updatedAt = t2\<rparr>
                  None (Option.bind pending pe_latestDetails) options (queue_catalog q) of
             Inl e \<Rightarrow> (q, Inl e)
           | Inr (failed, c) \<Rightarrow> (forget_progress (view_id A claim) c q, Inr failed))))"

definition requeue where
  "requeue A requeueFrom jobId options timestamp q =
    (case requireRecord A (queue_catalog q) jobId of
       Inl e \<Rightarrow> (q, Inl e)
     | Inr current \<Rightarrow>
       let invalid = InvalidStatusTransitionError (jq_recordType A)
             (status_text (view_status A current)) ''queued'' in
       if view_status A current \<notin> set requeueFrom then (q, Inl invalid)
       else
         (case jq_requeue A jobId (view_status A current) current timestamp options
                 (queue_catalog q) of
            Inl e \<Rightarrow> (q, Inl e)
          | Inr (None, c) \<Rightarrow> (q\<lparr>queue_catalog := c\<rparr>, Inl invalid)
          | Inr (Some requeued, c) \<Rightarrow> (forget_progress jobId c q, Inr requeued)))"

section \<open>What the controller relies on\<close>

text \<open>
  The laws of an adapter, over the catalogs that satisfy its invariant \<open>inv\<close>.  A claim returns a
  running job that bears the new token; an update of an attempt applies to the row only while
  that row is running under the claim's token, and writes what it was told; a requeue returns a
  stored outcome without writing, or puts the row it names back in the queue.  No operation
  touches another job, and none that returns nothing changes anything.
\<close>

definition only_changed where
  "only_changed A i c c' \<longleftrightarrow> (\<forall>k. k \<noteq> i \<longrightarrow> jq_find A c' k = jq_find A c k)"

definition attempt_applied where
  "attempt_applied A claim u c updated c' \<longleftrightarrow>
    (\<exists>current. jq_find A c (view_id A claim) = Some current
       \<and> view_status A current = Running \<and> view_token A current = view_token A claim
       \<and> view_status A updated = given (au_status u) Running
       \<and> view_token A updated = view_token A claim
       \<and> view_progress A updated = given (au_progressPercent u) (view_progress A current)
       \<and> jq_find A c' (view_id A claim) = Some updated
       \<and> only_changed A (view_id A claim) c c')"

text \<open>What the controller remembers of a running attempt's progress is what the catalog has.\<close>

definition remembers where
  "remembers A valid q \<longleftrightarrow> valid (queue_catalog q)
     \<and> (\<forall>i entry job. queue_progress q i = Some entry \<longrightarrow> jq_find A (queue_catalog q) i = Some job
          \<longrightarrow> view_status A job = Running \<longrightarrow> view_token A job = pe_token entry
          \<longrightarrow> view_progress A job = pe_lastPersisted entry)"

text \<open>
  A report of progress that was accepted is remembered, and the row is less than five points and
  less than a second behind it.
\<close>

definition progress_kept where
  "progress_kept A q claim requested t job \<longleftrightarrow>
     (\<exists>entry. queue_progress q (view_id A claim) = Some entry
        \<and> pe_token entry = view_token A claim \<and> pe_latest entry = requested
        \<and> view_progress A job = pe_lastPersisted entry
        \<and> \<bar>requested - view_progress A job\<bar> < PROGRESS_WRITE_DELTA
        \<and> t - pe_lastPersistedAt entry < PROGRESS_WRITE_INTERVAL_MS)
   \<and> jq_find A (queue_catalog q) (view_id A claim) = Some job
   \<and> view_status A job = Running \<and> view_token A job = view_token A claim"

locale attempt_store =
  fixes A :: "('job, 'cat, 'completion, 'requeue, 'claim, 'details, 'failure) job_queue_adapter"
    and inv :: "'cat \<Rightarrow> bool"
  assumes find_id: "inv c \<Longrightarrow> jq_find A c i = Some j \<Longrightarrow> view_id A j = i"
    and claimed: "inv c \<Longrightarrow> jq_claim A worker token t options c = Inr (Some claim, c') \<Longrightarrow>
      inv c' \<and> view_status A claim = Running \<and> view_token A claim = Some token
      \<and> jq_find A c' (view_id A claim) = Some claim \<and> only_changed A (view_id A claim) c c'"
    and not_claimed: "inv c \<Longrightarrow> jq_claim A worker token t options c = Inr (None, c') \<Longrightarrow> c' = c"
    and updated: "inv c \<Longrightarrow> au_status u \<in> {None, Some Completed, Some Failed} \<Longrightarrow>
      jq_updateAttempt A claim u completion failure c = Inr (Some job, c') \<Longrightarrow>
      inv c' \<and> attempt_applied A claim u c job c'"
    and updated_progress: "inv c \<Longrightarrow> au_status u \<in> {None, Some Completed, Some Failed} \<Longrightarrow>
      jq_updateProgressAttempt A = Some f \<Longrightarrow> f claim u details failure c = Inr (Some job, c') \<Longrightarrow>
      inv c' \<and> attempt_applied A claim u c job c'"
    and requeued: "inv c \<Longrightarrow> jq_find A c i = Some current \<Longrightarrow> view_status A current \<noteq> Running \<Longrightarrow>
      jq_requeue A i (view_status A current) current t requeue_options c = Inr (Some job, c') \<Longrightarrow>
      c' = c \<or> (inv c' \<and> view_status A job = Queued \<and> view_token A job = None
        \<and> jq_find A c' i = Some job \<and> only_changed A i c c')"
    and not_requeued: "inv c \<Longrightarrow>
      jq_requeue A i status current t requeue_options c = Inr (None, c') \<Longrightarrow> c' = c"
begin

lemma requireActiveAttempt_Inr:
  "requireActiveAttempt A c claim t = Inr current \<Longrightarrow>
     jq_find A c (view_id A claim) = Some current \<and> view_status A current = Running
     \<and> view_token A current = view_token A claim"
  by (auto simp: requireActiveAttempt_def requireRecord_def split: option.splits if_splits)

lemma requireAttemptUpdate_Inr:
  assumes "inv c" and "au_status u \<in> {None, Some Completed, Some Failed}"
    and "requireAttemptUpdate A claim u completion details failure c = Inr (job, c')"
  shows "inv c' \<and> attempt_applied A claim u c job c'"
proof -
  from assms(3) have
    "(case (details, jq_updateProgressAttempt A) of
        (Some d, Some f) \<Rightarrow> f claim u d failure c
      | _ \<Rightarrow> jq_updateAttempt A claim u completion failure c) = Inr (Some job, c')"
    unfolding requireAttemptUpdate_def by (auto split: sum.splits option.splits prod.splits)
  then show ?thesis
    using updated [OF assms(1,2)] updated_progress [OF assms(1,2)]
    by (cases details; cases "jq_updateProgressAttempt A") simp_all
qed

lemma remembers_forget:
  assumes "remembers A inv q" and "inv c" and "only_changed A i (queue_catalog q) c"
  shows "remembers A inv (forget_progress i c q)"
  using assms by (auto simp: remembers_def forget_progress_def only_changed_def)

lemma remembers_persisted:
  assumes "remembers A inv q" and "inv c" and "only_changed A i (queue_catalog q) c"
    and "jq_find A c i = Some job" and "view_progress A job = pe_lastPersisted entry"
    and "\<And>k. k \<noteq> i \<Longrightarrow> progress k = queue_progress q k" and "progress i = Some entry"
  shows "remembers A inv (q\<lparr>queue_catalog := c, queue_progress := progress\<rparr>)"
  unfolding remembers_def using assms
  by (auto simp: remembers_def only_changed_def) (metis (no_types, lifting) option.inject)

lemma claimNext_remembers:
  assumes "remembers A inv q" and call: "claimNext A worker token t options q = (q', r)"
  shows "remembers A inv q'"
proof (cases "requireNonEmpty worker ''workerId''")
  case (Inr w)
  have inv: "inv (queue_catalog q)" using assms(1) by (simp add: remembers_def)
  show ?thesis
  proof (cases "jq_claim A w token t options (queue_catalog q)")
    case (Inr result)
    obtain taken c where result: "result = (taken, c)" by (rule prod.exhaust)
    show ?thesis
    proof (cases taken)
      case None
      with Inr result not_claimed [OF inv, of w token t options c] call \<open>requireNonEmpty _ _ = _\<close>
      show ?thesis using assms(1) by (auto simp: claimNext_def)
    next
      case (Some claim)
      with Inr result claimed [OF inv, of w token t options claim c] call \<open>requireNonEmpty _ _ = _\<close>
      show ?thesis using remembers_forget [OF assms(1)]
        by (auto simp: claimNext_def forget_progress_def)
    qed
  qed (use call \<open>requireNonEmpty _ _ = _\<close> assms(1) in \<open>auto simp: claimNext_def\<close>)
qed (use call assms(1) in \<open>auto simp: claimNext_def\<close>)

lemma update_forgets:
  assumes "remembers A inv q" and "au_status u \<in> {None, Some Completed, Some Failed}"
    and "requireAttemptUpdate A claim u completion details failure (queue_catalog q) = Inr (job, c)"
  shows "remembers A inv (forget_progress (view_id A claim) c q)"
proof -
  have "inv (queue_catalog q)" using assms(1) by (simp add: remembers_def)
  from requireAttemptUpdate_Inr [OF this assms(2,3)] show ?thesis
    by (auto simp: attempt_applied_def intro: remembers_forget [OF assms(1)])
qed

lemma complete_remembers:
  assumes "remembers A inv q" and call: "complete A claim completion t1 t2 q = (q', r)"
  shows "remembers A inv q'"
proof (cases "requireActiveAttempt A (queue_catalog q) claim t1")
  case (Inr current)
  show ?thesis
  proof (cases "requireAttemptUpdate A claim
      \<lparr>au_status = Some Completed, au_progressPercent = Some 100,
       au_completedAt = Some (Some t2), au_errorMessage = Some None, au_updatedAt = t2\<rparr>
      (Some completion) None None (queue_catalog q)")
    case Inl
    with Inr call assms(1) show ?thesis by (auto simp: complete_def)
  next
    case (Inr result)
    obtain job c where "result = (job, c)" by (rule prod.exhaust)
    with Inr update_forgets [OF assms(1) _ Inr [unfolded this]] call
      \<open>requireActiveAttempt _ _ _ _ = _\<close>
    show ?thesis by (auto simp: complete_def)
  qed
qed (use call assms(1) in \<open>auto simp: complete_def\<close>)

lemma fail_remembers:
  assumes "remembers A inv q" and call: "fail A claim errorMessage options t1 t2 q = (q', r)"
  shows "remembers A inv q'"
proof (cases "requireActiveAttempt A (queue_catalog q) claim t1")
  case active: (Inr current)
  show ?thesis
  proof (cases "requireNonEmpty errorMessage ''errorMessage''")
    case message: (Inr message)
    let ?pending = "queue_progress q (view_id A claim)"
    let ?update = "\<lparr>au_status = Some Failed,
      au_progressPercent = Some (case ?pending of
        None \<Rightarrow> view_progress A current | Some entry \<Rightarrow> pe_latest entry),
      au_completedAt = None, au_errorMessage = Some (Some message), au_updatedAt = t2\<rparr>"
    show ?thesis
    proof (cases "requireAttemptUpdate A claim ?update None (Option.bind ?pending pe_latestDetails)
        options (queue_catalog q)")
      case Inl
      with active message call assms(1) show ?thesis by (auto simp: fail_def)
    next
      case (Inr result)
      obtain job c where "result = (job, c)" by (rule prod.exhaust)
      with Inr update_forgets [OF assms(1) _ Inr [unfolded this]] call active message
      show ?thesis by (auto simp: fail_def)
    qed
  qed (use call assms(1) active in \<open>auto simp: fail_def\<close>)
qed (use call assms(1) in \<open>auto simp: fail_def\<close>)

lemma requeue_remembers:
  assumes "remembers A inv q" and "Running \<notin> set requeueFrom"
    and call: "requeue A requeueFrom i options t q = (q', r)"
  shows "remembers A inv q'"
proof (cases "jq_find A (queue_catalog q) i")
  case (Some current)
  have inv: "inv (queue_catalog q)" using assms(1) by (simp add: remembers_def)
  show ?thesis
  proof (cases "view_status A current \<in> set requeueFrom")
    case True
    with assms(2) have terminal: "view_status A current \<noteq> Running" by auto
    show ?thesis
    proof (cases "jq_requeue A i (view_status A current) current t options (queue_catalog q)")
      case Inl
      with Some True call assms(1) show ?thesis by (auto simp: requeue_def requireRecord_def)
    next
      case (Inr result)
      obtain job c where result: "result = (job, c)" by (rule prod.exhaust)
      show ?thesis
      proof (cases job)
        case None
        with not_requeued [OF inv Inr [unfolded result None]] Inr result True Some call assms(1)
        show ?thesis by (auto simp: requeue_def requireRecord_def)
      next
        case (Some j)
        from requeued [OF inv \<open>jq_find A _ i = _\<close> terminal Inr [unfolded result Some]]
        have "inv c \<and> only_changed A i (queue_catalog q) c" using inv by (auto simp: only_changed_def)
        with remembers_forget [OF assms(1)] Some Inr result True call \<open>jq_find A _ i = _\<close>
        show ?thesis by (auto simp: requeue_def requireRecord_def)
      qed
    qed
  qed (use Some call assms(1) in \<open>auto simp: requeue_def requireRecord_def\<close>)
qed (use call assms(1) in \<open>auto simp: requeue_def requireRecord_def\<close>)

lemma remembers_noted:
  assumes "remembers A inv q" and "queue_progress q i = Some entry"
  shows "remembers A inv (q\<lparr>queue_progress := (queue_progress q)
    (i \<mapsto> entry\<lparr>pe_latest := n, pe_latestDetails := d\<rparr>)\<rparr>)"
  using assms by (auto simp: remembers_def)

lemma write_progress_outcome:
  assumes "remembers A inv q" and call: "write_progress A claim requested details t q = (q', r)"
  shows "remembers A inv q' \<and> (\<forall>job. r = Inr job \<longrightarrow> progress_kept A q' claim requested t job)"
proof (cases "requireAttemptUpdate A claim (progress_update requested t) None details None
    (queue_catalog q)")
  case Inl
  with call assms(1) show ?thesis by (auto simp: write_progress_def)
next
  case (Inr result)
  obtain job c where result: "result = (job, c)" by (rule prod.exhaust)
  have "inv (queue_catalog q)" using assms(1) by (simp add: remembers_def)
  from requireAttemptUpdate_Inr [OF this _ Inr [unfolded result]] have "inv c"
    and applied: "attempt_applied A claim (progress_update requested t) (queue_catalog q) job c"
    by (simp_all add: progress_update_def)
  from applied have job: "jq_find A c (view_id A claim) = Some job"
    and progress: "view_progress A job = requested"
    and running: "view_status A job = Running" "view_token A job = view_token A claim"
    and "only_changed A (view_id A claim) (queue_catalog q) c"
    by (auto simp: attempt_applied_def progress_update_def given_def)
  let ?entry = "\<lparr>pe_token = view_token A claim, pe_latest = requested, pe_lastPersisted = requested,
    pe_lastPersistedAt = t, pe_latestDetails = details, pe_lastPersistedDetails = details\<rparr>"
  from call Inr result have q': "q' = q\<lparr>queue_catalog := c,
      queue_progress := (queue_progress q)(view_id A claim \<mapsto> ?entry)\<rparr>" and "r = Inr job"
    by (simp_all add: write_progress_def)
  have "remembers A inv q'" unfolding q'
    by (rule remembers_persisted [OF assms(1) \<open>inv c\<close> \<open>only_changed _ _ _ _\<close> job])
      (simp_all add: progress)
  with \<open>r = Inr job\<close> job progress running show ?thesis
    by (simp add: q' progress_kept_def PROGRESS_WRITE_DELTA_def PROGRESS_WRITE_INTERVAL_MS_def)
qed

lemma updateProgress_outcome:
  assumes remembers: "remembers A inv q" and call: "updateProgress A claim p details t1 t2 q = (q', r)"
  shows "remembers A inv q' \<and> (\<forall>job. r = Inr job \<longrightarrow>
    (\<exists>requested. requireProgress p = Inr requested \<and> progress_kept A q' claim requested t2 job))"
proof (cases "requireProgress p")
  case requested: (Inr requested)
  let ?i = "view_id A claim"
  show ?thesis
  proof (cases "requireActiveAttempt A (queue_catalog q) claim t1")
    case active: (Inr current)
    note body = call [unfolded updateProgress_def requested active sum.case]
    note current = requireActiveAttempt_Inr [OF active]
    show ?thesis
    proof (cases "queue_progress q ?i")
      case None
      with body write_progress_outcome [OF remembers] requested show ?thesis by auto
    next
      case (Some entry)
      let ?noted = "q\<lparr>queue_progress := (queue_progress q)
        (?i \<mapsto> entry\<lparr>pe_latest := requested, pe_latestDetails := details\<rparr>)\<rparr>"
      note noted = remembers_noted [OF remembers Some, where n = requested and d = details]
      consider "pe_token entry \<noteq> view_token A claim"
        | "pe_token entry = view_token A claim" "progress_due A requested t2 details entry"
        | "pe_token entry = view_token A claim" "\<not> progress_due A requested t2 details entry"
        by blast
      then show ?thesis
      proof cases
        case 1
        with Some body write_progress_outcome [OF remembers] requested show ?thesis by auto
      next
        case 2
        with Some body write_progress_outcome [OF noted] requested show ?thesis by (auto simp: Let_def)
      next
        case 3
        with Some body have "q' = ?noted" and "r = Inr current" by (auto simp: Let_def)
        moreover have "view_progress A current = pe_lastPersisted entry"
          using remembers Some 3 current by (auto simp: remembers_def)
        ultimately show ?thesis using noted requested 3 current
          by (auto simp: progress_kept_def progress_due_def)
      qed
    qed
  qed (use call remembers requested in \<open>auto simp: updateProgress_def\<close>)
qed (use call remembers in \<open>auto simp: updateProgress_def\<close>)

text \<open>A claim whose row has moved on is refused by every operation, and nothing changes.\<close>

lemma superseded_claim_refused:
  assumes "\<And>job. jq_find A (queue_catalog q) (view_id A claim) = Some job \<Longrightarrow>
      view_status A job \<noteq> Running \<or> view_token A job \<noteq> view_token A claim"
    and "jq_find A (queue_catalog q) (view_id A claim) \<noteq> None"
  shows "complete A claim completion t1 t2 q = (q, Inl (stale_attempt A claim))"
    and "fail A claim message options t1 t2 q = (q, Inl (stale_attempt A claim))"
    and "requireProgress p = Inr n \<Longrightarrow>
      updateProgress A claim p details t1 t2 q = (q, Inl (stale_attempt A claim))"
proof -
  have "requireActiveAttempt A (queue_catalog q) claim t1 = Inl (stale_attempt A claim)"
    using assms by (auto simp: requireActiveAttempt_def requireRecord_def split: option.splits)
  then show "complete A claim completion t1 t2 q = (q, Inl (stale_attempt A claim))"
    and "fail A claim message options t1 t2 q = (q, Inl (stale_attempt A claim))"
    and "requireProgress p = Inr n \<Longrightarrow>
      updateProgress A claim p details t1 t2 q = (q, Inl (stale_attempt A claim))"
    by (simp_all add: complete_def fail_def updateProgress_def)
qed

end

end
