(* ===== verification/EncodeQueue.thy ===== *)
theory EncodeQueue
  imports EncodeLifecycle JobQueue
begin

text \<open>
  The encode queue: the adapter \<open>encodeJobAdapter\<close> of \<open>internal/create-data-access.ts\<close> under the
  job queue controller, the operations of \<open>encodeJobs\<close> that wrap the controller's, and the proof
  that the adapter meets the laws the controller relies on.
\<close>

section \<open>The adapter\<close>

definition encode_job_view :: "encode_job \<Rightarrow> job_record" where
  "encode_job_view j = \<lparr>jr_id = ej_id j, jr_status = ej_status j,
     jr_progressPercent = ej_progressPercent j, jr_claimToken = ej_claimToken j\<rparr>"

definition isAttemptCurrent :: "encode_job \<Rightarrow> encode_job \<Rightarrow> int \<Rightarrow> bool" where
  "isAttemptCurrent current claim timestamp \<longleftrightarrow>
     timestamp - ENCODE_JOB_LEASE_DURATION_MS < ej_updatedAt current"

definition progressDetailsChanged ::
  "progress_details option \<Rightarrow> progress_details option \<Rightarrow> bool" where
  "progressDetailsChanged current previous \<longleftrightarrow>
     map_option pd_phase current \<noteq> map_option pd_phase previous"

text \<open>
  \<open>outputId\<close> and \<open>drawn\<close> are what \<open>newId\<close> draws for a failed output and for the failure reports,
  \<open>recordedAt\<close> the time at which a mutation is recorded.
\<close>

type_synonym encode_adapter =
  "(encode_job, encode_catalog, unit, encode_requeue_options, encode_claim_options,
    progress_details, attempt_failure_options) job_queue_adapter"

type_synonym encode_queue = "(encode_catalog, progress_details) job_queue"

definition encodeJobAdapter ::
  "encode_gate \<Rightarrow> string \<Rightarrow> (nat \<Rightarrow> string) \<Rightarrow> int \<Rightarrow> encode_adapter" where
  "encodeJobAdapter g outputId drawn recordedAt =
     \<lparr>jq_recordType = ''encode job'',
      jq_view = encode_job_view,
      jq_find = find_encodeJob,
      jq_claim = claim_encodeJob g,
      jq_updateAttempt = (\<lambda>claim u completion failure.
        updateAttempt_encodeJob g outputId drawn claim u failure),
      jq_updateProgressAttempt = Some (updateProgressAttempt_encodeJob g outputId drawn),
      jq_progressDetailsChanged = Some progressDetailsChanged,
      jq_isAttemptCurrent = Some isAttemptCurrent,
      jq_requeue = (\<lambda>i status current t options.
        requeue_encodeJob g i status current t recordedAt (given options no_requeue_options))\<rparr>"

lemma encodeJobAdapter_simps [simp]:
  "jq_recordType (encodeJobAdapter g o' d rec) = ''encode job''"
  "jq_find (encodeJobAdapter g o' d rec) = find_encodeJob"
  "jq_claim (encodeJobAdapter g o' d rec) = claim_encodeJob g"
  "jq_updateAttempt (encodeJobAdapter g o' d rec) claim u completion failure
     = updateAttempt_encodeJob g o' d claim u failure"
  "jq_updateProgressAttempt (encodeJobAdapter g o' d rec)
     = Some (updateProgressAttempt_encodeJob g o' d)"
  "jq_progressDetailsChanged (encodeJobAdapter g o' d rec) = Some progressDetailsChanged"
  "jq_isAttemptCurrent (encodeJobAdapter g o' d rec) = Some isAttemptCurrent"
  "jq_requeue (encodeJobAdapter g o' d rec) i status current t options
     = requeue_encodeJob g i status current t rec (given options no_requeue_options)"
  "view_id (encodeJobAdapter g o' d rec) j = ej_id j"
  "view_status (encodeJobAdapter g o' d rec) j = ej_status j"
  "view_token (encodeJobAdapter g o' d rec) j = ej_claimToken j"
  "view_progress (encodeJobAdapter g o' d rec) j = ej_progressPercent j"
  by (simp_all add: encodeJobAdapter_def encode_job_view_def view_id_def view_status_def
      view_token_def view_progress_def)

definition requeueFrom :: "encode_job_status list" where
  "requeueFrom = [Failed, Completed, Cancelled]"

section \<open>The adapter meets its laws\<close>

text \<open>An update of one row, seen through \<open>find\<close>.\<close>

lemma update_one_find:
  assumes "catalog_wf c" and "update_encodeJob P f c = Inr (Some j', c1)" and "encodeJobs c' = encodeJobs c1"
    and "\<And>k. P k \<Longrightarrow> ej_id k = i" and "\<And>k. ej_id (f k) = ej_id k"
  obtains j where "find_encodeJob c i = Some j" and "P j" and "j' = f j" and "ej_id j = i"
    and "find_encodeJob c' i = Some j'"
    and "\<And>k. k \<noteq> i \<Longrightarrow> find_encodeJob c' k = find_encodeJob c k"
proof -
  from assms(2,4) obtain j where j: "j \<in> set (encodeJobs c)" "P j" "ej_id j = i" "j' = f j"
    and "encodeJobs c1 = map (\<lambda>k. if ej_id k = i then j' else k) (encodeJobs c)"
    by (rule update_by_id [OF catalog_wf_unique_ids [OF assms(1)]])
  moreover have id: "ej_id j' = i" using j assms(5) by simp
  ultimately have "encodeJobs c' = map (\<lambda>k. if ej_id k = ej_id j' then j' else k) (encodeJobs c)"
    using assms(3) by simp
  note found = find_encodeJob_replaced [OF this j(1)]
  have "find_encodeJob c i = Some j"
    using find_encodeJob_member [OF catalog_wf_unique_ids [OF assms(1)] j(1)] j(3) by simp
  with j found id show thesis by (intro that [of j]) simp_all
qed

lemma update_law:
  assumes wf: "catalog_wf c" and "update_encodeJob P f c = Inr (Some job, c1)" and "encodeJobs c' = encodeJobs c1"
    and "\<And>k. P k \<Longrightarrow> ej_id k = ej_id claim \<and> ej_status k = Running \<and> ej_claimToken k = ej_claimToken claim"
    and "\<And>k. ej_id (f k) = ej_id k \<and> ej_status (f k) = given (au_status u) (ej_status k)
      \<and> ej_claimToken (f k) = ej_claimToken k
      \<and> ej_progressPercent (f k) = given (au_progressPercent u) (ej_progressPercent k)"
  shows "attempt_applied (encodeJobAdapter g o' d rec) claim u c job c'"
proof -
  from wf assms(2,3) obtain j where "find_encodeJob c (ej_id claim) = Some j" "P j" "job = f j"
    "find_encodeJob c' (ej_id claim) = Some job"
    "\<And>k. k \<noteq> ej_id claim \<Longrightarrow> find_encodeJob c' k = find_encodeJob c k"
    by (rule update_one_find) (use assms(4,5) in auto)
  with assms(4,5) show ?thesis by (simp add: attempt_applied_def only_changed_def)
qed

lemma updateAttempt_law:
  assumes "catalog_wf c" and "updateAttempt_encodeJob g o' d claim u fo c = Inr (Some job, c')"
  shows "attempt_applied (encodeJobAdapter g o' d rec) claim u c job c'"
proof -
  from assms(2) obtain r1 c1 where update: "update_encodeJob
      (\<lambda>j. encodeAttemptCondition g c claim (au_updatedAt u) j
         \<and> (au_status u = Some Completed \<longrightarrow> ej_predecessorEncodeJobId j = None))
      (attempt_row u fo) c = Inr (r1, c1)"
    and rest: "attempt_written claim u fo o' d r1 c1 = Inr (Some job, c')"
    by (auto simp: updateAttempt_encodeJob_def split: sum.splits)
  note written = attempt_written_jobs [OF rest]
  show ?thesis
    by (rule update_law [OF assms(1) update [folded written(1)] written(2)])
      (auto dest: encodeAttemptCondition_running
        simp: attempt_row_def set_attempt_def drop_replacement_def given_def Let_def)
qed

lemma updateProgressAttempt_law:
  assumes "catalog_wf c" and "updateProgressAttempt_encodeJob g o' d claim u details fo c = Inr (Some job, c')"
  shows "attempt_applied (encodeJobAdapter g o' d rec) claim u c job c'"
proof -
  from assms(2) obtain r1 c1 where update: "update_encodeJob
      (encodeAttemptCondition g c claim (au_updatedAt u)) (progress_row u details fo) c = Inr (r1, c1)"
    and rest: "attempt_written claim u fo o' d r1 c1 = Inr (Some job, c')"
    by (auto simp: updateProgressAttempt_encodeJob_def split: sum.splits)
  note written = attempt_written_jobs [OF rest]
  show ?thesis
    by (rule update_law [OF assms(1) update [folded written(1)] written(2)])
      (auto dest: encodeAttemptCondition_running
        simp: progress_row_def set_attempt_def drop_replacement_def given_def Let_def)
qed

lemma requeue_row_fields:
  "ej_id (requeue_row s current t options j) = ej_id j"
  "ej_status (requeue_row s current t options j) = Queued"
  "ej_claimToken (requeue_row s current t options j) = None"
  by (simp_all add: requeue_row_def Let_def)

lemma requeue_law:
  assumes wf: "catalog_wf c" and "requeue_encodeJob g i s current t rec options c = Inr (Some job, c')"
  shows "c' = c \<or> (catalog_wf c' \<and> ej_status job = Queued \<and> ej_claimToken job = None
    \<and> find_encodeJob c' i = Some job
    \<and> (\<forall>k. k \<noteq> i \<longrightarrow> find_encodeJob c' k = find_encodeJob c k))"
  using assms(2)
proof (cases rule: requeue_encodeJob_cases)
  case (written r1 c1)
  then have update: "update_encodeJob (requeue_condition g c i s) (requeue_row s current t options) c
      = Inr (Some job, c1)" by simp
  then obtain changed where "update_encodeJobs (requeue_condition g c i s)
      (requeue_row s current t options) c = Inr (changed, c1)"
    by (auto simp: update_encodeJob_Inr)
  with wf have "catalog_wf c1"
    by (rule update_wf)
      (auto simp: disciplined_def requeue_row_def requeue_condition_def encode_job_checks_def Let_def)
  then have "catalog_wf c'" using catalog_wf_jobs [OF written(2)] by simp
  moreover have row: "ej_id (requeue_row s current t options k) = ej_id k" for k
    by (rule requeue_row_fields)
  have condition: "requeue_condition g c i s k \<Longrightarrow> ej_id k = i" for k
    by (simp add: requeue_condition_def)
  from update_one_find [OF wf update written(2) condition row]
  obtain j where "job = requeue_row s current t options j"
    "find_encodeJob c' i = Some job" "\<And>k. k \<noteq> i \<Longrightarrow> find_encodeJob c' k = find_encodeJob c k"
    by metis
  ultimately show ?thesis by (simp add: requeue_row_fields)
qed simp

interpretation encode_store: attempt_store "encodeJobAdapter g outputId drawn recordedAt" catalog_wf
proof (unfold_locales, goal_cases)
  case 1
  then show ?case by (auto dest: find_encodeJob_Some)
next
  case (2 c worker token t options claim c')
  then show ?case
    using claim_encodeJob_claims [of c g worker token t options "Some claim" c']
    by (auto simp: claims_def claim_view_def only_changed_def)
next
  case (3 c worker token t options c')
  then show ?case using claim_encodeJob_claims [of c g worker token t options None c'] by auto
next
  case 4
  then show ?case by (auto dest: steps_wf [OF updateAttempt_steps] intro: updateAttempt_law)
next
  case (5 c u f claim details failure job c')
  then have call: "updateProgressAttempt_encodeJob g outputId drawn claim u details failure c
      = Inr (Some job, c')" by auto
  show ?case
    using steps_wf [OF updateProgressAttempt_steps [OF 5(1,2) call]]
      updateProgressAttempt_law [OF 5(1) call] by blast
next
  case 6
  then show ?case using requeue_law by (fastforce simp: only_changed_def)
next
  case (7 c i status current t options c')
  then have "requeue_encodeJob g i status current t recordedAt (given options no_requeue_options) c
      = Inr (None, c')" by simp
  then show ?case
    by (cases rule: requeue_encodeJob_cases) (auto dest: update_refused_catalog)
qed

section \<open>The operations of \<open>encodeJobs\<close>\<close>

text \<open>Progress is a percentage, or comes with a phase and an estimate that may be absent.\<close>

record encode_progress =
  ep_phase :: string
  ep_progressPercent :: js_double
  ep_etaSeconds :: "js_double option"

definition parse_phase :: "string \<Rightarrow> encode_progress_phase option" where
  "parse_phase s = find (\<lambda>p. phase_text p = s) [Scanning, Previewing, Encoding, Validation]"

definition optionalSafeInteger :: "js_double option \<Rightarrow> string \<Rightarrow> int \<Rightarrow> int option result" where
  "optionalSafeInteger value field minimum =
    (case value of
       None \<Rightarrow> Inr None
     | Some v \<Rightarrow>
       (case v of
          Finite q \<Rightarrow>
            if of_int \<lfloor>q\<rfloor> \<noteq> q \<or> \<not> is_safe_integer \<lfloor>q\<rfloor> \<or> \<lfloor>q\<rfloor> < minimum
            then Inl (DomainInvariantError (field @ '' must be a safe integer between ''
              @ decimal (nat minimum) @ '' and '' @ decimal (nat max_safe_integer)))
            else Inr (Some \<lfloor>q\<rfloor>)
        | NonFinite \<Rightarrow> Inl (DomainInvariantError (field @ '' must be a safe integer between ''
              @ decimal (nat minimum) @ '' and '' @ decimal (nat max_safe_integer)))))"

definition encodeJobs_updateProgress ::
  "encode_adapter \<Rightarrow> encode_job \<Rightarrow> js_double + encode_progress \<Rightarrow> int \<Rightarrow> int \<Rightarrow> encode_queue
     \<Rightarrow> encode_queue \<times> encode_job result" where
  "encodeJobs_updateProgress A claim progress t1 t2 q =
    (case progress of
       Inl percent \<Rightarrow> updateProgress A claim percent None t1 t2 q
     | Inr p \<Rightarrow>
       (case parse_phase (ep_phase p) of
          None \<Rightarrow> (q, Inl (DomainInvariantError ''Encode Job progress phase is invalid''))
        | Some phase \<Rightarrow>
          (case optionalSafeInteger (ep_etaSeconds p) ''etaSeconds'' 0 of
             Inl e \<Rightarrow> (q, Inl e)
           | Inr eta \<Rightarrow> updateProgress A claim (ep_progressPercent p)
               (Some \<lparr>pd_phase = phase, pd_etaSeconds = eta\<rparr>) t1 t2 q)))"

definition encodeJobs_complete ::
  "encode_adapter \<Rightarrow> encode_job \<Rightarrow> int \<Rightarrow> int \<Rightarrow> encode_queue \<Rightarrow> encode_queue \<times> encode_job result" where
  "encodeJobs_complete A claim t1 t2 q =
    (if ej_predecessorEncodeJobId claim \<noteq> None then
       (q, Inl (DomainInvariantError
         ''Corrected replacement Encode Job completion requires publication provenance''))
     else complete A claim () t1 t2 q)"

text \<open>Spreading absent options into a record of options leaves the options at their defaults.\<close>

definition no_failure_options :: attempt_failure_options where
  "no_failure_options = \<lparr>af_preserveReplacementAuthority = False, af_failureReports = None,
     af_validationFailedOutput = None\<rparr>"

definition failure_messages :: "(string \<times> string) list" where
  "failure_messages =
     [(''input_unavailable'', ''Encode input is unavailable''),
      (''invalid_configuration'', ''Encode configuration is invalid''),
      (''output_conflict'', ''Encode output conflicts with existing state''),
      (''unsafe_output_state'', ''Encode output state is unsafe''),
      (''command_failed'', ''HandBrake command failed''),
      (''command_timeout'', ''HandBrake command timed out''),
      (''output_validation_failed'', ''Encode output validation failed''),
      (''unknown_failure'', ''Encode failed for an unknown reason''),
      (''cleanup_failed'', ''Encode output cleanup failed''),
      (''publication_failed'', ''Encode publication failed''),
      (''lease_expired'', ''Encode Job lease expired''),
      (''worker_interrupted'', ''Encode Worker was interrupted''),
      (''publication_recovery_failed'', ''Encode publication recovery failed'')]"

definition failure_message :: "js_value \<Rightarrow> string" where
  "failure_message report =
    (case js_get report ''reasonCode'' of
       JsString s \<Rightarrow> given (map_of failure_messages s) [] | _ \<Rightarrow> [])"

definition failWithReport ::
  "encode_adapter \<Rightarrow> encode_job \<Rightarrow> js_value \<Rightarrow> attempt_failure_options option \<Rightarrow> int \<Rightarrow> int
     \<Rightarrow> encode_queue \<Rightarrow> encode_queue \<times> encode_job result" where
  "failWithReport A claim reportInput options t1 t2 q =
    (case validateEncodeJobFailureReport reportInput of
       Inl e \<Rightarrow> (q, Inl e)
     | Inr report \<Rightarrow>
         fail A claim (failure_message report)
           (Some ((given options no_failure_options)\<lparr>af_failureReports := Some [report]\<rparr>)) t1 t2 q)"

definition failWithReports ::
  "encode_adapter \<Rightarrow> encode_job \<Rightarrow> string \<Rightarrow> js_value list \<Rightarrow> attempt_failure_options option \<Rightarrow> int \<Rightarrow> int
     \<Rightarrow> encode_queue \<Rightarrow> encode_queue \<times> encode_job result" where
  "failWithReports A claim errorMessage reportInputs options t1 t2 q =
    (if reportInputs = [] \<or> 10 < length reportInputs then
       (q, Inl (DomainInvariantError ''Encode Job failure must include between one and ten reports''))
     else
       (case map_result validateEncodeJobFailureReport reportInputs of
          Inl e \<Rightarrow> (q, Inl e)
        | Inr reports \<Rightarrow>
            fail A claim errorMessage
              (Some ((given options no_failure_options)\<lparr>af_failureReports := Some reports\<rparr>)) t1 t2 q))"

section \<open>The queue of a worker\<close>

text \<open>
  The calls a worker makes, in any order, and what others do to the catalog between them: they
  may do anything but write the progress of an attempt whose progress the worker remembers.
\<close>

inductive queue_call :: "encode_gate \<Rightarrow> encode_queue \<Rightarrow> encode_queue \<Rightarrow> bool" for g where
  claim_next: "claimNext (encodeJobAdapter g o' d rec) worker token t options q = (q', r) \<Longrightarrow>
     queue_call g q q'"
| update_progress: "encodeJobs_updateProgress (encodeJobAdapter g o' d rec) claim p t1 t2 q = (q', r') \<Longrightarrow>
     queue_call g q q'"
| complete_job: "encodeJobs_complete (encodeJobAdapter g o' d rec) claim t1 t2 q = (q', r') \<Longrightarrow>
     queue_call g q q'"
| fail_job: "fail (encodeJobAdapter g o' d rec) claim message fo t1 t2 q = (q', r') \<Longrightarrow>
     queue_call g q q'"
| fail_with_report: "failWithReport (encodeJobAdapter g o' d rec) claim report fo t1 t2 q = (q', r') \<Longrightarrow>
     queue_call g q q'"
| fail_with_reports: "failWithReports (encodeJobAdapter g o' d rec) claim message reports fo t1 t2 q
     = (q', r') \<Longrightarrow> queue_call g q q'"
| requeue_job: "requeue (encodeJobAdapter g o' d rec) requeueFrom i ro t q = (q', r') \<Longrightarrow>
     queue_call g q q'"
| others: "catalog_wf c \<Longrightarrow>
     (\<And>i entry j'. queue_progress q i = Some entry \<Longrightarrow> find_encodeJob c i = Some j' \<Longrightarrow>
        ej_status j' = Running \<Longrightarrow> ej_claimToken j' = pe_token entry \<Longrightarrow>
        (\<exists>j. find_encodeJob (queue_catalog q) i = Some j \<and> ej_status j = Running
           \<and> ej_claimToken j = pe_token entry \<and> ej_progressPercent j = ej_progressPercent j')) \<Longrightarrow>
     queue_call g q (q\<lparr>queue_catalog := c\<rparr>)"

lemma queue_remembers:
  "remembers (encodeJobAdapter g o' d rec) catalog_wf q = remembers (encodeJobAdapter g' o'' d' rec') catalog_wf q"
  by (simp add: remembers_def)

lemma queue_call_remembers:
  assumes "queue_call g q q'" and "remembers (encodeJobAdapter g o' d rec) catalog_wf q"
  shows "remembers (encodeJobAdapter g o' d rec) catalog_wf q'"
proof -
  have before: "remembers (encodeJobAdapter g o1 d1 rec1) catalog_wf q" for o1 d1 rec1
    using assms(2) queue_remembers by blast
  note fails = encode_store.fail_remembers [OF before]
  have "\<exists>o1 d1 rec1. remembers (encodeJobAdapter g o1 d1 rec1) catalog_wf q'"
    using assms(1)
  proof cases
    case claim_next
    then show ?thesis using encode_store.claimNext_remembers [OF before] by blast
  next
    case (update_progress o1 d1 rec1 claim p t1 t2 r)
    then show ?thesis using encode_store.updateProgress_outcome [OF before] before
      by (auto simp: encodeJobs_updateProgress_def split: sum.splits option.splits) blast+
  next
    case complete_job
    then show ?thesis using encode_store.complete_remembers [OF before] before
      unfolding encodeJobs_complete_def by (metis prod.inject)
  next
    case fail_job
    then show ?thesis using fails by blast
  next
    case fail_with_report
    then show ?thesis using fails before by (auto simp: failWithReport_def split: sum.splits; blast)
  next
    case fail_with_reports
    then show ?thesis using fails before by (auto simp: failWithReports_def split: sum.splits if_splits; blast)
  next
    case requeue_job
    moreover have "Running \<notin> set requeueFrom" by (simp add: requeueFrom_def)
    ultimately show ?thesis using encode_store.requeue_remembers [OF before] by blast
  next
    case (others c)
    then show ?thesis using before by (fastforce simp: remembers_def)
  qed
  then show ?thesis using queue_remembers by blast
qed

lemma queue_calls_remember:
  assumes "(queue_call g)\<^sup>*\<^sup>* q q'" and "remembers (encodeJobAdapter g o' d rec) catalog_wf q"
  shows "remembers (encodeJobAdapter g o' d rec) catalog_wf q'"
  using assms by (induction rule: rtranclp_induct) (auto intro: queue_call_remembers)

definition example_queue :: encode_queue where
  "example_queue = \<lparr>queue_catalog = example_catalog, queue_progress = (\<lambda>_. None)\<rparr>"

abbreviation example_adapter :: encode_adapter where
  "example_adapter \<equiv> encodeJobAdapter example_gate ''output-1'' (\<lambda>_. ''report-1'') 0"

text \<open>A worker claims a job and reports a first percentage.\<close>

lemma example_claim_next:
  "claimNext example_adapter ''worker'' ''token-1'' 1000 None example_queue
     = (example_queue\<lparr>queue_catalog := example_catalog\<lparr>encodeJobs := [example_job, example_claimed]\<rparr>\<rparr>,
        Inr (Some example_claimed))"
proof -
  have "requireNonEmpty ''worker'' ''workerId'' = Inr ''worker''" by code_simp
  then show ?thesis by (simp add: claimNext_def example_queue_def example_claim fun_upd_idem_iff)
qed



end
