(* ===== verification/EncodeRecords.thy ===== *)
theory EncodeRecords
  imports EncodeQueue
begin

text \<open>
  What else is written about an Encode Job (\<open>encodeJobs\<close> in \<open>internal/create-data-access.ts\<close>):
  failure reports outside an attempt's end, validated and failed outputs, the identity of an
  output to be replaced, new and corrected jobs, and the operator's requeue.
\<close>

section \<open>Failure reports\<close>

definition recordFailureReport ::
  "encode_gate \<Rightarrow> encode_job \<Rightarrow> js_value \<Rightarrow> int \<Rightarrow> (nat \<Rightarrow> string) \<Rightarrow> encode_catalog
     \<Rightarrow> unit encode_transaction" where
  "recordFailureReport g claim reportInput timestamp drawn c =
    (case validateEncodeJobFailureReport reportInput of
       Inl e \<Rightarrow> Inl e
     | Inr report \<Rightarrow>
       (case find (encodeAttemptCondition g c claim timestamp) (encodeJobs c) of
          None \<Rightarrow> Inl (StaleJobAttemptError ''encode job'' (ej_id claim))
        | Some owned \<Rightarrow>
            map_sum id (Pair ())
              (appendEncodeJobFailureReports (Some (ej_id owned)) (Some [report]) timestamp drawn c)))"

definition matchesLatestPublicationRecoveryFailure :: "failure_report_row \<Rightarrow> js_value \<Rightarrow> bool" where
  "matchesLatestPublicationRecoveryFailure row report \<longleftrightarrow>
     js_get report ''reasonCode'' = JsString ''publication_recovery_failed''
   \<and> fr_reasonCode row = js_get report ''reasonCode''
   \<and> fr_phase row = js_get report ''phase''
   \<and> fr_retryability row = js_get report ''retryability''
   \<and> fr_diagnostic row = js_get report ''diagnostic''
   \<and> fr_context row = encodeJobFailureEvidenceContext (js_get report ''evidence'')"

text \<open>The reports of a job, latest first; a job's sequence numbers are unique.\<close>

definition reports_latest_first :: "encode_catalog \<Rightarrow> string \<Rightarrow> failure_report_row list" where
  "reports_latest_first c jobId =
     rev (sort_key fr_sequence (filter (\<lambda>r. fr_encodeJobId r = jobId) (failureReports c)))"

definition cleanup_report_condition ::
  "encode_partial_cleanup \<Rightarrow> int \<Rightarrow> encode_job \<Rightarrow> bool" where
  "cleanup_report_condition cleanup timestamp j \<longleftrightarrow>
     ej_id j = pc_jobId cleanup \<and> ej_status j \<in> {Running, Failed, Completed, Cancelled}
   \<and> cleanup_paths_eq cleanup j
   \<and> ej_publicationPending j = pc_publicationPending cleanup
   \<and> (if pc_leaseToken cleanup = None
      then ej_partialCleanupLeaseToken j = None
        \<and> (ej_status j \<noteq> Running \<or> timestamp - ENCODE_JOB_LEASE_DURATION_MS < ej_updatedAt j)
      else ej_partialCleanupLeaseToken j = pc_leaseToken cleanup
        \<and> timestamp - ENCODE_JOB_LEASE_DURATION_MS < ej_updatedAt j)"

definition recordCleanupFailureReport ::
  "encode_partial_cleanup \<Rightarrow> js_value \<Rightarrow> int \<Rightarrow> (nat \<Rightarrow> string) \<Rightarrow> encode_catalog
     \<Rightarrow> unit encode_transaction" where
  "recordCleanupFailureReport cleanup reportInput timestamp drawn c =
    (case validateEncodeJobFailureReport reportInput of
       Inl e \<Rightarrow> Inl e
     | Inr report \<Rightarrow>
       let reason = js_get report ''reasonCode''; evidence = js_get report ''evidence'';
           recovery = (reason = JsString ''publication_recovery_failed'') in
       if reason \<noteq> JsString ''cleanup_failed'' \<and> reason \<noteq> JsString ''publication_failed'' \<and> \<not> recovery
       then Inl (DomainInvariantError ''Encode Job cleanup report reason is invalid'')
       else if recovery
            \<and> (js_get evidence ''kind'' \<noteq> JsString ''recovery''
               \<or> js_get evidence ''operation'' \<noteq> JsString
                   (if pc_publicationPending cleanup then ''publication_recovery''
                    else ''cleanup_recovery''))
       then Inl (DomainInvariantError ''Encode Job cleanup recovery report provenance is invalid'')
       else
         (case find (cleanup_report_condition cleanup timestamp) (encodeJobs c) of
            None \<Rightarrow> Inl (StaleJobAttemptError ''encode job cleanup'' (pc_jobId cleanup))
          | Some owned \<Rightarrow>
              if recovery
                 \<and> (case reports_latest_first c (ej_id owned) of
                      [] \<Rightarrow> False
                    | latest # _ \<Rightarrow> matchesLatestPublicationRecoveryFailure latest report)
              then Inr ((), c)
              else
                map_sum id (Pair ())
                  (appendEncodeJobFailureReports (Some (ej_id owned)) (Some [report]) timestamp drawn
                     c)))"

text \<open>The report on a publication whose recovery failed while its lease had run out.\<close>

definition expired_publication_condition ::
  "encode_partial_cleanup \<Rightarrow> int \<Rightarrow> encode_job \<Rightarrow> bool" where
  "expired_publication_condition cleanup timestamp j \<longleftrightarrow>
     ej_id j = pc_jobId cleanup \<and> ej_status j = Running
   \<and> ej_publicationPending j = pc_publicationPending cleanup \<and> cleanup_paths_eq cleanup j
   \<and> column_eq (ej_partialCleanupLeaseToken j) (pc_leaseToken cleanup)
   \<and> ej_updatedAt j \<le> timestamp - ENCODE_JOB_LEASE_DURATION_MS"

definition recordExpiredPublicationRecoveryFailure ::
  "encode_partial_cleanup \<Rightarrow> js_value \<Rightarrow> int \<Rightarrow> (nat \<Rightarrow> string) \<Rightarrow> encode_catalog
     \<Rightarrow> unit encode_transaction" where
  "recordExpiredPublicationRecoveryFailure cleanup reportInput timestamp drawn c =
    (if pc_leaseToken cleanup = None
     then Inl (DomainInvariantError
       ''Encode Job expired publication recovery report requires fenced provenance'')
     else
       (case validateEncodeJobFailureReport reportInput of
          Inl e \<Rightarrow> Inl e
        | Inr report \<Rightarrow>
          let evidence = js_get report ''evidence'' in
          if js_get report ''reasonCode'' \<noteq> JsString ''publication_recovery_failed''
             \<or> js_get evidence ''kind'' \<noteq> JsString ''recovery''
             \<or> js_get evidence ''operation'' \<noteq> JsString
                 (if pc_publicationPending cleanup then ''publication_recovery''
                  else ''cleanup_recovery'')
          then Inl (DomainInvariantError
            ''Expired Encode publication recovery report reason is invalid'')
          else
            (case find (expired_publication_condition cleanup timestamp) (encodeJobs c) of
               None \<Rightarrow> Inl (StaleJobAttemptError ''encode job publication mutation''
                 (pc_jobId cleanup))
             | Some owned \<Rightarrow>
                 if (case reports_latest_first c (ej_id owned) of
                       [] \<Rightarrow> False
                     | latest # _ \<Rightarrow> matchesLatestPublicationRecoveryFailure latest report)
                 then Inr ((), c)
                 else
                   map_sum id (Pair ())
                     (appendEncodeJobFailureReports (Some (ej_id owned)) (Some [report])
                        timestamp drawn c))))"

definition ENCODE_JOB_FAILURE_REPORT_JOB_LIMIT :: nat where
  "ENCODE_JOB_FAILURE_REPORT_JOB_LIMIT = 400"

definition ENCODE_JOB_FAILURE_REPORT_HISTORY_LIMIT :: nat where
  "ENCODE_JOB_FAILURE_REPORT_HISTORY_LIMIT = 20"

text \<open>A set keeps the first of equal identifiers, in order.\<close>

definition unique_in_order :: "string list \<Rightarrow> string list" where
  "unique_in_order ids = rev (remdups (rev ids))"

definition listFailureReports :: "encode_catalog \<Rightarrow> string list \<Rightarrow> stored_failure_report list result" where
  "listFailureReports c ids =
    (let uniqueIds = unique_in_order ids in
     if ENCODE_JOB_FAILURE_REPORT_JOB_LIMIT < length uniqueIds
     then Inl (DomainInvariantError ''Encode Job Failure Report lookup cannot exceed 400 jobs'')
     else map_result toEncodeJobFailureReport
       (concat (map (\<lambda>i. take ENCODE_JOB_FAILURE_REPORT_HISTORY_LIMIT (reports_latest_first c i))
         uniqueIds)))"

section \<open>Outputs\<close>

definition recordReplacementOutputIdentity ::
  "encode_gate \<Rightarrow> encode_job \<Rightarrow> string \<Rightarrow> int \<Rightarrow> encode_catalog \<Rightarrow> encode_job encode_transaction" where
  "recordReplacementOutputIdentity g claim identity timestamp c =
    (case requireNonEmpty identity ''replacementOutputIdentity'' of
       Inl e \<Rightarrow> Inl e
     | Inr _ \<Rightarrow>
       (case update_encodeJob
               (\<lambda>j. encodeAttemptCondition g c claim timestamp j \<and> ej_replaceExistingOutput j
                  \<and> ej_replacementOutputIdentity j \<in> {None, Some identity})
               (\<lambda>j. j\<lparr>ej_replacementOutputIdentity := Some identity, ej_updatedAt := timestamp\<rparr>) c of
          Inl e \<Rightarrow> Inl e
        | Inr (None, c') \<Rightarrow> Inl (StaleJobAttemptError ''encode job'' (ej_id claim))
        | Inr (Some updated, c') \<Rightarrow> map_sum id (\<lambda>j. (j, c')) (asRunningEncodeJob updated)))"

text \<open>\<open>json_extract(evidence, '$.policyVersion')\<close>: NULL when the property is absent.\<close>

fun json_member :: "string \<Rightarrow> json_value \<Rightarrow> json_value" where
  "json_member key (JObject members) = given (map_of members key) JNull"
| "json_member key _ = JNull"

definition output_validation_checks ::
  "output_validation_row \<Rightarrow> output_validation_row list \<Rightarrow> bool" where
  "output_validation_checks row rows \<longleftrightarrow>
     json_member ''policyVersion'' (ov_evidence row)
       \<in> {JNull, JString ''encode-output-validation-v1''}
   \<and> (case ov_sourceSnapshot row of None \<Rightarrow> True
      | Some s \<Rightarrow> sn_id s = ov_claimToken row \<and> sn_encodeJobId s = ov_encodeJobId row)
   \<and> list_all (\<lambda>r. ov_id r \<noteq> ov_id row \<and> \<not> (ov_encodeJobId r = ov_encodeJobId row
        \<and> (ov_claimToken r = ov_claimToken row
           \<or> (ov_filesystemIdentity r = ov_filesystemIdentity row
              \<and> ov_validatedAt r = ov_validatedAt row)))) rows"

definition recordOutputValidation ::
  "encode_job \<Rightarrow> string \<Rightarrow> json_value \<Rightarrow> string \<Rightarrow> int \<Rightarrow> encode_catalog
     \<Rightarrow> output_validation_row encode_transaction" where
  "recordOutputValidation claim identity evidence drawnId validatedAt c =
    (let token = the (ej_claimToken claim) in
     case find (\<lambda>j. ej_id j = ej_id claim \<and> ej_status j = Running
             \<and> column_eq (ej_claimToken j) (ej_claimToken claim)) (encodeJobs c) of
       None \<Rightarrow> Inl (StaleJobAttemptError ''encode output validation'' (ej_id claim))
     | Some owned \<Rightarrow>
       let snapshot = find (\<lambda>s. sn_id s = token) (encodeClaimSnapshots c) in
       if (case snapshot of None \<Rightarrow> False
           | Some s \<Rightarrow> sn_encodeJobId s \<noteq> ej_id claim
               \<or> cs_outputPath (sn_source s) \<noteq> ej_outputPath owned)
       then Inl (DomainInvariantError ''Encode output claim provenance is inconsistent'')
       else
         (case find (\<lambda>v. ov_encodeJobId v = ej_id claim \<and> ov_claimToken v = token)
                 (encodeOutputValidations c) of
            Some existing \<Rightarrow>
              if ov_filesystemIdentity existing \<noteq> identity
                 \<or> canonicalJson (ov_evidence existing) \<noteq> canonicalJson evidence
              then Inl (DomainInvariantError ''Encode output validation is immutable'')
              else Inr (existing, c)
          | None \<Rightarrow>
              let row = \<lparr>ov_id = drawnId, ov_encodeJobId = ej_id claim, ov_claimToken = token,
                    ov_filesystemIdentity = identity, ov_validatedAt = validatedAt,
                    ov_sourceSnapshot = snapshot, ov_evidence = evidence\<rparr> in
              if \<not> output_validation_checks row (encodeOutputValidations c)
              then Inl (SqliteError ''constraint failed'')
              else Inr (row, c\<lparr>encodeOutputValidations := encodeOutputValidations c @ [row]\<rparr>)))"

text \<open>
  What \<open>lstatSync\<close> says of an output, and whether it matches the identity that was recorded.
\<close>

record output_metadata =
  om_isFile :: bool
  om_isSymbolicLink :: bool
  om_size :: int
  om_ctimeMs :: js_double
  om_matchesIdentity :: bool

definition retainValidationFailedOutput ::
  "encode_adapter \<Rightarrow> encode_job \<Rightarrow> failed_output_input \<Rightarrow> output_metadata
     \<Rightarrow> attempt_failure_options option \<Rightarrow> int \<Rightarrow> int \<Rightarrow> encode_queue \<Rightarrow> encode_queue \<times> encode_job result" where
  "retainValidationFailedOutput A claim input metadata options t1 t2 q =
    (case validateEncodeJobFailureReport (fi_failure input) of
       Inl e \<Rightarrow> (q, Inl e)
     | Inr failure \<Rightarrow>
       let kind = js_get (js_get failure ''evidence'') ''kind'' in
       if js_get failure ''reasonCode'' \<noteq> JsString ''output_validation_failed''
          \<or> js_get failure ''phase'' \<noteq> JsString ''validation''
          \<or> (kind \<noteq> JsString ''duration'' \<and> kind \<noteq> JsString ''validation_check'')
          \<or> (kind = JsString ''validation_check''
             \<and> js_get (js_get failure ''evidence'') ''check'' = JsString ''output_file'')
       then (q, Inl (DomainInvariantError
         ''Only a complete media-validation failure can be retained''))
       else if \<not> om_isFile metadata \<or> om_isSymbolicLink metadata \<or> om_size metadata \<le> 0
          \<or> \<not> om_matchesIdentity metadata \<or> om_ctimeMs metadata \<noteq> fi_changeTimeMs input
       then (q, Inl (DomainInvariantError ''Failed Encode Output file is incomplete or changed''))
       else
         fail A claim ''Encode output validation failed''
           (Some ((given options no_failure_options)
              \<lparr>af_failureReports := Some [failure],
               af_validationFailedOutput := Some (input\<lparr>fi_failure := failure\<rparr>)\<rparr>)) t1 t2 q)"

section \<open>The numbering of failure reports\<close>

definition reports_of :: "encode_catalog \<Rightarrow> string \<Rightarrow> failure_report_row list" where
  "reports_of c i = filter (\<lambda>r. fr_encodeJobId r = i) (failureReports c)"

text \<open>Every job's reports are numbered from one, in the order they were written.\<close>

definition reports_numbered :: "encode_catalog \<Rightarrow> bool" where
  "reports_numbered c \<longleftrightarrow> (\<forall>row \<in> set (failureReports c).
     map fr_sequence (reports_of c (fr_encodeJobId row))
       = map int [1..<Suc (length (reports_of c (fr_encodeJobId row)))])"

lemma reports_numberedD:
  "reports_numbered c \<Longrightarrow> map fr_sequence (reports_of c i) = map int [1..<Suc (length (reports_of c i))]"
proof (cases "reports_of c i")
  case (Cons row rows)
  then have "row \<in> set (reports_of c i)" by simp
  then have "row \<in> set (failureReports c)" and "fr_encodeJobId row = i" by (auto simp: reports_of_def)
  moreover assume "reports_numbered c"
  ultimately show ?thesis unfolding reports_numbered_def by blast
qed simp

lemma reports_numberedI:
  "(\<And>i. map fr_sequence (reports_of c i) = map int [1..<Suc (length (reports_of c i))]) \<Longrightarrow> reports_numbered c"
  by (simp add: reports_numbered_def)

lemma latest_report_sequence_numbered:
  assumes "reports_numbered c"
  shows "latest_report_sequence c i = int (length (reports_of c i))"
proof -
  have "latest_report_sequence c i = Max (insert 0 (set (map fr_sequence (reports_of c i))))"
    by (simp add: latest_report_sequence_def reports_of_def)
  also have "set (map fr_sequence (reports_of c i)) = int ` {1..length (reports_of c i)}"
    unfolding reports_numberedD [OF assms] by (auto simp del: upt_Suc)
  also have "Max (insert 0 (int ` {1..length (reports_of c i)})) = int (length (reports_of c i))"
  proof (rule Max_eqI)
    show "int (length (reports_of c i)) \<in> insert 0 (int ` {1..length (reports_of c i)})"
      by (cases "length (reports_of c i) = 0") (simp_all add: Suc_leI)
  qed auto
  finally show ?thesis .
qed

lemma reports_inserted:
  assumes "fold_result (\<lambda>rows (index, report). insert_failureReport
      (encodeJobFailureReportRecord (drawn index) i report (latest + int index + 1) t) rows)
    rows (enumerate n rs) = Inr rows'"
  shows "map fr_sequence (filter (\<lambda>r. fr_encodeJobId r = i) rows')
      = map fr_sequence (filter (\<lambda>r. fr_encodeJobId r = i) rows)
        @ map (\<lambda>k. latest + int k + 1) [n..<n + length rs]
    \<and> (\<forall>k. k \<noteq> i \<longrightarrow> filter (\<lambda>r. fr_encodeJobId r = k) rows' = filter (\<lambda>r. fr_encodeJobId r = k) rows)"
  using assms
proof (induction rs arbitrary: rows n)
  case Nil
  then show ?case by simp
next
  case (Cons report rs)
  let ?row = "encodeJobFailureReportRecord (drawn n) i report (latest + int n + 1) t"
  from Cons.prems have "fold_result (\<lambda>rows (index, report). insert_failureReport
      (encodeJobFailureReportRecord (drawn index) i report (latest + int index + 1) t) rows)
    (rows @ [?row]) (enumerate (Suc n) rs) = Inr rows'"
    by (auto simp: insert_failureReport_def split: sum.splits if_splits)
  from Cons.IH [OF this] show ?case
    by (simp add: encodeJobFailureReportRecord_def Let_def upt_conv_Cons del: upt_Suc)
qed

lemma reports_latest_first_numbered:
  assumes "reports_numbered c"
  shows "reports_latest_first c i = rev (reports_of c i)"
proof -
  have "sorted (map fr_sequence (reports_of c i))"
    unfolding reports_numberedD [OF assms] sorted_map by (simp del: upt_Suc)
  then show ?thesis
    by (simp add: reports_latest_first_def reports_of_def sort_key_id_if_sorted sorted_sort_id)
qed

text \<open>
  C19: Failure reports are numbered without gaps.  When the reports of every job are numbered one,
  two, three in the order they were written, so they are after any append: the new reports of the
  job continue its numbering, no other job's reports change, and the history shown for the job
  begins with the report written last.
\<close>

theorem failure_reports_stay_numbered:
  assumes "reports_numbered c"
    and "appendEncodeJobFailureReports (Some i) (Some rs) t drawn c = Inr c'"
  shows "reports_numbered c'
    \<and> length (reports_of c' i) = length (reports_of c i) + length rs
    \<and> reports_latest_first c' i = rev (reports_of c' i)
    \<and> map fr_sequence (reports_latest_first c' i)
        = map int (rev [1..<Suc (length (reports_of c i) + length rs)])"
proof -
  let ?n = "length (reports_of c i)"
  from assms(2) obtain rows' where c': "c' = c\<lparr>failureReports := rows'\<rparr>"
    and "fold_result (\<lambda>rows (index, report). insert_failureReport
      (encodeJobFailureReportRecord (drawn index) i report (int ?n + int index + 1) t) rows)
      (failureReports c) (enumerate 0 rs) = Inr rows'"
    by (auto simp: appendEncodeJobFailureReports_def latest_report_sequence_numbered [OF assms(1)]
        Let_def map_sum_Inr)
  note inserted = reports_inserted [OF this(2), folded reports_of_def]
  have others: "reports_of c' k = reports_of c k" if "k \<noteq> i" for k
    using inserted that by (simp add: reports_of_def c')
  have "map fr_sequence (reports_of c' i) = map int [1..<Suc ?n] @ map (\<lambda>k. int ?n + int k + 1) [0..<length rs]"
    using inserted unfolding reports_numberedD [OF assms(1)] by (simp add: reports_of_def c' del: upt_Suc)
  also have "map (\<lambda>k. int ?n + int k + 1) [0..<length rs] = map int [Suc ?n..<Suc ?n + length rs]"
    by (rule nth_equalityI) (simp_all del: upt_Suc)
  also have "map int [1..<Suc ?n] @ map int [Suc ?n..<Suc ?n + length rs] = map int [1..<Suc (?n + length rs)]"
    using upt_add_eq_append [of 1 "Suc ?n" "length rs"] by (simp del: upt_Suc)
  finally have numbers: "map fr_sequence (reports_of c' i) = map int [1..<Suc (?n + length rs)]" .
  then have length: "length (reports_of c' i) = ?n + length rs"
    using arg_cong [OF numbers, of length] unfolding length_map length_upt by simp
  have numbered: "reports_numbered c'"
  proof (rule reports_numberedI)
    show "map fr_sequence (reports_of c' k) = map int [1..<Suc (length (reports_of c' k))]" for k
      using numbers length others [of k] reports_numberedD [OF assms(1), of k] by (cases "k = i") simp_all
  qed
  note latest = reports_latest_first_numbered [OF numbered]
  then show ?thesis using numbered length numbers by (simp add: rev_map flip: rev_map del: upt_Suc)
qed

theorem failure_reports_stay_numbered_witness:
  "\<exists>c'. appendEncodeJobFailureReports (Some ''job-1'') (Some [example_validated, example_validated]) 5
      (\<lambda>n. if n = 0 then ''r1'' else ''r2'') example_catalog = Inr c'
    \<and> reports_numbered c' \<and> map fr_sequence (reports_latest_first c' ''job-1'') = [2, 1]"
proof -
  have "is_ok (appendEncodeJobFailureReports (Some ''job-1'') (Some [example_validated, example_validated]) 5
      (\<lambda>n. if n = 0 then ''r1'' else ''r2'') example_catalog)" by code_simp
  then obtain c' where c': "appendEncodeJobFailureReports (Some ''job-1'')
      (Some [example_validated, example_validated]) 5
      (\<lambda>n. if n = 0 then ''r1'' else ''r2'') example_catalog = Inr c'"
    by (auto simp: is_ok_iff)
  have "reports_numbered example_catalog" by code_simp
  note numbered = failure_reports_stay_numbered [OF this c']
  have "map int (rev [1..<Suc (length (reports_of example_catalog ''job-1'') + length [example_validated, example_validated])])
      = [2, 1]" by code_simp
  with numbered have "map fr_sequence (reports_latest_first c' ''job-1'') = [2, 1]"
    by (elim conjE) (erule trans)
  moreover from numbered have "reports_numbered c'" by (rule conjunct1)
  ultimately show ?thesis using c' by (intro exI conjI)
qed

end
