(* ===== verification/EncodeCreation.thy ===== *)
theory EncodeCreation
  imports EncodeRecords
begin

text \<open>
  How Encode Jobs come to be (\<open>internal/create-data-access.ts\<close>): the operator's enqueue, the
  corrected replacement of an earlier job, and the operator's requeue; with the two small writes
  that other components make to \<open>encode_jobs\<close>, the release of a failed job's output path and the
  result of a filesystem verification.

  The validation of the archive's Disc Selections against its scan
  (\<open>requireReviewableDiscSelections\<close>, \<open>requireCurrentCatalogValidation\<close>) is an argument: its
  result.
\<close>

section \<open>Inserting a job\<close>

text \<open>A new row: what is not given has the default of its column.\<close>

definition new_encode_job ::
  "string \<Rightarrow> string option \<Rightarrow> string \<Rightarrow> string \<Rightarrow> json_value option \<Rightarrow> string \<Rightarrow> int \<Rightarrow> bool \<Rightarrow> int
     \<Rightarrow> encode_job" where
  "new_encode_job i predecessor selection profile decision path priority replaces timestamp =
     \<lparr>ej_id = i, ej_predecessorEncodeJobId = predecessor, ej_discSelectionId = selection,
      ej_encodingProfileId = profile, ej_expectedSourceDecision = decision, ej_outputPath = path,
      ej_reservesOutputPath = True, ej_status = Queued, ej_priority = priority,
      ej_replaceExistingOutput = replaces, ej_replacementOutputIdentity = None,
      ej_partialCleanupOutputPath = None, ej_partialCleanupClaimToken = None,
      ej_partialCleanupLeaseToken = None, ej_publicationPending = False,
      ej_publicationCompletionPending = False, ej_progressPhase = None, ej_progressPercent = 0,
      ej_progressEtaSeconds = None, ej_claimedBy = None, ej_claimToken = None, ej_claimedAt = None,
      ej_startedAt = None, ej_completedAt = None, ej_outputValidationResult = None,
      ej_outputValidationFilesystemIdentity = None, ej_outputValidatedAt = None,
      ej_outputCompleteness = None, ej_errorMessage = None, ej_verificationStatus = None,
      ej_verificationMessage = None, ej_verifiedAt = None, ej_createdAt = timestamp,
      ej_updatedAt = timestamp\<rparr>"

text \<open>The unique indexes of the table.\<close>

definition encode_job_conflicts :: "encode_job \<Rightarrow> encode_job \<Rightarrow> bool" where
  "encode_job_conflicts j k \<longleftrightarrow>
     ej_id j = ej_id k
   \<or> (ej_predecessorEncodeJobId j \<noteq> None \<and> ej_predecessorEncodeJobId j = ej_predecessorEncodeJobId k)
   \<or> (ej_predecessorEncodeJobId j = None \<and> ej_predecessorEncodeJobId k = None
      \<and> ej_discSelectionId j = ej_discSelectionId k
      \<and> ej_encodingProfileId j = ej_encodingProfileId k)
   \<or> (ej_reservesOutputPath j \<and> ej_reservesOutputPath k \<and> ej_outputPath j = ej_outputPath k)"

definition insert_encodeJob :: "encode_job \<Rightarrow> encode_catalog \<Rightarrow> encode_catalog result" where
  "insert_encodeJob j c =
    (if \<not> encode_job_checks j then Inl (SqliteError ''CHECK constraint failed'')
     else if list_ex (encode_job_conflicts j) (encodeJobs c)
     then Inl (SqliteError ''UNIQUE constraint failed'')
     else Inr (c\<lparr>encodeJobs := encodeJobs c @ [j]\<rparr>))"

text \<open>\<open>onConflictDoNothing\<close>.\<close>

definition insert_encodeJob_or_nothing :: "encode_job \<Rightarrow> encode_catalog \<Rightarrow> encode_catalog result" where
  "insert_encodeJob_or_nothing j c =
    (if encode_job_checks j \<and> list_ex (encode_job_conflicts j) (encodeJobs c) then Inr c
     else insert_encodeJob j c)"

section \<open>Enqueueing\<close>

record encode_enqueue_input =
  eq_discSelectionId :: string
  eq_encodingProfileId :: string
  eq_outputPath :: string
  eq_priority :: "int option"
  eq_expectedSourceDecision :: "json_value option"
  eq_mutationKey :: "string option"

definition encodeEnqueueSemanticInput :: "encode_enqueue_input \<Rightarrow> string result" where
  "encodeEnqueueSemanticInput input =
    (case requireNonEmpty (eq_outputPath input) ''outputPath'' of
       Inl e \<Rightarrow> Inl e
     | Inr outputPath \<Rightarrow> Inr (json_stringify (JObject
        ([(''discSelectionId'', JString (eq_discSelectionId input)),
          (''encodingProfileId'', JString (eq_encodingProfileId input)),
          (''outputPath'', JString outputPath),
          (''priority'', JInt (given (eq_priority input) 0))]
         @ (case eq_expectedSourceDecision input of None \<Rightarrow> []
            | Some d \<Rightarrow> [(''expectedSourceDecision'', canonical_value d)])))))"

text \<open>An archive that has recovery evidence, or an archive job that recorded its format.\<close>

definition has_evidence_format :: "encode_gate \<Rightarrow> encode_catalog \<Rightarrow> string \<Rightarrow> bool" where
  "has_evidence_format g c archiveId \<longleftrightarrow> hasDvdRecoveryEvidenceSchema g
   \<and> (list_ex (\<lambda>h. eh_originalDiscArchiveId h = archiveId) (evidenceHeaders c)
      \<or> list_ex (\<lambda>a. aj_originalDiscArchiveId a = Some archiveId \<and> aj_evidenceFormat a \<noteq> None)
          (archiveJobs c))"

definition require_enqueueable_source ::
  "encode_gate \<Rightarrow> encode_catalog \<Rightarrow> string \<Rightarrow> unit result" where
  "require_enqueueable_source g c selectionId =
    (case find_discSelection c selectionId of
       None \<Rightarrow> Inl (RecordNotFoundError ''disc selection'' selectionId)
     | Some s \<Rightarrow>
       (case find_originalDiscArchive c (ds_originalDiscArchiveId s) of
          None \<Rightarrow> Inl (RecordNotFoundError ''disc selection'' selectionId)
        | Some a \<Rightarrow>
          if \<not> ds_isCatalogActive s then Inl (RecordNotFoundError ''disc selection'' selectionId)
          else check_all
            [requireNoArchiveRecoveryWork c (oa_id a),
             reject_if (dvdRecoveryEvidenceEncodingGateClosed g \<and> has_evidence_format g c (oa_id a))
               DvdRecoveryEvidenceEncodingUnavailableError,
             reject_if (oa_catalogReviewOutcome a \<noteq> ReviewedWithSelections
                 \<or> oa_legacyCutoverPending a)
               (DomainInvariantError ''Encode Jobs require a completed catalog review'')]))"

definition initial_job_of :: "encode_enqueue_input \<Rightarrow> encode_job \<Rightarrow> bool" where
  "initial_job_of input j \<longleftrightarrow> ej_discSelectionId j = eq_discSelectionId input
     \<and> ej_encodingProfileId j = eq_encodingProfileId input \<and> ej_predecessorEncodeJobId j = None"

fun joined :: "string \<Rightarrow> string list \<Rightarrow> string" where
  "joined separator [] = []"
| "joined separator [s] = s"
| "joined separator (s # t # rest) = s @ separator @ joined separator (t # rest)"

definition require_queueable_profile :: "encode_catalog \<Rightarrow> string \<Rightarrow> unit result" where
  "require_queueable_profile c profileId =
    (case find (\<lambda>p. pf_id p = profileId) (encodingProfiles c) of
       None \<Rightarrow> Inl (RecordNotFoundError ''encoding profile'' profileId)
     | Some p \<Rightarrow>
         let reasons = encodingProfileQueueBlockingReasons p in
         reject_if (reasons \<noteq> [])
           (DomainInvariantError
             (''Encode Jobs require an active DVD video Encoding Profile with supported settings: ''
              @ joined '', '' (map reason_text reasons))))"

text \<open>
  The transaction of \<open>enqueue\<close> that writes.  \<open>assertion\<close> is the result of the caller's
  \<open>assertSourceDecision\<close>, \<open>validation\<close> that of the archive's validation.
\<close>

definition enqueue_encodeJob ::
  "encode_gate \<Rightarrow> encode_enqueue_input \<Rightarrow> unit result \<Rightarrow> unit result \<Rightarrow> string \<Rightarrow> int \<Rightarrow> int
     \<Rightarrow> encode_catalog \<Rightarrow> encode_job encode_transaction" where
  "enqueue_encodeJob g input assertion validation drawnId timestamp recordedAt c =
    (case (requireNonEmpty (eq_outputPath input) ''outputPath'', encodeEnqueueSemanticInput input) of
       (Inr outputPath, Inr semanticInput) \<Rightarrow>
         let save = saveEncodeMutation (eq_mutationKey input) ''encode_job.enqueue'' semanticInput
               recordedAt in
         (case replayEncodeMutation c (eq_mutationKey input) ''encode_job.enqueue'' semanticInput of
            Inl e \<Rightarrow> Inl e
          | Inr (Some replay) \<Rightarrow> Inr (replay, c)
          | Inr None \<Rightarrow>
            (case check_all [assertion, require_enqueueable_source g c (eq_discSelectionId input),
                    validation] of
               Inl e \<Rightarrow> Inl e
             | Inr _ \<Rightarrow>
               (case find (initial_job_of input) (encodeJobs c) of
                  Some existing \<Rightarrow> save existing c
                | None \<Rightarrow>
                  (case check_all
                     [reject_if (list_ex (\<lambda>j. ej_outputPath j = outputPath \<and> ej_reservesOutputPath j
                          \<and> \<not> initial_job_of input j) (encodeJobs c))
                        (DomainInvariantError
                          (''Encode Job output is already assigned: '' @ outputPath)),
                      require_queueable_profile c (eq_encodingProfileId input)] of
                     Inl e \<Rightarrow> Inl e
                   | Inr _ \<Rightarrow>
                     (case insert_encodeJob_or_nothing
                             (new_encode_job drawnId None (eq_discSelectionId input)
                               (eq_encodingProfileId input) (eq_expectedSourceDecision input)
                               outputPath (given (eq_priority input) 0) False timestamp) c of
                        Inl e \<Rightarrow> Inl e
                      | Inr c' \<Rightarrow>
                        (case find (initial_job_of input) (encodeJobs c') of
                           None \<Rightarrow> Inl (RecordNotFoundError ''encode job''
                             (eq_discSelectionId input @ ''/'' @ eq_encodingProfileId input))
                         | Some j \<Rightarrow> save j c'))))))
     | (Inl e, _) \<Rightarrow> Inl e
     | (_, Inl e) \<Rightarrow> Inl e)"

section \<open>Corrected replacements\<close>

record corrected_replacement_input =
  cr_encodingProfileId :: string
  cr_outputPath :: string
  cr_priority :: "int option"

record corrected_replacement =
  cr_input :: corrected_replacement_input
  cr_predecessor :: encode_job
  cr_validatedPath :: string
  cr_replacesExistingOutput :: bool

definition validateCorrectedEncodeReplacement ::
  "encode_catalog \<Rightarrow> corrected_replacement_input \<Rightarrow> encode_job \<Rightarrow> corrected_replacement result" where
  "validateCorrectedEncodeReplacement c input predecessor =
    (case find (\<lambda>p. pf_id p = cr_encodingProfileId input) (encodingProfiles c) of
       None \<Rightarrow> Inl (RecordNotFoundError ''encoding profile'' (cr_encodingProfileId input))
     | Some profile \<Rightarrow>
       if cr_encodingProfileId input \<noteq> ej_encodingProfileId predecessor
          \<and> (\<not> pf_isActive profile \<or> pf_mediaDomain profile \<noteq> ''dvd_video'')
       then Inl (DomainInvariantError
         ''Corrected replacement encodes require the prior or an active DVD video Encoding Profile'')
       else
         (case requireNonEmpty (cr_outputPath input) ''outputPath'' of
            Inl e \<Rightarrow> Inl e
          | Inr outputPath \<Rightarrow>
            (case check_all
               [reject_if (list_ex (\<lambda>j. ej_outputPath j = outputPath \<and> ej_reservesOutputPath j
                    \<and> ej_id j \<noteq> ej_id predecessor) (encodeJobs c))
                  (DomainInvariantError (''Encode Job output is already assigned: '' @ outputPath)),
                reject_if (case cr_priority input of None \<Rightarrow> False | Some n \<Rightarrow> \<not> is_safe_integer n)
                  (DomainInvariantError ''priority must be a safe integer'')] of
               Inl e \<Rightarrow> Inl e
             | Inr _ \<Rightarrow> Inr \<lparr>cr_input = input, cr_predecessor = predecessor,
                 cr_validatedPath = outputPath,
                 cr_replacesExistingOutput = (outputPath = ej_outputPath predecessor
                   \<and> (ej_status predecessor = Completed \<or> ej_replaceExistingOutput predecessor))\<rparr>)))"

definition insertCorrectedEncodeReplacementJob ::
  "corrected_replacement \<Rightarrow> string \<Rightarrow> string \<Rightarrow> string \<Rightarrow> string \<Rightarrow> int \<Rightarrow> encode_catalog
     \<Rightarrow> encode_job encode_transaction" where
  "insertCorrectedEncodeReplacementJob candidate archiveId capabilityArchiveId selectionId drawnId
     timestamp c =
    (let predecessor = cr_predecessor candidate; input = cr_input candidate in
     if capabilityArchiveId \<noteq> archiveId then
       Inl (DomainInvariantError
         ''Corrected Encode replacement evidence capability does not match the target archive'')
     else
       (case (if cr_validatedPath candidate = ej_outputPath predecessor
                 \<and> ej_reservesOutputPath predecessor
              then map_sum id snd (update_encodeJobs (\<lambda>j. ej_id j = ej_id predecessor)
                (\<lambda>j. j\<lparr>ej_reservesOutputPath := False, ej_updatedAt := timestamp\<rparr>) c)
              else Inr c) of
          Inl e \<Rightarrow> Inl e
        | Inr c1 \<Rightarrow>
            let j = new_encode_job drawnId (Some (ej_id predecessor)) selectionId
                  (cr_encodingProfileId input) None (cr_validatedPath candidate)
                  (given (cr_priority input) (ej_priority predecessor))
                  (cr_replacesExistingOutput candidate) timestamp in
            map_sum id (Pair j) (insert_encodeJob j c1)))"

section \<open>Requeueing by the operator\<close>

definition require_retained_requeue_path ::
  "encode_catalog \<Rightarrow> string \<Rightarrow> encode_requeue_options \<Rightarrow> unit result" where
  "require_retained_requeue_path c jobId options =
    (if ro_mutationKey options \<noteq> None \<and> ro_outputPath options \<noteq> None then
       (case find_encodeJob c jobId of
          None \<Rightarrow> Inr ()
        | Some current \<Rightarrow>
            reject_if ((ej_status current = Completed \<or> ej_replaceExistingOutput current)
                \<and> Some (ej_outputPath current) \<noteq> ro_outputPath options)
              (DomainInvariantError ''This Encode Job must retain its output path when requeued''))
     else Inr ())"

text \<open>
  \<open>encodeJobs.requeue\<close>, run without another process between its transactions: then what it
  replays after an error is what it replayed before, and only the assertion of the source may
  take precedence over a rejected transition.
\<close>

definition encodeJobs_requeue ::
  "encode_adapter \<Rightarrow> string \<Rightarrow> encode_requeue_options \<Rightarrow> int \<Rightarrow> encode_queue
     \<Rightarrow> encode_queue \<times> encode_job result" where
  "encodeJobs_requeue A jobId givenOptions timestamp q =
    (case (case ro_outputPath givenOptions of
             None \<Rightarrow> Inr None
           | Some path \<Rightarrow> map_sum id Some (requireNonEmpty path ''outputPath'')) of
       Inl e \<Rightarrow> (q, Inl e)
     | Inr outputPath \<Rightarrow>
       let options = givenOptions\<lparr>ro_outputPath := outputPath\<rparr>; c = queue_catalog q in
       if (case ro_priority options of None \<Rightarrow> False | Some n \<Rightarrow> \<not> is_safe_integer n)
       then (q, Inl (DomainInvariantError ''priority must be a safe integer''))
       else
         (case replayEncodeMutation c (ro_mutationKey options) ''encode_job.requeue''
                 (encodeRequeueSemanticInput jobId options) of
            Inl e \<Rightarrow> (q, Inl e)
          | Inr (Some replay) \<Rightarrow> (q, Inr replay)
          | Inr None \<Rightarrow>
            (case require_retained_requeue_path c jobId options of
               Inl e \<Rightarrow> (q, Inl e)
             | Inr _ \<Rightarrow>
               (case requeue A requeueFrom jobId (Some options) timestamp q of
                  (q', Inr j) \<Rightarrow> (q', Inr j)
                | (q', Inl e) \<Rightarrow>
                    (q', case (e, ro_assertSourceDecision options) of
                       (InvalidStatusTransitionError _ _ _, Some (Inl e')) \<Rightarrow> Inl e'
                     | _ \<Rightarrow> Inl e)))))"

section \<open>Writes of other components\<close>

text \<open>
  When a Disc Selection with history is withdrawn or replaced, its failed jobs release their
  output paths.
\<close>

definition releaseFailedReservations :: "string \<Rightarrow> encode_catalog \<Rightarrow> unit encode_transaction" where
  "releaseFailedReservations selectionId c =
     map_sum id (\<lambda>(_, c'). ((), c'))
       (update_encodeJobs (\<lambda>j. ej_discSelectionId j = selectionId \<and> ej_status j = Failed)
         (\<lambda>j. j\<lparr>ej_reservesOutputPath := False\<rparr>) c)"

record filesystem_verification =
  fv_status :: filesystem_verification_status
  fv_message :: string
  fv_verifiedAt :: int

definition recordOutputVerification ::
  "string \<Rightarrow> string \<Rightarrow> filesystem_verification \<Rightarrow> encode_catalog \<Rightarrow> encode_job encode_transaction" where
  "recordOutputVerification jobId path verification c =
    (case update_encodeJob (\<lambda>j. ej_id j = jobId \<and> ej_outputPath j = path)
            (\<lambda>j. j\<lparr>ej_verificationStatus := Some (fv_status verification),
               ej_verificationMessage := Some (fv_message verification),
               ej_verifiedAt := Some (fv_verifiedAt verification)\<rparr>) c of
       Inl e \<Rightarrow> Inl e
     | Inr (None, c') \<Rightarrow> Inl (DomainInvariantError ''Verification target changed during checking'')
     | Inr (Some updated, c') \<Rightarrow> Inr (updated, c'))"

section \<open>The remaining writes keep the discipline\<close>

lemma recordReplacementOutputIdentity_steps:
  assumes "catalog_wf c" and "recordReplacementOutputIdentity g claim i t c = Inr (r, c')"
  shows "steps c c'"
proof -
  let ?P = "\<lambda>j. encodeAttemptCondition g c claim t j \<and> ej_replaceExistingOutput j
      \<and> ej_replacementOutputIdentity j \<in> {None, Some i}"
  let ?row = "\<lambda>j. j\<lparr>ej_replacementOutputIdentity := Some i, ej_updatedAt := t\<rparr>"
  from assms(2) obtain r1 where update: "update_encodeJob ?P ?row c = Inr (r1, c')"
    by (auto simp: recordReplacementOutputIdentity_def map_sum_Inr split: option.splits sum.splits)
  show ?thesis by (rule update_one_steps [OF assms(1) update], rule job_step_unmoved) simp_all
qed

lemma releaseFailedReservations_steps:
  assumes "catalog_wf c" and "releaseFailedReservations s c = Inr (r, c')"
  shows "steps c c'"
proof -
  from assms(2) obtain changed where update: "update_encodeJobs
      (\<lambda>j. ej_discSelectionId j = s \<and> ej_status j = Failed)
      (\<lambda>j. j\<lparr>ej_reservesOutputPath := False\<rparr>) c = Inr (changed, c')"
    by (auto simp: releaseFailedReservations_def map_sum_Inr)
  show ?thesis by (rule update_steps [OF assms(1) update], rule job_step_unmoved) simp_all
qed

lemma recordOutputVerification_steps:
  assumes "catalog_wf c" and "recordOutputVerification i p v c = Inr (r, c')"
  shows "steps c c'"
proof -
  let ?row = "\<lambda>j. j\<lparr>ej_verificationStatus := Some (fv_status v),
      ej_verificationMessage := Some (fv_message v), ej_verifiedAt := Some (fv_verifiedAt v)\<rparr>"
  from assms(2) obtain r1 where
      update: "update_encodeJob (\<lambda>j. ej_id j = i \<and> ej_outputPath j = p) ?row c = Inr (r1, c')"
    by (auto simp: recordOutputVerification_def split: option.splits sum.splits)
  show ?thesis by (rule update_one_steps [OF assms(1) update], rule job_step_unmoved) simp_all
qed

text \<open>The jobs there were have moved along the machine, and new ones wait in the queue.\<close>

definition grows :: "encode_catalog \<Rightarrow> encode_catalog \<Rightarrow> bool" where
  "grows c c' \<longleftrightarrow> catalog_wf c' \<and>
     (\<exists>c1 new. steps c c1 \<and> encodeJobs c' = encodeJobs c1 @ new
        \<and> list_all (\<lambda>j. claim_view j = (Queued, None)) new)"

lemma steps_grows: "steps c c' \<Longrightarrow> grows c c'"
  by (auto simp: grows_def intro!: exI [of _ "[]"] exI [of _ c'] dest: steps_wf)

lemma new_encode_job_fields [simp]:
  "ej_id (new_encode_job i p s f d path n r t) = i"
  "claim_view (new_encode_job i p s f d path n r t) = (Queued, None)"
  "disciplined (new_encode_job i p s f d path n r t)"
  by (simp_all add: new_encode_job_def claim_view_def disciplined_def)

lemma reserved_paths_append [simp]:
  "reserved_paths (xs @ ys) = reserved_paths xs @ reserved_paths ys"
  by (simp add: reserved_paths_def)

lemma insert_encodeJob_grows:
  assumes "steps c c1" and "insert_encodeJob j c1 = Inr c'" and "claim_view j = (Queued, None)"
    and "disciplined j"
  shows "grows c c'"
proof -
  from assms(2) have c': "c' = c1\<lparr>encodeJobs := encodeJobs c1 @ [j]\<rparr>" and "encode_job_checks j"
    and distinct: "\<And>k. k \<in> set (encodeJobs c1) \<Longrightarrow> \<not> encode_job_conflicts j k"
    by (auto simp: insert_encodeJob_def list_ex_iff split: if_splits)
  have "distinct (reserved_paths (encodeJobs c1 @ [j]))"
    using catalog_wf_paths [OF steps_wf [OF assms(1)]] distinct
    by (auto simp: reserved_paths_def encode_job_conflicts_def)
  moreover have "unique_ids c'"
    using catalog_wf_unique_ids [OF steps_wf [OF assms(1)]] distinct
    by (auto simp: unique_ids_def c' encode_job_conflicts_def)
  ultimately have "catalog_wf c'"
    using steps_wf [OF assms(1)] assms(4) \<open>encode_job_checks j\<close> by (simp add: catalog_wf_def c')
  then show ?thesis unfolding grows_def using assms(1,3) c' by auto
qed

lemma insertCorrectedEncodeReplacementJob_grows:
  assumes "catalog_wf c"
    and "insertCorrectedEncodeReplacementJob candidate a b s i t c = Inr (r, c')"
  shows "grows c c'"
proof -
  let ?release = "update_encodeJobs (\<lambda>j. ej_id j = ej_id (cr_predecessor candidate))
      (\<lambda>j. j\<lparr>ej_reservesOutputPath := False, ej_updatedAt := t\<rparr>) c"
  from assms(2) obtain c1 where released: "c1 = c \<or> (\<exists>changed. ?release = Inr (changed, c1))"
    and inserted: "insert_encodeJob (new_encode_job i (Some (ej_id (cr_predecessor candidate))) s
        (cr_encodingProfileId (cr_input candidate)) None (cr_validatedPath candidate)
        (given (cr_priority (cr_input candidate)) (ej_priority (cr_predecessor candidate)))
        (cr_replacesExistingOutput candidate) t) c1 = Inr c'"
    unfolding insertCorrectedEncodeReplacementJob_def Let_def
    by (simp add: map_sum_Inr split: sum.splits if_splits; blast)
  from released have "steps c c1"
  proof
    assume "\<exists>changed. ?release = Inr (changed, c1)"
    then obtain changed where "?release = Inr (changed, c1)" ..
    then show ?thesis by (rule update_steps [OF assms(1)]) (rule job_step_unmoved, simp_all)
  qed (simp add: steps_refl [OF assms(1)])
  then show ?thesis using inserted by (rule insert_encodeJob_grows) simp_all
qed

lemma grows_jobs: "grows c c' \<Longrightarrow> encodeJobs c'' = encodeJobs c' \<Longrightarrow> grows c c''"
  using catalog_wf_jobs [of c'' c'] by (auto simp: grows_def)

lemma insert_or_nothing_grows:
  assumes "catalog_wf c" and "insert_encodeJob_or_nothing j c = Inr c'"
    and "claim_view j = (Queued, None)" and "disciplined j"
  shows "grows c c'"
  using assms insert_encodeJob_grows [OF steps_refl [OF assms(1)]] steps_grows [OF steps_refl [OF assms(1)]]
  by (auto simp: insert_encodeJob_or_nothing_def split: if_splits)

lemma enqueue_grows:
  assumes wf: "catalog_wf c" and call: "enqueue_encodeJob g input a v d t rec c = Inr (r, c')"
  shows "grows c c'"
proof -
  from call obtain path semanticInput replay where
      inputs: "requireNonEmpty (eq_outputPath input) ''outputPath'' = Inr path"
        "encodeEnqueueSemanticInput input = Inr semanticInput"
    and replay: "replayEncodeMutation c (eq_mutationKey input) ''encode_job.enqueue'' semanticInput = Inr replay"
    by (auto simp: enqueue_encodeJob_def Let_def split: sum.splits)
  note body = call [unfolded enqueue_encodeJob_def inputs prod.case sum.case Let_def replay]
  show ?thesis
  proof (cases replay)
    case (Some j)
    with body show ?thesis using steps_grows [OF steps_refl [OF wf]] by simp
  next
    case None
    show ?thesis
    proof (cases "find (initial_job_of input) (encodeJobs c)")
      case (Some j)
      with body \<open>replay = None\<close> have "encodeJobs c' = encodeJobs c"
        by (auto dest!: saveEncodeMutation_jobs split: sum.splits)
      with steps_grows [OF steps_refl [OF wf]] show ?thesis by (rule grows_jobs)
    next
      case None
      with body \<open>replay = None\<close> obtain c1 where inserted: "insert_encodeJob_or_nothing
          (new_encode_job d None (eq_discSelectionId input) (eq_encodingProfileId input)
            (eq_expectedSourceDecision input) path (given (eq_priority input) 0) False t) c = Inr c1"
        and "encodeJobs c' = encodeJobs c1"
        by (auto dest!: saveEncodeMutation_jobs split: sum.splits option.splits)
      from insert_or_nothing_grows [OF wf inserted] have "grows c c1" by simp
      then show ?thesis using \<open>encodeJobs c' = _\<close> by (rule grows_jobs)
    qed
  qed
qed

end
