(* ===== verification/EncodeSystem.thy ===== *)
theory EncodeSystem
  imports EncodeCreation
begin

text \<open>
  The encode queue as a whole: any number of workers and operators run the transactions of
  \<open>EncodeJobs\<close>, \<open>EncodePublication\<close>, \<open>EncodeRecords\<close> and \<open>EncodeCreation\<close> in any order, each
  with whatever claim or cleanup authority it holds.  The abstract specification is a map from
  jobs to their status and claim token with the set of tokens ever issued; each transaction
  implements a step of it.
\<close>

section \<open>The specification\<close>

type_synonym claim_map = "(string \<Rightarrow> claim_view option) \<times> string set"

text \<open>
  Jobs move along the machine of \<open>moves\<close> and new ones are queued; or a queued job is claimed with
  a token that was never issued before.
\<close>

inductive spec_step :: "claim_map \<Rightarrow> claim_map \<Rightarrow> bool" where
  jobs_move: "(\<And>i v. V i = Some v \<Longrightarrow> \<exists>v'. V' i = Some v' \<and> moves_on v v') \<Longrightarrow>
     (\<And>i. V i = None \<Longrightarrow> V' i \<in> {None, Some (Queued, None)}) \<Longrightarrow>
     spec_step (V, T) (V', T)"
| job_claimed: "V i = Some (Queued, None) \<Longrightarrow> t \<notin> T \<Longrightarrow>
     spec_step (V, T) (V(i \<mapsto> (Running, Some t)), insert t T)"

text \<open>Tokens are issued to one job each.\<close>

definition tokens_exclusive :: "claim_map \<Rightarrow> bool" where
  "tokens_exclusive S \<longleftrightarrow>
     (\<forall>i s t. fst S i = Some (s, Some t) \<longrightarrow> t \<in> snd S)
   \<and> (\<forall>i k s s' t. fst S i = Some (s, Some t) \<longrightarrow> fst S k = Some (s', Some t) \<longrightarrow> i = k)"

lemma jobs_move_bears:
  assumes "\<And>i v. V i = Some v \<Longrightarrow> \<exists>v'. V' i = Some v' \<and> moves_on v v'"
    and "\<And>i. V i = None \<Longrightarrow> V' i \<in> {None, Some (Queued, None)}"
    and "V' i = Some (s, Some t)"
  obtains s' where "V i = Some (s', Some t)"
proof (cases "V i")
  case None
  with assms(2) [of i] assms(3) show thesis by auto
next
  case (Some v)
  with assms(1) [of i v] assms(3) have "moves_on v (s, Some t)" by auto
  then have "snd v = Some t" by (rule moves_on_keep_token) simp
  with Some show thesis by (intro that [of "fst v"]) (simp add: prod_eq_iff)
qed

lemma spec_step_exclusive: "spec_step S S' \<Longrightarrow> tokens_exclusive S \<Longrightarrow> tokens_exclusive S'"
proof (induction rule: spec_step.induct)
  case (jobs_move V V' T)
  have bears: "\<exists>s'. V i = Some (s', Some t)" if "V' i = Some (s, Some t)" for i s t
    by (rule jobs_move_bears [of V V' i s t]) (use jobs_move(1,2) that in blast)+
  have issued: "t \<in> T" if "V i = Some (s, Some t)" for i s t
    using jobs_move(3) that by (auto simp: tokens_exclusive_def)
  have exclusive: "i = k" if "V i = Some (s, Some t)" "V k = Some (s', Some t)" for i k s s' t
    using jobs_move(3) that unfolding tokens_exclusive_def fst_conv by blast
  show ?case unfolding tokens_exclusive_def fst_conv snd_conv
    by (intro conjI allI impI) (use bears issued exclusive in metis)+
next
  case (job_claimed V i t T)
  then show ?case by (auto simp: tokens_exclusive_def split: if_splits)
qed

text \<open>A token that a job does not bear, once issued, it never bears again.\<close>

definition superseded :: "string \<Rightarrow> string \<Rightarrow> claim_map \<Rightarrow> bool" where
  "superseded i t S \<longleftrightarrow> t \<in> snd S \<and> (\<exists>v. fst S i = Some v \<and> snd v \<noteq> Some t)"

lemma spec_step_superseded: "spec_step S S' \<Longrightarrow> superseded i t S \<Longrightarrow> superseded i t S'"
proof (induction rule: spec_step.induct)
  case (jobs_move V V' T)
  then obtain v where v: "V i = Some v" "snd v \<noteq> Some t" and "t \<in> T"
    by (auto simp: superseded_def)
  with jobs_move(1) obtain v' where "V' i = Some v'" and "moves_on v v'" by blast
  with v \<open>t \<in> T\<close> moves_on_keep_token [of v v' t] show ?case by (auto simp: superseded_def)
next
  case (job_claimed V k u T)
  then show ?case by (auto simp: superseded_def)
qed

lemma spec_steps_superseded: "spec_step\<^sup>*\<^sup>* S S' \<Longrightarrow> superseded i t S \<Longrightarrow> superseded i t S'"
  by (induction rule: rtranclp_induct) (auto intro: spec_step_superseded)

lemma spec_steps_exclusive: "spec_step\<^sup>*\<^sup>* S S' \<Longrightarrow> tokens_exclusive S \<Longrightarrow> tokens_exclusive S'"
  by (induction rule: rtranclp_induct) (auto intro: spec_step_exclusive)

section \<open>The transactions\<close>

type_synonym encode_state = "encode_catalog \<times> string set"

text \<open>
  One committed operation.  The tokens issued so far are a ghost: \<open>newId\<close> is a random UUID, and
  that it differs from every token issued before is the premise of \<open>claimed\<close>.  The last rule is
  everything else that happens to the catalog: no other code writes \<open>encode_jobs\<close>.
\<close>

inductive encode_step :: "encode_state \<Rightarrow> encode_state \<Rightarrow> bool" where
  claimed: "claim_encodeJob g w token t options c = Inr (Some claim, c') \<Longrightarrow> token \<notin> T \<Longrightarrow>
     encode_step (c, T) (c', insert token T)"
| attempt: "au_status u \<in> {None, Some Completed, Some Failed} \<Longrightarrow>
     updateAttempt_encodeJob g o' d claim u fo c = Inr (r, c') \<Longrightarrow> encode_step (c, T) (c', T)"
| progress: "au_status u \<in> {None, Some Completed, Some Failed} \<Longrightarrow>
     updateProgressAttempt_encodeJob g o' d claim u details fo c = Inr (r, c') \<Longrightarrow>
     encode_step (c, T) (c', T)"
| requeued_from: "s \<in> set requeueFrom \<Longrightarrow>
     requeue_encodeJob g i s current t rec options c = Inr (r, c') \<Longrightarrow> encode_step (c, T) (c', T)"
| cancel: "requestCancellation i key t rec c = Inr (j, c') \<Longrightarrow> encode_step (c, T) (c', T)"
| cancelled: "completeEncodeCancellation claim reports cleanup t d c = Inr (j, c') \<Longrightarrow>
     encode_step (c, T) (c', T)"
| cancelled_with_reports: "completeCancellationWithReports claim cleanup inputs t d c = Inr (j, c') \<Longrightarrow>
     encode_step (c, T) (c', T)"
| cancellation_expired: "completeExpiredCancellation claim t c = Inr (j, c') \<Longrightarrow>
     encode_step (c, T) (c', T)"
| renewed: "renewClaim claim t c = Inr (j, c') \<Longrightarrow> encode_step (c, T) (c', T)"
| recovered: "recoverExpiredClaims t d c = Inr (js, c') \<Longrightarrow> encode_step (c, T) (c', T)"
| identified: "recordReplacementOutputIdentity g claim i t c = Inr (j, c') \<Longrightarrow> encode_step (c, T) (c', T)"
| registered: "registerPartialCleanup g claim pending t c = Inr (p, c') \<Longrightarrow> encode_step (c, T) (c', T)"
| revoked: "revokePublication claim cleanup t c = Inr (p, c') \<Longrightarrow> encode_step (c, T) (c', T)"
| cleanup_claimed: "claimPartialCleanup cleanup l t c = Inr (p, c') \<Longrightarrow> encode_step (c, T) (c', T)"
| cleanup_renewed: "renewPartialCleanup cleanup t c = Inr (p, c') \<Longrightarrow> encode_step (c, T) (c', T)"
| cleaned_up: "completePartialCleanup cleanup i t c = Inr (j, c') \<Longrightarrow> encode_step (c, T) (c', T)"
| publishing: "beginPublicationMutation g fs claim cleanup path l t c = Inr (p, c') \<Longrightarrow>
     encode_step (c, T) (c', T)"
| abandoned: "recoverExpiredPublicationMutation cleanup report t d c = Inr (j, c') \<Longrightarrow>
     encode_step (c, T) (c', T)"
| published_mutation: "completePublishedMutation cleanup before after p d t1 t2 c = (c', r) \<Longrightarrow>
     encode_step (c, T) (c', T)"
| published_renewed: "renewPublishedPartial cleanup matches l t c = (c', r') \<Longrightarrow>
     encode_step (c, T) (c', T)"
| published_partial: "completePublishedPartial cleanup before after p l d t1 t2 t3 c = (c', r'') \<Longrightarrow>
     encode_step (c, T) (c', T)"
| published_claim: "completePublishedClaim g claim cleanup before after p d t1 t2 c = (c', r) \<Longrightarrow>
     encode_step (c, T) (c', T)"
| enqueued: "enqueue_encodeJob g input a v d' t rec c = Inr (j, c') \<Longrightarrow> encode_step (c, T) (c', T)"
| corrected: "insertCorrectedEncodeReplacementJob candidate a' b s' i t c = Inr (j, c') \<Longrightarrow>
     encode_step (c, T) (c', T)"
| released: "releaseFailedReservations s' c = Inr (x, c') \<Longrightarrow> encode_step (c, T) (c', T)"
| verified: "recordOutputVerification i path' v' c = Inr (j, c') \<Longrightarrow> encode_step (c, T) (c', T)"
| elsewhere: "encodeJobs c' = encodeJobs c \<Longrightarrow> encode_step (c, T) (c', T)"

definition claims_of :: "encode_state \<Rightarrow> claim_map" where
  "claims_of = (\<lambda>(c, T). (\<lambda>i. map_option claim_view (find_encodeJob c i), T))"

text \<open>A catalog that nobody has claimed a job of.\<close>

definition initial_state :: "encode_state \<Rightarrow> bool" where
  "initial_state = (\<lambda>(c, T). catalog_wf c \<and> T = {} \<and> list_all (\<lambda>j. ej_claimToken j = None) (encodeJobs c))"

section \<open>Refinement\<close>

lemma find_moved:
  assumes "list_all2 moved xs ys"
  shows "case find (\<lambda>j. ej_id j = i) xs of
      None \<Rightarrow> find (\<lambda>j. ej_id j = i) ys = None
    | Some j \<Rightarrow> \<exists>j'. find (\<lambda>j. ej_id j = i) ys = Some j' \<and> moves_on (claim_view j) (claim_view j')"
  using assms
  by (induction rule: list_all2_induct) (auto simp: moved_def split: option.splits)

lemma find_appended: "find P (xs @ ys) = (case find P xs of None \<Rightarrow> find P ys | Some x \<Rightarrow> Some x)"
  by (induction xs) auto

lemma grows_spec:
  assumes "grows c c'"
  shows "spec_step (claims_of (c, T)) (claims_of (c', T))"
proof -
  from assms obtain c1 new where "steps c c1" and jobs: "encodeJobs c' = encodeJobs c1 @ new"
    and "list_all (\<lambda>j. claim_view j = (Queued, None)) new"
    unfolding grows_def by blast
  then have moved: "list_all2 moved (encodeJobs c) (encodeJobs c1)"
    and new: "\<And>j. j \<in> set new \<Longrightarrow> claim_view j = (Queued, None)"
    by (auto simp: steps_def list_all_iff)
  note found = find_moved [OF moved]
  show ?thesis unfolding claims_of_def prod.case
  proof (rule jobs_move, goal_cases)
    case (1 i v)
    with found [of i] show ?case
      by (auto simp: find_encodeJob_def jobs find_appended simp del: split_paired_Ex split: option.splits)
  next
    case (2 i)
    have "find (\<lambda>j. ej_id j = i) new = Some j \<Longrightarrow> claim_view j = (Queued, None)" for j
      by (auto simp: find_Some_iff intro: new)
    with 2 found [of i] show ?case
      by (auto simp: find_encodeJob_def jobs find_appended split: option.splits)
  qed
qed

lemma claims_spec:
  assumes "catalog_wf c" and "claims token c c'" and "token \<notin> T"
  shows "spec_step (claims_of (c, T)) (claims_of (c', insert token T))"
proof -
  from assms(2) obtain j claim where j: "j \<in> set (encodeJobs c)" "claim_view j = (Queued, None)"
    and claim: "ej_id claim = ej_id j" "claim_view claim = (Running, Some token)"
    and jobs: "encodeJobs c' = map (\<lambda>k. if ej_id k = ej_id claim then claim else k) (encodeJobs c)"
    by (auto simp: claims_def)
  note found = find_encodeJob_replaced [OF jobs j(1) claim(1) [symmetric]]
  have "find_encodeJob c (ej_id claim) = Some j"
    using find_encodeJob_member [OF catalog_wf_unique_ids [OF assms(1)] j(1)] claim(1) by simp
  then have "map_option claim_view (find_encodeJob c (ej_id claim)) = Some (Queued, None)"
    using j(2) by simp
  moreover have "(\<lambda>i. map_option claim_view (find_encodeJob c' i))
      = (\<lambda>i. map_option claim_view (find_encodeJob c i))(ej_id claim \<mapsto> (Running, Some token))"
    using found claim(2) by (auto simp: fun_eq_iff)
  ultimately show ?thesis unfolding claims_of_def prod.case
    using job_claimed [of "\<lambda>i. map_option claim_view (find_encodeJob c i)", OF _ assms(3)] by simp
qed

text \<open>Every operation but a claim makes the catalog grow.\<close>

lemmas transaction_steps = updateAttempt_steps updateProgressAttempt_steps requestCancellation_steps
  completeEncodeCancellation_steps completeCancellationWithReports_steps
  completeExpiredCancellation_steps renewClaim_steps recoverExpiredClaims_steps
  recordReplacementOutputIdentity_steps registerPartialCleanup_steps revokePublication_steps
  claimPartialCleanup_steps renewPartialCleanup_steps completePartialCleanup_steps
  beginPublicationMutation_steps recoverExpiredPublicationMutation_steps
  releaseFailedReservations_steps recordOutputVerification_steps

lemmas operation_steps = completePublishedMutation_steps renewPublishedPartial_steps
  completePublishedPartial_steps completePublishedClaim_steps

lemma encode_step_cases:
  assumes "encode_step S S'" and "catalog_wf (fst S)"
  obtains (claim) token where "token \<notin> snd S" and "snd S' = insert token (snd S)"
      and "claims token (fst S) (fst S')"
    | (grow) "snd S' = snd S" and "grows (fst S) (fst S')"
  using assms(1)
proof (cases rule: encode_step.cases)
  case (claimed g w token t options c claim c' T)
  with assms(2) claim_encodeJob_claims [of c g w token t options "Some claim" c'] show thesis
    by (intro that(1)) auto
next
  case requeued_from
  with assms(2) show thesis
    by (intro that(2)) (auto intro!: steps_grows intro: requeue_steps simp: requeueFrom_def)
next
  case (published_mutation cleanup before after p d t1 t2 c c' r T)
  with assms(2) completePublishedMutation_steps [of c cleanup before after p d t1 t2] show thesis
    by (intro that(2)) (simp_all add: steps_grows)
next
  case (published_renewed cleanup matches l t c c' r T)
  with assms(2) renewPublishedPartial_steps [of c cleanup matches l t] show thesis
    by (intro that(2)) (simp_all add: steps_grows)
next
  case (published_partial cleanup before after p l d t1 t2 t3 c c' r T)
  with assms(2) completePublishedPartial_steps [of c cleanup before after p l d t1 t2 t3] show thesis
    by (intro that(2)) (simp_all add: steps_grows)
next
  case (published_claim g claim cleanup before after p d t1 t2 c c' r T)
  with assms(2) completePublishedClaim_steps [of c g claim cleanup before after p d t1 t2] show thesis
    by (intro that(2)) (simp_all add: steps_grows)
next
  case elsewhere
  with assms(2) show thesis by (intro that(2)) (auto intro!: steps_grows intro: steps_same)
qed (use assms(2) that(2) in \<open>auto intro: enqueue_grows insertCorrectedEncodeReplacementJob_grows
    steps_grows transaction_steps\<close>)

lemma encode_step_wf: "encode_step S S' \<Longrightarrow> catalog_wf (fst S) \<Longrightarrow> catalog_wf (fst S')"
  by (erule encode_step_cases) (auto simp: claims_def grows_def)

lemma encode_step_spec:
  assumes "encode_step S S'" and "catalog_wf (fst S)"
  shows "spec_step (claims_of S) (claims_of S')"
  using assms
proof (cases rule: encode_step_cases)
  case (claim token)
  with assms(2) claims_spec [of "fst S" token "fst S'" "snd S"] show ?thesis by (cases S; cases S') simp
next
  case grow
  with grows_spec [of "fst S" "fst S'" "snd S"] show ?thesis by (cases S; cases S') simp
qed

lemma encode_steps_spec:
  assumes "encode_step\<^sup>*\<^sup>* S S'" and "catalog_wf (fst S)"
  shows "catalog_wf (fst S') \<and> spec_step\<^sup>*\<^sup>* (claims_of S) (claims_of S')"
  using assms
  by (induction rule: rtranclp_induct)
    (auto intro: encode_step_wf encode_step_spec rtranclp.rtrancl_into_rtrancl)

section \<open>Properties\<close>

lemma initial_state_claims:
  "initial_state S \<Longrightarrow> catalog_wf (fst S) \<and> tokens_exclusive (claims_of S)"
  by (cases S) (auto simp: initial_state_def tokens_exclusive_def claims_of_def claim_view_def
      list_all_iff dest: find_encodeJob_Some)

lemma example_initial: "initial_state (example_catalog, {})"
  by code_simp

definition example_after_claim :: encode_state where
  "example_after_claim =
     (example_catalog\<lparr>encodeJobs := [example_job, example_claimed]\<rparr>, {''token-1''})"

lemma example_run: "encode_step\<^sup>*\<^sup>* (example_catalog, {}) example_after_claim"
  unfolding example_after_claim_def
  by (rule r_into_rtranclp, rule claimed [OF example_claim, of "{}", simplified])



text \<open>An operation that asks for a token no job bears finds no row to update.\<close>

lemma token_not_borne:
  assumes "catalog_wf c" and "superseded i t (claims_of (c, T))"
    and "j \<in> set (encodeJobs c)" and "ej_id j = i"
  shows "ej_claimToken j \<noteq> Some t"
  using assms find_encodeJob_member [OF catalog_wf_unique_ids [OF assms(1)] assms(3)]
  by (auto simp: superseded_def claims_of_def claim_view_def)

lemma superseded_update:
  assumes "catalog_wf c" and "superseded (ej_id claim) t (claims_of (c, T))" and "ej_claimToken claim = Some t"
    and "\<And>j. P j \<Longrightarrow> ej_id j = ej_id claim \<and> column_eq (ej_claimToken j) (ej_claimToken claim)"
  shows "update_encodeJob P f c = Inr (None, c)"
  by (rule update_nothing [OF catalog_wf_paths [OF assms(1)]])
    (use assms token_not_borne in \<open>fastforce simp: column_eq_def\<close>)


definition example_stale_queue :: encode_queue where
  "example_stale_queue = \<lparr>queue_catalog = example_catalog, queue_progress = (\<lambda>_. None)\<rparr>"


end
