(* ===== verification/EncodeRecovery.thy ===== *)
theory EncodeRecovery
  imports EncodeSystem
begin

text \<open>
  Workers that disappear: \<open>recoverExpiredClaims\<close> fails the attempts whose lease expired, at most
  a hundred per call, and reports each.  It is shown to succeed on every well-formed catalog, and
  repeating it to leave no expired attempt.
\<close>

section \<open>One recovery\<close>

definition expired_jobs :: "int \<Rightarrow> encode_catalog \<Rightarrow> encode_job list" where
  "expired_jobs timestamp c = filter (lease_expired_condition timestamp) (encodeJobs c)"

text \<open>The identifiers a call draws are new, and differ from each other.\<close>

definition fresh_ids :: "(nat \<Rightarrow> string) \<Rightarrow> encode_catalog \<Rightarrow> bool" where
  "fresh_ids drawn c \<longleftrightarrow> inj drawn \<and> (\<forall>n. drawn n \<notin> set (map fr_id (failureReports c)))"

lemma lease_report_valid:
  "\<exists>report. validateEncodeJobFailureReport
      (lease_report (recovered_phase j) ''Encode Job claim lease expired'' ''job_claim'') = Inr report
    \<and> js_get report ''diagnostic'' = JsString ''Encode Job claim lease expired''"
proof -
  have "list_all (\<lambda>phase. case validateEncodeJobFailureReport
        (lease_report phase ''Encode Job claim lease expired'' ''job_claim'') of
      Inl _ \<Rightarrow> False
    | Inr report \<Rightarrow> js_get report ''diagnostic'' = JsString ''Encode Job claim lease expired'')
    [''publication'', ''preparation'', ''scanning'', ''previewing'', ''encoding'', ''validation'']"
    by code_simp
  moreover have "recovered_phase j \<in> set [''publication'', ''preparation'', ''scanning'', ''previewing'',
      ''encoding'', ''validation'']"
  proof (cases "ej_progressPhase j")
    case (Some phase)
    then show ?thesis by (cases phase) (simp_all add: recovered_phase_def)
  qed (simp add: recovered_phase_def)
  ultimately have "case validateEncodeJobFailureReport
        (lease_report (recovered_phase j) ''Encode Job claim lease expired'' ''job_claim'') of
      Inl _ \<Rightarrow> False
    | Inr report \<Rightarrow> js_get report ''diagnostic'' = JsString ''Encode Job claim lease expired''"
    unfolding list_all_iff by (rule bspec)
  then show ?thesis by (simp only: split: sum.splits) blast
qed

lemma latest_report_sequence_nonnegative: "0 \<le> latest_report_sequence c i"
  unfolding latest_report_sequence_def by (rule Max_ge) simp_all

lemma append_one_report:
  assumes "validateEncodeJobFailureReport input = Inr report"
    and "js_get report ''diagnostic'' = JsString (x # s)" and "x \<noteq> CHR 0x00"
    and "drawn 0 \<notin> set (map fr_id (failureReports c))"
  obtains row where "appendEncodeJobFailureReports (Some i) (Some [report]) t drawn c
      = Inr (c\<lparr>failureReports := failureReports c @ [row]\<rparr>)"
    and "fr_id row = drawn 0"
proof -
  let ?row = "encodeJobFailureReportRecord (drawn 0) i report (latest_report_sequence c i + 1) t"
  have "failure_report_checks ?row"
    using validated_row_checks [OF assms(1) refl, of "drawn 0" i "latest_report_sequence c i + 1" t]
      assms(2,3) latest_report_sequence_nonnegative [of c i] by simp
  moreover have id: "fr_id ?row = drawn 0" by (simp add: encodeJobFailureReportRecord_def Let_def)
  ultimately have "appendEncodeJobFailureReports (Some i) (Some [report]) t drawn c
      = Inr (c\<lparr>failureReports := failureReports c @ [?row]\<rparr>)"
    using assms(4) by (simp add: appendEncodeJobFailureReports_def insert_failureReport_def Let_def)
  then show thesis using id by (rule that)
qed

lemma recovery_reports_written:
  assumes "inj drawn" and "\<And>k. n \<le> k \<Longrightarrow> drawn k \<notin> set (map fr_id (failureReports c))"
  shows "\<exists>c'. fold_result (\<lambda>cat (index, j).
      case validateEncodeJobFailureReport
             (lease_report (recovered_phase j) ''Encode Job claim lease expired'' ''job_claim'') of
        Inl e \<Rightarrow> Inl e
      | Inr report \<Rightarrow>
          appendEncodeJobFailureReports (Some (ej_id j)) (Some [report]) t (\<lambda>_. drawn index) cat)
    c (enumerate n rows) = Inr c'
    \<and> set (map fr_id (failureReports c')) \<subseteq> set (map fr_id (failureReports c)) \<union> range drawn"
  using assms(2)
proof (induction rows arbitrary: c n)
  case Nil
  then show ?case by simp
next
  case (Cons j rows)
  from lease_report_valid [of j] obtain report where
      report: "validateEncodeJobFailureReport
        (lease_report (recovered_phase j) ''Encode Job claim lease expired'' ''job_claim'') = Inr report"
    and diagnostic: "js_get report ''diagnostic'' = JsString (CHR ''E'' # ''ncode Job claim lease expired'')"
    by auto
  obtain row where
      appended: "appendEncodeJobFailureReports (Some (ej_id j)) (Some [report]) t (\<lambda>_. drawn n) c
        = Inr (c\<lparr>failureReports := failureReports c @ [row]\<rparr>)"
    and row: "fr_id row = drawn n"
    by (rule append_one_report [OF report diagnostic]) (use Cons.prems [of n] in simp_all)
  let ?c1 = "c\<lparr>failureReports := failureReports c @ [row]\<rparr>"
  have "drawn k \<notin> set (map fr_id (failureReports ?c1))" if "Suc n \<le> k" for k
    using Cons.prems [of k] that row injD [OF assms(1), of k n] by auto
  from Cons.IH [of "Suc n" ?c1, OF this] obtain c' where rest: "fold_result (\<lambda>cat (index, j).
      case validateEncodeJobFailureReport
             (lease_report (recovered_phase j) ''Encode Job claim lease expired'' ''job_claim'') of
        Inl e \<Rightarrow> Inl e
      | Inr report \<Rightarrow>
          appendEncodeJobFailureReports (Some (ej_id j)) (Some [report]) t (\<lambda>_. drawn index) cat)
    ?c1 (enumerate (Suc n) rows) = Inr c'"
    and ids: "set (map fr_id (failureReports c')) \<subseteq> set (map fr_id (failureReports ?c1)) \<union> range drawn"
    by blast
  have "set (map fr_id (failureReports c')) \<subseteq> set (map fr_id (failureReports c)) \<union> range drawn"
    using ids row by auto
  with rest report appended show ?case by simp
qed

lemma recovered_row_checks:
  assumes "encode_job_checks j" and "disciplined j" and "ej_status j = Running"
  shows "encode_job_checks (recovered_row t j)"
  using assms by (auto simp: encode_job_checks_def disciplined_def recovered_row_def)

lemma expired_ids_set: "set (expired_ids t c) \<subseteq> ej_id ` set (expired_jobs t c)"
  unfolding expired_ids_def expired_jobs_def by (auto dest: in_set_takeD)

lemma expired_ids_distinct:
  assumes "unique_ids c"
  shows "distinct (expired_ids t c)" and "length (expired_ids t c) = min 100 (length (expired_jobs t c))"
proof -
  let ?sorted = "sort_key (\<lambda>j. (ej_updatedAt j, ej_id j)) (expired_jobs t c)"
  have "distinct (map ej_id (encodeJobs c))" using assms by (simp add: unique_ids_def)
  then have "distinct (expired_jobs t c)" and "inj_on ej_id (set (expired_jobs t c))"
    by (auto simp: expired_jobs_def distinct_map intro: inj_on_subset)
  then have "distinct (map ej_id ?sorted)" by (simp add: distinct_map)
  then have "distinct (take JOB_RECOVERY_LIMIT (map ej_id ?sorted))" by simp
  then show "distinct (expired_ids t c)"
    by (simp add: expired_ids_def expired_jobs_def take_map)
  show "length (expired_ids t c) = min 100 (length (expired_jobs t c))"
    by (simp add: expired_ids_def expired_jobs_def JOB_RECOVERY_LIMIT_def min.commute)
qed

text \<open>Jobs that are recovered are no longer expired; the others are as they were.\<close>

lemma expired_jobs_recovered:
  assumes "encodeJobs c' = map (\<lambda>j. if ej_id j \<in> set (expired_ids t c) \<and> lease_expired_condition t j
      then recovered_row t j else j) (encodeJobs c)"
  shows "expired_jobs t c' = filter (\<lambda>j. ej_id j \<notin> set (expired_ids t c)) (expired_jobs t c)"
proof -
  have "\<not> lease_expired_condition t (recovered_row t j)" for j
    by (simp add: lease_expired_condition_def recovered_row_def)
  then have "filter (lease_expired_condition t) (map (\<lambda>j. if ej_id j \<in> ids \<and> lease_expired_condition t j
      then recovered_row t j else j) jobs)
    = filter (\<lambda>j. ej_id j \<notin> ids) (filter (lease_expired_condition t) jobs)" for ids jobs
    by (induction jobs) auto
  then show ?thesis by (simp add: expired_jobs_def assms)
qed

lemma length_filter_ids:
  assumes "distinct (map f xs)" and "distinct ids" and "set ids \<subseteq> f ` set xs"
  shows "length (filter (\<lambda>x. f x \<notin> set ids) xs) = length xs - length ids"
proof -
  have "length (filter (\<lambda>x. f x \<in> set ids) xs) = card (f ` set (filter (\<lambda>x. f x \<in> set ids) xs))"
  proof -
    have "distinct (filter (\<lambda>x. f x \<in> set ids) xs)" and "inj_on f (set (filter (\<lambda>x. f x \<in> set ids) xs))"
      using assms(1) by (auto simp: distinct_map intro: inj_on_subset)
    then show ?thesis by (simp only: card_image distinct_card)
  qed
  also have "f ` set (filter (\<lambda>x. f x \<in> set ids) xs) = set ids" using assms(3) by auto
  also have "card (set ids) = length ids" using assms(2) by (rule distinct_card)
  finally show ?thesis
    using sum_length_filter_compl [of "\<lambda>x. f x \<in> set ids" xs] by simp
qed

lemma recovery_succeeds:
  assumes wf: "catalog_wf c" and fresh: "fresh_ids drawn c"
  obtains jobs c' where "recoverExpiredClaims t drawn c = Inr (jobs, c')"
    and "length (expired_jobs t c') = length (expired_jobs t c) - 100"
    and "set (map fr_id (failureReports c')) \<subseteq> set (map fr_id (failureReports c)) \<union> range drawn"
proof (cases "expired_ids t c = []")
  case True
  have "length (expired_ids t c) = min 100 (length (expired_jobs t c))"
    by (rule expired_ids_distinct [OF catalog_wf_unique_ids [OF wf]])
  with True have "expired_jobs t c = []" by (simp add: min_def split: if_splits)
  with True show thesis by (intro that [of "[]" c]) (simp_all add: recoverExpiredClaims_def)
next
  case False
  let ?P = "\<lambda>j. ej_id j \<in> set (expired_ids t c) \<and> lease_expired_condition t j"
  let ?jobs = "map (\<lambda>j. if ?P j then recovered_row t j else j) (encodeJobs c)"
  let ?changed = "map (recovered_row t) (filter ?P (encodeJobs c))"
  have "list_all encode_job_checks ?changed"
    using catalog_wf_checks [OF wf] catalog_wf_disciplined [OF wf]
    by (auto simp: list_all_iff lease_expired_condition_def intro: recovered_row_checks)
  moreover have "reserved_paths (map (\<lambda>j. if P j then recovered_row t j else j) jobs) = reserved_paths jobs"
    for P jobs by (induction jobs) (auto simp: reserved_paths_def recovered_row_def)
  ultimately have update: "update_encodeJobs ?P (recovered_row t) c = Inr (?changed, c\<lparr>encodeJobs := ?jobs\<rparr>)"
    using catalog_wf_paths [OF wf] by (simp add: update_encodeJobs_Inr Let_def)
  let ?c1 = "c\<lparr>encodeJobs := ?jobs\<rparr>"
  from fresh have "inj drawn" and "drawn k \<notin> set (map fr_id (failureReports ?c1))" for k
    by (simp_all add: fresh_ids_def)
  from recovery_reports_written [OF this] obtain c' where written: "fold_result (\<lambda>cat (index, j).
      case validateEncodeJobFailureReport
             (lease_report (recovered_phase j) ''Encode Job claim lease expired'' ''job_claim'') of
        Inl e \<Rightarrow> Inl e
      | Inr report \<Rightarrow>
          appendEncodeJobFailureReports (Some (ej_id j)) (Some [report]) t (\<lambda>_. drawn index) cat)
    ?c1 (enumerate 0 ?changed) = Inr c'"
    and ids: "set (map fr_id (failureReports c')) \<subseteq> set (map fr_id (failureReports ?c1)) \<union> range drawn"
    by blast
  have "encodeJobs c' = ?jobs" using recovery_reports_jobs [OF written] by simp
  then have "length (expired_jobs t c') = length (expired_jobs t c) - length (expired_ids t c)"
    unfolding expired_jobs_recovered [OF \<open>encodeJobs c' = ?jobs\<close>]
    using catalog_wf_unique_ids [OF wf]
    by (intro length_filter_ids expired_ids_distinct expired_ids_set)
      (auto simp: unique_ids_def expired_jobs_def distinct_map intro: inj_on_subset)
  also have "\<dots> = length (expired_jobs t c) - 100"
    using expired_ids_distinct(2) [OF catalog_wf_unique_ids [OF wf], of t] by simp
  finally show thesis
    using ids update written False by (intro that [of ?changed c']) (simp_all add: recoverExpiredClaims_def Let_def)
qed

text \<open>
  The worker's loop calls the recovery again and again; here with the clock standing still.
  \<open>drawn n\<close> are the identifiers of the \<open>n\<close>th call.
\<close>

fun recover_repeatedly ::
  "int \<Rightarrow> (nat \<Rightarrow> nat \<Rightarrow> string) \<Rightarrow> nat \<Rightarrow> encode_catalog \<Rightarrow> encode_catalog result" where
  "recover_repeatedly t drawn 0 c = Inr c"
| "recover_repeatedly t drawn (Suc n) c =
    (case recoverExpiredClaims t (drawn n) c of
       Inl e \<Rightarrow> Inl e | Inr (_, c') \<Rightarrow> recover_repeatedly t drawn n c')"

lemma recover_repeatedly_succeeds:
  assumes "catalog_wf c" and "\<And>k. k < n \<Longrightarrow> fresh_ids (drawn k) c"
    and "\<And>k l. k < n \<Longrightarrow> l < n \<Longrightarrow> k \<noteq> l \<Longrightarrow> range (drawn k) \<inter> range (drawn l) = {}"
  shows "\<exists>c'. recover_repeatedly t drawn n c = Inr c' \<and> catalog_wf c'
    \<and> length (expired_jobs t c') = length (expired_jobs t c) - 100 * n"
  using assms
proof (induction n arbitrary: c)
  case 0
  then show ?case by simp
next
  case (Suc n)
  obtain jobs c1 where recovered: "recoverExpiredClaims t (drawn n) c = Inr (jobs, c1)"
    and count: "length (expired_jobs t c1) = length (expired_jobs t c) - 100"
    and ids: "set (map fr_id (failureReports c1)) \<subseteq> set (map fr_id (failureReports c)) \<union> range (drawn n)"
    by (rule recovery_succeeds [OF Suc.prems(1) Suc.prems(2) [of n]]) simp
  have "fresh_ids (drawn k) c1" if "k < n" for k
  proof -
    have "drawn k i \<notin> set (map fr_id (failureReports c)) \<union> range (drawn n)" for i
      using Suc.prems(2) [of k] Suc.prems(3) [of k n] that by (auto simp: fresh_ids_def)
    with ids Suc.prems(2) [of k] that show ?thesis unfolding fresh_ids_def by (meson less_SucI subsetD)
  qed
  moreover have "catalog_wf c1" by (rule steps_wf [OF recoverExpiredClaims_steps [OF Suc.prems(1) recovered]])
  ultimately obtain c' where "recover_repeatedly t drawn n c1 = Inr c'" and "catalog_wf c'"
    and "length (expired_jobs t c') = length (expired_jobs t c1) - 100 * n"
    using Suc.IH [of c1] Suc.prems(3) by auto
  with recovered count show ?case by auto
qed


definition example_running :: encode_catalog where
  "example_running = example_catalog\<lparr>encodeJobs := [example_job, example_claimed]\<rparr>"


section \<open>What a worker looks for\<close>

definition partial_cleanup_of :: "encode_job \<Rightarrow> encode_partial_cleanup option" where
  "partial_cleanup_of j =
    (case (ej_partialCleanupOutputPath j, ej_partialCleanupClaimToken j) of
       (Some path, Some token) \<Rightarrow> Some
         \<lparr>pc_jobId = ej_id j, pc_outputPath = path, pc_claimToken = token,
          pc_leaseToken = ej_partialCleanupLeaseToken j,
          pc_publicationPending = ej_publicationPending j\<rparr>
     | _ \<Rightarrow> None)"

definition oldest_first :: "(encode_job \<Rightarrow> bool) \<Rightarrow> encode_catalog \<Rightarrow> encode_job list" where
  "oldest_first condition c = take JOB_RECOVERY_LIMIT
     (sort_key (\<lambda>j. (ej_updatedAt j, ej_id j)) (filter condition (encodeJobs c)))"

definition require_cleanup :: "string \<Rightarrow> bool \<Rightarrow> encode_job \<Rightarrow> encode_partial_cleanup result" where
  "require_cleanup what leased j =
    (case partial_cleanup_of j of
       None \<Rightarrow> Inl (DomainInvariantError (what @ '' provenance is incomplete''))
     | Some cleanup \<Rightarrow>
         if leased \<and> pc_leaseToken cleanup = None
         then Inl (DomainInvariantError (what @ '' provenance is incomplete'')) else Inr cleanup)"

definition listExpiredPublicationMutations ::
  "int \<Rightarrow> encode_catalog \<Rightarrow> encode_partial_cleanup list result" where
  "listExpiredPublicationMutations timestamp c =
     map_result (require_cleanup ''Encode Job publication mutation'' True)
       (oldest_first (\<lambda>j. ej_status j = Running \<and> ej_partialCleanupOutputPath j \<noteq> None
          \<and> ej_partialCleanupClaimToken j \<noteq> None \<and> ej_partialCleanupLeaseToken j \<noteq> None
          \<and> ej_updatedAt j \<le> timestamp - ENCODE_JOB_LEASE_DURATION_MS) c)"

definition listPublicationMutations :: "encode_catalog \<Rightarrow> encode_partial_cleanup list result" where
  "listPublicationMutations c =
     map_result (require_cleanup ''Encode Job publication mutation'' True)
       (oldest_first (\<lambda>j. ej_status j = Running \<and> ej_partialCleanupOutputPath j \<noteq> None
          \<and> ej_partialCleanupClaimToken j \<noteq> None \<and> ej_partialCleanupLeaseToken j \<noteq> None) c)"

definition listPendingPartialCleanups :: "encode_catalog \<Rightarrow> encode_partial_cleanup list result" where
  "listPendingPartialCleanups c =
     map_result (require_cleanup ''Encode Job partial cleanup'' False)
       (oldest_first (\<lambda>j. ej_status j \<in> {Failed, Completed, Cancelled}
          \<and> ej_partialCleanupOutputPath j \<noteq> None \<and> ej_partialCleanupClaimToken j \<noteq> None) c)"

definition listExpiredCancellationClaims :: "int \<Rightarrow> encode_catalog \<Rightarrow> encode_job list result" where
  "listExpiredCancellationClaims timestamp c =
     map_result asClaimedEncodeJob
       (oldest_first (\<lambda>j. ej_status j = CancellationRequested
          \<and> ej_updatedAt j \<le> timestamp - ENCODE_JOB_LEASE_DURATION_MS) c)"

text \<open>
  Of the attempts whose lease expired, none is overlooked: the oldest hundred of each kind are
  what the three queries and \<open>recoverExpiredClaims\<close> work on, and every one is of some kind.
\<close>

lemma map_result_ok: "(\<And>x. x \<in> set xs \<Longrightarrow> is_ok (f x)) \<Longrightarrow> is_ok (map_result f xs)"
  by (simp add: map_result_is_ok)

lemma oldest_first_set: "set (oldest_first P c) \<subseteq> {j \<in> set (encodeJobs c). P j}"
  by (auto simp: oldest_first_def dest: in_set_takeD)

lemma recovery_queries_succeed:
  assumes "catalog_wf c"
  shows "is_ok (listExpiredPublicationMutations t c)" and "is_ok (listPendingPartialCleanups c)"
    and "is_ok (listExpiredCancellationClaims t c)"
proof -
  show "is_ok (listExpiredPublicationMutations t c)" unfolding listExpiredPublicationMutations_def
    by (rule map_result_ok)
      (auto simp: require_cleanup_def partial_cleanup_of_def dest!: subsetD [OF oldest_first_set])
  show "is_ok (listPendingPartialCleanups c)" unfolding listPendingPartialCleanups_def
    by (rule map_result_ok)
      (auto simp: require_cleanup_def partial_cleanup_of_def dest!: subsetD [OF oldest_first_set])
  show "is_ok (listExpiredCancellationClaims t c)" unfolding listExpiredCancellationClaims_def
    by (rule map_result_ok)
      (auto simp: asClaimedEncodeJob_def disciplined_def
        dest!: subsetD [OF oldest_first_set] catalog_wf_disciplined [OF assms])
qed

lemma expired_attempt_kinds:
  assumes "catalog_wf c" and "j \<in> set (encodeJobs c)" and "ej_status j = Running"
    and "ej_updatedAt j \<le> t - ENCODE_JOB_LEASE_DURATION_MS"
  shows "j \<in> set (expired_jobs t c)
    \<or> (ej_partialCleanupOutputPath j \<noteq> None \<and> ej_partialCleanupClaimToken j \<noteq> None
       \<and> ej_partialCleanupLeaseToken j \<noteq> None)"
  using catalog_wf_checks [OF assms(1,2)] assms(2-)
  by (auto simp: expired_jobs_def lease_expired_condition_def encode_job_checks_def)

end
