(* ===== verification/SourceSamples.thy ===== *)
theory SourceSamples
  imports EvidenceDigests
begin

text \<open>
  The samples that tell one disc from another (\<open>packages/data-access/src/dvd-disc-verification.ts\<close>,
  with the classification of read failures of \<open>archive-read-failure.ts\<close> it uses): which windows of
  sectors may serve as samples, the manifest of the samples of a source, what a verification
  found at each of them, and the outcome and reasons the findings give.

  Addresses are the integers the code tests with \<open>Number.isSafeInteger\<close>.  The products of an
  address and a band index are exact in the code for ends below \<open>2 ^ 49\<close>, which every DVD is far
  below.  Bytes are code units below 256, and the hash is the parameter \<open>sha256\<close>.
\<close>

unbundle bit_operations_syntax

section \<open>Read failures\<close>

datatype failure_category =
    Unknown_failure | Medium_error | Not_ready | Unit_attention | Hardware_error | Transport_error
  | Protection_error | Out_of_range_failure

datatype failure_classification = Category failure_category | Recognized_medium_error

record scsi_evidence =
  scsiStatus :: "int option"
  hostStatus :: "int option"
  driverStatus :: "int option"
  senseKey :: "int option"
  ev_asc :: "int option"
  ev_ascq :: "int option"

definition isHostTransportFailure :: "int \<Rightarrow> bool" where
  "isHostTransportFailure host \<longleftrightarrow> host \<noteq> 0"

definition isDriverTransportFailure :: "int \<Rightarrow> bool" where
  "isDriverTransportFailure driver \<longleftrightarrow>
     (let baseStatus = driver AND 0x0F in
      baseStatus = 1 \<or> baseStatus = 2 \<or> baseStatus = 4 \<or> baseStatus = 6)"

definition isTargetSenseCompletion :: "'a scsi_evidence_scheme \<Rightarrow> bool" where
  "isTargetSenseCompletion e \<longleftrightarrow>
     (case scsiStatus e of None \<Rightarrow> False | Some s \<Rightarrow> s AND 0xFE = 2)
   \<and> hostStatus e = Some 0
   \<and> (case driverStatus e of None \<Rightarrow> False | Some d \<Rightarrow> d AND 0x0F = 0 \<or> d AND 0x0F = 8)
   \<and> senseKey e \<noteq> None \<and> ev_asc e \<noteq> None \<and> ev_ascq e \<noteq> None"

definition classifyArchiveReadFailureEvidence :: "'a scsi_evidence_scheme \<Rightarrow> failure_classification" where
  "classifyArchiveReadFailureEvidence e =
     (case (scsiStatus e, hostStatus e, driverStatus e) of
        (Some scsi, Some host, Some driver) \<Rightarrow>
          if isHostTransportFailure host \<or> (host = 0 \<and> isDriverTransportFailure driver)
          then Category Transport_error
          else if \<not> isTargetSenseCompletion e then Category Unknown_failure
          else if senseKey e = Some 2 then Category Not_ready
          else if senseKey e = Some 6 then Category Unit_attention
          else if senseKey e = Some 3 then Recognized_medium_error
          else if senseKey e = Some 4 then Category Hardware_error
          else if senseKey e = Some 7
            \<or> (senseKey e = Some 5 \<and> ev_asc e = Some 0x6F \<and> ev_ascq e \<noteq> None)
          then Category Protection_error
          else Category Unknown_failure
      | _ \<Rightarrow> Category Unknown_failure)"

definition isArchiveReadFailureEvidenceConsistent ::
  "failure_category \<Rightarrow> 'a scsi_evidence_scheme \<Rightarrow> bool" where
  "isArchiveReadFailureEvidenceConsistent category e \<longleftrightarrow>
     (if category = Out_of_range_failure
      then isTargetSenseCompletion e \<and> senseKey e = Some 5 \<and> ev_asc e = Some 0x21 \<and> ev_ascq e = Some 0
      else category = Unknown_failure \<or> classifyArchiveReadFailureEvidence e = Category category)"

section \<open>Diagnostics\<close>

fun failure_category_text :: "failure_category \<Rightarrow> string" where
  "failure_category_text Unknown_failure = ''unknown''"
| "failure_category_text Medium_error = ''medium_error''"
| "failure_category_text Not_ready = ''not_ready''"
| "failure_category_text Unit_attention = ''unit_attention''"
| "failure_category_text Hardware_error = ''hardware_error''"
| "failure_category_text Transport_error = ''transport_error''"
| "failure_category_text Protection_error = ''protection_error''"
| "failure_category_text Out_of_range_failure = ''out_of_range''"

definition DVD_DISC_VERIFICATION_DIAGNOSTIC_CATEGORIES :: "failure_category list" where
  "DVD_DISC_VERIFICATION_DIAGNOSTIC_CATEGORIES =
     [Unknown_failure, Medium_error, Not_ready, Unit_attention, Hardware_error, Transport_error,
      Protection_error, Out_of_range_failure]"

record diagnostic = scsi_evidence +
  diag_category :: failure_category
  diag_classifierVersion :: string
  senseResponseCode :: "int option"
  informationLba :: "int option"

text \<open>A candidate has fields of any type; they arrive as JSON.\<close>

record diagnostic_candidate =
  cand_category :: json_value
  cand_classifierVersion :: json_value
  cand_scsiStatus :: json_value
  cand_hostStatus :: json_value
  cand_driverStatus :: json_value
  cand_senseResponseCode :: json_value
  cand_senseKey :: json_value
  cand_asc :: json_value
  cand_ascq :: json_value
  cand_informationLba :: json_value

definition optionalDiagnosticInteger :: "json_value \<Rightarrow> int \<Rightarrow> bool" where
  "optionalDiagnosticInteger value maximum =
     (case value of
        JNull \<Rightarrow> True
      | JInt n \<Rightarrow> is_safe_integer n \<and> 0 \<le> n \<and> n \<le> maximum
      | _ \<Rightarrow> False)"

definition json_int :: "json_value \<Rightarrow> int option" where
  "json_int v = (case v of JInt n \<Rightarrow> Some n | _ \<Rightarrow> None)"

definition candidate_category :: "diagnostic_candidate \<Rightarrow> failure_category option" where
  "candidate_category c =
     (case cand_category c of
        JString s \<Rightarrow> find (\<lambda>k. failure_category_text k = s) DVD_DISC_VERIFICATION_DIAGNOSTIC_CATEGORIES
      | _ \<Rightarrow> None)"

text \<open>The tests that the shape of a candidate has to pass, in the order of the code.\<close>

definition candidate_invalid :: "int \<Rightarrow> int \<Rightarrow> diagnostic_candidate \<Rightarrow> bool" where
  "candidate_invalid start_lba sector_count c \<longleftrightarrow>
     candidate_category c = None
   \<or> (case cand_classifierVersion c of JString s \<Rightarrow> length s = 0 \<or> length s > 128 | _ \<Rightarrow> True)
   \<or> \<not> optionalDiagnosticInteger (cand_scsiStatus c) 0xFF
   \<or> \<not> optionalDiagnosticInteger (cand_hostStatus c) 0xFFFF
   \<or> \<not> optionalDiagnosticInteger (cand_driverStatus c) 0xFFFF
   \<or> \<not> optionalDiagnosticInteger (cand_senseResponseCode c) 0xFF
   \<or> \<not> optionalDiagnosticInteger (cand_senseKey c) 0x0F
   \<or> \<not> optionalDiagnosticInteger (cand_asc c) 0xFF
   \<or> \<not> optionalDiagnosticInteger (cand_ascq c) 0xFF
   \<or> \<not> optionalDiagnosticInteger (cand_informationLba c) max_safe_integer
   \<or> ((cand_scsiStatus c = JNull \<or> cand_hostStatus c = JNull \<or> cand_driverStatus c = JNull)
      \<and> (cand_scsiStatus c \<noteq> JNull \<or> cand_hostStatus c \<noteq> JNull \<or> cand_driverStatus c \<noteq> JNull))
   \<or> (cand_senseResponseCode c = JNull
      \<and> (cand_senseKey c \<noteq> JNull \<or> cand_asc c \<noteq> JNull \<or> cand_ascq c \<noteq> JNull
         \<or> cand_informationLba c \<noteq> JNull))
   \<or> (cand_senseResponseCode c \<noteq> JNull
      \<and> cand_senseResponseCode c \<notin> {JInt 0x70, JInt 0x71, JInt 0x72, JInt 0x73})
   \<or> (cand_asc c = JNull) \<noteq> (cand_ascq c = JNull)
   \<or> (case cand_informationLba c of
        JInt lba \<Rightarrow> lba < start_lba \<or> start_lba + sector_count \<le> lba
      | _ \<Rightarrow> False)"

definition candidate_diagnostic :: "diagnostic_candidate \<Rightarrow> failure_category \<Rightarrow> diagnostic" where
  "candidate_diagnostic c category =
     \<lparr>scsiStatus = json_int (cand_scsiStatus c), hostStatus = json_int (cand_hostStatus c),
      driverStatus = json_int (cand_driverStatus c), senseKey = json_int (cand_senseKey c),
      ev_asc = json_int (cand_asc c), ev_ascq = json_int (cand_ascq c),
      diag_category = category,
      diag_classifierVersion = (case cand_classifierVersion c of JString s \<Rightarrow> s | _ \<Rightarrow> []),
      senseResponseCode = json_int (cand_senseResponseCode c),
      informationLba = json_int (cand_informationLba c)\<rparr>"

definition currentSense :: "diagnostic \<Rightarrow> bool" where
  "currentSense d \<longleftrightarrow> senseResponseCode d = Some 0x70 \<or> senseResponseCode d = Some 0x72"

definition normalizedCategory :: "diagnostic \<Rightarrow> failure_category" where
  "normalizedCategory d =
     (let classification = classifyArchiveReadFailureEvidence d;
          hasOutOfRangeEvidence =
            currentSense d \<and> isArchiveReadFailureEvidenceConsistent Out_of_range_failure d in
      if hasOutOfRangeEvidence then Out_of_range_failure
      else if classification = Category Transport_error then Transport_error
      else if currentSense d
      then (case classification of Recognized_medium_error \<Rightarrow> Medium_error | Category k \<Rightarrow> k)
      else Unknown_failure)"

datatype category_encoding = Normalized | Read_failure_protocol

definition normalizeDvdDiscVerificationDiagnostic ::
  "diagnostic_candidate \<Rightarrow> int \<Rightarrow> int \<Rightarrow> category_encoding \<Rightarrow> diagnostic result" where
  "normalizeDvdDiscVerificationDiagnostic c start_lba sector_count encoding =
     (if candidate_invalid start_lba sector_count c
      then Inl (DomainInvariantError ''DVD Disc Verification diagnostic is invalid'')
      else
        let d = candidate_diagnostic c (the (candidate_category c));
            normalized = normalizedCategory d;
            encoded = (if encoding = Read_failure_protocol \<and> normalized = Medium_error
                       then Unknown_failure else normalized) in
        if diag_category d \<noteq> encoded
           \<or> (encoding = Read_failure_protocol \<and> normalized = Out_of_range_failure)
        then Inl (DomainInvariantError ''DVD Disc Verification diagnostic category is invalid'')
        else Inr (d\<lparr>diag_category := normalized\<rparr>))"

section \<open>Sample manifests\<close>

definition DVD_DISC_VERIFICATION_POLICY_VERSION :: string where
  "DVD_DISC_VERIFICATION_POLICY_VERSION = ''dvd-disc-verification-v1''"

definition DVD_SOURCE_SAMPLE_BYTE_REPRESENTATION :: string where
  "DVD_SOURCE_SAMPLE_BYTE_REPRESENTATION = ''dvdcss-noflags-raw-sector-v1''"

definition DVD_SOURCE_SAMPLE_BAND_COUNT :: int where
  "DVD_SOURCE_SAMPLE_BAND_COUNT = 16"

definition DVD_SOURCE_SAMPLE_SECTOR_COUNT :: int where
  "DVD_SOURCE_SAMPLE_SECTOR_COUNT = 32"

definition DVD_SOURCE_SAMPLE_SECTOR_BYTES :: int where
  "DVD_SOURCE_SAMPLE_SECTOR_BYTES = 2048"

definition DVD_SOURCE_SAMPLE_BYTE_COUNT :: int where
  "DVD_SOURCE_SAMPLE_BYTE_COUNT = DVD_SOURCE_SAMPLE_SECTOR_COUNT * DVD_SOURCE_SAMPLE_SECTOR_BYTES"

lemmas sample_constants = DVD_SOURCE_SAMPLE_BAND_COUNT_def DVD_SOURCE_SAMPLE_SECTOR_COUNT_def

definition sample_digest_domain :: string where
  "sample_digest_domain = nul_terminated ''rip-dvd:dvd-source-sample:v1''"

definition sample_manifest_digest_domain :: string where
  "sample_manifest_digest_domain = nul_terminated ''rip-dvd:dvd-source-sample-manifest:v1''"

record sample_reference =
  smp_bandIndex :: int
  smp_startLba :: int
  smp_sectorCount :: int
  smp_digest :: string

record sample_manifest =
  sm_policyVersion :: string
  sm_byteRepresentation :: string
  sm_sourceMetadataFingerprint :: string
  sm_acceptedEndLbaExclusive :: int
  sm_checkpointRevision :: int
  sm_checkpointDigest :: string
  sm_samples :: "sample_reference list"
  sm_manifestDigest :: string

definition createDvdSourceSampleDigest :: "(string \<Rightarrow> string) \<Rightarrow> string \<Rightarrow> string result" where
  "createDvdSourceSampleDigest sha256 bytes =
     (if int (length bytes) \<noteq> DVD_SOURCE_SAMPLE_BYTE_COUNT
      then Inl (DomainInvariantError
        (''DVD source samples must contain '' @ js_number DVD_SOURCE_SAMPLE_BYTE_COUNT @ '' bytes''))
      else Inr (sha256 (utf8 sample_digest_domain @ bytes)))"

definition hasSuitableDvdSourceSampleContent :: "string \<Rightarrow> bool" where
  "hasSuitableDvdSourceSampleContent bytes \<longleftrightarrow>
     int (length bytes) = DVD_SOURCE_SAMPLE_BYTE_COUNT \<and> list_ex (\<lambda>byte. byte \<noteq> hd bytes) bytes"

definition sampleManifestPayload :: "sample_manifest \<Rightarrow> json_value" where
  "sampleManifestPayload m = JArray
     [JString (sm_policyVersion m), JString (sm_byteRepresentation m),
      JString (sm_sourceMetadataFingerprint m), JInt (sm_acceptedEndLbaExclusive m),
      JInt (sm_checkpointRevision m), JString (sm_checkpointDigest m),
      JArray (map (\<lambda>s. JArray
        [JInt (smp_bandIndex s), JInt (smp_startLba s), JInt (smp_sectorCount s), JString (smp_digest s)])
        (sm_samples m))]"

definition createDvdSourceSampleManifestDigest ::
  "(string \<Rightarrow> string) \<Rightarrow> sample_manifest \<Rightarrow> string" where
  "createDvdSourceSampleManifestDigest sha256 m =
     digest sha256 sample_manifest_digest_domain (sampleManifestPayload m)"

definition bandStart :: "int \<Rightarrow> int \<Rightarrow> int" where
  "bandStart end_lba band = (end_lba * band) div DVD_SOURCE_SAMPLE_BAND_COUNT"

definition sample_reference_invalid ::
  "int \<Rightarrow> int list \<Rightarrow> int list \<Rightarrow> sample_reference \<Rightarrow> bool" where
  "sample_reference_invalid end_lba bands addresses s \<longleftrightarrow>
     (let midpointLba = smp_startLba s + DVD_SOURCE_SAMPLE_SECTOR_COUNT div 2 in
      \<not> is_safe_integer (smp_bandIndex s)
    \<or> smp_bandIndex s < 0
    \<or> DVD_SOURCE_SAMPLE_BAND_COUNT \<le> smp_bandIndex s
    \<or> smp_bandIndex s \<in> set bands
    \<or> smp_startLba s \<in> set addresses
    \<or> \<not> is_safe_integer (smp_startLba s)
    \<or> smp_startLba s < 0
    \<or> smp_sectorCount s \<noteq> DVD_SOURCE_SAMPLE_SECTOR_COUNT
    \<or> end_lba < smp_startLba s + smp_sectorCount s
    \<or> midpointLba < bandStart end_lba (smp_bandIndex s)
    \<or> bandStart end_lba (smp_bandIndex s + 1) \<le> midpointLba)"

text \<open>One pass of the loop; \<open>bands\<close> and \<open>addresses\<close> are the sets it fills.\<close>

definition check_sample_reference ::
  "int \<Rightarrow> int list \<times> int list \<Rightarrow> sample_reference \<Rightarrow> (int list \<times> int list) result" where
  "check_sample_reference end_lba seen s =
     (case seen of (bands, addresses) \<Rightarrow>
        if sample_reference_invalid end_lba bands addresses s
        then Inl (DomainInvariantError ''DVD source sample reference is invalid'')
        else case requireSha256Digest (smp_digest s) ''DVD source sample digest'' of
          Inl e \<Rightarrow> Inl e
        | Inr _ \<Rightarrow> Inr (smp_bandIndex s # bands, smp_startLba s # addresses))"

definition manifest_header_invalid :: "sample_manifest \<Rightarrow> bool" where
  "manifest_header_invalid m \<longleftrightarrow>
     sm_policyVersion m \<noteq> DVD_DISC_VERIFICATION_POLICY_VERSION
   \<or> sm_byteRepresentation m \<noteq> DVD_SOURCE_SAMPLE_BYTE_REPRESENTATION
   \<or> length (sm_sourceMetadataFingerprint m) = 0
   \<or> length (sm_sourceMetadataFingerprint m) > 512
   \<or> \<not> is_safe_integer (sm_acceptedEndLbaExclusive m)
   \<or> sm_acceptedEndLbaExclusive m \<le> 0
   \<or> \<not> is_safe_integer (sm_checkpointRevision m)
   \<or> sm_checkpointRevision m \<le> 0
   \<or> int (length (sm_samples m)) > DVD_SOURCE_SAMPLE_BAND_COUNT"

definition validateDvdSourceSampleManifest ::
  "(string \<Rightarrow> string) \<Rightarrow> sample_manifest \<Rightarrow> sample_manifest result" where
  "validateDvdSourceSampleManifest sha256 m =
     (if manifest_header_invalid m
      then Inl (DomainInvariantError ''DVD source sample manifest is invalid'')
      else case requireSha256Digest (sm_checkpointDigest m) ''DVD source checkpoint digest'' of
        Inl e \<Rightarrow> Inl e
      | Inr _ \<Rightarrow>
          (case fold_result (check_sample_reference (sm_acceptedEndLbaExclusive m)) ([], []) (sm_samples m) of
             Inl e \<Rightarrow> Inl e
           | Inr _ \<Rightarrow>
             (case requireSha256Digest (sm_manifestDigest m) ''DVD source sample manifest digest'' of
                Inl e \<Rightarrow> Inl e
              | Inr _ \<Rightarrow>
                  if createDvdSourceSampleManifestDigest sha256 m \<noteq> sm_manifestDigest m
                  then Inl (DomainInvariantError
                    ''DVD source sample manifest digest does not match its contents'')
                  else Inr m)))"

definition sample_reference_json :: "sample_reference \<Rightarrow> json_value" where
  "sample_reference_json s = JObject
     [(''bandIndex'', JInt (smp_bandIndex s)), (''startLba'', JInt (smp_startLba s)),
      (''sectorCount'', JInt (smp_sectorCount s)), (''digest'', JString (smp_digest s))]"

definition sample_manifest_json :: "sample_manifest option \<Rightarrow> json_value" where
  "sample_manifest_json manifest =
     (case manifest of
        None \<Rightarrow> JNull
      | Some m \<Rightarrow> JObject
          [(''policyVersion'', JString (sm_policyVersion m)),
           (''byteRepresentation'', JString (sm_byteRepresentation m)),
           (''sourceMetadataFingerprint'', JString (sm_sourceMetadataFingerprint m)),
           (''acceptedEndLbaExclusive'', JInt (sm_acceptedEndLbaExclusive m)),
           (''checkpointRevision'', JInt (sm_checkpointRevision m)),
           (''checkpointDigest'', JString (sm_checkpointDigest m)),
           (''samples'', JArray (map sample_reference_json (sm_samples m))),
           (''manifestDigest'', JString (sm_manifestDigest m))])"

definition assertDvdSourceSampleManifestProjection ::
  "(string \<Rightarrow> string) \<Rightarrow> sample_manifest option \<Rightarrow> sample_manifest option \<Rightarrow> unit result" where
  "assertDvdSourceSampleManifestProjection sha256 published projected =
     check_all
       [case published of None \<Rightarrow> Inr ()
          | Some m \<Rightarrow> map_sum id (\<lambda>_. ()) (validateDvdSourceSampleManifest sha256 m),
        case projected of None \<Rightarrow> Inr ()
          | Some m \<Rightarrow> map_sum id (\<lambda>_. ()) (validateDvdSourceSampleManifest sha256 m),
        invariant_if
          (canonicalJson (sample_manifest_json published) \<noteq> canonicalJson (sample_manifest_json projected))
          ''DVD source sample manifest projection conflicts with publication evidence'']"

section \<open>Candidate windows\<close>

definition overlapsUnrecoveredSource ::
  "int \<Rightarrow> int \<Rightarrow> 'a unreadable_sector_range_scheme list \<Rightarrow> bool" where
  "overlapsUnrecoveredSource start_lba sector_count ranges \<longleftrightarrow>
     (let endLbaExclusive = start_lba + sector_count in
      list_ex (\<lambda>range. startLba range < endLbaExclusive
        \<and> startLba range + sectorCount range > start_lba) ranges)"

definition candidates_at ::
  "int \<Rightarrow> int \<Rightarrow> int \<Rightarrow> 'a unreadable_sector_range_scheme list \<Rightarrow> int \<Rightarrow> int list" where
  "candidates_at minimumStart maximumStart target ranges distance =
     filter (\<lambda>start_lba. \<not> (start_lba < minimumStart \<or> start_lba > maximumStart
         \<or> overlapsUnrecoveredSource start_lba DVD_SOURCE_SAMPLE_SECTOR_COUNT ranges))
       (if distance = 0 then [target] else [target - distance, target + distance])"

definition dvdSourceSampleCandidates ::
  "int \<Rightarrow> int \<Rightarrow> 'a unreadable_sector_range_scheme list \<Rightarrow> int list" where
  "dvdSourceSampleCandidates end_lba band ranges =
     (if \<not> is_safe_integer end_lba \<or> end_lba < DVD_SOURCE_SAMPLE_SECTOR_COUNT
        \<or> \<not> is_safe_integer band \<or> band < 0 \<or> DVD_SOURCE_SAMPLE_BAND_COUNT \<le> band
      then []
      else
        let band_start = bandStart end_lba band;
            band_end = bandStart end_lba (band + 1);
            half = DVD_SOURCE_SAMPLE_SECTOR_COUNT div 2;
            minimumStart = max 0 (band_start - half + 1);
            maximumStart = min (end_lba - DVD_SOURCE_SAMPLE_SECTOR_COUNT) (band_end - half - 1) in
        if minimumStart > maximumStart then []
        else
          let target = max minimumStart (min maximumStart ((band_start + band_end) div 2 - half));
              maximumDistance = max (target - minimumStart) (maximumStart - target) in
          concat (map (candidates_at minimumStart maximumStart target ranges) [0..maximumDistance]))"

section \<open>Findings\<close>

datatype finding_outcome = Sample_match | Sample_mismatch | Sample_unreadable

record sample_finding =
  fd_bandIndex :: int
  fd_startLba :: int
  fd_sectorCount :: int
  fd_outcome :: finding_outcome
  fd_referenceDigest :: string
  fd_observedDigest :: "string option"
  fd_diagnostic :: "diagnostic_candidate option"

text \<open>A digest that is null is tested as the text \<open>null\<close>, and fails.\<close>

definition validate_finding :: "sample_reference \<Rightarrow> sample_finding \<Rightarrow> unit result" where
  "validate_finding reference finding =
     (if fd_bandIndex finding \<noteq> smp_bandIndex reference
        \<or> fd_startLba finding \<noteq> smp_startLba reference
        \<or> fd_sectorCount finding \<noteq> smp_sectorCount reference
        \<or> fd_referenceDigest finding \<noteq> smp_digest reference
      then Inl (DomainInvariantError
        ''DVD Disc Verification finding does not match its source reference'')
      else if fd_outcome finding = Sample_unreadable
      then (case (fd_observedDigest finding, fd_diagnostic finding) of
              (None, Some diagnostic) \<Rightarrow>
                map_sum id (\<lambda>_. ()) (normalizeDvdDiscVerificationDiagnostic diagnostic
                  (fd_startLba finding) (fd_sectorCount finding) Normalized)
            | _ \<Rightarrow> Inl (DomainInvariantError ''DVD Disc Verification unreadable finding is invalid''))
      else case requireSha256Digest (case fd_observedDigest finding of None \<Rightarrow> ''null'' | Some d \<Rightarrow> d)
              ''DVD Disc Verification observed sample digest'' of
        Inl e \<Rightarrow> Inl e
      | Inr _ \<Rightarrow> invariant_if
          (fd_diagnostic finding \<noteq> None
           \<or> (fd_observedDigest finding = Some (fd_referenceDigest finding))
             \<noteq> (fd_outcome finding = Sample_match))
          ''DVD Disc Verification readable finding is invalid'')"

definition validateDvdDiscVerificationFindings ::
  "sample_manifest option \<Rightarrow> sample_finding list \<Rightarrow> unit result" where
  "validateDvdDiscVerificationFindings manifest findings =
     (case manifest of
        None \<Rightarrow> invariant_if (length findings \<noteq> 0)
          ''DVD Disc Verification findings require a source manifest''
      | Some m \<Rightarrow>
          if length findings > length (sm_samples m)
          then Inl (DomainInvariantError ''DVD Disc Verification findings are invalid'')
          else check_all (map2 validate_finding (sm_samples m) findings))"

section \<open>Outcomes\<close>

datatype verification_outcome = Match | Mismatch | Inconclusive

datatype verification_reason =
    DISC_METADATA_MISMATCH | DISC_SAMPLE_MISMATCH | DISC_SAMPLE_COVERAGE_INCOMPLETE
  | DISC_SAMPLE_UNREADABLE | DISC_VERIFICATION_TIMEOUT | DISC_VERIFICATION_INTERRUPTED
  | DISC_INSERTION_CHANGED | DISC_CHECKPOINT_CHANGED | DISC_SAMPLE_MANIFEST_UNAVAILABLE

record outcome_input =
  oi_metadataMatches :: bool
  oi_manifestUnavailable :: bool
  oi_coverageComplete :: bool
  oi_budgetExhausted :: bool
  oi_interrupted :: bool
  oi_insertionChanged :: bool
  oi_checkpointChanged :: bool
  oi_findings :: "sample_finding list"

definition push_if :: "bool \<Rightarrow> 'a \<Rightarrow> 'a list" where
  "push_if b x = (if b then [x] else [])"

definition outcome_reasons :: "outcome_input \<Rightarrow> verification_reason list" where
  "outcome_reasons i =
     push_if (\<not> oi_metadataMatches i) DISC_METADATA_MISMATCH
   @ push_if (list_ex (\<lambda>f. fd_outcome f = Sample_mismatch) (oi_findings i)) DISC_SAMPLE_MISMATCH
   @ (if oi_manifestUnavailable i then [DISC_SAMPLE_MANIFEST_UNAVAILABLE]
      else push_if (\<not> oi_coverageComplete i) DISC_SAMPLE_COVERAGE_INCOMPLETE)
   @ push_if (list_ex (\<lambda>f. fd_outcome f = Sample_unreadable) (oi_findings i)) DISC_SAMPLE_UNREADABLE
   @ push_if (oi_budgetExhausted i) DISC_VERIFICATION_TIMEOUT
   @ push_if (oi_interrupted i) DISC_VERIFICATION_INTERRUPTED
   @ push_if (oi_insertionChanged i) DISC_INSERTION_CHANGED
   @ push_if (oi_checkpointChanged i) DISC_CHECKPOINT_CHANGED"

definition dvdDiscVerificationOutcome ::
  "outcome_input \<Rightarrow> verification_outcome \<times> verification_reason list" where
  "dvdDiscVerificationOutcome i =
     (let reasons = outcome_reasons i in
      if DISC_METADATA_MISMATCH \<in> set reasons \<or> DISC_SAMPLE_MISMATCH \<in> set reasons
      then (Mismatch, reasons)
      else if reasons = [] then (Match, reasons)
      else (Inconclusive, reasons))"

section \<open>Normal form of diagnostics\<close>

definition json_int_option :: "int option \<Rightarrow> json_value" where
  "json_int_option v = (case v of None \<Rightarrow> JNull | Some n \<Rightarrow> JInt n)"

definition diagnostic_candidate_of :: "diagnostic \<Rightarrow> diagnostic_candidate" where
  "diagnostic_candidate_of d =
     \<lparr>cand_category = JString (failure_category_text (diag_category d)),
      cand_classifierVersion = JString (diag_classifierVersion d),
      cand_scsiStatus = json_int_option (scsiStatus d), cand_hostStatus = json_int_option (hostStatus d),
      cand_driverStatus = json_int_option (driverStatus d),
      cand_senseResponseCode = json_int_option (senseResponseCode d),
      cand_senseKey = json_int_option (senseKey d), cand_asc = json_int_option (ev_asc d),
      cand_ascq = json_int_option (ev_ascq d), cand_informationLba = json_int_option (informationLba d)\<rparr>"

lemma candidate_category_text:
  "cand_category c = JString (failure_category_text k) \<Longrightarrow> candidate_category c = Some k"
  by (cases k) (simp_all add: candidate_category_def DVD_DISC_VERIFICATION_DIAGNOSTIC_CATEGORIES_def)

lemma json_int_optional: "optionalDiagnosticInteger v maximum \<Longrightarrow> json_int_option (json_int v) = v"
  by (cases v) (simp_all add: optionalDiagnosticInteger_def json_int_option_def json_int_def)

lemma candidate_of_diagnostic:
  assumes "\<not> candidate_invalid start_lba sector_count c"
  shows "diagnostic_candidate_of (candidate_diagnostic c k)
    = c\<lparr>cand_category := JString (failure_category_text k)\<rparr>"
proof -
  from assms have "optionalDiagnosticInteger (cand_scsiStatus c) 0xFF"
    "optionalDiagnosticInteger (cand_hostStatus c) 0xFFFF"
    "optionalDiagnosticInteger (cand_driverStatus c) 0xFFFF"
    "optionalDiagnosticInteger (cand_senseResponseCode c) 0xFF"
    "optionalDiagnosticInteger (cand_senseKey c) 0x0F"
    "optionalDiagnosticInteger (cand_asc c) 0xFF"
    "optionalDiagnosticInteger (cand_ascq c) 0xFF"
    "optionalDiagnosticInteger (cand_informationLba c) max_safe_integer"
    unfolding candidate_invalid_def by blast+
  moreover from assms have "\<exists>s. cand_classifierVersion c = JString s"
    by (cases "cand_classifierVersion c") (simp_all add: candidate_invalid_def)
  ultimately show ?thesis
    by (cases c) (auto simp: diagnostic_candidate_of_def candidate_diagnostic_def json_int_optional)
qed

lemma candidate_invalid_category:
  "candidate_category c = Some k \<Longrightarrow> candidate_category (c\<lparr>cand_category := v\<rparr>) = Some l \<Longrightarrow>
     candidate_invalid start_lba sector_count (c\<lparr>cand_category := v\<rparr>)
     = candidate_invalid start_lba sector_count c"
  by (simp add: candidate_invalid_def)

lemma diagnostic_update [simp]:
  "currentSense (d\<lparr>diag_category := k\<rparr>) = currentSense d"
  "isTargetSenseCompletion (e\<lparr>diag_category := k\<rparr>) = isTargetSenseCompletion e"
  by (simp_all add: currentSense_def isTargetSenseCompletion_def)

lemma classification_update [simp]:
  "classifyArchiveReadFailureEvidence (d\<lparr>diag_category := k\<rparr>) = classifyArchiveReadFailureEvidence d"
  by (auto simp: classifyArchiveReadFailureEvidence_def cong del: if_weak_cong split: option.split)

lemma consistency_update [simp]:
  "isArchiveReadFailureEvidenceConsistent l (d\<lparr>diag_category := k\<rparr>)
     = isArchiveReadFailureEvidenceConsistent l d"
  by (simp add: isArchiveReadFailureEvidenceConsistent_def)

lemma normalizedCategory_update [simp]:
  "normalizedCategory (d\<lparr>diag_category := k\<rparr>) = normalizedCategory d"
  by (simp add: normalizedCategory_def cong del: if_weak_cong)

lemma candidate_diagnostic_update:
  "candidate_diagnostic (c\<lparr>cand_category := v\<rparr>) k = candidate_diagnostic c k"
  "(candidate_diagnostic c k)\<lparr>diag_category := l\<rparr> = candidate_diagnostic c l"
  by (simp_all add: candidate_diagnostic_def)

lemma normalized_diagnostic_is_normal:
  assumes "normalizeDvdDiscVerificationDiagnostic c start_lba sector_count encoding = Inr d"
  shows "normalizeDvdDiscVerificationDiagnostic (diagnostic_candidate_of d) start_lba sector_count
    Normalized = Inr d"
proof -
  let ?k = "the (candidate_category c)"
  let ?n = "normalizedCategory (candidate_diagnostic c ?k)"
  from assms have valid: "\<not> candidate_invalid start_lba sector_count c"
    and d: "d = candidate_diagnostic c ?n"
    by (auto simp: normalizeDvdDiscVerificationDiagnostic_def Let_def candidate_diagnostic_update
        split: if_splits)
  let ?c = "c\<lparr>cand_category := JString (failure_category_text ?n)\<rparr>"
  have candidate: "diagnostic_candidate_of d = ?c"
    unfolding d by (rule candidate_of_diagnostic [OF valid])
  have category: "candidate_category ?c = Some ?n" by (simp add: candidate_category_text)
  from valid obtain k where "candidate_category c = Some k" by (auto simp: candidate_invalid_def)
  then have "\<not> candidate_invalid start_lba sector_count ?c"
    using candidate_invalid_category [OF _ category] valid by simp
  moreover have "normalizedCategory (candidate_diagnostic c ?n) = ?n"
    using normalizedCategory_update [of ?n "candidate_diagnostic c ?k"]
    by (simp add: candidate_diagnostic_update)
  ultimately show ?thesis
    unfolding candidate normalizeDvdDiscVerificationDiagnostic_def category option.sel
    by (simp add: Let_def candidate_diagnostic_update d) (simp add: candidate_diagnostic_def)
qed

section \<open>The windows a band offers\<close>

lemma sorted_wrt_concat_map:
  assumes "sorted_wrt R ds" and "\<And>d. d \<in> set ds \<Longrightarrow> sorted_wrt Q (f d)"
    and "\<And>d e x y. R d e \<Longrightarrow> x \<in> set (f d) \<Longrightarrow> y \<in> set (f e) \<Longrightarrow> Q x y"
  shows "sorted_wrt Q (concat (map f ds))"
  using assms(1,2) by (induction ds) (auto simp: sorted_wrt_append intro: assms(3))

text \<open>Nearer to an address; of two at the same distance, the lower one.\<close>

definition nearer :: "int \<Rightarrow> int \<Rightarrow> int \<Rightarrow> bool" where
  "nearer target a b \<longleftrightarrow> \<bar>a - target\<bar> < \<bar>b - target\<bar> \<or> (\<bar>a - target\<bar> = \<bar>b - target\<bar> \<and> a < b)"

lemma overlapsUnrecoveredSource_iff:
  assumes "\<forall>r \<in> set ranges. 0 < sectorCount r" and "0 < n"
  shows "overlapsUnrecoveredSource s n ranges \<longleftrightarrow> {s ..< s + n} \<inter> covered ranges \<noteq> {}"
proof -
  have "(startLba r < s + n \<and> startLba r + sectorCount r > s) \<longleftrightarrow> {s ..< s + n} \<inter> lbas r \<noteq> {}"
    if "0 < sectorCount r" for r :: "'a unreadable_sector_range_scheme"
  proof
    assume "startLba r < s + n \<and> startLba r + sectorCount r > s"
    then have "max s (startLba r) \<in> {s ..< s + n} \<inter> lbas r"
      using that assms(2) by (auto simp: lbas_def rangeEnd_def)
    then show "{s ..< s + n} \<inter> lbas r \<noteq> {}" by blast
  qed (auto simp: lbas_def rangeEnd_def)
  with assms(1) show ?thesis
    by (auto simp: overlapsUnrecoveredSource_def list_ex_iff covered_def)
qed

lemma candidates_at_set:
  "0 \<le> d \<Longrightarrow> s \<in> set (candidates_at lo hi t ranges d) \<longleftrightarrow>
     \<bar>s - t\<bar> = d \<and> lo \<le> s \<and> s \<le> hi \<and> \<not> overlapsUnrecoveredSource s DVD_SOURCE_SAMPLE_SECTOR_COUNT ranges"
  by (auto simp: candidates_at_def)

lemma candidates_in_order:
  "sorted_wrt (nearer t) (concat (map (candidates_at lo hi t ranges) [0..n]))"
proof (rule sorted_wrt_concat_map [of "\<lambda>d e. 0 \<le> d \<and> d < e"])
  show "sorted_wrt (\<lambda>d e. 0 \<le> d \<and> d < e) [0..n]"
    by (rule sorted_wrt_mono_rel [of _ "(<)"]) (auto simp: strict_sorted_iff)
next
  fix d assume "d \<in> set [0..n]"
  then show "sorted_wrt (nearer t) (candidates_at lo hi t ranges d)"
    by (auto simp: candidates_at_def nearer_def)
next
  fix d e x y
  assume "0 \<le> d \<and> d < e" and "x \<in> set (candidates_at lo hi t ranges d)"
    and "y \<in> set (candidates_at lo hi t ranges e)"
  then show "nearer t x y" by (auto simp: candidates_at_set nearer_def)
qed

definition first_window :: "int \<Rightarrow> int \<Rightarrow> int" where
  "first_window end_lba band =
     max 0 (bandStart end_lba band - DVD_SOURCE_SAMPLE_SECTOR_COUNT div 2 + 1)"

definition last_window :: "int \<Rightarrow> int \<Rightarrow> int" where
  "last_window end_lba band =
     min (end_lba - DVD_SOURCE_SAMPLE_SECTOR_COUNT)
       (bandStart end_lba (band + 1) - DVD_SOURCE_SAMPLE_SECTOR_COUNT div 2 - 1)"

definition middle_window :: "int \<Rightarrow> int \<Rightarrow> int" where
  "middle_window end_lba band =
     max (first_window end_lba band) (min (last_window end_lba band)
       ((bandStart end_lba band + bandStart end_lba (band + 1)) div 2
          - DVD_SOURCE_SAMPLE_SECTOR_COUNT div 2))"

lemma candidates_unfold:
  assumes "is_safe_integer end_lba" and "32 \<le> end_lba" and "0 \<le> band" and "band < 16"
  shows "dvdSourceSampleCandidates end_lba band ranges =
    (if first_window end_lba band > last_window end_lba band then []
     else concat (map (candidates_at (first_window end_lba band) (last_window end_lba band)
        (middle_window end_lba band) ranges)
        [0..max (middle_window end_lba band - first_window end_lba band)
              (last_window end_lba band - middle_window end_lba band)]))"
proof -
  have "\<not> (\<not> is_safe_integer end_lba \<or> end_lba < DVD_SOURCE_SAMPLE_SECTOR_COUNT
      \<or> \<not> is_safe_integer band \<or> band < 0 \<or> DVD_SOURCE_SAMPLE_BAND_COUNT \<le> band)"
    using assms by (simp add: sample_constants is_safe_integer_def max_safe_integer_def)
  then show ?thesis
    unfolding dvdSourceSampleCandidates_def first_window_def last_window_def middle_window_def Let_def
    by (simp only: if_False)
qed

lemma window_between:
  "first_window end_lba band \<le> s \<and> s \<le> last_window end_lba band \<longleftrightarrow>
     0 \<le> s \<and> s + 32 \<le> end_lba \<and> bandStart end_lba band < s + 16 \<and> s + 16 < bandStart end_lba (band + 1)"
  unfolding first_window_def last_window_def sample_constants by simp linarith

lemma candidates_set:
  assumes "is_safe_integer end_lba" and "32 \<le> end_lba" and "0 \<le> band" and "band < 16"
  shows "s \<in> set (dvdSourceSampleCandidates end_lba band ranges) \<longleftrightarrow>
     0 \<le> s \<and> s + 32 \<le> end_lba \<and> bandStart end_lba band < s + 16 \<and> s + 16 < bandStart end_lba (band + 1)
   \<and> \<not> overlapsUnrecoveredSource s 32 ranges"
proof -
  let ?lo = "first_window end_lba band" and ?hi = "last_window end_lba band"
    and ?t = "middle_window end_lba band"
  have "s \<in> set (dvdSourceSampleCandidates end_lba band ranges) \<longleftrightarrow>
      ?lo \<le> s \<and> s \<le> ?hi \<and> \<not> overlapsUnrecoveredSource s 32 ranges"
  proof (cases "?lo > ?hi")
    case True
    then show ?thesis unfolding candidates_unfold [OF assms] by simp
  next
    case False
    have "?lo \<le> s \<Longrightarrow> s \<le> ?hi \<Longrightarrow> \<bar>s - ?t\<bar> \<le> max (?t - ?lo) (?hi - ?t)" by linarith
    with False show ?thesis unfolding candidates_unfold [OF assms]
      by (auto simp: candidates_at_set DVD_SOURCE_SAMPLE_SECTOR_COUNT_def simp del: le_max_iff_disj)
  qed
  then show ?thesis using window_between by blast
qed

lemma candidates_sorted:
  assumes "is_safe_integer end_lba" and "32 \<le> end_lba" and "0 \<le> band" and "band < 16"
  shows "sorted_wrt (nearer (middle_window end_lba band)) (dvdSourceSampleCandidates end_lba band ranges)"
  unfolding candidates_unfold [OF assms] by (simp add: candidates_in_order)

lemma sorted_wrt_distinct: "sorted_wrt Q xs \<Longrightarrow> (\<And>x. \<not> Q x x) \<Longrightarrow> distinct xs"
  by (induction xs) auto

text \<open>
  C15: The windows offered as samples of a band are exactly the windows of 32 sectors that lie in
  the accepted extent, have their midpoint inside the band and touch no unrecovered sector; each
  is offered once, in the order of its distance from the middle of the band, the lower address
  first.
\<close>

theorem sample_windows_exact:
  assumes "is_safe_integer end_lba" and "32 \<le> end_lba" and "0 \<le> band" and "band < 16"
    and "\<forall>r \<in> set ranges. 0 < sectorCount r"
  shows "set (dvdSourceSampleCandidates end_lba band ranges) =
      {s. 0 \<le> s \<and> s + 32 \<le> end_lba \<and> (end_lba * band) div 16 < s + 16
        \<and> s + 16 < (end_lba * (band + 1)) div 16 \<and> {s ..< s + 32} \<inter> covered ranges = {}}
    \<and> distinct (dvdSourceSampleCandidates end_lba band ranges)
    \<and> sorted_wrt (nearer (middle_window end_lba band)) (dvdSourceSampleCandidates end_lba band ranges)"
proof -
  let ?xs = "dvdSourceSampleCandidates end_lba band ranges"
  have sorted: "sorted_wrt (nearer (middle_window end_lba band)) ?xs"
    by (rule candidates_sorted [OF assms(1-4)])
  have members: "s \<in> set ?xs \<longleftrightarrow> 0 \<le> s \<and> s + 32 \<le> end_lba \<and> (end_lba * band) div 16 < s + 16
      \<and> s + 16 < (end_lba * (band + 1)) div 16 \<and> {s ..< s + 32} \<inter> covered ranges = {}" for s
    unfolding candidates_set [OF assms(1-4)] overlapsUnrecoveredSource_iff [OF assms(5), of 32, simplified]
    by (simp add: bandStart_def sample_constants)
  show ?thesis
    using sorted sorted_wrt_distinct [OF sorted] members by (auto simp: nearer_def)
qed

theorem sample_windows_exact_witness:
  "distinct (dvdSourceSampleCandidates 16000 4 [\<lparr>startLba = 4484, sectorCount = 64\<rparr>])
    \<and> 4400 \<in> set (dvdSourceSampleCandidates 16000 4 [\<lparr>startLba = 4484, sectorCount = 64\<rparr>])"
  using sample_windows_exact [of 16000 4 "[\<lparr>startLba = 4484, sectorCount = 64\<rparr>]"]
  by (simp add: is_safe_integer_def max_safe_integer_def lbas_def rangeEnd_def)
lemma bandStart_mono: "0 \<le> end_lba \<Longrightarrow> b \<le> c \<Longrightarrow> bandStart end_lba b \<le> bandStart end_lba c"
  by (simp add: bandStart_def sample_constants zdiv_mono1 mult_left_mono)

text \<open>Windows of different bands have different addresses.\<close>

lemma windows_of_bands_differ:
  assumes "s \<in> set (dvdSourceSampleCandidates end_lba b ranges)"
    and "s \<in> set (dvdSourceSampleCandidates end_lba c ranges)"
    and "is_safe_integer end_lba" and "32 \<le> end_lba" and "b \<in> {0..<16}" and "c \<in> {0..<16}"
  shows "b = c"
proof (rule ccontr)
  assume "b \<noteq> c"
  then consider "b + 1 \<le> c" | "c + 1 \<le> b" by linarith
  then show False
  proof cases
    case 1
    from bandStart_mono [OF _ this, of end_lba] show False
      using assms(1,2) candidates_set [of end_lba b] candidates_set [of end_lba c] assms(3-) by force
  next
    case 2
    from bandStart_mono [OF _ this, of end_lba] show False
      using assms(1,2) candidates_set [of end_lba b] candidates_set [of end_lba c] assms(3-) by force
  qed
qed

definition chosen_window ::
  "int \<Rightarrow> 'a unreadable_sector_range_scheme list \<Rightarrow> sample_reference \<Rightarrow> bool" where
  "chosen_window end_lba ranges s \<longleftrightarrow>
     smp_startLba s \<in> set (dvdSourceSampleCandidates end_lba (smp_bandIndex s) ranges)
   \<and> smp_sectorCount s = 32 \<and> is_sha256_hex (smp_digest s)"

lemma candidates_guards:
  "s \<in> set (dvdSourceSampleCandidates end_lba band ranges) \<Longrightarrow>
     is_safe_integer end_lba \<and> 32 \<le> end_lba \<and> 0 \<le> band \<and> band < 16"
  by (auto simp: dvdSourceSampleCandidates_def sample_constants split: if_splits)

lemma check_chosen_window:
  assumes "chosen_window end_lba ranges s"
    and "\<forall>t \<in> set seen. chosen_window end_lba ranges t \<and> smp_bandIndex t \<noteq> smp_bandIndex s"
  shows "check_sample_reference end_lba (map smp_bandIndex seen, map smp_startLba seen) s
    = Inr (map smp_bandIndex (s # seen), map smp_startLba (s # seen))"
proof -
  from assms(1) have s: "smp_startLba s \<in> set (dvdSourceSampleCandidates end_lba (smp_bandIndex s) ranges)"
    by (simp add: chosen_window_def)
  note g = candidates_guards [OF s]
  from g have ends: "is_safe_integer end_lba" "32 \<le> end_lba" "0 \<le> smp_bandIndex s" "smp_bandIndex s < 16"
    by auto
  from s have window: "0 \<le> smp_startLba s" "smp_startLba s + 32 \<le> end_lba"
      "bandStart end_lba (smp_bandIndex s) < smp_startLba s + 16"
      "smp_startLba s + 16 < bandStart end_lba (smp_bandIndex s + 1)"
    unfolding candidates_set [OF ends] by auto
  have "smp_startLba s \<noteq> smp_startLba t" if "t \<in> set seen" for t
  proof
    assume same: "smp_startLba s = smp_startLba t"
    from that assms(2) have t: "smp_startLba t \<in> set (dvdSourceSampleCandidates end_lba (smp_bandIndex t) ranges)"
      and "smp_bandIndex t \<noteq> smp_bandIndex s" by (auto simp: chosen_window_def)
    with s same candidates_guards [OF t] g show False
      using windows_of_bands_differ [of "smp_startLba s" end_lba "smp_bandIndex s" ranges "smp_bandIndex t"]
      by auto
  qed
  then have "smp_startLba s \<notin> smp_startLba ` set seen" by auto
  moreover have "smp_bandIndex s \<notin> smp_bandIndex ` set seen" using assms(2) by auto
  moreover have "is_safe_integer (smp_bandIndex s)" "is_safe_integer (smp_startLba s)"
    using ends window by (auto simp: is_safe_integer_def max_safe_integer_def)
  ultimately have "\<not> sample_reference_invalid end_lba (map smp_bandIndex seen) (map smp_startLba seen) s"
    using ends window assms(1)
    by (simp add: sample_reference_invalid_def sample_constants chosen_window_def Let_def)
  with assms(1) show ?thesis
    by (simp add: check_sample_reference_def chosen_window_def requireSha256Digest_def reject_if_def)
qed

lemma check_chosen_windows:
  assumes "\<forall>s \<in> set samples. chosen_window end_lba ranges s"
    and "\<forall>t \<in> set seen. chosen_window end_lba ranges t"
    and "distinct (map smp_bandIndex (samples @ seen))"
  shows "is_ok (fold_result (check_sample_reference end_lba) (map smp_bandIndex seen, map smp_startLba seen) samples)"
  using assms
proof (induction samples arbitrary: seen)
  case Nil
  then show ?case by simp
next
  case (Cons s samples)
  then have "check_sample_reference end_lba (map smp_bandIndex seen, map smp_startLba seen) s
      = Inr (map smp_bandIndex (s # seen), map smp_startLba (s # seen))"
    by (intro check_chosen_window [of _ ranges]) (auto simp: image_iff)
  moreover have "is_ok (fold_result (check_sample_reference end_lba)
      (map smp_bandIndex (s # seen), map smp_startLba (s # seen)) samples)"
    by (rule Cons.IH) (use Cons.prems in auto)
  ultimately show ?case by simp
qed

text \<open>A manifest of one such window for each of some bands is a valid one, once it is signed.\<close>

lemma chosen_samples_validate:
  assumes "\<not> manifest_header_invalid m" and "is_sha256_hex (sm_checkpointDigest m)"
    and "\<forall>s \<in> set (sm_samples m). chosen_window (sm_acceptedEndLbaExclusive m) ranges s"
    and "distinct (map smp_bandIndex (sm_samples m))"
    and "sm_manifestDigest m = createDvdSourceSampleManifestDigest sha256 m"
    and "is_sha256_hex (sm_manifestDigest m)"
  shows "validateDvdSourceSampleManifest sha256 m = Inr m"
proof -
  from assms(3,4) have "is_ok (fold_result (check_sample_reference (sm_acceptedEndLbaExclusive m)) ([], []) (sm_samples m))"
    using check_chosen_windows [of "sm_samples m" "sm_acceptedEndLbaExclusive m" ranges "[]"] by simp
  then obtain seen where "fold_result (check_sample_reference (sm_acceptedEndLbaExclusive m)) ([], [])
      (sm_samples m) = Inr seen"
    unfolding is_ok_iff by blast
  with assms show ?thesis
    by (simp add: validateDvdSourceSampleManifest_def requireSha256Digest_def reject_if_def)
qed

section \<open>What a match means\<close>

text \<open>The observed digest of a sample is the one the manifest has for it.\<close>

definition sample_confirmed :: "sample_reference \<Rightarrow> sample_finding \<Rightarrow> bool" where
  "sample_confirmed reference finding \<longleftrightarrow>
     fd_bandIndex finding = smp_bandIndex reference \<and> fd_startLba finding = smp_startLba reference
   \<and> fd_sectorCount finding = smp_sectorCount reference
   \<and> fd_observedDigest finding = Some (smp_digest reference)"

lemma validate_finding_confirmed:
  "validate_finding reference finding = Inr () \<Longrightarrow> fd_outcome finding = Sample_match \<Longrightarrow>
     sample_confirmed reference finding"
  by (auto simp: validate_finding_def sample_confirmed_def require_defs reject_if_def split: if_splits sum.splits)

lemma push_if_Nil [simp]: "push_if b x = [] \<longleftrightarrow> \<not> b"
  by (simp add: push_if_def)

lemma set_push_if [simp]: "set (push_if b x) = (if b then {x} else {})"
  by (cases b) (simp_all add: push_if_def)

lemma outcome_match_iff:
  "fst (dvdDiscVerificationOutcome i) = Match \<longleftrightarrow>
     oi_metadataMatches i \<and> \<not> oi_manifestUnavailable i \<and> oi_coverageComplete i \<and> \<not> oi_budgetExhausted i
   \<and> \<not> oi_interrupted i \<and> \<not> oi_insertionChanged i \<and> \<not> oi_checkpointChanged i
   \<and> list_all (\<lambda>f. fd_outcome f = Sample_match) (oi_findings i)"
proof -
  have "fst (dvdDiscVerificationOutcome i) = Match \<longleftrightarrow> outcome_reasons i = []"
    by (auto simp: dvdDiscVerificationOutcome_def Let_def)
  moreover have "list_all (\<lambda>f. fd_outcome f = Sample_match) fs \<longleftrightarrow>
      \<not> list_ex (\<lambda>f. fd_outcome f = Sample_mismatch) fs \<and> \<not> list_ex (\<lambda>f. fd_outcome f = Sample_unreadable) fs" for fs
    by (auto simp: list_all_iff list_ex_iff) (metis finding_outcome.exhaust)
  ultimately show ?thesis by (auto simp: outcome_reasons_def split: if_splits)
qed

lemma validated_findings_confirmed:
  assumes "validateDvdDiscVerificationFindings (Some m) findings = Inr ()"
    and "list_all (\<lambda>f. fd_outcome f = Sample_match) findings"
    and "length findings = length (sm_samples m)"
  shows "list_all2 sample_confirmed (sm_samples m) findings"
proof (rule list_all2I)
  from assms(1) have valid: "\<forall>c \<in> set (zip (sm_samples m) findings). validate_finding (fst c) (snd c) = Inr ()"
    by (auto simp: validateDvdDiscVerificationFindings_def result_simps split: if_splits)
  show "\<forall>c \<in> set (zip (sm_samples m) findings). case c of (s, f) \<Rightarrow> sample_confirmed s f"
  proof safe
    fix s f assume mem: "(s, f) \<in> set (zip (sm_samples m) findings)"
    with assms(2) have "fd_outcome f = Sample_match" by (auto simp: list_all_iff dest: set_zip_rightD)
    with valid mem show "sample_confirmed s f" by (force intro: validate_finding_confirmed)
  qed
qed (use assms(3) in simp)
section \<open>The projection of a manifest\<close>

lemma canonical_values_map: "canonical_values xs = map canonical_value xs"
  by (induction xs) auto

lemma canonical_sample_inject:
  assumes "canonical_value (sample_reference_json s) = canonical_value (sample_reference_json t)"
  shows "s = t"
  using canonical_object_member [OF assms [unfolded sample_reference_json_def], of "''bandIndex''"]
    canonical_object_member [OF assms [unfolded sample_reference_json_def], of "''startLba''"]
    canonical_object_member [OF assms [unfolded sample_reference_json_def], of "''sectorCount''"]
    canonical_object_member [OF assms [unfolded sample_reference_json_def], of "''digest''"]
  by (cases s; cases t) simp

lemma canonical_manifest_inject:
  assumes "canonical_value (sample_manifest_json (Some m)) = canonical_value (sample_manifest_json (Some n))"
  shows "m = n"
proof -
  note member = canonical_object_member [OF assms [unfolded sample_manifest_json_def option.case]]
  have "map (\<lambda>s. canonical_value (sample_reference_json s)) (sm_samples m)
      = map (\<lambda>s. canonical_value (sample_reference_json s)) (sm_samples n)"
    using member [of "''samples''"] by (simp add: canonical_values_map comp_def)
  then have "sm_samples m = sm_samples n"
    by (rule map_injective) (auto simp: inj_def intro: canonical_sample_inject)
  with member [of "''policyVersion''"] member [of "''byteRepresentation''"]
    member [of "''sourceMetadataFingerprint''"] member [of "''acceptedEndLbaExclusive''"]
    member [of "''checkpointRevision''"] member [of "''checkpointDigest''"] member [of "''manifestDigest''"]
  show ?thesis by (cases m; cases n) simp
qed

text \<open>A projection is accepted exactly when both manifests are valid and they are the same.\<close>

lemma assert_projection_exact:
  "assertDvdSourceSampleManifestProjection sha256 published projected = Inr () \<longleftrightarrow>
     published = projected
   \<and> (\<forall>m. published = Some m \<longrightarrow> validateDvdSourceSampleManifest sha256 m = Inr m)"
proof -
  have same: "canonicalJson (sample_manifest_json a) = canonicalJson (sample_manifest_json b) \<longleftrightarrow> a = b" for a b
  proof (cases a; cases b)
    fix m n assume "a = Some m" and "b = Some n"
    then show ?thesis using canonical_manifest_inject [of m n] by (auto simp: canonicalJson_def)
  qed (simp_all add: canonicalJson_def sample_manifest_json_def)
  have valid: "validateDvdSourceSampleManifest sha256 m = Inr n \<Longrightarrow> n = m" for m n
    by (auto simp: validateDvdSourceSampleManifest_def result_simps)
  show ?thesis
    unfolding assertDvdSourceSampleManifestProjection_def check_all_Inr same
    by (auto simp: invariant_if_def reject_if_Inr map_sum_Inr dest: valid split: option.splits)
qed

end
