(* ===== verification/RecoveryStore.thy ===== *)
theory RecoveryStore
  imports EncodeJobs SourceSamples RecoveryProjection
begin

text \<open>
  The tables that Archive Recovery works on, with the constraints of \<open>internal/schema.ts\<close> they are
  under, and the functions of \<open>internal/create-data-access.ts\<close> that its transactions share: the
  lookup of a recovery with its work, the exclusion of encode work, the start and the settlement
  of a pass, and the queueing of DVD Disc Verifications.

  The rows of a recovery and of its work extend those of \<open>RecoveryProjection\<close>, so that a
  checkpoint projection is a transaction of this store as well.  Columns that no operation reads
  (\<open>createdAt\<close> of the two) are left out.  A transaction takes the store and returns an error, in
  which case it is rolled back, or its result with the new store.  What \<open>now()\<close> and \<open>newId\<close>
  return are arguments.
\<close>

section \<open>Results\<close>

definition and_then :: "'e + 'a \<Rightarrow> ('a \<Rightarrow> 'e + 'b) \<Rightarrow> 'e + 'b" where
  "and_then r k = (case r of Inl e \<Rightarrow> Inl e | Inr x \<Rightarrow> k x)"

lemma and_then_Inr [result_simps]: "and_then r k = Inr y \<longleftrightarrow> (\<exists>x. r = Inr x \<and> k x = Inr y)"
  by (cases r) (simp_all add: and_then_def)

lemma and_then_simps [simp]: "and_then (Inl e) k = Inl e" "and_then (Inr x) k = k x"
  by (simp_all add: and_then_def)

text \<open>\<open>requireRow\<close>.\<close>

definition requireRow :: "'a option \<Rightarrow> string \<Rightarrow> string \<Rightarrow> 'a result" where
  "requireRow row recordType i =
     (case row of None \<Rightarrow> Inl (RecordNotFoundError recordType i) | Some x \<Rightarrow> Inr x)"

lemma requireRow_Inr [result_simps]: "requireRow row recordType i = Inr x \<longleftrightarrow> row = Some x"
  by (cases row) (simp_all add: requireRow_def)

text \<open>The row that \<open>returning().get()\<close> yields.\<close>

definition first_row :: "'a list \<Rightarrow> 'a option" where
  "first_row rows = (case rows of [] \<Rightarrow> None | x # _ \<Rightarrow> Some x)"

lemma first_row_Some [simp]: "first_row rows = Some x \<longleftrightarrow> (\<exists>ys. rows = x # ys)"
  by (cases rows) (auto simp: first_row_def)

text \<open>\<open>orderBy(desc(key)).limit(1).get()\<close>.\<close>

definition latest_by :: "('a \<Rightarrow> 'k::linorder) \<Rightarrow> 'a list \<Rightarrow> 'a option" where
  "latest_by key rows = (if rows = [] then None else Some (last (sort_key key rows)))"

text \<open>\<open>orderBy(asc(key)).limit(1).get()\<close>.\<close>

definition earliest_by :: "('a \<Rightarrow> 'k::linorder) \<Rightarrow> 'a list \<Rightarrow> 'a option" where
  "earliest_by key rows = first_row (sort_key key rows)"

section \<open>Rows\<close>

datatype recovery_pass_direction = Forward | Reverse

datatype recovery_pass_outcome = Productive | Unproductive | Pass_completed

record recovery_pass_summary =
  ps_passNumber :: int
  ps_direction :: recovery_pass_direction
  ps_initialUnrecoveredSectorCount :: int
  ps_recoveredSectorCount :: int
  ps_remainingSectorCount :: int
  ps_lastCursorLba :: "int option"
  ps_startedAtMs :: int
  ps_completedAtMs :: int
  ps_elapsedMs :: int
  ps_outcome :: recovery_pass_outcome

datatype recovery_speed_mode = Normal_speed | Low_speed

record speed_request_result =
  sr_archiveRecoveryId :: string
  sr_attemptId :: string
  sr_discInspectionId :: string
  sr_mode :: recovery_speed_mode
  sr_outcome :: string
  sr_attemptedSpeeds :: "int list"
  sr_selectedSpeed :: "int option"
  sr_observedSpeed :: "int option"

record recovery_row = archive_recovery +
  rec_attemptOrdinal :: int
  rec_passHistory :: "recovery_pass_summary list"
  rec_resumeOperationId :: "string option"
  rec_resumeRequestedAt :: "int option"
  rec_resumeCheckpointRevision :: "int option"
  rec_resumeCheckpointDigest :: "string option"
  rec_speedMode :: "recovery_speed_mode option"
  rec_speedRequestResult :: "speed_request_result option"
  rec_stopOperationId :: "string option"
  rec_stopRequestedAt :: "int option"
  rec_stoppedAt :: "int option"
  rec_faultCode :: "string option"

record work_row = archive_recovery_work +
  work_requestedAt :: "int option"
  work_claimedAt :: "int option"
  work_passNumber :: int
  work_passDirection :: recovery_pass_direction
  passInitialUnrecoveredSectorCount :: "int option"
  work_admittedDevicePath :: "string option"
  work_admittedDeviceId :: "string option"
  work_admittedDeviceInode :: "string option"

datatype item_status = Item_queued | Item_running | Item_completed | Item_failed

text \<open>What a verification is about, and the verification itself.\<close>

record verification_subject =
  vs_archiveRecoveryId :: string
  vs_archiveRecoveryAttemptId :: "string option"
  vs_originalDiscArchiveId :: string
  vs_discInspectionId :: string
  vs_detectedDiscId :: string
  vs_mediaGeneration :: string
  vs_sourceMetadataFingerprint :: string
  vs_observedMetadataFingerprint :: string
  vs_checkpointRevision :: int
  vs_checkpointDigest :: string

record verification_row = verification_subject +
  vr_id :: string
  vr_attemptOrdinal :: int
  vr_status :: item_status
  vr_outcome :: "verification_outcome option"
  vr_reasons :: "verification_reason list"
  vr_findings :: "sample_finding list"
  vr_budgetExhausted :: bool
  vr_workerExecutionId :: "string option"
  vr_claimToken :: "string option"
  vr_claimedAt :: "int option"
  vr_admittedDevicePath :: "string option"
  vr_admittedDeviceId :: "string option"
  vr_admittedDeviceInode :: "string option"
  vr_startedAt :: "int option"
  vr_completedAt :: "int option"
  vr_failureCode :: "string option"
  vr_createdAt :: int
  vr_updatedAt :: int

record confirmation_row = disc_confirmation +
  conf_expiryReason :: "string option"
  conf_createdAt :: int

datatype reconciliation_phase =
  Phase_queued | Examining | Rolling_back | Projecting | Cleaning_up | Phase_completed

datatype reconciliation_outcome = Already_consistent | Rolled_back | Rolled_forward | Cleaned_up

record checkpoint_identity =
  ck_revision :: int
  ck_manifestId :: string
  ck_manifestDigest :: string

record reconciliation_evidence =
  re_authoritativeCheckpoint :: checkpoint_identity
  re_databaseProjectionBefore :: checkpoint_identity
  re_databaseProjectionAfter :: checkpoint_identity
  re_journal :: string
  re_uncommittedManifest :: string

record reconciliation_row =
  rn_id :: string
  rn_archiveRecoveryId :: string
  rn_attemptOrdinal :: int
  rn_originalDiscArchiveId :: string
  rn_status :: item_status
  rn_phase :: reconciliation_phase
  rn_outcome :: "reconciliation_outcome option"
  rn_evidence :: "reconciliation_evidence option"
  rn_failureCode :: "string option"
  rn_workerExecutionId :: "string option"
  rn_claimToken :: "string option"
  rn_claimedAt :: "int option"
  rn_startedAt :: "int option"
  rn_completedAt :: "int option"
  rn_createdAt :: int
  rn_updatedAt :: int

record inspection_row =
  in_id :: string
  in_opticalDriveId :: string
  in_isCurrent :: bool
  in_status :: string
  in_detectedDiscId :: "string option"
  in_mediaGeneration :: string
  in_updatedAt :: int

record drive_row =
  od_id :: string
  od_isPresent :: bool
  od_isEnabled :: bool
  od_devicePath :: string

record detected_disc_row =
  dd_id :: string
  dd_opticalDriveId :: string
  dd_fingerprint :: string

record recovery_archive_row = archive_record +
  arc_detectedDiscId :: string

record storage_preflight =
  sp_status :: string
  sp_reasonCode :: "string option"

record damage_preview_row =
  dp_originalDiscArchiveId :: string
  dp_status :: string
  dp_sourceReleased :: bool

text \<open>
  What a mutation invocation stores, by the operation that recorded it; dates are restored when
  it is read back.
\<close>

datatype recovery_receipt =
    Recovery_receipt recovery_row "work_row option"
  | Reconciliation_receipt reconciliation_row
  | Verification_receipt verification_row
  | Confirmation_receipt confirmation_row

record recovery_invocation_row =
  ri_key :: string
  ri_operation :: string
  ri_semanticInput :: string
  ri_receipt :: recovery_receipt

record recovery_outcome_event =
  ro_kind :: string
  ro_sourceEventId :: string
  ro_originalDiscArchiveId :: string

record recovery_store =
  rs_recoveries :: "recovery_row list"
  rs_work :: "work_row list"
  rs_verifications :: "verification_row list"
  rs_confirmations :: "confirmation_row list"
  rs_reconciliations :: "reconciliation_row list"
  rs_headers :: "header_row list"
  rs_manifests :: "manifest_row list"
  rs_reads :: "read_row list"
  rs_archives :: "recovery_archive_row list"
  rs_inspections :: "inspection_row list"
  rs_drives :: "drive_row list"
  rs_discs :: "detected_disc_row list"
  rs_sampleManifests :: "(string \<times> sample_manifest) list"
  rs_preflight :: "storage_preflight option"
  rs_previews :: "damage_preview_row list"
  rs_invocations :: "recovery_invocation_row list"
  rs_outcomes :: "recovery_outcome_event list"
  rs_encode :: encode_catalog

type_synonym 'a recovery_transaction = "('a \<times> recovery_store) result"

section \<open>Constraints\<close>

text \<open>
  The CHECK constraints of a row; the columns' types give the enumerations, the integers and the
  columns that are not null.
\<close>

definition ARCHIVE_RECOVERY_FAULT_CODES :: "string list" where
  "ARCHIVE_RECOVERY_FAULT_CODES =
     [''CONSISTENCY_FAULT'', ''WRITER_NOT_QUIESCENT'', ''DISC_VERIFICATION_STALE'',
      ''STORAGE_UNSUPPORTED'', ''JOURNAL_CAPACITY_INSUFFICIENT'', ''JOURNAL_RESERVATION_FAILED'',
      ''JOURNAL_SYNC_FAILED'', ''IMAGE_WRITE_FAILED'', ''IMAGE_SYNC_FAILED'',
      ''CHECKPOINT_CAPACITY_EXHAUSTED'', ''CHECKPOINT_SYNC_FAILED'',
      ''CHECKPOINT_REPLACEMENT_FAILED'', ''SOURCE_CHANGED'', ''SOURCE_OBSERVATION_FAILED'',
      ''SOURCE_READ_FAILED'', ''SOURCE_NOT_READY'', ''SOURCE_UNIT_ATTENTION'',
      ''SOURCE_HARDWARE_ERROR'', ''SOURCE_TRANSPORT_ERROR'', ''SOURCE_PROTECTION_ERROR'',
      ''SOURCE_OUT_OF_RANGE'', ''SOURCE_READ_UNCLASSIFIED'']"

definition resume_check :: "recovery_row \<Rightarrow> bool" where
  "resume_check r \<longleftrightarrow>
     (rec_resumeOperationId r = None \<and> rec_resumeRequestedAt r = None
      \<and> rec_resumeCheckpointRevision r = None \<and> rec_resumeCheckpointDigest r = None
      \<and> rec_speedMode r = None \<and> rec_speedRequestResult r = None)
   \<or> (rec_resumeOperationId r \<noteq> None \<and> rec_resumeRequestedAt r \<noteq> None
      \<and> (case rec_resumeCheckpointRevision r of None \<Rightarrow> False | Some n \<Rightarrow> 0 < n)
      \<and> (case rec_resumeCheckpointDigest r of None \<Rightarrow> False | Some d \<Rightarrow> is_sha256_hex d)
      \<and> rec_speedMode r \<noteq> None)"

definition stop_check :: "recovery_row \<Rightarrow> bool" where
  "stop_check r \<longleftrightarrow>
     (case rec_status r of
        Stopping \<Rightarrow> rec_stopOperationId r \<noteq> None \<and> rec_stopRequestedAt r \<noteq> None \<and> rec_stoppedAt r = None
      | Stopped \<Rightarrow> rec_stopOperationId r \<noteq> None \<and> rec_stopRequestedAt r \<noteq> None \<and> rec_stoppedAt r \<noteq> None
      | Faulted \<Rightarrow> rec_stoppedAt r = None \<and> (rec_stopOperationId r = None) = (rec_stopRequestedAt r = None)
      | _ \<Rightarrow> rec_stopOperationId r = None \<and> rec_stopRequestedAt r = None \<and> rec_stoppedAt r = None)"

definition recovery_checks :: "recovery_row \<Rightarrow> bool" where
  "recovery_checks r \<longleftrightarrow>
     0 < rec_attemptOrdinal r
   \<and> (rec_status r = Paused) = (rec_pauseReason r \<noteq> None)
   \<and> length (rec_passHistory r) \<le> 16
   \<and> resume_check r
   \<and> stop_check r
   \<and> (rec_status r = Faulted) = (rec_faultCode r \<noteq> None)
   \<and> (case rec_faultCode r of None \<Rightarrow> True | Some code \<Rightarrow> code \<in> set ARCHIVE_RECOVERY_FAULT_CODES)"

definition claim_check :: "work_row \<Rightarrow> bool" where
  "claim_check w \<longleftrightarrow>
     (case work_status w of
        Requested \<Rightarrow> work_requestedAt w \<noteq> None \<and> work_claimedBy w = None \<and> work_claimToken w = None
          \<and> work_claimedAt w = None
      | Claimed \<Rightarrow> work_claimedBy w \<noteq> None \<and> work_claimToken w \<noteq> None \<and> work_claimedAt w \<noteq> None)"

definition pass_check :: "work_row \<Rightarrow> bool" where
  "pass_check w \<longleftrightarrow>
     0 < work_passNumber w
   \<and> (case (passStartedAt w, passInitialUnrecoveredSectorCount w) of
        (None, None) \<Rightarrow> passRecoveredSectorCount w = 0 \<and> passCursorLba w = None
      | (Some _, Some initial) \<Rightarrow> 0 < initial
          \<and> 0 \<le> passRecoveredSectorCount w \<and> passRecoveredSectorCount w \<le> initial
      | _ \<Rightarrow> False)"

definition device_check :: "work_row \<Rightarrow> bool" where
  "device_check w \<longleftrightarrow>
     (work_admittedDevicePath w = None \<and> work_admittedDeviceId w = None \<and> work_admittedDeviceInode w = None)
   \<or> (work_status w = Claimed \<and> work_admittedDevicePath w \<notin> {None, Some []}
      \<and> work_admittedDeviceId w \<notin> {None, Some []} \<and> work_admittedDeviceInode w \<notin> {None, Some []})"

definition work_checks :: "work_row \<Rightarrow> bool" where
  "work_checks w \<longleftrightarrow>
     claim_check w \<and> pass_check w \<and> device_check w
   \<and> (case passCursorLba w of None \<Rightarrow> True | Some lba \<Rightarrow> 0 \<le> lba)"

definition verification_checks :: "verification_row \<Rightarrow> bool" where
  "verification_checks v \<longleftrightarrow>
     0 < vs_checkpointRevision v \<and> is_sha256_hex (vs_checkpointDigest v)
   \<and> 0 < vr_attemptOrdinal v \<and> vs_archiveRecoveryAttemptId v \<noteq> Some []
   \<and> (case vr_status v of
        Item_completed \<Rightarrow> vr_outcome v \<noteq> None \<and> vr_completedAt v \<noteq> None \<and> vr_failureCode v = None
      | Item_failed \<Rightarrow> vr_outcome v = None \<and> vr_completedAt v \<noteq> None
          \<and> vr_failureCode v = Some ''DISC_VERIFICATION_UNAVAILABLE''
      | _ \<Rightarrow> vr_outcome v = None \<and> vr_completedAt v = None \<and> vr_failureCode v = None)
   \<and> (if vr_status v = Item_running
      then vr_claimToken v \<noteq> None \<and> vr_claimedAt v \<noteq> None \<and> vr_workerExecutionId v \<noteq> None
        \<and> vr_startedAt v \<noteq> None
      else vr_claimToken v = None \<and> vr_claimedAt v = None)
   \<and> ((vr_admittedDevicePath v = None \<and> vr_admittedDeviceId v = None \<and> vr_admittedDeviceInode v = None)
      \<or> (vr_admittedDevicePath v \<notin> {None, Some []} \<and> vr_admittedDeviceId v \<notin> {None, Some []}
         \<and> vr_admittedDeviceInode v \<notin> {None, Some []}))"

definition EXPIRY_REASONS :: "string list" where
  "EXPIRY_REASONS =
     [''RECOVERY_ATTEMPT_CHANGED'', ''DISC_INSERTION_CHANGED'', ''WORKER_EXECUTION_CHANGED'',
      ''DISC_CHECKPOINT_CHANGED'', ''DISC_VERIFICATION_CHANGED'', ''DISC_VERIFICATION_RESULT_CHANGED'',
      ''DISC_SOURCE_CHANGED'']"

definition confirmation_checks :: "confirmation_row \<Rightarrow> bool" where
  "confirmation_checks f \<longleftrightarrow>
     conf_archiveRecoveryAttemptId f \<noteq> [] \<and> conf_mediaGeneration f \<noteq> []
   \<and> conf_verificationWorkerExecutionId f \<noteq> []
   \<and> conf_verificationOutcome f \<in> {''mismatch'', ''inconclusive''}
   \<and> is_sha256_hex (conf_verificationResultDigest f)
   \<and> 0 < conf_checkpointRevision f \<and> is_sha256_hex (conf_checkpointDigest f)
   \<and> conf_acknowledgedMixedSource f
   \<and> (case (conf_expiredAt f, conf_expiryReason f) of
        (None, None) \<Rightarrow> True
      | (Some _, Some reason) \<Rightarrow> reason \<in> set EXPIRY_REASONS
      | _ \<Rightarrow> False)"

definition reconciliation_checks :: "reconciliation_row \<Rightarrow> bool" where
  "reconciliation_checks n \<longleftrightarrow>
     0 < rn_attemptOrdinal n
   \<and> (case rn_status n of
        Item_completed \<Rightarrow> rn_phase n = Phase_completed \<and> rn_outcome n \<noteq> None \<and> rn_evidence n \<noteq> None
          \<and> rn_failureCode n = None \<and> rn_completedAt n \<noteq> None
      | Item_failed \<Rightarrow> rn_phase n = Phase_completed \<and> rn_outcome n = None \<and> rn_evidence n = None
          \<and> rn_failureCode n \<in> {Some ''CONSISTENCY_FAULT'', Some ''WRITER_NOT_QUIESCENT'',
              Some ''STORAGE_UNSUPPORTED''}
          \<and> rn_completedAt n \<noteq> None
      | _ \<Rightarrow> rn_outcome n = None \<and> rn_evidence n = None \<and> rn_failureCode n = None \<and> rn_completedAt n = None)
   \<and> (if rn_status n = Item_running
      then rn_workerExecutionId n \<noteq> None \<and> rn_claimToken n \<noteq> None \<and> rn_claimedAt n \<noteq> None
        \<and> rn_startedAt n \<noteq> None \<and> rn_phase n \<noteq> Phase_queued \<and> rn_phase n \<noteq> Phase_completed
      else rn_claimToken n = None \<and> rn_claimedAt n = None)"

section \<open>Statements\<close>

definition check_failed :: js_error where
  "check_failed = SqliteError ''CHECK constraint failed''"

definition unique_failed :: js_error where
  "unique_failed = SqliteError ''UNIQUE constraint failed''"

definition foreign_key_failed :: js_error where
  "foreign_key_failed = SqliteError ''FOREIGN KEY constraint failed''"

text \<open>The recovery, archive and attempt a work row refers to, and its confirmation.\<close>

definition work_references :: "recovery_store \<Rightarrow> work_row \<Rightarrow> bool" where
  "work_references c w \<longleftrightarrow>
     list_ex (\<lambda>r. rec_id r = work_archiveRecoveryId w
        \<and> rec_originalDiscArchiveId r = work_originalDiscArchiveId w
        \<and> rec_attemptId r = work_attemptId w) (rs_recoveries c)
   \<and> (case work_discConfirmationId w of None \<Rightarrow> True
      | Some i \<Rightarrow> list_ex (\<lambda>f. conf_id f = i) (rs_confirmations c))"

text \<open>
  \<open>update(...).set(...).where(...).returning()\<close> of each table: the rows changed and the new
  store.
\<close>

definition update_recoveries ::
  "(recovery_row \<Rightarrow> bool) \<Rightarrow> (recovery_row \<Rightarrow> recovery_row) \<Rightarrow> recovery_store
     \<Rightarrow> recovery_row list recovery_transaction" where
  "update_recoveries P f c =
     (let changed = map f (filter P (rs_recoveries c));
          c' = c\<lparr>rs_recoveries := update_where P f (rs_recoveries c)\<rparr> in
      if \<not> list_all recovery_checks changed then Inl check_failed
      else if \<not> list_all (work_references c') (rs_work c) then Inl foreign_key_failed
      else Inr (changed, c'))"

definition update_work_rows ::
  "(work_row \<Rightarrow> bool) \<Rightarrow> (work_row \<Rightarrow> work_row) \<Rightarrow> recovery_store
     \<Rightarrow> work_row list recovery_transaction" where
  "update_work_rows P f c =
     (let changed = map f (filter P (rs_work c)) in
      if \<not> list_all work_checks changed then Inl check_failed
      else if \<not> list_all (work_references c) changed then Inl foreign_key_failed
      else Inr (changed, c\<lparr>rs_work := update_where P f (rs_work c)\<rparr>))"

definition insert_work :: "work_row \<Rightarrow> recovery_store \<Rightarrow> work_row recovery_transaction" where
  "insert_work w c =
     (if \<not> work_checks w then Inl check_failed
      else if list_ex (\<lambda>v. work_archiveRecoveryId v = work_archiveRecoveryId w
          \<or> work_originalDiscArchiveId v = work_originalDiscArchiveId w) (rs_work c)
      then Inl unique_failed
      else if \<not> work_references c w then Inl foreign_key_failed
      else Inr (w, c\<lparr>rs_work := rs_work c @ [w]\<rparr>))"

definition delete_work :: "(work_row \<Rightarrow> bool) \<Rightarrow> recovery_store \<Rightarrow> work_row list \<times> recovery_store" where
  "delete_work P c = (filter P (rs_work c), c\<lparr>rs_work := filter (\<lambda>w. \<not> P w) (rs_work c)\<rparr>)"

definition update_verifications ::
  "(verification_row \<Rightarrow> bool) \<Rightarrow> (verification_row \<Rightarrow> verification_row) \<Rightarrow> recovery_store
     \<Rightarrow> verification_row list recovery_transaction" where
  "update_verifications P f c =
     (let changed = map f (filter P (rs_verifications c)) in
      if \<not> list_all verification_checks changed then Inl check_failed
      else Inr (changed, c\<lparr>rs_verifications := update_where P f (rs_verifications c)\<rparr>))"

definition insert_verification ::
  "verification_row \<Rightarrow> recovery_store \<Rightarrow> verification_row recovery_transaction" where
  "insert_verification v c =
     (if \<not> verification_checks v then Inl check_failed
      else if list_ex (\<lambda>u. vr_id u = vr_id v
          \<or> (vs_archiveRecoveryId u = vs_archiveRecoveryId v \<and> vr_attemptOrdinal u = vr_attemptOrdinal v))
        (rs_verifications c)
      then Inl unique_failed
      else Inr (v, c\<lparr>rs_verifications := rs_verifications c @ [v]\<rparr>))"

definition update_confirmations ::
  "(confirmation_row \<Rightarrow> bool) \<Rightarrow> (confirmation_row \<Rightarrow> confirmation_row) \<Rightarrow> recovery_store
     \<Rightarrow> confirmation_row list recovery_transaction" where
  "update_confirmations P f c =
     (let changed = map f (filter P (rs_confirmations c)) in
      if \<not> list_all confirmation_checks changed then Inl check_failed
      else Inr (changed, c\<lparr>rs_confirmations := update_where P f (rs_confirmations c)\<rparr>))"

definition insert_confirmation ::
  "confirmation_row \<Rightarrow> recovery_store \<Rightarrow> confirmation_row recovery_transaction" where
  "insert_confirmation f c =
     (if \<not> confirmation_checks f then Inl check_failed
      else if list_ex (\<lambda>g. conf_id g = conf_id f \<or> conf_verificationId g = conf_verificationId f)
          (rs_confirmations c)
      then Inl unique_failed
      else Inr (f, c\<lparr>rs_confirmations := rs_confirmations c @ [f]\<rparr>))"

text \<open>The unique index over the reconciliations that are not finished.\<close>

definition active_reconciliations :: "reconciliation_row list \<Rightarrow> string list" where
  "active_reconciliations rows =
     map rn_archiveRecoveryId (filter (\<lambda>n. rn_status n = Item_queued \<or> rn_status n = Item_running) rows)"

definition update_reconciliations ::
  "(reconciliation_row \<Rightarrow> bool) \<Rightarrow> (reconciliation_row \<Rightarrow> reconciliation_row) \<Rightarrow> recovery_store
     \<Rightarrow> reconciliation_row list recovery_transaction" where
  "update_reconciliations P f c =
     (let changed = map f (filter P (rs_reconciliations c));
          rows = update_where P f (rs_reconciliations c) in
      if \<not> list_all reconciliation_checks changed then Inl check_failed
      else if \<not> distinct (active_reconciliations rows) then Inl unique_failed
      else Inr (changed, c\<lparr>rs_reconciliations := rows\<rparr>))"

definition insert_reconciliation ::
  "reconciliation_row \<Rightarrow> recovery_store \<Rightarrow> reconciliation_row recovery_transaction" where
  "insert_reconciliation n c =
     (let rows = rs_reconciliations c @ [n] in
      if \<not> reconciliation_checks n then Inl check_failed
      else if list_ex (\<lambda>m. rn_id m = rn_id n
          \<or> (rn_archiveRecoveryId m = rn_archiveRecoveryId n \<and> rn_attemptOrdinal m = rn_attemptOrdinal n))
          (rs_reconciliations c)
        \<or> \<not> distinct (active_reconciliations rows)
      then Inl unique_failed
      else Inr (n, c\<lparr>rs_reconciliations := rows\<rparr>))"

section \<open>Mutation invocations\<close>

definition mutation_key_conflict :: js_error where
  "mutation_key_conflict = DomainInvariantError
     ''Mutation key has already been used for different operation or inputs''"

text \<open>
  The table is shared with the encode mutations, whose operations have other names.
\<close>

definition readMutationInvocation ::
  "recovery_store \<Rightarrow> string \<Rightarrow> string \<Rightarrow> string \<Rightarrow> recovery_receipt option result" where
  "readMutationInvocation c mutationKey operation semanticInput =
     (if list_ex (\<lambda>m. mi_key m = mutationKey) (mutationInvocations (rs_encode c))
      then Inl mutation_key_conflict
      else case find (\<lambda>m. ri_key m = mutationKey) (rs_invocations c) of
        None \<Rightarrow> Inr None
      | Some previous \<Rightarrow>
          if ri_operation previous \<noteq> operation \<or> ri_semanticInput previous \<noteq> semanticInput
          then Inl mutation_key_conflict
          else Inr (Some (ri_receipt previous)))"

definition recordMutationInvocation ::
  "string \<Rightarrow> string \<Rightarrow> string \<Rightarrow> recovery_receipt \<Rightarrow> recovery_store \<Rightarrow> recovery_store result" where
  "recordMutationInvocation mutationKey operation semanticInput receipt c =
     (if list_ex (\<lambda>m. mi_key m = mutationKey) (mutationInvocations (rs_encode c))
        \<or> list_ex (\<lambda>m. ri_key m = mutationKey) (rs_invocations c)
      then Inl unique_failed
      else Inr (c\<lparr>rs_invocations := rs_invocations c
        @ [\<lparr>ri_key = mutationKey, ri_operation = operation, ri_semanticInput = semanticInput,
            ri_receipt = receipt\<rparr>]\<rparr>))"

section \<open>A recovery and its work\<close>

text \<open>\<open>findArchiveRecoveryRecord\<close>; a condition that is not given is \<open>None\<close>.\<close>

type_synonym recovery_record = "recovery_row \<times> work_row option"

definition findArchiveRecoveryRecord ::
  "recovery_store \<Rightarrow> string option \<Rightarrow> string option \<Rightarrow> recovery_record option" where
  "findArchiveRecoveryRecord c archiveRecoveryId archiveId =
     map_option (\<lambda>r. (r, find (\<lambda>w. work_archiveRecoveryId w = rec_id r) (rs_work c)))
       (find (\<lambda>r. (archiveRecoveryId = None \<or> archiveRecoveryId = Some (rec_id r))
          \<and> (archiveId = None \<or> archiveId = Some (rec_originalDiscArchiveId r))) (rs_recoveries c))"

abbreviation "findRecovery c i \<equiv> findArchiveRecoveryRecord c (Some i) None"

abbreviation "recovery_claimed work \<equiv>
  (case work of None \<Rightarrow> False | Some w \<Rightarrow> work_status w = Claimed)"

abbreviation "recovery_requested work \<equiv>
  (case work of None \<Rightarrow> False | Some w \<Rightarrow> work_status w = Requested)"

text \<open>\<open>archive-recovery-work.ts\<close>: the jobs that hold an archive.\<close>

definition ACTIVE_ENCODE_WORK_STATUSES :: "encode_job_status list" where
  "ACTIVE_ENCODE_WORK_STATUSES = [encode_job_status.Queued, encode_job_status.Running, CancellationRequested]"

definition isActiveEncodeWorkStatus :: "encode_job_status \<Rightarrow> bool" where
  "isActiveEncodeWorkStatus status \<longleftrightarrow> status \<in> set ACTIVE_ENCODE_WORK_STATUSES"

definition active_for_archive :: "encode_catalog \<Rightarrow> string \<Rightarrow> encode_job \<Rightarrow> bool" where
  "active_for_archive e archiveId j \<longleftrightarrow>
     (case find_discSelection e (ej_discSelectionId j) of
        None \<Rightarrow> False
      | Some s \<Rightarrow> ds_originalDiscArchiveId s = archiveId \<and> isActiveEncodeWorkStatus (ej_status j))"

definition listActiveEncodeWorkForArchive :: "encode_catalog \<Rightarrow> string \<Rightarrow> encode_job list" where
  "listActiveEncodeWorkForArchive e archiveId =
     sort_key (\<lambda>j. (ej_createdAt j, ej_id j)) (filter (active_for_archive e archiveId) (encodeJobs e))"

definition activeEncodeWorkIdentities :: "encode_job list \<Rightarrow> (string \<times> encode_job_status) list" where
  "activeEncodeWorkIdentities jobs =
     map (\<lambda>j. (ej_id j, ej_status j))
       (sort_key (\<lambda>j. (ej_createdAt j, ej_id j))
         (filter (\<lambda>j. isActiveEncodeWorkStatus (ej_status j)) jobs))"

text \<open>\<open>createEncodeWorkConflictCurrent\<close>: the identities of the recovery's work and of the jobs.\<close>

record encode_work_conflict =
  ec_archiveRecoveryId :: string
  ec_originalDiscArchiveId :: string
  ec_work :: "(string \<times> string \<times> string \<times> archive_recovery_work_status) option"
  ec_encodeJobs :: "(string \<times> encode_job_status) list"

definition archiveRecoveryWorkIdentity ::
  "work_row \<Rightarrow> string \<times> string \<times> string \<times> archive_recovery_work_status" where
  "archiveRecoveryWorkIdentity w =
     (work_archiveRecoveryId w, work_originalDiscArchiveId w, work_attemptId w, work_status w)"

definition createEncodeWorkConflictCurrent ::
  "recovery_record \<Rightarrow> encode_job list \<Rightarrow> encode_work_conflict" where
  "createEncodeWorkConflictCurrent recovery jobs =
     \<lparr>ec_archiveRecoveryId = rec_id (fst recovery),
      ec_originalDiscArchiveId = rec_originalDiscArchiveId (fst recovery),
      ec_work = map_option archiveRecoveryWorkIdentity (snd recovery),
      ec_encodeJobs = activeEncodeWorkIdentities jobs\<rparr>"

definition encodeWorkConflictCurrent :: "recovery_store \<Rightarrow> recovery_record \<Rightarrow> encode_work_conflict" where
  "encodeWorkConflictCurrent c recovery =
     createEncodeWorkConflictCurrent recovery
       (listActiveEncodeWorkForArchive (rs_encode c) (rec_originalDiscArchiveId (fst recovery)))"

definition requireNoActiveEncodeWork :: "recovery_store \<Rightarrow> recovery_record \<Rightarrow> unit result" where
  "requireNoActiveEncodeWork c recovery =
     reject_if (ec_encodeJobs (encodeWorkConflictCurrent c recovery) \<noteq> []) EncodeWorkConflictError"

text \<open>\<open>requireCurrentArchiveRecoveryClaim\<close>, over this store.\<close>

definition requireCurrentRecoveryClaim ::
  "recovery_store \<Rightarrow> work_row \<Rightarrow> (recovery_row \<times> work_row) result" where
  "requireCurrentRecoveryClaim c claim =
     (let stale = StaleJobAttemptError ''Archive Recovery work'' (work_archiveRecoveryId claim) in
      case findArchiveRecoveryRecord c (Some (work_archiveRecoveryId claim))
          (Some (work_originalDiscArchiveId claim)) of
        Some (r, Some w) \<Rightarrow>
          if work_status w \<noteq> Claimed
             \<or> work_claimToken w \<noteq> work_claimToken claim
             \<or> work_claimedBy w \<noteq> work_claimedBy claim
             \<or> work_attemptId w \<noteq> work_attemptId claim
             \<or> rec_attemptId r \<noteq> work_attemptId claim
          then Inl stale else Inr (r, w)
      | _ \<Rightarrow> Inl stale)"

section \<open>The unrecovered source of an archive\<close>

definition find_header :: "recovery_store \<Rightarrow> string \<Rightarrow> header_row option" where
  "find_header c archiveId = find (\<lambda>h. header_originalDiscArchiveId h = archiveId) (rs_headers c)"

definition requireHeader :: "recovery_store \<Rightarrow> string \<Rightarrow> header_row result" where
  "requireHeader c archiveId = requireRow (find_header c archiveId) ''DVD Archive Evidence'' archiveId"

definition currentDvdUnrecoveredSourceRanges ::
  "recovery_store \<Rightarrow> string \<Rightarrow> dvd_unrecovered_source_range list result" where
  "currentDvdUnrecoveredSourceRanges c archiveId =
     and_then (requireHeader c archiveId) (\<lambda>header.
       map_sum id row_unrecoveredSourceRanges
         (requireRow (find (\<lambda>m. row_id m = currentManifestId header) (rs_manifests c))
           ''DVD Archive Evidence'' archiveId))"

definition settledArchiveRecoveryStatus ::
  "recovery_store \<Rightarrow> string \<Rightarrow> archive_recovery_status result" where
  "settledArchiveRecoveryStatus c archiveId =
     map_sum id (\<lambda>ranges. if length ranges = 0 then Completed else Eligible)
       (currentDvdUnrecoveredSourceRanges c archiveId)"

definition unrecoveredSectorCount :: "recovery_store \<Rightarrow> string \<Rightarrow> int result" where
  "unrecoveredSectorCount c archiveId =
     map_sum id sectorCount_of (currentDvdUnrecoveredSourceRanges c archiveId)"

section \<open>Passes\<close>

definition DVD_RECOVERY_PASS_HISTORY_LIMIT :: nat where
  "DVD_RECOVERY_PASS_HISTORY_LIMIT = 16"

text \<open>
  The columns of a pass start, as a change of the row that is claimed: those of the work when its
  pass has started, else those of a pass that starts now.
\<close>

definition archiveRecoveryPassStart ::
  "recovery_store \<Rightarrow> recovery_record \<Rightarrow> int \<Rightarrow> (work_row \<Rightarrow> work_row) result" where
  "archiveRecoveryPassStart c recovery timestamp =
     (case Option.bind (snd recovery) (\<lambda>w. map_option (Pair w) (passStartedAt w)) of
        Some (w, started) \<Rightarrow> Inr (\<lambda>v. v\<lparr>
          passStartedAt := Some started,
          passStartedManifestRevision := passStartedManifestRevision w,
          passInitialUnrecoveredSectorCount := passInitialUnrecoveredSectorCount w,
          passObservationCount := passObservationCount w,
          passPositiveIntervalCount := passPositiveIntervalCount w,
          passMinimumIntervalMs := passMinimumIntervalMs w,
          passMaximumIntervalMs := passMaximumIntervalMs w,
          passLastObservedAt := passLastObservedAt w\<rparr>)
      | None \<Rightarrow>
          and_then (requireHeader c (rec_originalDiscArchiveId (fst recovery))) (\<lambda>header.
          and_then (unrecoveredSectorCount c (rec_originalDiscArchiveId (fst recovery))) (\<lambda>initial.
            Inr (\<lambda>v. v\<lparr>
              passStartedAt := Some timestamp,
              passStartedManifestRevision := Some (currentManifestRevision header),
              passInitialUnrecoveredSectorCount := Some initial,
              passObservationCount := Some 0,
              passPositiveIntervalCount := Some 0,
              passMinimumIntervalMs := None,
              passMaximumIntervalMs := None,
              passLastObservedAt := None\<rparr>))))"

definition pass_outcome_of :: "int \<Rightarrow> int \<Rightarrow> recovery_pass_outcome" where
  "pass_outcome_of remaining recovered =
     (if remaining = 0 then Pass_completed else if recovered > 0 then Productive else Unproductive)"

text \<open>\<open>slice(-n)\<close>.\<close>

definition last_entries :: "nat \<Rightarrow> 'a list \<Rightarrow> 'a list" where
  "last_entries n xs = drop (length xs - n) xs"

definition archiveRecoveryPassSettlement ::
  "recovery_store \<Rightarrow> recovery_record \<Rightarrow> int
     \<Rightarrow> (recovery_pass_outcome \<times> recovery_pass_summary list) result" where
  "archiveRecoveryPassSettlement c recovery timestamp =
     (case Option.bind (snd recovery) (\<lambda>w. Option.bind (passStartedAt w) (\<lambda>started.
          map_option (\<lambda>initial. (w, started, initial)) (passInitialUnrecoveredSectorCount w))) of
        None \<Rightarrow> Inl (DomainInvariantError
          ''Archive Recovery pass has no durable starting progress'')
      | Some (w, started, initial) \<Rightarrow>
          and_then (unrecoveredSectorCount c (rec_originalDiscArchiveId (fst recovery))) (\<lambda>remaining.
            if initial - remaining \<noteq> passRecoveredSectorCount w
            then Inl (DomainInvariantError
              ''Archive Recovery pass progress does not match the current checkpoint'')
            else
              let outcome = pass_outcome_of remaining (passRecoveredSectorCount w) in
              Inr (outcome, last_entries DVD_RECOVERY_PASS_HISTORY_LIMIT
                (rec_passHistory (fst recovery) @
                 [\<lparr>ps_passNumber = work_passNumber w, ps_direction = work_passDirection w,
                   ps_initialUnrecoveredSectorCount = initial,
                   ps_recoveredSectorCount = passRecoveredSectorCount w,
                   ps_remainingSectorCount = remaining,
                   ps_lastCursorLba = passCursorLba w,
                   ps_startedAtMs = started, ps_completedAtMs = timestamp,
                   ps_elapsedMs = max 0 (timestamp - started),
                   ps_outcome = outcome\<rparr>]))))"

text \<open>
  \<open>recordArchiveRecoveryOutcome\<close>; the notification itself is another component's, and is kept as
  the event it is recorded under.
\<close>

definition recordArchiveRecoveryOutcome ::
  "recovery_row \<Rightarrow> string \<Rightarrow> string \<Rightarrow> recovery_store \<Rightarrow> recovery_store result" where
  "recordArchiveRecoveryOutcome recovery kind sourceTransitionId c =
     (let archiveId = rec_originalDiscArchiveId recovery in
      case Option.bind (find (\<lambda>a. arc_id a = archiveId) (rs_archives c))
          (\<lambda>a. find (\<lambda>d. dd_id d = arc_detectedDiscId a) (rs_discs c)) of
        None \<Rightarrow> Inl (RecordNotFoundError ''Original Disc Archive source'' archiveId)
      | Some _ \<Rightarrow> Inr (c\<lparr>rs_outcomes := rs_outcomes c @
          [\<lparr>ro_kind = kind,
            ro_sourceEventId = ''archive-recovery:'' @ rec_id recovery @ '':'' @ sourceTransitionId
              @ '':'' @ kind,
            ro_originalDiscArchiveId = archiveId\<rparr>]\<rparr>))"

definition attempt_transition :: "recovery_row \<Rightarrow> string" where
  "attempt_transition recovery = ''attempt:'' @ rec_attemptId recovery"

definition archiveRecoveryCompletionAfterInterruption ::
  "recovery_record \<Rightarrow> int \<Rightarrow> recovery_store
     \<Rightarrow> (archive_recovery_status \<times> recovery_pass_summary list option) recovery_transaction" where
  "archiveRecoveryCompletionAfterInterruption recovery timestamp c =
     and_then (settledArchiveRecoveryStatus c (rec_originalDiscArchiveId (fst recovery))) (\<lambda>status.
       if status = Eligible then Inr ((status, None), c)
       else
         and_then (archiveRecoveryPassSettlement c recovery timestamp) (\<lambda>(outcome, history).
           if outcome \<noteq> Pass_completed
           then Inl (DomainInvariantError ''Completed Archive Recovery still has unrecovered sectors'')
           else
             and_then (recordArchiveRecoveryOutcome (fst recovery) ''recovery_completed''
                 (attempt_transition (fst recovery)) c) (\<lambda>c'.
               Inr ((status, Some history), c'))))"
section \<open>Reconciliations and verifications of a recovery\<close>

fun item_status_text :: "item_status \<Rightarrow> string" where
  "item_status_text Item_queued = ''queued''"
| "item_status_text Item_running = ''running''"
| "item_status_text Item_completed = ''completed''"
| "item_status_text Item_failed = ''failed''"

definition latest_reconciliation :: "recovery_store \<Rightarrow> string \<Rightarrow> reconciliation_row option" where
  "latest_reconciliation c archiveRecoveryId =
     latest_by rn_attemptOrdinal
       (filter (\<lambda>n. rn_archiveRecoveryId n = archiveRecoveryId) (rs_reconciliations c))"

definition requireNoPendingDvdRecoveryReconciliation ::
  "recovery_store \<Rightarrow> string \<Rightarrow> unit result" where
  "requireNoPendingDvdRecoveryReconciliation c archiveRecoveryId =
     (case latest_reconciliation c archiveRecoveryId of
        None \<Rightarrow> Inr ()
      | Some latest \<Rightarrow> reject_if (rn_status latest \<noteq> Item_completed)
          (InvalidStatusTransitionError ''DVD recovery reconciliation''
            (item_status_text (rn_status latest)) ''source read''))"

definition latest_verification :: "recovery_store \<Rightarrow> string \<Rightarrow> verification_row option" where
  "latest_verification c archiveRecoveryId =
     latest_by vr_attemptOrdinal
       (filter (\<lambda>v. vs_archiveRecoveryId v = archiveRecoveryId) (rs_verifications c))"

text \<open>\<open>coalesce(max(ordinal), 0) + 1\<close>.\<close>

definition next_ordinal :: "int list \<Rightarrow> int" where
  "next_ordinal ordinals = (case ordinals of [] \<Rightarrow> 0 | n # ns \<Rightarrow> fold max ns n) + 1"

definition queued_verification ::
  "'a verification_subject_scheme \<Rightarrow> string \<Rightarrow> int \<Rightarrow> int \<Rightarrow> verification_row" where
  "queued_verification s i ordinal timestamp =
     \<lparr>vs_archiveRecoveryId = vs_archiveRecoveryId s,
      vs_archiveRecoveryAttemptId = vs_archiveRecoveryAttemptId s,
      vs_originalDiscArchiveId = vs_originalDiscArchiveId s,
      vs_discInspectionId = vs_discInspectionId s,
      vs_detectedDiscId = vs_detectedDiscId s,
      vs_mediaGeneration = vs_mediaGeneration s,
      vs_sourceMetadataFingerprint = vs_sourceMetadataFingerprint s,
      vs_observedMetadataFingerprint = vs_observedMetadataFingerprint s,
      vs_checkpointRevision = vs_checkpointRevision s,
      vs_checkpointDigest = vs_checkpointDigest s,
      vr_id = i, vr_attemptOrdinal = ordinal, vr_status = Item_queued, vr_outcome = None,
      vr_reasons = [], vr_findings = [], vr_budgetExhausted = False, vr_workerExecutionId = None,
      vr_claimToken = None, vr_claimedAt = None, vr_admittedDevicePath = None,
      vr_admittedDeviceId = None, vr_admittedDeviceInode = None, vr_startedAt = None,
      vr_completedAt = None, vr_failureCode = None, vr_createdAt = timestamp, vr_updatedAt = timestamp\<rparr>"

definition insertQueuedDvdDiscVerification ::
  "'a verification_subject_scheme \<Rightarrow> string \<Rightarrow> int \<Rightarrow> recovery_store
     \<Rightarrow> verification_row recovery_transaction" where
  "insertQueuedDvdDiscVerification s i timestamp c =
     insert_verification
       (queued_verification s i
         (next_ordinal (map vr_attemptOrdinal
           (filter (\<lambda>v. vs_archiveRecoveryId v = vs_archiveRecoveryId s) (rs_verifications c))))
         timestamp) c"

definition queueNextArchiveRecoveryPassVerification ::
  "recovery_record \<Rightarrow> string \<Rightarrow> int \<Rightarrow> recovery_store \<Rightarrow> recovery_store result" where
  "queueNextArchiveRecoveryPassVerification recovery i timestamp c =
     (let r = fst recovery in
      case Option.bind (snd recovery) work_verificationId of
        None \<Rightarrow> Inl (DomainInvariantError
          ''Archive Recovery pass has no bound DVD Disc Verification'')
      | Some verification_id \<Rightarrow>
          and_then (requireRow (find (\<lambda>v. vr_id v = verification_id
              \<and> vs_archiveRecoveryId v = rec_id r
              \<and> vs_archiveRecoveryAttemptId v = Some (rec_attemptId r)
              \<and> vr_status v = Item_completed \<and> vr_outcome v = Some Match) (rs_verifications c))
            ''DVD Disc Verification'' verification_id) (\<lambda>previous.
          and_then (requireHeader c (rec_originalDiscArchiveId r)) (\<lambda>header.
            map_sum id snd (insertQueuedDvdDiscVerification
              \<lparr>vs_archiveRecoveryId = rec_id r,
               vs_archiveRecoveryAttemptId = Some (rec_attemptId r),
               vs_originalDiscArchiveId = rec_originalDiscArchiveId r,
               vs_discInspectionId = vs_discInspectionId previous,
               vs_detectedDiscId = vs_detectedDiscId previous,
               vs_mediaGeneration = vs_mediaGeneration previous,
               vs_sourceMetadataFingerprint = vs_sourceMetadataFingerprint previous,
               vs_observedMetadataFingerprint = vs_observedMetadataFingerprint previous,
               vs_checkpointRevision = currentManifestRevision header,
               vs_checkpointDigest = currentManifestDigest header\<rparr> i timestamp c))))"

text \<open>The inspections of discs that are in a drive now, the latest first.\<close>

definition current_insertions :: "recovery_store \<Rightarrow> inspection_row list" where
  "current_insertions c =
     rev (sort_key (\<lambda>i. (in_updatedAt i, in_id i))
       (filter (\<lambda>i. list_ex (\<lambda>d. od_id d = in_opticalDriveId i \<and> od_isPresent d \<and> od_isEnabled d) (rs_drives c)
          \<and> in_isCurrent i \<and> in_status i = ''completed'' \<and> in_detectedDiscId i \<noteq> None)
        (rs_inspections c)))"

definition currentResumeInsertion :: "recovery_store \<Rightarrow> recovery_row \<Rightarrow> inspection_row option" where
  "currentResumeInsertion c recovery =
     (let source = Option.bind (find (\<lambda>a. arc_id a = rec_originalDiscArchiveId recovery) (rs_archives c))
            (\<lambda>a. find (\<lambda>d. dd_id d = arc_detectedDiscId a) (rs_discs c));
          candidates = current_insertions c in
      case find (\<lambda>i. Some (in_opticalDriveId i) = map_option dd_opticalDriveId source) candidates of
        Some inspection \<Rightarrow> Some inspection
      | None \<Rightarrow> (case candidates of [inspection] \<Rightarrow> Some inspection | _ \<Rightarrow> None))"

text \<open>The manifest of an archive's samples, validated, or \<open>None\<close> when there is none.\<close>

definition storedSampleManifest ::
  "(string \<Rightarrow> string) \<Rightarrow> recovery_store \<Rightarrow> string \<Rightarrow> sample_manifest option result" where
  "storedSampleManifest sha256 c archiveId =
     (case map_of (rs_sampleManifests c) archiveId of
        None \<Rightarrow> Inr None
      | Some m \<Rightarrow> map_sum id Some (validateDvdSourceSampleManifest sha256 m))"

definition validateDvdDiscVerificationManifestBinding ::
  "sample_manifest option \<Rightarrow> string \<Rightarrow> header_row option \<Rightarrow> unit result" where
  "validateDvdDiscVerificationManifestBinding manifest fingerprint header =
     (case manifest of
        None \<Rightarrow> Inr ()
      | Some m \<Rightarrow> invariant_if
          (case header of
             None \<Rightarrow> True
           | Some h \<Rightarrow> sm_sourceMetadataFingerprint m \<noteq> fingerprint
               \<or> sm_acceptedEndLbaExclusive m \<noteq> header_acceptedEndLbaExclusive h)
          ''DVD source sample manifest does not match its initial publication'')"

definition queueResumeVerification ::
  "(string \<Rightarrow> string) \<Rightarrow> recovery_row \<Rightarrow> inspection_row \<Rightarrow> string \<Rightarrow> int \<Rightarrow> recovery_store
     \<Rightarrow> verification_row recovery_transaction" where
  "queueResumeVerification sha256 r inspection i timestamp c =
     (case in_detectedDiscId inspection of
        None \<Rightarrow> Inl (DomainInvariantError ''Archive Recovery Resume insertion has no Detected Disc'')
      | Some detectedDiscId \<Rightarrow>
          and_then (requireHeader c (rec_originalDiscArchiveId r)) (\<lambda>header.
          and_then (reject_if
            (rec_resumeCheckpointRevision r \<noteq> Some (currentManifestRevision header)
             \<or> rec_resumeCheckpointDigest r \<noteq> Some (currentManifestDigest header))
            (StaleJobAttemptError ''Archive Recovery checkpoint'' (rec_id r))) (\<lambda>_.
          and_then (requireRow (find (\<lambda>a. arc_id a = rec_originalDiscArchiveId r) (rs_archives c))
            ''Original Disc Archive'' (rec_originalDiscArchiveId r)) (\<lambda>archive.
          and_then (requireRow (find (\<lambda>d. dd_id d = detectedDiscId) (rs_discs c))
            ''Detected Disc'' detectedDiscId) (\<lambda>observedDisc.
          and_then (storedSampleManifest sha256 c (rec_originalDiscArchiveId r)) (\<lambda>sourceManifest.
          and_then (validateDvdDiscVerificationManifestBinding sourceManifest (arc_fingerprint archive)
            (Some header)) (\<lambda>_.
            insertQueuedDvdDiscVerification
              \<lparr>vs_archiveRecoveryId = rec_id r,
               vs_archiveRecoveryAttemptId = Some (rec_attemptId r),
               vs_originalDiscArchiveId = rec_originalDiscArchiveId r,
               vs_discInspectionId = in_id inspection,
               vs_detectedDiscId = dd_id observedDisc,
               vs_mediaGeneration = in_mediaGeneration inspection,
               vs_sourceMetadataFingerprint = (case sourceManifest of
                 None \<Rightarrow> arc_fingerprint archive | Some m \<Rightarrow> sm_sourceMetadataFingerprint m),
               vs_observedMetadataFingerprint = dd_fingerprint observedDisc,
               vs_checkpointRevision = currentManifestRevision header,
               vs_checkpointDigest = currentManifestDigest header\<rparr> i timestamp c)))))))"

definition activateResumeInsertion ::
  "(string \<Rightarrow> string) \<Rightarrow> recovery_record \<Rightarrow> inspection_row \<Rightarrow> string \<Rightarrow> int \<Rightarrow> recovery_store
     \<Rightarrow> recovery_record recovery_transaction" where
  "activateResumeInsertion sha256 recovery inspection i timestamp c =
     (let r = fst recovery; priorVerificationId = Option.bind (snd recovery) work_verificationId in
      and_then (queueResumeVerification sha256 r inspection i timestamp c) (\<lambda>(verification, c1).
      and_then (update_work_rows
        (\<lambda>w. work_archiveRecoveryId w = rec_id r \<and> work_attemptId w = rec_attemptId r
          \<and> work_status w = Requested \<and> work_verificationId w = priorVerificationId)
        (\<lambda>w. w\<lparr>work_verificationId := Some (vr_id verification), work_discConfirmationId := None,
          work_requestedAt := Some timestamp, work_updatedAt := timestamp\<rparr>) c1) (\<lambda>(rows, c2).
      and_then (requireRow (first_row rows) ''Archive Recovery work'' (rec_id r)) (\<lambda>_.
      and_then (update_recoveries
        (\<lambda>s. rec_id s = rec_id r \<and> rec_attemptId s = rec_attemptId r \<and> rec_status s = Waiting_for_disc)
        (\<lambda>s. s\<lparr>rec_status := Eligible, rec_speedRequestResult := None, rec_updatedAt := timestamp\<rparr>) c2)
        (\<lambda>(rows', c3).
      and_then (requireRow (first_row rows') ''Archive Recovery'' (rec_id r)) (\<lambda>_.
      and_then (requireRow (findRecovery c3 (rec_id r)) ''Archive Recovery'' (rec_id r)) (\<lambda>record.
        Inr (record, c3))))))))"

text \<open>Whether only the interruption of a verification kept it from an outcome.\<close>

definition retryableInterruption :: "(verification_outcome \<times> verification_reason list) option \<Rightarrow> bool" where
  "retryableInterruption evaluated \<longleftrightarrow>
     (case evaluated of
        None \<Rightarrow> False
      | Some (outcome, reasons) \<Rightarrow> outcome = Inconclusive
          \<and> DISC_VERIFICATION_INTERRUPTED \<in> set reasons
          \<and> list_all (\<lambda>reason. reason = DISC_SAMPLE_COVERAGE_INCOMPLETE
              \<or> reason = DISC_VERIFICATION_INTERRUPTED) reasons)"

definition bound_to_resume :: "recovery_row \<Rightarrow> work_row \<Rightarrow> verification_row \<Rightarrow> bool" where
  "bound_to_resume r w v \<longleftrightarrow>
     rec_status r = Eligible
   \<and> Some (rec_attemptId r) = vs_archiveRecoveryAttemptId v
   \<and> rec_resumeOperationId r \<noteq> None
   \<and> work_status w = Requested
   \<and> work_verificationId w = Some (vr_id v)"

definition continues_pass :: "recovery_row \<Rightarrow> work_row \<Rightarrow> verification_row \<Rightarrow> bool" where
  "continues_pass r w v \<longleftrightarrow>
     rec_status r = Eligible
   \<and> Some (rec_attemptId r) = vs_archiveRecoveryAttemptId v
   \<and> work_status w = Requested
   \<and> work_verificationId w = None
   \<and> passStartedAt w = None
   \<and> (case rev (rec_passHistory r) of
        [] \<Rightarrow> False
      | lastPass # _ \<Rightarrow> ps_outcome lastPass = Productive
          \<and> work_passNumber w = ps_passNumber lastPass + 1)"

definition settleGeneratedContinuationVerification ::
  "verification_row \<Rightarrow> (verification_outcome \<times> verification_reason list) option \<Rightarrow> string \<Rightarrow> int
     \<Rightarrow> recovery_store \<Rightarrow> recovery_store result" where
  "settleGeneratedContinuationVerification v evaluated i timestamp c =
     (case findRecovery c (vs_archiveRecoveryId v) of
        Some (r, Some w) \<Rightarrow>
          if bound_to_resume r w v then
            if retryableInterruption evaluated then
              and_then (insertQueuedDvdDiscVerification v i timestamp c) (\<lambda>(retry, c1).
              and_then (update_work_rows
                (\<lambda>x. work_archiveRecoveryId x = rec_id r \<and> work_attemptId x = rec_attemptId r
                  \<and> work_status x = Requested \<and> work_verificationId x = Some (vr_id v))
                (\<lambda>x. x\<lparr>work_verificationId := Some (vr_id retry), work_requestedAt := Some timestamp,
                  work_updatedAt := timestamp\<rparr>) c1) (\<lambda>(rows, c2).
                map_sum id (\<lambda>_. c2) (requireRow (first_row rows) ''Archive Recovery work'' (rec_id r))))
            else if map_option fst evaluated = Some Match then Inr c
            else map_sum id snd (update_recoveries
              (\<lambda>s. rec_id s = rec_id r \<and> rec_attemptId s = rec_attemptId r \<and> rec_status s = Eligible)
              (\<lambda>s. s\<lparr>rec_status := Waiting_for_disc, rec_updatedAt := timestamp\<rparr>) c)
          else if \<not> continues_pass r w v then Inr c
          else if map_option fst evaluated = Some Match then Inr c
          else if retryableInterruption evaluated
          then map_sum id snd (insertQueuedDvdDiscVerification v i timestamp c)
          else
            and_then (update_recoveries
              (\<lambda>s. rec_id s = rec_id r \<and> rec_attemptId s = rec_attemptId r \<and> rec_status s = Eligible)
              (\<lambda>s. s\<lparr>rec_status := Faulted, rec_faultCode := Some ''DISC_VERIFICATION_STALE'',
                rec_pauseReason := None, rec_updatedAt := timestamp\<rparr>) c) (\<lambda>(rows, c1).
            and_then (requireRow (first_row rows) ''Archive Recovery'' (rec_id r)) (\<lambda>_.
              recordArchiveRecoveryOutcome r ''recovery_attention'' (attempt_transition r) c1))
      | _ \<Rightarrow> Inr c)"

section \<open>Evidence of a verification\<close>

definition find_inspection :: "recovery_store \<Rightarrow> string \<Rightarrow> inspection_row option" where
  "find_inspection c i = find (\<lambda>n. in_id n = i) (rs_inspections c)"

definition find_verification :: "recovery_store \<Rightarrow> string \<Rightarrow> verification_row option" where
  "find_verification c i = find (\<lambda>v. vr_id v = i) (rs_verifications c)"

definition find_confirmation :: "recovery_store \<Rightarrow> string \<Rightarrow> confirmation_row option" where
  "find_confirmation c i = find (\<lambda>f. conf_id f = i) (rs_confirmations c)"

definition dvdDiscVerificationInsertionIsCurrent ::
  "'a verification_subject_scheme \<Rightarrow> inspection_row option \<Rightarrow> bool" where
  "dvdDiscVerificationInsertionIsCurrent v inspection \<longleftrightarrow>
     (case inspection of
        None \<Rightarrow> False
      | Some n \<Rightarrow> in_id n = vs_discInspectionId v \<and> in_isCurrent n \<and> in_status n = ''completed''
          \<and> in_detectedDiscId n = Some (vs_detectedDiscId v) \<and> in_mediaGeneration n = vs_mediaGeneration v)"

definition dvdDiscVerificationCheckpointIsCurrent ::
  "int \<Rightarrow> string \<Rightarrow> header_row option \<Rightarrow> bool" where
  "dvdDiscVerificationCheckpointIsCurrent checkpoint_revision checkpoint_digest header \<longleftrightarrow>
     (case header of
        None \<Rightarrow> False
      | Some h \<Rightarrow> currentManifestRevision h = checkpoint_revision \<and> currentManifestDigest h = checkpoint_digest)"

definition readDvdDiscVerificationEvidence ::
  "(string \<Rightarrow> string) \<Rightarrow> recovery_store \<Rightarrow> 'a verification_subject_scheme
     \<Rightarrow> (header_row option \<times> sample_manifest option) result" where
  "readDvdDiscVerificationEvidence sha256 c v =
     (let header = find_header c (vs_originalDiscArchiveId v) in
      and_then (storedSampleManifest sha256 c (vs_originalDiscArchiveId v)) (\<lambda>manifest.
        map_sum id (\<lambda>_. (header, manifest))
          (validateDvdDiscVerificationManifestBinding manifest (vs_sourceMetadataFingerprint v) header)))"

record verification_terminal =
  te_budgetExhausted :: bool
  te_checkpointChanged :: bool
  te_findings :: "sample_finding list"
  te_insertionChanged :: bool
  te_interrupted :: bool

definition evaluatePersistedDvdDiscVerification ::
  "(string \<Rightarrow> string) \<Rightarrow> recovery_store \<Rightarrow> 'a verification_subject_scheme \<Rightarrow> verification_terminal
     \<Rightarrow> (verification_outcome \<times> verification_reason list) result" where
  "evaluatePersistedDvdDiscVerification sha256 c v terminal =
     and_then (readDvdDiscVerificationEvidence sha256 c v) (\<lambda>(header, manifest).
       map_sum id (\<lambda>_. dvdDiscVerificationOutcome
         \<lparr>oi_metadataMatches = (vs_sourceMetadataFingerprint v = vs_observedMetadataFingerprint v),
          oi_manifestUnavailable = (manifest = None),
          oi_coverageComplete = (case manifest of
              None \<Rightarrow> False
            | Some m \<Rightarrow> int (length (sm_samples m)) = DVD_SOURCE_SAMPLE_BAND_COUNT
                \<and> length (te_findings terminal) = length (sm_samples m)),
          oi_budgetExhausted = te_budgetExhausted terminal,
          oi_interrupted = te_interrupted terminal,
          oi_insertionChanged = (te_insertionChanged terminal
            \<or> \<not> dvdDiscVerificationInsertionIsCurrent v (find_inspection c (vs_discInspectionId v))),
          oi_checkpointChanged = (te_checkpointChanged terminal
            \<or> \<not> dvdDiscVerificationCheckpointIsCurrent (vs_checkpointRevision v) (vs_checkpointDigest v)
                header),
          oi_findings = te_findings terminal\<rparr>)
        (validateDvdDiscVerificationFindings manifest (te_findings terminal)))"

section \<open>Confirmations\<close>

fun verification_outcome_text :: "verification_outcome \<Rightarrow> string" where
  "verification_outcome_text Match = ''match''"
| "verification_outcome_text Mismatch = ''mismatch''"
| "verification_outcome_text Inconclusive = ''inconclusive''"

fun verification_reason_text :: "verification_reason \<Rightarrow> string" where
  "verification_reason_text DISC_METADATA_MISMATCH = ''DISC_METADATA_MISMATCH''"
| "verification_reason_text DISC_SAMPLE_MISMATCH = ''DISC_SAMPLE_MISMATCH''"
| "verification_reason_text DISC_SAMPLE_COVERAGE_INCOMPLETE = ''DISC_SAMPLE_COVERAGE_INCOMPLETE''"
| "verification_reason_text DISC_SAMPLE_UNREADABLE = ''DISC_SAMPLE_UNREADABLE''"
| "verification_reason_text DISC_VERIFICATION_TIMEOUT = ''DISC_VERIFICATION_TIMEOUT''"
| "verification_reason_text DISC_VERIFICATION_INTERRUPTED = ''DISC_VERIFICATION_INTERRUPTED''"
| "verification_reason_text DISC_INSERTION_CHANGED = ''DISC_INSERTION_CHANGED''"
| "verification_reason_text DISC_CHECKPOINT_CHANGED = ''DISC_CHECKPOINT_CHANGED''"
| "verification_reason_text DISC_SAMPLE_MANIFEST_UNAVAILABLE = ''DISC_SAMPLE_MANIFEST_UNAVAILABLE''"

fun finding_outcome_text :: "finding_outcome \<Rightarrow> string" where
  "finding_outcome_text Sample_match = ''match''"
| "finding_outcome_text Sample_mismatch = ''mismatch''"
| "finding_outcome_text Sample_unreadable = ''unreadable''"

definition diagnostic_json :: "diagnostic_candidate \<Rightarrow> json_value" where
  "diagnostic_json d = JObject
     [(''category'', cand_category d), (''classifierVersion'', cand_classifierVersion d),
      (''scsiStatus'', cand_scsiStatus d), (''hostStatus'', cand_hostStatus d),
      (''driverStatus'', cand_driverStatus d), (''senseResponseCode'', cand_senseResponseCode d),
      (''senseKey'', cand_senseKey d), (''asc'', cand_asc d), (''ascq'', cand_ascq d),
      (''informationLba'', cand_informationLba d)]"

definition finding_json :: "sample_finding \<Rightarrow> json_value" where
  "finding_json f = JObject
     [(''bandIndex'', JInt (fd_bandIndex f)), (''startLba'', JInt (fd_startLba f)),
      (''sectorCount'', JInt (fd_sectorCount f)),
      (''outcome'', JString (finding_outcome_text (fd_outcome f))),
      (''referenceDigest'', JString (fd_referenceDigest f)),
      (''observedDigest'', json_option (fd_observedDigest f)),
      (''diagnostic'', case fd_diagnostic f of None \<Rightarrow> JNull | Some d \<Rightarrow> diagnostic_json d)]"

definition toDvdDiscVerification :: "verification_row \<Rightarrow> disc_verification" where
  "toDvdDiscVerification v =
     \<lparr>ver_id = vr_id v, ver_archiveRecoveryId = vs_archiveRecoveryId v,
      ver_archiveRecoveryAttemptId = vs_archiveRecoveryAttemptId v,
      ver_originalDiscArchiveId = vs_originalDiscArchiveId v,
      ver_discInspectionId = vs_discInspectionId v, ver_detectedDiscId = vs_detectedDiscId v,
      ver_mediaGeneration = vs_mediaGeneration v,
      ver_sourceMetadataFingerprint = vs_sourceMetadataFingerprint v,
      ver_observedMetadataFingerprint = vs_observedMetadataFingerprint v,
      ver_checkpointRevision = vs_checkpointRevision v, ver_checkpointDigest = vs_checkpointDigest v,
      ver_status = item_status_text (vr_status v),
      ver_outcome = map_option verification_outcome_text (vr_outcome v),
      ver_reasons = map verification_reason_text (vr_reasons v),
      ver_findings = map finding_json (vr_findings v),
      ver_budgetExhausted = vr_budgetExhausted v,
      ver_workerExecutionId = vr_workerExecutionId v\<rparr>"

definition toDvdDiscConfirmation :: "confirmation_row \<Rightarrow> disc_confirmation" where
  "toDvdDiscConfirmation f = disc_confirmation.truncate f"

definition DVD_RECOVERY_PASS_CLAIM_LEASE_MS :: int where
  "DVD_RECOVERY_PASS_CLAIM_LEASE_MS = 65000"

definition DVD_DISC_VERIFICATION_CLAIM_LEASE_MS :: int where
  "DVD_DISC_VERIFICATION_CLAIM_LEASE_MS = 65000"

text \<open>\<open>lt(column, instant)\<close> of a column that may be null.\<close>

definition before_instant :: "int option \<Rightarrow> int \<Rightarrow> bool" where
  "before_instant column instant \<longleftrightarrow> (case column of None \<Rightarrow> False | Some moment \<Rightarrow> moment < instant)"

text \<open>The work that a confirmation is bound to.\<close>

definition bound_work :: "confirmation_row \<Rightarrow> recovery_record option \<Rightarrow> work_row option" where
  "bound_work f recovery =
     Option.bind recovery (\<lambda>(r, work). Option.bind work (\<lambda>w.
       if work_verificationId w = Some (conf_verificationId f)
          \<and> work_discConfirmationId w = Some (conf_id f) then Some w else None))"

definition liveBoundClaim :: "confirmation_row \<Rightarrow> recovery_record option \<Rightarrow> int \<Rightarrow> bool" where
  "liveBoundClaim f recovery timestamp \<longleftrightarrow>
     (case bound_work f recovery of
        None \<Rightarrow> False
      | Some w \<Rightarrow> work_status w = Claimed
          \<and> work_claimedBy w = Some (conf_verificationWorkerExecutionId f)
          \<and> (case work_claimedAt w of None \<Rightarrow> False
             | Some moment \<Rightarrow> moment \<ge> timestamp - DVD_RECOVERY_PASS_CLAIM_LEASE_MS))"

definition verification_changed :: "confirmation_row \<Rightarrow> verification_row option \<Rightarrow> verification_row option \<Rightarrow> bool" where
  "verification_changed f latest verification \<longleftrightarrow>
     (case verification of
        None \<Rightarrow> True
      | Some v \<Rightarrow> map_option vr_id latest \<noteq> Some (vr_id v)
          \<or> vr_status v \<noteq> Item_completed
          \<or> map_option verification_outcome_text (vr_outcome v) \<noteq> Some (conf_verificationOutcome f)
          \<or> vs_archiveRecoveryId v \<noteq> conf_archiveRecoveryId f
          \<or> vs_archiveRecoveryAttemptId v \<noteq> Some (conf_archiveRecoveryAttemptId f)
          \<or> vs_originalDiscArchiveId v \<noteq> conf_originalDiscArchiveId f
          \<or> vs_discInspectionId v \<noteq> conf_discInspectionId f
          \<or> vs_detectedDiscId v \<noteq> conf_detectedDiscId f
          \<or> vs_mediaGeneration v \<noteq> conf_mediaGeneration f
          \<or> vr_workerExecutionId v \<noteq> Some (conf_verificationWorkerExecutionId f)
          \<or> vs_checkpointRevision v \<noteq> conf_checkpointRevision f
          \<or> vs_checkpointDigest v \<noteq> conf_checkpointDigest f)"

text \<open>
  Why a confirmation no longer holds.  A verification that passed the test before is complete, so
  its result has a digest.
\<close>

definition expiry_reason ::
  "(string \<Rightarrow> string) \<Rightarrow> recovery_store \<Rightarrow> string \<Rightarrow> int \<Rightarrow> confirmation_row \<Rightarrow> string option" where
  "expiry_reason sha256 c worker timestamp f =
     (let recovery = findRecovery c (conf_archiveRecoveryId f);
          verification = find_verification c (conf_verificationId f);
          latest = latest_verification c (conf_archiveRecoveryId f);
          header = find_header c (conf_originalDiscArchiveId f);
          boundDescendant = (bound_work f recovery \<noteq> None
            \<and> (case header of None \<Rightarrow> False
               | Some h \<Rightarrow> currentManifestRevision h > conf_checkpointRevision f)) in
      if (case recovery of None \<Rightarrow> True
          | Some (r, _) \<Rightarrow> rec_attemptId r \<noteq> conf_archiveRecoveryAttemptId f
              \<or> rec_originalDiscArchiveId r \<noteq> conf_originalDiscArchiveId f)
      then Some ''RECOVERY_ATTEMPT_CHANGED''
      else if verification_changed f latest verification then Some ''DISC_VERIFICATION_CHANGED''
      else
        let v = the verification in
        if createDvdDiscVerificationResultDigest sha256 (toDvdDiscVerification v)
           \<noteq> Inr (conf_verificationResultDigest f)
        then Some ''DISC_VERIFICATION_RESULT_CHANGED''
        else if conf_verificationWorkerExecutionId f \<noteq> worker \<and> \<not> liveBoundClaim f recovery timestamp
        then Some ''WORKER_EXECUTION_CHANGED''
        else if \<not> dvdDiscVerificationInsertionIsCurrent v (find_inspection c (vs_discInspectionId v))
        then Some ''DISC_INSERTION_CHANGED''
        else if header = None
           \<or> (\<not> boundDescendant
              \<and> \<not> dvdDiscVerificationCheckpointIsCurrent (conf_checkpointRevision f)
                    (conf_checkpointDigest f) header)
        then Some ''DISC_CHECKPOINT_CHANGED''
        else None)"

definition expireInvalidDvdDiscConfirmations ::
  "(string \<Rightarrow> string) \<Rightarrow> string \<Rightarrow> string option \<Rightarrow> int \<Rightarrow> recovery_store \<Rightarrow> nat recovery_transaction" where
  "expireInvalidDvdDiscConfirmations sha256 workerExecutionId confirmationId timestamp c =
     and_then (requireNonEmpty (js_trim workerExecutionId) ''DVD Disc Confirmation worker execution ID'')
       (\<lambda>worker. map_sum id (\<lambda>(rows, c'). (length rows, c'))
         (update_confirmations
           (\<lambda>f. conf_expiredAt f = None \<and> (confirmationId = None \<or> confirmationId = Some (conf_id f))
             \<and> expiry_reason sha256 c worker timestamp f \<noteq> None)
           (\<lambda>f. f\<lparr>conf_expiredAt := Some timestamp,
             conf_expiryReason := expiry_reason sha256 c worker timestamp f\<rparr>) c))"

section \<open>Storage and previews\<close>

definition DVD_RECOVERY_STORAGE_REASON_MESSAGES :: "(string \<times> string) list" where
  "DVD_RECOVERY_STORAGE_REASON_MESSAGES =
    [(''STORAGE_UNSUPPORTED'', ''The Originals Library storage has not demonstrated the recovery durability and ownership contract.''),
     (''STORAGE_INSPECTION_FAILED'', ''The Originals Library storage could not be inspected for recovery prerequisites.''),
     (''JOURNAL_CAPACITY_INSUFFICIENT'', ''The bounded recovery undo journal cannot protect one complete storage mutation unit.''),
     (''JOURNAL_RESERVATION_FAILED'', ''The bounded recovery undo journal could not reserve its required space.''),
     (''JOURNAL_SYNC_FAILED'', ''The recovery undo journal could not be synchronized before image mutation.''),
     (''IMAGE_SYNC_FAILED'', ''A recovery image update could not be synchronized durably.''),
     (''CHECKPOINT_SYNC_FAILED'', ''Recovery checkpoint evidence could not be synchronized durably.''),
     (''CHECKPOINT_REPLACEMENT_FAILED'', ''The authoritative recovery checkpoint could not be replaced atomically.''),
     (''DIRECTORY_SYNC_FAILED'', ''Recovery journal or checkpoint directory updates could not be synchronized durably.''),
     (''WRITER_EXCLUSION_FAILED'', ''Cross-process recovery writer exclusion could not be established.''),
     (''PREFLIGHT_CLEANUP_FAILED'', ''The recovery storage preflight workspace could not be removed safely.'')]"

text \<open>The message of a code that is none of these is \<open>undefined\<close>; the column's check excludes it.\<close>

definition dvdRecoveryStorageBlockingReason :: "storage_preflight option \<Rightarrow> (string \<times> string) option" where
  "dvdRecoveryStorageBlockingReason preflight =
     (if map_option sp_status preflight = Some ''supported'' then None
      else
        let code = (case Option.bind preflight sp_reasonCode of
              None \<Rightarrow> ''STORAGE_UNSUPPORTED'' | Some code \<Rightarrow> code) in
        Some (code, case map_of DVD_RECOVERY_STORAGE_REASON_MESSAGES code of
          None \<Rightarrow> ''undefined'' | Some message \<Rightarrow> message))"

definition damagePreviewHoldsRecovery :: "damage_preview_row \<Rightarrow> bool" where
  "damagePreviewHoldsRecovery p \<longleftrightarrow>
     dp_status p \<in> {''queued'', ''waiting_for_checkpoint_or_ownership'', ''generating''}
   \<and> \<not> dp_sourceReleased p"

definition pendingForRecovery :: "recovery_store \<Rightarrow> string \<Rightarrow> bool" where
  "pendingForRecovery c archiveId \<longleftrightarrow>
     list_ex (\<lambda>p. dp_originalDiscArchiveId p = archiveId \<and> damagePreviewHoldsRecovery p) (rs_previews c)"

definition requireRecoveryStorage :: "recovery_store \<Rightarrow> unit result" where
  "requireRecoveryStorage c =
     (case dvdRecoveryStorageBlockingReason (rs_preflight c) of
        None \<Rightarrow> Inr ()
      | Some (code, message) \<Rightarrow> Inl (DomainInvariantError message))"

end
