(* ===== verification/RecoveryWork.thy ===== *)
theory RecoveryWork
  imports RecoveryStore
begin

text \<open>
  The transactions of \<open>archiveRecoveryWork\<close> in \<open>internal/create-data-access.ts\<close>: how a worker gets
  a recovery, keeps it, reads under it and gives it up, and how the operator stops and resumes it.

  The instants that \<open>now()\<close> returns and the identities that \<open>newId\<close> makes are arguments, in the
  order in which the code asks for them.
\<close>

section \<open>Statements that must change a row\<close>

text \<open>\<open>requireRow(findArchiveRecoveryRecord(...))\<close>.\<close>

definition found_recovery :: "recovery_store \<Rightarrow> string \<Rightarrow> recovery_record result" where
  "found_recovery c i = requireRow (findRecovery c i) ''Archive Recovery'' i"

definition return_recovery :: "string \<Rightarrow> recovery_store \<Rightarrow> recovery_record recovery_transaction" where
  "return_recovery i c = map_sum id (\<lambda>record. (record, c)) (found_recovery c i)"

definition must_update_recovery ::
  "string \<Rightarrow> (recovery_row \<Rightarrow> bool) \<Rightarrow> (recovery_row \<Rightarrow> recovery_row) \<Rightarrow> recovery_store
     \<Rightarrow> recovery_row recovery_transaction" where
  "must_update_recovery i P f c =
     and_then (update_recoveries P f c) (\<lambda>(rows, c').
       map_sum id (\<lambda>r. (r, c')) (requireRow (first_row rows) ''Archive Recovery'' i))"

definition must_update_work ::
  "string \<Rightarrow> (work_row \<Rightarrow> bool) \<Rightarrow> (work_row \<Rightarrow> work_row) \<Rightarrow> recovery_store
     \<Rightarrow> work_row recovery_transaction" where
  "must_update_work i P f c =
     and_then (update_work_rows P f c) (\<lambda>(rows, c').
       map_sum id (\<lambda>w. (w, c')) (requireRow (first_row rows) ''Archive Recovery work'' i))"

definition must_delete_work ::
  "string \<Rightarrow> (work_row \<Rightarrow> bool) \<Rightarrow> js_error \<Rightarrow> recovery_store \<Rightarrow> recovery_store result" where
  "must_delete_work i P e c =
     (let (rows, c') = delete_work P c in if rows = [] then Inl e else Inr c')"

text \<open>The row that \<open>eq\<close> of the id and of the attempt selects, in one of the given statuses.\<close>

definition attempt_in :: "recovery_row \<Rightarrow> archive_recovery_status list \<Rightarrow> recovery_row \<Rightarrow> bool" where
  "attempt_in r statuses s \<longleftrightarrow>
     rec_id s = rec_id r \<and> rec_attemptId s = rec_attemptId r \<and> rec_status s \<in> set statuses"

text \<open>The work that a claim token holds.\<close>

definition held_by :: "work_row \<Rightarrow> work_row \<Rightarrow> bool" where
  "held_by claim w \<longleftrightarrow>
     work_archiveRecoveryId w = work_archiveRecoveryId claim
   \<and> column_eq (work_claimToken w) (work_claimToken claim)"

definition claim_held_by :: "work_row \<Rightarrow> work_row \<Rightarrow> bool" where
  "claim_held_by claim w \<longleftrightarrow>
     held_by claim w \<and> work_attemptId w = work_attemptId claim \<and> work_status w = Claimed"

text \<open>A row that the code returns as a \<open>ClaimedArchiveRecoveryWork\<close>.\<close>

definition is_claimed_work :: "work_row \<Rightarrow> bool" where
  "is_claimed_work w \<longleftrightarrow>
     work_status w = Claimed \<and> work_claimedBy w \<noteq> None \<and> work_claimToken w \<noteq> None
   \<and> work_claimedAt w \<noteq> None"

definition claimed_row :: "work_row list \<Rightarrow> js_error \<Rightarrow> work_row result" where
  "claimed_row rows e =
     (case first_row rows of
        None \<Rightarrow> Inl e
      | Some w \<Rightarrow> if is_claimed_work w then Inr w else Inl e)"

fun recovery_status_text :: "archive_recovery_status \<Rightarrow> string" where
  "recovery_status_text Eligible = ''eligible''"
| "recovery_status_text Waiting_for_disc = ''waiting_for_disc''"
| "recovery_status_text Running = ''running''"
| "recovery_status_text Paused = ''paused''"
| "recovery_status_text Stopping = ''stopping''"
| "recovery_status_text Stopped = ''stopped''"
| "recovery_status_text Completed = ''completed''"
| "recovery_status_text Faulted = ''faulted''"

definition bad_recovery_status :: "recovery_row \<Rightarrow> string \<Rightarrow> js_error" where
  "bad_recovery_status r next_status =
     InvalidStatusTransitionError ''Archive Recovery'' (recovery_status_text (rec_status r)) next_status"

definition stale_recovery_attempt :: js_error where
  "stale_recovery_attempt = DomainInvariantError ''Archive Recovery attempt is stale.''"

section \<open>What is found\<close>

definition findEncodeWorkConflict ::
  "recovery_store \<Rightarrow> string \<Rightarrow> encode_work_conflict option result" where
  "findEncodeWorkConflict c i =
     map_sum id (\<lambda>recovery.
         let current = encodeWorkConflictCurrent c recovery in
         if ec_encodeJobs current = [] then None else Some current)
       (found_recovery c i)"

definition findNextStopping :: "recovery_store \<Rightarrow> recovery_record option" where
  "findNextStopping c =
     Option.bind (earliest_by (\<lambda>r. (rec_updatedAt r, rec_id r))
         (filter (\<lambda>r. rec_status r = Stopping) (rs_recoveries c)))
       (\<lambda>r. findRecovery c (rec_id r))"

definition expired_claim :: "int \<Rightarrow> work_row \<Rightarrow> bool" where
  "expired_claim timestamp w \<longleftrightarrow>
     work_status w = Claimed
   \<and> before_instant (work_claimedAt w) (timestamp - DVD_RECOVERY_PASS_CLAIM_LEASE_MS)"

definition interrupted_claims :: "int \<Rightarrow> recovery_store \<Rightarrow> (recovery_row \<times> work_row) list" where
  "interrupted_claims timestamp c =
     filter (\<lambda>(r, w). work_archiveRecoveryId w = rec_id r \<and> rec_status r = Running
         \<and> expired_claim timestamp w)
       (List.product (rs_recoveries c) (rs_work c))"

definition findNextInterrupted ::
  "string \<Rightarrow> int \<Rightarrow> recovery_store \<Rightarrow> recovery_record option result" where
  "findNextInterrupted workerId timestamp c =
     map_sum id (\<lambda>_.
         Option.bind (earliest_by (\<lambda>(r, w). (the (work_claimedAt w), rec_id r))
             (interrupted_claims timestamp c))
           (\<lambda>(r, w). findRecovery c (rec_id r)))
       (requireNonEmpty workerId ''workerId'')"

section \<open>Request and claim\<close>

text \<open>The row an insert makes, with the defaults of the table.\<close>

definition requested_work :: "recovery_row \<Rightarrow> string \<Rightarrow> int \<Rightarrow> work_row" where
  "requested_work r attempt timestamp =
     \<lparr>work_archiveRecoveryId = rec_id r,
      work_originalDiscArchiveId = rec_originalDiscArchiveId r,
      work_attemptId = attempt, work_status = Requested, work_verificationId = None,
      work_discConfirmationId = None, work_claimedBy = None, work_claimToken = None,
      passStartedAt = None, passStartedManifestRevision = None, passRecoveredSectorCount = 0,
      passObservationCount = None, passPositiveIntervalCount = None, passMinimumIntervalMs = None,
      passMaximumIntervalMs = None, passLastObservedAt = None, passCursorLba = None,
      work_updatedAt = timestamp, work_requestedAt = Some timestamp, work_claimedAt = None,
      work_passNumber = 1, work_passDirection = Forward, passInitialUnrecoveredSectorCount = None,
      work_admittedDevicePath = None, work_admittedDeviceId = None, work_admittedDeviceInode = None\<rparr>"

definition claimed_by :: "string \<Rightarrow> string \<Rightarrow> int \<Rightarrow> work_row \<Rightarrow> work_row" where
  "claimed_by worker token timestamp w = w\<lparr>work_status := Claimed, work_claimedBy := Some worker,
     work_claimToken := Some token, work_claimedAt := Some timestamp, work_updatedAt := timestamp\<rparr>"

definition request_recovery :: "string \<Rightarrow> int \<Rightarrow> recovery_store \<Rightarrow> work_row recovery_transaction" where
  "request_recovery i timestamp c =
     and_then (found_recovery c i) (\<lambda>(r, work).
     and_then (reject_if (rec_status r \<noteq> Eligible) (bad_recovery_status r ''requested'')) (\<lambda>_.
     and_then (reject_if (recovery_claimed work)
       (InvalidStatusTransitionError ''Archive Recovery work'' ''claimed'' ''requested'')) (\<lambda>_.
       case work of
         Some w \<Rightarrow> Inr (w, c)
       | None \<Rightarrow>
           and_then (requireNoActiveEncodeWork c (r, work)) (\<lambda>_.
             insert_work (requested_work r (rec_attemptId r) timestamp) c))))"

definition claim_recovery ::
  "string \<Rightarrow> string \<Rightarrow> int \<Rightarrow> string \<Rightarrow> recovery_store \<Rightarrow> work_row recovery_transaction" where
  "claim_recovery i workerId timestamp token c =
     and_then (requireNonEmpty workerId ''workerId'') (\<lambda>worker.
     and_then (found_recovery c i) (\<lambda>(r, work).
     and_then (reject_if (rec_status r \<noteq> Eligible) (bad_recovery_status r ''claimed'')) (\<lambda>_.
     and_then (reject_if (recovery_claimed work)
       (InvalidStatusTransitionError ''Archive Recovery work'' ''claimed'' ''claimed'')) (\<lambda>_.
     and_then (requireNoActiveEncodeWork c (r, work)) (\<lambda>_.
     and_then (archiveRecoveryPassStart c (r, work) timestamp) (\<lambda>pass_start.
     and_then
       (case work of
          None \<Rightarrow> map_sum id (\<lambda>(w, c'). ([w], c'))
            (insert_work (pass_start (claimed_by worker token timestamp
              ((requested_work r (rec_attemptId r) timestamp)\<lparr>work_requestedAt := None\<rparr>))) c)
        | Some _ \<Rightarrow> update_work_rows
            (\<lambda>w. work_archiveRecoveryId w = rec_id r \<and> work_status w = Requested)
            (\<lambda>w. pass_start (claimed_by worker token timestamp (w\<lparr>work_verificationId := None\<rparr>))) c)
       (\<lambda>(rows, c').
         map_sum id (\<lambda>w. (w, c'))
           (claimed_row rows (DomainInvariantError ''Archive Recovery work could not be claimed'')))))))))"

text \<open>\<open>assertClaim\<close>.\<close>

definition assert_recovery_claim :: "recovery_store \<Rightarrow> work_row \<Rightarrow> (recovery_row \<times> work_row) result" where
  "assert_recovery_claim c claim = requireCurrentRecoveryClaim c claim"

section \<open>The next verified candidate\<close>

text \<open>
  A completed verification with a worker allows a recovery to start when it matched, or when the
  operator confirmed it for this worker: the joined confirmation, if the verification has one.
\<close>

definition confirms_candidate ::
  "recovery_row \<Rightarrow> verification_row \<Rightarrow> string \<Rightarrow> confirmation_row \<Rightarrow> bool" where
  "confirms_candidate r v worker f \<longleftrightarrow>
     conf_expiredAt f = None
   \<and> conf_archiveRecoveryId f = rec_id r
   \<and> conf_archiveRecoveryAttemptId f = rec_attemptId r
   \<and> conf_originalDiscArchiveId f = rec_originalDiscArchiveId r
   \<and> conf_discInspectionId f = vs_discInspectionId v
   \<and> conf_detectedDiscId f = vs_detectedDiscId v
   \<and> conf_mediaGeneration f = vs_mediaGeneration v
   \<and> conf_verificationWorkerExecutionId f = worker
   \<and> Some (conf_verificationOutcome f) = map_option verification_outcome_text (vr_outcome v)
   \<and> conf_checkpointRevision f = vs_checkpointRevision v
   \<and> conf_checkpointDigest f = vs_checkpointDigest v"

definition candidate_outcome ::
  "recovery_row \<Rightarrow> verification_row \<Rightarrow> confirmation_row option \<Rightarrow> string \<Rightarrow> bool" where
  "candidate_outcome r v confirmation worker \<longleftrightarrow>
     vr_outcome v = Some Match
   \<or> (vr_outcome v \<in> {Some Mismatch, Some Inconclusive}
      \<and> (case confirmation of None \<Rightarrow> False | Some f \<Rightarrow> confirms_candidate r v worker f))"

text \<open>
  The checkpoint is the one that was verified, or a later one of work that is bound to the
  verification.
\<close>

definition candidate_checkpoint ::
  "recovery_store \<Rightarrow> recovery_row \<Rightarrow> verification_row \<Rightarrow> header_row \<Rightarrow> confirmation_row option \<Rightarrow> bool" where
  "candidate_checkpoint c r v h confirmation \<longleftrightarrow>
     (currentManifestRevision h = vs_checkpointRevision v
      \<and> currentManifestDigest h = vs_checkpointDigest v)
   \<or> (currentManifestRevision h > vs_checkpointRevision v
      \<and> list_ex (\<lambda>w. work_archiveRecoveryId w = rec_id r \<and> work_attemptId w = rec_attemptId r
           \<and> work_status w = Requested \<and> work_verificationId w = Some (vr_id v)
           \<and> ((vr_outcome v = Some Match \<and> work_discConfirmationId w = None)
              \<or> column_eq (work_discConfirmationId w) (map_option conf_id confirmation)))
         (rs_work c))"

definition reconciliation_pending :: "recovery_store \<Rightarrow> recovery_row \<Rightarrow> bool" where
  "reconciliation_pending c r \<longleftrightarrow>
     list_ex (\<lambda>n. rn_archiveRecoveryId n = rec_id r \<and> rn_status n \<noteq> Item_completed
         \<and> \<not> list_ex (\<lambda>m. rn_archiveRecoveryId m = rec_id r \<and> rn_attemptOrdinal m > rn_attemptOrdinal n)
              (rs_reconciliations c))
       (rs_reconciliations c)"

definition is_verified_candidate ::
  "recovery_store \<Rightarrow> string \<Rightarrow> recovery_row \<Rightarrow> verification_row \<Rightarrow> header_row
     \<Rightarrow> confirmation_row option \<Rightarrow> bool" where
  "is_verified_candidate c worker r v h confirmation \<longleftrightarrow>
     vs_archiveRecoveryId v = rec_id r
   \<and> header_originalDiscArchiveId h = rec_originalDiscArchiveId r
   \<and> rec_status r = Eligible
   \<and> \<not> pendingForRecovery c (rec_originalDiscArchiveId r)
   \<and> vs_archiveRecoveryAttemptId v = Some (rec_attemptId r)
   \<and> vr_status v = Item_completed
   \<and> vr_workerExecutionId v \<noteq> None
   \<and> candidate_outcome r v confirmation worker
   \<and> candidate_checkpoint c r v h confirmation
   \<and> \<not> list_ex (\<lambda>u. vs_archiveRecoveryId u = rec_id r \<and> vr_attemptOrdinal u > vr_attemptOrdinal v)
        (rs_verifications c)
   \<and> \<not> list_ex (\<lambda>w. work_archiveRecoveryId w = rec_id r \<and> work_status w = Claimed) (rs_work c)
   \<and> \<not> list_ex (active_for_archive (rs_encode c) (rec_originalDiscArchiveId r)) (encodeJobs (rs_encode c))
   \<and> \<not> reconciliation_pending c r"

text \<open>The left join: the confirmations of the verification, or none.\<close>

definition joined_confirmations :: "recovery_store \<Rightarrow> verification_row \<Rightarrow> confirmation_row option list" where
  "joined_confirmations c v =
     (case filter (\<lambda>f. conf_verificationId f = vr_id v) (rs_confirmations c) of
        [] \<Rightarrow> [None]
      | fs \<Rightarrow> map Some fs)"

definition verified_candidates ::
  "string \<Rightarrow> recovery_store \<Rightarrow> (recovery_row \<times> verification_row \<times> confirmation_row option) list" where
  "verified_candidates worker c =
     concat (map (\<lambda>(r, v, h).
         map (\<lambda>confirmation. (r, v, confirmation))
           (filter (is_verified_candidate c worker r v h) (joined_confirmations c v)))
       (List.product (rs_recoveries c) (List.product (rs_verifications c) (rs_headers c))))"

record recovery_claim_result =
  cr_recovery :: recovery_record
  cr_verification :: disc_verification
  cr_confirmation :: "disc_confirmation option"
  cr_claim :: work_row

definition claim_candidate ::
  "recovery_row \<Rightarrow> verification_row \<Rightarrow> confirmation_row option \<Rightarrow> string \<Rightarrow> int \<Rightarrow> string
     \<Rightarrow> recovery_store \<Rightarrow> recovery_claim_result recovery_transaction" where
  "claim_candidate candidate v confirmation worker timestamp token c =
     and_then (case findRecovery c (rec_id candidate) of
         None \<Rightarrow> Inl (DomainInvariantError ''DVD Recovery candidate disappeared during claim'')
       | Some record \<Rightarrow> Inr record) (\<lambda>(r, work).
     and_then (requireNoActiveEncodeWork c (r, work)) (\<lambda>_.
     and_then (requireNoPendingDvdRecoveryReconciliation c (rec_id r)) (\<lambda>_.
     and_then (archiveRecoveryPassStart c (r, work) timestamp) (\<lambda>pass_start.
     let bound = (\<lambda>w. w\<lparr>work_verificationId := Some (vr_id v),
           work_discConfirmationId := map_option conf_id confirmation\<rparr>) in
     and_then
       (case work of
          None \<Rightarrow> map_sum id (\<lambda>(w, c'). ([w], c'))
            (insert_work (pass_start (claimed_by worker token timestamp (bound
              ((requested_work r (rec_attemptId r) timestamp)\<lparr>work_requestedAt := None\<rparr>)))) c)
        | Some _ \<Rightarrow> update_work_rows
            (\<lambda>w. work_archiveRecoveryId w = rec_id r \<and> work_attemptId w = rec_attemptId r
               \<and> work_status w = Requested)
            (\<lambda>w. pass_start (claimed_by worker token timestamp (bound w))) c) (\<lambda>(rows, c1).
     and_then (claimed_row rows
       (DomainInvariantError ''DVD Recovery verified candidate could not be claimed'')) (\<lambda>claimed.
     and_then (update_recoveries (attempt_in r [Eligible])
       (\<lambda>s. s\<lparr>rec_status := Running, rec_updatedAt := timestamp\<rparr>) c1) (\<lambda>(running, c2).
     and_then (reject_if (running = [])
       (DomainInvariantError ''DVD Recovery verified candidate could not start'')) (\<lambda>_.
     and_then (found_recovery c2 (rec_id r)) (\<lambda>record.
       Inr (\<lparr>cr_recovery = record, cr_verification = toDvdDiscVerification v,
             cr_confirmation = map_option toDvdDiscConfirmation confirmation,
             cr_claim = claimed\<rparr>, c2))))))))))"

definition claimNextVerifiedCandidate ::
  "(string \<Rightarrow> string) \<Rightarrow> string \<Rightarrow> int \<Rightarrow> int \<Rightarrow> string \<Rightarrow> recovery_store
     \<Rightarrow> recovery_claim_result option recovery_transaction" where
  "claimNextVerifiedCandidate sha256 workerId expiry_time timestamp token c =
     and_then (requireNonEmpty workerId ''workerId'') (\<lambda>worker.
     and_then (expireInvalidDvdDiscConfirmations sha256 worker None expiry_time c) (\<lambda>(_, c1).
       case earliest_by (\<lambda>(r, _, _). (rec_updatedAt r, rec_id r)) (verified_candidates worker c1) of
         None \<Rightarrow> Inr (None, c1)
       | Some (r, v, confirmation) \<Rightarrow>
           map_sum id (\<lambda>(result, c2). (Some result, c2))
             (claim_candidate r v confirmation worker timestamp token c1)))"

section \<open>Keeping a claim\<close>

definition running_attempt :: "recovery_store \<Rightarrow> work_row \<Rightarrow> bool" where
  "running_attempt c claim \<longleftrightarrow>
     list_ex (\<lambda>r. rec_id r = work_archiveRecoveryId claim \<and> rec_attemptId r = work_attemptId claim
       \<and> rec_status r = Running) (rs_recoveries c)"

definition beginInterruptedTakeover ::
  "work_row \<Rightarrow> string \<Rightarrow> int \<Rightarrow> int \<Rightarrow> string \<Rightarrow> recovery_store \<Rightarrow> work_row option recovery_transaction" where
  "beginInterruptedTakeover claim workerId expiry_time timestamp token c =
     and_then (requireNonEmpty workerId ''workerId'') (\<lambda>worker.
       let taken = (\<lambda>w. claim_held_by claim w \<and> expired_claim expiry_time w) in
       if \<not> list_ex taken (rs_work c) \<or> \<not> running_attempt c claim then Inr (None, c)
       else map_sum id (\<lambda>(rows, c').
           (case first_row rows of
              None \<Rightarrow> None | Some w \<Rightarrow> if is_claimed_work w then Some w else None, c'))
         (update_work_rows taken (claimed_by worker token timestamp) c))"

text \<open>\<open>new Date(0)\<close>: the claim is as if it had been taken at the epoch.\<close>

definition deferInterruptedTakeover :: "work_row \<Rightarrow> int \<Rightarrow> recovery_store \<Rightarrow> bool recovery_transaction" where
  "deferInterruptedTakeover claim timestamp c =
     map_sum id (\<lambda>(rows, c'). (rows \<noteq> [], c'))
       (update_work_rows (claim_held_by claim)
         (\<lambda>w. w\<lparr>work_claimedAt := Some 0, work_updatedAt := timestamp\<rparr>) c)"

definition renew_recovery_claim :: "work_row \<Rightarrow> int \<Rightarrow> recovery_store \<Rightarrow> bool recovery_transaction" where
  "renew_recovery_claim claim timestamp c =
     map_sum id (\<lambda>(rows, c'). (rows \<noteq> [], c'))
       (update_work_rows (\<lambda>w. claim_held_by claim w \<and> running_attempt c claim)
         (\<lambda>w. w\<lparr>work_claimedAt := Some timestamp, work_updatedAt := timestamp\<rparr>) c)"

section \<open>Reading under a claim\<close>

record device_identity =
  devicePath :: string
  deviceId :: string
  device_inode :: string

definition is_decimal :: "string \<Rightarrow> bool" where
  "is_decimal s \<longleftrightarrow> s \<noteq> [] \<and> list_all is_digit s"

definition drive_of_inspection :: "recovery_store \<Rightarrow> inspection_row option \<Rightarrow> drive_row option" where
  "drive_of_inspection c inspection =
     Option.bind inspection (\<lambda>n. find (\<lambda>d. od_id d = in_opticalDriveId n) (rs_drives c))"

definition source_read_authorized ::
  "(string \<Rightarrow> string) \<Rightarrow> verification_row \<Rightarrow> confirmation_row option \<Rightarrow> bool" where
  "source_read_authorized sha256 v confirmation \<longleftrightarrow>
     (if vr_outcome v = Some Match then confirmation = None
      else case confirmation of
        None \<Rightarrow> False
      | Some f \<Rightarrow> dvdConfirmedRecoveryWriteAuthority sha256 (toDvdDiscVerification v)
          (toDvdDiscConfirmation f) \<noteq> None)"

definition admitSourceRead ::
  "(string \<Rightarrow> string) \<Rightarrow> work_row \<Rightarrow> string \<Rightarrow> device_identity \<Rightarrow> int \<Rightarrow> int \<Rightarrow> recovery_store
     \<Rightarrow> recovery_record option recovery_transaction" where
  "admitSourceRead sha256 claim expectedDevicePath identity expiry_time timestamp c =
     and_then (requireCurrentRecoveryClaim c claim) (\<lambda>(r, w).
     and_then (case work_discConfirmationId w of
         None \<Rightarrow> Inr c
       | Some i \<Rightarrow> map_sum id snd (expireInvalidDvdDiscConfirmations sha256
           (case work_claimedBy claim of None \<Rightarrow> [] | Some worker \<Rightarrow> worker) (Some i) expiry_time c)) (\<lambda>c1.
     and_then (reject_if (rec_status r \<noteq> Running) (bad_recovery_status r ''source_read'')) (\<lambda>_.
     and_then (reject_if (pendingForRecovery c1 (rec_originalDiscArchiveId r))
       ArchiveRecoveryPreviewPauseError) (\<lambda>_.
     and_then (requireNoPendingDvdRecoveryReconciliation c1 (rec_id r)) (\<lambda>_.
       let verification = Option.bind (work_verificationId w) (find_verification c1);
           confirmation = Option.bind (work_discConfirmationId w) (find_confirmation c1);
           inspection = Option.bind verification (\<lambda>v. find_inspection c1 (vs_discInspectionId v));
           drive = drive_of_inspection c1 inspection in
       case (verification, drive) of
         (Some v, Some d) \<Rightarrow>
           if \<not> source_read_authorized sha256 v confirmation
              \<or> \<not> dvdDiscVerificationInsertionIsCurrent v inspection
              \<or> \<not> od_isPresent d \<or> \<not> od_isEnabled d \<or> od_devicePath d \<noteq> expectedDevicePath
           then Inr (None, c1)
           else
             and_then (invariant_if (devicePath identity \<noteq> od_devicePath d
                 \<or> \<not> is_decimal (deviceId identity) \<or> \<not> is_decimal (device_inode identity))
               ''DVD Recovery source device identity is invalid'') (\<lambda>_.
             and_then (must_update_work (work_archiveRecoveryId claim)
               (\<lambda>x. held_by claim x \<and> work_status x = Claimed)
               (\<lambda>x. x\<lparr>work_admittedDevicePath := Some (devicePath identity),
                 work_admittedDeviceId := Some (deviceId identity),
                 work_admittedDeviceInode := Some (device_inode identity),
                 work_updatedAt := timestamp\<rparr>) c1) (\<lambda>(_, c2).
               Inr (findRecovery c2 (rec_id r), c2)))
       | _ \<Rightarrow> Inr (None, c1))))))"

definition binds_verification ::
  "recovery_row \<Rightarrow> verification_row \<Rightarrow> verification_row option \<Rightarrow> header_row option
     \<Rightarrow> recovery_write_authority \<Rightarrow> bool" where
  "binds_verification r v latest header authority \<longleftrightarrow>
     rec_status r = Eligible
   \<and> map_option vr_id latest = Some (vr_id v)
   \<and> vr_status v = Item_completed
   \<and> vr_outcome v = Some Match
   \<and> vs_archiveRecoveryId v = rec_id r
   \<and> vs_archiveRecoveryAttemptId v = Some (rec_attemptId r)
   \<and> vs_originalDiscArchiveId v = rec_originalDiscArchiveId r
   \<and> vs_archiveRecoveryAttemptId v = Some (auth_archiveRecoveryAttemptId authority)
   \<and> vs_discInspectionId v = auth_discInspectionId authority
   \<and> vs_detectedDiscId v = auth_detectedDiscId authority
   \<and> vs_mediaGeneration v = auth_mediaGeneration authority
   \<and> vr_workerExecutionId v = Some (auth_verificationWorkerExecutionId authority)
   \<and> vs_checkpointRevision v = auth_checkpointRevision authority
   \<and> vs_checkpointDigest v = auth_checkpointDigest authority
   \<and> dvdDiscVerificationCheckpointIsCurrent (auth_checkpointRevision authority)
       (auth_checkpointDigest authority) header"

definition bindVerification ::
  "work_row \<Rightarrow> recovery_write_authority \<Rightarrow> int \<Rightarrow> recovery_store \<Rightarrow> work_row recovery_transaction" where
  "bindVerification claim authority timestamp c =
     and_then (requireCurrentRecoveryClaim c claim) (\<lambda>(r, _).
     and_then (case find_verification c (auth_verificationId authority) of
         None \<Rightarrow> Inl (StaleJobAttemptError ''Archive Recovery verification'' (work_archiveRecoveryId claim))
       | Some v \<Rightarrow>
           if binds_verification r v (latest_verification c (rec_id r))
             (find_header c (rec_originalDiscArchiveId r)) authority then Inr v
           else Inl (StaleJobAttemptError ''Archive Recovery verification''
             (work_archiveRecoveryId claim))) (\<lambda>v.
     and_then (update_work_rows (\<lambda>w. held_by claim w \<and> work_verificationId w = None)
       (\<lambda>w. w\<lparr>work_verificationId := Some (vr_id v), work_updatedAt := timestamp\<rparr>) c) (\<lambda>(rows, c1).
     and_then (claimed_row rows
       (StaleJobAttemptError ''Archive Recovery work'' (work_archiveRecoveryId claim))) (\<lambda>bound.
       map_sum id (\<lambda>(_, c2). (bound, c2))
         (update_recoveries (attempt_in r [Eligible])
           (\<lambda>s. s\<lparr>rec_status := Running, rec_updatedAt := timestamp\<rparr>) c1)))))"

section \<open>Resume\<close>

record resume_input =
  ru_mutationKey :: string
  ru_archiveRecoveryId :: string
  ru_attemptId :: string
  ru_checkpointRevision :: int
  ru_checkpointDigest :: string
  ru_speedMode :: string

definition speed_mode_of :: "string \<Rightarrow> recovery_speed_mode option" where
  "speed_mode_of s =
     (if s = ''normal'' then Some Normal_speed else if s = ''low'' then Some Low_speed else None)"

definition resume_semantic_input :: "resume_input \<Rightarrow> string" where
  "resume_semantic_input input = canonicalJson (JObject
     [(''archiveRecoveryId'', JString (ru_archiveRecoveryId input)),
      (''attemptId'', JString (ru_attemptId input)),
      (''checkpointRevision'', JInt (ru_checkpointRevision input)),
      (''checkpointDigest'', JString (ru_checkpointDigest input)),
      (''speedMode'', JString (ru_speedMode input))])"

definition resume_operation :: string where
  "resume_operation = ''archive_recovery.resume''"

definition last_pass :: "recovery_row \<Rightarrow> recovery_pass_summary option" where
  "last_pass r = first_row (rev (rec_passHistory r))"

definition resumed_work :: "recovery_row \<Rightarrow> string \<Rightarrow> int \<Rightarrow> work_row" where
  "resumed_work r attempt timestamp = (requested_work r attempt timestamp)
     \<lparr>work_passNumber := (case last_pass r of None \<Rightarrow> 0 | Some p \<Rightarrow> ps_passNumber p) + 1,
      work_passDirection := (case last_pass r of
          None \<Rightarrow> Forward
        | Some p \<Rightarrow> if ps_direction p = Forward then Reverse else Forward)\<rparr>"

definition resumed_recovery :: "resume_input \<Rightarrow> recovery_speed_mode \<Rightarrow> string \<Rightarrow> string \<Rightarrow> int
     \<Rightarrow> recovery_row \<Rightarrow> recovery_row" where
  "resumed_recovery input mode attempt operation timestamp s = s\<lparr>
     rec_attemptId := attempt, rec_attemptOrdinal := rec_attemptOrdinal s + 1,
     rec_status := Waiting_for_disc, rec_pauseReason := None,
     rec_resumeOperationId := Some operation, rec_resumeRequestedAt := Some timestamp,
     rec_resumeCheckpointRevision := Some (ru_checkpointRevision input),
     rec_resumeCheckpointDigest := Some (ru_checkpointDigest input),
     rec_speedMode := Some mode, rec_speedRequestResult := None,
     rec_stopOperationId := None, rec_stopRequestedAt := None, rec_stoppedAt := None,
     rec_faultCode := None, rec_updatedAt := timestamp\<rparr>"

definition require_resumable ::
  "resume_input \<Rightarrow> recovery_store \<Rightarrow> recovery_record \<Rightarrow> recovery_speed_mode result" where
  "require_resumable input c recovery =
     (let r = fst recovery in
      and_then (reject_if (rec_attemptId r \<noteq> ru_attemptId input) stale_recovery_attempt) (\<lambda>_.
      and_then (reject_if (rec_status r \<noteq> Paused \<and> rec_status r \<noteq> Stopped)
        (bad_recovery_status r ''waiting_for_disc'')) (\<lambda>_.
      and_then (case speed_mode_of (ru_speedMode input) of
          None \<Rightarrow> Inl (DomainInvariantError ''Archive Recovery Resume speed mode is invalid'')
        | Some mode \<Rightarrow> Inr mode) (\<lambda>mode.
      and_then (requireHeader c (rec_originalDiscArchiveId r)) (\<lambda>header.
      and_then (invariant_if
        (\<not> dvdDiscVerificationCheckpointIsCurrent (ru_checkpointRevision input)
            (ru_checkpointDigest input) (Some header)) ''Archive Recovery checkpoint is stale.'') (\<lambda>_.
      and_then (requireRecoveryStorage c) (\<lambda>_.
      and_then (requireNoPendingDvdRecoveryReconciliation c (rec_id r)) (\<lambda>_.
      and_then (requireNoActiveEncodeWork c recovery) (\<lambda>_.
      and_then (reject_if (recovery_claimed (snd recovery))
        (InvalidStatusTransitionError ''Archive Recovery work'' ''claimed'' ''requested'')) (\<lambda>_.
        Inr mode))))))))))"

definition requestResume ::
  "(string \<Rightarrow> string) \<Rightarrow> resume_input \<Rightarrow> int \<Rightarrow> string \<Rightarrow> string \<Rightarrow> string \<Rightarrow> recovery_store
     \<Rightarrow> recovery_receipt recovery_transaction" where
  "requestResume sha256 input timestamp attempt operation verification_id c =
     and_then (readMutationInvocation c (ru_mutationKey input) resume_operation
       (resume_semantic_input input)) (\<lambda>replay.
     case replay of
       Some receipt \<Rightarrow> Inr (receipt, c)
     | None \<Rightarrow>
         and_then (found_recovery c (ru_archiveRecoveryId input)) (\<lambda>(r, work).
         and_then (require_resumable input c (r, work)) (\<lambda>mode.
         and_then (must_update_recovery (rec_id r) (attempt_in r [Paused, Stopped])
           (resumed_recovery input mode attempt operation timestamp)
           (snd (delete_work (\<lambda>w. work_archiveRecoveryId w = rec_id r) c))) (\<lambda>(_, c1).
         and_then (insert_work (resumed_work r attempt timestamp) c1) (\<lambda>(_, c2).
         and_then (found_recovery c2 (rec_id r)) (\<lambda>resumed.
         and_then (case currentResumeInsertion c2 (fst resumed) of
             None \<Rightarrow> Inr (resumed, c2)
           | Some insertion \<Rightarrow>
               activateResumeInsertion sha256 resumed insertion verification_id timestamp c2) (\<lambda>(final, c3).
           let receipt = Recovery_receipt (fst final) (snd final) in
           map_sum id (Pair receipt)
             (recordMutationInvocation (ru_mutationKey input) resume_operation
               (resume_semantic_input input) receipt c3))))))))"

definition replayResume :: "recovery_store \<Rightarrow> resume_input \<Rightarrow> recovery_receipt option result" where
  "replayResume c input =
     readMutationInvocation c (ru_mutationKey input) resume_operation (resume_semantic_input input)"

text \<open>The loop of \<open>activateWaitingResume\<close> over the recoveries that wait, the oldest first.\<close>

fun activate_first ::
  "(string \<Rightarrow> string) \<Rightarrow> recovery_row list \<Rightarrow> int \<Rightarrow> string \<Rightarrow> recovery_store
     \<Rightarrow> recovery_record option recovery_transaction" where
  "activate_first sha256 [] timestamp verification_id c = Inr (None, c)"
| "activate_first sha256 (candidate # candidates) timestamp verification_id c =
     (let next = activate_first sha256 candidates timestamp verification_id c in
      case findRecovery c (rec_id candidate) of
        None \<Rightarrow> next
      | Some (r, work) \<Rightarrow>
          if rec_resumeOperationId r = None \<or> \<not> recovery_requested work then next
          else case currentResumeInsertion c r of
            None \<Rightarrow> next
          | Some insertion \<Rightarrow>
              if map_option vs_discInspectionId (latest_verification c (rec_id r))
                 = Some (in_id insertion) then next
              else
                and_then (requireNoActiveEncodeWork c (r, work)) (\<lambda>_.
                and_then (requireNoPendingDvdRecoveryReconciliation c (rec_id r)) (\<lambda>_.
                  map_sum id (\<lambda>(record, c'). (Some record, c'))
                    (activateResumeInsertion sha256 (r, work) insertion verification_id timestamp c))))"

definition activateWaitingResume ::
  "(string \<Rightarrow> string) \<Rightarrow> int \<Rightarrow> string \<Rightarrow> recovery_store \<Rightarrow> recovery_record option recovery_transaction" where
  "activateWaitingResume sha256 timestamp verification_id c =
     activate_first sha256
       (sort_key (\<lambda>r. (rec_updatedAt r, rec_id r))
         (filter (\<lambda>r. rec_status r = Waiting_for_disc) (rs_recoveries c)))
       timestamp verification_id c"

definition is_byte :: "int \<Rightarrow> bool" where
  "is_byte n \<longleftrightarrow> 0 \<le> n \<and> n \<le> 255"

definition speed_request_invalid :: "speed_request_result \<Rightarrow> bool" where
  "speed_request_invalid input \<longleftrightarrow>
     sr_outcome input \<notin> {''accepted'', ''rejected'', ''ignored''}
   \<or> sr_attemptedSpeeds input = []
   \<or> list_ex (\<lambda>speed. \<not> is_byte speed) (sr_attemptedSpeeds input)
   \<or> (case sr_selectedSpeed input of None \<Rightarrow> False | Some speed \<Rightarrow> \<not> is_byte speed)
   \<or> (case sr_observedSpeed input of None \<Rightarrow> False | Some speed \<Rightarrow> \<not> is_byte speed)"

definition recordSpeedRequestResult ::
  "speed_request_result \<Rightarrow> int \<Rightarrow> int \<Rightarrow> int \<Rightarrow> recovery_store \<Rightarrow> recovery_record recovery_transaction" where
  "recordSpeedRequestResult input updated_time started_time verification_time c =
     and_then (invariant_if (speed_request_invalid input)
       ''Archive Recovery speed request result is invalid'') (\<lambda>_.
     let stale = StaleJobAttemptError ''Archive Recovery speed request'' (sr_attemptId input) in
     and_then (case findRecovery c (sr_archiveRecoveryId input) of
         Some (r, Some w) \<Rightarrow>
           (case work_verificationId w of
              None \<Rightarrow> Inl stale
            | Some verification_id \<Rightarrow>
                if rec_attemptId r \<noteq> sr_attemptId input \<or> rec_speedMode r \<noteq> Some (sr_mode input)
                   \<or> rec_status r \<noteq> Eligible then Inl stale
                else Inr (r, verification_id))
       | _ \<Rightarrow> Inl stale) (\<lambda>(r, verification_id).
     and_then (reject_if (case find_verification c verification_id of
           None \<Rightarrow> True
         | Some v \<Rightarrow> vs_archiveRecoveryAttemptId v \<noteq> Some (sr_attemptId input)
             \<or> vs_discInspectionId v \<noteq> sr_discInspectionId input)
       (StaleJobAttemptError ''Archive Recovery speed request insertion'' (sr_attemptId input))) (\<lambda>_.
     and_then (must_update_recovery (rec_id r) (attempt_in r [Eligible])
       (\<lambda>s. s\<lparr>rec_speedRequestResult := Some input, rec_updatedAt := updated_time\<rparr>) c) (\<lambda>(_, c1).
     and_then (update_verifications (\<lambda>v. vr_id v = verification_id \<and> vr_status v = Item_running)
       (\<lambda>v. v\<lparr>vr_startedAt := Some started_time, vr_updatedAt := verification_time\<rparr>) c1) (\<lambda>(_, c2).
       return_recovery (rec_id r) c2)))))"

section \<open>Stop\<close>

record stop_input =
  st_mutationKey :: string
  st_archiveRecoveryId :: string
  st_attemptId :: string

definition stop_semantic_input :: "stop_input \<Rightarrow> string" where
  "stop_semantic_input input = canonicalJson (JObject
     [(''archiveRecoveryId'', JString (st_archiveRecoveryId input)),
      (''attemptId'', JString (st_attemptId input))])"

definition stop_operation :: string where
  "stop_operation = ''archive_recovery.stop''"

definition stoppable :: "archive_recovery_status list" where
  "stoppable = [Eligible, Waiting_for_disc, Running, Paused]"

definition attempt_verification :: "recovery_row \<Rightarrow> item_status list \<Rightarrow> verification_row \<Rightarrow> bool" where
  "attempt_verification r statuses v \<longleftrightarrow>
     vs_archiveRecoveryId v = rec_id r \<and> vs_archiveRecoveryAttemptId v = Some (rec_attemptId r)
   \<and> vr_status v \<in> set statuses"

definition fail_queued_verifications ::
  "recovery_row \<Rightarrow> int \<Rightarrow> recovery_store \<Rightarrow> recovery_store result" where
  "fail_queued_verifications r timestamp c =
     map_sum id snd (update_verifications (attempt_verification r [Item_queued])
       (\<lambda>v. v\<lparr>vr_status := Item_failed, vr_completedAt := Some timestamp,
         vr_failureCode := Some ''DISC_VERIFICATION_UNAVAILABLE'', vr_updatedAt := timestamp\<rparr>) c)"

definition requestStop ::
  "stop_input \<Rightarrow> int \<Rightarrow> string \<Rightarrow> recovery_store \<Rightarrow> recovery_receipt recovery_transaction" where
  "requestStop input timestamp operation c =
     and_then (readMutationInvocation c (st_mutationKey input) stop_operation
       (stop_semantic_input input)) (\<lambda>replay.
     case replay of
       Some receipt \<Rightarrow> Inr (receipt, c)
     | None \<Rightarrow>
         and_then (found_recovery c (st_archiveRecoveryId input)) (\<lambda>(r, work).
         and_then (reject_if (rec_attemptId r \<noteq> st_attemptId input) stale_recovery_attempt) (\<lambda>_.
         and_then (reject_if (rec_status r \<notin> set stoppable) (bad_recovery_status r ''stopping'')) (\<lambda>_.
         and_then (requireNoActiveEncodeWork c (r, work)) (\<lambda>_.
         and_then (case work of
             Some _ \<Rightarrow> Inr c
           | None \<Rightarrow> map_sum id snd (insert_work (requested_work r (rec_attemptId r) timestamp) c)) (\<lambda>c1.
         and_then (must_update_recovery (rec_id r) (attempt_in r stoppable)
           (\<lambda>s. s\<lparr>rec_status := Stopping, rec_stopOperationId := Some operation,
             rec_stopRequestedAt := Some timestamp, rec_stoppedAt := None, rec_faultCode := None,
             rec_pauseReason := None, rec_updatedAt := timestamp\<rparr>) c1) (\<lambda>(stopped, c2).
         and_then (fail_queued_verifications r timestamp c2) (\<lambda>c3.
           let receipt = Recovery_receipt stopped (Option.bind (findRecovery c3 (rec_id stopped)) snd) in
           map_sum id (Pair receipt)
             (recordMutationInvocation (st_mutationKey input) stop_operation (stop_semantic_input input)
               receipt c3)))))))))"

record stop_claim =
  sc_archiveRecoveryId :: string
  sc_attemptId :: string
  sc_stopOperationId :: string

definition require_stopping ::
  "stop_claim \<Rightarrow> string \<Rightarrow> recovery_store \<Rightarrow> recovery_record result" where
  "require_stopping input next_status c =
     and_then (found_recovery c (sc_archiveRecoveryId input)) (\<lambda>(r, work).
     and_then (reject_if (rec_attemptId r \<noteq> sc_attemptId input) stale_recovery_attempt) (\<lambda>_.
     and_then (reject_if
       (rec_status r \<noteq> Stopping \<or> rec_stopOperationId r \<noteq> Some (sc_stopOperationId input))
       (bad_recovery_status r next_status)) (\<lambda>_. Inr (r, work))))"

definition stopping_row :: "recovery_row \<Rightarrow> stop_claim \<Rightarrow> recovery_row \<Rightarrow> bool" where
  "stopping_row r input s \<longleftrightarrow>
     attempt_in r [Stopping] s \<and> rec_stopOperationId s = Some (sc_stopOperationId input)"

text \<open>A claim that still runs keeps the stop waiting, unless its holder says that it has ended.\<close>

definition claim_still_runs :: "recovery_row \<Rightarrow> work_row option \<Rightarrow> work_row option \<Rightarrow> int \<Rightarrow> bool" where
  "claim_still_runs r work quiesced timestamp \<longleftrightarrow>
     (case work of
        None \<Rightarrow> False
      | Some w \<Rightarrow> work_status w = Claimed
          \<and> (case work_claimedAt w of None \<Rightarrow> False
             | Some moment \<Rightarrow> moment \<ge> timestamp - DVD_RECOVERY_PASS_CLAIM_LEASE_MS)
          \<and> (case quiesced of None \<Rightarrow> True
             | Some q \<Rightarrow> work_archiveRecoveryId q \<noteq> rec_id r \<or> work_attemptId q \<noteq> rec_attemptId r
                 \<or> work_claimToken q \<noteq> work_claimToken w))"

definition interrupted_terminal :: "verification_row \<Rightarrow> verification_terminal" where
  "interrupted_terminal v =
     \<lparr>te_budgetExhausted = vr_budgetExhausted v, te_checkpointChanged = False,
      te_findings = vr_findings v, te_insertionChanged = False, te_interrupted = True\<rparr>"

definition complete_evaluated ::
  "(verification_outcome \<times> verification_reason list) \<Rightarrow> int \<Rightarrow> verification_row \<Rightarrow> verification_row" where
  "complete_evaluated evaluated timestamp v = v\<lparr>vr_status := Item_completed,
     vr_outcome := Some (fst evaluated), vr_reasons := snd evaluated, vr_claimToken := None,
     vr_claimedAt := None, vr_completedAt := Some timestamp, vr_updatedAt := timestamp\<rparr>"

text \<open>Completes an expired verification as interrupted; the rows completed and the new store.\<close>

definition complete_interrupted ::
  "(string \<Rightarrow> string) \<Rightarrow> verification_row \<Rightarrow> int \<Rightarrow> recovery_store
     \<Rightarrow> ((verification_outcome \<times> verification_reason list) \<times> verification_row list)
          recovery_transaction" where
  "complete_interrupted sha256 v timestamp c =
     (case vr_claimToken v of
        None \<Rightarrow> Inl (DomainInvariantError ''Running DVD Disc Verification has no claim token'')
      | Some token \<Rightarrow>
          and_then (evaluatePersistedDvdDiscVerification sha256 c v (interrupted_terminal v)) (\<lambda>evaluated.
            map_sum id (\<lambda>(rows, c'). ((evaluated, rows), c'))
              (update_verifications
                (\<lambda>u. vr_id u = vr_id v \<and> vr_status u = Item_running \<and> vr_claimToken u = Some token)
                (complete_evaluated evaluated timestamp) c)))"

fun complete_all_interrupted ::
  "(string \<Rightarrow> string) \<Rightarrow> verification_row list \<Rightarrow> int \<Rightarrow> recovery_store \<Rightarrow> recovery_store result" where
  "complete_all_interrupted sha256 [] timestamp c = Inr c"
| "complete_all_interrupted sha256 (v # vs) timestamp c =
     and_then (complete_interrupted sha256 v timestamp c) (\<lambda>(_, c').
       complete_all_interrupted sha256 vs timestamp c')"

definition expired_verification :: "int \<Rightarrow> verification_row \<Rightarrow> bool" where
  "expired_verification timestamp v \<longleftrightarrow>
     before_instant (vr_claimedAt v) (timestamp - DVD_DISC_VERIFICATION_CLAIM_LEASE_MS)"

definition active_verification :: "recovery_store \<Rightarrow> recovery_row \<Rightarrow> bool" where
  "active_verification c r \<longleftrightarrow>
     list_ex (attempt_verification r [Item_queued, Item_running]) (rs_verifications c)"

definition prepareStop ::
  "(string \<Rightarrow> string) \<Rightarrow> stop_claim \<Rightarrow> work_row option \<Rightarrow> int \<Rightarrow> recovery_store
     \<Rightarrow> bool recovery_transaction" where
  "prepareStop sha256 input quiesced timestamp c =
     and_then (require_stopping input ''stopping'' c) (\<lambda>(r, work).
       if claim_still_runs r work quiesced timestamp then Inr (False, c)
       else
         and_then (fail_queued_verifications r timestamp c) (\<lambda>c1.
         and_then (complete_all_interrupted sha256
           (filter (\<lambda>v. attempt_verification r [Item_running] v \<and> expired_verification timestamp v)
             (rs_verifications c1)) timestamp c1) (\<lambda>c2.
           Inr (\<not> active_verification c2 r, c2))))"

definition completeStop ::
  "stop_claim \<Rightarrow> int \<Rightarrow> recovery_store \<Rightarrow> recovery_record recovery_transaction" where
  "completeStop input timestamp c =
     and_then (require_stopping input ''stopped'' c) (\<lambda>(r, _).
     and_then (invariant_if (active_verification c r)
       ''Archive Recovery Stop requires settled DVD Disc Verification'') (\<lambda>_.
     and_then (update_recoveries (stopping_row r input)
       (\<lambda>s. s\<lparr>rec_status := Stopped, rec_stoppedAt := Some timestamp, rec_updatedAt := timestamp\<rparr>)
       (snd (delete_work (\<lambda>w. work_archiveRecoveryId w = rec_id r \<and> work_attemptId w = rec_attemptId r) c)))
       (\<lambda>(_, c1).
     and_then (requireRow (Option.bind (find (\<lambda>a. arc_id a = rec_originalDiscArchiveId r) (rs_archives c1))
         (\<lambda>a. find (\<lambda>d. dd_id d = arc_detectedDiscId a) (rs_discs c1)))
       ''Original Disc Archive'' (rec_originalDiscArchiveId r)) (\<lambda>_.
     and_then (currentDvdUnrecoveredSourceRanges c1 (rec_originalDiscArchiveId r)) (\<lambda>_.
       return_recovery (rec_id r) (c1\<lparr>rs_outcomes := rs_outcomes c1 @
         [\<lparr>ro_kind = ''recovery_stopped'',
           ro_sourceEventId = ''recovery-stop:'' @ sc_stopOperationId input,
           ro_originalDiscArchiveId = rec_originalDiscArchiveId r\<rparr>]\<rparr>))))))"

text \<open>
  The instant that puts a recovery behind every other that is stopping; without one the code's
  \<open>latestStopping\<close> is \<open>undefined\<close>, which counts as 0.
\<close>

definition deferred_instant :: "recovery_store \<Rightarrow> recovery_row \<Rightarrow> int \<Rightarrow> int" where
  "deferred_instant c r timestamp =
     max (max timestamp (rec_updatedAt r + 1))
       ((case latest_by rec_updatedAt (filter (\<lambda>s. rec_status s = Stopping) (rs_recoveries c)) of
           None \<Rightarrow> 0 | Some s \<Rightarrow> rec_updatedAt s) + 1)"

definition deferStop ::
  "stop_claim \<Rightarrow> int \<Rightarrow> recovery_store \<Rightarrow> recovery_record recovery_transaction" where
  "deferStop input timestamp c =
     and_then (require_stopping input ''stopping'' c) (\<lambda>(r, _).
     and_then (must_update_recovery (rec_id r) (stopping_row r input)
       (\<lambda>s. s\<lparr>rec_updatedAt := deferred_instant c r timestamp\<rparr>) c) (\<lambda>(_, c1).
       return_recovery (rec_id r) c1))"

definition markStopFault ::
  "stop_claim \<Rightarrow> string \<Rightarrow> int \<Rightarrow> recovery_store \<Rightarrow> recovery_record recovery_transaction" where
  "markStopFault input fault_code timestamp c =
     and_then (requireNonEmpty fault_code ''faultCode'') (\<lambda>_.
     and_then (require_stopping input ''faulted'' c) (\<lambda>(r, _).
     and_then (must_update_recovery (rec_id r) (stopping_row r input)
       (\<lambda>s. s\<lparr>rec_status := Faulted, rec_stoppedAt := None, rec_faultCode := Some fault_code,
         rec_updatedAt := timestamp\<rparr>) c) (\<lambda>(_, c1).
     and_then (recordArchiveRecoveryOutcome r ''recovery_attention''
       (''stop:'' @ sc_stopOperationId input) c1) (\<lambda>c2.
       return_recovery (rec_id r) c2))))"

section \<open>Giving a claim up\<close>

fun other_direction :: "recovery_pass_direction \<Rightarrow> recovery_pass_direction" where
  "other_direction Forward = Reverse"
| "other_direction Reverse = Forward"

definition unclaimed :: "int \<Rightarrow> work_row \<Rightarrow> work_row" where
  "unclaimed timestamp w = w\<lparr>work_status := Requested, work_requestedAt := Some timestamp,
     work_claimedBy := None, work_claimToken := None, work_claimedAt := None,
     work_admittedDevicePath := None, work_admittedDeviceId := None, work_admittedDeviceInode := None,
     work_updatedAt := timestamp\<rparr>"

definition next_pass :: "work_row \<Rightarrow> work_row \<Rightarrow> work_row" where
  "next_pass w v = v\<lparr>work_passNumber := work_passNumber w + 1,
     work_passDirection := other_direction (work_passDirection w),
     passStartedAt := None, passStartedManifestRevision := None,
     passInitialUnrecoveredSectorCount := None, passRecoveredSectorCount := 0,
     passObservationCount := None, passPositiveIntervalCount := None, passMinimumIntervalMs := None,
     passMaximumIntervalMs := None, passLastObservedAt := None, passCursorLba := None\<rparr>"

definition settled_status :: "recovery_pass_outcome \<Rightarrow> archive_recovery_status" where
  "settled_status outcome =
     (case outcome of Pass_completed \<Rightarrow> Completed | Productive \<Rightarrow> Eligible | Unproductive \<Rightarrow> Paused)"

definition settlePass ::
  "work_row \<Rightarrow> int \<Rightarrow> string \<Rightarrow> recovery_store \<Rightarrow> recovery_record recovery_transaction" where
  "settlePass claim timestamp verification_id c =
     and_then (requireCurrentRecoveryClaim c claim) (\<lambda>(r, w).
       if rec_status r \<noteq> Running \<and> rec_status r \<noteq> Completed then Inr ((r, Some w), c)
       else
         and_then (archiveRecoveryPassSettlement c (r, Some w) timestamp) (\<lambda>(outcome, history).
         and_then
           (if outcome = Pass_completed then
              map_sum id (\<lambda>c1. snd (delete_work (held_by claim) c1))
                (recordArchiveRecoveryOutcome r ''recovery_completed'' (attempt_transition r) c)
            else
              and_then (if outcome = Productive
                then queueNextArchiveRecoveryPassVerification (r, Some w) verification_id timestamp c
                else Inr c) (\<lambda>c1.
                map_sum id snd (update_work_rows (held_by claim)
                  (\<lambda>v. if outcome = Productive
                     then next_pass w ((unclaimed timestamp v)\<lparr>work_verificationId := None\<rparr>)
                     else (unclaimed timestamp v)\<lparr>work_verificationId := work_verificationId w\<rparr>) c1))) (\<lambda>c2.
         and_then (update_recoveries (attempt_in r [Running, Completed])
           (\<lambda>s. s\<lparr>rec_status := settled_status outcome,
             rec_pauseReason := (if outcome = Unproductive then Some No_progress else None),
             rec_passHistory := history, rec_updatedAt := timestamp\<rparr>) c2) (\<lambda>(_, c3).
           return_recovery (rec_id r) c3))))"

definition markFault ::
  "work_row \<Rightarrow> string \<Rightarrow> bool \<Rightarrow> bool \<Rightarrow> int \<Rightarrow> recovery_store \<Rightarrow> recovery_record recovery_transaction" where
  "markFault claim fault_code storageFault retainWork timestamp c =
     and_then (requireNonEmpty fault_code ''faultCode'') (\<lambda>_.
     and_then (requireCurrentRecoveryClaim c claim) (\<lambda>(r, w).
       if rec_status r = Stopping then Inr ((r, Some w), c)
       else
         and_then (reject_if (rec_status r \<noteq> Running) (bad_recovery_status r ''faulted'')) (\<lambda>_.
         and_then (must_update_recovery (rec_id r) (attempt_in r [Running])
           (\<lambda>s. s\<lparr>rec_status := (if storageFault then Paused else Faulted),
             rec_faultCode := (if storageFault then None else Some fault_code),
             rec_pauseReason := (if storageFault then Some Storage_fault else None),
             rec_updatedAt := timestamp\<rparr>) c) (\<lambda>(_, c1).
         and_then (recordArchiveRecoveryOutcome r ''recovery_attention'' (attempt_transition r) c1) (\<lambda>c2.
         and_then (if retainWork then Inr c2
           else must_delete_work (rec_id r)
             (\<lambda>v. work_archiveRecoveryId v = rec_id r \<and> work_attemptId v = rec_attemptId r
               \<and> column_eq (work_claimToken v) (work_claimToken claim))
             (RecordNotFoundError ''Archive Recovery work'' (rec_id r)) c2) (\<lambda>c3.
           return_recovery (rec_id r) c3))))))"

text \<open>The status and the history a settlement gives, where the recovery still runs.\<close>

definition settle_running ::
  "recovery_row \<Rightarrow> (archive_recovery_status \<times> recovery_pass_summary list option) \<Rightarrow> int
     \<Rightarrow> recovery_store \<Rightarrow> recovery_row list recovery_transaction" where
  "settle_running r settlement timestamp c =
     update_recoveries (attempt_in r [Running])
       (\<lambda>s. s\<lparr>rec_status := fst settlement,
         rec_passHistory := (case snd settlement of None \<Rightarrow> rec_passHistory s | Some history \<Rightarrow> history),
         rec_updatedAt := timestamp\<rparr>) c"

definition remove_and_settle ::
  "recovery_record \<Rightarrow> (work_row \<Rightarrow> bool) \<Rightarrow> int \<Rightarrow> recovery_store \<Rightarrow> recovery_record recovery_transaction" where
  "remove_and_settle recovery P timestamp c =
     (let r = fst recovery in
      and_then (if rec_status r = Running
        then map_sum id (\<lambda>(settlement, c1). (Some settlement, c1))
          (archiveRecoveryCompletionAfterInterruption recovery timestamp c)
        else Inr (None, c)) (\<lambda>(settlement, c1).
      and_then (must_delete_work (rec_id r) P
        (StaleJobAttemptError ''Archive Recovery work'' (rec_id r)) c1) (\<lambda>c2.
      and_then (case settlement of
          None \<Rightarrow> Inr c2
        | Some s \<Rightarrow> map_sum id snd (settle_running r s timestamp c2)) (\<lambda>c3.
        return_recovery (rec_id r) c3))))"

definition releaseAfterReconciliation ::
  "string \<Rightarrow> string \<Rightarrow> int \<Rightarrow> recovery_store \<Rightarrow> recovery_record recovery_transaction" where
  "releaseAfterReconciliation i attempt timestamp c =
     and_then (found_recovery c i) (\<lambda>(r, work).
     and_then (reject_if (rec_attemptId r \<noteq> attempt)
       (StaleJobAttemptError ''Archive Recovery work'' i)) (\<lambda>_.
       if rec_status r = Stopping \<or> work = None then Inr ((r, work), c)
       else remove_and_settle (r, work)
         (\<lambda>w. work_archiveRecoveryId w = i \<and> work_attemptId w = attempt) timestamp c))"

definition requeue_recovery ::
  "work_row \<Rightarrow> int \<Rightarrow> recovery_store \<Rightarrow> recovery_record recovery_transaction" where
  "requeue_recovery claim timestamp c =
     and_then (requireCurrentRecoveryClaim c claim) (\<lambda>(r, w).
       if rec_status r = Stopping then Inr ((r, Some w), c)
       else
         and_then (reject_if (rec_status r \<noteq> Running) (bad_recovery_status r ''eligible'')) (\<lambda>_.
         and_then (archiveRecoveryCompletionAfterInterruption (r, Some w) timestamp c) (\<lambda>(settlement, c1).
         and_then
           (if fst settlement = Completed
            then must_delete_work (rec_id r) (\<lambda>v. held_by claim v \<and> work_status v = Claimed)
              (RecordNotFoundError ''Archive Recovery work'' (work_archiveRecoveryId claim)) c1
            else map_sum id snd (must_update_work (work_archiveRecoveryId claim)
              (\<lambda>v. held_by claim v \<and> work_status v = Claimed) (unclaimed timestamp) c1)) (\<lambda>c2.
         and_then (settle_running r settlement timestamp c2) (\<lambda>(rows, c3).
         and_then (requireRow (first_row rows) ''Archive Recovery'' (rec_id r)) (\<lambda>_.
           return_recovery (rec_id r) c3))))))"

text \<open>
  The recovery of a claim may have been stopped since, which is what a release returns then.
\<close>

definition release_recovery ::
  "work_row \<Rightarrow> int \<Rightarrow> recovery_store \<Rightarrow> recovery_record recovery_transaction" where
  "release_recovery claim timestamp c =
     (case findArchiveRecoveryRecord c (Some (work_archiveRecoveryId claim))
          (Some (work_originalDiscArchiveId claim)) of
        Some (r, None) \<Rightarrow>
          if rec_status r = Stopped \<and> rec_attemptId r = work_attemptId claim then Inr ((r, None), c)
          else Inl (StaleJobAttemptError ''Archive Recovery work'' (work_archiveRecoveryId claim))
      | _ \<Rightarrow>
          and_then (requireCurrentRecoveryClaim c claim) (\<lambda>(r, w).
            if rec_status r = Stopping then Inr ((r, Some w), c)
            else remove_and_settle (r, Some w)
              (\<lambda>v. held_by claim v \<and> work_status v = Claimed) timestamp c))"

end
