(* ===== verification/Reconciliation.thy ===== *)
theory Reconciliation
  imports RecoveryWork
begin

text \<open>
  The transactions of \<open>dvdRecoveryReconciliations\<close> in \<open>internal/create-data-access.ts\<close>: the queue of
  the examinations that bring the checkpoint on disk and its projection in the catalog together
  again, each under a claim with a lease.  Its rows are in \<open>RecoveryStore\<close>.
\<close>

definition DVD_RECOVERY_RECONCILIATION_CLAIM_LEASE_MS :: int where
  "DVD_RECOVERY_RECONCILIATION_CLAIM_LEASE_MS = 60000"

definition find_reconciliation :: "recovery_store \<Rightarrow> string \<Rightarrow> reconciliation_row option" where
  "find_reconciliation c i = find (\<lambda>n. rn_id n = i) (rs_reconciliations c)"

definition toClaimedDvdRecoveryReconciliation :: "reconciliation_row \<Rightarrow> reconciliation_row result" where
  "toClaimedDvdRecoveryReconciliation n =
     (if rn_status n \<noteq> Item_running \<or> rn_workerExecutionId n = None \<or> rn_claimToken n = None
        \<or> rn_claimedAt n = None \<or> rn_startedAt n = None
      then Inl (DomainInvariantError ''DVD recovery reconciliation claim is incomplete'')
      else Inr n)"

definition reconciliation_semantic_input :: "string \<Rightarrow> string" where
  "reconciliation_semantic_input archiveRecoveryId =
     canonicalJson (JObject [(''archiveRecoveryId'', JString archiveRecoveryId)])"

definition reconciliation_operation :: string where
  "reconciliation_operation = ''dvd_recovery_reconciliation.submit''"

section \<open>Submission\<close>

text \<open>The recoveries that a worker holds or may take.\<close>

definition reconciliation_excluded :: "recovery_record \<Rightarrow> bool" where
  "reconciliation_excluded recovery \<longleftrightarrow>
     (let status = rec_status (fst recovery) in
      status = Running \<or> status = Stopping
    \<or> ((status = Eligible \<or> status = Paused \<or> status = Waiting_for_disc)
       \<and> recovery_requested (snd recovery)))"

definition queued_reconciliation :: "recovery_row \<Rightarrow> string \<Rightarrow> int \<Rightarrow> int \<Rightarrow> reconciliation_row" where
  "queued_reconciliation r i ordinal timestamp =
     \<lparr>rn_id = i, rn_archiveRecoveryId = rec_id r, rn_attemptOrdinal = ordinal,
      rn_originalDiscArchiveId = rec_originalDiscArchiveId r, rn_status = Item_queued,
      rn_phase = Phase_queued, rn_outcome = None, rn_evidence = None, rn_failureCode = None,
      rn_workerExecutionId = None, rn_claimToken = None, rn_claimedAt = None, rn_startedAt = None,
      rn_completedAt = None, rn_createdAt = timestamp, rn_updatedAt = timestamp\<rparr>"

definition reconciliations_of :: "recovery_store \<Rightarrow> string \<Rightarrow> reconciliation_row list" where
  "reconciliations_of c archiveRecoveryId =
     filter (\<lambda>n. rn_archiveRecoveryId n = archiveRecoveryId) (rs_reconciliations c)"

definition reconciliation_active :: "reconciliation_row \<Rightarrow> bool" where
  "reconciliation_active n \<longleftrightarrow> rn_status n = Item_queued \<or> rn_status n = Item_running"

text \<open>
  A replay returns the reconciliation as it is now.  The receipts of the operation are rows of
  this table; another kind cannot be stored under its name.
\<close>

definition replayed_reconciliation ::
  "recovery_store \<Rightarrow> recovery_receipt \<Rightarrow> reconciliation_row result" where
  "replayed_reconciliation c receipt =
     (case receipt of
        Reconciliation_receipt previous \<Rightarrow>
          Inr (case find_reconciliation c (rn_id previous) of
            None \<Rightarrow> previous | Some current \<Rightarrow> current)
      | _ \<Rightarrow> Inl mutation_key_conflict)"

definition submit_reconciliation ::
  "string \<Rightarrow> string \<Rightarrow> string \<Rightarrow> int \<Rightarrow> recovery_store \<Rightarrow> reconciliation_row recovery_transaction" where
  "submit_reconciliation mutationKey archiveRecoveryId i timestamp c =
     and_then (readMutationInvocation c mutationKey reconciliation_operation
       (reconciliation_semantic_input archiveRecoveryId)) (\<lambda>replay.
     case replay of
       Some receipt \<Rightarrow> map_sum id (\<lambda>n. (n, c)) (replayed_reconciliation c receipt)
     | None \<Rightarrow>
         and_then (found_recovery c archiveRecoveryId) (\<lambda>(r, work).
         and_then (reject_if (reconciliation_excluded (r, work))
           (InvalidStatusTransitionError ''Archive Recovery''
             (if recovery_requested work then ''requested'' else recovery_status_text (rec_status r))
             ''DVD recovery reconciliation'')) (\<lambda>_.
         and_then (reject_if (list_ex reconciliation_active (reconciliations_of c (rec_id r)))
           (InvalidStatusTransitionError ''DVD recovery reconciliation'' ''active'' ''queued'')) (\<lambda>_.
         and_then (insert_reconciliation
           (queued_reconciliation r i
             (next_ordinal (map rn_attemptOrdinal (reconciliations_of c (rec_id r)))) timestamp) c) (\<lambda>(n, c1).
           map_sum id (Pair n)
             (recordMutationInvocation mutationKey reconciliation_operation
               (reconciliation_semantic_input archiveRecoveryId) (Reconciliation_receipt n) c1))))))"

section \<open>Reads\<close>

definition find_latest_reconciliation :: "recovery_store \<Rightarrow> string \<Rightarrow> reconciliation_row option" where
  "find_latest_reconciliation c archiveRecoveryId = latest_reconciliation c archiveRecoveryId"

definition list_reconciliations :: "recovery_store \<Rightarrow> nat \<Rightarrow> reconciliation_row list result" where
  "list_reconciliations c limit =
     (if limit = 0 then Inl (DomainInvariantError ''limit must be a positive safe integer'')
      else if 1000 < limit
      then Inl (DomainInvariantError ''DVD recovery reconciliation reads are limited to 1000 records'')
      else Inr (take limit (rev (sort_key (\<lambda>n. (rn_createdAt n, rn_id n)) (rs_reconciliations c)))))"

definition list_active_reconciliations :: "recovery_store \<Rightarrow> reconciliation_row list" where
  "list_active_reconciliations c =
     sort_key (\<lambda>n. (rn_createdAt n, rn_id n)) (filter reconciliation_active (rs_reconciliations c))"

section \<open>Claims\<close>

definition requeued_reconciliation :: "int \<Rightarrow> reconciliation_row \<Rightarrow> reconciliation_row" where
  "requeued_reconciliation timestamp n = n\<lparr>rn_status := Item_queued, rn_phase := Phase_queued,
     rn_workerExecutionId := None, rn_claimToken := None, rn_claimedAt := None, rn_startedAt := None,
     rn_updatedAt := timestamp\<rparr>"

definition reconciliation_held_by :: "reconciliation_row \<Rightarrow> reconciliation_row \<Rightarrow> bool" where
  "reconciliation_held_by claim n \<longleftrightarrow>
     rn_id n = rn_id claim \<and> rn_status n = Item_running
   \<and> column_eq (rn_claimToken n) (rn_claimToken claim)"

definition recover_expired_reconciliations :: "int \<Rightarrow> recovery_store \<Rightarrow> nat recovery_transaction" where
  "recover_expired_reconciliations timestamp c =
     map_sum id (\<lambda>(rows, c'). (length rows, c'))
       (update_reconciliations
         (\<lambda>n. rn_status n = Item_running
            \<and> before_instant (rn_claimedAt n) (timestamp - DVD_RECOVERY_RECONCILIATION_CLAIM_LEASE_MS))
         (requeued_reconciliation timestamp) c)"

definition claim_next_reconciliation ::
  "string \<Rightarrow> int \<Rightarrow> string \<Rightarrow> recovery_store \<Rightarrow> reconciliation_row option recovery_transaction" where
  "claim_next_reconciliation workerExecutionId timestamp token c =
     and_then (requireNonEmpty (js_trim workerExecutionId)
       ''DVD recovery reconciliation worker execution ID'') (\<lambda>execution.
     and_then (invariant_if (length execution > 256)
       ''DVD recovery reconciliation worker execution ID is too long'') (\<lambda>_.
       case earliest_by (\<lambda>n. (rn_createdAt n, rn_id n))
           (filter (\<lambda>n. rn_status n = Item_queued) (rs_reconciliations c)) of
         None \<Rightarrow> Inr (None, c)
       | Some next_row \<Rightarrow>
           and_then (update_reconciliations
             (\<lambda>n. rn_id n = rn_id next_row \<and> rn_status n = Item_queued)
             (\<lambda>n. n\<lparr>rn_status := Item_running, rn_phase := Examining,
               rn_workerExecutionId := Some execution, rn_claimToken := Some token,
               rn_claimedAt := Some timestamp, rn_startedAt := Some timestamp,
               rn_updatedAt := timestamp\<rparr>) c) (\<lambda>(rows, c1).
             case first_row rows of
               None \<Rightarrow> Inr (None, c1)
             | Some claimed \<Rightarrow> map_sum id (\<lambda>n. (Some n, c1))
                 (toClaimedDvdRecoveryReconciliation claimed))))"

definition renew_reconciliation_claim ::
  "reconciliation_row \<Rightarrow> int \<Rightarrow> recovery_store \<Rightarrow> bool recovery_transaction" where
  "renew_reconciliation_claim claim timestamp c =
     map_sum id (\<lambda>(rows, c'). (rows \<noteq> [], c'))
       (update_reconciliations (reconciliation_held_by claim)
         (\<lambda>n. n\<lparr>rn_claimedAt := Some timestamp, rn_updatedAt := timestamp\<rparr>) c)"

definition requeue_reconciliation ::
  "reconciliation_row \<Rightarrow> int \<Rightarrow> recovery_store \<Rightarrow> reconciliation_row option recovery_transaction" where
  "requeue_reconciliation claim timestamp c =
     map_sum id (\<lambda>(rows, c'). (first_row rows, c'))
       (update_reconciliations (reconciliation_held_by claim) (requeued_reconciliation timestamp) c)"

definition must_update_reconciliation ::
  "reconciliation_row \<Rightarrow> (reconciliation_row \<Rightarrow> reconciliation_row) \<Rightarrow> recovery_store
     \<Rightarrow> reconciliation_row recovery_transaction" where
  "must_update_reconciliation claim f c =
     and_then (update_reconciliations (reconciliation_held_by claim) f c) (\<lambda>(rows, c').
       case first_row rows of
         None \<Rightarrow> Inl (StaleJobAttemptError ''DVD recovery reconciliation'' (rn_id claim))
       | Some n \<Rightarrow> Inr (n, c'))"

definition set_reconciliation_phase ::
  "reconciliation_row \<Rightarrow> reconciliation_phase \<Rightarrow> int \<Rightarrow> recovery_store
     \<Rightarrow> reconciliation_row recovery_transaction" where
  "set_reconciliation_phase claim phase timestamp c =
     and_then (must_update_reconciliation claim
       (\<lambda>n. n\<lparr>rn_phase := phase, rn_claimedAt := Some timestamp, rn_updatedAt := timestamp\<rparr>) c) (\<lambda>(n, c').
       map_sum id (\<lambda>m. (m, c')) (toClaimedDvdRecoveryReconciliation n))"

definition complete_reconciliation ::
  "reconciliation_row \<Rightarrow> reconciliation_outcome \<Rightarrow> reconciliation_evidence \<Rightarrow> int \<Rightarrow> recovery_store
     \<Rightarrow> reconciliation_row recovery_transaction" where
  "complete_reconciliation claim outcome evidence timestamp c =
     and_then (invariant_if
       (re_authoritativeCheckpoint evidence \<noteq> re_databaseProjectionAfter evidence)
       ''DVD recovery reconciliation evidence is not converged'') (\<lambda>_.
       must_update_reconciliation claim
         (\<lambda>n. n\<lparr>rn_status := Item_completed, rn_phase := Phase_completed, rn_outcome := Some outcome,
           rn_evidence := Some evidence, rn_claimToken := None, rn_claimedAt := None,
           rn_completedAt := Some timestamp, rn_updatedAt := timestamp\<rparr>) c)"

definition fail_reconciliation ::
  "reconciliation_row \<Rightarrow> string \<Rightarrow> int \<Rightarrow> recovery_store
     \<Rightarrow> reconciliation_row option recovery_transaction" where
  "fail_reconciliation claim failure_code timestamp c =
     and_then (update_reconciliations (reconciliation_held_by claim)
       (\<lambda>n. n\<lparr>rn_status := Item_failed, rn_phase := Phase_completed, rn_failureCode := Some failure_code,
         rn_claimToken := None, rn_claimedAt := None, rn_completedAt := Some timestamp,
         rn_updatedAt := timestamp\<rparr>) c) (\<lambda>(rows, c1).
       case first_row rows of
         None \<Rightarrow> Inr (None, c1)
       | Some n \<Rightarrow>
           and_then (found_recovery c1 (rn_archiveRecoveryId n)) (\<lambda>(r, _).
             map_sum id (Pair (Some n))
               (recordArchiveRecoveryOutcome r ''recovery_attention'' (''reconciliation:'' @ rn_id n) c1)))"

end
