(* ===== verification/RecoveryExamples.thy ===== *)
theory RecoveryExamples
  imports RecoveryStore
begin

text \<open>
  A small store of Archive Recovery for the witnesses of the theories about it: one archive with
  five unrecovered sectors, its disc in a drive, the samples of the disc, and one eligible
  recovery whose disc is being verified.
\<close>

definition constant_hash :: "string \<Rightarrow> string" where
  "constant_hash text = example_digest"

definition example_recovery_row :: recovery_row where
  "example_recovery_row =
     \<lparr>rec_id = ''r'', rec_originalDiscArchiveId = ''a'', rec_attemptId = ''t'', rec_status = Eligible,
      rec_pauseReason = None, rec_updatedAt = 0, rec_attemptOrdinal = 1, rec_passHistory = [],
      rec_resumeOperationId = None, rec_resumeRequestedAt = None, rec_resumeCheckpointRevision = None,
      rec_resumeCheckpointDigest = None, rec_speedMode = None, rec_speedRequestResult = None,
      rec_stopOperationId = None, rec_stopRequestedAt = None, rec_stoppedAt = None, rec_faultCode = None\<rparr>"

definition example_header_row :: header_row where
  "example_header_row = (src_header (example_source 0 []))
     \<lparr>header_acceptedEndLbaExclusive := 1024, currentManifestId := ''m'', currentManifestRevision := 1,
      currentManifestDigest := example_digest\<rparr>"

definition example_manifest_row :: manifest_row where
  "example_manifest_row = (example_row 1
       [\<lparr>startLba = 10, sectorCount = 3, classification = Skipped_untested\<rparr>,
        \<lparr>startLba = 20, sectorCount = 2, classification = Skipped_untested\<rparr>])\<lparr>row_id := ''m''\<rparr>"

definition example_archive_row :: recovery_archive_row where
  "example_archive_row =
     (archive_record.extend (src_archive (example_source 0 [])) \<lparr>arc_detectedDiscId = ''disc''\<rparr>)
       \<lparr>arc_fingerprint := ''fingerprint''\<rparr>"

definition example_samples :: sample_manifest where
  "example_samples =
     \<lparr>sm_policyVersion = ''dvd-disc-verification-v1'',
      sm_byteRepresentation = ''dvdcss-noflags-raw-sector-v1'',
      sm_sourceMetadataFingerprint = ''fingerprint'', sm_acceptedEndLbaExclusive = 1024,
      sm_checkpointRevision = 1, sm_checkpointDigest = example_digest,
      sm_samples = map (\<lambda>i. \<lparr>smp_bandIndex = i, smp_startLba = 64 * i, smp_sectorCount = 32,
        smp_digest = example_digest\<rparr>) [0..15],
      sm_manifestDigest = example_digest\<rparr>"

definition example_findings :: "sample_finding list" where
  "example_findings = map (\<lambda>i. \<lparr>fd_bandIndex = i, fd_startLba = 64 * i, fd_sectorCount = 32,
     fd_outcome = Sample_match, fd_referenceDigest = example_digest,
     fd_observedDigest = Some example_digest, fd_diagnostic = None\<rparr>) [0..15]"

definition example_subject :: verification_subject where
  "example_subject =
     \<lparr>vs_archiveRecoveryId = ''r'', vs_archiveRecoveryAttemptId = Some ''t'',
      vs_originalDiscArchiveId = ''a'', vs_discInspectionId = ''inspection'', vs_detectedDiscId = ''disc'',
      vs_mediaGeneration = ''g'', vs_sourceMetadataFingerprint = ''fingerprint'',
      vs_observedMetadataFingerprint = ''fingerprint'', vs_checkpointRevision = 1,
      vs_checkpointDigest = example_digest\<rparr>"

definition example_running_verification :: verification_row where
  "example_running_verification = (queued_verification example_subject ''v'' 1 5)
     \<lparr>vr_status := Item_running, vr_workerExecutionId := Some ''worker'', vr_claimToken := Some ''k'',
      vr_claimedAt := Some 5, vr_startedAt := Some 5, vr_findings := example_findings\<rparr>"

definition example_store :: recovery_store where
  "example_store =
     \<lparr>rs_recoveries = [example_recovery_row], rs_work = [],
      rs_verifications = [example_running_verification], rs_confirmations = [], rs_reconciliations = [],
      rs_headers = [example_header_row], rs_manifests = [example_manifest_row], rs_reads = [],
      rs_archives = [example_archive_row],
      rs_inspections = [\<lparr>in_id = ''inspection'', in_opticalDriveId = ''drive'', in_isCurrent = True,
        in_status = ''completed'', in_detectedDiscId = Some ''disc'', in_mediaGeneration = ''g'',
        in_updatedAt = 1\<rparr>],
      rs_drives = [\<lparr>od_id = ''drive'', od_isPresent = True, od_isEnabled = True,
        od_devicePath = ''/dev/sr0''\<rparr>],
      rs_discs = [\<lparr>dd_id = ''disc'', dd_opticalDriveId = ''drive'', dd_fingerprint = ''fingerprint''\<rparr>],
      rs_sampleManifests = [(''a'', example_samples)],
      rs_preflight = Some \<lparr>sp_status = ''supported'', sp_reasonCode = None\<rparr>, rs_previews = [],
      rs_invocations = [], rs_outcomes = [],
      rs_encode = EncodeJobs.example_catalog\<lparr>encodeJobs := []\<rparr>\<rparr>"

end
