(* ===== verification/DiscVerification.thy ===== *)
theory DiscVerification
  imports RecoveryWork RecoveryExamples
begin

text \<open>
  The transactions of \<open>dvdDiscVerifications\<close> and \<open>dvdDiscConfirmations\<close> in
  \<open>internal/create-data-access.ts\<close>: the comparison of an inserted disc with the samples of an
  archive, under a claim with a lease, and the operator's acceptance of a result that is no match.
\<close>

section \<open>Submission\<close>

record verification_input =
  vi_mutationKey :: string
  vi_archiveRecoveryId :: string
  vi_discInspectionId :: string
  vi_checkpointRevision :: int
  vi_checkpointDigest :: string

definition dvdDiscVerificationSemanticInput :: "verification_input \<Rightarrow> string" where
  "dvdDiscVerificationSemanticInput input = json_stringify (JObject
     [(''archiveRecoveryId'', JString (vi_archiveRecoveryId input)),
      (''discInspectionId'', JString (vi_discInspectionId input)),
      (''checkpointRevision'', JInt (vi_checkpointRevision input)),
      (''checkpointDigest'', JString (vi_checkpointDigest input))])"

definition verification_operation :: string where
  "verification_operation = ''dvd_disc_verification.submit''"

text \<open>The receipts of the operation are verifications.\<close>

definition verification_receipt :: "recovery_receipt \<Rightarrow> verification_row result" where
  "verification_receipt receipt =
     (case receipt of Verification_receipt v \<Rightarrow> Inr v | _ \<Rightarrow> Inl mutation_key_conflict)"

definition submit_verification ::
  "(string \<Rightarrow> string) \<Rightarrow> verification_input \<Rightarrow> int \<Rightarrow> string \<Rightarrow> recovery_store
     \<Rightarrow> disc_verification recovery_transaction" where
  "submit_verification sha256 input timestamp i c =
     and_then (readMutationInvocation c (vi_mutationKey input) verification_operation
       (dvdDiscVerificationSemanticInput input)) (\<lambda>replay.
     case replay of
       Some receipt \<Rightarrow> map_sum id (\<lambda>v. (toDvdDiscVerification v, c)) (verification_receipt receipt)
     | None \<Rightarrow>
         and_then (requireRow (find (\<lambda>r. rec_id r = vi_archiveRecoveryId input) (rs_recoveries c))
           ''archive recovery'' (vi_archiveRecoveryId input)) (\<lambda>r.
         and_then (reject_if (rec_status r \<noteq> Eligible)
           (InvalidStatusTransitionError ''archive recovery'' (recovery_status_text (rec_status r))
             ''DVD Disc Verification'')) (\<lambda>_.
         and_then (requireHeader c (rec_originalDiscArchiveId r)) (\<lambda>header.
         and_then (invariant_if
           (\<not> dvdDiscVerificationCheckpointIsCurrent (vi_checkpointRevision input)
               (vi_checkpointDigest input) (Some header)) ''DISC_CHECKPOINT_CHANGED'') (\<lambda>_.
         and_then (requireRow (find (\<lambda>a. arc_id a = rec_originalDiscArchiveId r) (rs_archives c))
           ''original disc archive'' (rec_originalDiscArchiveId r)) (\<lambda>archive.
         and_then (requireRow (find_inspection c (vi_discInspectionId input))
           ''disc inspection'' (vi_discInspectionId input)) (\<lambda>inspection.
         and_then (case (in_isCurrent inspection \<and> in_status inspection = ''completed'',
               in_detectedDiscId inspection) of
             (True, Some disc) \<Rightarrow> Inr disc
           | _ \<Rightarrow> Inl (DomainInvariantError ''DISC_INSERTION_CHANGED'')) (\<lambda>disc.
         and_then (requireRow (find (\<lambda>d. dd_id d = disc) (rs_discs c)) ''detected disc'' disc) (\<lambda>observedDisc.
         and_then (reject_if (list_ex (\<lambda>v. vs_archiveRecoveryId v = rec_id r
               \<and> vr_status v \<in> {Item_queued, Item_running}) (rs_verifications c))
           (InvalidStatusTransitionError ''DVD Disc Verification'' ''active'' ''queued'')) (\<lambda>_.
         and_then (storedSampleManifest sha256 c (rec_originalDiscArchiveId r)) (\<lambda>sourceManifest.
         and_then (validateDvdDiscVerificationManifestBinding sourceManifest (arc_fingerprint archive)
           (Some header)) (\<lambda>_.
         and_then (insertQueuedDvdDiscVerification
           \<lparr>vs_archiveRecoveryId = rec_id r,
            vs_archiveRecoveryAttemptId = Some (rec_attemptId r),
            vs_originalDiscArchiveId = rec_originalDiscArchiveId r,
            vs_discInspectionId = in_id inspection,
            vs_detectedDiscId = dd_id observedDisc,
            vs_mediaGeneration = in_mediaGeneration inspection,
            vs_sourceMetadataFingerprint = (case sourceManifest of
              None \<Rightarrow> arc_fingerprint archive | Some m \<Rightarrow> sm_sourceMetadataFingerprint m),
            vs_observedMetadataFingerprint = dd_fingerprint observedDisc,
            vs_checkpointRevision = currentManifestRevision header,
            vs_checkpointDigest = currentManifestDigest header\<rparr> i timestamp c) (\<lambda>(v, c1).
           map_sum id (Pair (toDvdDiscVerification v))
             (recordMutationInvocation (vi_mutationKey input) verification_operation
               (dvdDiscVerificationSemanticInput input) (Verification_receipt v) c1))))))))))))))"

section \<open>Claims\<close>

definition find_latest_verification :: "recovery_store \<Rightarrow> string \<Rightarrow> disc_verification option" where
  "find_latest_verification c archiveRecoveryId =
     map_option toDvdDiscVerification (latest_verification c archiveRecoveryId)"

definition verifications_of_attempt :: "recovery_store \<Rightarrow> string \<Rightarrow> string \<Rightarrow> disc_verification list" where
  "verifications_of_attempt c archiveRecoveryId attempt =
     map toDvdDiscVerification (sort_key vr_attemptOrdinal
       (filter (\<lambda>v. vs_archiveRecoveryId v = archiveRecoveryId
          \<and> vs_archiveRecoveryAttemptId v = Some attempt) (rs_verifications c)))"

text \<open>
  The loop of \<open>recoverExpiredClaims\<close>.  Each completion may queue a verification of its own, whose
  identity is \<open>new_id\<close> of the one completed.
\<close>

fun recover_expired ::
  "(string \<Rightarrow> string) \<Rightarrow> (string \<Rightarrow> string) \<Rightarrow> verification_row list \<Rightarrow> int \<Rightarrow> recovery_store
     \<Rightarrow> recovery_store result" where
  "recover_expired sha256 new_id [] timestamp c = Inr c"
| "recover_expired sha256 new_id (v # vs) timestamp c =
     and_then (complete_interrupted sha256 v timestamp c) (\<lambda>((evaluated, rows), c1).
     and_then (case first_row rows of
         None \<Rightarrow> Inr c1
       | Some completed \<Rightarrow> settleGeneratedContinuationVerification completed (Some evaluated)
           (new_id (vr_id v)) timestamp c1) (\<lambda>c2.
       recover_expired sha256 new_id vs timestamp c2))"

definition recover_expired_verifications ::
  "(string \<Rightarrow> string) \<Rightarrow> (string \<Rightarrow> string) \<Rightarrow> int \<Rightarrow> recovery_store \<Rightarrow> nat recovery_transaction" where
  "recover_expired_verifications sha256 new_id timestamp c =
     (let expired = filter (\<lambda>v. vr_status v = Item_running \<and> expired_verification timestamp v)
            (rs_verifications c) in
      map_sum id (Pair (length expired)) (recover_expired sha256 new_id expired timestamp c))"

definition eligible_attempt :: "recovery_store \<Rightarrow> 'a verification_subject_scheme \<Rightarrow> bool" where
  "eligible_attempt c v \<longleftrightarrow>
     (case find (\<lambda>r. rec_id r = vs_archiveRecoveryId v) (rs_recoveries c) of
        None \<Rightarrow> False
      | Some r \<Rightarrow> rec_status r = Eligible \<and> Some (rec_attemptId r) = vs_archiveRecoveryAttemptId v)"

definition claim_next_verification ::
  "string \<Rightarrow> int \<Rightarrow> string \<Rightarrow> recovery_store \<Rightarrow> verification_row option recovery_transaction" where
  "claim_next_verification workerExecutionId timestamp token c =
     and_then (requireNonEmpty (js_trim workerExecutionId)
       ''DVD Disc Verification worker execution ID'') (\<lambda>execution.
     and_then (invariant_if (length execution > 256)
       ''DVD Disc Verification worker execution ID is too long'') (\<lambda>_.
       case earliest_by (\<lambda>v. (vr_createdAt v, vr_id v))
           (filter (\<lambda>v. vr_status v = Item_queued
              \<and> list_ex (\<lambda>r. rec_id r = vs_archiveRecoveryId v
                   \<and> Some (rec_attemptId r) = vs_archiveRecoveryAttemptId v \<and> rec_status r = Eligible)
                 (rs_recoveries c)) (rs_verifications c)) of
         None \<Rightarrow> Inr (None, c)
       | Some next_row \<Rightarrow>
           map_sum id (\<lambda>(rows, c'). (first_row rows, c'))
             (update_verifications (\<lambda>v. vr_id v = vr_id next_row \<and> vr_status v = Item_queued)
               (\<lambda>v. v\<lparr>vr_status := Item_running, vr_workerExecutionId := Some execution,
                 vr_claimToken := Some token, vr_claimedAt := Some timestamp,
                 vr_startedAt := Some timestamp, vr_updatedAt := timestamp\<rparr>) c)))"

definition verification_held :: "verification_row \<Rightarrow> string \<Rightarrow> verification_row \<Rightarrow> bool" where
  "verification_held claim token v \<longleftrightarrow>
     vr_id v = vr_id claim \<and> vr_status v = Item_running \<and> vr_claimToken v = Some token"

definition renew_verification_claim ::
  "verification_row \<Rightarrow> int \<Rightarrow> recovery_store \<Rightarrow> bool recovery_transaction" where
  "renew_verification_claim claim timestamp c =
     (case vr_claimToken claim of
        None \<Rightarrow> Inr (False, c)
      | Some token \<Rightarrow>
          (case find (verification_held claim token) (rs_verifications c) of
             None \<Rightarrow> Inr (False, c)
           | Some current \<Rightarrow>
               if \<not> eligible_attempt c current then Inr (False, c)
               else map_sum id (\<lambda>(rows, c'). (rows \<noteq> [], c'))
                 (update_verifications (verification_held claim token)
                   (\<lambda>v. v\<lparr>vr_claimedAt := Some timestamp, vr_updatedAt := timestamp\<rparr>) c)))"

section \<open>Reading\<close>

definition admit_verification_read ::
  "verification_row \<Rightarrow> device_identity \<Rightarrow> int \<Rightarrow> int \<Rightarrow> recovery_store \<Rightarrow> bool recovery_transaction" where
  "admit_verification_read claim identity timestamp admitted_time c =
     (case vr_claimToken claim of
        None \<Rightarrow> Inr (False, c)
      | Some token \<Rightarrow>
          (case find (verification_held claim token) (rs_verifications c) of
             None \<Rightarrow> Inr (False, c)
           | Some current \<Rightarrow>
               let inspection = find_inspection c (vs_discInspectionId current) in
               case drive_of_inspection c inspection of
                 None \<Rightarrow> Inr (False, c)
               | Some d \<Rightarrow>
                   if vr_status claim \<noteq> Item_running \<or> \<not> eligible_attempt c current
                      \<or> \<not> dvdDiscVerificationInsertionIsCurrent current inspection
                      \<or> \<not> od_isPresent d \<or> \<not> od_isEnabled d
                   then Inr (False, c)
                   else
                     and_then (update_verifications (verification_held claim token)
                       (\<lambda>v. v\<lparr>vr_claimedAt := Some timestamp, vr_updatedAt := timestamp\<rparr>) c) (\<lambda>(renewed, c1).
                       if renewed = [] then Inr (False, c1)
                       else
                         and_then (invariant_if (devicePath identity \<noteq> od_devicePath d
                             \<or> \<not> is_decimal (deviceId identity) \<or> \<not> is_decimal (device_inode identity))
                           ''DVD Disc Verification source device identity is invalid'') (\<lambda>_.
                         and_then (update_verifications (verification_held claim token)
                           (\<lambda>v. v\<lparr>vr_admittedDevicePath := Some (devicePath identity),
                             vr_admittedDeviceId := Some (deviceId identity),
                             vr_admittedDeviceInode := Some (device_inode identity),
                             vr_updatedAt := admitted_time\<rparr>) c1) (\<lambda>(rows, c2).
                         map_sum id (\<lambda>_. (True, c2))
                           (requireRow (first_row rows) ''DVD Disc Verification'' (vr_id claim)))))))"

definition stale_verification :: "verification_row \<Rightarrow> js_error" where
  "stale_verification claim = StaleJobAttemptError ''DVD Disc Verification'' (vr_id claim)"

text \<open>The verification that a claim still holds for the current attempt.\<close>

definition require_held_verification ::
  "verification_row \<Rightarrow> recovery_store \<Rightarrow> (string \<times> verification_row) result" where
  "require_held_verification claim c =
     (case (vr_claimToken claim, find_verification c (vr_id claim)) of
        (Some token, Some current) \<Rightarrow>
          if vr_status claim \<noteq> Item_running \<or> vr_status current \<noteq> Item_running
             \<or> vr_claimToken current \<noteq> Some token \<or> \<not> eligible_attempt c current
          then Inl (stale_verification claim) else Inr (token, current)
      | _ \<Rightarrow> Inl (stale_verification claim))"

definition must_update_verification ::
  "verification_row \<Rightarrow> string \<Rightarrow> (verification_row \<Rightarrow> verification_row) \<Rightarrow> recovery_store
     \<Rightarrow> verification_row recovery_transaction" where
  "must_update_verification claim token f c =
     and_then (update_verifications (verification_held claim token) f c) (\<lambda>(rows, c').
       map_sum id (\<lambda>v. (v, c')) (requireRow (first_row rows) ''DVD Disc Verification'' (vr_id claim)))"

definition append_finding ::
  "(string \<Rightarrow> string) \<Rightarrow> verification_row \<Rightarrow> sample_finding \<Rightarrow> int \<Rightarrow> recovery_store
     \<Rightarrow> disc_verification recovery_transaction" where
  "append_finding sha256 claim finding timestamp c =
     and_then (require_held_verification claim c) (\<lambda>(token, current).
     and_then (readDvdDiscVerificationEvidence sha256 c current) (\<lambda>(_, manifest).
     let findings = vr_findings current @ [finding] in
     and_then (validateDvdDiscVerificationFindings manifest findings) (\<lambda>_.
       map_sum id (\<lambda>(v, c'). (toDvdDiscVerification v, c'))
         (must_update_verification claim token
           (\<lambda>v. v\<lparr>vr_findings := findings, vr_claimedAt := Some timestamp, vr_updatedAt := timestamp\<rparr>) c))))"

section \<open>Results\<close>

text \<open>Findings are compared by their canonical text.\<close>

definition findings_text :: "sample_finding list \<Rightarrow> string" where
  "findings_text findings = canonicalJson (JArray (map finding_json findings))"

definition complete_verification ::
  "(string \<Rightarrow> string) \<Rightarrow> verification_row \<Rightarrow> verification_terminal \<Rightarrow> int \<Rightarrow> string \<Rightarrow> recovery_store
     \<Rightarrow> disc_verification recovery_transaction" where
  "complete_verification sha256 claim terminal timestamp i c =
     and_then (require_held_verification claim c) (\<lambda>(token, current).
     and_then (invariant_if (findings_text (vr_findings current) \<noteq> findings_text (te_findings terminal))
       ''DVD Disc Verification findings were not durably recorded'') (\<lambda>_.
     and_then (evaluatePersistedDvdDiscVerification sha256 c current terminal) (\<lambda>evaluated.
     and_then (must_update_verification claim token
       (\<lambda>v. (complete_evaluated evaluated timestamp v)\<lparr>vr_findings := te_findings terminal,
         vr_budgetExhausted := te_budgetExhausted terminal\<rparr>) c) (\<lambda>(completed, c1).
       map_sum id (Pair (toDvdDiscVerification completed))
         (settleGeneratedContinuationVerification completed (Some evaluated) i timestamp c1)))))"

definition fail_verification ::
  "verification_row \<Rightarrow> int \<Rightarrow> string \<Rightarrow> recovery_store \<Rightarrow> disc_verification option recovery_transaction" where
  "fail_verification claim timestamp i c =
     (case vr_claimToken claim of
        None \<Rightarrow> Inr (None, c)
      | Some token \<Rightarrow>
          and_then (update_verifications (verification_held claim token)
            (\<lambda>v. v\<lparr>vr_status := Item_failed, vr_claimToken := None, vr_claimedAt := None,
              vr_completedAt := Some timestamp, vr_failureCode := Some ''DISC_VERIFICATION_UNAVAILABLE'',
              vr_updatedAt := timestamp\<rparr>) c) (\<lambda>(rows, c1).
            case first_row rows of
              None \<Rightarrow> Inr (None, c1)
            | Some v \<Rightarrow> map_sum id (Pair (Some (toDvdDiscVerification v)))
                (settleGeneratedContinuationVerification v None i timestamp c1)))"

section \<open>Confirmations\<close>

record confirmation_input =
  ci_mutationKey :: string
  ci_archiveRecoveryId :: string
  ci_originalDiscArchiveId :: string
  ci_archiveRecoveryAttemptId :: string
  ci_discInspectionId :: string
  ci_detectedDiscId :: string
  ci_mediaGeneration :: string
  ci_verificationId :: string
  ci_verificationWorkerExecutionId :: string
  ci_verificationOutcome :: string
  ci_verificationResultDigest :: string
  ci_checkpointRevision :: int
  ci_checkpointDigest :: string
  ci_acknowledgeMixedSource :: bool

definition dvdDiscConfirmationSemanticInput :: "confirmation_input \<Rightarrow> string" where
  "dvdDiscConfirmationSemanticInput input = canonicalJson (JObject
     [(''archiveRecoveryId'', JString (ci_archiveRecoveryId input)),
      (''originalDiscArchiveId'', JString (ci_originalDiscArchiveId input)),
      (''archiveRecoveryAttemptId'', JString (ci_archiveRecoveryAttemptId input)),
      (''discInspectionId'', JString (ci_discInspectionId input)),
      (''detectedDiscId'', JString (ci_detectedDiscId input)),
      (''mediaGeneration'', JString (ci_mediaGeneration input)),
      (''verificationId'', JString (ci_verificationId input)),
      (''verificationWorkerExecutionId'', JString (ci_verificationWorkerExecutionId input)),
      (''verificationOutcome'', JString (ci_verificationOutcome input)),
      (''verificationResultDigest'', JString (ci_verificationResultDigest input)),
      (''checkpointRevision'', JInt (ci_checkpointRevision input)),
      (''checkpointDigest'', JString (ci_checkpointDigest input)),
      (''acknowledgeMixedSource'', JBool (ci_acknowledgeMixedSource input))])"

definition confirmation_operation :: string where
  "confirmation_operation = ''dvd_disc_confirmation.record''"

definition confirmation_receipt :: "recovery_receipt \<Rightarrow> confirmation_row result" where
  "confirmation_receipt receipt =
     (case receipt of Confirmation_receipt f \<Rightarrow> Inr f | _ \<Rightarrow> Inl mutation_key_conflict)"

definition replay_confirmation :: "recovery_store \<Rightarrow> confirmation_input \<Rightarrow> disc_confirmation option result" where
  "replay_confirmation c input =
     and_then (readMutationInvocation c (ci_mutationKey input) confirmation_operation
       (dvdDiscConfirmationSemanticInput input)) (\<lambda>replay.
       case replay of
         None \<Rightarrow> Inr None
       | Some receipt \<Rightarrow> map_sum id (Some \<circ> toDvdDiscConfirmation) (confirmation_receipt receipt))"

definition reviewed_result_digest ::
  "(string \<Rightarrow> string) \<Rightarrow> verification_row option \<Rightarrow> string option result" where
  "reviewed_result_digest sha256 verification =
     (case verification of
        None \<Rightarrow> Inr None
      | Some v \<Rightarrow>
          if vr_status v \<noteq> Item_completed \<or> vr_outcome v = None \<or> vr_workerExecutionId v = None
             \<or> vs_archiveRecoveryAttemptId v = None
          then Inr None
          else map_sum id Some
            (createDvdDiscVerificationResultDigest sha256 (toDvdDiscVerification v)))"

definition reviewed_verification ::
  "recovery_row \<Rightarrow> verification_row option \<Rightarrow> confirmation_input \<Rightarrow> verification_row \<Rightarrow> bool" where
  "reviewed_verification r latest input v \<longleftrightarrow>
     map_option vr_id latest = Some (vr_id v)
   \<and> vs_archiveRecoveryId v = rec_id r
   \<and> vs_archiveRecoveryAttemptId v = Some (rec_attemptId r)
   \<and> vs_archiveRecoveryAttemptId v = Some (ci_archiveRecoveryAttemptId input)
   \<and> vs_originalDiscArchiveId v = rec_originalDiscArchiveId r
   \<and> vr_id v = ci_verificationId input
   \<and> map_option verification_outcome_text (vr_outcome v) = Some (ci_verificationOutcome input)
   \<and> vr_status v = Item_completed"

definition reviewed_insertion ::
  "inspection_row option \<Rightarrow> confirmation_input \<Rightarrow> verification_row \<Rightarrow> bool" where
  "reviewed_insertion inspection input v \<longleftrightarrow>
     dvdDiscVerificationInsertionIsCurrent v inspection
   \<and> vs_discInspectionId v = ci_discInspectionId input
   \<and> vs_detectedDiscId v = ci_detectedDiscId input
   \<and> vs_mediaGeneration v = ci_mediaGeneration input"

text \<open>The codes of what changed since the preview, in the order in which they are tested.\<close>

definition confirmation_stale_reasons ::
  "recovery_store \<Rightarrow> recovery_row \<Rightarrow> verification_row option \<Rightarrow> string option
     \<Rightarrow> confirmation_input \<Rightarrow> string list" where
  "confirmation_stale_reasons c r verification result_digest input =
     (let holds = (\<lambda>P. case verification of None \<Rightarrow> False | Some v \<Rightarrow> P v);
          inspection = Option.bind verification (\<lambda>v. find_inspection c (vs_discInspectionId v)) in
      map fst (filter snd
        [(''RECOVERY_ATTEMPT_CHANGED'',
          rec_originalDiscArchiveId r \<noteq> ci_originalDiscArchiveId input
          \<or> rec_attemptId r \<noteq> ci_archiveRecoveryAttemptId input),
         (''DISC_CHECKPOINT_CHANGED'',
          \<not> dvdDiscVerificationCheckpointIsCurrent (ci_checkpointRevision input)
              (ci_checkpointDigest input) (find_header c (rec_originalDiscArchiveId r))
          \<or> \<not> holds (\<lambda>v. vs_checkpointRevision v = ci_checkpointRevision input
              \<and> vs_checkpointDigest v = ci_checkpointDigest input)),
         (''DISC_VERIFICATION_CHANGED'',
          \<not> holds (reviewed_verification r (latest_verification c (rec_id r)) input)),
         (''WORKER_EXECUTION_CHANGED'',
          \<not> holds (\<lambda>v. vr_workerExecutionId v = Some (ci_verificationWorkerExecutionId input))),
         (''DISC_VERIFICATION_RESULT_CHANGED'',
          result_digest \<noteq> Some (ci_verificationResultDigest input)),
         (''DISC_INSERTION_CHANGED'',
          \<not> holds (reviewed_insertion inspection input))]))"

definition stale_confirmation :: js_error where
  "stale_confirmation =
     DomainInvariantError ''DVD Disc Confirmation preview is no longer current.''"

definition waiting_resume_confirmation :: "recovery_record \<Rightarrow> confirmation_input \<Rightarrow> bool" where
  "waiting_resume_confirmation recovery input \<longleftrightarrow>
     rec_status (fst recovery) = Waiting_for_disc
   \<and> rec_resumeOperationId (fst recovery) \<noteq> None
   \<and> (case snd recovery of None \<Rightarrow> False
      | Some w \<Rightarrow> work_status w = Requested \<and> work_verificationId w = Some (ci_verificationId input))"

definition confirmation_of_input ::
  "recovery_row \<Rightarrow> confirmation_input \<Rightarrow> string \<Rightarrow> int \<Rightarrow> confirmation_row" where
  "confirmation_of_input r input i timestamp =
     \<lparr>conf_id = i, conf_archiveRecoveryId = rec_id r,
      conf_archiveRecoveryAttemptId = rec_attemptId r,
      conf_originalDiscArchiveId = rec_originalDiscArchiveId r,
      conf_verificationId = ci_verificationId input,
      conf_discInspectionId = ci_discInspectionId input,
      conf_detectedDiscId = ci_detectedDiscId input,
      conf_mediaGeneration = ci_mediaGeneration input,
      conf_verificationWorkerExecutionId = ci_verificationWorkerExecutionId input,
      conf_verificationOutcome = ci_verificationOutcome input,
      conf_verificationResultDigest = ci_verificationResultDigest input,
      conf_checkpointRevision = ci_checkpointRevision input,
      conf_checkpointDigest = ci_checkpointDigest input,
      conf_acknowledgedMixedSource = True, conf_expiredAt = None,
      conf_expiryReason = None, conf_createdAt = timestamp\<rparr>"

text \<open>Where a resume waits for the confirmation, it binds the work and makes the recovery eligible.\<close>

definition bind_confirmation ::
  "recovery_row \<Rightarrow> confirmation_input \<Rightarrow> string \<Rightarrow> int \<Rightarrow> recovery_store \<Rightarrow> recovery_store result" where
  "bind_confirmation r input i timestamp c =
     and_then (must_update_work (rec_id r)
       (\<lambda>w. work_archiveRecoveryId w = rec_id r \<and> work_attemptId w = rec_attemptId r
          \<and> work_status w = Requested \<and> work_verificationId w = Some (ci_verificationId input))
       (\<lambda>w. w\<lparr>work_discConfirmationId := Some i, work_updatedAt := timestamp\<rparr>) c) (\<lambda>(_, c1).
       map_sum id snd (must_update_recovery (rec_id r) (attempt_in r [Waiting_for_disc])
         (\<lambda>s. s\<lparr>rec_status := Eligible, rec_updatedAt := timestamp\<rparr>) c1))"

definition record_confirmation ::
  "(string \<Rightarrow> string) \<Rightarrow> confirmation_input \<Rightarrow> int \<Rightarrow> string \<Rightarrow> recovery_store
     \<Rightarrow> disc_confirmation recovery_transaction" where
  "record_confirmation sha256 input timestamp i c =
     and_then (replay_confirmation c input) (\<lambda>replay.
     case replay of
       Some confirmation \<Rightarrow> Inr (confirmation, c)
     | None \<Rightarrow>
         and_then (invariant_if (\<not> ci_acknowledgeMixedSource input)
           ''Mixed-source risk must be explicitly acknowledged'') (\<lambda>_.
         and_then (requireRecoveryStorage c) (\<lambda>_.
         and_then (requireRow (findRecovery c (ci_archiveRecoveryId input))
           ''archive recovery'' (ci_archiveRecoveryId input)) (\<lambda>(r, work).
         let waiting = waiting_resume_confirmation (r, work) input in
         and_then (reject_if (rec_status r \<noteq> Eligible \<and> \<not> waiting)
           (InvalidStatusTransitionError ''archive recovery'' (recovery_status_text (rec_status r))
             ''DVD Disc Confirmation'')) (\<lambda>_.
         and_then (requireRow (find (\<lambda>a. arc_id a = rec_originalDiscArchiveId r) (rs_archives c))
           ''original disc archive'' (rec_originalDiscArchiveId r)) (\<lambda>_.
         let verification = find_verification c (ci_verificationId input) in
         and_then (reviewed_result_digest sha256 verification) (\<lambda>result_digest.
         and_then (reviewed_result_digest sha256 (latest_verification c (rec_id r))) (\<lambda>_.
         and_then (reject_if (confirmation_stale_reasons c r verification result_digest input \<noteq> [])
           stale_confirmation) (\<lambda>_.
         and_then (requireNoActiveEncodeWork c (r, work)) (\<lambda>_.
         let existing = find (\<lambda>f. conf_verificationId f = ci_verificationId input) (rs_confirmations c) in
         and_then (reject_if (case existing of None \<Rightarrow> False | Some f \<Rightarrow> conf_expiredAt f \<noteq> None)
           stale_confirmation) (\<lambda>_.
         and_then (case existing of
             Some f \<Rightarrow> Inr (f, c)
           | None \<Rightarrow> insert_confirmation (confirmation_of_input r input i timestamp) c) (\<lambda>(f, c1).
         and_then (if waiting then bind_confirmation r input (conf_id f) timestamp c1 else Inr c1) (\<lambda>c2.
           map_sum id (Pair (toDvdDiscConfirmation f))
             (recordMutationInvocation (ci_mutationKey input) confirmation_operation
               (dvdDiscConfirmationSemanticInput input) (Confirmation_receipt f) c2))))))))))))))"

definition list_confirmations :: "recovery_store \<Rightarrow> string \<Rightarrow> disc_confirmation list" where
  "list_confirmations c archiveRecoveryId =
     map toDvdDiscConfirmation (sort_key (\<lambda>f. (conf_createdAt f, conf_id f))
       (filter (\<lambda>f. conf_archiveRecoveryId f = archiveRecoveryId) (rs_confirmations c)))"

definition expire_confirmation ::
  "string \<Rightarrow> string \<Rightarrow> int \<Rightarrow> recovery_store \<Rightarrow> bool recovery_transaction" where
  "expire_confirmation i reason timestamp c =
     map_sum id (\<lambda>(rows, c'). (rows \<noteq> [], c'))
       (update_confirmations (\<lambda>f. conf_id f = i \<and> conf_expiredAt f = None)
         (\<lambda>f. f\<lparr>conf_expiredAt := Some timestamp, conf_expiryReason := Some reason\<rparr>) c)"

section \<open>Properties\<close>

lemma evaluated_match:
  assumes "evaluatePersistedDvdDiscVerification sha256 c v terminal = Inr (Match, reasons)"
  obtains m where "storedSampleManifest sha256 c (vs_originalDiscArchiveId v) = Inr (Some m)"
    and "int (length (sm_samples m)) = DVD_SOURCE_SAMPLE_BAND_COUNT"
    and "list_all2 sample_confirmed (sm_samples m) (te_findings terminal)"
    and "vs_sourceMetadataFingerprint v = vs_observedMetadataFingerprint v"
    and "sm_sourceMetadataFingerprint m = vs_sourceMetadataFingerprint v"
    and "dvdDiscVerificationInsertionIsCurrent v (find_inspection c (vs_discInspectionId v))"
    and "dvdDiscVerificationCheckpointIsCurrent (vs_checkpointRevision v) (vs_checkpointDigest v)
      (find_header c (vs_originalDiscArchiveId v))"
    and "\<not> te_interrupted terminal" and "\<not> te_budgetExhausted terminal"
proof -
  let ?header = "find_header c (vs_originalDiscArchiveId v)"
  from assms obtain manifest input where
    stored: "storedSampleManifest sha256 c (vs_originalDiscArchiveId v) = Inr manifest"
    and bound: "validateDvdDiscVerificationManifestBinding manifest (vs_sourceMetadataFingerprint v) ?header
      = Inr ()"
    and valid: "validateDvdDiscVerificationFindings manifest (te_findings terminal) = Inr ()"
    and input: "input = \<lparr>oi_metadataMatches = (vs_sourceMetadataFingerprint v = vs_observedMetadataFingerprint v),
          oi_manifestUnavailable = (manifest = None),
          oi_coverageComplete = (case manifest of
              None \<Rightarrow> False
            | Some m \<Rightarrow> int (length (sm_samples m)) = DVD_SOURCE_SAMPLE_BAND_COUNT
                \<and> length (te_findings terminal) = length (sm_samples m)),
          oi_budgetExhausted = te_budgetExhausted terminal,
          oi_interrupted = te_interrupted terminal,
          oi_insertionChanged = (te_insertionChanged terminal
            \<or> \<not> dvdDiscVerificationInsertionIsCurrent v (find_inspection c (vs_discInspectionId v))),
          oi_checkpointChanged = (te_checkpointChanged terminal
            \<or> \<not> dvdDiscVerificationCheckpointIsCurrent (vs_checkpointRevision v) (vs_checkpointDigest v)
                ?header),
          oi_findings = te_findings terminal\<rparr>"
    and outcome: "dvdDiscVerificationOutcome input = (Match, reasons)"
    by (auto simp: evaluatePersistedDvdDiscVerification_def readDvdDiscVerificationEvidence_def
        result_simps Let_def)
  from outcome outcome_match_iff [of input] input have good:
    "vs_sourceMetadataFingerprint v = vs_observedMetadataFingerprint v" "manifest \<noteq> None"
    "case manifest of None \<Rightarrow> False | Some m \<Rightarrow> int (length (sm_samples m)) = DVD_SOURCE_SAMPLE_BAND_COUNT
                \<and> length (te_findings terminal) = length (sm_samples m)"
    "\<not> te_budgetExhausted terminal" "\<not> te_interrupted terminal"
    "dvdDiscVerificationInsertionIsCurrent v (find_inspection c (vs_discInspectionId v))"
    "dvdDiscVerificationCheckpointIsCurrent (vs_checkpointRevision v) (vs_checkpointDigest v) ?header"
    "list_all (\<lambda>f. fd_outcome f = Sample_match) (te_findings terminal)"
    by simp_all
  from good(2) obtain m where m: "manifest = Some m" by blast
  with bound have "sm_sourceMetadataFingerprint m = vs_sourceMetadataFingerprint v"
    by (auto simp: validateDvdDiscVerificationManifestBinding_def require_defs reject_if_def
        split: if_splits option.splits)
  with good m stored validated_findings_confirmed [of m "te_findings terminal"] valid
  show thesis by (intro that [of m]) auto
qed

text \<open>The row that an update under a claim returns is the one that the claim was checked against.\<close>

lemma find_found: "find P xs = Some x \<Longrightarrow> x \<in> set xs \<and> P x"
  by (induction xs) (auto split: if_splits)

lemma find_narrowed:
  assumes "find P xs = Some x" and "Q x" and "\<And>y. Q y \<Longrightarrow> P y"
  shows "\<exists>ys. filter Q xs = x # ys"
  using assms by (induction xs) (auto split: if_splits)

lemma held_verification_updated:
  assumes "require_held_verification claim c = Inr (token, current)"
    and "must_update_verification claim token f c = Inr (v, c')"
  shows "v = f current"
proof -
  from assms(1) have found: "find (\<lambda>v. vr_id v = vr_id claim) (rs_verifications c) = Some current"
    and "vr_status current = Item_running" "vr_claimToken current = Some token"
    by (auto simp: require_held_verification_def find_verification_def split: option.splits if_splits)
  moreover from found have "vr_id current = vr_id claim" by (auto dest: find_found)
  ultimately have "verification_held claim token current" by (simp add: verification_held_def)
  then have "\<exists>ys. filter (verification_held claim token) (rs_verifications c) = current # ys"
    by (rule find_narrowed [OF found]) (simp add: verification_held_def)
  then obtain ys where "filter (verification_held claim token) (rs_verifications c) = current # ys" by blast
  with assms(2) show ?thesis
    by (auto simp: must_update_verification_def update_verifications_def Let_def result_simps split: if_splits)
qed

text \<open>
  C8: A disc that verification matches agrees with the archive.  When the completion of a
  verification, under a claim that is still held, records a match, the archive has a validated
  manifest of sixteen samples and the disc a finding for each, of the same window and with its
  digest; the metadata fingerprint of the disc is the one of the archive; the disc is still the
  one that was inserted and the checkpoint still the one that was to be verified.
\<close>

theorem match_means_every_sample_agreed:
  assumes "complete_verification sha256 claim terminal timestamp i c = Inr (v, c')"
    and "ver_outcome v = Some ''match''"
  shows "\<exists>m. storedSampleManifest sha256 c (ver_originalDiscArchiveId v) = Inr (Some m)
    \<and> length (sm_samples m) = 16
    \<and> list_all2 sample_confirmed (sm_samples m) (te_findings terminal)
    \<and> ver_findings v = map finding_json (te_findings terminal)
    \<and> ver_sourceMetadataFingerprint v = sm_sourceMetadataFingerprint m
    \<and> ver_observedMetadataFingerprint v = sm_sourceMetadataFingerprint m
    \<and> (\<exists>n. find_inspection c (ver_discInspectionId v) = Some n \<and> in_isCurrent n
        \<and> in_detectedDiscId n = Some (ver_detectedDiscId v) \<and> in_mediaGeneration n = ver_mediaGeneration v)
    \<and> (\<exists>h. find_header c (ver_originalDiscArchiveId v) = Some h
        \<and> currentManifestRevision h = ver_checkpointRevision v
        \<and> currentManifestDigest h = ver_checkpointDigest v)
    \<and> (\<exists>r \<in> set (rs_recoveries c). rec_id r = ver_archiveRecoveryId v \<and> rec_status r = Eligible
        \<and> Some (rec_attemptId r) = ver_archiveRecoveryAttemptId v)"
proof -
  from assms(1) obtain token current evaluated completed c1 where
    held: "require_held_verification claim c = Inr (token, current)"
    and evaluated: "evaluatePersistedDvdDiscVerification sha256 c current terminal = Inr evaluated"
    and completed: "must_update_verification claim token
       (\<lambda>v. (complete_evaluated evaluated timestamp v)\<lparr>vr_findings := te_findings terminal,
         vr_budgetExhausted := te_budgetExhausted terminal\<rparr>) c = Inr (completed, c1)"
    and v: "v = toDvdDiscVerification completed"
    by (fastforce simp: complete_verification_def result_simps)
  from held have current: "eligible_attempt c current"
    by (auto simp: require_held_verification_def split: option.splits if_splits)
  have row: "completed = (complete_evaluated evaluated timestamp current)\<lparr>vr_findings := te_findings terminal,
         vr_budgetExhausted := te_budgetExhausted terminal\<rparr>"
    by (rule held_verification_updated [OF held completed])
  with v assms(2) have "fst evaluated = Match"
    by (cases "fst evaluated") (auto simp: toDvdDiscVerification_def complete_evaluated_def)
  with evaluated have "evaluatePersistedDvdDiscVerification sha256 c current terminal
      = Inr (Match, snd evaluated)" by (cases evaluated) simp
  then show ?thesis
  proof (rule evaluated_match)
    fix m
    assume "storedSampleManifest sha256 c (vs_originalDiscArchiveId current) = Inr (Some m)"
      and "int (length (sm_samples m)) = DVD_SOURCE_SAMPLE_BAND_COUNT"
      and "list_all2 sample_confirmed (sm_samples m) (te_findings terminal)"
      and "vs_sourceMetadataFingerprint current = vs_observedMetadataFingerprint current"
      and "sm_sourceMetadataFingerprint m = vs_sourceMetadataFingerprint current"
      and "dvdDiscVerificationInsertionIsCurrent current (find_inspection c (vs_discInspectionId current))"
      and "dvdDiscVerificationCheckpointIsCurrent (vs_checkpointRevision current)
        (vs_checkpointDigest current) (find_header c (vs_originalDiscArchiveId current))"
    with v row current show ?thesis
      by (intro exI [of _ m])
        (auto simp: toDvdDiscVerification_def complete_evaluated_def DVD_SOURCE_SAMPLE_BAND_COUNT_def
          dvdDiscVerificationInsertionIsCurrent_def dvdDiscVerificationCheckpointIsCurrent_def
          eligible_attempt_def find_Some_iff split: option.splits)
  qed
qed

definition example_terminal :: verification_terminal where
  "example_terminal =
     \<lparr>te_budgetExhausted = False, te_checkpointChanged = False, te_findings = example_findings,
      te_insertionChanged = False, te_interrupted = False\<rparr>"

definition example_completed :: verification_row where
  "example_completed = (complete_evaluated (Match, []) 9 example_running_verification)
     \<lparr>vr_findings := te_findings example_terminal,
      vr_budgetExhausted := te_budgetExhausted example_terminal\<rparr>"

lemma example_evaluated:
  "evaluatePersistedDvdDiscVerification constant_hash example_store example_running_verification
     example_terminal = Inr (Match, [])"
  by code_simp

lemma example_held:
  "require_held_verification example_running_verification example_store
     = Inr (''k'', example_running_verification)"
  by code_simp

lemma example_updated:
  "must_update_verification example_running_verification ''k''
     (\<lambda>v. (complete_evaluated (Match, []) 9 v)\<lparr>vr_findings := te_findings example_terminal,
        vr_budgetExhausted := te_budgetExhausted example_terminal\<rparr>) example_store
   = Inr (example_completed, example_store\<lparr>rs_verifications := [example_completed]\<rparr>)"
  by code_simp

lemma example_completes:
  "complete_verification constant_hash example_running_verification example_terminal 9 ''n'' example_store
   = Inr (toDvdDiscVerification example_completed,
       example_store\<lparr>rs_verifications := [example_completed]\<rparr>)"
proof -
  have "vr_findings example_running_verification = te_findings example_terminal"
    by (simp add: example_running_verification_def example_terminal_def)
  moreover have "settleGeneratedContinuationVerification example_completed (Some (Match, [])) ''n'' 9
      (example_store\<lparr>rs_verifications := [example_completed]\<rparr>)
      = Inr (example_store\<lparr>rs_verifications := [example_completed]\<rparr>)"
    by (simp add: settleGeneratedContinuationVerification_def findArchiveRecoveryRecord_def
        example_store_def)
  ultimately show ?thesis
    by (simp add: complete_verification_def example_held example_evaluated example_updated require_defs
        reject_if_def)
qed

theorem match_means_every_sample_agreed_witness:
  "\<exists>m. storedSampleManifest constant_hash example_store ''a'' = Inr (Some m)
    \<and> length (sm_samples m) = 16 \<and> list_all2 sample_confirmed (sm_samples m) example_findings"
proof -
  have "ver_outcome (toDvdDiscVerification example_completed) = Some ''match''"
    by (simp add: toDvdDiscVerification_def example_completed_def complete_evaluated_def)
  from match_means_every_sample_agreed [OF example_completes this] show ?thesis
    by (auto simp: toDvdDiscVerification_def example_completed_def complete_evaluated_def
        example_terminal_def example_running_verification_def queued_verification_def example_subject_def)
qed

end
