(* ===== verification/RecoveryPass.thy ===== *)
theory RecoveryPass
  imports RecoveryWork
begin

text \<open>
  The sectors a recovery pass reads: \<open>recoveryPassSectorLbas\<close> of
  \<open>apps/archive-worker/src/dvd-recovery-worker.ts\<close>.  A pass goes once over the map of Unrecovered
  Source, forward or in reverse; each read is committed to the map, with its sector as the cursor
  of the pass, before the next.  The worker may be interrupted after any commit, and then the pass
  goes on from the durable cursor over the map as it is by then.  The lemmas show that it goes on
  with exactly the sectors it has not read yet, and that passes come to an end.
\<close>

section \<open>The generator\<close>

text \<open>The inner loops, upwards to an end and downwards to a start.\<close>

function forward_lbas :: "int \<Rightarrow> int \<Rightarrow> int list" where
  "forward_lbas lba endLbaExclusive =
     (if lba < endLbaExclusive then lba # forward_lbas (lba + 1) endLbaExclusive else [])"
  by auto
termination
  by (relation "measure (\<lambda>(lba, endLbaExclusive). nat (endLbaExclusive - lba))") auto

function backward_lbas :: "int \<Rightarrow> int \<Rightarrow> int list" where
  "backward_lbas lba start = (if start \<le> lba then lba # backward_lbas (lba - 1) start else [])"
  by auto
termination
  by (relation "measure (\<lambda>(lba, start). nat (lba + 1 - start))") auto

declare forward_lbas.simps [simp del] backward_lbas.simps [simp del]

definition recoveryPassSectorLbas ::
  "recovery_pass_direction \<Rightarrow> int option \<Rightarrow> 'a unreadable_sector_range_scheme list \<Rightarrow> int list" where
  "recoveryPassSectorLbas direction cursorLba ranges =
     (case direction of
        Forward \<Rightarrow>
          let firstUnattemptedLba = (case cursorLba of None \<Rightarrow> 0 | Some lba \<Rightarrow> lba + 1) in
          concat (map (\<lambda>range. forward_lbas (max (startLba range) firstUnattemptedLba)
            (startLba range + sectorCount range)) ranges)
      | Reverse \<Rightarrow>
          concat (map (\<lambda>range. let endLbaExclusive = startLba range + sectorCount range in
            backward_lbas (min endLbaExclusive
                (case cursorLba of None \<Rightarrow> endLbaExclusive | Some lba \<Rightarrow> lba) - 1) (startLba range))
            (rev ranges)))"

section \<open>What it yields\<close>

text \<open>The order of a pass, and the sectors still ahead of a cursor.\<close>

fun pass_before :: "recovery_pass_direction \<Rightarrow> int \<Rightarrow> int \<Rightarrow> bool" where
  "pass_before Forward x y \<longleftrightarrow> x < y"
| "pass_before Reverse x y \<longleftrightarrow> y < x"

definition ahead :: "recovery_pass_direction \<Rightarrow> int option \<Rightarrow> int \<Rightarrow> bool" where
  "ahead direction cursorLba x \<longleftrightarrow>
     (case cursorLba of None \<Rightarrow> True | Some lba \<Rightarrow> pass_before direction lba x)"

lemma pass_before_rel: "pass_before Forward = (<)" "pass_before Reverse = (>)"
  by (auto simp: fun_eq_iff)

lemma pass_before_trans: "pass_before d x y \<Longrightarrow> pass_before d y z \<Longrightarrow> pass_before d x z"
  by (cases d) auto

lemma pass_before_irrefl [simp]: "\<not> pass_before d x x"
  by (cases d) auto

lemma ahead_after: "ahead d cursor x \<Longrightarrow> pass_before d x y \<Longrightarrow> ahead d cursor y"
  by (auto simp: ahead_def intro: pass_before_trans split: option.splits)

lemma forward_lbas_list:
  "set (forward_lbas lba e) = {lba ..< e} \<and> sorted_wrt (<) (forward_lbas lba e)"
proof (induction lba e rule: forward_lbas.induct)
  case (1 lba e)
  then show ?case by (subst (1 2) forward_lbas.simps) auto
qed

lemma backward_lbas_list:
  "set (backward_lbas lba s) = {s .. lba} \<and> sorted_wrt (>) (backward_lbas lba s)"
proof (induction lba s rule: backward_lbas.induct)
  case (1 lba s)
  then show ?case by (subst (1 2) backward_lbas.simps) auto
qed

lemma pass_set:
  assumes "\<forall>r \<in> set rs. proper_range r"
  shows "set (recoveryPassSectorLbas d cursor rs) = {x \<in> covered rs. ahead d cursor x}"
  using assms
  by (cases d; cases cursor)
    (auto simp: recoveryPassSectorLbas_def Let_def forward_lbas_list backward_lbas_list covered_def
      mem_lbas rangeEnd_def ahead_def proper_range_def)

lemma sorted_wrt_concat:
  assumes "\<And>xs. xs \<in> set xss \<Longrightarrow> sorted_wrt R xs"
    and "sorted_wrt (\<lambda>xs ys. \<forall>x \<in> set xs. \<forall>y \<in> set ys. R x y) xss"
  shows "sorted_wrt R (concat xss)"
  using assms by (induction xss) (auto simp: sorted_wrt_append)

lemma pass_sorted:
  assumes "ascending rs"
  shows "sorted_wrt (pass_before d) (recoveryPassSectorLbas d cursor rs)"
proof (cases d)
  case Forward
  from assms have "sorted_wrt (\<lambda>a b. rangeEnd a \<le> startLba b) rs" by (simp add: ascending_def)
  then have "sorted_wrt (\<lambda>a b. \<forall>x \<in> set (forward_lbas (max (startLba a) k) (startLba a + sectorCount a)).
      \<forall>y \<in> set (forward_lbas (max (startLba b) k) (startLba b + sectorCount b)). x < y) rs" for k
    by (rule sorted_wrt_mono_rel [rotated]) (auto simp: forward_lbas_list rangeEnd_def)
  with Forward show ?thesis
    by (auto simp: recoveryPassSectorLbas_def Let_def sorted_wrt_map forward_lbas_list pass_before_rel
        intro!: sorted_wrt_concat)
next
  case Reverse
  let ?list = "\<lambda>r. backward_lbas (min (startLba r + sectorCount r)
      (case cursor of None \<Rightarrow> startLba r + sectorCount r | Some lba \<Rightarrow> lba) - 1) (startLba r)"
  from assms have "sorted_wrt (\<lambda>a b. rangeEnd a \<le> startLba b) rs" by (simp add: ascending_def)
  then have "sorted_wrt (\<lambda>a b. \<forall>y \<in> set (?list a). \<forall>x \<in> set (?list b). x > y) rs"
    by (rule sorted_wrt_mono_rel [rotated]) (auto simp: backward_lbas_list rangeEnd_def)
  then have "sorted_wrt (\<lambda>a b. \<forall>x \<in> set (?list a). \<forall>y \<in> set (?list b). x > y) (rev rs)"
    by (auto simp: sorted_wrt_rev elim!: sorted_wrt_mono_rel [rotated])
  with Reverse show ?thesis
    by (auto simp: recoveryPassSectorLbas_def Let_def sorted_wrt_map backward_lbas_list pass_before_rel
        intro!: sorted_wrt_concat)
qed

lemma pass_before_unique:
  assumes "sorted_wrt (pass_before d) xs" and "sorted_wrt (pass_before d) ys" and "set xs = set ys"
  shows "xs = ys"
proof (cases d)
  case Forward
  with assms show ?thesis by (auto simp: pass_before_rel intro: strict_sorted_equal)
next
  case Reverse
  with assms have "sorted_wrt (<) (rev xs)" "sorted_wrt (<) (rev ys)" "set (rev xs) = set (rev ys)"
    by (auto simp: sorted_wrt_rev pass_before_rel)
  then have "rev xs = rev ys" using strict_sorted_equal [of "rev xs" "rev ys"] by simp
  then show ?thesis by simp
qed

lemma pass_distinct: "ascending rs \<Longrightarrow> distinct (recoveryPassSectorLbas d cursor rs)"
  by (rule sorted_wrt_distinct [OF pass_sorted]) auto

lemma pass_length:
  assumes "canonical rs"
  shows "int (length (recoveryPassSectorLbas d None rs)) = sectorCount_of rs"
proof -
  have asc: "ascending rs" using assms by (rule canonical_ascending)
  then have "set (recoveryPassSectorLbas d None rs) = covered rs"
    by (simp add: pass_set ascending_def ahead_def)
  with distinct_card [OF pass_distinct [OF asc, of d None]] sectorCount_of_card [of rs] asc
  show ?thesis by simp
qed

section \<open>Interruptions\<close>

text \<open>Reading the next sector leaves the rest of the list to read, on the map after the read.\<close>

lemma pass_after_read:
  assumes "canonical rs" and "recoveryPassSectorLbas d cursor rs = x # xs"
    and "dvdEvidenceRangesAfterRecoveryRead rs x outcome = Inr rs'"
  shows "recoveryPassSectorLbas d (Some x) rs' = xs"
proof (rule pass_before_unique [of d])
  have asc: "ascending rs" "ascending rs'"
    using assms(1) evidence.valid_after [OF assms(1,3)] by (simp_all add: canonical_ascending)
  show "sorted_wrt (pass_before d) (recoveryPassSectorLbas d (Some x) rs')"
    using asc(2) by (rule pass_sorted)
  have sorted: "sorted_wrt (pass_before d) (x # xs)"
    using pass_sorted [OF asc(1), of d cursor] assms(2) by simp
  then show "sorted_wrt (pass_before d) xs" by simp
  have covered': "y \<in> covered rs' \<longleftrightarrow> y \<in> covered rs" if "y \<noteq> x" for y
    using evidence.at_after [OF assms(1,3)] that by (metis class_at_None fun_upd_other)
  have list: "set (x # xs) = {y \<in> covered rs. ahead d cursor y}"
    using pass_set [of rs d cursor] asc(1) assms(2) by (simp add: ascending_def)
  then have "ahead d cursor x" by auto
  have "y \<in> set xs \<longleftrightarrow> y \<in> covered rs' \<and> pass_before d x y" for y
  proof
    assume y: "y \<in> set xs"
    with sorted have "pass_before d x y" by simp
    moreover from this have "y \<noteq> x" by auto
    moreover have "y \<in> covered rs" using y list by auto
    ultimately show "y \<in> covered rs' \<and> pass_before d x y" using covered' by blast
  next
    assume y: "y \<in> covered rs' \<and> pass_before d x y"
    then have "y \<noteq> x" by auto
    moreover from y have "ahead d cursor y"
      using \<open>ahead d cursor x\<close> by (auto intro: ahead_after)
    moreover from y covered' \<open>y \<noteq> x\<close> have "y \<in> covered rs" by blast
    ultimately have "y \<noteq> x" and "y \<in> covered rs" and "ahead d cursor y" by simp_all
    then show "y \<in> set xs" using list by auto
  qed
  moreover have "set (recoveryPassSectorLbas d (Some x) rs') = {y \<in> covered rs'. pass_before d x y}"
    using pass_set [of rs' d "Some x"] asc(2) by (simp add: ascending_def ahead_def)
  ultimately show "set (recoveryPassSectorLbas d (Some x) rs') = set xs" by auto
qed

lemma pass_head_unrecovered:
  assumes "canonical rs" and "recoveryPassSectorLbas d cursor rs = x # xs"
  obtains rs' where "dvdEvidenceRangesAfterRecoveryRead rs x outcome = Inr rs'" and "canonical rs'"
    and "class_at rs' = (class_at rs)(x := class_after outcome)"
proof -
  have "x \<in> covered rs"
    using pass_set [of rs d cursor] assms canonical_ascending [OF assms(1)]
    by (auto simp: ascending_def)
  then have "class_at rs x \<noteq> None" by (simp add: class_at_None)
  with assms(1) show thesis by (rule evidence.read_succeeds [OF _ _ that])
qed

text \<open>
  A pass that is interrupted after every read: each read is done on the map and with the cursor
  that the one before left.  What the drive returns for a sector is \<open>outcomes\<close>; the fuel counts
  reads.
\<close>

fun interrupted_pass ::
  "nat \<Rightarrow> recovery_pass_direction \<Rightarrow> int option \<Rightarrow> dvd_unrecovered_source_range list
     \<Rightarrow> (int \<Rightarrow> recovery_read_outcome) \<Rightarrow> (dvd_unrecovered_source_range list \<times> int list) option" where
  "interrupted_pass 0 d cursor rs outcomes = None"
| "interrupted_pass (Suc fuel) d cursor rs outcomes =
     (case recoveryPassSectorLbas d cursor rs of
        [] \<Rightarrow> Some (rs, [])
      | x # _ \<Rightarrow>
          (case dvdEvidenceRangesAfterRecoveryRead rs x (outcomes x) of
             Inl _ \<Rightarrow> None
           | Inr rs' \<Rightarrow> map_option (\<lambda>(out, xs). (out, x # xs))
               (interrupted_pass fuel d (Some x) rs' outcomes)))"

lemma interrupted_pass_result:
  assumes "canonical rs" and "length (recoveryPassSectorLbas d cursor rs) < fuel"
  shows "\<exists>out. interrupted_pass fuel d cursor rs outcomes = Some (out, recoveryPassSectorLbas d cursor rs)
    \<and> canonical out
    \<and> class_at out = (\<lambda>x. if x \<in> set (recoveryPassSectorLbas d cursor rs)
        then class_after (outcomes x) else class_at rs x)
    \<and> sectorCount_of out = sectorCount_of rs
        - int (length (filter (\<lambda>x. outcomes x = Recovered) (recoveryPassSectorLbas d cursor rs)))"
  using assms
proof (induction fuel arbitrary: cursor rs)
  case 0
  then show ?case by simp
next
  case (Suc fuel)
  show ?case
  proof (cases "recoveryPassSectorLbas d cursor rs")
    case Nil
    with Suc.prems show ?thesis by simp
  next
    case (Cons x xs)
    from Suc.prems(1) Cons obtain rs' where
      rs': "dvdEvidenceRangesAfterRecoveryRead rs x (outcomes x) = Inr rs'" "canonical rs'"
        "class_at rs' = (class_at rs)(x := class_after (outcomes x))"
      by (rule pass_head_unrecovered)
    have rest: "recoveryPassSectorLbas d (Some x) rs' = xs"
      by (rule pass_after_read [OF Suc.prems(1) Cons rs'(1)])
    with Suc.IH [OF rs'(2), of "Some x"] Suc.prems(2) Cons obtain out where
      out: "interrupted_pass fuel d (Some x) rs' outcomes = Some (out, xs)" "canonical out"
        "class_at out = (\<lambda>y. if y \<in> set xs then class_after (outcomes y) else class_at rs' y)"
        "sectorCount_of out = sectorCount_of rs' - int (length (filter (\<lambda>x. outcomes x = Recovered) xs))"
      by auto
    have "x \<notin> set xs"
      using pass_distinct [OF canonical_ascending [OF Suc.prems(1)], of d cursor] Cons by simp
    with out Cons rs' sectorCount_after_read [OF Suc.prems(1) rs'(1)] show ?thesis
      by (auto simp: fun_eq_iff)
  qed
qed

section \<open>Passes\<close>

text \<open>
  Passes over one map, as \<open>settlePass\<close> settles them: a pass that recovered something and left
  something is followed by one in the other direction.  The fuel counts passes, each of which gets
  fuel for as many reads as there are sectors; the last argument numbers them for \<open>outcomes\<close>.
\<close>

fun recovery_passes ::
  "nat \<Rightarrow> recovery_pass_direction \<Rightarrow> dvd_unrecovered_source_range list
     \<Rightarrow> (nat \<Rightarrow> int \<Rightarrow> recovery_read_outcome) \<Rightarrow> nat
     \<Rightarrow> (recovery_pass_outcome \<times> dvd_unrecovered_source_range list \<times> nat) option" where
  "recovery_passes 0 d rs outcomes k = None"
| "recovery_passes (Suc fuel) d rs outcomes k =
     (case interrupted_pass (Suc (nat (sectorCount_of rs))) d None rs (outcomes k) of
        None \<Rightarrow> None
      | Some (out, _) \<Rightarrow>
          let outcome = pass_outcome_of (sectorCount_of out) (sectorCount_of rs - sectorCount_of out) in
          if outcome = Productive then recovery_passes fuel (other_direction d) out outcomes (Suc k)
          else Some (outcome, out, Suc k))"

lemma sectorCount_of_canonical_nonneg: "canonical rs \<Longrightarrow> 0 \<le> sectorCount_of rs"
  by (auto simp: sectorCount_of_dom)

lemma sectorCount_of_canonical_0: "canonical rs \<Longrightarrow> sectorCount_of rs = 0 \<longleftrightarrow> rs = []"
  by (rule sectorCount_of_eq_0) (auto simp: canonical_def ascending_def proper_range_def)

lemma pass_reads:
  assumes "canonical rs" and "nat (sectorCount_of rs) < fuel"
  shows "\<exists>out. interrupted_pass fuel d None rs outcomes = Some (out, recoveryPassSectorLbas d None rs)
    \<and> canonical out
    \<and> sectorCount_of out = sectorCount_of rs
        - int (length (filter (\<lambda>x. outcomes x = Recovered) (recoveryPassSectorLbas d None rs)))"
proof -
  have "length (recoveryPassSectorLbas d None rs) < fuel"
    using pass_length [OF assms(1), of d] assms(2) by linarith
  from interrupted_pass_result [OF assms(1) this, of outcomes] show ?thesis by blast
qed

lemma recovery_passes_end:
  assumes "canonical rs" and "nat (sectorCount_of rs) < fuel"
  shows "\<exists>outcome out n. recovery_passes fuel d rs outcomes k = Some (outcome, out, n)
    \<and> canonical out \<and> outcome \<noteq> Productive \<and> (outcome = Pass_completed \<longleftrightarrow> out = [])
    \<and> int n \<le> int k + 1 + sectorCount_of rs - sectorCount_of out"
  using assms
proof (induction fuel arbitrary: d rs k)
  case 0
  then show ?case by simp
next
  case (Suc fuel)
  from pass_reads [OF Suc.prems(1), of "Suc (nat (sectorCount_of rs))" d "outcomes k"] obtain out xs where
    out: "interrupted_pass (Suc (nat (sectorCount_of rs))) d None rs (outcomes k) = Some (out, xs)"
      "canonical out" "sectorCount_of out \<le> sectorCount_of rs"
    by auto
  let ?o = "pass_outcome_of (sectorCount_of out) (sectorCount_of rs - sectorCount_of out)"
  note nonneg = sectorCount_of_canonical_nonneg [OF Suc.prems(1)] sectorCount_of_canonical_nonneg [OF out(2)]
  show ?case
  proof (cases "?o = Productive")
    case True
    then have less: "sectorCount_of out < sectorCount_of rs"
      by (auto simp: pass_outcome_of_def split: if_splits)
    then have "nat (sectorCount_of out) < fuel" using Suc.prems(2) nonneg by linarith
    from Suc.IH [OF out(2) this, of "other_direction d" "Suc k"] obtain r out' n where
      "recovery_passes fuel (other_direction d) out outcomes (Suc k) = Some (r, out', n)"
      "canonical out'" "r \<noteq> Productive" "r = Pass_completed \<longleftrightarrow> out' = []"
      "int n \<le> int (Suc k) + 1 + sectorCount_of out - sectorCount_of out'"
      by blast
    with True out less show ?thesis by auto
  next
    case False
    with out nonneg show ?thesis
      by (auto simp: pass_outcome_of_def sectorCount_of_canonical_0 split: if_splits)
  qed
qed

section \<open>Properties\<close>

text \<open>
  C7: Archive Recovery ends.  Over any canonical map of Unrecovered Source, whatever the drive
  returns for each read of each pass and however often the passes are interrupted, after at most
  one pass more than sectors were recovered the map is empty and the recovery complete, or a whole
  pass recovered nothing and the recovery is paused.
\<close>

theorem recovery_passes_terminate:
  assumes "canonical rs"
  shows "\<exists>outcome out n.
      recovery_passes (Suc (nat (sectorCount_of rs))) d rs outcomes 0 = Some (outcome, out, n)
    \<and> canonical out \<and> outcome \<noteq> Productive \<and> (outcome = Pass_completed \<longleftrightarrow> out = [])
    \<and> int n \<le> 1 + sectorCount_of rs - sectorCount_of out"
  using recovery_passes_end [OF assms, of "Suc (nat (sectorCount_of rs))" d outcomes 0] by simp

definition example_outcomes :: "nat \<Rightarrow> int \<Rightarrow> recovery_read_outcome" where
  "example_outcomes k lba = (if lba \<le> 11 \<or> (k = 1 \<and> lba = 21) then Recovered else Failed)"

theorem recovery_passes_terminate_witness:
  "\<exists>outcome out n. recovery_passes 8 Forward example_map example_outcomes 0 = Some (outcome, out, n)
    \<and> outcome \<noteq> Productive \<and> int n \<le> 8"
proof -
  have "sectorCount_of example_map = 7" by code_simp
  with recovery_passes_terminate [OF canonical_example_map, of Forward example_outcomes] show ?thesis
    by (auto dest: sectorCount_of_canonical_nonneg)
qed

text \<open>
  C9: A pass may be interrupted anywhere.  From any durable cursor, a pass that is broken off after
  each read and taken up again, on the map and with the cursor that the last commit left, reads
  exactly the sectors that the uninterrupted generator yields, in its order: the unrecovered
  sectors ahead of the cursor, each once.  The map afterwards has the outcome of each read, keeps
  the sectors the pass did not come to, and has lost as many sectors as were recovered, which is
  the progress a settlement asks for.
\<close>

theorem interrupted_pass_reads_every_sector_once:
  assumes "canonical rs" and "sectorCount_of rs < int fuel"
  shows "\<exists>out xs. interrupted_pass fuel d cursor rs outcomes = Some (out, xs)
    \<and> xs = recoveryPassSectorLbas d cursor rs
    \<and> set xs = {lba \<in> covered rs. ahead d cursor lba} \<and> sorted_wrt (pass_before d) xs
    \<and> canonical out
    \<and> class_at out = (\<lambda>lba. if lba \<in> set xs then class_after (outcomes lba) else class_at rs lba)
    \<and> sectorCount_of rs - sectorCount_of out = int (length (filter (\<lambda>lba. outcomes lba = Recovered) xs))"
proof -
  have asc: "ascending rs" using assms(1) by (rule canonical_ascending)
  have set_pass: "set (recoveryPassSectorLbas d cursor rs) = {lba \<in> covered rs. ahead d cursor lba}"
    using asc by (simp add: pass_set ascending_def)
  then have "length (recoveryPassSectorLbas d cursor rs) \<le> card (covered rs)"
    using distinct_card [OF pass_distinct [OF asc, of d cursor]]
    by (metis (no_types, lifting) card_mono covered_finite mem_Collect_eq subsetI)
  then have "length (recoveryPassSectorLbas d cursor rs) < fuel"
    using assms(2) sectorCount_of_card [of rs] asc by simp
  from interrupted_pass_result [OF assms(1) this, of outcomes] set_pass pass_sorted [OF asc, of d cursor]
  show ?thesis by auto
qed

theorem interrupted_pass_reads_every_sector_once_witness:
  "\<exists>out xs. interrupted_pass 8 Reverse (Some 14) example_map (example_outcomes 0) = Some (out, xs)
    \<and> xs = [13, 12, 11, 10] \<and> canonical out \<and> sectorCount_of out = 5"
proof -
  have "sectorCount_of example_map < int 8" by code_simp
  moreover have "recoveryPassSectorLbas Reverse (Some 14) example_map = [13, 12, 11, 10]" by code_simp
  moreover have "length (filter (\<lambda>lba. example_outcomes 0 lba = Recovered) [13, 12, 11, 10]) = 2"
    by (simp add: example_outcomes_def)
  moreover have "sectorCount_of example_map = 7" by code_simp
  ultimately show ?thesis
    using interrupted_pass_reads_every_sector_once
      [OF canonical_example_map, of 8 Reverse "Some 14" "example_outcomes 0"] by auto
qed

end
