(* ===== verification/RecoveryEvolution.thy ===== *)
theory RecoveryEvolution
  imports RecoveryWork Reconciliation DiscVerification
begin

text \<open>
  What each transaction of Archive Recovery keeps, over \<open>RecoveryWork\<close>, \<open>Reconciliation\<close> and
  \<open>DiscVerification\<close>: the encode work it leaves alone, the archives it may newly hold and the claim
  tokens it may issue.  One lemma per statement, one rule per construct of a transaction, one lemma
  per operation.
\<close>

section \<open>What every transaction keeps\<close>

text \<open>The archives that recovery work holds, those that encode work uses, and the claim tokens.\<close>

definition held_archives :: "recovery_store \<Rightarrow> string set" where
  "held_archives c = work_originalDiscArchiveId ` set (rs_work c)"

definition encoding :: "recovery_store \<Rightarrow> string \<Rightarrow> bool" where
  "encoding c archiveId \<longleftrightarrow>
     list_ex (active_for_archive (rs_encode c) archiveId) (encodeJobs (rs_encode c))"

definition work_tokens :: "recovery_store \<Rightarrow> string set" where
  "work_tokens c = {t. \<exists>w \<in> set (rs_work c). work_claimToken w = Some t}"

text \<open>
  A step that issues at most the tokens of \<open>T\<close> and takes only archives that no encode work uses.
\<close>

definition evolves :: "string set \<Rightarrow> recovery_store \<Rightarrow> recovery_store \<Rightarrow> bool" where
  "evolves T c c' \<longleftrightarrow>
     rs_encode c' = rs_encode c
   \<and> (\<forall>a \<in> held_archives c'. a \<in> held_archives c \<or> \<not> encoding c a)
   \<and> work_tokens c' \<subseteq> work_tokens c \<union> T"

lemma evolves_refl [simp]: "evolves T c c"
  by (auto simp: evolves_def)

lemma evolves_trans: "evolves T c c1 \<Longrightarrow> evolves T c1 c' \<Longrightarrow> evolves T c c'"
  by (auto simp: evolves_def encoding_def)

lemma evolves_same: "rs_encode c' = rs_encode c \<Longrightarrow> rs_work c' = rs_work c \<Longrightarrow> evolves T c c'"
  by (simp add: evolves_def held_archives_def work_tokens_def)

lemma evolves_free: "evolves T c c' \<Longrightarrow> \<not> encoding c a \<Longrightarrow> \<not> encoding c' a"
  by (auto simp: evolves_def encoding_def)

lemma sort_key_empty [simp]: "sort_key k xs = [] \<longleftrightarrow> xs = []"
  by (metis length_0_conv length_sort)

lemma requireNoActiveEncodeWork_Inr [result_simps]:
  "requireNoActiveEncodeWork c recovery = Inr u \<longleftrightarrow> \<not> encoding c (rec_originalDiscArchiveId (fst recovery))"
proof -
  have "activeEncodeWorkIdentities (listActiveEncodeWorkForArchive e a) = []
      \<longleftrightarrow> \<not> list_ex (active_for_archive e a) (encodeJobs e)" for e a
    by (auto simp: activeEncodeWorkIdentities_def listActiveEncodeWorkForArchive_def filter_empty_conv
        list_ex_iff active_for_archive_def split: option.splits)
  then show ?thesis
    by (simp add: requireNoActiveEncodeWork_def reject_if_def encodeWorkConflictCurrent_def
        createEncodeWorkConflictCurrent_def encoding_def)
qed

section \<open>Statements\<close>

lemma update_recoveries_same:
  "update_recoveries P f c = Inr (rows, c') \<Longrightarrow>
     rs_encode c' = rs_encode c \<and> rs_work c' = rs_work c"
  by (auto simp: update_recoveries_def Let_def split: if_splits)

lemma update_recoveries_evolves: "update_recoveries P f c = Inr (rows, c') \<Longrightarrow> evolves T c c'"
  by (auto dest: update_recoveries_same intro: evolves_same)

lemma must_update_recovery_evolves: "must_update_recovery i P f c = Inr (r, c') \<Longrightarrow> evolves T c c'"
  by (auto simp: must_update_recovery_def result_simps intro: update_recoveries_evolves)

text \<open>A change of work rows that may keep, drop or issue a token.\<close>

definition token_change :: "string set \<Rightarrow> (work_row \<Rightarrow> work_row) \<Rightarrow> bool" where
  "token_change T f \<longleftrightarrow> (\<forall>w. work_originalDiscArchiveId (f w) = work_originalDiscArchiveId w
     \<and> work_claimToken (f w) \<in> {None, work_claimToken w} \<union> Some ` T)"

lemma update_work_rows_evolves:
  assumes "update_work_rows P f c = Inr (rows, c')" and "token_change T f"
  shows "evolves T c c'"
proof -
  from assms(1) have c': "c' = c\<lparr>rs_work := update_where P f (rs_work c)\<rparr>"
    by (auto simp: update_work_rows_def Let_def split: if_splits)
  have "map work_originalDiscArchiveId (rs_work c') = map work_originalDiscArchiveId (rs_work c)"
    using assms(2) by (simp add: c' update_where_def token_change_def)
  then have "held_archives c' = held_archives c"
    unfolding held_archives_def by (metis set_map)
  moreover have "work_tokens c' \<subseteq> work_tokens c \<union> T"
  proof
    fix t assume "t \<in> work_tokens c'"
    then obtain w where w: "w \<in> set (rs_work c)" "work_claimToken (if P w then f w else w) = Some t"
      by (auto simp: work_tokens_def c' update_where_def)
    have "work_claimToken (f w) \<in> {None, work_claimToken w} \<union> Some ` T"
      using assms(2) by (simp add: token_change_def)
    with w show "t \<in> work_tokens c \<union> T" by (auto simp: work_tokens_def split: if_splits)
  qed
  ultimately show ?thesis by (simp add: evolves_def c')
qed

lemma must_update_work_evolves:
  "must_update_work i P f c = Inr (w, c') \<Longrightarrow> token_change T f \<Longrightarrow> evolves T c c'"
  by (auto simp: must_update_work_def result_simps intro: update_work_rows_evolves)

lemma insert_work_evolves:
  assumes "insert_work w c = Inr (w', c')" and "\<not> encoding c (work_originalDiscArchiveId w)"
    and "work_claimToken w \<in> insert None (Some ` T)"
  shows "evolves T c c'"
  using assms
  by (fastforce simp: insert_work_def evolves_def held_archives_def work_tokens_def split: if_splits)

lemma delete_work_evolves: "evolves T c (snd (delete_work P c))"
  by (auto simp: delete_work_def evolves_def held_archives_def work_tokens_def)

lemma must_delete_work_evolves: "must_delete_work i P e c = Inr c' \<Longrightarrow> evolves T c c'"
  using delete_work_evolves [of T c P]
  by (auto simp: must_delete_work_def delete_work_def Let_def split: if_splits)

lemma update_verifications_evolves: "update_verifications P f c = Inr (rows, c') \<Longrightarrow> evolves T c c'"
  by (auto simp: update_verifications_def Let_def intro: evolves_same split: if_splits)

lemma insert_verification_evolves: "insert_verification v c = Inr (v', c') \<Longrightarrow> evolves T c c'"
  by (auto simp: insert_verification_def intro: evolves_same split: if_splits)

lemma update_confirmations_evolves: "update_confirmations P f c = Inr (rows, c') \<Longrightarrow> evolves T c c'"
  by (auto simp: update_confirmations_def Let_def intro: evolves_same split: if_splits)

lemma insert_confirmation_evolves: "insert_confirmation f c = Inr (f', c') \<Longrightarrow> evolves T c c'"
  by (auto simp: insert_confirmation_def intro: evolves_same split: if_splits)

lemma update_reconciliations_evolves: "update_reconciliations P f c = Inr (rows, c') \<Longrightarrow> evolves T c c'"
  by (auto simp: update_reconciliations_def Let_def intro: evolves_same split: if_splits)

lemma insert_reconciliation_evolves: "insert_reconciliation n c = Inr (n', c') \<Longrightarrow> evolves T c c'"
  by (auto simp: insert_reconciliation_def Let_def intro: evolves_same split: if_splits)

lemma recordMutationInvocation_evolves: "recordMutationInvocation k op s r c = Inr c' \<Longrightarrow> evolves T c c'"
  by (auto simp: recordMutationInvocation_def intro: evolves_same split: if_splits)

lemma recordArchiveRecoveryOutcome_evolves: "recordArchiveRecoveryOutcome r k s c = Inr c' \<Longrightarrow> evolves T c c'"
  by (auto simp: recordArchiveRecoveryOutcome_def Let_def intro: evolves_same split: option.splits)

section \<open>Reasoning about transactions\<close>

text \<open>
  \<open>yields Q m\<close>: a result of \<open>m\<close>, if it is no error, satisfies \<open>Q\<close>.  The rules follow the
  structure of a transaction: a check leaves the fact that it passed, a statement what it keeps.
\<close>

definition yields :: "('a \<Rightarrow> bool) \<Rightarrow> 'e + 'a \<Rightarrow> bool" where
  "yields Q m \<longleftrightarrow> (\<forall>x. m = Inr x \<longrightarrow> Q x)"

lemma yieldsD: "yields Q m \<Longrightarrow> m = Inr x \<Longrightarrow> Q x"
  by (simp add: yields_def)

lemma yields_bind: "yields R m \<Longrightarrow> (\<And>x. R x \<Longrightarrow> yields Q (k x)) \<Longrightarrow> yields Q (and_then m k)"
  by (auto simp: yields_def and_then_Inr)

lemma yields_check: "(\<And>x. m = Inr x \<Longrightarrow> yields Q (k x)) \<Longrightarrow> yields Q (and_then m k)"
  by (auto simp: yields_def and_then_Inr)

lemma yields_weaken: "yields R m \<Longrightarrow> (\<And>x. R x \<Longrightarrow> Q x) \<Longrightarrow> yields Q m"
  by (auto simp: yields_def)

lemma yields_Inr: "Q x \<Longrightarrow> yields Q (Inr x)"
  by (simp add: yields_def)

lemma yields_Inl: "yields Q (Inl e)"
  by (simp add: yields_def)

lemma yields_True [simp]: "yields (\<lambda>_. True) m"
  by (simp add: yields_def)

lemma yields_map: "yields (\<lambda>x. Q (f x)) m \<Longrightarrow> yields Q (map_sum id f m)"
  by (auto simp: yields_def map_sum_Inr)

lemma yields_if: "(b \<Longrightarrow> yields Q m) \<Longrightarrow> (\<not> b \<Longrightarrow> yields Q m') \<Longrightarrow> yields Q (if b then m else m')"
  by simp

lemma yields_option:
  "(x = None \<Longrightarrow> yields Q m) \<Longrightarrow> (\<And>y. x = Some y \<Longrightarrow> yields Q (f y)) \<Longrightarrow>
     yields Q (case x of None \<Rightarrow> m | Some y \<Rightarrow> f y)"
  by (cases x) auto

lemma yields_prod: "(\<And>a b. x = (a, b) \<Longrightarrow> yields Q (f a b)) \<Longrightarrow> yields Q (case x of (a, b) \<Rightarrow> f a b)"
  by (cases x) auto

lemma yields_prod_app:
  "(\<And>a b. x = (a, b) \<Longrightarrow> yields Q (f a b y)) \<Longrightarrow> yields Q ((case x of (a, b) \<Rightarrow> f a b) y)"
  by (cases x) auto

lemma yields_Let: "(\<And>y. y = x \<Longrightarrow> yields Q (f y)) \<Longrightarrow> yields Q (let y = x in f y)"
  by simp

lemma yields_bind_Inr: "yields Q (k x) \<Longrightarrow> yields Q (and_then (Inr x) k)"
  by (simp add: yields_def)

lemma yields_bind_Inl: "yields Q (and_then (Inl e) k)"
  by (simp add: yields_def)

lemma yields_bind_map: "yields Q (and_then m (\<lambda>x. k (f x))) \<Longrightarrow> yields Q (and_then (map_sum id f m) k)"
  by (auto simp: yields_def and_then_Inr map_sum_Inr)

lemma yields_bind_bind:
  "yields Q (and_then m (\<lambda>x. and_then (k' x) k)) \<Longrightarrow> yields Q (and_then (and_then m k') k)"
  by (auto simp: yields_def and_then_Inr)

lemma yields_bind_if:
  "(b \<Longrightarrow> yields Q (and_then m k)) \<Longrightarrow> (\<not> b \<Longrightarrow> yields Q (and_then m' k)) \<Longrightarrow>
     yields Q (and_then (if b then m else m') k)"
  by simp

lemma yields_bind_option:
  "(y = None \<Longrightarrow> yields Q (and_then m k)) \<Longrightarrow> (\<And>z. y = Some z \<Longrightarrow> yields Q (and_then (g z) k)) \<Longrightarrow>
     yields Q (and_then (case y of None \<Rightarrow> m | Some z \<Rightarrow> g z) k)"
  by (cases y) auto

lemma yields_bind_prod:
  "(\<And>a b. p = (a, b) \<Longrightarrow> yields Q (and_then (h a b) k)) \<Longrightarrow>
     yields Q (and_then (case p of (a, b) \<Rightarrow> h a b) k)"
  by (cases p) auto

lemma yields_bind_Let: "yields Q (and_then (f x) k) \<Longrightarrow> yields Q (and_then (let y = x in f y) k)"
  by simp

lemmas yields_bind_simps = yields_bind_Inr yields_bind_Inl yields_bind_map yields_bind_bind yields_bind_if
  yields_bind_option yields_bind_prod yields_bind_Let

lemmas yields_checks = yields_check [where m = "reject_if b e" for b e]
  yields_check [where m = "invariant_if b s" for b s]
  yields_check [where m = "requireNonEmpty s n" for s n]
  yields_check [where m = "requireRow x s i" for x s i]
  yields_check [where m = "found_recovery c i" for c i]
  yields_check [where m = "requireNoActiveEncodeWork c r" for c r]
  yields_check [where m = "requireNoPendingDvdRecoveryReconciliation c i" for c i]
  yields_check [where m = "archiveRecoveryPassStart c r t" for c r t]
  yields_check [where m = "archiveRecoveryPassSettlement c r t" for c r t]
  yields_check [where m = "settledArchiveRecoveryStatus c i" for c i]
  yields_check [where m = "currentDvdUnrecoveredSourceRanges c i" for c i]
  yields_check [where m = "claimed_row rows e" for rows e]
  yields_check [where m = "requireCurrentRecoveryClaim c w" for c w]
  yields_check [where m = "requireHeader c i" for c i]
  yields_check [where m = "readMutationInvocation c k op s" for c k op s]
  yields_check [where m = "requireRecoveryStorage c" for c]
  yields_check [where m = "require_resumable i c r" for i c r]
  yields_check [where m = "require_stopping i s c" for i s c]
  yields_check [where m = "storedSampleManifest h c i" for h c i]
  yields_check [where m = "validateDvdDiscVerificationManifestBinding m' f h" for m' f h]
  yields_check [where m = "evaluatePersistedDvdDiscVerification h c v t" for h c v t]
  yields_check [where m = "readDvdDiscVerificationEvidence h c v" for h c v]
  yields_check [where m = "validateDvdDiscVerificationFindings m' f" for m' f]
  yields_check [where m = "require_held_verification w c" for w c]
  yields_check [where m = "replay_confirmation c i" for c i]
  yields_check [where m = "reviewed_result_digest h v" for h v]
  yields_check [where m = "verification_receipt r" for r]
  yields_check [where m = "replayed_reconciliation c r" for c r]
  yields_check [where m = "toClaimedDvdRecoveryReconciliation n" for n]

lemmas yields_rules = yields_Inr yields_Inl yields_map yields_if yields_option yields_prod
  yields_prod_app yields_Let
  yields_bind_simps yields_checks

text \<open>What each statement keeps, after what was kept before.\<close>

lemma evolves_after:
  assumes "\<And>x. m = Inr x \<Longrightarrow> evolves T c1 (g x)" and "evolves T c c1"
  shows "yields (\<lambda>x. evolves T c (g x)) m"
  using assms by (auto simp: yields_def intro: evolves_trans)

lemma update_recoveries_after:
  assumes "evolves T c c1"
  shows "yields (\<lambda>x. evolves T c (snd x)) (update_recoveries P f c1)"
  using assms by (auto simp: yields_def intro: evolves_trans [OF assms(1)] update_recoveries_evolves)

lemma must_update_recovery_after:
  assumes "evolves T c c1"
  shows "yields (\<lambda>x. evolves T c (snd x)) (must_update_recovery i P f c1)"
  using assms by (auto simp: yields_def intro: evolves_trans [OF assms(1)] must_update_recovery_evolves)

lemma update_work_rows_after:
  assumes "evolves T c c1" and "token_change T g"
  shows "yields (\<lambda>x. evolves T c (snd x)) (update_work_rows R g c1)"
  using assms by (auto simp: yields_def intro: evolves_trans [OF assms(1)] update_work_rows_evolves)

lemma must_update_work_after:
  assumes "evolves T c c1" and "token_change T g"
  shows "yields (\<lambda>x. evolves T c (snd x)) (must_update_work i R g c1)"
  using assms by (auto simp: yields_def intro: evolves_trans [OF assms(1)] must_update_work_evolves)

lemma insert_work_after:
  assumes "evolves T c c1" and "\<not> encoding c (work_originalDiscArchiveId w)"
    and "work_claimToken w \<in> insert None (Some ` T)"
  shows "yields (\<lambda>x. evolves T c (snd x)) (insert_work w c1)"
proof -
  have "evolves T c1 (snd x)" if "insert_work w c1 = Inr x" for x
    using that assms insert_work_evolves [of w c1 "fst x" "snd x" T] evolves_free [OF assms(1,2)] by auto
  then show ?thesis by (auto simp: yields_def intro: evolves_trans [OF assms(1)])
qed

lemma must_delete_work_after:
  assumes "evolves T c c1"
  shows "yields (evolves T c) (must_delete_work i R e c1)"
  using assms by (auto simp: yields_def intro: evolves_trans [OF assms(1)] must_delete_work_evolves)

lemma update_verifications_after:
  assumes "evolves T c c1"
  shows "yields (\<lambda>x. evolves T c (snd x)) (update_verifications V fv c1)"
  using assms by (auto simp: yields_def intro: evolves_trans [OF assms(1)] update_verifications_evolves)

lemma insert_verification_after:
  assumes "evolves T c c1"
  shows "yields (\<lambda>x. evolves T c (snd x)) (insert_verification v c1)"
  using assms by (auto simp: yields_def intro: evolves_trans [OF assms(1)] insert_verification_evolves)

lemma update_confirmations_after:
  assumes "evolves T c c1"
  shows "yields (\<lambda>x. evolves T c (snd x)) (update_confirmations F ff c1)"
  using assms by (auto simp: yields_def intro: evolves_trans [OF assms(1)] update_confirmations_evolves)

lemma insert_confirmation_after:
  assumes "evolves T c c1"
  shows "yields (\<lambda>x. evolves T c (snd x)) (insert_confirmation conf c1)"
  using assms by (auto simp: yields_def intro: evolves_trans [OF assms(1)] insert_confirmation_evolves)

lemma update_reconciliations_after:
  assumes "evolves T c c1"
  shows "yields (\<lambda>x. evolves T c (snd x)) (update_reconciliations N fn c1)"
  using assms by (auto simp: yields_def intro: evolves_trans [OF assms(1)] update_reconciliations_evolves)

lemma insert_reconciliation_after:
  assumes "evolves T c c1"
  shows "yields (\<lambda>x. evolves T c (snd x)) (insert_reconciliation n c1)"
  using assms by (auto simp: yields_def intro: evolves_trans [OF assms(1)] insert_reconciliation_evolves)

lemma recordMutationInvocation_after:
  assumes "evolves T c c1"
  shows "yields (evolves T c) (recordMutationInvocation k op s receipt c1)"
  using assms by (auto simp: yields_def intro: evolves_trans [OF assms(1)] recordMutationInvocation_evolves)

lemma recordArchiveRecoveryOutcome_after:
  assumes "evolves T c c1"
  shows "yields (evolves T c) (recordArchiveRecoveryOutcome r kind t c1)"
  using assms by (auto simp: yields_def intro: evolves_trans [OF assms(1)] recordArchiveRecoveryOutcome_evolves)

lemmas evolves_statements =
  update_recoveries_after
  must_update_recovery_after
  update_work_rows_after
  must_update_work_after
  insert_work_after
  must_delete_work_after
  update_verifications_after
  insert_verification_after
  update_confirmations_after
  insert_confirmation_after
  update_reconciliations_after
  insert_reconciliation_after
  recordMutationInvocation_after
  recordArchiveRecoveryOutcome_after

lemmas evolves_rules = evolves_statements [THEN yields_bind] evolves_statements [THEN yields_weaken]


lemma pass_start_keeps:
  assumes "archiveRecoveryPassStart c recovery t = Inr f"
  shows "work_originalDiscArchiveId (f w) = work_originalDiscArchiveId w"
    and "work_claimToken (f w) = work_claimToken w"
    and "work_archiveRecoveryId (f w) = work_archiveRecoveryId w"
    and "work_attemptId (f w) = work_attemptId w"
    and "work_status (f w) = work_status w"
  using assms by (auto simp: archiveRecoveryPassStart_def result_simps bind_eq_Some_conv split: option.splits if_splits)

lemma request_recovery_evolves: "yields (\<lambda>x. evolves T c (snd x)) (request_recovery i t c)"
  unfolding request_recovery_def
  by (intro yields_rules evolves_rules [where T = T and c = c]) (auto simp: requested_work_def result_simps)

lemma claim_recovery_evolves: "yields (\<lambda>x. evolves {token} c (snd x)) (claim_recovery i w t token c)"
  unfolding claim_recovery_def
  by (intro yields_rules evolves_rules [where T = "{token}" and c = c])
    (auto simp: requested_work_def result_simps claimed_by_def pass_start_keeps token_change_def)


lemma begin_takeover_evolves:
  "yields (\<lambda>x. evolves {token} c (snd x)) (beginInterruptedTakeover claim w e t token c)"
  unfolding beginInterruptedTakeover_def Let_def
  by (intro yields_rules evolves_rules [where T = "{token}" and c = c]) (auto simp: claimed_by_def token_change_def)

lemma defer_takeover_evolves: "yields (\<lambda>x. evolves T c (snd x)) (deferInterruptedTakeover claim t c)"
  unfolding deferInterruptedTakeover_def
  by (intro yields_rules evolves_rules [where T = T and c = c]) (auto simp: token_change_def)

lemma renew_recovery_evolves: "yields (\<lambda>x. evolves T c (snd x)) (renew_recovery_claim claim t c)"
  unfolding renew_recovery_claim_def
  by (intro yields_rules evolves_rules [where T = T and c = c]) (auto simp: token_change_def)

lemma bind_verification_evolves: "yields (\<lambda>x. evolves T c (snd x)) (bindVerification claim authority t c)"
  unfolding bindVerification_def
  by (intro yields_rules evolves_rules [where T = T and c = c]) (auto simp: token_change_def)

lemma fail_queued_after: "evolves T c c1 \<Longrightarrow> yields (evolves T c) (fail_queued_verifications r t c1)"
  unfolding fail_queued_verifications_def
  by (intro yields_rules evolves_rules [where T = T and c = c]) auto

lemma insertQueued_after:
  "evolves T c c1 \<Longrightarrow> yields (\<lambda>x. evolves T c (snd x)) (insertQueuedDvdDiscVerification s i t c1)"
  unfolding insertQueuedDvdDiscVerification_def by (rule insert_verification_after)

lemma must_update_reconciliation_after:
  "evolves T c c1 \<Longrightarrow> yields (\<lambda>x. evolves T c (snd x)) (must_update_reconciliation claim f c1)"
  unfolding must_update_reconciliation_def
  by (intro yields_rules evolves_rules [where T = T and c = c]) auto

lemma must_update_verification_after:
  "evolves T c c1 \<Longrightarrow> yields (\<lambda>x. evolves T c (snd x)) (must_update_verification claim token f c1)"
  unfolding must_update_verification_def
  by (intro yields_rules evolves_rules [where T = T and c = c]) auto

lemma expire_confirmations_after:
  "evolves T c c1 \<Longrightarrow> yields (\<lambda>x. evolves T c (snd x)) (expireInvalidDvdDiscConfirmations h w i t c1)"
  unfolding expireInvalidDvdDiscConfirmations_def
  by (intro yields_rules evolves_rules [where T = T and c = c]) auto

lemma queue_next_pass_after:
  "evolves T c c1 \<Longrightarrow> yields (evolves T c) (queueNextArchiveRecoveryPassVerification r i t c1)"
  unfolding queueNextArchiveRecoveryPassVerification_def Let_def
  by (intro yields_rules yields_weaken [OF insertQueued_after [where T = T and c = c]]) auto

lemma settle_running_after:
  "evolves T c c1 \<Longrightarrow> yields (\<lambda>x. evolves T c (snd x)) (settle_running r settlement t c1)"
  unfolding settle_running_def by (rule update_recoveries_after)

lemma completion_after_interruption_after:
  "evolves T c c1 \<Longrightarrow>
     yields (\<lambda>x. evolves T c (snd x)) (archiveRecoveryCompletionAfterInterruption r t c1)"
  unfolding archiveRecoveryCompletionAfterInterruption_def
  by (intro yields_rules evolves_rules [where T = T and c = c]) auto

lemma complete_interrupted_after:
  "evolves T c c1 \<Longrightarrow> yields (\<lambda>x. evolves T c (snd x)) (complete_interrupted h v t c1)"
  unfolding complete_interrupted_def
  by (intro yields_rules evolves_rules [where T = T and c = c]) auto

lemma return_recovery_after:
  "evolves T c c1 \<Longrightarrow> yields (\<lambda>x. evolves T c (snd x)) (return_recovery i c1)"
  by (auto simp: return_recovery_def yields_def map_sum_Inr)

lemma queue_resume_after:
  "evolves T c c1 \<Longrightarrow> yields (\<lambda>x. evolves T c (snd x)) (queueResumeVerification h r n i t c1)"
  unfolding queueResumeVerification_def
  by (intro yields_rules yields_weaken [OF insertQueued_after [where T = T and c = c]]) auto

lemmas evolves_parts = fail_queued_after insertQueued_after must_update_reconciliation_after
  must_update_verification_after expire_confirmations_after queue_next_pass_after settle_running_after
  completion_after_interruption_after complete_interrupted_after return_recovery_after queue_resume_after

lemmas evolves_calls = evolves_parts [THEN yields_bind] evolves_parts [THEN yields_weaken]

lemma activate_insertion_after:
  "evolves T c c1 \<Longrightarrow> yields (\<lambda>x. evolves T c (snd x)) (activateResumeInsertion h r n i t c1)"
  unfolding activateResumeInsertion_def Let_def
  by (intro yields_rules evolves_rules [where T = T and c = c] evolves_calls [where T = T and c = c])
    (auto simp: token_change_def)

lemma settle_continuation_after:
  "evolves T c c1 \<Longrightarrow> yields (evolves T c) (settleGeneratedContinuationVerification v e i t c1)"
  unfolding settleGeneratedContinuationVerification_def Let_def
  by (intro yields_rules evolves_rules [where T = T and c = c] evolves_calls [where T = T and c = c])
    (auto simp: token_change_def)

lemma complete_all_interrupted_after:
  "evolves T c c1 \<Longrightarrow> yields (evolves T c) (complete_all_interrupted h vs t c1)"
proof (induction vs arbitrary: c1)
  case Nil
  then show ?case by (simp add: yields_def)
next
  case (Cons v vs)
  then show ?case
    by (auto intro: yields_bind [OF complete_interrupted_after])
qed

lemma remove_and_settle_after:
  "evolves T c c1 \<Longrightarrow> yields (\<lambda>x. evolves T c (snd x)) (remove_and_settle r P t c1)"
  unfolding remove_and_settle_def Let_def
  by (intro yields_rules evolves_rules [where T = T and c = c] evolves_calls [where T = T and c = c]) auto

lemma evolves_outcomes [simp]: "evolves T c (c1\<lparr>rs_outcomes := x\<rparr>) = evolves T c c1"
  by (simp add: evolves_def held_archives_def work_tokens_def)

lemma evolves_delete: "evolves T c c1 \<Longrightarrow> evolves T c (snd (delete_work P c1))"
  by (rule evolves_trans [OF _ delete_work_evolves])

lemma require_resumable_free:
  "require_resumable input c r = Inr mode \<Longrightarrow> \<not> encoding c (rec_originalDiscArchiveId (fst r))"
  by (auto simp: require_resumable_def Let_def result_simps and_then_Inr)

lemmas evolves_more_calls = activate_insertion_after [THEN yields_bind] activate_insertion_after [THEN yields_weaken]
  settle_continuation_after [THEN yields_bind] settle_continuation_after [THEN yields_weaken]
  complete_all_interrupted_after [THEN yields_bind] complete_all_interrupted_after [THEN yields_weaken]
  remove_and_settle_after [THEN yields_bind] remove_and_settle_after [THEN yields_weaken]

lemma admit_read_evolves: "yields (\<lambda>x. evolves T c (snd x)) (admitSourceRead h claim path identity e t c)"
  unfolding admitSourceRead_def Let_def
  by (intro yields_rules evolves_rules [where T = T and c = c] evolves_calls [where T = T and c = c] evolves_more_calls [where T = T and c = c])
    (auto simp: token_change_def)

lemma claim_candidate_evolves: "yields (\<lambda>x. evolves {token} c (snd x)) (claim_candidate r v f w t token c)"
  unfolding claim_candidate_def Let_def
  by (intro yields_rules evolves_rules [where T = "{token}" and c = c] evolves_calls [where T = "{token}" and c = c] evolves_more_calls [where T = "{token}" and c = c])
    (auto simp: requested_work_def result_simps claimed_by_def pass_start_keeps token_change_def)

lemma request_resume_evolves: "yields (\<lambda>x. evolves T c (snd x)) (requestResume h input t attempt operation i c)"
  unfolding requestResume_def Let_def
  by (intro yields_rules evolves_rules [where T = T and c = c] evolves_calls [where T = T and c = c] evolves_more_calls [where T = T and c = c])
    (auto simp: resumed_work_def requested_work_def intro: evolves_delete dest: require_resumable_free)

lemma record_speed_evolves: "yields (\<lambda>x. evolves T c (snd x)) (recordSpeedRequestResult input t1 t2 t3 c)"
  unfolding recordSpeedRequestResult_def Let_def
  by (intro yields_rules evolves_rules [where T = T and c = c] evolves_calls [where T = T and c = c] evolves_more_calls [where T = T and c = c])
    (auto)

lemma request_stop_evolves: "yields (\<lambda>x. evolves T c (snd x)) (requestStop input t operation c)"
  unfolding requestStop_def Let_def
  by (intro yields_rules evolves_rules [where T = T and c = c] evolves_calls [where T = T and c = c] evolves_more_calls [where T = T and c = c])
    (auto simp: requested_work_def result_simps)

lemma prepare_stop_evolves: "yields (\<lambda>x. evolves T c (snd x)) (prepareStop h input quiesced t c)"
  unfolding prepareStop_def
  by (intro yields_rules evolves_rules [where T = T and c = c] evolves_calls [where T = T and c = c] evolves_more_calls [where T = T and c = c])
    (auto)

lemma complete_stop_evolves: "yields (\<lambda>x. evolves T c (snd x)) (completeStop input t c)"
  unfolding completeStop_def
  by (intro yields_rules evolves_rules [where T = T and c = c] evolves_calls [where T = T and c = c] evolves_more_calls [where T = T and c = c])
    (auto intro: evolves_delete)

lemma defer_stop_evolves: "yields (\<lambda>x. evolves T c (snd x)) (deferStop input t c)"
  unfolding deferStop_def
  by (intro yields_rules evolves_rules [where T = T and c = c] evolves_calls [where T = T and c = c] evolves_more_calls [where T = T and c = c])
    (auto)

lemma mark_stop_fault_evolves: "yields (\<lambda>x. evolves T c (snd x)) (markStopFault input code t c)"
  unfolding markStopFault_def
  by (intro yields_rules evolves_rules [where T = T and c = c] evolves_calls [where T = T and c = c] evolves_more_calls [where T = T and c = c])
    (auto)

lemma settle_pass_evolves: "yields (\<lambda>x. evolves T c (snd x)) (settlePass claim t i c)"
  unfolding settlePass_def
  by (intro yields_rules evolves_rules [where T = T and c = c] evolves_calls [where T = T and c = c] evolves_more_calls [where T = T and c = c])
    (auto simp: token_change_def unclaimed_def next_pass_def intro: evolves_delete)

lemma mark_fault_evolves: "yields (\<lambda>x. evolves T c (snd x)) (markFault claim code storage retain t c)"
  unfolding markFault_def
  by (intro yields_rules evolves_rules [where T = T and c = c] evolves_calls [where T = T and c = c] evolves_more_calls [where T = T and c = c])
    (auto)

lemma release_reconciled_evolves: "yields (\<lambda>x. evolves T c (snd x)) (releaseAfterReconciliation i attempt t c)"
  unfolding releaseAfterReconciliation_def
  by (intro yields_rules evolves_rules [where T = T and c = c] evolves_calls [where T = T and c = c] evolves_more_calls [where T = T and c = c])
    (auto)

lemma requeue_recovery_evolves: "yields (\<lambda>x. evolves T c (snd x)) (requeue_recovery claim t c)"
  unfolding requeue_recovery_def
  by (intro yields_rules evolves_rules [where T = T and c = c] evolves_calls [where T = T and c = c] evolves_more_calls [where T = T and c = c])
    (auto simp: token_change_def unclaimed_def)

lemma release_recovery_evolves: "yields (\<lambda>x. evolves T c (snd x)) (release_recovery claim t c)"
  unfolding release_recovery_def
  by (intro yields_rules evolves_rules [where T = T and c = c] evolves_calls [where T = T and c = c] evolves_more_calls [where T = T and c = c])
    (auto)

lemma submit_reconciliation_evolves: "yields (\<lambda>x. evolves T c (snd x)) (submit_reconciliation key r i t c)"
  unfolding submit_reconciliation_def
  by (intro yields_rules evolves_rules [where T = T and c = c] evolves_calls [where T = T and c = c] evolves_more_calls [where T = T and c = c])
    (auto)

lemma recover_reconciliations_evolves: "yields (\<lambda>x. evolves T c (snd x)) (recover_expired_reconciliations t c)"
  unfolding recover_expired_reconciliations_def
  by (intro yields_rules evolves_rules [where T = T and c = c] evolves_calls [where T = T and c = c] evolves_more_calls [where T = T and c = c])
    (auto)

lemma claim_reconciliation_evolves: "yields (\<lambda>x. evolves T c (snd x)) (claim_next_reconciliation w t token c)"
  unfolding claim_next_reconciliation_def
  by (intro yields_rules evolves_rules [where T = T and c = c] evolves_calls [where T = T and c = c] evolves_more_calls [where T = T and c = c])
    (auto)

lemma renew_reconciliation_evolves: "yields (\<lambda>x. evolves T c (snd x)) (renew_reconciliation_claim claim t c)"
  unfolding renew_reconciliation_claim_def
  by (intro yields_rules evolves_rules [where T = T and c = c] evolves_calls [where T = T and c = c] evolves_more_calls [where T = T and c = c])
    (auto)

lemma requeue_reconciliation_evolves: "yields (\<lambda>x. evolves T c (snd x)) (requeue_reconciliation claim t c)"
  unfolding requeue_reconciliation_def
  by (intro yields_rules evolves_rules [where T = T and c = c] evolves_calls [where T = T and c = c] evolves_more_calls [where T = T and c = c])
    (auto)

lemma reconciliation_phase_evolves: "yields (\<lambda>x. evolves T c (snd x)) (set_reconciliation_phase claim phase t c)"
  unfolding set_reconciliation_phase_def
  by (intro yields_rules evolves_rules [where T = T and c = c] evolves_calls [where T = T and c = c] evolves_more_calls [where T = T and c = c])
    (auto)

lemma complete_reconciliation_evolves: "yields (\<lambda>x. evolves T c (snd x)) (complete_reconciliation claim outcome evidence t c)"
  unfolding complete_reconciliation_def
  by (intro yields_rules evolves_rules [where T = T and c = c] evolves_calls [where T = T and c = c] evolves_more_calls [where T = T and c = c])
    (auto)

lemma fail_reconciliation_evolves: "yields (\<lambda>x. evolves T c (snd x)) (fail_reconciliation claim code t c)"
  unfolding fail_reconciliation_def
  by (intro yields_rules evolves_rules [where T = T and c = c] evolves_calls [where T = T and c = c] evolves_more_calls [where T = T and c = c])
    (auto)

lemma claim_verification_evolves: "yields (\<lambda>x. evolves T c (snd x)) (claim_next_verification w t token c)"
  unfolding claim_next_verification_def
  by (intro yields_rules evolves_rules [where T = T and c = c] evolves_calls [where T = T and c = c] evolves_more_calls [where T = T and c = c])
    (auto)

lemma renew_verification_evolves: "yields (\<lambda>x. evolves T c (snd x)) (renew_verification_claim claim t c)"
  unfolding renew_verification_claim_def
  by (intro yields_rules evolves_rules [where T = T and c = c] evolves_calls [where T = T and c = c] evolves_more_calls [where T = T and c = c])
    (auto)

lemma admit_verification_evolves: "yields (\<lambda>x. evolves T c (snd x)) (admit_verification_read claim identity t t' c)"
  unfolding admit_verification_read_def Let_def
  by (intro yields_rules evolves_rules [where T = T and c = c] evolves_calls [where T = T and c = c] evolves_more_calls [where T = T and c = c])
    (auto)

lemma append_finding_evolves: "yields (\<lambda>x. evolves T c (snd x)) (append_finding h claim finding t c)"
  unfolding append_finding_def Let_def
  by (intro yields_rules evolves_rules [where T = T and c = c] evolves_calls [where T = T and c = c] evolves_more_calls [where T = T and c = c])
    (auto)

lemma complete_verification_evolves: "yields (\<lambda>x. evolves T c (snd x)) (complete_verification h claim terminal t i c)"
  unfolding complete_verification_def
  by (intro yields_rules evolves_rules [where T = T and c = c] evolves_calls [where T = T and c = c] evolves_more_calls [where T = T and c = c])
    (auto)

lemma fail_verification_evolves: "yields (\<lambda>x. evolves T c (snd x)) (fail_verification claim t i c)"
  unfolding fail_verification_def
  by (intro yields_rules evolves_rules [where T = T and c = c] evolves_calls [where T = T and c = c] evolves_more_calls [where T = T and c = c])
    (auto)

lemma record_confirmation_evolves: "yields (\<lambda>x. evolves T c (snd x)) (record_confirmation h input t i c)"
  unfolding record_confirmation_def bind_confirmation_def Let_def
  by (intro yields_rules evolves_rules [where T = T and c = c] evolves_calls [where T = T and c = c] evolves_more_calls [where T = T and c = c])
    (auto simp: token_change_def)

lemma expire_confirmation_evolves: "yields (\<lambda>x. evolves T c (snd x)) (expire_confirmation i reason t c)"
  unfolding expire_confirmation_def
  by (intro yields_rules evolves_rules [where T = T and c = c] evolves_calls [where T = T and c = c] evolves_more_calls [where T = T and c = c])
    (auto)


lemma candidate_claim_evolves:
  "yields (\<lambda>x. evolves {token} c (snd x)) (claimNextVerifiedCandidate h w e t token c)"
proof -
  have claim: "yields (\<lambda>x. evolves {token} c (snd x)) (claim_candidate r v f w' t token c1)"
    if "evolves {token} c c1" for r v f w' c1
    using claim_candidate_evolves [of token c1 r v f w' t] evolves_trans [OF that]
    by (auto simp: yields_def)
  show ?thesis
    unfolding claimNextVerifiedCandidate_def
    by (intro yields_rules evolves_calls [where T = "{token}" and c = c]
        yields_weaken [OF claim]) auto
qed

lemma activate_first_evolves:
  "yields (\<lambda>x. evolves T c (snd x)) (activate_first h candidates t i c)"
proof (induction candidates)
  case Nil
  then show ?case by (simp add: yields_Inr)
next
  case (Cons candidate candidates)
  show ?case
    unfolding activate_first.simps Let_def
    by (intro yields_rules evolves_more_calls [where T = T and c = c]) (use Cons in auto)
qed

lemma activate_waiting_evolves: "yields (\<lambda>x. evolves T c (snd x)) (activateWaitingResume h t i c)"
  unfolding activateWaitingResume_def by (rule activate_first_evolves)

lemma recover_expired_after:
  "evolves T c c1 \<Longrightarrow> yields (evolves T c) (recover_expired h new_id vs t c1)"
proof (induction vs arbitrary: c1)
  case Nil
  then show ?case by (simp add: yields_Inr)
next
  case (Cons v vs)
  show ?case
    unfolding recover_expired.simps
    by (intro yields_rules evolves_calls [where T = T and c = c] evolves_more_calls [where T = T and c = c]
        yields_weaken [OF Cons.IH]) (use Cons.prems in auto)
qed

lemma recover_verifications_evolves:
  "yields (\<lambda>x. evolves T c (snd x)) (recover_expired_verifications h new_id t c)"
  unfolding recover_expired_verifications_def Let_def
  by (intro yields_map yields_weaken [OF recover_expired_after]) auto

lemma submit_verification_evolves:
  "yields (\<lambda>x. evolves T c (snd x)) (submit_verification h input t i c)"
  unfolding submit_verification_def
  by (intro yields_rules evolves_rules [where T = T and c = c] evolves_calls [where T = T and c = c]
      yields_check [where m = "case p of (True, Some disc) \<Rightarrow> Inr disc | _ \<Rightarrow> Inl e" for p e])
    (auto split: bool.splits option.splits)

end
