(* ===== verification/RecoverySystem.thy ===== *)
theory RecoverySystem
  imports RecoveryEvolution RecoveryExamples
begin

text \<open>
  Archive Recovery as a whole: any number of workers and operators run the transactions of
  \<open>RecoveryWork\<close>, \<open>Reconciliation\<close> and \<open>DiscVerification\<close> in any order, each with whatever claim
  it holds.  The step relation over them, and what holds of a store and of a claim after any steps.
\<close>

section \<open>Steps\<close>

lemma expire_confirmations_evolves:
  "yields (\<lambda>x. evolves T c (snd x)) (expireInvalidDvdDiscConfirmations h w only t c)"
  by (simp add: expire_confirmations_after)

text \<open>
  A store and the claim tokens that were issued so far.  A claim issues a token that is fresh
  (\<open>randomUUID\<close>).  What happens elsewhere leaves the work alone and, as the exclusion of encode
  work asks of it, lets no encode work begin on an archive that recovery holds.
\<close>

type_synonym recovery_state = "recovery_store \<times> string set"

inductive recovery_step :: "recovery_state \<Rightarrow> recovery_state \<Rightarrow> bool" where
  claimed: "claim_recovery i w t token c = Inr (row, c') \<Longrightarrow> token \<notin> T \<Longrightarrow>
     recovery_step (c, T) (c', insert token T)"
| candidate_claimed: "claimNextVerifiedCandidate h w e t token c = Inr (candidate, c') \<Longrightarrow> token \<notin> T \<Longrightarrow>
     recovery_step (c, T) (c', insert token T)"
| taken_over: "beginInterruptedTakeover claim w e t token c = Inr (taken, c') \<Longrightarrow> token \<notin> T \<Longrightarrow>
     recovery_step (c, T) (c', insert token T)"
| requested: "request_recovery i t c = Inr (row, c') \<Longrightarrow> recovery_step (c, T) (c', T)"
| takeover_deferred: "deferInterruptedTakeover claim t c = Inr (held, c') \<Longrightarrow>
     recovery_step (c, T) (c', T)"
| renewed: "renew_recovery_claim claim t c = Inr (held, c') \<Longrightarrow>
     recovery_step (c, T) (c', T)"
| read_admitted: "admitSourceRead h claim path identity e t c = Inr (admitted, c') \<Longrightarrow>
     recovery_step (c, T) (c', T)"
| bound: "bindVerification claim authority t c = Inr (row, c') \<Longrightarrow>
     recovery_step (c, T) (c', T)"
| resumed: "requestResume h resume t attempt operation i c = Inr (receipt, c') \<Longrightarrow>
     recovery_step (c, T) (c', T)"
| resume_activated: "activateWaitingResume h t i c = Inr (admitted, c') \<Longrightarrow>
     recovery_step (c, T) (c', T)"
| speed_recorded: "recordSpeedRequestResult speed t1 t2 t3 c = Inr (found, c') \<Longrightarrow>
     recovery_step (c, T) (c', T)"
| stop_requested: "requestStop stop t operation c = Inr (receipt, c') \<Longrightarrow>
     recovery_step (c, T) (c', T)"
| stop_prepared: "prepareStop h stopping quiesced t c = Inr (held, c') \<Longrightarrow>
     recovery_step (c, T) (c', T)"
| stopped: "completeStop stopping t c = Inr (found, c') \<Longrightarrow>
     recovery_step (c, T) (c', T)"
| stop_deferred: "deferStop stopping t c = Inr (found, c') \<Longrightarrow>
     recovery_step (c, T) (c', T)"
| stop_failed: "markStopFault stopping code t c = Inr (found, c') \<Longrightarrow>
     recovery_step (c, T) (c', T)"
| settled: "settlePass claim t i c = Inr (found, c') \<Longrightarrow> recovery_step (c, T) (c', T)"
| failed: "markFault claim code storage retain t c = Inr (found, c') \<Longrightarrow>
     recovery_step (c, T) (c', T)"
| released_after_reconciliation: "releaseAfterReconciliation i attempt t c = Inr (found, c') \<Longrightarrow>
     recovery_step (c, T) (c', T)"
| requeued: "requeue_recovery claim t c = Inr (found, c') \<Longrightarrow>
     recovery_step (c, T) (c', T)"
| released: "release_recovery claim t c = Inr (found, c') \<Longrightarrow>
     recovery_step (c, T) (c', T)"
| reconciliation_submitted: "submit_reconciliation key i new t c = Inr (job, c') \<Longrightarrow>
     recovery_step (c, T) (c', T)"
| reconciliations_recovered: "recover_expired_reconciliations t c = Inr (settled_rows, c') \<Longrightarrow>
     recovery_step (c, T) (c', T)"
| reconciliation_claimed: "claim_next_reconciliation w t token c = Inr (opt_job, c') \<Longrightarrow>
     recovery_step (c, T) (c', T)"
| reconciliation_renewed: "renew_reconciliation_claim item t c = Inr (held, c') \<Longrightarrow>
     recovery_step (c, T) (c', T)"
| reconciliation_requeued: "requeue_reconciliation item t c = Inr (opt_job, c') \<Longrightarrow>
     recovery_step (c, T) (c', T)"
| reconciliation_advanced: "set_reconciliation_phase item phase t c = Inr (job, c') \<Longrightarrow>
     recovery_step (c, T) (c', T)"
| reconciliation_completed: "complete_reconciliation item outcome evidence t c = Inr (job, c') \<Longrightarrow>
     recovery_step (c, T) (c', T)"
| reconciliation_failed: "fail_reconciliation item code t c = Inr (opt_job, c') \<Longrightarrow>
     recovery_step (c, T) (c', T)"
| verification_submitted: "submit_verification h input t i c = Inr (seen, c') \<Longrightarrow>
     recovery_step (c, T) (c', T)"
| verifications_recovered: "recover_expired_verifications h new_id t c = Inr (settled_rows, c') \<Longrightarrow>
     recovery_step (c, T) (c', T)"
| verification_claimed: "claim_next_verification w t token c = Inr (opt_seen_row, c') \<Longrightarrow>
     recovery_step (c, T) (c', T)"
| verification_renewed: "renew_verification_claim v t c = Inr (held, c') \<Longrightarrow>
     recovery_step (c, T) (c', T)"
| verification_admitted: "admit_verification_read v identity t t' c = Inr (held, c') \<Longrightarrow>
     recovery_step (c, T) (c', T)"
| finding_appended: "append_finding h v finding t c = Inr (seen, c') \<Longrightarrow>
     recovery_step (c, T) (c', T)"
| verification_completed: "complete_verification h v terminal t i c = Inr (seen, c') \<Longrightarrow>
     recovery_step (c, T) (c', T)"
| verification_failed: "fail_verification v t i c = Inr (opt_seen, c') \<Longrightarrow>
     recovery_step (c, T) (c', T)"
| confirmation_recorded: "record_confirmation h confirmation t i c = Inr (conf, c') \<Longrightarrow>
     recovery_step (c, T) (c', T)"
| confirmation_expired: "expire_confirmation i code t c = Inr (held, c') \<Longrightarrow>
     recovery_step (c, T) (c', T)"
| confirmations_expired: "expireInvalidDvdDiscConfirmations h w only t c = Inr (settled_rows, c') \<Longrightarrow>
     recovery_step (c, T) (c', T)"
| elsewhere: "rs_work c' = rs_work c \<Longrightarrow> (\<And>a. a \<in> held_archives c \<Longrightarrow> encoding c' a \<Longrightarrow> encoding c a) \<Longrightarrow>
     recovery_step (c, T) (c', T)"

lemma yields_snd: "yields (\<lambda>x. Q (snd x)) m \<Longrightarrow> m = Inr (a, c) \<Longrightarrow> Q c"
  by (simp add: yields_def)

lemmas claims_evolve = claim_recovery_evolves [THEN yields_snd]
  candidate_claim_evolves [THEN yields_snd]
  begin_takeover_evolves [THEN yields_snd]

lemmas operations_evolve =
  request_recovery_evolves [where T = "{}", THEN yields_snd]
  defer_takeover_evolves [where T = "{}", THEN yields_snd]
  renew_recovery_evolves [where T = "{}", THEN yields_snd]
  admit_read_evolves [where T = "{}", THEN yields_snd]
  bind_verification_evolves [where T = "{}", THEN yields_snd]
  request_resume_evolves [where T = "{}", THEN yields_snd]
  activate_waiting_evolves [where T = "{}", THEN yields_snd]
  record_speed_evolves [where T = "{}", THEN yields_snd]
  request_stop_evolves [where T = "{}", THEN yields_snd]
  prepare_stop_evolves [where T = "{}", THEN yields_snd]
  complete_stop_evolves [where T = "{}", THEN yields_snd]
  defer_stop_evolves [where T = "{}", THEN yields_snd]
  mark_stop_fault_evolves [where T = "{}", THEN yields_snd]
  settle_pass_evolves [where T = "{}", THEN yields_snd]
  mark_fault_evolves [where T = "{}", THEN yields_snd]
  release_reconciled_evolves [where T = "{}", THEN yields_snd]
  requeue_recovery_evolves [where T = "{}", THEN yields_snd]
  release_recovery_evolves [where T = "{}", THEN yields_snd]
  submit_reconciliation_evolves [where T = "{}", THEN yields_snd]
  recover_reconciliations_evolves [where T = "{}", THEN yields_snd]
  claim_reconciliation_evolves [where T = "{}", THEN yields_snd]
  renew_reconciliation_evolves [where T = "{}", THEN yields_snd]
  requeue_reconciliation_evolves [where T = "{}", THEN yields_snd]
  reconciliation_phase_evolves [where T = "{}", THEN yields_snd]
  complete_reconciliation_evolves [where T = "{}", THEN yields_snd]
  fail_reconciliation_evolves [where T = "{}", THEN yields_snd]
  submit_verification_evolves [where T = "{}", THEN yields_snd]
  recover_verifications_evolves [where T = "{}", THEN yields_snd]
  claim_verification_evolves [where T = "{}", THEN yields_snd]
  renew_verification_evolves [where T = "{}", THEN yields_snd]
  admit_verification_evolves [where T = "{}", THEN yields_snd]
  append_finding_evolves [where T = "{}", THEN yields_snd]
  complete_verification_evolves [where T = "{}", THEN yields_snd]
  fail_verification_evolves [where T = "{}", THEN yields_snd]
  record_confirmation_evolves [where T = "{}", THEN yields_snd]
  expire_confirmation_evolves [where T = "{}", THEN yields_snd]
  expire_confirmations_evolves [where T = "{}", THEN yields_snd]

text \<open>A step evolves the store by fresh tokens, unless it happens elsewhere.\<close>

lemma recovery_step_cases:
  assumes "recovery_step (c, T) (c', T')"
  obtains (transaction) N where "evolves N c c'" and "T' = T \<union> N" and "N \<inter> T = {}"
  | (elsewhere) "rs_work c' = rs_work c" and "\<And>a. a \<in> held_archives c \<Longrightarrow> encoding c' a \<Longrightarrow> encoding c a"
      and "T' = T"
proof -
  from assms show thesis
  proof (cases rule: recovery_step.cases)
    case (elsewhere)
    then show thesis by (intro that(2)) auto
  qed (rule that(1), erule claims_evolve operations_evolve, auto)+
qed

section \<open>Exclusion of encode work\<close>

text \<open>Recovery holds no archive that active encode work uses.\<close>

definition exclusive :: "recovery_store \<Rightarrow> bool" where
  "exclusive c \<longleftrightarrow> (\<forall>a \<in> held_archives c. \<not> encoding c a)"

lemma recovery_step_exclusive:
  assumes "recovery_step S S'" and "exclusive (fst S)"
  shows "exclusive (fst S')"
proof -
  obtain c T c' T' where S: "S = (c, T)" "S' = (c', T')" by (cases S, cases S')
  from assms(1) [unfolded S] show ?thesis
  proof (cases rule: recovery_step_cases)
    case (transaction N)
    with assms(2) S evolves_free show ?thesis by (auto simp: exclusive_def evolves_def encoding_def)
  next
    case elsewhere
    with assms(2) S show ?thesis by (auto simp: exclusive_def held_archives_def)
  qed
qed

section \<open>Superseded claims\<close>

text \<open>A token that was issued, and that no work bears any more.\<close>

definition superseded_token :: "string \<Rightarrow> recovery_state \<Rightarrow> bool" where
  "superseded_token t = (\<lambda>(c, T). t \<in> T \<and> t \<notin> work_tokens c)"

lemma recovery_step_superseded:
  assumes "recovery_step S S'" and "superseded_token t S"
  shows "superseded_token t S'"
proof -
  obtain c T c' T' where S: "S = (c, T)" "S' = (c', T')" by (cases S, cases S')
  from assms(1) [unfolded S] show ?thesis
  proof (cases rule: recovery_step_cases)
    case (transaction N)
    with assms(2) S show ?thesis by (auto simp: superseded_token_def evolves_def)
  next
    case elsewhere
    with assms(2) S show ?thesis by (simp add: superseded_token_def work_tokens_def)
  qed
qed

lemma recovery_steps_superseded:
  "recovery_step\<^sup>*\<^sup>* S S' \<Longrightarrow> superseded_token t S \<Longrightarrow> superseded_token t S'"
  by (induction rule: rtranclp_induct) (auto intro: recovery_step_superseded)

lemma foreign_token_refused:
  assumes "t \<notin> work_tokens c" and "work_claimToken claim = Some t"
  shows "requireCurrentRecoveryClaim c claim
      = Inl (StaleJobAttemptError ''Archive Recovery work'' (work_archiveRecoveryId claim))"
proof -
  have "work_claimToken w \<noteq> Some t" if "findArchiveRecoveryRecord c i a = Some (r, Some w)" for i a r w
    using that assms(1)
    by (auto simp: findArchiveRecoveryRecord_def work_tokens_def bind_eq_Some_conv Let_def
        dest!: find_found split: option.splits if_splits)
  with assms(2) show ?thesis
    by (auto simp: requireCurrentRecoveryClaim_def Let_def split: option.splits)
qed

lemma foreign_token_holds_nothing:
  assumes "t \<notin> work_tokens c" and "work_claimToken claim = Some t" and "w \<in> set (rs_work c)"
  shows "\<not> held_by claim w"
  using assms by (auto simp: held_by_def work_tokens_def column_eq_def split: option.splits)

lemma foreign_token_no_update:
  assumes "t \<notin> work_tokens c" and "work_claimToken claim = Some t"
  shows "update_work_rows (\<lambda>w. claim_held_by claim w \<and> P w) f c = Inr ([], c)"
proof -
  have none: "filter (\<lambda>w. claim_held_by claim w \<and> P w) (rs_work c) = []"
    using foreign_token_holds_nothing [OF assms] by (auto simp: filter_empty_conv claim_held_by_def)
  moreover have "update_where (\<lambda>w. claim_held_by claim w \<and> P w) f (rs_work c) = rs_work c"
    using none by (auto simp: update_where_def filter_empty_conv intro!: map_idI)
  ultimately show ?thesis by (simp add: update_work_rows_def Let_def)
qed



definition example_work :: work_row where
  "example_work = (claimed_by ''worker-1'' ''token-1'' 5 (requested_work example_recovery_row ''t'' 5))
     \<lparr>work_verificationId := Some ''v'', passStartedAt := Some 5, passStartedManifestRevision := Some 1,
      passInitialUnrecoveredSectorCount := Some 5, passObservationCount := Some 0,
      passPositiveIntervalCount := Some 0\<rparr>"

definition example_held_store :: recovery_store where
  "example_held_store = example_store
     \<lparr>rs_recoveries := [example_recovery_row\<lparr>rec_status := Running\<rparr>], rs_work := [example_work]\<rparr>"

text \<open>The store after another worker has taken the work over, its lease having expired.\<close>

definition example_taken_over :: recovery_store where
  "example_taken_over = example_held_store
     \<lparr>rs_work := [claimed_by ''worker-2'' ''token-2'' 900000 example_work]\<rparr>"

lemma example_takeover:
  "beginInterruptedTakeover example_work ''worker-2'' 900000 900000 ''token-2'' example_held_store
     = Inr (Some (claimed_by ''worker-2'' ''token-2'' 900000 example_work), example_taken_over)"
  by code_simp

lemma example_takeover_step:
  "recovery_step\<^sup>*\<^sup>* (example_held_store, {''token-1''}) (example_taken_over, insert ''token-2'' {''token-1''})"
  by (rule r_into_rtranclp, rule taken_over [OF example_takeover]) simp

lemma example_encode_free: "\<not> encoding example_held_store a"
  by (simp add: encoding_def example_held_store_def example_store_def)


text \<open>The new holder settles nothing yet: it renews, and the old one stays refused.\<close>

definition example_renewed :: recovery_store where
  "example_renewed = example_taken_over
     \<lparr>rs_work := [claimed_by ''worker-2'' ''token-2'' 900001 example_work]\<rparr>"

lemma example_renewal_step:
  "recovery_step\<^sup>*\<^sup>* (example_taken_over, {''token-1'', ''token-2''})
     (example_renewed, {''token-1'', ''token-2''})"
proof (rule r_into_rtranclp, rule renewed)
  show "renew_recovery_claim (claimed_by ''worker-2'' ''token-2'' 900000 example_work) 900001 example_taken_over
      = Inr (True, example_renewed)"
    by code_simp
qed


end
