(* ===== verification/DvdScan.thy ===== *)
theory DvdScan
  imports EvidenceDigests FailureReports
begin

text \<open>
  The scan of a DVD: \<open>dvd-scan.ts\<close>, which reads the titles of a disc back from the untyped value
  of a JSON column, and \<open>dvd-metadata-fingerprint.ts\<close>, which gives a disc that cannot be hashed an
  identity made of its titles, its size and its label.
\<close>

section \<open>Title maps\<close>

definition DVD_TITLE_MAP_SCHEMA_VERSION :: int where
  "DVD_TITLE_MAP_SCHEMA_VERSION = 2"

definition MAX_DVD_TITLES :: nat where
  "MAX_DVD_TITLES = 512"

definition MAX_DVD_AUDIO_STREAMS_PER_TITLE :: nat where
  "MAX_DVD_AUDIO_STREAMS_PER_TITLE = 8"

definition MAX_DVD_SUBTITLES_PER_TITLE :: nat where
  "MAX_DVD_SUBTITLES_PER_TITLE = 32"

definition MAX_DVD_SCAN_INTEGER :: int where
  "MAX_DVD_SCAN_INTEGER = 100000"

definition MAX_DVD_STREAM_TEXT_LENGTH :: nat where
  "MAX_DVD_STREAM_TEXT_LENGTH = 64"

record dvd_audio_stream =
  au_id :: int
  au_languageCode :: "string option"
  au_language :: "string option"
  au_format :: "string option"
  au_channels :: "int option"

record dvd_subtitle_stream =
  su_id :: int
  su_languageCode :: "string option"
  su_language :: "string option"
  su_content :: "string option"

record dvd_title =
  dt_number :: int
  dt_durationSeconds :: int
  dt_chapters :: int
  dt_audioStreams :: "dvd_audio_stream list"
  dt_subtitles :: "dvd_subtitle_stream list"

record dvd_title_map =
  tm_contentId :: string
  tm_titles :: "dvd_title list"

section \<open>Identities of discs\<close>

text \<open>The text of a digest under a scheme, \<open>/^scheme:[0-9a-f]{64}$/\<close>.\<close>

definition has_scheme :: "string \<Rightarrow> string \<Rightarrow> bool" where
  "has_scheme scheme text \<longleftrightarrow>
     take (length scheme) text = scheme \<and> is_sha256_hex (drop (length scheme) text)"

definition isDvdContentId :: "string \<Rightarrow> bool" where
  "isDvdContentId text \<longleftrightarrow> has_scheme ''sha256:'' text"

definition isDvdMetadataFingerprint :: "string \<Rightarrow> bool" where
  "isDvdMetadataFingerprint text \<longleftrightarrow> has_scheme ''dvdmeta-sha256:'' text"

definition isDvdFingerprint :: "string \<Rightarrow> bool" where
  "isDvdFingerprint text \<longleftrightarrow> isDvdContentId text \<or> isDvdMetadataFingerprint text"

section \<open>Reading a scan\<close>

fun isRecord :: "js_value \<Rightarrow> bool" where
  "isRecord (JsObject members) = True"
| "isRecord _ = False"

text \<open>An integer in bounds; \<open>None\<close> is the code's \<open>null\<close>.\<close>

definition bounded_integer :: "int \<Rightarrow> int \<Rightarrow> js_value \<Rightarrow> int option" where
  "bounded_integer minimum maximum v =
     (if js_isSafeInteger v \<and> minimum \<le> \<lfloor>js_rat v\<rfloor> \<and> \<lfloor>js_rat v\<rfloor> \<le> maximum
      then Some \<lfloor>js_rat v\<rfloor> else None)"

definition readInteger :: "bool \<Rightarrow> js_value \<Rightarrow> int option" where
  "readInteger positive v = bounded_integer (if positive then 1 else 0) MAX_DVD_SCAN_INTEGER v"

text \<open>\<open>undefined\<close> is \<open>Some None\<close>, a text that is refused \<open>None\<close>.\<close>

fun readOptionalText :: "js_value \<Rightarrow> string option option" where
  "readOptionalText JsUndefined = Some None"
| "readOptionalText (JsString s) =
     (let trimmed = js_trim s in
      if 0 < length trimmed \<and> length trimmed \<le> MAX_DVD_STREAM_TEXT_LENGTH then Some (Some trimmed) else None)"
| "readOptionalText _ = None"

definition readOptionalInteger :: "js_value \<Rightarrow> int option option" where
  "readOptionalInteger v =
     (if v = JsUndefined then Some None else map_option Some (readInteger True v))"

definition decodeAudioStream :: "js_value \<Rightarrow> dvd_audio_stream option" where
  "decodeAudioStream v =
     (if \<not> isRecord v then None
      else Option.bind (readInteger False (js_get v ''id'')) (\<lambda>i.
        Option.bind (readOptionalText (js_get v ''languageCode'')) (\<lambda>languageCode.
        Option.bind (readOptionalText (js_get v ''language'')) (\<lambda>language.
        Option.bind (readOptionalText (js_get v ''format'')) (\<lambda>text_format.
        Option.bind (readOptionalInteger (js_get v ''channels'')) (\<lambda>channels.
          Some \<lparr>au_id = i, au_languageCode = languageCode, au_language = language,
            au_format = text_format, au_channels = channels\<rparr>))))))"

definition decodeSubtitleStream :: "js_value \<Rightarrow> dvd_subtitle_stream option" where
  "decodeSubtitleStream v =
     (if \<not> isRecord v then None
      else Option.bind (readInteger False (js_get v ''id'')) (\<lambda>i.
        Option.bind (readOptionalText (js_get v ''languageCode'')) (\<lambda>languageCode.
        Option.bind (readOptionalText (js_get v ''language'')) (\<lambda>language.
        Option.bind (readOptionalText (js_get v ''content'')) (\<lambda>content.
          Some \<lparr>su_id = i, su_languageCode = languageCode, su_language = language,
            su_content = content\<rparr>)))))"

text \<open>A loop that decodes items and refuses one whose key was seen before.\<close>

fun decode_distinct :: "('v \<Rightarrow> 'a option) \<Rightarrow> ('a \<Rightarrow> int) \<Rightarrow> int list \<Rightarrow> 'v list \<Rightarrow> 'a list option" where
  "decode_distinct decode key seen [] = Some []"
| "decode_distinct decode key seen (item # items) =
     (case decode item of
        None \<Rightarrow> None
      | Some x \<Rightarrow> if key x \<in> set seen then None
          else map_option ((#) x) (decode_distinct decode key (key x # seen) items))"

definition decodeStreamList ::
  "nat \<Rightarrow> (js_value \<Rightarrow> 'a option) \<Rightarrow> ('a \<Rightarrow> int) \<Rightarrow> js_value \<Rightarrow> 'a list option" where
  "decodeStreamList maximumLength decode key v =
     (case v of
        JsArray items \<Rightarrow> if length items > maximumLength then None else decode_distinct decode key [] items
      | _ \<Rightarrow> None)"

definition decodeTitle :: "js_value \<Rightarrow> dvd_title option" where
  "decodeTitle v =
     (if \<not> isRecord v then None
      else Option.bind (readInteger True (js_get v ''number'')) (\<lambda>title_number.
        Option.bind (readInteger False (js_get v ''durationSeconds'')) (\<lambda>durationSeconds.
        Option.bind (readInteger False (js_get v ''chapters'')) (\<lambda>chapters.
        Option.bind (decodeStreamList MAX_DVD_AUDIO_STREAMS_PER_TITLE decodeAudioStream au_id
          (js_get v ''audioStreams'')) (\<lambda>audioStreams.
        Option.bind (decodeStreamList MAX_DVD_SUBTITLES_PER_TITLE decodeSubtitleStream su_id
          (js_get v ''subtitles'')) (\<lambda>subtitles.
          Some \<lparr>dt_number = title_number, dt_durationSeconds = durationSeconds, dt_chapters = chapters,
            dt_audioStreams = audioStreams, dt_subtitles = subtitles\<rparr>))))))"

definition decodeDvdTitleMap :: "js_value \<Rightarrow> dvd_title_map option" where
  "decodeDvdTitleMap v =
     (case (isRecord v, js_get v ''contentId'', js_get v ''titles'') of
        (True, JsString contentId, JsArray titles) \<Rightarrow>
          if js_get v ''schemaVersion'' \<noteq> JsNumber (Finite (of_int DVD_TITLE_MAP_SCHEMA_VERSION))
             \<or> \<not> isDvdFingerprint contentId \<or> titles = [] \<or> length titles > MAX_DVD_TITLES
          then None
          else map_option (\<lambda>decoded. \<lparr>tm_contentId = contentId, tm_titles = decoded\<rparr>)
            (decode_distinct decodeTitle dt_number [] titles)
      | _ \<Rightarrow> None)"

text \<open>A decoded map as the value that the code returns: an object without the texts that are absent.\<close>

definition js_int :: "int \<Rightarrow> js_value" where
  "js_int n = JsNumber (Finite (of_int n))"

definition optional_member :: "string \<Rightarrow> js_value option \<Rightarrow> (string \<times> js_value) list" where
  "optional_member key v = (case v of None \<Rightarrow> [] | Some w \<Rightarrow> [(key, w)])"

definition audio_value :: "dvd_audio_stream \<Rightarrow> js_value" where
  "audio_value s = JsObject ((''id'', js_int (au_id s))
     # optional_member ''languageCode'' (map_option JsString (au_languageCode s))
     @ optional_member ''language'' (map_option JsString (au_language s))
     @ optional_member ''format'' (map_option JsString (au_format s))
     @ optional_member ''channels'' (map_option js_int (au_channels s)))"

definition subtitle_value :: "dvd_subtitle_stream \<Rightarrow> js_value" where
  "subtitle_value s = JsObject ((''id'', js_int (su_id s))
     # optional_member ''languageCode'' (map_option JsString (su_languageCode s))
     @ optional_member ''language'' (map_option JsString (su_language s))
     @ optional_member ''content'' (map_option JsString (su_content s)))"

definition title_value :: "dvd_title \<Rightarrow> js_value" where
  "title_value t = JsObject
     [(''number'', js_int (dt_number t)), (''durationSeconds'', js_int (dt_durationSeconds t)),
      (''chapters'', js_int (dt_chapters t)),
      (''audioStreams'', JsArray (map audio_value (dt_audioStreams t))),
      (''subtitles'', JsArray (map subtitle_value (dt_subtitles t)))]"

definition title_map_value :: "dvd_title_map \<Rightarrow> js_value" where
  "title_map_value m = JsObject
     [(''schemaVersion'', js_int DVD_TITLE_MAP_SCHEMA_VERSION), (''contentId'', JsString (tm_contentId m)),
      (''titles'', JsArray (map title_value (tm_titles m)))]"

text \<open>The titles of scans from before the current schema.\<close>

definition decimal_value :: "string \<Rightarrow> int option" where
  "decimal_value s =
     (case s of
        CHR ''-'' # ds \<Rightarrow> if ds \<noteq> [] \<and> list_all is_digit ds then Some (- int (digits_value ds)) else None
      | ds \<Rightarrow> if ds \<noteq> [] \<and> list_all is_digit ds then Some (int (digits_value ds)) else None)"

definition legacy_numeric :: "js_value \<Rightarrow> js_value" where
  "legacy_numeric v =
     (case v of
        JsString s \<Rightarrow> (case decimal_value (js_trim s) of
            Some n \<Rightarrow> JsNumber (Finite (of_int n)) | None \<Rightarrow> v)
      | _ \<Rightarrow> v)"

definition readLegacyInteger :: "int option \<Rightarrow> int \<Rightarrow> bool \<Rightarrow> js_value \<Rightarrow> int option" where
  "readLegacyInteger defaultValue maximum positive v =
     (case (v, defaultValue) of
        (JsUndefined, Some d) \<Rightarrow> Some d
      | _ \<Rightarrow> bounded_integer (if positive then 1 else 0) maximum (legacy_numeric v))"

definition blank_audio :: "int \<Rightarrow> dvd_audio_stream" where
  "blank_audio i = \<lparr>au_id = i, au_languageCode = None, au_language = None, au_format = None,
     au_channels = None\<rparr>"

definition blank_subtitle :: "int \<Rightarrow> dvd_subtitle_stream" where
  "blank_subtitle i = \<lparr>su_id = i, su_languageCode = None, su_language = None, su_content = None\<rparr>"

definition decode_legacy_title :: "js_value \<Rightarrow> dvd_title option" where
  "decode_legacy_title v =
     (if \<not> isRecord v then None
      else Option.bind (readLegacyInteger None MAX_DVD_SCAN_INTEGER True (js_get v ''number'')) (\<lambda>title_number.
        Option.bind (readLegacyInteger (Some 0) MAX_DVD_SCAN_INTEGER False (js_get v ''seconds'')) (\<lambda>seconds.
        Option.bind (readLegacyInteger (Some 0) MAX_DVD_SCAN_INTEGER False (js_get v ''chapters'')) (\<lambda>chapters.
        Option.bind (readLegacyInteger (Some 0) (int MAX_DVD_AUDIO_STREAMS_PER_TITLE) False
          (js_get v ''audio_streams'')) (\<lambda>audio.
        Option.bind (readLegacyInteger (Some 0) (int MAX_DVD_SUBTITLES_PER_TITLE) False
          (js_get v ''subtitles'')) (\<lambda>subtitles.
          Some \<lparr>dt_number = title_number, dt_durationSeconds = seconds, dt_chapters = chapters,
            dt_audioStreams = map blank_audio [0..audio - 1],
            dt_subtitles = map blank_subtitle [0..subtitles - 1]\<rparr>))))))"

definition decodeArchivedDvdTitles :: "js_value \<Rightarrow> dvd_title list option" where
  "decodeArchivedDvdTitles v =
     (case decodeDvdTitleMap v of
        Some m \<Rightarrow> Some (tm_titles m)
      | None \<Rightarrow>
          (case js_get v ''titles'' of
             JsArray titles \<Rightarrow>
               if \<not> isRecord v
                  \<or> js_get v ''legacySchemaVersion'' \<notin> {JsNumber (Finite 1), JsNumber (Finite 2)}
                  \<or> length titles > MAX_DVD_TITLES
               then None else decode_distinct decode_legacy_title dt_number [] titles
           | _ \<Rightarrow> None))"

section \<open>The fingerprint of the metadata\<close>

definition dvd_metadata_fingerprint_domain :: string where
  "dvd_metadata_fingerprint_domain = nul_terminated ''rip-dvd-metadata-v1''"

definition json_opt_int :: "int option \<Rightarrow> json_value" where
  "json_opt_int n = (case n of None \<Rightarrow> JNull | Some i \<Rightarrow> JInt i)"

definition audio_json :: "dvd_audio_stream \<Rightarrow> json_value" where
  "audio_json s = JObject
     [(''id'', JInt (au_id s)), (''languageCode'', json_option (au_languageCode s)),
      (''language'', json_option (au_language s)), (''format'', json_option (au_format s)),
      (''channels'', json_opt_int (au_channels s))]"

definition subtitle_json :: "dvd_subtitle_stream \<Rightarrow> json_value" where
  "subtitle_json s = JObject
     [(''id'', JInt (su_id s)), (''languageCode'', json_option (su_languageCode s)),
      (''language'', json_option (su_language s)), (''content'', json_option (su_content s))]"

definition title_json :: "dvd_title \<Rightarrow> json_value" where
  "title_json t = JObject
     [(''number'', JInt (dt_number t)), (''durationSeconds'', JInt (dt_durationSeconds t)),
      (''chapters'', JInt (dt_chapters t)),
      (''audioStreams'', JArray (map audio_json (sort_key au_id (dt_audioStreams t)))),
      (''subtitles'', JArray (map subtitle_json (sort_key su_id (dt_subtitles t))))]"

definition metadata_identity :: "int \<Rightarrow> dvd_title list \<Rightarrow> string option \<Rightarrow> json_value" where
  "metadata_identity sizeBytes titles volumeLabel = JObject
     [(''sizeBytes'', JInt sizeBytes),
      (''titles'', JArray (map title_json (sort_key dt_number titles))),
      (''volumeLabel'', JString (case volumeLabel of None \<Rightarrow> '''' | Some label \<Rightarrow> js_trim label))]"

definition createDvdMetadataFingerprint ::
  "(string \<Rightarrow> string) \<Rightarrow> int \<Rightarrow> dvd_title list \<Rightarrow> string option \<Rightarrow> string" where
  "createDvdMetadataFingerprint sha256 sizeBytes titles volumeLabel =
     ''dvdmeta-sha256:'' @
       digest sha256 dvd_metadata_fingerprint_domain (metadata_identity sizeBytes titles volumeLabel)"

end
