(* ===== verification/ArchiveStore.thy ===== *)
theory ArchiveStore
  imports DvdScan SourceSamples RecoveryStore
begin

text \<open>
  Archive Requests and Archive Jobs: the tables of \<open>internal/schema.ts\<close> with their constraints, the
  statements that change them, and how \<open>internal/create-data-access.ts\<close> finds out that two discs
  are the same one.

  A request asks for the archive of a disc; a job is one attempt of a worker to make it.  The
  columns that no modelled operation reads are left out.
\<close>

section \<open>Tables\<close>

datatype archive_request_status =
    Rq_pending | Rq_running | Rq_needs_attention | Rq_cancellation_requested | Rq_fulfilled | Rq_cancelled

datatype archive_job_status = Aj_running | Aj_completed | Aj_failed | Aj_aborted

datatype detected_disc_status =
    Disc_detected | Disc_scanned | Disc_approved | Disc_archived | Disc_rejected

record archive_request =
  aq_id :: string
  aq_detectedDiscId :: string
  aq_rearchiveSourceArchiveId :: "string option"
  aq_evidenceFormat :: "string option"
  aq_status :: archive_request_status
  aq_priority :: int
  aq_cancellationRequestedAt :: "int option"
  aq_fulfilledAt :: "int option"
  aq_cancelledAt :: "int option"
  aq_createdAt :: int
  aq_updatedAt :: int

text \<open>The columns of a read failure, which are all null or belong to a failed job.\<close>

record read_failure_row = scsi_evidence +
  rf_stage :: string
  rf_category :: failure_category
  rf_classifierVersion :: string
  rf_lba :: int
  rf_requestedBlockCount :: int
  rf_retryCount :: int

record archive_job =
  jb_id :: string
  jb_archiveRequestId :: string
  jb_discInspectionId :: "string option"
  jb_detectedDiscId :: string
  jb_originalDiscArchiveId :: "string option"
  jb_evidenceFormat :: "string option"
  jb_attemptOrdinal :: int
  jb_status :: archive_job_status
  jb_priority :: int
  jb_progressPhase :: string
  jb_progressPercent :: int
  jb_progressBytes :: int
  jb_progressEtaSeconds :: "int option"
  jb_lastProgressAt :: int
  jb_claimedBy :: "string option"
  jb_claimToken :: "string option"
  jb_claimedAt :: "int option"
  jb_startedAt :: "int option"
  jb_completedAt :: "int option"
  jb_errorMessage :: "string option"
  jb_failureDetailVersion :: "string option"
  jb_readFailure :: "read_failure_row option"
  jb_createdAt :: int
  jb_updatedAt :: int

record archive_disc_row =
  ad_id :: string
  ad_opticalDriveId :: string
  ad_discKind :: string
  ad_fingerprint :: string
  ad_volumeLabel :: "string option"
  ad_status :: detected_disc_status
  ad_scanData :: js_value
  ad_detectedAt :: int
  ad_updatedAt :: int

record archive_inspection_row = inspection_row +
  in_totalBytes :: "int option"

text \<open>An Original Disc Archive: its integrity columns, and what identifies it and its disc.\<close>

record archive_identity_row = archive_row +
  ia_id :: string
  ia_detectedDiscId :: string
  ia_rearchiveSourceArchiveId :: "string option"
  ia_discKind :: string
  ia_archivePath :: string
  ia_fingerprint :: string
  ia_boundary :: archive_boundary_columns
  ia_sizeBytes :: "int option"
  ia_archivedAt :: int

text \<open>What the process remembers of the progress of a job, beside what it has written.\<close>

record archive_progress_entry =
  ap_token :: string
  ap_lastProgressAt :: int
  ap_latestBytes :: int
  ap_latestEtaSeconds :: "int option"
  ap_latestPercent :: int
  ap_latestPhase :: string
  ap_persistedPercent :: int
  ap_persistedPhase :: string
  ap_persistedAt :: int

datatype archive_receipt =
    Request_receipt archive_request
  | Status_receipt string archive_request_status

record archive_invocation_row =
  ai_key :: string
  ai_operation :: string
  ai_semanticInput :: string
  ai_receipt :: archive_receipt

record archive_store =
  as_requests :: "archive_request list"
  as_jobs :: "archive_job list"
  as_discs :: "archive_disc_row list"
  as_inspections :: "archive_inspection_row list"
  as_drives :: "drive_row list"
  as_archives :: "archive_identity_row list"
  as_contentIds :: "(string \<times> string) list"
  as_invocations :: "archive_invocation_row list"
  as_outcomes :: "(string \<times> string) list"
  as_progress :: "string \<rightharpoonup> archive_progress_entry"
  as_expiredCancellationCursor :: "(int \<times> string) option"

type_synonym 'a archive_transaction = "('a \<times> archive_store) result"

section \<open>Constraints\<close>

definition request_nonterminal :: "archive_request \<Rightarrow> bool" where
  "request_nonterminal r \<longleftrightarrow>
     aq_status r \<in> {Rq_pending, Rq_running, Rq_needs_attention, Rq_cancellation_requested}"

definition request_checks :: "archive_request \<Rightarrow> bool" where
  "request_checks r \<longleftrightarrow>
     ((aq_fulfilledAt r \<noteq> None) = (aq_status r = Rq_fulfilled))
   \<and> ((aq_cancelledAt r \<noteq> None) = (aq_status r = Rq_cancelled))
   \<and> ((aq_cancellationRequestedAt r \<noteq> None)
      = (aq_status r \<in> {Rq_cancellation_requested, Rq_cancelled}))
   \<and> aq_evidenceFormat r \<in> {None, Some DVD_RECOVERY_EVIDENCE_FORMAT}"

definition ARCHIVE_RUNNING_PROGRESS_PHASES :: "string list" where
  "ARCHIVE_RUNNING_PROGRESS_PHASES = [''preparing'', ''copying'', ''verifying'', ''finalizing'']"

definition ARCHIVE_READ_FAILURE_STAGES :: "string list" where
  "ARCHIVE_READ_FAILURE_STAGES = [''initial_copy'', ''rescue_resume'']"

definition ARCHIVE_READ_FAILURE_CATEGORIES :: "failure_category list" where
  "ARCHIVE_READ_FAILURE_CATEGORIES = [Unknown_failure, Not_ready, Unit_attention, Hardware_error,
     Transport_error, Protection_error, Out_of_range_failure]"

definition ARCHIVE_FAILURE_DETAIL_VERSION :: string where
  "ARCHIVE_FAILURE_DETAIL_VERSION = ''archive-failure-detail-v1''"

definition column_between :: "int \<Rightarrow> int \<Rightarrow> int option \<Rightarrow> bool" where
  "column_between lower upper v \<longleftrightarrow> (case v of None \<Rightarrow> True | Some n \<Rightarrow> lower \<le> n \<and> n \<le> upper)"

text \<open>SQLite's \<open>length\<close> of a text counts the characters before the first NUL.\<close>

definition sqlite_length :: "string \<Rightarrow> nat" where
  "sqlite_length s = length (takeWhile (\<lambda>c. c \<noteq> CHR 0x00) s)"

text \<open>\<open>archive_jobs_read_failure_shape_check\<close>, where the columns are not all null.\<close>

definition read_failure_shape :: "read_failure_row \<Rightarrow> bool" where
  "read_failure_shape f \<longleftrightarrow>
     rf_stage f \<in> set ARCHIVE_READ_FAILURE_STAGES
   \<and> rf_category f \<in> set ARCHIVE_READ_FAILURE_CATEGORIES
   \<and> 1 \<le> sqlite_length (rf_classifierVersion f) \<and> sqlite_length (rf_classifierVersion f) \<le> 128
   \<and> 0 \<le> rf_lba f
   \<and> 1 \<le> rf_requestedBlockCount f \<and> rf_requestedBlockCount f \<le> 4294967295
   \<and> 0 \<le> rf_retryCount f \<and> rf_retryCount f \<le> 4294967295
   \<and> column_between 0 255 (scsiStatus f) \<and> column_between 0 65535 (hostStatus f)
   \<and> column_between 0 65535 (driverStatus f) \<and> column_between 0 15 (senseKey f)
   \<and> column_between 0 255 (ev_asc f) \<and> column_between 0 255 (ev_ascq f)
   \<and> (scsiStatus f = None \<longleftrightarrow> hostStatus f = None) \<and> (scsiStatus f = None \<longleftrightarrow> driverStatus f = None)
   \<and> (ev_asc f = None \<longleftrightarrow> ev_ascq f = None)"

text \<open>
  \<open>archive_jobs_read_failure_category_evidence_check\<close>.  The disjuncts begin with the tests that
  the columns are not null, so the value is never NULL where it is not true.
\<close>

definition failure_sense :: "read_failure_row \<Rightarrow> bool" where
  "failure_sense f \<longleftrightarrow>
     (case (scsiStatus f, hostStatus f, driverStatus f, senseKey f) of
        (Some scsi, Some host, Some driver, Some key) \<Rightarrow>
          scsi AND 254 = 2 \<and> host = 0 \<and> driver AND 15 \<in> {0, 8} \<and> ev_asc f \<noteq> None \<and> ev_ascq f \<noteq> None
      | _ \<Rightarrow> False)"

definition failure_transport :: "read_failure_row \<Rightarrow> bool" where
  "failure_transport f \<longleftrightarrow>
     (case (scsiStatus f, hostStatus f, driverStatus f) of
        (Some scsi, Some host, Some driver) \<Rightarrow> host \<noteq> 0 \<or> driver AND 15 \<in> {1, 2, 4, 6}
      | _ \<Rightarrow> False)"

definition read_failure_category_evidence :: "read_failure_row \<Rightarrow> bool" where
  "read_failure_category_evidence f \<longleftrightarrow>
     (case rf_category f of
        Unknown_failure \<Rightarrow> True
      | Not_ready \<Rightarrow> failure_sense f \<and> senseKey f = Some 2
      | Unit_attention \<Rightarrow> failure_sense f \<and> senseKey f = Some 6
      | Hardware_error \<Rightarrow> failure_sense f \<and> senseKey f = Some 4
      | Transport_error \<Rightarrow> failure_transport f
      | Protection_error \<Rightarrow> failure_sense f
          \<and> (senseKey f = Some 7 \<or> (senseKey f = Some 5 \<and> ev_asc f = Some 111))
      | Out_of_range_failure \<Rightarrow> failure_sense f \<and> senseKey f = Some 5 \<and> ev_asc f = Some 33 \<and> ev_ascq f = Some 0
      | Medium_error \<Rightarrow> False)"

definition job_checks :: "archive_job \<Rightarrow> bool" where
  "job_checks j \<longleftrightarrow>
     0 \<le> jb_progressPercent j \<and> jb_progressPercent j \<le> 100
   \<and> 0 \<le> jb_progressBytes j
   \<and> (case jb_progressEtaSeconds j of None \<Rightarrow> True | Some eta \<Rightarrow> 0 \<le> eta)
   \<and> jb_progressPhase j \<in> set ARCHIVE_RUNNING_PROGRESS_PHASES
   \<and> 0 < jb_attemptOrdinal j
   \<and> (if jb_status j = Aj_running
      then jb_claimedBy j \<noteq> None \<and> jb_claimToken j \<noteq> None \<and> jb_claimedAt j \<noteq> None
        \<and> jb_startedAt j \<noteq> None \<and> jb_completedAt j = None
      else jb_startedAt j \<noteq> None \<and> jb_completedAt j \<noteq> None)
   \<and> (jb_failureDetailVersion j = None
      \<or> (jb_status j = Aj_failed \<and> jb_failureDetailVersion j = Some ARCHIVE_FAILURE_DETAIL_VERSION))
   \<and> (case jb_readFailure j of
        None \<Rightarrow> True
      | Some f \<Rightarrow> jb_status j = Aj_failed \<and> read_failure_shape f \<and> read_failure_category_evidence f)
   \<and> jb_evidenceFormat j \<in> {None, Some DVD_RECOVERY_EVIDENCE_FORMAT}"

text \<open>The failed read that proves where a disc ends, as the boundary columns hold it.\<close>

definition out_of_range_check :: "archive_boundary_columns \<Rightarrow> bool" where
  "out_of_range_check b \<longleftrightarrow>
     (case read_failure_columns b of
        None \<Rightarrow> False
      | Some e \<Rightarrow>
          1 \<le> sqlite_length (out_of_range_evidence.classifierVersion e) \<and> sqlite_length (out_of_range_evidence.classifierVersion e) \<le> 128
        \<and> 0 \<le> out_of_range_evidence.scsiStatus e \<and> out_of_range_evidence.scsiStatus e \<le> 255
        \<and> out_of_range_evidence.scsiStatus e AND 254 = 2
        \<and> out_of_range_evidence.hostStatus e = 0
        \<and> 0 \<le> out_of_range_evidence.driverStatus e \<and> out_of_range_evidence.driverStatus e \<le> 65535
        \<and> out_of_range_evidence.driverStatus e AND 15 \<in> {0, 8}
        \<and> out_of_range_evidence.senseResponseCode e \<in> {112, 114} \<and> out_of_range_evidence.senseKey e = 5
        \<and> out_of_range_evidence.asc e = 33 \<and> out_of_range_evidence.ascq e = 0)"

definition no_out_of_range :: "archive_boundary_columns \<Rightarrow> bool" where
  "no_out_of_range b \<longleftrightarrow> list_all id (drop 4 (null_columns b))"

text \<open>\<open>original_disc_archives_boundary_evidence_check\<close> and the check of the policy version.\<close>

definition boundary_columns_check :: "string \<Rightarrow> int option \<Rightarrow> archive_boundary_columns \<Rightarrow> bool" where
  "boundary_columns_check discKind size_bytes b \<longleftrightarrow>
     list_all id (null_columns b)
   \<or> (discKind = ''dvd''
      \<and> (case (boundaryPolicyVersion b, boundaryReportedSizeBytes b, boundaryPublishedSizeBytes b,
             boundaryExcludedSectorCount b) of
           (Some policy, Some reported, Some published, Some excluded) \<Rightarrow>
             1 \<le> reported \<and> reported \<le> 9000000000 \<and> size_bytes = Some published
           \<and> ((policy = ''dvd-archive-boundary-v1'' \<and> published = reported \<and> excluded = 0
               \<and> no_out_of_range b)
             \<or> (policy = ''dvd-archive-boundary-v2'' \<and> reported mod 2048 = 0 \<and> published = reported
               \<and> excluded = 0 \<and> boundaryFirstExcludedLba b = Some (published div 2048)
               \<and> boundaryMaximumReferencedLba b = None \<and> out_of_range_check b)
             \<or> (policy = ''dvd-archive-boundary-v1'' \<and> reported mod 2048 = 0 \<and> published mod 2048 = 0
               \<and> 2048 \<le> published \<and> published \<le> reported - 2048
               \<and> excluded = (reported - published) div 2048
               \<and> boundaryFirstExcludedLba b = Some (published div 2048)
               \<and> (case boundaryMaximumReferencedLba b of None \<Rightarrow> False
                  | Some lba \<Rightarrow> 0 \<le> lba \<and> lba \<le> published div 2048 - 1)
               \<and> out_of_range_check b))
         | _ \<Rightarrow> False))"

text \<open>
  \<open>original_disc_archives_integrity_evidence_check\<close> and the check of the revision.  A comparison
  with a null policy version is NULL, and a check that is NULL passes.
\<close>

definition integrity_columns_check :: "'a archive_row_scheme \<Rightarrow> bool" where
  "integrity_columns_check a \<longleftrightarrow>
     (case arc_integrityEvidenceRevision a of
        None \<Rightarrow> True
      | Some n \<Rightarrow> 0 < n \<and> arc_integrity a \<in> {Clean_read, Incomplete_read}
          \<and> arc_integrityPolicyVersion a \<in> {None, Some DVD_RECOVERY_EVIDENCE_FORMAT})
   \<and> (case arc_integrity a of
        Unknown_integrity \<Rightarrow>
          arc_integrityPolicyVersion a = None \<and> arc_badSectorCount a = None \<and> arc_badAreaCount a = None
        \<and> arc_badSectorRanges a = None \<and> arc_badSectorCountsByTitle a = None
      | Clean_read \<Rightarrow>
          (case arc_integrityPolicyVersion a of None \<Rightarrow> False
           | Some v \<Rightarrow> 1 \<le> sqlite_length v \<and> sqlite_length v \<le> 128)
        \<and> arc_badSectorCount a = Some 0 \<and> arc_badAreaCount a = Some 0
        \<and> arc_badSectorRanges a = Some [] \<and> arc_badSectorCountsByTitle a = None
      | Incomplete_read \<Rightarrow>
          arc_integrityPolicyVersion a \<in> {None, Some DVD_RECOVERY_EVIDENCE_FORMAT}
        \<and> (case arc_badSectorCount a of None \<Rightarrow> False | Some n \<Rightarrow> 0 < n)
        \<and> (case arc_badAreaCount a of None \<Rightarrow> False | Some n \<Rightarrow> 0 < n)
        \<and> arc_badSectorRanges a \<noteq> None \<and> arc_badSectorCountsByTitle a = None
      | Watchable_salvage \<Rightarrow>
          (case arc_integrityPolicyVersion a of None \<Rightarrow> False
           | Some v \<Rightarrow> 1 \<le> sqlite_length v \<and> sqlite_length v \<le> 128
               \<and> (v = ''dvd-watchable-salvage-v1'' \<or> arc_badSectorCountsByTitle a \<noteq> None))
        \<and> (case arc_badSectorCount a of None \<Rightarrow> False | Some n \<Rightarrow> 0 < n)
        \<and> (case arc_badAreaCount a of None \<Rightarrow> False | Some n \<Rightarrow> 0 < n)
        \<and> arc_badSectorRanges a \<noteq> None)"

definition archive_checks :: "archive_identity_row \<Rightarrow> bool" where
  "archive_checks a \<longleftrightarrow>
     ia_rearchiveSourceArchiveId a \<noteq> Some (ia_id a)
   \<and> (case ia_sizeBytes a of None \<Rightarrow> True | Some n \<Rightarrow> 0 \<le> n)
   \<and> boundary_columns_check (ia_discKind a) (ia_sizeBytes a) (ia_boundary a)
   \<and> integrity_columns_check a"

text \<open>The unique indexes.\<close>

definition first_archive :: "archive_identity_row \<Rightarrow> bool" where
  "first_archive a \<longleftrightarrow> ia_rearchiveSourceArchiveId a = None"

definition archives_unique :: "archive_identity_row list \<Rightarrow> bool" where
  "archives_unique rows \<longleftrightarrow>
     distinct (map ia_id rows) \<and> distinct (map ia_archivePath rows)
   \<and> distinct (map ia_detectedDiscId (filter first_archive rows))
   \<and> distinct (map ia_fingerprint (filter first_archive rows))"


definition requests_unique :: "archive_request list \<Rightarrow> bool" where
  "requests_unique rows \<longleftrightarrow>
     distinct (map aq_id rows) \<and> distinct (map aq_detectedDiscId (filter request_nonterminal rows))"

definition job_running :: "archive_job \<Rightarrow> bool" where
  "job_running j \<longleftrightarrow> jb_status j = Aj_running"

definition jobs_unique :: "archive_job list \<Rightarrow> bool" where
  "jobs_unique rows \<longleftrightarrow>
     distinct (map jb_id rows)
   \<and> distinct (map (\<lambda>j. (jb_archiveRequestId j, jb_attemptOrdinal j)) rows)
   \<and> distinct (map jb_archiveRequestId (filter job_running rows))"

section \<open>Statements\<close>

definition update_requests ::
  "(archive_request \<Rightarrow> bool) \<Rightarrow> (archive_request \<Rightarrow> archive_request) \<Rightarrow> archive_store
     \<Rightarrow> archive_request list archive_transaction" where
  "update_requests P f c =
     (let changed = map f (filter P (as_requests c)); rows = update_where P f (as_requests c) in
      if \<not> list_all request_checks changed then Inl check_failed
      else if \<not> requests_unique rows then Inl unique_failed
      else Inr (changed, c\<lparr>as_requests := rows\<rparr>))"

definition insert_request :: "archive_request \<Rightarrow> archive_store \<Rightarrow> archive_request archive_transaction" where
  "insert_request r c =
     (let rows = as_requests c @ [r] in
      if \<not> request_checks r then Inl check_failed
      else if \<not> requests_unique rows then Inl unique_failed
      else Inr (r, c\<lparr>as_requests := rows\<rparr>))"

definition update_jobs ::
  "(archive_job \<Rightarrow> bool) \<Rightarrow> (archive_job \<Rightarrow> archive_job) \<Rightarrow> archive_store
     \<Rightarrow> archive_job list archive_transaction" where
  "update_jobs P f c =
     (let changed = map f (filter P (as_jobs c)); rows = update_where P f (as_jobs c) in
      if \<not> list_all job_checks changed then Inl check_failed
      else if \<not> jobs_unique rows then Inl unique_failed
      else Inr (changed, c\<lparr>as_jobs := rows\<rparr>))"

definition insert_job :: "archive_job \<Rightarrow> archive_store \<Rightarrow> archive_job archive_transaction" where
  "insert_job j c =
     (let rows = as_jobs c @ [j] in
      if \<not> job_checks j then Inl check_failed
      else if \<not> jobs_unique rows then Inl unique_failed
      else Inr (j, c\<lparr>as_jobs := rows\<rparr>))"

definition update_discs ::
  "(archive_disc_row \<Rightarrow> bool) \<Rightarrow> (archive_disc_row \<Rightarrow> archive_disc_row) \<Rightarrow> archive_store
     \<Rightarrow> archive_disc_row list \<times> archive_store" where
  "update_discs P f c =
     (map f (filter P (as_discs c)), c\<lparr>as_discs := update_where P f (as_discs c)\<rparr>)"

definition update_archives ::
  "(archive_identity_row \<Rightarrow> bool) \<Rightarrow> (archive_identity_row \<Rightarrow> archive_identity_row) \<Rightarrow> archive_store
     \<Rightarrow> archive_identity_row list archive_transaction" where
  "update_archives P f c =
     (let changed = map f (filter P (as_archives c)); rows = update_where P f (as_archives c) in
      if \<not> list_all archive_checks changed then Inl check_failed
      else if \<not> archives_unique rows then Inl unique_failed
      else Inr (changed, c\<lparr>as_archives := rows\<rparr>))"

definition insert_archive :: "archive_identity_row \<Rightarrow> archive_store \<Rightarrow> archive_identity_row archive_transaction" where
  "insert_archive a c =
     (let rows = as_archives c @ [a] in
      if \<not> archive_checks a then Inl check_failed
      else if \<not> archives_unique rows then Inl unique_failed
      else Inr (a, c\<lparr>as_archives := rows\<rparr>))"

text \<open>\<open>requireRow(update(...).returning().get(), description, id)\<close>.\<close>

definition must_update_request ::
  "string \<Rightarrow> (archive_request \<Rightarrow> bool) \<Rightarrow> (archive_request \<Rightarrow> archive_request) \<Rightarrow> archive_store
     \<Rightarrow> archive_request archive_transaction" where
  "must_update_request i P f c =
     and_then (update_requests P f c) (\<lambda>(rows, c').
       map_sum id (\<lambda>r. (r, c')) (requireRow (first_row rows) ''archive request'' i))"

definition must_update_job ::
  "string \<Rightarrow> (archive_job \<Rightarrow> bool) \<Rightarrow> (archive_job \<Rightarrow> archive_job) \<Rightarrow> archive_store
     \<Rightarrow> archive_job archive_transaction" where
  "must_update_job i P f c =
     and_then (update_jobs P f c) (\<lambda>(rows, c').
       case first_row rows of
         None \<Rightarrow> Inl (StaleJobAttemptError ''archive job'' i)
       | Some j \<Rightarrow> Inr (j, c'))"

definition find_request :: "archive_store \<Rightarrow> string \<Rightarrow> archive_request option" where
  "find_request c i = find (\<lambda>r. aq_id r = i) (as_requests c)"

definition find_archive_job :: "archive_store \<Rightarrow> string \<Rightarrow> archive_job option" where
  "find_archive_job c i = find (\<lambda>j. jb_id j = i) (as_jobs c)"

definition find_disc :: "archive_store \<Rightarrow> string \<Rightarrow> archive_disc_row option" where
  "find_disc c i = find (\<lambda>d. ad_id d = i) (as_discs c)"

definition find_archive :: "archive_store \<Rightarrow> string \<Rightarrow> archive_identity_row option" where
  "find_archive c i = find (\<lambda>a. ia_id a = i) (as_archives c)"

definition readArchiveInvocation ::
  "archive_store \<Rightarrow> string \<Rightarrow> string \<Rightarrow> string \<Rightarrow> archive_receipt option result" where
  "readArchiveInvocation c mutationKey operation semanticInput =
     (case find (\<lambda>m. ai_key m = mutationKey) (as_invocations c) of
        None \<Rightarrow> Inr None
      | Some previous \<Rightarrow>
          if ai_operation previous \<noteq> operation \<or> ai_semanticInput previous \<noteq> semanticInput
          then Inl mutation_key_conflict
          else Inr (Some (ai_receipt previous)))"

definition recordArchiveInvocation ::
  "string \<Rightarrow> string \<Rightarrow> string \<Rightarrow> archive_receipt \<Rightarrow> archive_store \<Rightarrow> archive_store result" where
  "recordArchiveInvocation mutationKey operation semanticInput receipt c =
     (if list_ex (\<lambda>m. ai_key m = mutationKey) (as_invocations c) then Inl unique_failed
      else Inr (c\<lparr>as_invocations := as_invocations c
        @ [\<lparr>ai_key = mutationKey, ai_operation = operation, ai_semanticInput = semanticInput,
            ai_receipt = receipt\<rparr>]\<rparr>))"

section \<open>Identities of discs\<close>

definition ACTIVE_ARCHIVE_REQUEST_IDENTITY_LIMIT :: nat where
  "ACTIVE_ARCHIVE_REQUEST_IDENTITY_LIMIT = 256"

definition DVD_METADATA_FINGERPRINT_RECONCILIATION_LIMIT :: nat where
  "DVD_METADATA_FINGERPRINT_RECONCILIATION_LIMIT = 4096"

text \<open>The tests of a loop may throw; \<open>some\<close> stops at the first that holds.\<close>

fun filter_result :: "('a \<Rightarrow> bool result) \<Rightarrow> 'a list \<Rightarrow> 'a list result" where
  "filter_result P [] = Inr []"
| "filter_result P (x # xs) =
     and_then (P x) (\<lambda>b. map_sum id (\<lambda>ys. if b then x # ys else ys) (filter_result P xs))"

fun some_result :: "('a \<Rightarrow> bool result) \<Rightarrow> 'a list \<Rightarrow> bool result" where
  "some_result P [] = Inr False"
| "some_result P (x # xs) = and_then (P x) (\<lambda>b. if b then Inr True else some_result P xs)"

definition reported_size :: "archive_identity_row \<Rightarrow> int option" where
  "reported_size a =
     (case boundaryReportedSizeBytes (ia_boundary a) of Some n \<Rightarrow> Some n | None \<Rightarrow> ia_sizeBytes a)"

definition metadata_matches ::
  "(string \<Rightarrow> string) \<Rightarrow> archive_identity_row \<Rightarrow> archive_disc_row \<Rightarrow> string \<Rightarrow> bool" where
  "metadata_matches sha256 a d alias \<longleftrightarrow>
     (case (decodeDvdTitleMap (ad_scanData d), reported_size a) of
        (Some scan, Some bytes) \<Rightarrow>
          createDvdMetadataFingerprint sha256 bytes (tm_titles scan) (ad_volumeLabel d) = alias
      | _ \<Rightarrow> False)"

definition findOriginalArchiveByFingerprintOrContentIdAlias ::
  "(string \<Rightarrow> string) \<Rightarrow> archive_store \<Rightarrow> string \<Rightarrow> archive_identity_row option result" where
  "findOriginalArchiveByFingerprintOrContentIdAlias sha256 c alias =
     (let direct = earliest_by (\<lambda>a. (ia_archivedAt a, ia_id a))
            (filter (\<lambda>a. ia_fingerprint a = alias \<or> (ia_id a, alias) \<in> set (as_contentIds c))
              (as_archives c)) in
      if direct \<noteq> None \<or> \<not> isDvdMetadataFingerprint alias then Inr direct
      else
        let candidates = sort_key ia_id
              (filter (\<lambda>a. find_disc c (ia_detectedDiscId a) \<noteq> None \<and> ia_discKind a = ''dvd''
                 \<and> reported_size a \<noteq> None) (as_archives c)) in
        if length candidates > DVD_METADATA_FINGERPRINT_RECONCILIATION_LIMIT
        then Inl (DomainInvariantError ''DVD metadata fingerprint reconciliation exceeds its safety limit'')
        else
          let matches = filter (\<lambda>a. metadata_matches sha256 a (the (find_disc c (ia_detectedDiscId a))) alias)
                candidates in
          if length matches > 1
          then Inl (DomainInvariantError ''DVD metadata fingerprint matches multiple Original Disc Archives'')
          else Inr (first_row matches))"

definition originalArchiveMatchesFingerprintOrContentIdAlias ::
  "(string \<Rightarrow> string) \<Rightarrow> archive_store \<Rightarrow> string \<Rightarrow> string \<Rightarrow> bool result" where
  "originalArchiveMatchesFingerprintOrContentIdAlias sha256 c archiveId alias =
     (case find_archive c archiveId of
        None \<Rightarrow> Inr False
      | Some a \<Rightarrow>
          (case find_disc c (ia_detectedDiscId a) of
             None \<Rightarrow> Inr False
           | Some d \<Rightarrow>
               let contentIds = map snd (filter (\<lambda>row. fst row = archiveId) (as_contentIds c)) in
               if length contentIds > DVD_METADATA_FINGERPRINT_RECONCILIATION_LIMIT
               then Inl (DomainInvariantError
                 ''Original Disc Archive content identity aliases exceed the safety limit'')
               else Inr (ia_fingerprint a = alias \<or> alias \<in> set contentIds
                 \<or> (isDvdMetadataFingerprint alias \<and> metadata_matches sha256 a d alias))))"

definition originalArchivesShareDiscIdentity ::
  "(string \<Rightarrow> string) \<Rightarrow> archive_store \<Rightarrow> string \<Rightarrow> string \<Rightarrow> bool result" where
  "originalArchivesShareDiscIdentity sha256 c first_id second_id =
     (if first_id = second_id then Inr True
      else case (find_archive c first_id, find_archive c second_id) of
        (Some a, Some b) \<Rightarrow>
          and_then (originalArchiveMatchesFingerprintOrContentIdAlias sha256 c first_id (ia_fingerprint b))
            (\<lambda>matches. if matches then Inr True
              else originalArchiveMatchesFingerprintOrContentIdAlias sha256 c second_id (ia_fingerprint a))
      | _ \<Rightarrow> Inr False)"

text \<open>\<open>unresolvedLegacyDvdArchiveIdentity\<close>: an archive under a name from before content identities.\<close>

definition unresolved_legacy_identity :: "archive_store \<Rightarrow> archive_identity_row \<Rightarrow> bool" where
  "unresolved_legacy_identity c a \<longleftrightarrow>
     ia_discKind a = ''dvd'' \<and> \<not> isDvdContentId (ia_fingerprint a)
   \<and> ia_id a \<notin> set (map fst (as_contentIds c))"

definition requireLegacyDvdArchiveIdentitiesResolved ::
  "archive_store \<Rightarrow> string \<Rightarrow> string \<Rightarrow> unit result" where
  "requireLegacyDvdArchiveIdentitiesResolved c discKind fingerprint =
     invariant_if (discKind = ''dvd'' \<and> isDvdContentId fingerprint
         \<and> list_ex (unresolved_legacy_identity c) (as_archives c))
       ''Legacy DVD archive content identities must be reconciled before Archive Jobs can advance''"

definition assertDvdRecoveryEvidenceAdmissionAvailable :: "string option \<Rightarrow> unit result" where
  "assertDvdRecoveryEvidenceAdmissionAvailable evidence_format =
     reject_if (evidence_format = Some DVD_RECOVERY_EVIDENCE_FORMAT)
       DvdRecoveryEvidenceAdmissionClosedError"

section \<open>Sizes that discs declare\<close>

definition uniqueDeclaredByteCount :: "int option list \<Rightarrow> int option" where
  "uniqueDeclaredByteCount byteCounts =
     (case remdups (concat (map (\<lambda>n. case n of None \<Rightarrow> [] | Some i \<Rightarrow> [i]) byteCounts)) of
        [n] \<Rightarrow> Some n | _ \<Rightarrow> None)"

definition currentDeclaredByteCountForDetectedDisc :: "archive_store \<Rightarrow> string \<Rightarrow> int option" where
  "currentDeclaredByteCountForDetectedDisc c disc =
     uniqueDeclaredByteCount (map in_totalBytes
       (filter (\<lambda>n. in_detectedDiscId n = Some disc \<and> in_isCurrent n \<and> in_status n = ''completed'')
         (as_inspections c)))"

definition find_archive_inspection :: "archive_store \<Rightarrow> string \<Rightarrow> archive_inspection_row option" where
  "find_archive_inspection c i = find (\<lambda>n. in_id n = i) (as_inspections c)"

definition attemptedDeclaredByteCountsForArchiveRequest :: "archive_store \<Rightarrow> string \<Rightarrow> int option list" where
  "attemptedDeclaredByteCountsForArchiveRequest c request_id =
     filter (\<lambda>n. n \<noteq> None)
       (map (\<lambda>j. Option.bind (Option.bind (jb_discInspectionId j) (find_archive_inspection c)) in_totalBytes)
         (filter (\<lambda>j. jb_archiveRequestId j = request_id) (as_jobs c)))"

definition attemptedDeclaredByteCountForArchiveRequest :: "archive_store \<Rightarrow> string \<Rightarrow> int option" where
  "attemptedDeclaredByteCountForArchiveRequest c request_id =
     uniqueDeclaredByteCount (attemptedDeclaredByteCountsForArchiveRequest c request_id)"

definition declaredByteCountForArchiveRequest :: "archive_store \<Rightarrow> archive_request \<Rightarrow> string \<Rightarrow> int option" where
  "declaredByteCountForArchiveRequest c request requested_disc =
     (let attempted = attemptedDeclaredByteCountsForArchiveRequest c (aq_id request) in
      if attempted \<noteq> [] then uniqueDeclaredByteCount attempted
      else case aq_rearchiveSourceArchiveId request of
        Some source \<Rightarrow> Option.bind (find_archive c source) reported_size
      | None \<Rightarrow> uniqueDeclaredByteCount (map in_totalBytes
          (filter (\<lambda>n. in_detectedDiscId n = Some requested_disc \<and> in_status n = ''completed'')
            (as_inspections c))))"

section \<open>Requests for the disc in the drive\<close>

text \<open>A request with the disc that it asks for.\<close>

type_synonym request_candidate = "archive_request \<times> archive_disc_row"

definition joined_requests :: "archive_store \<Rightarrow> request_candidate list" where
  "joined_requests c =
     concat (map (\<lambda>r. case find_disc c (aq_detectedDiscId r) of None \<Rightarrow> [] | Some d \<Rightarrow> [(r, d)])
       (as_requests c))"

definition requiredArchiveRequestDiscStatus :: "archive_request \<Rightarrow> detected_disc_status" where
  "requiredArchiveRequestDiscStatus r =
     (if aq_rearchiveSourceArchiveId r = None then Disc_approved else Disc_archived)"

definition archiveRequestMatchesDvdContinuationDiscIdentity ::
  "(string \<Rightarrow> string) \<Rightarrow> archive_store \<Rightarrow> archive_disc_row \<Rightarrow> request_candidate \<Rightarrow> bool result" where
  "archiveRequestMatchesDvdContinuationDiscIdentity sha256 c disc candidate =
     (let (request, requested) = candidate;
          content_id = (\<lambda>d. map_option tm_contentId (decodeDvdTitleMap (ad_scanData d))) in
      if ad_discKind disc \<noteq> ''dvd'' \<or> ad_status requested \<noteq> requiredArchiveRequestDiscStatus request
      then Inr False
      else map_sum id (\<lambda>matches. content_id disc = Some (ad_fingerprint disc) \<and> matches)
        (case aq_rearchiveSourceArchiveId request of
           None \<Rightarrow> Inr (content_id requested = Some (ad_fingerprint disc))
         | Some source \<Rightarrow>
             originalArchiveMatchesFingerprintOrContentIdAlias sha256 c source (ad_fingerprint disc)))"

definition archiveRequestMatchesDvdContinuationIdentity ::
  "(string \<Rightarrow> string) \<Rightarrow> archive_store \<Rightarrow> archive_disc_row \<Rightarrow> int option \<Rightarrow> request_candidate
     \<Rightarrow> int option \<Rightarrow> bool result" where
  "archiveRequestMatchesDvdContinuationIdentity sha256 c disc current_bytes candidate request_bytes =
     (if current_bytes = None \<or> request_bytes = None then Inr False
      else map_sum id (\<lambda>matches. matches \<and> request_bytes = current_bytes)
        (archiveRequestMatchesDvdContinuationDiscIdentity sha256 c disc candidate))"

text \<open>The pending requests of a kind of disc, the first to be served first.\<close>

definition pending_candidates :: "archive_store \<Rightarrow> string \<Rightarrow> string \<Rightarrow> request_candidate list" where
  "pending_candidates c discKind fingerprint =
     sort_key (\<lambda>(r, d). (- aq_priority r, aq_createdAt r, aq_id r))
       (filter (\<lambda>(r, d). aq_status r = Rq_pending \<and> ad_discKind d = discKind
            \<and> (ad_fingerprint d = fingerprint \<or> aq_rearchiveSourceArchiveId r \<noteq> None))
         (joined_requests c))"

definition pending_limit_exceeded :: js_error where
  "pending_limit_exceeded = DomainInvariantError
     ''Pending Archive Request identity lookup exceeds the safety limit''"

definition hasPendingArchiveRequestForDisc ::
  "(string \<Rightarrow> string) \<Rightarrow> archive_store \<Rightarrow> bool \<Rightarrow> archive_disc_row \<Rightarrow> bool result" where
  "hasPendingArchiveRequestForDisc sha256 c admittedOnly disc =
     (let candidates = pending_candidates c (ad_discKind disc) (ad_fingerprint disc) in
      if length candidates > ACTIVE_ARCHIVE_REQUEST_IDENTITY_LIMIT then Inl pending_limit_exceeded
      else some_result (\<lambda>(r, d).
          if admittedOnly \<and> aq_evidenceFormat r \<noteq> None then Inr False
          else if ad_fingerprint d = ad_fingerprint disc then Inr True
          else case aq_rearchiveSourceArchiveId r of
            None \<Rightarrow> Inr False
          | Some source \<Rightarrow> originalArchiveMatchesFingerprintOrContentIdAlias sha256 c source
              (ad_fingerprint disc))
        candidates)"

end
