(* ===== verification/ArchiveJobs.thy ===== *)
theory ArchiveJobs
  imports ArchiveStore
begin

text \<open>
  The transactions of \<open>archiveRequests\<close> and \<open>archiveJobs\<close> in \<open>internal/create-data-access.ts\<close>, but
  for the publication of an archive: how a disc is requested, how a worker claims, reports on and
  ends an attempt, and how the operator cancels and retries.

  The instants of \<open>now()\<close> and the identities of \<open>newId\<close> are arguments.
\<close>

section \<open>Requests\<close>

record request_input =
  cq_detectedDiscId :: string
  cq_evidenceFormat :: "string option"
  cq_priority :: "int option"

definition json_option_string :: "string option \<Rightarrow> json_value" where
  "json_option_string s = (case s of None \<Rightarrow> JNull | Some t \<Rightarrow> JString t)"

definition request_semantic_input :: "request_input \<Rightarrow> string" where
  "request_semantic_input input = json_stringify (JObject
     [(''detectedDiscId'', JString (cq_detectedDiscId input)),
      (''evidenceFormat'', json_option_string (cq_evidenceFormat input))])"

definition request_receipt :: "archive_receipt \<Rightarrow> archive_request result" where
  "request_receipt receipt =
     (case receipt of Request_receipt r \<Rightarrow> Inr r | _ \<Rightarrow> Inl mutation_key_conflict)"

definition archiveRequestWithCreationPriority ::
  "archive_request \<Rightarrow> int option \<Rightarrow> int \<Rightarrow> archive_store \<Rightarrow> archive_request archive_transaction" where
  "archiveRequestWithCreationPriority r requestedPriority timestamp c =
     (case requestedPriority of
        None \<Rightarrow> Inr (r, c)
      | Some p \<Rightarrow>
          if aq_status r \<noteq> Rq_pending \<or> p = aq_priority r then Inr (r, c)
          else must_update_request (aq_id r) (\<lambda>s. aq_id s = aq_id r \<and> aq_status s = Rq_pending)
            (\<lambda>s. s\<lparr>aq_priority := p, aq_updatedAt := timestamp\<rparr>) c)"

definition new_request :: "string \<Rightarrow> string \<Rightarrow> string option \<Rightarrow> string option \<Rightarrow> int \<Rightarrow> int \<Rightarrow> archive_request" where
  "new_request i disc source evidence_format priority timestamp =
     \<lparr>aq_id = i, aq_detectedDiscId = disc, aq_rearchiveSourceArchiveId = source,
      aq_evidenceFormat = evidence_format, aq_status = Rq_pending, aq_priority = priority,
      aq_cancellationRequestedAt = None, aq_fulfilledAt = None, aq_cancelledAt = None,
      aq_createdAt = timestamp, aq_updatedAt = timestamp\<rparr>"

definition pending_again :: "int \<Rightarrow> archive_request \<Rightarrow> archive_request" where
  "pending_again timestamp r = r\<lparr>aq_status := Rq_pending, aq_cancellationRequestedAt := None,
     aq_fulfilledAt := None, aq_cancelledAt := None, aq_updatedAt := timestamp\<rparr>"

text \<open>The requests that another disc of the same content may take over.\<close>

definition reusable_requests ::
  "(string \<Rightarrow> string) \<Rightarrow> archive_store \<Rightarrow> archive_disc_row \<Rightarrow> int \<Rightarrow> request_candidate list result" where
  "reusable_requests sha256 c disc bytes =
     filter_result (\<lambda>(r, d). archiveRequestMatchesDvdContinuationIdentity sha256 c disc (Some bytes) (r, d)
         (attemptedDeclaredByteCountForArchiveRequest c (aq_id r)))
       (filter (\<lambda>(r, d). request_nonterminal r \<and> ad_discKind d = ''dvd''
          \<and> ad_fingerprint d = ad_fingerprint disc \<and> ad_id d \<noteq> ad_id disc) (joined_requests c))"

text \<open>What a request becomes that is already there: the one of the disc, or a reusable one.\<close>

definition reuse_request ::
  "(string \<Rightarrow> string) \<Rightarrow> request_input \<Rightarrow> archive_disc_row \<Rightarrow> int \<Rightarrow> archive_store
     \<Rightarrow> archive_request option archive_transaction" where
  "reuse_request sha256 input disc timestamp c =
     (case (if ad_discKind disc = ''dvd'' then currentDeclaredByteCountForDetectedDisc c (ad_id disc)
            else None) of
        None \<Rightarrow> Inr (None, c)
      | Some bytes \<Rightarrow>
          and_then (reusable_requests sha256 c disc bytes) (\<lambda>reusable.
          and_then (invariant_if (length reusable > 1)
            ''Disc identity matches multiple reusable Archive Requests'') (\<lambda>_.
            case first_row reusable of
              None \<Rightarrow> Inr (None, c)
            | Some (r, _) \<Rightarrow>
                and_then (assertDvdRecoveryEvidenceAdmissionAvailable (aq_evidenceFormat r)) (\<lambda>_.
                  map_sum id (\<lambda>(s, c'). (Some s, c'))
                    (if aq_status r = Rq_needs_attention
                     then must_update_request (aq_id r)
                       (\<lambda>s. aq_id s = aq_id r \<and> aq_status s = Rq_needs_attention)
                       (\<lambda>s. (pending_again timestamp s)\<lparr>aq_priority :=
                          (case cq_priority input of None \<Rightarrow> aq_priority r | Some p \<Rightarrow> p)\<rparr>) c
                     else archiveRequestWithCreationPriority r (cq_priority input) timestamp c)))))"

definition approve_disc :: "archive_disc_row \<Rightarrow> int \<Rightarrow> archive_store \<Rightarrow> archive_store result" where
  "approve_disc disc timestamp c =
     (if ad_status disc \<noteq> Disc_scanned then Inr c
      else
        let (rows, c') = update_discs (\<lambda>d. ad_id d = ad_id disc \<and> ad_status d = Disc_scanned)
              (\<lambda>d. d\<lparr>ad_status := Disc_approved, ad_updatedAt := timestamp\<rparr>) c in
        map_sum id (\<lambda>_. c') (requireRow (first_row rows) ''detected disc'' (ad_id disc)))"

fun disc_status_text :: "detected_disc_status \<Rightarrow> string" where
  "disc_status_text Disc_detected = ''detected''"
| "disc_status_text Disc_scanned = ''scanned''"
| "disc_status_text Disc_approved = ''approved''"
| "disc_status_text Disc_archived = ''archived''"
| "disc_status_text Disc_rejected = ''rejected''"

text \<open>The request of a disc, made, found again or taken over, before its outcome is saved.\<close>

definition request_for_disc ::
  "(string \<Rightarrow> string) \<Rightarrow> request_input \<Rightarrow> int \<Rightarrow> string \<Rightarrow> archive_store
     \<Rightarrow> archive_request archive_transaction" where
  "request_for_disc sha256 input timestamp i c =
     and_then (assertDvdRecoveryEvidenceAdmissionAvailable (cq_evidenceFormat input)) (\<lambda>_.
     and_then (requireRow (find_disc c (cq_detectedDiscId input)) ''detected disc''
       (cq_detectedDiscId input)) (\<lambda>disc.
     and_then (findOriginalArchiveByFingerprintOrContentIdAlias sha256 c (ad_fingerprint disc)) (\<lambda>archived.
     and_then (invariant_if (archived \<noteq> None)
       ''A Detected Disc with existing archive provenance cannot be requested'') (\<lambda>_.
     and_then (reject_if (ad_status disc \<noteq> Disc_scanned \<and> ad_status disc \<noteq> Disc_approved)
       (InvalidStatusTransitionError ''detected disc'' (disc_status_text (ad_status disc)) ''approved'')) (\<lambda>_.
     and_then (requireLegacyDvdArchiveIdentitiesResolved c (ad_discKind disc) (ad_fingerprint disc)) (\<lambda>_.
     and_then (approve_disc disc timestamp c) (\<lambda>c1.
       case find (\<lambda>r. aq_detectedDiscId r = ad_id disc \<and> request_nonterminal r) (as_requests c1) of
         Some existing \<Rightarrow>
           and_then (assertDvdRecoveryEvidenceAdmissionAvailable (aq_evidenceFormat existing)) (\<lambda>_.
             archiveRequestWithCreationPriority existing (cq_priority input) timestamp c1)
       | None \<Rightarrow>
           and_then (reuse_request sha256 input disc timestamp c1) (\<lambda>(reused, c2).
             case reused of
               Some r \<Rightarrow> Inr (r, c2)
             | None \<Rightarrow> insert_request (new_request i (ad_id disc) None (cq_evidenceFormat input)
                 (case cq_priority input of None \<Rightarrow> 0 | Some p \<Rightarrow> p) timestamp) c2))))))))"

definition request_operation :: string where
  "request_operation = ''archive_request.submit''"

definition createArchiveRequest ::
  "(string \<Rightarrow> string) \<Rightarrow> request_input \<Rightarrow> string option \<Rightarrow> int \<Rightarrow> string \<Rightarrow> archive_store
     \<Rightarrow> archive_request archive_transaction" where
  "createArchiveRequest sha256 input mutationKey timestamp i c =
     (case mutationKey of
        None \<Rightarrow> request_for_disc sha256 input timestamp i c
      | Some key \<Rightarrow>
          and_then (readArchiveInvocation c key request_operation (request_semantic_input input)) (\<lambda>replay.
            case replay of
              Some receipt \<Rightarrow> map_sum id (\<lambda>r. (r, c)) (request_receipt receipt)
            | None \<Rightarrow>
                and_then (request_for_disc sha256 input timestamp i c) (\<lambda>(r, c1).
                  map_sum id (Pair r) (recordArchiveInvocation key request_operation
                    (request_semantic_input input) (Request_receipt r) c1))))"

section \<open>Requests to archive again\<close>

definition rearchive_semantic_input :: "string \<Rightarrow> string" where
  "rearchive_semantic_input sourceArchiveId =
     json_stringify (JObject [(''sourceArchiveId'', JString sourceArchiveId)])"

definition rearchive_operation :: string where
  "rearchive_operation = ''archive_request.submit_rearchive''"

definition active_candidates :: "archive_store \<Rightarrow> string \<Rightarrow> request_candidate list" where
  "active_candidates c discKind =
     sort_key (\<lambda>(r, d). (aq_createdAt r, aq_id r))
       (filter (\<lambda>(r, d). ad_discKind d = discKind \<and> request_nonterminal r) (joined_requests c))"

definition active_match ::
  "(string \<Rightarrow> string) \<Rightarrow> archive_store \<Rightarrow> string \<Rightarrow> request_candidate \<Rightarrow> bool result" where
  "active_match sha256 c source candidate =
     (let (r, d) = candidate in
      and_then (originalArchiveMatchesFingerprintOrContentIdAlias sha256 c source (ad_fingerprint d)) (\<lambda>matches.
        if matches then Inr True
        else case aq_rearchiveSourceArchiveId r of
          None \<Rightarrow> Inr False
        | Some other \<Rightarrow> originalArchivesShareDiscIdentity sha256 c source other))"

definition rearchive_request ::
  "(string \<Rightarrow> string) \<Rightarrow> string \<Rightarrow> int \<Rightarrow> string \<Rightarrow> archive_store
     \<Rightarrow> archive_request archive_transaction" where
  "rearchive_request sha256 sourceArchiveId timestamp i c =
     and_then (requireRow (find_archive c sourceArchiveId) ''original disc archive'' sourceArchiveId) (\<lambda>source.
     and_then (invariant_if (ia_discKind source \<noteq> ''dvd'')
       ''Fresh re-archive requests are supported only for DVD archives'') (\<lambda>_.
     let candidates = active_candidates c (ia_discKind source) in
     and_then (invariant_if (length candidates > ACTIVE_ARCHIVE_REQUEST_IDENTITY_LIMIT)
       ''Active Archive Request identity lookup exceeds the safety limit'') (\<lambda>_.
     and_then (filter_result (active_match sha256 c sourceArchiveId) candidates) (\<lambda>matching.
     and_then (invariant_if (length matching > 1)
       ''Disc identity matches multiple active Archive Requests'') (\<lambda>_.
     let active = map_option fst (first_row matching) in
     and_then (assertDvdRecoveryEvidenceAdmissionAvailable (Option.bind active aq_evidenceFormat)) (\<lambda>_.
     and_then (invariant_if
       (case active of None \<Rightarrow> False | Some r \<Rightarrow> aq_rearchiveSourceArchiveId r \<noteq> Some sourceArchiveId)
       ''Matching archive work is already active for this disc'') (\<lambda>_.
       case active of
         Some r \<Rightarrow> Inr (r, c)
       | None \<Rightarrow> insert_request (new_request i (ia_detectedDiscId source) (Some sourceArchiveId) None 0
           timestamp) c)))))))"

definition submitRearchive ::
  "(string \<Rightarrow> string) \<Rightarrow> string \<Rightarrow> string \<Rightarrow> int \<Rightarrow> string \<Rightarrow> archive_store
     \<Rightarrow> archive_request archive_transaction" where
  "submitRearchive sha256 mutationKey sourceArchiveId timestamp i c =
     and_then (readArchiveInvocation c mutationKey rearchive_operation
       (rearchive_semantic_input sourceArchiveId)) (\<lambda>replay.
       case replay of
         Some receipt \<Rightarrow> map_sum id (\<lambda>r. (r, c)) (request_receipt receipt)
       | None \<Rightarrow>
           and_then (rearchive_request sha256 sourceArchiveId timestamp i c) (\<lambda>(r, c1).
             map_sum id (Pair r) (recordArchiveInvocation mutationKey rearchive_operation
               (rearchive_semantic_input sourceArchiveId) (Request_receipt r) c1)))"

section \<open>Cancellation and retry\<close>

fun request_status_text :: "archive_request_status \<Rightarrow> string" where
  "request_status_text Rq_pending = ''pending''"
| "request_status_text Rq_running = ''running''"
| "request_status_text Rq_needs_attention = ''needs_attention''"
| "request_status_text Rq_cancellation_requested = ''cancellation_requested''"
| "request_status_text Rq_fulfilled = ''fulfilled''"
| "request_status_text Rq_cancelled = ''cancelled''"

definition cancelArchiveRequest :: "string \<Rightarrow> int \<Rightarrow> archive_store \<Rightarrow> archive_request archive_transaction" where
  "cancelArchiveRequest i timestamp c =
     and_then (requireRow (find_request c i) ''archive request'' i) (\<lambda>current.
       if aq_status current \<in> {Rq_cancelled, Rq_fulfilled, Rq_cancellation_requested}
       then Inr (current, c)
       else
         let active = aq_status current = Rq_running in
         must_update_request i (\<lambda>r. aq_id r = i \<and> aq_status r = aq_status current)
           (\<lambda>r. r\<lparr>aq_status := (if active then Rq_cancellation_requested else Rq_cancelled),
             aq_cancellationRequestedAt := Some timestamp,
             aq_cancelledAt := (if active then None else Some timestamp),
             aq_updatedAt := timestamp\<rparr>) c)"

text \<open>A retry reads the request in a statement of its own, in the catalog \<open>c0\<close> as it is then.\<close>

definition retry_request ::
  "string \<Rightarrow> int \<Rightarrow> archive_store \<Rightarrow> archive_store \<Rightarrow> archive_request archive_transaction" where
  "retry_request i timestamp c0 c =
     and_then (requireRow (find_request c0 i) ''archive request'' i) (\<lambda>current.
     and_then (assertDvdRecoveryEvidenceAdmissionAvailable (aq_evidenceFormat current)) (\<lambda>_.
     and_then (update_requests (\<lambda>r. aq_id r = i \<and> aq_status r = Rq_needs_attention)
       (pending_again timestamp) c) (\<lambda>(rows, c').
       case first_row rows of
         None \<Rightarrow> Inl (InvalidStatusTransitionError ''archive request''
           (request_status_text (aq_status current)) ''pending'')
       | Some r \<Rightarrow> Inr (r, c'))))"

definition target_semantic_input :: "string \<Rightarrow> string" where
  "target_semantic_input i = json_stringify (JObject [(''targetId'', JString i)])"

text \<open>\<open>replayRecoveryMutation\<close>; the outcome is the id and the status of the request.\<close>

definition replayRecoveryMutation ::
  "string \<Rightarrow> string \<Rightarrow> string \<Rightarrow> (archive_store \<Rightarrow> archive_request archive_transaction)
     \<Rightarrow> archive_store \<Rightarrow> (string \<times> archive_request_status) archive_transaction" where
  "replayRecoveryMutation mutationKey operation i mutate c =
     and_then (readArchiveInvocation c mutationKey operation (target_semantic_input i)) (\<lambda>replay.
       case replay of
         Some (Status_receipt j status) \<Rightarrow> Inr ((j, status), c)
       | Some _ \<Rightarrow> Inl mutation_key_conflict
       | None \<Rightarrow>
           and_then (mutate c) (\<lambda>(r, c1).
             map_sum id (Pair (aq_id r, aq_status r))
               (recordArchiveInvocation mutationKey operation (target_semantic_input i)
                 (Status_receipt (aq_id r) (aq_status r)) c1)))"

definition cancelWithReplay ::
  "string \<Rightarrow> string \<Rightarrow> int \<Rightarrow> archive_store \<Rightarrow> (string \<times> archive_request_status) archive_transaction" where
  "cancelWithReplay mutationKey i timestamp c =
     replayRecoveryMutation mutationKey ''archive_request.cancel'' i (\<lambda>c'.
       case find_request c' i of
         Some current \<Rightarrow>
           if aq_status current \<notin> {Rq_pending, Rq_running, Rq_needs_attention}
           then Inl (InvalidStatusTransitionError ''archive request''
             (request_status_text (aq_status current)) ''cancelled'')
           else cancelArchiveRequest i timestamp c'
       | None \<Rightarrow> cancelArchiveRequest i timestamp c') c"

definition retryWithReplay ::
  "string \<Rightarrow> string \<Rightarrow> int \<Rightarrow> archive_store \<Rightarrow> (string \<times> archive_request_status) archive_transaction" where
  "retryWithReplay mutationKey i timestamp c =
     replayRecoveryMutation mutationKey ''archive_request.retry'' i
       (\<lambda>c'. retry_request i timestamp c' c') c"

section \<open>What a request waits for\<close>

definition hasPendingRequestForDetectedDiscFingerprint ::
  "(string \<Rightarrow> string) \<Rightarrow> archive_store \<Rightarrow> string \<Rightarrow> bool result" where
  "hasPendingRequestForDetectedDiscFingerprint sha256 c disc_id =
     (case find_disc c disc_id of
        None \<Rightarrow> Inr False
      | Some disc \<Rightarrow> hasPendingArchiveRequestForDisc sha256 c False disc)"

text \<open>The current inspections with the disc that each has found.\<close>

definition current_inspections :: "archive_store \<Rightarrow> (archive_disc_row option \<times> archive_inspection_row) list" where
  "current_inspections c =
     map (\<lambda>n. (Option.bind (in_detectedDiscId n) (find_disc c), n)) (filter in_isCurrent (as_inspections c))"

definition ready_inspection ::
  "(string \<Rightarrow> string) \<Rightarrow> archive_store \<Rightarrow> request_candidate \<Rightarrow> int option
     \<Rightarrow> archive_disc_row option \<times> archive_inspection_row \<Rightarrow> bool result" where
  "ready_inspection sha256 c candidate request_bytes inspected =
     (case inspected of
        (Some disc, n) \<Rightarrow>
          if in_status n \<noteq> ''completed'' \<or> in_totalBytes n = None then Inr False
          else if ad_id (snd candidate) = ad_id disc
          then Inr (ad_status (snd candidate) = requiredArchiveRequestDiscStatus (fst candidate))
          else archiveRequestMatchesDvdContinuationIdentity sha256 c disc (in_totalBytes n) candidate
            request_bytes
      | (None, n) \<Rightarrow> Inr False)"

definition discontinued_inspection ::
  "(string \<Rightarrow> string) \<Rightarrow> archive_store \<Rightarrow> request_candidate
     \<Rightarrow> archive_disc_row option \<times> archive_inspection_row \<Rightarrow> bool result" where
  "discontinued_inspection sha256 c candidate inspected =
     (case inspected of
        (Some disc, n) \<Rightarrow>
          if ad_id disc = ad_id (snd candidate) \<or> in_status n \<noteq> ''completed'' \<or> in_totalBytes n = None
          then Inr False
          else archiveRequestMatchesDvdContinuationDiscIdentity sha256 c disc candidate
      | (None, n) \<Rightarrow> Inr False)"

definition waitingStatus :: "(string \<Rightarrow> string) \<Rightarrow> archive_store \<Rightarrow> string \<Rightarrow> string option result" where
  "waitingStatus sha256 c i =
     (case find (\<lambda>(r, d). aq_id r = i) (joined_requests c) of
        None \<Rightarrow> Inr None
      | Some (r, d) \<Rightarrow>
          if aq_status r \<noteq> Rq_pending then Inr None
          else if aq_evidenceFormat r \<noteq> None
          then Inr (Some ''dvd_recovery_evidence_admission_closed'')
          else
            let request_bytes = declaredByteCountForArchiveRequest c r (ad_id d);
                inspections = current_inspections c in
            and_then (some_result (ready_inspection sha256 c (r, d) request_bytes) inspections) (\<lambda>ready.
              if ready then Inr (Some ''ready_for_archive_worker'')
              else and_then
                (if aq_rearchiveSourceArchiveId r \<noteq> None \<and> request_bytes = None
                 then some_result (discontinued_inspection sha256 c (r, d)) inspections
                 else Inr False) (\<lambda>unavailable.
                Inr (Some
                  (if unavailable then ''source_continuity_unavailable''
                   else if list_ex (\<lambda>(_, n). in_status n = ''running'') inspections
                   then ''matching_inspection_incomplete''
                   else ''matching_disc_required'')))))"

section \<open>The start of a job\<close>

definition ARCHIVE_JOB_LEASE_DURATION_MS :: int where
  "ARCHIVE_JOB_LEASE_DURATION_MS = 60000"

definition asRunningArchiveJob :: "archive_job \<Rightarrow> archive_job result" where
  "asRunningArchiveJob j =
     (if jb_status j \<noteq> Aj_running \<or> jb_claimToken j = None
      then Inl (DomainInvariantError ''Claimed Archive Job is not running'') else Inr j)"

definition forget_archive_progress :: "string \<Rightarrow> archive_store \<Rightarrow> archive_store" where
  "forget_archive_progress i c = c\<lparr>as_progress := (as_progress c)(i := None)\<rparr>"

text \<open>What is tested before the transaction, on the catalog \<open>c0\<close> as it is then.\<close>

definition start_preflight ::
  "(string \<Rightarrow> string) \<Rightarrow> string \<Rightarrow> archive_store \<Rightarrow> bool result" where
  "start_preflight sha256 inspectionId c0 =
     (case Option.bind (find (\<lambda>n. in_id n = inspectionId \<and> in_isCurrent n \<and> in_status n = ''completed'')
            (as_inspections c0)) (\<lambda>n. Option.bind (in_detectedDiscId n) (find_disc c0)) of
        None \<Rightarrow> Inr False
      | Some disc \<Rightarrow>
          and_then (hasPendingArchiveRequestForDisc sha256 c0 True disc) (\<lambda>pending.
            if \<not> pending then Inr False
            else map_sum id (\<lambda>_. True)
              (requireLegacyDvdArchiveIdentitiesResolved c0 (ad_discKind disc) (ad_fingerprint disc))))"

text \<open>The completed inspection of a disc that is in a drive now, with that disc.\<close>

definition startable_inspection :: "archive_store \<Rightarrow> string \<Rightarrow> archive_inspection_row option" where
  "startable_inspection c inspectionId =
     find (\<lambda>n. in_id n = inspectionId \<and> in_isCurrent n \<and> in_status n = ''completed''
         \<and> in_detectedDiscId n \<noteq> None
         \<and> list_ex (\<lambda>d. od_id d = in_opticalDriveId n \<and> od_isPresent d \<and> od_isEnabled d) (as_drives c))
       (as_inspections c)"

definition inspected_disc :: "archive_store \<Rightarrow> archive_inspection_row \<Rightarrow> archive_disc_row option" where
  "inspected_disc c n =
     find (\<lambda>d. Some (ad_id d) = in_detectedDiscId n \<and> ad_opticalDriveId d = in_opticalDriveId n) (as_discs c)"

definition candidate_for_disc ::
  "(string \<Rightarrow> string) \<Rightarrow> archive_store \<Rightarrow> archive_disc_row \<Rightarrow> int option \<Rightarrow> request_candidate \<Rightarrow> bool result" where
  "candidate_for_disc sha256 c disc bytes candidate =
     (if ad_id (snd candidate) = ad_id disc then Inr True
      else archiveRequestMatchesDvdContinuationIdentity sha256 c disc bytes candidate
        (declaredByteCountForArchiveRequest c (fst candidate) (ad_id (snd candidate))))"

text \<open>The pending request that a disc serves: its own, or one that it continues.\<close>

definition request_for_inspection ::
  "(string \<Rightarrow> string) \<Rightarrow> archive_store \<Rightarrow> archive_disc_row \<Rightarrow> int option \<Rightarrow> archive_request option result" where
  "request_for_inspection sha256 c disc bytes =
     (let candidates = pending_candidates c (ad_discKind disc) (ad_fingerprint disc) in
      and_then (reject_if (length candidates > ACTIVE_ARCHIVE_REQUEST_IDENTITY_LIMIT)
        pending_limit_exceeded) (\<lambda>_.
      and_then (case find (\<lambda>(r, d). ad_id d = ad_id disc) candidates of
          None \<Rightarrow> Inr ()
        | Some (r, d) \<Rightarrow> invariant_if (ad_status d \<noteq> requiredArchiveRequestDiscStatus r)
            (''pending Archive Request references a '' @ disc_status_text (ad_status d) @ '' Detected Disc'')) (\<lambda>_.
      and_then (filter_result (candidate_for_disc sha256 c disc bytes) candidates) (\<lambda>matching.
        map_sum id (\<lambda>_. map_option fst (first_row matching))
          (invariant_if (length matching > 1)
            ''Disc identity matches multiple pending Archive Requests'')))))"

definition conflicting_job :: "archive_store \<Rightarrow> archive_disc_row \<Rightarrow> archive_job \<Rightarrow> bool" where
  "conflicting_job c disc j \<longleftrightarrow>
     jb_status j = Aj_running
   \<and> (case find_disc c (jb_detectedDiscId j) of
        None \<Rightarrow> False
      | Some d \<Rightarrow> ad_fingerprint d = ad_fingerprint disc \<or> ad_opticalDriveId d = ad_opticalDriveId disc)"

definition next_attempt_ordinal :: "archive_store \<Rightarrow> string \<Rightarrow> int" where
  "next_attempt_ordinal c request_id =
     next_ordinal (map jb_attemptOrdinal (filter (\<lambda>j. jb_archiveRequestId j = request_id) (as_jobs c)))"

definition started_job ::
  "archive_request \<Rightarrow> string \<Rightarrow> archive_disc_row \<Rightarrow> int \<Rightarrow> string \<Rightarrow> int \<Rightarrow> string \<Rightarrow> string \<Rightarrow> archive_job" where
  "started_job r inspectionId disc ordinal worker timestamp token i =
     \<lparr>jb_id = i, jb_archiveRequestId = aq_id r, jb_discInspectionId = Some inspectionId,
      jb_detectedDiscId = ad_id disc, jb_originalDiscArchiveId = None,
      jb_evidenceFormat = aq_evidenceFormat r, jb_attemptOrdinal = ordinal, jb_status = Aj_running,
      jb_priority = aq_priority r, jb_progressPhase = ''preparing'', jb_progressPercent = 0,
      jb_progressBytes = 0, jb_progressEtaSeconds = None, jb_lastProgressAt = timestamp,
      jb_claimedBy = Some worker, jb_claimToken = Some token, jb_claimedAt = Some timestamp,
      jb_startedAt = Some timestamp, jb_completedAt = None, jb_errorMessage = None,
      jb_failureDetailVersion = None, jb_readFailure = None, jb_createdAt = timestamp,
      jb_updatedAt = timestamp\<rparr>"

definition fulfilled_request :: "int \<Rightarrow> archive_request \<Rightarrow> archive_request" where
  "fulfilled_request timestamp r =
     r\<lparr>aq_status := Rq_fulfilled, aq_fulfilledAt := Some timestamp, aq_updatedAt := timestamp\<rparr>"

definition start_job ::
  "archive_request \<Rightarrow> string \<Rightarrow> archive_disc_row \<Rightarrow> string \<Rightarrow> int \<Rightarrow> string \<Rightarrow> string \<Rightarrow> archive_store
     \<Rightarrow> archive_job option archive_transaction" where
  "start_job r inspectionId disc worker timestamp token i c =
     (if list_ex (conflicting_job c disc) (as_jobs c) then Inr (None, c)
      else
        let ordinal = next_attempt_ordinal c (aq_id r) in
        and_then (update_requests (\<lambda>s. aq_id s = aq_id r \<and> aq_status s = Rq_pending)
          (\<lambda>s. s\<lparr>aq_status := Rq_running, aq_updatedAt := timestamp\<rparr>) c) (\<lambda>(rows, c1).
          if rows = [] then Inr (None, c1)
          else
            and_then (insert_job (started_job r inspectionId disc ordinal worker timestamp token i) c1) (\<lambda>(j, c2).
            map_sum id (\<lambda>k. (Some k, forget_archive_progress i c2)) (asRunningArchiveJob j))))"

definition start_for_inspection ::
  "(string \<Rightarrow> string) \<Rightarrow> string \<Rightarrow> string \<Rightarrow> int \<Rightarrow> string \<Rightarrow> string \<Rightarrow> archive_store
     \<Rightarrow> archive_job option archive_transaction" where
  "start_for_inspection sha256 inspectionId worker timestamp token i c =
     (case startable_inspection c inspectionId of
        None \<Rightarrow> Inr (None, c)
      | Some n \<Rightarrow>
          and_then (requireRow (inspected_disc c n) ''detected disc'' (the (in_detectedDiscId n))) (\<lambda>disc.
          and_then (request_for_inspection sha256 c disc (in_totalBytes n)) (\<lambda>request.
            case request of
              None \<Rightarrow> Inr (None, c)
            | Some r \<Rightarrow>
                if aq_evidenceFormat r \<noteq> None then Inr (None, c)
                else
                  and_then (if aq_rearchiveSourceArchiveId r \<noteq> None then Inr None
                    else findOriginalArchiveByFingerprintOrContentIdAlias sha256 c (ad_fingerprint disc)) (\<lambda>archived.
                    if archived \<noteq> None
                    then map_sum id (\<lambda>(_, c'). (None, c'))
                      (update_requests (\<lambda>s. aq_id s = aq_id r \<and> aq_status s = Rq_pending)
                        (fulfilled_request timestamp) c)
                    else start_job r inspectionId disc worker timestamp token i c))))"

definition startForInspection ::
  "(string \<Rightarrow> string) \<Rightarrow> string \<Rightarrow> string \<Rightarrow> int \<Rightarrow> string \<Rightarrow> string \<Rightarrow> archive_store \<Rightarrow> archive_store
     \<Rightarrow> archive_job option archive_transaction" where
  "startForInspection sha256 inspectionId workerId timestamp token i c0 c =
     and_then (requireNonEmpty workerId ''workerId'') (\<lambda>worker.
     and_then (start_preflight sha256 inspectionId c0) (\<lambda>pending.
       if \<not> pending then Inr (None, c)
       else start_for_inspection sha256 inspectionId worker timestamp token i c))"

section \<open>Leases\<close>

definition lease_running :: "int \<Rightarrow> archive_job \<Rightarrow> bool" where
  "lease_running timestamp j \<longleftrightarrow> jb_updatedAt j > timestamp - ARCHIVE_JOB_LEASE_DURATION_MS"

definition holds_job :: "archive_job \<Rightarrow> archive_job \<Rightarrow> bool" where
  "holds_job claim j \<longleftrightarrow>
     jb_id j = jb_id claim \<and> jb_status j = Aj_running
   \<and> column_eq (jb_claimToken j) (jb_claimToken claim)"

definition requireLegacyArchiveJobMutation :: "archive_job \<Rightarrow> unit result" where
  "requireLegacyArchiveJobMutation claim =
     assertDvdRecoveryEvidenceAdmissionAvailable (jb_evidenceFormat claim)"

definition marked :: "string option \<Rightarrow> bool" where
  "marked evidence_format \<longleftrightarrow> evidence_format = Some DVD_RECOVERY_EVIDENCE_FORMAT"

text \<open>\<open>updateDvdInitialClaim\<close>: a renewal, or with a worker and a token the takeover of an expired claim.\<close>

definition updateDvdInitialClaim ::
  "archive_job \<Rightarrow> (string \<times> string) option \<Rightarrow> int \<Rightarrow> archive_store \<Rightarrow> archive_job archive_transaction" where
  "updateDvdInitialClaim claim takeover timestamp c =
     and_then (update_jobs
       (\<lambda>j. holds_job claim j \<and> jb_archiveRequestId j = jb_archiveRequestId claim
          \<and> jb_detectedDiscId j = jb_detectedDiscId claim \<and> marked (jb_evidenceFormat j)
          \<and> (if takeover = None then lease_running timestamp j else \<not> lease_running timestamp j)
          \<and> list_ex (\<lambda>r. aq_id r = jb_archiveRequestId j \<and> marked (aq_evidenceFormat r)
               \<and> aq_status r = Rq_running) (as_requests c))
       (\<lambda>j. case takeover of
          None \<Rightarrow> j\<lparr>jb_updatedAt := timestamp\<rparr>
        | Some (worker, token) \<Rightarrow> j\<lparr>jb_updatedAt := timestamp, jb_claimToken := Some token,
            jb_claimedBy := Some worker, jb_claimedAt := Some timestamp\<rparr>) c) (\<lambda>(rows, c').
       case first_row rows of
         None \<Rightarrow> Inl (DomainInvariantError ''DVD_INITIAL_SAVE_OWNERSHIP_LOST'')
       | Some j \<Rightarrow> map_sum id (\<lambda>k. (k, c')) (asRunningArchiveJob j))"

definition renewDvdInitialClaim :: "archive_job \<Rightarrow> int \<Rightarrow> archive_store \<Rightarrow> archive_job archive_transaction" where
  "renewDvdInitialClaim claim timestamp c = updateDvdInitialClaim claim None timestamp c"

definition reclaimDvdInitialSave ::
  "archive_job \<Rightarrow> string \<Rightarrow> int \<Rightarrow> string \<Rightarrow> archive_store \<Rightarrow> archive_job archive_transaction" where
  "reclaimDvdInitialSave claim workerId timestamp token c =
     and_then (requireNonEmpty workerId ''workerId'') (\<lambda>worker.
       updateDvdInitialClaim claim (Some (worker, token)) timestamp c)"

definition renew_archive_claim :: "archive_job \<Rightarrow> int \<Rightarrow> archive_store \<Rightarrow> archive_job archive_transaction" where
  "renew_archive_claim claim timestamp c =
     and_then (requireLegacyArchiveJobMutation claim) (\<lambda>_.
     and_then (must_update_job (jb_id claim) (\<lambda>j. holds_job claim j \<and> lease_running timestamp j)
       (\<lambda>j. j\<lparr>jb_updatedAt := timestamp\<rparr>) c) (\<lambda>(j, c').
       map_sum id (\<lambda>k. (k, c')) (asRunningArchiveJob j)))"

section \<open>Progress\<close>

text \<open>What the process remembers of a claim, written with the end of the job.\<close>

definition archiveProgressPatchForClaim ::
  "archive_store \<Rightarrow> string \<Rightarrow> string option \<Rightarrow> archive_job \<Rightarrow> archive_job" where
  "archiveProgressPatchForClaim c i claimToken j =
     (case as_progress c i of
        None \<Rightarrow> j
      | Some p \<Rightarrow>
          if claimToken \<noteq> Some (ap_token p) then j
          else j\<lparr>jb_progressPhase := ap_latestPhase p, jb_progressPercent := ap_latestPercent p,
            jb_progressBytes := ap_latestBytes p, jb_progressEtaSeconds := ap_latestEtaSeconds p,
            jb_lastProgressAt := ap_lastProgressAt p\<rparr>)"

definition archiveTerminalProgressPatchForClaim ::
  "archive_store \<Rightarrow> string \<Rightarrow> string option \<Rightarrow> archive_job \<Rightarrow> archive_job" where
  "archiveTerminalProgressPatchForClaim c i claimToken j =
     (archiveProgressPatchForClaim c i claimToken j)\<lparr>jb_progressEtaSeconds := None\<rparr>"

text \<open>
  \<open>ArchiveJobProgress\<close>; a number alone is \<open>Percent\<close>.  The bytes may be \<open>undefined\<close>, the remaining
  seconds \<open>undefined\<close> or \<open>null\<close>, which the code does not distinguish.
\<close>

record archive_progress_report =
  rp_phase :: string
  rp_percent :: int
  rp_bytes :: "int option"
  rp_etaSeconds :: "int option"

datatype archive_progress_input = Percent int | Progress archive_progress_report

definition progress_report :: "archive_job \<Rightarrow> archive_progress_input \<Rightarrow> archive_progress_report" where
  "progress_report claim input =
     (case input of
        Percent n \<Rightarrow> \<lparr>rp_phase = jb_progressPhase claim, rp_percent = n, rp_bytes = None,
          rp_etaSeconds = None\<rparr>
      | Progress p \<Rightarrow> p)"

definition check_progress_report :: "archive_progress_report \<Rightarrow> unit result" where
  "check_progress_report p = check_all
     [invariant_if (rp_phase p \<notin> set ARCHIVE_RUNNING_PROGRESS_PHASES)
        ''Archive Job progress phase is invalid'',
      invariant_if (rp_percent p < 0 \<or> 100 < rp_percent p)
        ''progressPercent must be an integer between 0 and 100'',
      invariant_if (case rp_bytes p of None \<Rightarrow> False | Some n \<Rightarrow> \<not> is_safe_integer n \<or> n < 0)
        ''progressBytes must be a non-negative safe integer'',
      invariant_if (case rp_etaSeconds p of None \<Rightarrow> False | Some n \<Rightarrow> \<not> is_safe_integer n \<or> n < 0)
        ''etaSeconds must be a non-negative safe integer or null'']"

definition ARCHIVE_PROGRESS_INTERVAL_MS :: int where
  "ARCHIVE_PROGRESS_INTERVAL_MS = 1000"

definition ARCHIVE_PROGRESS_DELTA :: int where
  "ARCHIVE_PROGRESS_DELTA = 5"

text \<open>The bytes and the instant of progress that a report amounts to.\<close>

definition reported_bytes :: "archive_job \<Rightarrow> archive_progress_entry option \<Rightarrow> archive_progress_report \<Rightarrow> int" where
  "reported_bytes claim previous p =
     (let previousBytes = (case previous of None \<Rightarrow> jb_progressBytes claim | Some e \<Rightarrow> ap_latestBytes e) in
      max previousBytes (case rp_bytes p of None \<Rightarrow> previousBytes | Some n \<Rightarrow> n))"

definition made_progress :: "archive_job \<Rightarrow> archive_progress_entry option \<Rightarrow> archive_progress_report \<Rightarrow> bool" where
  "made_progress claim previous p \<longleftrightarrow>
     rp_phase p \<noteq> (case previous of None \<Rightarrow> jb_progressPhase claim | Some e \<Rightarrow> ap_latestPhase e)
   \<or> reported_bytes claim previous p
       > (case previous of None \<Rightarrow> jb_progressBytes claim | Some e \<Rightarrow> ap_latestBytes e)
   \<or> (rp_bytes p = None
      \<and> rp_percent p > (case previous of None \<Rightarrow> jb_progressPercent claim | Some e \<Rightarrow> ap_latestPercent e))"

definition progressed_at ::
  "archive_job \<Rightarrow> archive_progress_entry option \<Rightarrow> archive_progress_report \<Rightarrow> int \<Rightarrow> int" where
  "progressed_at claim previous p timestamp =
     (if made_progress claim previous p then timestamp
      else case previous of None \<Rightarrow> jb_lastProgressAt claim | Some e \<Rightarrow> ap_lastProgressAt e)"

definition progress_due_now ::
  "archive_job \<Rightarrow> archive_progress_entry option \<Rightarrow> archive_progress_report \<Rightarrow> int \<Rightarrow> bool" where
  "progress_due_now claim previous p timestamp \<longleftrightarrow>
     (case previous of
        None \<Rightarrow> True
      | Some e \<Rightarrow>
          jb_claimToken claim \<noteq> Some (ap_token e)
        \<or> ap_persistedPhase e \<noteq> rp_phase p
        \<or> timestamp - ap_persistedAt e \<ge> ARCHIVE_PROGRESS_INTERVAL_MS
        \<or> \<bar>rp_percent p - ap_persistedPercent e\<bar> \<ge> ARCHIVE_PROGRESS_DELTA)"

definition with_progress ::
  "int \<Rightarrow> int \<Rightarrow> archive_progress_report \<Rightarrow> archive_job \<Rightarrow> archive_job" where
  "with_progress progressed bytes p j =
     j\<lparr>jb_lastProgressAt := progressed, jb_progressBytes := bytes,
       jb_progressEtaSeconds := rp_etaSeconds p, jb_progressPhase := rp_phase p,
       jb_progressPercent := rp_percent p\<rparr>"

definition remember_progress :: "string \<Rightarrow> archive_progress_entry \<Rightarrow> archive_store \<Rightarrow> archive_store" where
  "remember_progress i e c = c\<lparr>as_progress := (as_progress c)(i \<mapsto> e)\<rparr>"

definition updateArchiveProgress ::
  "archive_job \<Rightarrow> archive_progress_input \<Rightarrow> int \<Rightarrow> archive_store \<Rightarrow> archive_job archive_transaction" where
  "updateArchiveProgress claim input timestamp c =
     and_then (requireLegacyArchiveJobMutation claim) (\<lambda>_.
     let p = progress_report claim input in
     and_then (check_progress_report p) (\<lambda>_.
     let previous = as_progress c (jb_id claim);
         bytes = reported_bytes claim previous p;
         progressed = progressed_at claim previous p timestamp in
     if \<not> progress_due_now claim previous p timestamp
     then Inr (with_progress progressed bytes p claim,
       remember_progress (jb_id claim)
         ((the previous)\<lparr>ap_lastProgressAt := progressed, ap_latestBytes := bytes,
           ap_latestEtaSeconds := rp_etaSeconds p, ap_latestPercent := rp_percent p,
           ap_latestPhase := rp_phase p\<rparr>) c)
     else
       and_then (must_update_job (jb_id claim) (\<lambda>j. holds_job claim j \<and> lease_running timestamp j)
         (\<lambda>j. (with_progress progressed bytes p j)\<lparr>jb_updatedAt := timestamp\<rparr>) c) (\<lambda>(updated, c').
         Inr (updated, remember_progress (jb_id claim)
           \<lparr>ap_token = the (jb_claimToken claim), ap_lastProgressAt = progressed,
            ap_latestBytes = bytes, ap_latestEtaSeconds = rp_etaSeconds p,
            ap_latestPercent = rp_percent p, ap_latestPhase = rp_phase p,
            ap_persistedPercent = rp_percent p, ap_persistedPhase = rp_phase p,
            ap_persistedAt = timestamp\<rparr> c'))))"

section \<open>Read failures\<close>

record read_failure_evidence = scsi_evidence +
  fe_stage :: string
  fe_category :: failure_category
  fe_classifierVersion :: string
  fe_failingLba :: int
  fe_requestedBlockCount :: int
  fe_retryCount :: int

definition optionalSafeInteger :: "int option \<Rightarrow> string \<Rightarrow> int \<Rightarrow> int \<Rightarrow> unit result" where
  "optionalSafeInteger v field minimum maximum =
     invariant_if (case v of None \<Rightarrow> False
         | Some n \<Rightarrow> \<not> is_safe_integer n \<or> n < minimum \<or> n > maximum)
       (field @ '' must be a safe integer between '' @ js_number minimum @ '' and '' @ js_number maximum)"

definition archiveReadFailurePatch :: "read_failure_evidence \<Rightarrow> read_failure_row result" where
  "archiveReadFailurePatch e =
     and_then (invariant_if (fe_stage e \<notin> set ARCHIVE_READ_FAILURE_STAGES)
       ''read failure stage is unsupported'') (\<lambda>_.
     and_then (invariant_if (fe_category e \<notin> set ARCHIVE_READ_FAILURE_CATEGORIES)
       ''read failure category is unsupported'') (\<lambda>_.
     and_then (requireNonEmpty (fe_classifierVersion e) ''read failure classifierVersion'') (\<lambda>classifierVersion.
     and_then (check_all
       [invariant_if (128 < length classifierVersion)
          ''read failure classifierVersion exceeds 128 characters'',
        optionalSafeInteger (scsiStatus e) ''read failure scsiStatus'' 0 0xff,
        optionalSafeInteger (hostStatus e) ''read failure hostStatus'' 0 0xffff,
        optionalSafeInteger (driverStatus e) ''read failure driverStatus'' 0 0xffff,
        invariant_if (list_ex (\<lambda>v. v = None) [scsiStatus e, hostStatus e, driverStatus e]
            \<and> list_ex (\<lambda>v. v \<noteq> None) [scsiStatus e, hostStatus e, driverStatus e])
          ''read failure transport status must be complete or unavailable'',
        optionalSafeInteger (ev_asc e) ''read failure asc'' 0 0xff,
        optionalSafeInteger (ev_ascq e) ''read failure ascq'' 0 0xff,
        invariant_if ((ev_asc e = None) \<noteq> (ev_ascq e = None))
          ''read failure ASC and ASCQ must both be present or unavailable'',
        optionalSafeInteger (senseKey e) ''read failure senseKey'' 0 0x0f,
        invariant_if (\<not> isArchiveReadFailureEvidenceConsistent (fe_category e) e)
          ''read failure evidence does not match category'',
        optionalSafeInteger (Some (fe_failingLba e)) ''read failure failingLba'' 0 max_safe_integer,
        optionalSafeInteger (Some (fe_requestedBlockCount e)) ''read failure requestedBlockCount''
          1 0xffffffff,
        optionalSafeInteger (Some (fe_retryCount e)) ''read failure retryCount'' 0 0xffffffff]) (\<lambda>_.
       Inr \<lparr>scsiStatus = scsiStatus e, hostStatus = hostStatus e, driverStatus = driverStatus e,
         senseKey = senseKey e, ev_asc = ev_asc e, ev_ascq = ev_ascq e, rf_stage = fe_stage e,
         rf_category = fe_category e, rf_classifierVersion = classifierVersion,
         rf_lba = fe_failingLba e, rf_requestedBlockCount = fe_requestedBlockCount e,
         rf_retryCount = fe_retryCount e\<rparr>))))"

section \<open>The end of a job\<close>

text \<open>\<open>recordArchiveJobFailure\<close>; of the notification its kind and the event it is recorded under are kept.\<close>

definition recordArchiveJobFailure :: "archive_job \<Rightarrow> archive_store \<Rightarrow> archive_store result" where
  "recordArchiveJobFailure j c =
     map_sum id (\<lambda>_. c\<lparr>as_outcomes := as_outcomes c
         @ [(''archive_failed'', ''archive-job:'' @ jb_id j @ '':failed'')]\<rparr>)
       (requireRow (find_disc c (jb_detectedDiscId j)) ''detected disc'' (jb_detectedDiscId j))"

definition failed_job ::
  "archive_store \<Rightarrow> archive_job \<Rightarrow> bool \<Rightarrow> string \<Rightarrow> read_failure_row option \<Rightarrow> int \<Rightarrow> archive_job \<Rightarrow> archive_job" where
  "failed_job c claim cancellationWins errorMessage readFailure timestamp j =
     (let ended = (archiveTerminalProgressPatchForClaim c (jb_id claim) (jb_claimToken claim) j)
            \<lparr>jb_completedAt := Some timestamp, jb_updatedAt := timestamp\<rparr> in
      if cancellationWins
      then ended\<lparr>jb_status := Aj_aborted, jb_errorMessage := Some ''Archive cancelled by operator''\<rparr>
      else ended\<lparr>jb_status := Aj_failed, jb_errorMessage := Some errorMessage,
        jb_failureDetailVersion := Some ARCHIVE_FAILURE_DETAIL_VERSION,
        jb_readFailure := (case readFailure of None \<Rightarrow> jb_readFailure j | Some f \<Rightarrow> Some f)\<rparr>)"

definition cancelled_request :: "int \<Rightarrow> archive_request \<Rightarrow> archive_request" where
  "cancelled_request timestamp r =
     r\<lparr>aq_status := Rq_cancelled, aq_cancelledAt := Some timestamp, aq_updatedAt := timestamp\<rparr>"

definition attention_request :: "int \<Rightarrow> archive_request \<Rightarrow> archive_request" where
  "attention_request timestamp r = r\<lparr>aq_status := Rq_needs_attention, aq_updatedAt := timestamp\<rparr>"

definition failArchiveJob ::
  "archive_job \<Rightarrow> string \<Rightarrow> read_failure_evidence option \<Rightarrow> int \<Rightarrow> archive_store
     \<Rightarrow> archive_job archive_transaction" where
  "failArchiveJob claim errorMessageInput evidence timestamp c =
     and_then (requireLegacyArchiveJobMutation claim) (\<lambda>_.
     and_then (requireNonEmpty errorMessageInput ''errorMessage'') (\<lambda>errorMessage.
     and_then (case evidence of None \<Rightarrow> Inr None | Some e \<Rightarrow> map_sum id Some (archiveReadFailurePatch e)) (\<lambda>readFailure.
     and_then (case find (\<lambda>r. aq_id r = jb_archiveRequestId claim
           \<and> aq_status r \<in> {Rq_running, Rq_cancellation_requested}) (as_requests c) of
         None \<Rightarrow> Inl (StaleJobAttemptError ''archive job'' (jb_id claim))
       | Some r \<Rightarrow> Inr r) (\<lambda>request.
     let cancellationWins = aq_status request = Rq_cancellation_requested in
     and_then (must_update_job (jb_id claim) (\<lambda>j. holds_job claim j \<and> lease_running timestamp j)
       (failed_job c claim cancellationWins (take 500 errorMessage) readFailure timestamp) c) (\<lambda>(j, c1).
     and_then (must_update_request (jb_archiveRequestId j)
       (\<lambda>r. aq_id r = jb_archiveRequestId j \<and> aq_status r = aq_status request)
       (if cancellationWins then cancelled_request timestamp else attention_request timestamp) c1) (\<lambda>(_, c2).
     map_sum id (\<lambda>c3. (j, forget_archive_progress (jb_id claim) c3))
       (if cancellationWins then Inr c2 else recordArchiveJobFailure j c2)))))))"

definition ARCHIVE_READ_FAILURE_MESSAGES :: "failure_category \<Rightarrow> string" where
  "ARCHIVE_READ_FAILURE_MESSAGES category =
     (case category of
        Not_ready \<Rightarrow> ''The Optical Drive was not ready to read the disc''
      | Unit_attention \<Rightarrow> ''The Optical Drive reported a media change''
      | Hardware_error \<Rightarrow> ''The Optical Drive reported a hardware fault''
      | Transport_error \<Rightarrow> ''Communication with the Optical Drive failed''
      | Protection_error \<Rightarrow> ''DVD copy protection or region access failed''
      | Out_of_range_failure \<Rightarrow> ''The Optical Drive reported a readable-boundary disagreement''
      | _ \<Rightarrow> ''The Optical Drive returned an unclassified read failure'')"

definition fail_archive_job :: "archive_job \<Rightarrow> string \<Rightarrow> int \<Rightarrow> archive_store \<Rightarrow> archive_job archive_transaction" where
  "fail_archive_job claim errorMessage timestamp c = failArchiveJob claim errorMessage None timestamp c"

definition failWithReadFailure ::
  "archive_job \<Rightarrow> read_failure_evidence \<Rightarrow> int \<Rightarrow> archive_store \<Rightarrow> archive_job archive_transaction" where
  "failWithReadFailure claim e timestamp c =
     failArchiveJob claim (ARCHIVE_READ_FAILURE_MESSAGES (fe_category e)) (Some e) timestamp c"

definition isCancellationRequested :: "archive_job \<Rightarrow> archive_store \<Rightarrow> bool result" where
  "isCancellationRequested claim c =
     (case Option.bind (find (holds_job claim) (as_jobs c)) (\<lambda>j. find_request c (jb_archiveRequestId j)) of
        None \<Rightarrow> Inl (StaleJobAttemptError ''archive job'' (jb_id claim))
      | Some r \<Rightarrow> Inr (aq_status r = Rq_cancellation_requested))"

definition aborted_job ::
  "archive_store \<Rightarrow> archive_job \<Rightarrow> bool \<Rightarrow> string \<Rightarrow> int \<Rightarrow> archive_job \<Rightarrow> archive_job" where
  "aborted_job c claim evidence_job errorMessage timestamp j =
     (if evidence_job then j
      else archiveTerminalProgressPatchForClaim c (jb_id claim) (jb_claimToken claim) j)
       \<lparr>jb_status := Aj_aborted, jb_completedAt := Some timestamp, jb_errorMessage := Some errorMessage,
        jb_updatedAt := timestamp\<rparr>"

text \<open>A job of the new format may only be aborted when its cancellation was asked for.\<close>

definition require_marked_cancellation :: "archive_job \<Rightarrow> archive_store \<Rightarrow> unit result" where
  "require_marked_cancellation claim c =
     (case Option.bind (find (\<lambda>j. holds_job claim j \<and> marked (jb_evidenceFormat j)) (as_jobs c))
          (\<lambda>j. find_request c (jb_archiveRequestId j)) of
        None \<Rightarrow> Inl (StaleJobAttemptError ''archive job'' (jb_id claim))
      | Some r \<Rightarrow> reject_if (aq_status r \<noteq> Rq_cancellation_requested)
          DvdRecoveryEvidenceAdmissionClosedError)"

definition abort_archive_job :: "archive_job \<Rightarrow> string \<Rightarrow> int \<Rightarrow> archive_store \<Rightarrow> archive_job archive_transaction" where
  "abort_archive_job claim errorMessageInput timestamp c =
     (let evidence_job = marked (jb_evidenceFormat claim) in
      and_then (requireNonEmpty errorMessageInput ''errorMessage'') (\<lambda>errorMessage.
      and_then (if evidence_job then require_marked_cancellation claim c else Inr ()) (\<lambda>_.
      and_then (must_update_job (jb_id claim)
        (\<lambda>j. holds_job claim j \<and> (evidence_job \<longrightarrow> marked (jb_evidenceFormat j)) \<and> lease_running timestamp j)
        (aborted_job c claim evidence_job (take 500 errorMessage) timestamp) c) (\<lambda>(j, c1).
      and_then (must_update_request (jb_archiveRequestId j)
        (\<lambda>r. aq_id r = jb_archiveRequestId j
           \<and> (if evidence_job then aq_status r = Rq_cancellation_requested
              else aq_status r \<in> {Rq_running, Rq_cancellation_requested}))
        (\<lambda>r. if evidence_job then cancelled_request timestamp r
           else (cancelled_request timestamp r)\<lparr>aq_cancellationRequestedAt := Some timestamp\<rparr>) c1) (\<lambda>(_, c2).
        Inr (j, forget_archive_progress (jb_id claim) c2))))))"

definition completed_job :: "archive_store \<Rightarrow> archive_job \<Rightarrow> string \<Rightarrow> int \<Rightarrow> archive_job \<Rightarrow> archive_job" where
  "completed_job c claim archiveId timestamp j =
     (archiveTerminalProgressPatchForClaim c (jb_id claim) (jb_claimToken claim) j)
       \<lparr>jb_originalDiscArchiveId := Some archiveId, jb_status := Aj_completed,
        jb_progressPhase := ''finalizing'', jb_progressPercent := 100, jb_lastProgressAt := timestamp,
        jb_completedAt := Some timestamp, jb_updatedAt := timestamp\<rparr>"

definition complete_archive_job :: "archive_job \<Rightarrow> string \<Rightarrow> int \<Rightarrow> archive_store \<Rightarrow> archive_job archive_transaction" where
  "complete_archive_job claim archiveId timestamp c =
     and_then (requireRow (find_archive c archiveId) ''original disc archive'' archiveId) (\<lambda>archive.
     and_then (invariant_if (ia_detectedDiscId archive \<noteq> jb_detectedDiscId claim)
       (''Archive Job result must belong to the job'' @ [CHR 0x27] @ ''s Detected Disc'')) (\<lambda>_.
     and_then (must_update_job (jb_id claim) (holds_job claim) (completed_job c claim archiveId timestamp) c) (\<lambda>(j, c1).
     and_then (update_requests (\<lambda>r. aq_id r = jb_archiveRequestId j) (fulfilled_request timestamp) c1) (\<lambda>(_, c2).
       Inr (j, forget_archive_progress (jb_id claim) c2)))))"

section \<open>Jobs whose worker is gone\<close>

definition lease_expired_job :: "int \<Rightarrow> archive_job \<Rightarrow> bool" where
  "lease_expired_job timestamp j \<longleftrightarrow> jb_status j = Aj_running \<and> \<not> lease_running timestamp j"

text \<open>The expired jobs, the first hundred, but for those whose cancellation was asked for.\<close>

definition expired_archive_jobs :: "int \<Rightarrow> archive_store \<Rightarrow> archive_job list" where
  "expired_archive_jobs timestamp c =
     take JOB_RECOVERY_LIMIT
       (sort_key (\<lambda>j. (jb_updatedAt j, jb_id j))
         (filter (\<lambda>j. lease_expired_job timestamp j \<and> jb_evidenceFormat j = None
            \<and> (case find_request c (jb_archiveRequestId j) of
                 None \<Rightarrow> False | Some r \<Rightarrow> aq_status r \<noteq> Rq_cancellation_requested)) (as_jobs c)))"

definition expired_job_failed :: "archive_store \<Rightarrow> archive_job \<Rightarrow> int \<Rightarrow> archive_job \<Rightarrow> archive_job" where
  "expired_job_failed c candidate timestamp j =
     (archiveTerminalProgressPatchForClaim c (jb_id candidate) (jb_claimToken candidate) j)
       \<lparr>jb_status := Aj_failed, jb_completedAt := Some timestamp,
        jb_errorMessage := Some ''Archive worker lease expired'',
        jb_failureDetailVersion := Some ARCHIVE_FAILURE_DETAIL_VERSION, jb_updatedAt := timestamp\<rparr>"

definition recover_expired_job ::
  "archive_job \<Rightarrow> int \<Rightarrow> archive_store \<Rightarrow> archive_job option archive_transaction" where
  "recover_expired_job candidate timestamp c =
     and_then (update_jobs (\<lambda>j. jb_id j = jb_id candidate \<and> lease_expired_job timestamp j)
       (expired_job_failed c candidate timestamp) c) (\<lambda>(rows, c1).
       case first_row rows of
         None \<Rightarrow> Inr (None, c1)
       | Some j \<Rightarrow>
           and_then (must_update_request (jb_archiveRequestId candidate)
             (\<lambda>r. aq_id r = jb_archiveRequestId candidate \<and> aq_status r = Rq_running)
             (attention_request timestamp) c1) (\<lambda>(_, c2).
             map_sum id (Pair (Some j)) (recordArchiveJobFailure j c2)))"

fun recover_expired_jobs :: "archive_job list \<Rightarrow> int \<Rightarrow> archive_store \<Rightarrow> archive_job list archive_transaction" where
  "recover_expired_jobs [] timestamp c = Inr ([], c)"
| "recover_expired_jobs (candidate # candidates) timestamp c =
     and_then (recover_expired_job candidate timestamp c) (\<lambda>(recovered, c1).
       map_sum id (\<lambda>(jobs, c2). (case recovered of None \<Rightarrow> jobs | Some j \<Rightarrow> j # jobs, c2))
         (recover_expired_jobs candidates timestamp c1))"

definition recoverExpiredArchiveClaims :: "int \<Rightarrow> archive_store \<Rightarrow> archive_job list archive_transaction" where
  "recoverExpiredArchiveClaims timestamp c =
     map_sum id (\<lambda>(jobs, c'). (jobs, fold (\<lambda>j. forget_archive_progress (jb_id j)) jobs c'))
       (recover_expired_jobs (expired_archive_jobs timestamp c) timestamp c)"

text \<open>\<open>listExpiredCancellations\<close> continues where the last full page ended.\<close>

definition expired_cancellations :: "int \<Rightarrow> (int \<times> string) option \<Rightarrow> archive_store \<Rightarrow> archive_job list" where
  "expired_cancellations timestamp cursor c =
     take JOB_RECOVERY_LIMIT
       (sort_key (\<lambda>j. (jb_updatedAt j, jb_id j))
         (filter (\<lambda>j. lease_expired_job timestamp j
            \<and> (case find_request c (jb_archiveRequestId j) of
                 None \<Rightarrow> False | Some r \<Rightarrow> aq_status r = Rq_cancellation_requested)
            \<and> (case cursor of None \<Rightarrow> True | Some row \<Rightarrow> (jb_updatedAt j, jb_id j) > row)) (as_jobs c)))"

definition listExpiredCancellations :: "int \<Rightarrow> archive_store \<Rightarrow> archive_job list archive_transaction" where
  "listExpiredCancellations timestamp c =
     (let cursor = as_expiredCancellationCursor c;
          page = expired_cancellations timestamp cursor c;
          jobs = (if page = [] \<and> cursor \<noteq> None then expired_cancellations timestamp None c else page) in
      map_sum id (\<lambda>claims. (claims, c\<lparr>as_expiredCancellationCursor :=
          (if length claims = JOB_RECOVERY_LIMIT
           then Some (jb_updatedAt (last claims), jb_id (last claims)) else None)\<rparr>))
        (map_result asRunningArchiveJob jobs))"

definition finalizeExpiredCancellation ::
  "archive_job \<Rightarrow> int \<Rightarrow> archive_store \<Rightarrow> archive_job archive_transaction" where
  "finalizeExpiredCancellation claim timestamp c =
     (let evidence_job = marked (jb_evidenceFormat claim) in
      and_then (must_update_job (jb_id claim)
        (\<lambda>j. holds_job claim j \<and> jb_archiveRequestId j = jb_archiveRequestId claim
           \<and> jb_detectedDiscId j = jb_detectedDiscId claim
           \<and> (evidence_job \<longrightarrow> marked (jb_evidenceFormat j)) \<and> \<not> lease_running timestamp j
           \<and> list_ex (\<lambda>r. aq_id r = jb_archiveRequestId j \<and> aq_status r = Rq_cancellation_requested)
               (as_requests c))
        (aborted_job c claim evidence_job ''Archive cancelled after worker recovery'' timestamp) c) (\<lambda>(j, c1).
      and_then (must_update_request (jb_archiveRequestId j)
        (\<lambda>r. aq_id r = jb_archiveRequestId j \<and> aq_status r = Rq_cancellation_requested)
        (cancelled_request timestamp) c1) (\<lambda>(_, c2).
        Inr (j, forget_archive_progress (jb_id claim) c2))))"

end
