(* ===== verification/DetectedDiscs.thy ===== *)
theory DetectedDiscs
  imports ArchiveJobs
begin

text \<open>
  Detected discs: \<open>registerDetectedDisc\<close>, \<open>updateDetectedDiscStatus\<close> and \<open>createOriginalDiscArchive\<close>
  in \<open>internal/create-data-access.ts\<close>, with \<open>internal/dvd-contract-provenance.ts\<close>,
  \<open>internal/dvd-content-id-alias.ts\<close> and the reconciliation of archives that are known by a name
  from before content identities.

  What reading an archive file gives is an argument of the reconciliation.
\<close>

section \<open>Values in a JSON column\<close>

text \<open>
  A value as it is read back from a JSON column: members that are \<open>undefined\<close> are dropped, and
  what JSON cannot write is \<open>null\<close>.
\<close>

fun json_stored :: "js_value \<Rightarrow> js_value" where
  "json_stored JsUndefined = JsNull"
| "json_stored (JsNumber NonFinite) = JsNull"
| "json_stored (JsArray elements) = JsArray (map json_stored elements)"
| "json_stored (JsObject members) =
     JsObject (map (\<lambda>(key, v). (key, json_stored v)) (filter (\<lambda>m. snd m \<noteq> JsUndefined) members))"
| "json_stored v = v"

text \<open>
  \<open>isDeepStrictEqual\<close>; the order of members does not count.  Negative zero is not told apart from
  zero.
\<close>

fun isDeepStrictEqual :: "js_value \<Rightarrow> js_value \<Rightarrow> bool" where
  "isDeepStrictEqual (JsArray xs) (JsArray ys) = list_all2 isDeepStrictEqual xs ys"
| "isDeepStrictEqual (JsObject xs) (JsObject ys) =
     (set (map fst ys) \<subseteq> set (map fst xs)
    \<and> list_all (\<lambda>m. case map_of ys (fst m) of None \<Rightarrow> False | Some w \<Rightarrow> isDeepStrictEqual (snd m) w) xs)"
| "isDeepStrictEqual v w = (v = w)"

section \<open>Scans of a disc\<close>

definition normalizeDetectedDiscScan :: "string \<Rightarrow> string \<Rightarrow> js_value \<Rightarrow> js_value result" where
  "normalizeDetectedDiscScan discKind fingerprint scanData =
     (if discKind \<noteq> ''dvd'' \<or> scanData = JsUndefined then Inr scanData
      else case decodeDvdTitleMap scanData of
        None \<Rightarrow> Inl (DomainInvariantError ''DVD scan data must match the versioned title-map contract'')
      | Some m \<Rightarrow>
          if tm_contentId m \<noteq> fingerprint
          then Inl (DomainInvariantError ''DVD scan fingerprint must match its Detected Disc fingerprint'')
          else Inr (title_map_value m))"

definition scan_differs :: "archive_disc_row \<Rightarrow> js_value \<Rightarrow> bool" where
  "scan_differs d scanData \<longleftrightarrow> scanData \<noteq> JsUndefined \<and> \<not> isDeepStrictEqual (ad_scanData d) scanData"

definition null_if_undefined :: "js_value \<Rightarrow> js_value" where
  "null_if_undefined v = (if v = JsUndefined then JsNull else v)"

text \<open>Whether the observation and whether the status of a disc have changed.\<close>

definition evaluateDetectedDiscRediscovery ::
  "string \<Rightarrow> archive_disc_row option \<Rightarrow> string option \<Rightarrow> bool \<Rightarrow> archive_identity_row option
     \<Rightarrow> js_value \<Rightarrow> string option \<Rightarrow> (bool \<times> bool) result" where
  "evaluateDetectedDiscRediscovery discKind existing observationDiscKind isNewMediumObservation archive
       scanData volumeLabel =
     and_then (invariant_if (case archive of None \<Rightarrow> False | Some a \<Rightarrow> ia_discKind a \<noteq> discKind)
       ''Rediscovered disc kind must match existing archive provenance'') (\<lambda>_.
     and_then (invariant_if (case observationDiscKind of None \<Rightarrow> False | Some k \<Rightarrow> k \<noteq> discKind)
       ''Rediscovered disc kind must match existing fingerprint identity'') (\<lambda>_.
     and_then (invariant_if (case (archive, existing) of
           (Some a, Some d) \<Rightarrow> ia_detectedDiscId a = ad_id d \<and> scan_differs d scanData | _ \<Rightarrow> False)
       ''Rediscovery cannot change archived scan evidence'') (\<lambda>_.
     and_then (invariant_if (case (archive, existing) of
           (None, Some d) \<Rightarrow> ad_status d = Disc_approved \<and> (ad_discKind d \<noteq> discKind \<or> scan_differs d scanData)
         | _ \<Rightarrow> False)
       ''Rediscovery cannot change reviewed data for an approved Detected Disc'') (\<lambda>_.
       Inr (case existing of
              None \<Rightarrow> True
            | Some d \<Rightarrow> isNewMediumObservation \<or> ad_discKind d \<noteq> discKind
                \<or> ad_volumeLabel d \<noteq> volumeLabel
                \<or> \<not> isDeepStrictEqual (ad_scanData d) (null_if_undefined scanData),
            archive \<noteq> None \<and> map_option ad_status existing \<noteq> Some Disc_archived)))))"

section \<open>Archives from before content identities\<close>

text \<open>
  What the files of the archives say: their sizes, their content identity with the identity of the
  file that was read, and whether the file still is the one that was read.
\<close>

record archive_files =
  readDvdArchiveFileSize :: "string \<Rightarrow> int option"
  hashDvdArchiveFile :: "string \<Rightarrow> int \<Rightarrow> (string \<times> string) result"
  dvdArchiveFileMatchesIdentity :: "string \<Rightarrow> string \<Rightarrow> bool"

definition assignDvdContentIdAlias ::
  "string \<Rightarrow> string \<Rightarrow> string \<Rightarrow> string \<Rightarrow> archive_store \<Rightarrow> archive_store result" where
  "assignDvdContentIdAlias archiveId contentId fingerprintOwner aliasOwner c =
     and_then (invariant_if (case find (\<lambda>a. ia_fingerprint a = contentId) (as_archives c) of
         None \<Rightarrow> False | Some a \<Rightarrow> ia_id a \<noteq> archiveId) fingerprintOwner) (\<lambda>_.
     let c' = (if list_ex (\<lambda>(i, cid). i = archiveId \<or> cid = contentId) (as_contentIds c) then c
       else c\<lparr>as_contentIds := as_contentIds c @ [(archiveId, contentId)]\<rparr>) in
     map_sum id (\<lambda>_. c')
       (invariant_if (map_option fst (find (\<lambda>row. snd row = contentId) (as_contentIds c')) \<noteq> Some archiveId)
         aliasOwner))"

definition LEGACY_ARCHIVE_RECONCILIATION_LIMIT :: nat where
  "LEGACY_ARCHIVE_RECONCILIATION_LIMIT = 4"

definition LEGACY_ARCHIVE_RECONCILIATION_BYTES :: int where
  "LEGACY_ARCHIVE_RECONCILIATION_BYTES = 9000000000"

definition isCurrentDvdContentSize :: "int \<Rightarrow> bool" where
  "isCurrentDvdContentSize n \<longleftrightarrow> is_safe_integer n \<and> 0 < n \<and> n \<le> 9000000000"

text \<open>
  The order of the candidates: the first sort key compares a size with the size asked for, so it
  is NULL for an archive without a size, which SQLite puts last when it sorts downwards.
\<close>

definition candidate_rank :: "int \<Rightarrow> archive_identity_row \<Rightarrow> nat" where
  "candidate_rank sizeBytes a =
     (case ia_sizeBytes a of None \<Rightarrow> 2 | Some n \<Rightarrow> if n = sizeBytes then 0 else 1)"

definition unresolved_candidates :: "archive_store \<Rightarrow> int \<Rightarrow> archive_identity_row list" where
  "unresolved_candidates c sizeBytes =
     take (LEGACY_ARCHIVE_RECONCILIATION_LIMIT + 1)
       (sort_key (\<lambda>a. (candidate_rank sizeBytes a, ia_id a))
         (filter (unresolved_legacy_identity c) (as_archives c)))"

text \<open>As many candidates as a call may hash, each with its size.\<close>

fun bounded_candidates ::
  "archive_files \<Rightarrow> nat \<Rightarrow> int \<Rightarrow> archive_identity_row list \<Rightarrow> (archive_identity_row \<times> int) list result" where
  "bounded_candidates files n bytes [] = Inr []"
| "bounded_candidates files n bytes (a # as) =
     (if n \<ge> LEGACY_ARCHIVE_RECONCILIATION_LIMIT then Inr []
      else and_then
        (case ia_sizeBytes a of
           Some m \<Rightarrow> if isCurrentDvdContentSize m then Inr m
             else (case readDvdArchiveFileSize files (ia_archivePath a) of
                 Some k \<Rightarrow> Inr k
               | None \<Rightarrow> Inl (DomainInvariantError (''Legacy DVD archive content identity requires '' @
                   ''operator remediation because its size cannot be safely derived'')))
         | None \<Rightarrow> (case readDvdArchiveFileSize files (ia_archivePath a) of
               Some k \<Rightarrow> Inr k
             | None \<Rightarrow> Inl (DomainInvariantError (''Legacy DVD archive content identity requires '' @
                 ''operator remediation because its size cannot be safely derived''))))
        (\<lambda>size_bytes.
          if bytes + size_bytes > LEGACY_ARCHIVE_RECONCILIATION_BYTES then Inr []
          else map_sum id ((#) (a, size_bytes))
            (bounded_candidates files (Suc n) (bytes + size_bytes) as)))"

definition legacy_archive_changed :: js_error where
  "legacy_archive_changed =
     DomainInvariantError ''Legacy DVD archive changed during content identity reconciliation''"

text \<open>The transaction that gives one archive its content identity.\<close>

definition reconcile_candidate ::
  "archive_files \<Rightarrow> (archive_store \<Rightarrow> unit result) \<Rightarrow> archive_identity_row \<Rightarrow> int \<Rightarrow> string \<Rightarrow> string
     \<Rightarrow> archive_store \<Rightarrow> archive_store result" where
  "reconcile_candidate files fence a size_bytes contentId identity c =
     and_then (fence c) (\<lambda>_.
     and_then (reject_if
       (\<not> list_ex (\<lambda>b. ia_id b = ia_id a \<and> ia_archivePath b = ia_archivePath a
            \<and> ia_fingerprint b = ia_fingerprint a \<and> ia_sizeBytes b = ia_sizeBytes a
            \<and> ia_discKind b = ''dvd'') (as_archives c)
        \<or> \<not> dvdArchiveFileMatchesIdentity files (ia_archivePath a) identity)
       legacy_archive_changed) (\<lambda>_.
     and_then (if ia_sizeBytes a = Some size_bytes then Inr c
       else and_then (update_archives (\<lambda>b. ia_id b = ia_id a \<and> ia_sizeBytes b = ia_sizeBytes a)
           (\<lambda>b. b\<lparr>ia_sizeBytes := Some size_bytes\<rparr>) c) (\<lambda>(rows, c').
         if rows = [] then Inl legacy_archive_changed else Inr c')) (\<lambda>c1.
       assignDvdContentIdAlias (ia_id a) contentId
         ''DVD content identity is already stored as a different Original Disc Archive fingerprint''
         ''DVD content identity is already assigned to a different Original Disc Archive'' c1)))"

text \<open>
  Every candidate has a transaction of its own, so what was found before an error stays.  The
  fence of the \<open>n\<close>-th transaction is \<open>fence n\<close>.
\<close>

fun reconcile_candidates ::
  "archive_files \<Rightarrow> (nat \<Rightarrow> archive_store \<Rightarrow> unit result) \<Rightarrow> string \<Rightarrow> nat
     \<Rightarrow> (archive_identity_row \<times> int) list \<Rightarrow> archive_store \<Rightarrow> unit result \<times> archive_store" where
  "reconcile_candidates files fence fingerprint n [] c =
     (invariant_if (list_ex (unresolved_legacy_identity c) (as_archives c))
        ''Legacy DVD archive reconciliation made bounded progress; retry detection to continue'', c)"
| "reconcile_candidates files fence fingerprint n ((a, size_bytes) # candidates) c =
     (case hashDvdArchiveFile files (ia_archivePath a) size_bytes of
        Inl e \<Rightarrow> (Inl e, c)
      | Inr (contentId, identity) \<Rightarrow>
          (case reconcile_candidate files (fence n) a size_bytes contentId identity c of
             Inl e \<Rightarrow> (Inl e, c)
           | Inr c' \<Rightarrow>
               if contentId = fingerprint then (Inr (), c')
               else reconcile_candidates files fence fingerprint (Suc n) candidates c'))"

definition reconcileLegacyDvdArchiveContentId ::
  "(string \<Rightarrow> string) \<Rightarrow> archive_files \<Rightarrow> (nat \<Rightarrow> archive_store \<Rightarrow> unit result) \<Rightarrow> string \<Rightarrow> int option
     \<Rightarrow> archive_store \<Rightarrow> unit result \<times> archive_store" where
  "reconcileLegacyDvdArchiveContentId sha256 files fence fingerprint sizeBytes c =
     (case sizeBytes of
        None \<Rightarrow> (Inr (), c)
      | Some n \<Rightarrow>
          if \<not> isDvdContentId fingerprint then (Inr (), c)
          else case findOriginalArchiveByFingerprintOrContentIdAlias sha256 c fingerprint of
            Inl e \<Rightarrow> (Inl e, c)
          | Inr (Some a) \<Rightarrow> (Inr (), c)
          | Inr None \<Rightarrow>
              if \<not> isCurrentDvdContentSize n
              then (Inl (DomainInvariantError ''DVD content size is invalid''), c)
              else (case bounded_candidates files 0 0 (unresolved_candidates c n) of
                  Inl e \<Rightarrow> (Inl e, c)
                | Inr candidates \<Rightarrow> reconcile_candidates files fence fingerprint 0 candidates c))"

section \<open>Registration\<close>

text \<open>A result with the catalog it leaves, which may have changed before an error.\<close>

type_synonym 'a staged = "'a result \<times> archive_store"

definition staged :: "archive_store \<Rightarrow> 'a archive_transaction \<Rightarrow> 'a staged" where
  "staged c r = (case r of Inl e \<Rightarrow> (Inl e, c) | Inr (x, c') \<Rightarrow> (Inr x, c'))"

record disc_registration =
  dr_opticalDriveId :: string
  dr_discKind :: string
  dr_fingerprint :: string
  dr_volumeLabel :: "string option"
  dr_scanData :: js_value
  dr_sizeBytes :: "int option"
  dr_isNewMediumObservation :: bool

definition registered_place :: "disc_registration \<Rightarrow> string \<Rightarrow> archive_disc_row \<Rightarrow> bool" where
  "registered_place input fingerprint d \<longleftrightarrow>
     ad_opticalDriveId d = dr_opticalDriveId input \<and> ad_fingerprint d = fingerprint"

definition new_disc ::
  "disc_registration \<Rightarrow> string \<Rightarrow> js_value \<Rightarrow> bool \<Rightarrow> int \<Rightarrow> string \<Rightarrow> archive_disc_row" where
  "new_disc input fingerprint scanData archived timestamp i =
     \<lparr>ad_id = i, ad_opticalDriveId = dr_opticalDriveId input, ad_discKind = dr_discKind input,
      ad_fingerprint = fingerprint, ad_volumeLabel = dr_volumeLabel input,
      ad_status = (if archived then Disc_archived else Disc_detected),
      ad_scanData = json_stored scanData, ad_detectedAt = timestamp, ad_updatedAt = timestamp\<rparr>"

definition insert_disc :: "archive_disc_row \<Rightarrow> archive_store \<Rightarrow> archive_store result" where
  "insert_disc d c =
     (if list_ex (\<lambda>e. ad_opticalDriveId e = ad_opticalDriveId d \<and> ad_fingerprint e = ad_fingerprint d)
         (as_discs c) then Inr c
      else if ad_id d \<in> set (map ad_id (as_discs c)) then Inl unique_failed
      else if \<not> list_ex (\<lambda>o'. od_id o' = ad_opticalDriveId d) (as_drives c) then Inl foreign_key_failed
      else Inr (c\<lparr>as_discs := as_discs c @ [d]\<rparr>))"

text \<open>An update leaves out what is \<open>undefined\<close>.\<close>

definition rediscovered ::
  "disc_registration \<Rightarrow> js_value \<Rightarrow> bool \<Rightarrow> bool \<Rightarrow> bool \<Rightarrow> int \<Rightarrow> archive_disc_row \<Rightarrow> archive_disc_row" where
  "rediscovered input scanData archived observationChanged statusChanged timestamp d =
     d\<lparr>ad_discKind := dr_discKind input,
       ad_volumeLabel := (case dr_volumeLabel input of None \<Rightarrow> ad_volumeLabel d | Some l \<Rightarrow> Some l),
       ad_scanData := (if scanData = JsUndefined then ad_scanData d else json_stored scanData),
       ad_status := (if archived then Disc_archived else ad_status d),
       ad_detectedAt := (if observationChanged then timestamp else ad_detectedAt d),
       ad_updatedAt := (if observationChanged \<or> statusChanged then timestamp else ad_updatedAt d)\<rparr>"

definition rediscoverable ::
  "disc_registration \<Rightarrow> string \<Rightarrow> bool \<Rightarrow> archive_store \<Rightarrow> archive_disc_row \<Rightarrow> bool" where
  "rediscoverable input fingerprint archived c d \<longleftrightarrow>
     registered_place input fingerprint d
   \<and> (archived \<or> ad_discKind d = dr_discKind input
      \<or> (ad_status d \<noteq> Disc_archived
         \<and> \<not> list_ex (\<lambda>a. ia_detectedDiscId a = ad_id d) (as_archives c)))"

text \<open>The requests for discs of a fingerprint.\<close>

definition requests_fingerprint :: "archive_store \<Rightarrow> string \<Rightarrow> archive_request \<Rightarrow> bool" where
  "requests_fingerprint c fingerprint r \<longleftrightarrow>
     list_ex (\<lambda>d. ad_id d = aq_detectedDiscId r \<and> ad_fingerprint d = fingerprint) (as_discs c)"

definition register_disc ::
  "(string \<Rightarrow> string) \<Rightarrow> disc_registration \<Rightarrow> string \<Rightarrow> js_value \<Rightarrow> int \<Rightarrow> string \<Rightarrow> archive_store
     \<Rightarrow> archive_disc_row archive_transaction" where
  "register_disc sha256 input fingerprint scanData timestamp i c =
     and_then (findOriginalArchiveByFingerprintOrContentIdAlias sha256 c fingerprint) (\<lambda>archive.
     let archived = archive \<noteq> None in
     and_then (evaluateDetectedDiscRediscovery (dr_discKind input)
       (find (registered_place input fingerprint) (as_discs c))
       (map_option ad_discKind (find (\<lambda>d. ad_fingerprint d = fingerprint) (as_discs c)))
       (dr_isNewMediumObservation input) archive scanData (dr_volumeLabel input))
       (\<lambda>(observationChanged, statusChanged).
     and_then (insert_disc (new_disc input fingerprint scanData archived timestamp i) c) (\<lambda>c1.
     let (rows, c2) = update_discs (rediscoverable input fingerprint archived c1)
           (rediscovered input scanData archived observationChanged statusChanged timestamp) c1 in
       case first_row rows of
         None \<Rightarrow> Inl (DomainInvariantError
           ''Rediscovery cannot change a Detected Disc kind with archive provenance'')
       | Some d \<Rightarrow>
           if \<not> archived then Inr (d, c2)
           else map_sum id (\<lambda>(_, c3). (d, c3))
             (update_requests (\<lambda>r. aq_status r \<in> {Rq_pending, Rq_needs_attention}
                 \<and> aq_rearchiveSourceArchiveId r = None \<and> requests_fingerprint c2 fingerprint r)
               (fulfilled_request timestamp) c2))))"

definition registerDetectedDisc ::
  "(string \<Rightarrow> string) \<Rightarrow> archive_files \<Rightarrow> disc_registration \<Rightarrow> int \<Rightarrow> string \<Rightarrow> archive_store
     \<Rightarrow> archive_disc_row staged" where
  "registerDetectedDisc sha256 files input timestamp i c =
     (case requireNonEmpty (dr_fingerprint input) ''fingerprint'' of
        Inl e \<Rightarrow> (Inl e, c)
      | Inr fingerprint \<Rightarrow>
          (case normalizeDetectedDiscScan (dr_discKind input) fingerprint (dr_scanData input) of
             Inl e \<Rightarrow> (Inl e, c)
           | Inr scanData \<Rightarrow>
               (case (if dr_discKind input = ''dvd''
                   then reconcileLegacyDvdArchiveContentId sha256 files (\<lambda>_ _. Inr ()) fingerprint
                     (dr_sizeBytes input) c
                   else (Inr (), c)) of
                  (Inl e, c1) \<Rightarrow> (Inl e, c1)
                | (Inr _, c1) \<Rightarrow> staged c1 (register_disc sha256 input fingerprint scanData timestamp i c1))))"

section \<open>The status of a disc\<close>

definition detectedDiscTransitions :: "detected_disc_status \<Rightarrow> detected_disc_status list" where
  "detectedDiscTransitions status =
     (case status of
        Disc_detected \<Rightarrow> [Disc_scanned, Disc_rejected]
      | Disc_scanned \<Rightarrow> [Disc_approved, Disc_rejected]
      | Disc_approved \<Rightarrow> [Disc_rejected]
      | Disc_archived \<Rightarrow> []
      | Disc_rejected \<Rightarrow> [Disc_detected])"

definition updateDetectedDiscStatus ::
  "(string \<Rightarrow> string) \<Rightarrow> string \<Rightarrow> detected_disc_status \<Rightarrow> int \<Rightarrow> string \<Rightarrow> archive_store
     \<Rightarrow> archive_disc_row archive_transaction" where
  "updateDetectedDiscStatus sha256 disc_id status timestamp i c =
     (if status = Disc_approved
      then and_then (createArchiveRequest sha256 \<lparr>cq_detectedDiscId = disc_id, cq_evidenceFormat = None,
             cq_priority = None\<rparr> None timestamp i c) (\<lambda>(_, c1).
           map_sum id (\<lambda>d. (d, c1)) (requireRow (find_disc c1 disc_id) ''detected disc'' disc_id))
      else
        let (rows, c1) = update_discs
              (\<lambda>d. ad_id d = disc_id \<and> status \<in> set (detectedDiscTransitions (ad_status d)))
              (\<lambda>d. d\<lparr>ad_status := status, ad_updatedAt := timestamp\<rparr>) c in
        case first_row rows of
          None \<Rightarrow> and_then (requireRow (find_disc c disc_id) ''detected disc'' disc_id) (\<lambda>current.
            Inl (InvalidStatusTransitionError ''detected disc'' (disc_status_text (ad_status current))
              (disc_status_text status)))
        | Some d \<Rightarrow>
            map_sum id (\<lambda>(_, c2). (d, c2))
              (update_requests (\<lambda>r. aq_detectedDiscId r = disc_id
                  \<and> aq_status r \<in> {Rq_pending, Rq_needs_attention})
                (\<lambda>r. (cancelled_request timestamp r)\<lparr>aq_cancellationRequestedAt := Some timestamp\<rparr>) c1))"

section \<open>Archives that are entered by hand\<close>

record archive_input =
  nw_detectedDiscId :: string
  nw_discKind :: string
  nw_archivePath :: string
  nw_fingerprint :: string
  nw_sizeBytes :: "int option"

definition no_boundary_columns :: archive_boundary_columns where
  "no_boundary_columns =
     \<lparr>boundaryPolicyVersion = None, boundaryReportedSizeBytes = None, boundaryPublishedSizeBytes = None,
      boundaryExcludedSectorCount = None, boundaryFirstExcludedLba = None,
      boundaryMaximumReferencedLba = None, boundaryReadFailureClassifierVersion = None,
      boundaryReadFailureScsiStatus = None, boundaryReadFailureHostStatus = None,
      boundaryReadFailureDriverStatus = None, boundaryReadFailureSenseResponseCode = None,
      boundaryReadFailureSenseKey = None, boundaryReadFailureAsc = None, boundaryReadFailureAscq = None\<rparr>"

definition entered_archive :: "archive_input \<Rightarrow> string \<Rightarrow> string \<Rightarrow> int \<Rightarrow> string \<Rightarrow> archive_identity_row" where
  "entered_archive input fingerprint path timestamp i =
     \<lparr>arc_integrity = Unknown_integrity, arc_integrityEvidenceRevision = None,
      arc_integrityPolicyVersion = None, arc_badSectorCount = None, arc_badAreaCount = None,
      arc_badSectorRanges = None, arc_badSectorCountsByTitle = None,
      ia_id = i, ia_detectedDiscId = nw_detectedDiscId input, ia_rearchiveSourceArchiveId = None,
      ia_discKind = nw_discKind input, ia_archivePath = path, ia_fingerprint = fingerprint,
      ia_boundary = no_boundary_columns, ia_sizeBytes = nw_sizeBytes input, ia_archivedAt = timestamp\<rparr>"

text \<open>Why the disc of an archive could not be marked as archived.\<close>

definition archive_refused :: "archive_input \<Rightarrow> string \<Rightarrow> archive_disc_row \<Rightarrow> js_error" where
  "archive_refused input fingerprint d =
     (if ad_status d \<noteq> Disc_approved
      then InvalidStatusTransitionError ''detected disc'' (disc_status_text (ad_status d)) ''archived''
      else if ad_discKind d \<noteq> nw_discKind input
      then DomainInvariantError ''Original Disc Archive kind must match its Detected Disc''
      else if ad_fingerprint d \<noteq> fingerprint
      then DomainInvariantError ''Original Disc Archive fingerprint must match its Detected Disc''
      else InvalidStatusTransitionError ''detected disc'' ''approved'' ''archived'')"

definition archived_disc :: "int \<Rightarrow> archive_disc_row \<Rightarrow> archive_disc_row" where
  "archived_disc timestamp d = d\<lparr>ad_status := Disc_archived, ad_updatedAt := timestamp\<rparr>"

definition create_archive ::
  "(string \<Rightarrow> string) \<Rightarrow> archive_input \<Rightarrow> string \<Rightarrow> string \<Rightarrow> int \<Rightarrow> string \<Rightarrow> archive_store
     \<Rightarrow> archive_identity_row archive_transaction" where
  "create_archive sha256 input fingerprint path timestamp i c =
     and_then (findOriginalArchiveByFingerprintOrContentIdAlias sha256 c fingerprint) (\<lambda>archived.
     and_then (invariant_if (archived \<noteq> None)
       ''DVD content already has Original Disc Archive provenance'') (\<lambda>_.
     and_then (requireLegacyDvdArchiveIdentitiesResolved c (nw_discKind input) fingerprint) (\<lambda>_.
     let (rows, c1) = update_discs
           (\<lambda>d. ad_id d = nw_detectedDiscId input \<and> ad_status d = Disc_approved
              \<and> ad_discKind d = nw_discKind input \<and> ad_fingerprint d = fingerprint)
           (archived_disc timestamp) c in
     if rows = []
     then and_then (requireRow (find_disc c (nw_detectedDiscId input)) ''detected disc''
         (nw_detectedDiscId input)) (\<lambda>d. Inl (archive_refused input fingerprint d))
     else
       and_then (insert_archive (entered_archive input fingerprint path timestamp i) c1) (\<lambda>(a, c2).
       let c3 = snd (update_discs (\<lambda>d. ad_fingerprint d = fingerprint) (archived_disc timestamp) c2) in
       map_sum id (\<lambda>(_, c4). (a, c4))
         (update_requests (\<lambda>r. aq_status r \<in> {Rq_pending, Rq_needs_attention}
             \<and> requests_fingerprint c3 fingerprint r) (fulfilled_request timestamp) c3)))))"

definition createOriginalDiscArchive ::
  "(string \<Rightarrow> string) \<Rightarrow> archive_files \<Rightarrow> archive_input \<Rightarrow> int \<Rightarrow> string \<Rightarrow> archive_store
     \<Rightarrow> archive_identity_row staged" where
  "createOriginalDiscArchive sha256 files input timestamp i c =
     (case requireNonEmpty (nw_fingerprint input) ''fingerprint'' of
        Inl e \<Rightarrow> (Inl e, c)
      | Inr fingerprint \<Rightarrow>
          (case requireNonEmpty (nw_archivePath input) ''archivePath'' of
             Inl e \<Rightarrow> (Inl e, c)
           | Inr path \<Rightarrow>
               (case (if nw_discKind input = ''dvd''
                   then reconcileLegacyDvdArchiveContentId sha256 files (\<lambda>_ _. Inr ()) fingerprint
                     (nw_sizeBytes input) c
                   else (Inr (), c)) of
                  (Inl e, c1) \<Rightarrow> (Inl e, c1)
                | (Inr _, c1) \<Rightarrow> staged c1 (create_archive sha256 input fingerprint path timestamp i c1))))"

end
