(* ===== verification/ArchivePublication.thy ===== *)
theory ArchivePublication
  imports DetectedDiscs
begin

text \<open>
  The publication of an archive: \<open>publishArchive\<close> in \<open>internal/create-data-access.ts\<close>, which ends an
  Archive Job with an Original Disc Archive and, for a job of the recovery format, with the first
  evidence manifest, the header that makes it authoritative and the recovery of what could not be
  read; and \<open>findDvdArchiveEvidenceHeader\<close>, which checks all of that whenever it is read.

  Of the triggers that the migrations install, the guard of a new header is modelled; the others
  restate what the transactions ensure, so they only refuse.
\<close>

section \<open>The catalog\<close>

record evidence_header_row = header_row +
  hd_sourceArchiveJobId :: string

record publication_store =
  pb_catalog :: archive_store
  pb_headers :: "evidence_header_row list"
  pb_manifests :: "manifest_row list"
  pb_reads :: "read_row list"
  pb_samples :: "(string \<times> sample_manifest) list"
  pb_recoveries :: "recovery_row list"

definition requirePositiveSafeInteger :: "int \<Rightarrow> string \<Rightarrow> int result" where
  "requirePositiveSafeInteger n name =
     (if \<not> is_safe_integer n \<or> n \<le> 0 then Inl (DomainInvariantError (name @ '' must be a positive safe integer''))
      else Inr n)"

section \<open>What authoritative evidence hangs on\<close>

text \<open>The rows that a header leads to; all of them must be there.\<close>

record evidence_links =
  el_manifest :: manifest_row
  el_archive :: archive_identity_row
  el_job :: archive_job
  el_request :: archive_request
  el_inspection :: archive_inspection_row
  el_archiveDisc :: archive_disc_row
  el_requestedDisc :: archive_disc_row

definition find_manifest :: "publication_store \<Rightarrow> string \<Rightarrow> manifest_row option" where
  "find_manifest p i = find (\<lambda>m. row_id m = i) (pb_manifests p)"

definition header_links :: "publication_store \<Rightarrow> 'a evidence_header_row_scheme \<Rightarrow> evidence_links option" where
  "header_links p h =
     (let c = pb_catalog p in
      Option.bind (find_manifest p (currentManifestId h)) (\<lambda>manifest.
      Option.bind (find_archive c (header_originalDiscArchiveId h)) (\<lambda>archive.
      Option.bind (find_archive_job c (hd_sourceArchiveJobId h)) (\<lambda>job.
      Option.bind (find_request c (jb_archiveRequestId job)) (\<lambda>request.
      Option.bind (Option.bind (jb_discInspectionId job) (find_archive_inspection c)) (\<lambda>inspection.
      Option.bind (find_disc c (ia_detectedDiscId archive)) (\<lambda>archive_disc.
      Option.bind (find_disc c (aq_detectedDiscId request)) (\<lambda>requested_disc.
        Some \<lparr>el_manifest = manifest, el_archive = archive, el_job = job, el_request = request,
          el_inspection = inspection, el_archiveDisc = archive_disc,
          el_requestedDisc = requested_disc\<rparr>))))))))"

text \<open>No attempt of the request has seen a disc of another size.\<close>

definition requestDeclaredByteCountMatches :: "archive_store \<Rightarrow> string \<Rightarrow> int \<Rightarrow> bool" where
  "requestDeclaredByteCountMatches c request_id reported \<longleftrightarrow>
     list_all (\<lambda>n. n = Some reported) (attemptedDeclaredByteCountsForArchiveRequest c request_id)"

definition content_id_of :: "archive_disc_row \<Rightarrow> string option" where
  "content_id_of d = map_option tm_contentId (decodeDvdTitleMap (ad_scanData d))"

definition requestMatchesPublishedDisc ::
  "archive_store \<Rightarrow> 'a header_row_scheme \<Rightarrow> evidence_links \<Rightarrow> bool" where
  "requestMatchesPublishedDisc c h l \<longleftrightarrow>
     aq_detectedDiscId (el_request l) = ia_detectedDiscId (el_archive l)
   \<or> (requestDeclaredByteCountMatches c (aq_id (el_request l)) (header_boundaryReportedSizeBytes h)
      \<and> ad_discKind (el_requestedDisc l) = ''dvd''
      \<and> ad_status (el_requestedDisc l) = requiredArchiveRequestDiscStatus (el_request l)
      \<and> (if aq_rearchiveSourceArchiveId (el_request l) = None
         then ad_fingerprint (el_archiveDisc l) = ia_fingerprint (el_archive l)
           \<and> ad_fingerprint (el_requestedDisc l) = ad_fingerprint (el_archiveDisc l)
           \<and> content_id_of (el_archiveDisc l) = Some (ad_fingerprint (el_archiveDisc l))
           \<and> content_id_of (el_requestedDisc l) = Some (ad_fingerprint (el_archiveDisc l))
         else ia_rearchiveSourceArchiveId (el_archive l) = aq_rearchiveSourceArchiveId (el_request l)))"

definition provenance_invalid :: "archive_store \<Rightarrow> 'a header_row_scheme \<Rightarrow> evidence_links \<Rightarrow> bool" where
  "provenance_invalid c h l \<longleftrightarrow>
     ia_discKind (el_archive l) \<noteq> ''dvd''
   \<or> ad_fingerprint (el_archiveDisc l) \<noteq> ia_fingerprint (el_archive l)
   \<or> jb_originalDiscArchiveId (el_job l) \<noteq> Some (header_originalDiscArchiveId h)
   \<or> jb_detectedDiscId (el_job l) \<noteq> ia_detectedDiscId (el_archive l)
   \<or> jb_evidenceFormat (el_job l) \<noteq> Some (header_evidenceFormat h)
   \<or> jb_status (el_job l) \<noteq> Aj_completed
   \<or> \<not> requestMatchesPublishedDisc c h l
   \<or> aq_evidenceFormat (el_request l) \<noteq> Some (header_evidenceFormat h)
   \<or> aq_status (el_request l) \<noteq> Rq_fulfilled
   \<or> in_detectedDiscId (el_inspection l) \<noteq> Some (ia_detectedDiscId (el_archive l))
   \<or> in_status (el_inspection l) \<noteq> ''completed''
   \<or> in_totalBytes (el_inspection l) \<noteq> Some (header_boundaryReportedSizeBytes h)"

text \<open>The manifest before the current one, and the recovery read that led to the current one.\<close>

definition linked_previous :: "publication_store \<Rightarrow> manifest_row \<Rightarrow> manifest_row option" where
  "linked_previous p m = Option.bind (row_previousManifestId m) (find_manifest p)"

definition linked_read :: "(string \<Rightarrow> string) \<Rightarrow> publication_store \<Rightarrow> manifest_row \<Rightarrow> read_row option result" where
  "linked_read sha256 p m =
     (case row_recoveryReadId m of
        None \<Rightarrow> Inr None
      | Some i \<Rightarrow>
          (case find (\<lambda>r. read_id r = i) (pb_reads p) of
             None \<Rightarrow> Inl (DomainInvariantError ''Persisted DVD Archive Evidence recovery read is incomplete'')
           | Some r \<Rightarrow> map_sum id (\<lambda>_. Some r)
               (assertDvdArchiveRecoveryReadEvidenceDigest sha256 (read_evidence_of_row r)
                 (readRow_evidenceDigest r))))"

definition current_manifest_mismatch ::
  "'a header_row_scheme \<Rightarrow> evidence_links \<Rightarrow> manifest_row option \<Rightarrow> read_row option \<Rightarrow> bool" where
  "current_manifest_mismatch h l previous recovery_read \<longleftrightarrow>
     (let m = el_manifest l; a = el_archive l; b = ia_boundary a in
      row_originalDiscArchiveId m \<noteq> header_originalDiscArchiveId h
    \<or> row_revision m \<noteq> currentManifestRevision h
    \<or> row_manifestDigest m \<noteq> currentManifestDigest h
    \<or> row_evidenceFormat m \<noteq> header_evidenceFormat h
    \<or> row_imageFingerprint m \<noteq> ia_fingerprint a
    \<or> row_sectorSizeBytes m \<noteq> header_sectorSizeBytes h
    \<or> row_acceptedEndLbaExclusive m \<noteq> header_acceptedEndLbaExclusive h
    \<or> row_boundaryPolicyVersion m \<noteq> header_boundaryPolicyVersion h
    \<or> row_boundaryReportedSizeBytes m \<noteq> header_boundaryReportedSizeBytes h
    \<or> row_boundaryPublishedSizeBytes m \<noteq> header_boundaryPublishedSizeBytes h
    \<or> ia_sizeBytes a \<noteq> Some (header_boundaryPublishedSizeBytes h)
    \<or> boundaryPolicyVersion b \<noteq> Some (header_boundaryPolicyVersion h)
    \<or> boundaryReportedSizeBytes b \<noteq> Some (header_boundaryReportedSizeBytes h)
    \<or> boundaryPublishedSizeBytes b \<noteq> Some (header_boundaryPublishedSizeBytes h)
    \<or> (row_revision m = 1 \<and> (previous \<noteq> None \<or> recovery_read \<noteq> None))
    \<or> (row_revision m > 1
       \<and> (map_option row_originalDiscArchiveId previous \<noteq> Some (header_originalDiscArchiveId h)
        \<or> map_option row_revision previous \<noteq> Some (row_revision m - 1)
        \<or> map_option readRow_originalDiscArchiveId recovery_read \<noteq> Some (header_originalDiscArchiveId h)
        \<or> map_option readRow_fromManifestId recovery_read \<noteq> row_previousManifestId m
        \<or> map_option readRow_fromManifestRevision recovery_read \<noteq> map_option row_revision previous)))"

definition checked_transition :: "manifest_row option \<Rightarrow> manifest_row \<Rightarrow> read_row option \<Rightarrow> unit result" where
  "checked_transition previous m recovery_read =
     (case (previous, recovery_read) of
        (Some q, Some r) \<Rightarrow>
          assertDvdEvidenceRangeTransition (row_unrecoveredSourceRanges q) (row_unrecoveredSourceRanges m)
            (readRow_startLba r) (outcome_of (readRow_outcome r))
      | _ \<Rightarrow> Inr ())"

record found_header = dvd_archive_evidence_header +
  fh_sourceArchiveJobId :: string

definition found_header_of :: "'a evidence_header_row_scheme \<Rightarrow> manifest_row \<Rightarrow> found_header" where
  "found_header_of h m =
     \<lparr>hdr_originalDiscArchiveId = header_originalDiscArchiveId h,
      hdr_evidenceFormat = header_evidenceFormat h,
      hdr_boundaryEvidenceDigest = header_boundaryEvidenceDigest h,
      hdr_sectorSizeBytes = header_sectorSizeBytes h,
      hdr_acceptedEndLbaExclusive = header_acceptedEndLbaExclusive h,
      hdr_currentManifestId = currentManifestId h,
      hdr_currentManifestRevision = currentManifestRevision h,
      hdr_currentManifestDigest = currentManifestDigest h,
      hdr_unrecoveredSourceRanges = row_unrecoveredSourceRanges m,
      fh_sourceArchiveJobId = hd_sourceArchiveJobId h\<rparr>"

definition read_evidence_header ::
  "(string \<Rightarrow> string) \<Rightarrow> publication_store \<Rightarrow> evidence_header_row \<Rightarrow> found_header result" where
  "read_evidence_header sha256 p h =
     (case header_links p h of
        None \<Rightarrow> Inl (DomainInvariantError
          ''Persisted DVD Archive Evidence authoritative links are incomplete'')
      | Some l \<Rightarrow>
          let m = el_manifest l in
          and_then (archiveBoundaryEvidenceFromRecord (ia_boundary (el_archive l))) (\<lambda>found.
          case found of
            None \<Rightarrow> Inl (DomainInvariantError
              ''Persisted DVD Archive Evidence has no Archive Boundary Evidence'')
          | Some boundary \<Rightarrow>
              and_then (assertDvdArchiveBoundaryEvidenceDigest sha256 boundary
                (header_boundaryEvidenceDigest h)) (\<lambda>_.
              and_then (assertDvdArchiveBoundaryEvidenceDigest sha256 boundary
                (row_boundaryEvidenceDigest m)) (\<lambda>_.
              and_then (invariant_if (provenance_invalid (pb_catalog p) h l)
                ''Persisted DVD Archive Evidence source job provenance is invalid'') (\<lambda>_.
              and_then (linked_read sha256 p m) (\<lambda>recovery_read.
              let previous = linked_previous p m in
              and_then (invariant_if (current_manifest_mismatch h l previous recovery_read)
                (''Persisted DVD Archive Evidence header does not match '' @
                 ''its current manifest and archive'')) (\<lambda>_.
              and_then (assertDvdArchiveEvidenceManifestDigests sha256
                (manifest_input m (map_option row_manifestDigest previous)
                  (map_option readRow_evidenceDigest recovery_read)) (row_digests m)) (\<lambda>_.
              and_then (checked_transition previous m recovery_read) (\<lambda>_.
                Inr (found_header_of h m))))))))))"

text \<open>The headers are keyed by their archive.\<close>

definition findDvdArchiveEvidenceHeader ::
  "(string \<Rightarrow> string) \<Rightarrow> publication_store \<Rightarrow> string \<Rightarrow> found_header option result" where
  "findDvdArchiveEvidenceHeader sha256 p archiveId =
     (case find (\<lambda>h. header_originalDiscArchiveId h = archiveId) (pb_headers p) of
        None \<Rightarrow> Inr None
      | Some h \<Rightarrow> map_sum id Some (read_evidence_header sha256 p h))"

section \<open>What is published\<close>

record publication_input =
  pi_archivePath :: string
  pi_boundaryEvidence :: archive_boundary_evidence
  pi_sizeBytes :: int
  pi_integrityEvidence :: archive_integrity_evidence

record initial_save =
  is_manifest :: manifest_digest_input
  is_digests :: manifest_digests
  is_id :: string
  is_sourceArchiveJobId :: string
  is_sourceSampleManifest :: "sample_manifest option"

text \<open>The provenance that an initial save states.\<close>

definition initial_provenance_invalid :: "archive_job \<Rightarrow> initial_save \<Rightarrow> bool" where
  "initial_provenance_invalid claim s \<longleftrightarrow>
     (let m = is_manifest s in
      jb_evidenceFormat claim \<noteq> Some DVD_RECOVERY_EVIDENCE_FORMAT
    \<or> is_sourceArchiveJobId s \<noteq> jb_id claim \<or> revision m \<noteq> 1
    \<or> previousManifestId m \<noteq> None \<or> recoveryReadId m \<noteq> None
    \<or> previousManifestDigest m \<noteq> None \<or> recoveryReadEvidenceDigest m \<noteq> None
    \<or> manifest_digest_input.evidenceFormat m \<noteq> DVD_RECOVERY_EVIDENCE_FORMAT
    \<or> list_ex (\<lambda>r. classification r \<noteq> Skipped_untested) (unrecoveredSourceRanges m))"

definition initial_save_guards ::
  "(string \<Rightarrow> string) \<Rightarrow> archive_job \<Rightarrow> publication_input \<Rightarrow> initial_save \<Rightarrow> unit result" where
  "initial_save_guards sha256 claim input s =
     (let m = is_manifest s; b = boundary_base_of (pi_boundaryEvidence input) in
      and_then (invariant_if (initial_provenance_invalid claim s)
        ''Invalid initial DVD save provenance'') (\<lambda>_.
      and_then (assertDvdArchiveEvidenceManifestDigests sha256 m (is_digests s)) (\<lambda>_.
      and_then (assertDvdArchiveBoundaryEvidenceDigest sha256 (pi_boundaryEvidence input)
        (boundaryEvidenceDigest m)) (\<lambda>_.
        invariant_if (manifestBoundaryPolicyVersion m \<noteq> boundary_base.policyVersion b
            \<or> manifestBoundaryReportedSizeBytes m \<noteq> reportedSizeBytes b
            \<or> manifestBoundaryPublishedSizeBytes m \<noteq> pi_sizeBytes input)
          ''Initial DVD save boundary conflicts with checkpoint''))))"

text \<open>
  The integrity columns that evidence amounts to: the policy version and the counts by title.
  Evidence without the columns of its kind is a \<open>TypeError\<close> of the code.
\<close>

definition published_integrity ::
  "bool \<Rightarrow> archive_integrity_evidence \<Rightarrow> (string option \<times> dvd_title_bad_sector_count list option) result" where
  "published_integrity initial e =
     (case integrity e of
        Unknown_integrity \<Rightarrow>
          map_sum id (\<lambda>_. (None, None))
            (invariant_if (archive_integrity_evidence.policyVersion e \<noteq> None \<or> badSectorCount e \<noteq> None
                \<or> badAreaCount e \<noteq> None \<or> badSectorRanges e \<noteq> None)
              ''Unknown Archive Integrity evidence is invalid'')
      | Clean_read \<Rightarrow>
          (case archive_integrity_evidence.policyVersion e of
             None \<Rightarrow> Inl (TypeError ''policyVersion'')
           | Some v \<Rightarrow>
               and_then (requireNonEmpty v ''integrityEvidence.policyVersion'') (\<lambda>policy.
                 map_sum id (\<lambda>_. (Some policy, None))
                   (invariant_if (length policy > 128 \<or> badSectorCount e \<noteq> Some 0
                       \<or> badAreaCount e \<noteq> Some 0 \<or> badSectorRanges e \<noteq> Some [])
                     ''Clean-read Archive Integrity evidence is invalid'')))
      | Incomplete_read \<Rightarrow>
          map_sum id (\<lambda>_. (Some DVD_RECOVERY_EVIDENCE_FORMAT, None))
            (invariant_if (\<not> initial)
              ''Incomplete-read evidence requires an admitted dvd-recovery-evidence-v1 Archive Job'')
      | Watchable_salvage \<Rightarrow>
          (case (archive_integrity_evidence.policyVersion e, badSectorRanges e, badSectorCountsByTitle e) of
             (Some v, Some ranges, Some byTitle) \<Rightarrow>
               and_then (requireNonEmpty v ''integrityEvidence.policyVersion'') (\<lambda>policy.
               and_then (createWatchableSalvageArchiveIntegrityEvidence policy ranges byTitle) (\<lambda>validated.
                 map_sum id (\<lambda>_. (Some policy, badSectorCountsByTitle validated))
                   (invariant_if (badSectorCount validated \<noteq> badSectorCount e
                       \<or> badAreaCount validated \<noteq> badAreaCount e)
                     ''Watchable-salvage Archive Integrity evidence is invalid'')))
           | _ \<Rightarrow> Inl (TypeError ''badSectorRanges'')))"

section \<open>The claim\<close>

record current_claim =
  cc_request :: archive_request
  cc_disc :: archive_disc_row

definition claim_inspection_bytes :: "archive_store \<Rightarrow> archive_job \<Rightarrow> int option" where
  "claim_inspection_bytes c j =
     Option.bind (Option.bind (jb_discInspectionId j) (find_archive_inspection c)) (\<lambda>n.
       if in_detectedDiscId n = Some (jb_detectedDiscId j) \<and> in_status n = ''completed''
       then in_totalBytes n else None)"

definition requireCurrentClaim ::
  "archive_job \<Rightarrow> initial_save option \<Rightarrow> archive_boundary_evidence \<Rightarrow> int \<Rightarrow> archive_store
     \<Rightarrow> current_claim result" where
  "requireCurrentClaim claim initial boundary checkedAt c =
     (case find (\<lambda>j. holds_job claim j \<and> jb_detectedDiscId j = jb_detectedDiscId claim
          \<and> lease_running checkedAt j) (as_jobs c) of
        None \<Rightarrow> Inl (StaleJobAttemptError ''archive job'' (jb_id claim))
      | Some j \<Rightarrow>
          (case (find_request c (jb_archiveRequestId j), find_disc c (jb_detectedDiscId j)) of
             (Some r, Some d) \<Rightarrow>
               and_then (reject_if (aq_status r \<noteq> Rq_running)
                 (StaleJobAttemptError ''archive job'' (jb_id claim))) (\<lambda>_.
               and_then (invariant_if (case initial of None \<Rightarrow> False
                   | Some s \<Rightarrow> jb_evidenceFormat j \<noteq> Some DVD_RECOVERY_EVIDENCE_FORMAT
                       \<or> aq_evidenceFormat r \<noteq> Some DVD_RECOVERY_EVIDENCE_FORMAT
                       \<or> ad_fingerprint d \<noteq> imageFingerprint (is_manifest s) \<or> ad_discKind d \<noteq> ''dvd'')
                 ''Initial DVD save does not match the marked source job'') (\<lambda>_.
                 map_sum id (\<lambda>_. \<lparr>cc_request = r, cc_disc = d\<rparr>)
                   (invariant_if (claim_inspection_bytes c j
                       \<noteq> Some (reportedSizeBytes (boundary_base_of boundary)))
                     ''Archive Boundary Evidence does not match the source Disc Inspection'')))
           | _ \<Rightarrow> Inl (StaleJobAttemptError ''archive job'' (jb_id claim))))"

section \<open>The rows of a publication\<close>

definition published_archive ::
  "publication_input \<Rightarrow> bool \<Rightarrow> string option \<times> dvd_title_bad_sector_count list option
     \<Rightarrow> archive_boundary_evidence \<Rightarrow> archive_disc_row \<Rightarrow> string option \<Rightarrow> string \<Rightarrow> int \<Rightarrow> string
     \<Rightarrow> archive_identity_row" where
  "published_archive input initial integrity_columns boundary d source path timestamp i =
     (let e = pi_integrityEvidence input in
      \<lparr>arc_integrity = (if initial then Unknown_integrity else integrity e),
       arc_integrityEvidenceRevision = None,
       arc_integrityPolicyVersion = (if initial then None else fst integrity_columns),
       arc_badSectorCount = (if initial then None else badSectorCount e),
       arc_badAreaCount = (if initial then None else badAreaCount e),
       arc_badSectorRanges = (if initial then None else badSectorRanges e),
       arc_badSectorCountsByTitle = snd integrity_columns,
       ia_id = i, ia_detectedDiscId = ad_id d, ia_rearchiveSourceArchiveId = source,
       ia_discKind = ad_discKind d, ia_archivePath = path, ia_fingerprint = ad_fingerprint d,
       ia_boundary = boundaryColumns boundary, ia_sizeBytes = Some (pi_sizeBytes input),
       ia_archivedAt = timestamp\<rparr>)"

definition published_job ::
  "archive_store \<Rightarrow> archive_job \<Rightarrow> string \<Rightarrow> int \<Rightarrow> int \<Rightarrow> archive_job \<Rightarrow> archive_job" where
  "published_job c claim archiveId sizeBytes timestamp j =
     (archiveTerminalProgressPatchForClaim c (jb_id claim) (jb_claimToken claim) j)
       \<lparr>jb_originalDiscArchiveId := Some archiveId, jb_status := Aj_completed,
        jb_progressPhase := ''finalizing'', jb_progressPercent := 100, jb_progressBytes := sizeBytes,
        jb_lastProgressAt := timestamp, jb_completedAt := Some timestamp, jb_errorMessage := None,
        jb_updatedAt := timestamp\<rparr>"

text \<open>
  The requests that a publication fulfils: of a first archive those for any disc of its
  fingerprint, of a re-archive or an initial save only the request of the job.
\<close>

definition fulfilled_by ::
  "archive_store \<Rightarrow> bool \<Rightarrow> archive_disc_row \<Rightarrow> string \<Rightarrow> archive_request \<Rightarrow> bool" where
  "fulfilled_by c by_fingerprint d request_id r \<longleftrightarrow>
     aq_status r \<in> {Rq_pending, Rq_running, Rq_needs_attention}
   \<and> (if by_fingerprint then requests_fingerprint c (ad_fingerprint d) r else aq_id r = request_id)"

definition initial_manifest_row :: "initial_save \<Rightarrow> string \<Rightarrow> manifest_row" where
  "initial_manifest_row s archiveId =
     (let m = is_manifest s in
      \<lparr>row_id = is_id s, row_originalDiscArchiveId = archiveId, row_revision = revision m,
       row_previousManifestId = previousManifestId m, row_recoveryReadId = recoveryReadId m,
       row_evidenceFormat = manifest_digest_input.evidenceFormat m,
       row_imageFingerprint = imageFingerprint m, row_sectorSizeBytes = sectorSizeBytes m,
       row_acceptedEndLbaExclusive = acceptedEndLbaExclusive m,
       row_boundaryPolicyVersion = manifestBoundaryPolicyVersion m,
       row_boundaryReportedSizeBytes = manifestBoundaryReportedSizeBytes m,
       row_boundaryPublishedSizeBytes = manifestBoundaryPublishedSizeBytes m,
       row_boundaryEvidenceDigest = boundaryEvidenceDigest m,
       row_unrecoveredSourceRanges = unrecoveredSourceRanges m,
       row_unrecoveredSourceRangesDigest = unrecoveredSourceRangesDigest (is_digests s),
       row_manifestDigest = manifestDigest (is_digests s)\<rparr>)"

definition initial_header_row :: "initial_save \<Rightarrow> string \<Rightarrow> string \<Rightarrow> int \<Rightarrow> evidence_header_row" where
  "initial_header_row s archiveId jobId timestamp =
     (let m = is_manifest s in
      \<lparr>header_originalDiscArchiveId = archiveId,
       header_evidenceFormat = manifest_digest_input.evidenceFormat m,
       header_boundaryPolicyVersion = manifestBoundaryPolicyVersion m,
       header_boundaryReportedSizeBytes = manifestBoundaryReportedSizeBytes m,
       header_boundaryPublishedSizeBytes = manifestBoundaryPublishedSizeBytes m,
       header_boundaryEvidenceDigest = boundaryEvidenceDigest m,
       header_sectorSizeBytes = sectorSizeBytes m,
       header_acceptedEndLbaExclusive = acceptedEndLbaExclusive m,
       currentManifestId = is_id s, currentManifestRevision = 1,
       currentManifestDigest = manifestDigest (is_digests s), header_updatedAt = timestamp,
       hd_sourceArchiveJobId = jobId\<rparr>)"

definition initial_recovery_row :: "initial_save \<Rightarrow> string \<Rightarrow> string \<Rightarrow> string \<Rightarrow> int \<Rightarrow> recovery_row" where
  "initial_recovery_row s archiveId recoveryId attemptId timestamp =
     \<lparr>rec_id = recoveryId, rec_originalDiscArchiveId = archiveId, rec_attemptId = attemptId,
      rec_status = (if unrecoveredSourceRanges (is_manifest s) \<noteq> [] then Eligible else Completed),
      rec_pauseReason = None, rec_updatedAt = timestamp, rec_attemptOrdinal = 1, rec_passHistory = [],
      rec_resumeOperationId = None, rec_resumeRequestedAt = None, rec_resumeCheckpointRevision = None,
      rec_resumeCheckpointDigest = None, rec_speedMode = None, rec_speedRequestResult = None,
      rec_stopOperationId = None, rec_stopRequestedAt = None, rec_stoppedAt = None,
      rec_faultCode = None\<rparr>"

section \<open>The tables of the evidence\<close>

text \<open>The constraints of \<open>dvd_archive_evidence_manifests\<close> and of \<open>dvd_archive_evidence_headers\<close>.\<close>

definition between_length :: "nat \<Rightarrow> string \<Rightarrow> bool" where
  "between_length upper s \<longleftrightarrow> 1 \<le> sqlite_length s \<and> sqlite_length s \<le> upper"

definition extent_check :: "int \<Rightarrow> int \<Rightarrow> int \<Rightarrow> int \<Rightarrow> bool" where
  "extent_check sectorSize acceptedEnd reported published \<longleftrightarrow>
     sectorSize = 2048 \<and> 0 < acceptedEnd \<and> 0 < reported \<and> published = acceptedEnd * sectorSize
   \<and> published \<le> reported"

definition evidence_manifest_checks :: "manifest_row \<Rightarrow> bool" where
  "evidence_manifest_checks m \<longleftrightarrow>
     ((row_revision m = 1 \<and> row_previousManifestId m = None \<and> row_recoveryReadId m = None)
      \<or> (row_revision m > 1 \<and> row_previousManifestId m \<noteq> None \<and> row_recoveryReadId m \<noteq> None))
   \<and> extent_check (row_sectorSizeBytes m) (row_acceptedEndLbaExclusive m)
       (row_boundaryReportedSizeBytes m) (row_boundaryPublishedSizeBytes m)
   \<and> between_length 512 (row_imageFingerprint m) \<and> between_length 128 (row_boundaryPolicyVersion m)
   \<and> is_sha256_hex (row_boundaryEvidenceDigest m)
   \<and> is_sha256_hex (row_unrecoveredSourceRangesDigest m) \<and> is_sha256_hex (row_manifestDigest m)"

definition insert_evidence_manifest :: "manifest_row \<Rightarrow> publication_store \<Rightarrow> publication_store result" where
  "insert_evidence_manifest m p =
     (if \<not> evidence_manifest_checks m then Inl check_failed
      else if list_ex (\<lambda>q. row_id q = row_id m
          \<or> (row_originalDiscArchiveId q = row_originalDiscArchiveId m
             \<and> (row_revision q = row_revision m \<or> row_manifestDigest q = row_manifestDigest m))
          \<or> (row_recoveryReadId m \<noteq> None \<and> row_recoveryReadId q = row_recoveryReadId m)) (pb_manifests p)
      then Inl unique_failed
      else Inr (p\<lparr>pb_manifests := pb_manifests p @ [m]\<rparr>))"

definition evidence_header_checks :: "evidence_header_row \<Rightarrow> bool" where
  "evidence_header_checks h \<longleftrightarrow>
     header_evidenceFormat h = DVD_RECOVERY_EVIDENCE_FORMAT
   \<and> between_length 128 (header_boundaryPolicyVersion h)
   \<and> is_sha256_hex (header_boundaryEvidenceDigest h)
   \<and> extent_check (header_sectorSizeBytes h) (header_acceptedEndLbaExclusive h)
       (header_boundaryReportedSizeBytes h) (header_boundaryPublishedSizeBytes h)
   \<and> 0 < currentManifestRevision h \<and> is_sha256_hex (currentManifestDigest h)"

text \<open>
  The trigger \<open>dvd_evidence_header_insert_guard\<close>.  Of the scans it reads the version and the
  content identity only.
\<close>

definition scan_content_id :: "archive_disc_row \<Rightarrow> js_value" where
  "scan_content_id d =
     (if js_get (ad_scanData d) ''schemaVersion'' = js_int DVD_TITLE_MAP_SCHEMA_VERSION
      then js_get (ad_scanData d) ''contentId'' else JsUndefined)"

definition request_guard :: "archive_store \<Rightarrow> evidence_header_row \<Rightarrow> evidence_links \<Rightarrow> bool" where
  "request_guard c h l \<longleftrightarrow>
     (let r = el_request l; a = el_archive l; d = el_archiveDisc l; q = el_requestedDisc l in
      aq_detectedDiscId r = ia_detectedDiscId a
    \<or> (ad_discKind q = ''dvd'' \<and> ad_status q = requiredArchiveRequestDiscStatus r
       \<and> requestDeclaredByteCountMatches c (aq_id r) (header_boundaryReportedSizeBytes h)
       \<and> (if aq_rearchiveSourceArchiveId r = None
          then scan_content_id d = JsString (ad_fingerprint d) \<and> ad_fingerprint q = ad_fingerprint d
            \<and> scan_content_id q = JsString (ad_fingerprint d)
          else ia_rearchiveSourceArchiveId a = aq_rearchiveSourceArchiveId r)))"

definition header_insert_guard :: "publication_store \<Rightarrow> evidence_header_row \<Rightarrow> bool" where
  "header_insert_guard p h \<longleftrightarrow>
     (case header_links p h of
        None \<Rightarrow> False
      | Some l \<Rightarrow>
          let m = el_manifest l; a = el_archive l; d = el_archiveDisc l; j = el_job l in
          currentManifestRevision h = 1
        \<and> row_originalDiscArchiveId m = header_originalDiscArchiveId h \<and> row_revision m = 1
        \<and> row_manifestDigest m = currentManifestDigest h
        \<and> row_evidenceFormat m = header_evidenceFormat h
        \<and> row_imageFingerprint m = ia_fingerprint a
        \<and> row_sectorSizeBytes m = header_sectorSizeBytes h
        \<and> row_acceptedEndLbaExclusive m = header_acceptedEndLbaExclusive h
        \<and> row_boundaryPolicyVersion m = header_boundaryPolicyVersion h
        \<and> row_boundaryReportedSizeBytes m = header_boundaryReportedSizeBytes h
        \<and> row_boundaryPublishedSizeBytes m = header_boundaryPublishedSizeBytes h
        \<and> row_boundaryEvidenceDigest m = header_boundaryEvidenceDigest h
        \<and> ia_discKind a = ''dvd'' \<and> ad_discKind d = ia_discKind a
        \<and> ad_fingerprint d = ia_fingerprint a
        \<and> boundaryPolicyVersion (ia_boundary a) = Some (header_boundaryPolicyVersion h)
        \<and> boundaryReportedSizeBytes (ia_boundary a) = Some (header_boundaryReportedSizeBytes h)
        \<and> boundaryPublishedSizeBytes (ia_boundary a) = Some (header_boundaryPublishedSizeBytes h)
        \<and> ia_sizeBytes a = Some (header_boundaryPublishedSizeBytes h)
        \<and> jb_originalDiscArchiveId j = Some (header_originalDiscArchiveId h)
        \<and> jb_detectedDiscId j = ia_detectedDiscId a
        \<and> jb_evidenceFormat j = Some (header_evidenceFormat h) \<and> jb_status j = Aj_completed
        \<and> request_guard (pb_catalog p) h l
        \<and> aq_evidenceFormat (el_request l) = Some (header_evidenceFormat h)
        \<and> aq_status (el_request l) = Rq_fulfilled
        \<and> in_detectedDiscId (el_inspection l) = Some (ia_detectedDiscId a)
        \<and> in_status (el_inspection l) = ''completed''
        \<and> in_totalBytes (el_inspection l) = Some (header_boundaryReportedSizeBytes h)
        \<and> ((arc_integrity a = Unknown_integrity \<and> arc_integrityEvidenceRevision a = None)
           \<or> (row_unrecoveredSourceRanges m = [] \<and> arc_integrity a = Clean_read
              \<and> arc_integrityEvidenceRevision a = Some 1
              \<and> arc_integrityPolicyVersion a = Some (header_evidenceFormat h)
              \<and> arc_badSectorCount a = Some 0 \<and> arc_badAreaCount a = Some 0
              \<and> arc_badSectorRanges a = Some [] \<and> arc_badSectorCountsByTitle a = None)))"

definition insert_evidence_header :: "evidence_header_row \<Rightarrow> publication_store \<Rightarrow> publication_store result" where
  "insert_evidence_header h p =
     (if \<not> header_insert_guard p h
      then Inl (SqliteError (''DVD evidence header must reference its proven initial manifest, DVD '' @
        ''boundary, and completed marked Archive Job''))
      else if \<not> evidence_header_checks h then Inl check_failed
      else if list_ex (\<lambda>g. header_originalDiscArchiveId g = header_originalDiscArchiveId h
          \<or> hd_sourceArchiveJobId g = hd_sourceArchiveJobId h) (pb_headers p)
      then Inl unique_failed
      else Inr (p\<lparr>pb_headers := pb_headers p @ [h]\<rparr>))"

definition insert_recovery :: "recovery_row \<Rightarrow> publication_store \<Rightarrow> publication_store result" where
  "insert_recovery r p =
     (if \<not> recovery_checks r then Inl check_failed
      else if list_ex (\<lambda>q. rec_id q = rec_id r
          \<or> rec_originalDiscArchiveId q = rec_originalDiscArchiveId r) (pb_recoveries p)
      then Inl unique_failed
      else Inr (p\<lparr>pb_recoveries := pb_recoveries p @ [r]\<rparr>))"

definition insert_samples :: "string \<Rightarrow> sample_manifest \<Rightarrow> publication_store \<Rightarrow> publication_store result" where
  "insert_samples archiveId m p =
     (if archiveId \<in> set (map fst (pb_samples p)) then Inl unique_failed
      else Inr (p\<lparr>pb_samples := pb_samples p @ [(archiveId, m)]\<rparr>))"

section \<open>The publication\<close>

text \<open>A transaction of the archive tables within one of the whole catalog.\<close>

definition in_catalog ::
  "(archive_store \<Rightarrow> 'a archive_transaction) \<Rightarrow> publication_store \<Rightarrow> ('a \<times> publication_store) result" where
  "in_catalog f p = map_sum id (\<lambda>(x, c). (x, p\<lparr>pb_catalog := c\<rparr>)) (f (pb_catalog p))"

text \<open>The source of a re-archive, or none; the disc must not have been archived otherwise.\<close>

definition rearchive_source ::
  "(string \<Rightarrow> string) \<Rightarrow> archive_store \<Rightarrow> archive_request \<Rightarrow> archive_disc_row \<Rightarrow> string option result" where
  "rearchive_source sha256 c r d =
     (case aq_rearchiveSourceArchiveId r of
        Some i \<Rightarrow>
          and_then (requireRow (find_archive c i) ''original disc archive'' i) (\<lambda>source.
          and_then (originalArchiveMatchesFingerprintOrContentIdAlias sha256 c (ia_id source)
            (ad_fingerprint d)) (\<lambda>matches.
            map_sum id (\<lambda>_. Some (ia_id source))
              (invariant_if (\<not> matches) ''Re-archive source does not match the Archive Job disc identity'')))
      | None \<Rightarrow>
          and_then (findOriginalArchiveByFingerprintOrContentIdAlias sha256 c (ad_fingerprint d)) (\<lambda>archived.
            map_sum id (\<lambda>_. None)
              (invariant_if (archived \<noteq> None) ''DVD content already has Original Disc Archive provenance'')))"

definition store_samples ::
  "(string \<Rightarrow> string) \<Rightarrow> initial_save \<Rightarrow> string \<Rightarrow> publication_store \<Rightarrow> publication_store result" where
  "store_samples sha256 s archiveId p =
     (case is_sourceSampleManifest s of
        None \<Rightarrow> Inr p
      | Some offered \<Rightarrow>
          and_then (validateDvdSourceSampleManifest sha256 offered) (\<lambda>m.
          and_then (invariant_if
            (sm_sourceMetadataFingerprint m \<noteq> imageFingerprint (is_manifest s)
             \<or> sm_acceptedEndLbaExclusive m \<noteq> acceptedEndLbaExclusive (is_manifest s)
             \<or> sm_checkpointRevision m \<noteq> 1 \<or> sm_checkpointDigest m \<noteq> manifestDigest (is_digests s))
            ''DVD source sample manifest does not match the initial checkpoint'') (\<lambda>_.
            insert_samples archiveId m p)))"

text \<open>What the evidence of an initial save adds when the job has been completed.\<close>

definition store_initial_evidence ::
  "(string \<Rightarrow> string) \<Rightarrow> initial_save \<Rightarrow> publication_input
     \<Rightarrow> string option \<times> dvd_title_bad_sector_count list option \<Rightarrow> string \<Rightarrow> string \<Rightarrow> int \<Rightarrow> string \<Rightarrow> string
     \<Rightarrow> publication_store \<Rightarrow> publication_store result" where
  "store_initial_evidence sha256 s input integrity_columns archiveId jobId timestamp recoveryId attemptId p =
     (let e = pi_integrityEvidence input in
      and_then (insert_evidence_header (initial_header_row s archiveId jobId timestamp) p) (\<lambda>p1.
      and_then (store_samples sha256 s archiveId p1) (\<lambda>p2.
      and_then (in_catalog (update_archives (\<lambda>a. ia_id a = archiveId)
        (\<lambda>a. a\<lparr>arc_integrity := integrity e, arc_integrityEvidenceRevision := Some 1,
           arc_integrityPolicyVersion := fst integrity_columns, arc_badSectorCount := badSectorCount e,
           arc_badAreaCount := badAreaCount e, arc_badSectorRanges := badSectorRanges e\<rparr>)) p2) (\<lambda>(_, p3).
        insert_recovery (initial_recovery_row s archiveId recoveryId attemptId timestamp) p3))))"

record publication_ids =
  id_archive :: string
  id_recovery :: string
  id_attempt :: string

definition publish_rows ::
  "(string \<Rightarrow> string) \<Rightarrow> archive_job \<Rightarrow> publication_input \<Rightarrow> initial_save option \<Rightarrow> string
     \<Rightarrow> archive_boundary_evidence \<Rightarrow> string option \<times> dvd_title_bad_sector_count list option
     \<Rightarrow> int \<Rightarrow> int \<Rightarrow> publication_ids \<Rightarrow> publication_store \<Rightarrow> (archive_job \<times> publication_store) result" where
  "publish_rows sha256 claim input initial path boundary integrity_columns checkedAt timestamp ids p =
     (let c = pb_catalog p;
          archiveId = (case initial of None \<Rightarrow> id_archive ids
            | Some s \<Rightarrow> originalDiscArchiveId (is_manifest s)) in
      and_then (requireCurrentClaim claim initial boundary checkedAt c) (\<lambda>current.
      let d = cc_disc current; request = cc_request current in
      and_then (rearchive_source sha256 c request d) (\<lambda>source.
      and_then (requireLegacyDvdArchiveIdentitiesResolved c (ad_discKind d) (ad_fingerprint d)) (\<lambda>_.
      and_then (in_catalog (insert_archive (published_archive input (initial \<noteq> None) integrity_columns
        boundary d source path timestamp archiveId)) p) (\<lambda>(archive, p1).
      and_then (in_catalog (\<lambda>c1. Inr (update_discs (\<lambda>e. ad_fingerprint e = ad_fingerprint d)
        (archived_disc timestamp) c1)) p1) (\<lambda>(_, p2).
      and_then (case initial of None \<Rightarrow> Inr p2
        | Some s \<Rightarrow> insert_evidence_manifest (initial_manifest_row s (ia_id archive)) p2) (\<lambda>p3.
      and_then (in_catalog (update_jobs (holds_job claim)
        (published_job (pb_catalog p3) claim (ia_id archive) (pi_sizeBytes input) timestamp)) p3) (\<lambda>(rows, p4).
      and_then (requireRow (first_row rows) ''archive job'' (jb_id claim)) (\<lambda>job.
      and_then (in_catalog (update_requests
        (fulfilled_by (pb_catalog p4) (initial = None \<and> source = None) d (aq_id request))
        (fulfilled_request timestamp)) p4) (\<lambda>(_, p5).
      and_then (case initial of None \<Rightarrow> Inr p5
        | Some s \<Rightarrow> store_initial_evidence sha256 s input integrity_columns (ia_id archive) (jb_id job)
            timestamp (id_recovery ids) (id_attempt ids) p5) (\<lambda>p6.
        Inr (job, p6\<lparr>pb_catalog := (pb_catalog p6)\<lparr>as_outcomes := as_outcomes (pb_catalog p6)
          @ [(''archive_saved'', ''archive-job:'' @ jb_id job @ '':completed'')]\<rparr>\<rparr>))))))))))))"

text \<open>An initial save that was made before is confirmed; a completed job must be consistent with it.\<close>

definition confirm_initial_save ::
  "(string \<Rightarrow> string) \<Rightarrow> archive_job \<Rightarrow> publication_input \<Rightarrow> initial_save \<Rightarrow> archive_job
     \<Rightarrow> publication_store \<Rightarrow> archive_job result" where
  "confirm_initial_save sha256 claim input s existing p =
     (let c = pb_catalog p; archiveId = originalDiscArchiveId (is_manifest s) in
      and_then (findDvdArchiveEvidenceHeader sha256 p archiveId) (\<lambda>header.
      let archive = find_archive c archiveId in
      map_sum id (\<lambda>_. existing) (invariant_if
        (jb_originalDiscArchiveId existing \<noteq> Some archiveId
         \<or> map_option fh_sourceArchiveJobId header \<noteq> Some (jb_id claim)
         \<or> map_option hdr_currentManifestId header \<noteq> Some (is_id s)
         \<or> map_option hdr_currentManifestRevision header \<noteq> Some 1
         \<or> map_option hdr_currentManifestDigest header \<noteq> Some (manifestDigest (is_digests s))
         \<or> map_option ia_archivePath archive \<noteq> Some (pi_archivePath input)
         \<or> map_option aq_status (find_request c (jb_archiveRequestId existing)) \<noteq> Some Rq_fulfilled
         \<or> \<not> list_ex (\<lambda>r. rec_originalDiscArchiveId r = archiveId) (pb_recoveries p))
        ''DVD_INITIAL_SAVE_CONSISTENCY_FAULT'')))"

text \<open>
  The publication that is not yet made.  The instants of the tests of the claim are \<open>checks 0\<close>
  before anything is changed, \<open>checks (Suc n)\<close> in the \<open>n\<close>-th reconciliation, and \<open>checkedAt\<close> in the
  transaction.
\<close>

definition publish_archive ::
  "(string \<Rightarrow> string) \<Rightarrow> archive_files \<Rightarrow> archive_job \<Rightarrow> publication_input \<Rightarrow> initial_save option
     \<Rightarrow> (nat \<Rightarrow> int) \<Rightarrow> int \<Rightarrow> int \<Rightarrow> publication_ids \<Rightarrow> publication_store
     \<Rightarrow> archive_job result \<times> publication_store" where
  "publish_archive sha256 files claim input initial checks checkedAt timestamp ids p =
     (case and_then (requireNonEmpty (pi_archivePath input) ''archivePath'') (\<lambda>path.
        and_then (requirePositiveSafeInteger (pi_sizeBytes input) ''sizeBytes'') (\<lambda>size_bytes.
        and_then (validateDvdArchiveBoundaryEvidence (Some (boundary_value_of (pi_boundaryEvidence input)))
          size_bytes) (\<lambda>boundary.
        and_then (published_integrity (initial \<noteq> None) (pi_integrityEvidence input)) (\<lambda>integrity_columns.
        and_then (requireCurrentClaim claim initial boundary (checks 0) (pb_catalog p)) (\<lambda>current.
          Inr (path, boundary, integrity_columns, cc_disc current)))))) of
        Inl e \<Rightarrow> (Inl e, p)
      | Inr (path, boundary, integrity_columns, d) \<Rightarrow>
          (case (if ad_discKind d = ''dvd''
              then reconcileLegacyDvdArchiveContentId sha256 files
                (\<lambda>n c. map_sum id (\<lambda>_. ()) (requireCurrentClaim claim initial boundary (checks (Suc n)) c))
                (ad_fingerprint d) (Some (pi_sizeBytes input)) (pb_catalog p)
              else (Inr (), pb_catalog p)) of
             (Inl e, c1) \<Rightarrow> (Inl e, p\<lparr>pb_catalog := c1\<rparr>)
           | (Inr _, c1) \<Rightarrow>
               (case publish_rows sha256 claim input initial path boundary integrity_columns checkedAt
                   timestamp ids (p\<lparr>pb_catalog := c1\<rparr>) of
                  Inl e \<Rightarrow> (Inl e, p\<lparr>pb_catalog := c1\<rparr>)
                | Inr (job, p2) \<Rightarrow>
                    (Inr job, p2\<lparr>pb_catalog := forget_archive_progress (jb_id claim) (pb_catalog p2)\<rparr>))))"

definition publishArchive ::
  "(string \<Rightarrow> string) \<Rightarrow> archive_files \<Rightarrow> archive_job \<Rightarrow> publication_input \<Rightarrow> initial_save option
     \<Rightarrow> (nat \<Rightarrow> int) \<Rightarrow> int \<Rightarrow> int \<Rightarrow> publication_ids \<Rightarrow> publication_store
     \<Rightarrow> archive_job result \<times> publication_store" where
  "publishArchive sha256 files claim input initial checks checkedAt timestamp ids p =
     (case initial of
        None \<Rightarrow>
          (case requireLegacyArchiveJobMutation claim of
             Inl e \<Rightarrow> (Inl e, p)
           | Inr _ \<Rightarrow> publish_archive sha256 files claim input None checks checkedAt timestamp ids p)
      | Some s \<Rightarrow>
          (case initial_save_guards sha256 claim input s of
             Inl e \<Rightarrow> (Inl e, p)
           | Inr _ \<Rightarrow>
               (case find_archive_job (pb_catalog p) (jb_id claim) of
                  Some existing \<Rightarrow>
                    if jb_status existing = Aj_completed
                    then (confirm_initial_save sha256 claim input s existing p, p)
                    else publish_archive sha256 files claim input initial checks checkedAt timestamp ids p
                | None \<Rightarrow> publish_archive sha256 files claim input initial checks checkedAt timestamp ids p)))"

text \<open>\<open>publishDvdInitial\<close>: the integrity evidence follows from the manifest.\<close>

definition initial_input :: "string \<Rightarrow> archive_boundary_evidence \<Rightarrow> initial_save \<Rightarrow> publication_input" where
  "initial_input path boundary s =
     (let ranges = plainRanges (unrecoveredSourceRanges (is_manifest s)) in
      \<lparr>pi_archivePath = path, pi_boundaryEvidence = boundary,
       pi_sizeBytes = manifestBoundaryPublishedSizeBytes (is_manifest s),
       pi_integrityEvidence =
         (if ranges = []
          then \<lparr>integrity = Clean_read, policyVersion = Some DVD_RECOVERY_EVIDENCE_FORMAT,
            badSectorCount = Some 0, badAreaCount = Some 0, badSectorRanges = Some [],
            badSectorCountsByTitle = None\<rparr>
          else \<lparr>integrity = Incomplete_read, policyVersion = Some DVD_RECOVERY_EVIDENCE_FORMAT,
            badSectorCount = Some (sectorCount_of ranges), badAreaCount = Some (length ranges),
            badSectorRanges = Some ranges, badSectorCountsByTitle = None\<rparr>)\<rparr>)"

definition publishDvdInitial ::
  "(string \<Rightarrow> string) \<Rightarrow> archive_files \<Rightarrow> archive_job \<Rightarrow> string \<Rightarrow> archive_boundary_evidence \<Rightarrow> initial_save
     \<Rightarrow> (nat \<Rightarrow> int) \<Rightarrow> int \<Rightarrow> int \<Rightarrow> publication_ids \<Rightarrow> publication_store
     \<Rightarrow> archive_job result \<times> publication_store" where
  "publishDvdInitial sha256 files claim path boundary s checks checkedAt timestamp ids p =
     publishArchive sha256 files claim (initial_input path boundary s) (Some s) checks checkedAt timestamp
       ids p"

end
