(* ===== verification/Spec2Isabelle.thy ===== *)
theory Spec2Isabelle
  imports Prelude SourceRanges EvidenceTransition ArchiveIntegrity ArchiveBoundary Json EvidenceDigests
    DiscConfirmation EvidenceChain RecoveryProjection TitleTiming TitleDamage FailureReports
    EncodingProfiles EncodeJobs EncodePublication EncodeLifecycle JobQueue EncodeQueue EncodeRecords
    EncodeCreation EncodeSystem EncodeRecovery SourceSamples RecoveryStore RecoveryWork
    Reconciliation DiscVerification RecoveryPass RecoverySystem DvdScan ArchiveStore ArchiveJobs
    DetectedDiscs ArchivePublication
begin

text \<open>
  Verification development of rip-dvd, a pipeline that archives DVDs, recovers what could not be
  read, has an operator review the content and encodes the selected titles.  Its state is one
  SQLite catalog, which all processes change through \<open>packages/data-access\<close>; the workers do the
  input and output.  The model covers the logic of that catalog: what is recorded, when a
  transaction is refused, and what holds of the catalog after any sequence of them.

  \<^bold>\<open>Parts and theories.\<close>  Paths are relative to \<open>src/packages/data-access/src\<close>.

  \<^item> Shared: \<open>Prelude\<close> (errors, results, safe integers, the list loops), \<open>SourceRanges\<close> (ranges of
    source sectors, read as the sets they cover), \<open>Json\<close> (\<open>JSON.stringify\<close> of digest payloads and
    the proof that a text determines its value).

  \<^item> DVD recovery evidence.  \<open>EvidenceTransition\<close> (\<open>dvd-evidence-transition.ts\<close>: the effect of one
    recovery read on the map of Unrecovered Source), \<open>ArchiveIntegrity\<close> (\<open>archive-integrity.ts\<close>),
    \<open>ArchiveBoundary\<close> (\<open>archive-boundary.ts\<close>), \<open>EvidenceDigests\<close>
    (\<open>dvd-archive-evidence-digests.ts\<close>), \<open>EvidenceChain\<close> and \<open>RecoveryProjection\<close>
    (\<open>internal/create-data-access.ts\<close>: \<open>auditDvdArchiveEvidenceChains\<close> and
    \<open>projectDvdRecoveryCheckpoint\<close>), \<open>DiscConfirmation\<close> (\<open>dvd-disc-confirmation.ts\<close>).  A header
    holds the current map and the digest of the current manifest, each manifest the digest of the
    one before: the projection appends one manifest, the audit replays the chain.

  \<^item> Damage.  \<open>TitleTiming\<close> and \<open>TitleDamage\<close> (\<open>dvd-title-damage-assessment.ts\<close>): from the map of
    Unrecovered Source and the titles of a disc, what each title misses and what playback that
    affects.

  \<^item> Encoding.  \<open>FailureReports\<close> (\<open>encode-job-failure-report.ts\<close> and its table),
    \<open>EncodingProfiles\<close> (\<open>encoding-profile-eligibility.ts\<close> and the presets of
    \<open>packages/config\<close>), \<open>EncodeJobs\<close> (the tables and the claim, attempt, requeue, cancellation and
    lease transactions of \<open>internal/create-data-access.ts\<close>), \<open>EncodePublication\<close> (partial cleanup
    and publication), \<open>EncodeRecords\<close> (reports, validations and failed outputs), \<open>EncodeCreation\<close>
    (enqueue, corrected replacements, the operator's requeue), \<open>JobQueue\<close>
    (\<open>internal/job-queue.ts\<close>: the controller over an adapter) and \<open>EncodeQueue\<close> (the adapter
    \<open>encodeJobAdapter\<close> and the operations that wrap the controller's).  Over them
    \<open>EncodeLifecycle\<close> (what a single transaction may do to a job), \<open>EncodeSystem\<close> (any number of
    workers and operators) and \<open>EncodeRecovery\<close> (workers that disappear).

  \<^item> Archive Recovery.  \<open>SourceSamples\<close> (\<open>dvd-disc-verification.ts\<close>,
    \<open>archive-read-failure.ts\<close>: the samples that identify a disc), \<open>RecoveryStore\<close> (the tables with
    their constraints and the functions their transactions share), \<open>RecoveryWork\<close>
    (\<open>archiveRecoveryWork\<close> of \<open>internal/create-data-access.ts\<close>: request, claim, takeover, stop,
    resume, settlement), \<open>Reconciliation\<close> (\<open>dvdRecoveryReconciliations\<close>), \<open>DiscVerification\<close>
    (\<open>dvdDiscVerifications\<close>, \<open>dvdDiscConfirmations\<close>) and \<open>RecoveryPass\<close>
    (\<open>apps/archive-worker/src/dvd-recovery-worker.ts\<close>: the order of a pass).  Over them
    \<open>RecoveryEvolution\<close> (what one transaction keeps) and \<open>RecoverySystem\<close> (any sequence of them);
    \<open>RecoveryExamples\<close> holds the store of the witnesses.  The store has its own copies of the rows
    that the recovery transactions change; the encode catalog is a field that they only read.

  \<^bold>\<open>State and operations.\<close>  A table is a list of rows in the order of insertion, a row a record
  of the columns the modelled code reads or writes; CHECK constraints and unique indexes are
  predicates a write is refused by.  A transaction is a function from the catalog to an error, in
  which case it is rolled back, or to a result with the new catalog; an operation that commits
  several transactions returns the catalog it leaves beside its result, also when it throws.
  Transactions are begun \<open>immediate\<close>, so they do not interleave; what lies between two of them
  may.  A \<open>Date\<close> is the integer of its \<open>getTime()\<close>; the clock, identifiers drawn by \<open>newId\<close>, what
  the file system answers, the hash function and the results of callbacks are arguments.  A
  JavaScript number tested with \<open>Number.isSafeInteger\<close> is an integer with that test; a double is
  a rational or \<open>NonFinite\<close>.

  \<^bold>\<open>Interfaces.\<close>  Three locales state what a component relies on: \<open>recovery_map\<close>
  (\<open>EvidenceTransition\<close>: reads of sectors as updates of a map), \<open>prefix_code\<close> (\<open>Json\<close>: a code that
  can be read off the front of a text) and \<open>attempt_store\<close> (\<open>JobQueue\<close>: what the controller relies
  on in an adapter); each is interpreted on the definitions of the model.

  \<^bold>\<open>What is shown.\<close>  Of the evidence: every projection keeps every chain audited, an audited
  chain explains the current map sector by sector, chains with one digest have one history up to
  a collision of the hash, and a projection is idempotent and refuses what is stale.  Of the
  damage: titles and the unknown impact account for exactly the unrecovered sectors, and the
  proof that no title misses source is given exactly when that is so.  Of encoding: any
  interleaving of the transactions refines a machine of claims in which tokens are never issued
  twice; a superseded claim stays refused; a claim takes the first claimable job, whose source no
  recovery works on; progress that was accepted is nearly persisted; repeating the recovery of
  expired claims leaves none; failure reports are validated exactly, fit their table, read back
  and stay numbered.  Of recovery: passes end, and an interrupted pass reads what an uninterrupted
  one would; a disc counts as matching only when all samples agreed and nothing changed meanwhile;
  over any transactions a superseded claim stays refused, and recovery never takes an archive that
  active encode work uses.

  \<^bold>\<open>Bounds.\<close>  Every recursion is structural or has a measure but three.  \<open>recover_repeatedly\<close>
  counts calls: a call recovers the oldest hundred expired claims (\<open>JOB_RECOVERY_LIMIT\<close>), so \<open>n\<close>
  calls are enough for \<open>100 * n\<close>.  \<open>interrupted_pass\<close> has fuel for each read and is given more than
  there are unrecovered sectors; \<open>recovery_passes\<close> has fuel for each pass, and it is proved that one
  more than there are unrecovered sectors is enough.  Lemmas about new identifiers and tokens assume that a drawn identifier was not
  drawn before (\<open>fresh_ids\<close>, \<open>token \<notin> T\<close>), as random UUIDs promise.

  \<^bold>\<open>Not modelled.\<close>  The workers themselves (SCSI commands, child processes, checkpoint and
  image files) but for the order of a recovery pass; the pages of confirmation provenance; the
  text of notifications, of which only the recorded event is kept; the
  validation of Disc Selections against a scan, whose result is an argument of the enqueue; the
  web application and the operator's command line; migrations.  The identity of a damage
  assessment hashes percentages printed as doubles, whose text is not modelled; nor is the
  limit on the manifests of one audit.
\<close>

end
